(* ===== verification/Rtp_Prelude.thy ===== *)
theory Rtp_Prelude
  imports Main "HOL-Library.Word"
begin

text \<open>
  Shared by every component of the rtpsip model: the machine-integer abbreviations, the
  error type of \<^verbatim>\<open>src/error.rs\<close>, the three-way outcome of a Rust call (a value, an
  \<^verbatim>\<open>Err\<close>, a panic), big-endian byte conversion (\<^verbatim>\<open>to_be_bytes\<close>,
  \<^verbatim>\<open>from_be_bytes\<close>), and the generic lemmas the component theories use.
\<close>

unbundle bit_operations_syntax

named_theorems wire_simps \<open>evaluation of byte encoders and decoders\<close>

section \<open>Machine integers\<close>

type_synonym byte = "8 word"
type_synonym u16 = "16 word"
type_synonym u32 = "32 word"
type_synonym u64 = "64 word"
type_synonym u128 = "128 word"
type_synonym bytes = "byte list"

section \<open>Errors and outcomes\<close>

text \<open>The error enum of the crate, one constructor per variant. \<^verbatim>\<open>Io\<close> wraps an error of
  the operating system, of which only its text is kept.\<close>

datatype rtpsip_error =
    Io string
  | Rtp string
  | Sip string
  | Sdp string
  | Codec string
  | Session string
  | Provider string
  | Config string
  | Auth string
  | Parse string
  | Timeout string
  | ChannelClosed
  | NotConnected
  | AlreadyStarted
  | NotStarted
  | InvalidState string

text \<open>What a call does: it returns a value, returns an \<^verbatim>\<open>Err\<close>, or panics (a failed
  \<^verbatim>\<open>assert!\<close>, an explicit \<^verbatim>\<open>panic!\<close>, an index out of range).\<close>

datatype ('e, 'a) outcome = Ok 'a | Err 'e | Panic

type_synonym 'a res = "(rtpsip_error, 'a) outcome"

fun res_bind :: "('e, 'a) outcome \<Rightarrow> ('a \<Rightarrow> ('e, 'b) outcome) \<Rightarrow> ('e, 'b) outcome" where
  "res_bind (Ok x) f = f x"
| "res_bind (Err e) f = Err e"
| "res_bind Panic f = Panic"

lemma res_bind_Ok_iff [simp]:
  "res_bind r f = Ok y \<longleftrightarrow> (\<exists>x. r = Ok x \<and> f x = Ok y)"
  by (cases r) auto

fun is_ok :: "('e, 'a) outcome \<Rightarrow> bool" where
  "is_ok (Ok _) = True"
| "is_ok _ = False"

lemma is_ok_iff: "is_ok r \<longleftrightarrow> (\<exists>x. r = Ok x)"
  by (cases r) auto

section \<open>Big-endian bytes\<close>

primrec be_bytes :: "nat \<Rightarrow> nat \<Rightarrow> bytes" where
  "be_bytes 0 x = []"
| "be_bytes (Suc n) x = be_bytes n (x div 256) @ [of_nat x]"

definition be_nat :: "bytes \<Rightarrow> nat" where
  "be_nat bs = foldl (\<lambda>a b. a * 256 + unat b) 0 bs"

definition be16 :: "u16 \<Rightarrow> bytes" where "be16 w = be_bytes 2 (unat w)"
definition be32 :: "u32 \<Rightarrow> bytes" where "be32 w = be_bytes 4 (unat w)"
definition be64 :: "u64 \<Rightarrow> bytes" where "be64 w = be_bytes 8 (unat w)"

definition rd16 :: "bytes \<Rightarrow> nat \<Rightarrow> u16" where
  "rd16 d i = of_nat (be_nat [d ! i, d ! (i + 1)])"
definition rd32 :: "bytes \<Rightarrow> nat \<Rightarrow> u32" where
  "rd32 d i = of_nat (be_nat [d ! i, d ! (i + 1), d ! (i + 2), d ! (i + 3)])"

lemma length_be_bytes [simp]: "length (be_bytes n x) = n"
  by (induction n arbitrary: x) auto

lemma length_be16 [simp]: "length (be16 w) = 2"
  by (simp add: be16_def)

lemma length_be32 [simp]: "length (be32 w) = 4"
  by (simp add: be32_def)

lemma length_be64 [simp]: "length (be64 w) = 8"
  by (simp add: be64_def)

lemma unat16_less: "unat (w :: u16) < 65536"
  using unsigned_less [of w, where ?'a = nat] by simp

lemma unat32_less: "unat (w :: u32) < 4294967296"
  using unsigned_less [of w, where ?'a = nat] by simp

lemma unat64_less: "unat (w :: u64) < 18446744073709551616"
  using unsigned_less [of w, where ?'a = nat] by simp

lemma be_nat_Nil [simp]: "be_nat [] = 0"
  by (simp add: be_nat_def)

lemma be_nat_snoc [simp]: "be_nat (bs @ [b]) = be_nat bs * 256 + unat b"
  by (simp add: be_nat_def)

lemma unat_byte_less: "unat (b :: byte) < 256"
  using unsigned_less [of b, where ?'a = nat] by simp

lemma be_nat_be_bytes: "be_nat (be_bytes n x) = x mod 256 ^ n"
proof (induction n arbitrary: x)
  case 0
  show ?case by simp
next
  case (Suc n)
  have "unat (of_nat x :: byte) = x mod 256"
    by (simp add: unat_of_nat)
  then have "be_nat (be_bytes (Suc n) x) = (x div 256 mod 256 ^ n) * 256 + x mod 256"
    using Suc by simp
  also have "\<dots> = x mod (256 * 256 ^ n)"
    by (simp add: mod_mult2_eq mult.commute)
  finally show ?case by simp
qed

lemma be_nat_less: "be_nat bs < 256 ^ length bs"
proof (induction bs rule: rev_induct)
  case Nil
  show ?case by simp
next
  case (snoc b bs)
  have "be_nat bs + 1 \<le> 256 ^ length bs"
    using snoc by simp
  then have "(be_nat bs + 1) * 256 \<le> 256 ^ length bs * 256"
    by (rule mult_le_mono1)
  with unat_byte_less [of b] show ?case by simp
qed

lemma be_bytes_be_nat: "be_bytes (length bs) (be_nat bs) = bs"
proof (induction bs rule: rev_induct)
  case Nil
  show ?case by simp
next
  case (snoc b bs)
  have "(be_nat bs * 256 + unat b) div 256 = be_nat bs"
    using unat_byte_less [of b] by simp
  moreover have "(of_nat (be_nat bs * 256 + unat b) :: byte) = b"
    using unat_byte_less [of b]
    by (simp only: word_unat_eq_iff unat_of_nat) simp
  ultimately show ?case using snoc by simp
qed

lemma be_bytes_mod: "be_bytes n (x mod 256 ^ n) = be_bytes n x"
  by (metis be_bytes_be_nat be_nat_be_bytes length_be_bytes)

lemma be_bytes_inj:
  assumes "be_bytes n x = be_bytes n y" and "x < 256 ^ n" and "y < 256 ^ n"
  shows "x = y"
  using assms by (metis be_nat_be_bytes mod_less)

lemma be16_inj [simp]: "be16 x = be16 y \<longleftrightarrow> x = y"
proof
  assume "be16 x = be16 y"
  then have "unat x = unat y"
    using be_bytes_inj [of 2 "unat x" "unat y"] unat16_less [of x] unat16_less [of y]
    by (simp add: be16_def)
  then show "x = y" by (simp add: word_unat_eq_iff)
qed simp

lemma be32_inj [simp]: "be32 x = be32 y \<longleftrightarrow> x = y"
proof
  assume "be32 x = be32 y"
  then have "unat x = unat y"
    using be_bytes_inj [of 4 "unat x" "unat y"] unat32_less [of x] unat32_less [of y]
    by (simp add: be32_def)
  then show "x = y" by (simp add: word_unat_eq_iff)
qed simp

lemma be_bytes_2: "be_bytes 2 x = [of_nat (x div 256), of_nat x]"
proof -
  have "(2 :: nat) = Suc (Suc 0)" by simp
  then show ?thesis by (simp only: be_bytes.simps append.simps)
qed

lemma be_bytes_4:
  "be_bytes 4 x = [of_nat (x div 16777216), of_nat (x div 65536), of_nat (x div 256), of_nat x]"
proof -
  have "(4 :: nat) = Suc (Suc (Suc (Suc 0)))" by simp
  moreover have "x div 256 div 256 = x div 65536" "x div 65536 div 256 = x div 16777216"
    by (simp_all flip: div_mult2_eq)
  ultimately show ?thesis by (simp only: be_bytes.simps append.simps)
qed

lemmas be16_list [wire_simps] = be16_def [unfolded be_bytes_2]
lemmas be32_list [wire_simps] = be32_def [unfolded be_bytes_4]

lemma be_nat_be16: "be_nat (be16 w) = unat w"
  using unat16_less [of w] by (simp add: be16_def be_nat_be_bytes)

lemma be_nat_be32: "be_nat (be32 w) = unat w"
  using unat32_less [of w] by (simp add: be32_def be_nat_be_bytes)

text \<open>Reading a field that was written at position \<open>length pre\<close>.\<close>

lemma rd16_append [wire_simps]: "rd16 (pre @ be16 w @ post) (length pre) = w"
  using be_nat_be16 [of w] by (simp add: rd16_def be16_list nth_append)

lemma rd32_append [wire_simps]: "rd32 (pre @ be32 w @ post) (length pre) = w"
  using be_nat_be32 [of w] by (simp add: rd32_def be32_list nth_append)

lemma rd16_at: "length pre = n \<Longrightarrow> rd16 (pre @ be16 w @ post) n = w"
  using rd16_append [of pre w post] by simp

lemma rd32_at: "length pre = n \<Longrightarrow> rd32 (pre @ be32 w @ post) n = w"
  using rd32_append [of pre w post] by simp

section \<open>Widening\<close>

lemma unat_ucast_16_32: "unat (ucast (v :: u16) :: u32) = unat v"
  using unat16_less [of v] by (simp add: unsigned_ucast_eq take_bit_eq_mod)

lemma unat_ucast_8_32: "unat (ucast (v :: byte) :: u32) = unat v"
  using unat_byte_less [of v] by (simp add: unsigned_ucast_eq take_bit_eq_mod)

lemma unat_ucast_32_64: "unat (ucast (v :: u32) :: u64) = unat v"
  using unat32_less [of v] by (simp add: unsigned_ucast_eq take_bit_eq_mod)

section \<open>Saturating arithmetic\<close>

definition sat_sub :: "'a :: len word \<Rightarrow> 'a word \<Rightarrow> 'a word" where
  "sat_sub a b = (if b \<le> a then a - b else 0)"

definition sat_add :: "'a :: len word \<Rightarrow> 'a word \<Rightarrow> 'a word" where
  "sat_add a b = (if a + b < a then - 1 else a + b)"

lemma sat_sub_le: "sat_sub a b \<le> a"
  by (auto simp: sat_sub_def word_sub_le)

section \<open>Lists\<close>

lemma take_of_take_append: "n \<le> length p \<Longrightarrow> take n (take n p @ xs) = take n p"
  by (metis append_eq_conv_conj length_take min.absorb2)

lemma drop_of_take_append: "n \<le> length p \<Longrightarrow> drop n (take n p @ xs) = xs"
  by (metis append_eq_conv_conj length_take min.absorb2)

end
