(* ===== verification/Rtp_Strings.thy ===== *)
theory Rtp_Strings
  imports Rtp_Prelude
begin

text \<open>
  The string operations of Rust's standard library that the crate uses
  (\<^verbatim>\<open>split\<close>, \<^verbatim>\<open>split_whitespace\<close>, \<^verbatim>\<open>split_once\<close>, \<^verbatim>\<open>starts_with\<close>,
  \<^verbatim>\<open>trim\<close>, \<^verbatim>\<open>to_uppercase\<close>, \<^verbatim>\<open>str::parse\<close> on unsigned integers and the decimal
  \<^verbatim>\<open>Display\<close>) on strings as lists of bytes. Letters are mapped and white space is
  recognised in the ASCII range, which is what the wire formats of the crate use.
\<close>

named_theorems string_simps \<open>splitting and parsing of printed text\<close>

section \<open>Splitting\<close>

definition is_ws :: "char \<Rightarrow> bool" where
  "is_ws c = (let n = (of_char c :: nat) in (9 \<le> n \<and> n \<le> 13) \<or> n = 32)"

fun split_by :: "(char \<Rightarrow> bool) \<Rightarrow> string \<Rightarrow> string list" where
  "split_by P [] = [[]]"
| "split_by P (c # cs) =
     (if P c then [] # split_by P cs
      else (case split_by P cs of [] \<Rightarrow> [[c]] | t # ts \<Rightarrow> (c # t) # ts))"

definition split_on :: "char \<Rightarrow> string \<Rightarrow> string list" where
  "split_on d = split_by (\<lambda>c. c = d)"

definition split_whitespace :: "string \<Rightarrow> string list" where
  "split_whitespace s = filter (\<lambda>t. t \<noteq> []) (split_by is_ws s)"

fun split_once :: "char \<Rightarrow> string \<Rightarrow> (string \<times> string) option" where
  "split_once d [] = None"
| "split_once d (c # cs) =
     (if c = d then Some ([], cs)
      else (case split_once d cs of None \<Rightarrow> None | Some (a, b) \<Rightarrow> Some (c # a, b)))"

definition starts_with :: "string \<Rightarrow> string \<Rightarrow> bool" where
  "starts_with p s = (take (length p) s = p)"

fun contains_str :: "string \<Rightarrow> string \<Rightarrow> bool" where
  "contains_str p [] = (p = [])"
| "contains_str p (c # cs) = (starts_with p (c # cs) \<or> contains_str p cs)"

definition trim :: "string \<Rightarrow> string" where
  "trim s = rev (dropWhile is_ws (rev (dropWhile is_ws s)))"

lemma split_by_nonempty [simp]: "split_by P s \<noteq> []"
  by (induction s) (auto split: list.splits)

lemma split_by_no_sep [string_simps]: "list_all (\<lambda>c. \<not> P c) s \<Longrightarrow> split_by P s = [s]"
  by (induction s) auto

lemma split_by_append [string_simps]:
  "list_all (\<lambda>c. \<not> P c) a \<Longrightarrow> P d \<Longrightarrow> split_by P (a @ d # b) = a # split_by P b"
  by (induction a) auto

lemma split_once_append [string_simps]:
  "list_all (\<lambda>c. c \<noteq> d) a \<Longrightarrow> split_once d (a @ d # b) = Some (a, b)"
  by (induction a) auto

lemma split_once_None [string_simps]:
  "list_all (\<lambda>c. c \<noteq> d) a \<Longrightarrow> split_once d a = None"
  by (induction a) auto

lemma split_once_Some: "split_once d s = Some (a, b) \<Longrightarrow> s = a @ d # b \<and> list_all (\<lambda>c. c \<noteq> d) a"
  by (induction s arbitrary: a b) (auto split: if_splits option.splits)

lemma starts_with_append [simp]: "starts_with p (p @ s)"
  by (simp add: starts_with_def)

section \<open>Letters and digits\<close>

definition to_upper :: "char \<Rightarrow> char" where
  "to_upper c = (let n = (of_char c :: nat) in if 97 \<le> n \<and> n \<le> 122 then char_of (n - 32) else c)"

definition to_lower :: "char \<Rightarrow> char" where
  "to_lower c = (let n = (of_char c :: nat) in if 65 \<le> n \<and> n \<le> 90 then char_of (n + 32) else c)"

definition to_uppercase :: "string \<Rightarrow> string" where "to_uppercase = map to_upper"
definition to_lowercase :: "string \<Rightarrow> string" where "to_lowercase = map to_lower"

definition eq_ignore_case :: "string \<Rightarrow> string \<Rightarrow> bool" where
  "eq_ignore_case a b = (to_lowercase a = to_lowercase b)"

definition is_digit :: "char \<Rightarrow> bool" where
  "is_digit c = (let n = (of_char c :: nat) in 48 \<le> n \<and> n \<le> 57)"

definition digit_val :: "char \<Rightarrow> nat" where
  "digit_val c = of_char c - 48"

definition digit_char :: "nat \<Rightarrow> char" where
  "digit_char n = char_of (48 + n)"

lemma of_digit_char: "n < 10 \<Longrightarrow> (of_char (digit_char n) :: nat) = 48 + n"
  by (simp add: digit_char_def)

lemma is_digit_char [simp]: "n < 10 \<Longrightarrow> is_digit (digit_char n)"
  by (simp add: is_digit_def of_digit_char)

lemma digit_val_char [simp]: "n < 10 \<Longrightarrow> digit_val (digit_char n) = n"
  by (simp add: digit_val_def of_digit_char)

section \<open>Decimal numbers\<close>

fun show_nat :: "nat \<Rightarrow> string" where
  "show_nat n = (if n < 10 then [digit_char n] else show_nat (n div 10) @ [digit_char (n mod 10)])"

declare show_nat.simps [simp del]

definition digits_val :: "string \<Rightarrow> nat" where
  "digits_val s = foldl (\<lambda>a c. a * 10 + digit_val c) 0 s"

text \<open>\<^verbatim>\<open>str::parse\<close> for an unsigned type with maximum \<open>mx\<close>: an optional plus sign,
  at least one digit, digits only, and no overflow.\<close>

definition parse_digits :: "nat \<Rightarrow> string \<Rightarrow> nat option" where
  "parse_digits mx s =
     (if s \<noteq> [] \<and> list_all is_digit s \<and> digits_val s \<le> mx then Some (digits_val s) else None)"

definition parse_uint :: "nat \<Rightarrow> string \<Rightarrow> nat option" where
  "parse_uint mx s = (case s of c # cs \<Rightarrow> if c = CHR ''+'' then parse_digits mx cs else parse_digits mx s
                     | [] \<Rightarrow> None)"

lemma show_nat_digits: "list_all is_digit (show_nat n)"
proof (induction n rule: show_nat.induct)
  case (1 n)
  then show ?case by (cases "n < 10") (simp_all add: show_nat.simps [of n])
qed

lemma show_nat_nonempty [simp]: "show_nat n \<noteq> []"
  by (subst show_nat.simps) simp

lemma digits_val_show_nat: "digits_val (show_nat n) = n"
proof (induction n rule: show_nat.induct)
  case (1 n)
  then show ?case by (cases "n < 10") (simp_all add: show_nat.simps [of n] digits_val_def)
qed

lemma plus_not_digit: "\<not> is_digit (CHR ''+'')"
  by (simp add: is_digit_def)

lemma parse_uint_show_nat [string_simps]: "n \<le> mx \<Longrightarrow> parse_uint mx (show_nat n) = Some n"
proof -
  assume n: "n \<le> mx"
  have d: "list_all is_digit (show_nat n)" by (rule show_nat_digits)
  obtain c cs where c: "show_nat n = c # cs" using show_nat_nonempty by (meson list.exhaust)
  with d have "c \<noteq> CHR ''+''" using plus_not_digit by auto
  with c have "parse_uint mx (show_nat n) = parse_digits mx (show_nat n)"
    by (simp add: parse_uint_def)
  with d n show ?thesis
    by (simp add: parse_digits_def digits_val_show_nat)
qed

lemma parse_uint_le: "parse_uint mx s = Some n \<Longrightarrow> n \<le> mx"
  by (auto simp: parse_uint_def parse_digits_def split: list.splits if_splits)

lemma digits_avoid:
  "list_all is_digit s \<Longrightarrow> \<not> is_digit d \<Longrightarrow> list_all (\<lambda>c. c \<noteq> d) s"
  by (auto simp: list_all_iff)

lemma digits_not_ws: "list_all is_digit s \<Longrightarrow> list_all (\<lambda>c. \<not> is_ws c) s"
  by (auto simp: list_all_iff is_digit_def is_ws_def Let_def)

lemma show_nat_not_ws [string_simps]: "list_all (\<lambda>c. \<not> is_ws c) (show_nat n)"
  by (rule digits_not_ws [OF show_nat_digits])

definition parse_u32 :: "string \<Rightarrow> u32 option" where
  "parse_u32 s = map_option of_nat (parse_uint 4294967295 s)"

lemma trim_id [string_simps]: "list_all (\<lambda>c. \<not> is_ws c) s \<Longrightarrow> trim s = s"
proof -
  have drop: "dropWhile is_ws xs = xs" if "list_all (\<lambda>c. \<not> is_ws c) xs" for xs
    using that by (cases xs) auto
  assume "list_all (\<lambda>c. \<not> is_ws c) s"
  then show ?thesis using drop [of s] drop [of "rev s"] by (simp add: trim_def list_all_iff)
qed

lemma parse_u32_show [string_simps]: "parse_u32 (show_nat (unat w)) = Some w"
  using unsigned_less [of w, where ?'a = nat] by (simp add: parse_u32_def parse_uint_show_nat)

end
