(* ===== verification/Srtp.thy ===== *)
theory Srtp
  imports Rtp_Strings
begin

text \<open>
  \<^verbatim>\<open>src/rtp/srtp.rs\<close>: the SRTP context of one direction. The AES-128 block cipher
  (crate \<^verbatim>\<open>aes\<close>), HMAC-SHA1 (crates \<^verbatim>\<open>hmac\<close>, \<^verbatim>\<open>sha1\<close>) and base64 (crate
  \<^verbatim>\<open>base64\<close>) are parameters \<open>aes\<close>, \<open>hmac\<close>, \<open>b64enc\<close>, \<open>b64dec\<close> of the
  definitions that use them. Key derivation, the AES-CM keystream, the header length, the
  rollover counter, the two replay windows and the four protect and unprotect operations
  are definitions here; log output is left out.
\<close>

section \<open>Constants and cipher suites\<close>

definition SRTP_MASTER_KEY_LEN :: nat where "SRTP_MASTER_KEY_LEN = 16"
definition SRTP_MASTER_SALT_LEN :: nat where "SRTP_MASTER_SALT_LEN = 14"
definition SRTP_MASTER_LEN :: nat where
  "SRTP_MASTER_LEN = SRTP_MASTER_KEY_LEN + SRTP_MASTER_SALT_LEN"
definition SRTP_SESSION_KEY_LEN :: nat where "SRTP_SESSION_KEY_LEN = 16"
definition SRTP_SESSION_SALT_LEN :: nat where "SRTP_SESSION_SALT_LEN = 14"
definition SRTP_AUTH_KEY_LEN :: nat where "SRTP_AUTH_KEY_LEN = 20"
definition SRTP_AUTH_TAG_80 :: nat where "SRTP_AUTH_TAG_80 = 10"
definition SRTP_AUTH_TAG_32 :: nat where "SRTP_AUTH_TAG_32 = 4"
definition SRTCP_AUTH_TAG_LEN :: nat where "SRTCP_AUTH_TAG_LEN = 10"
definition SRTCP_INDEX_LEN :: nat where "SRTCP_INDEX_LEN = 4"
definition LABEL_RTP_ENCRYPTION :: byte where "LABEL_RTP_ENCRYPTION = 0"
definition LABEL_RTP_AUTH :: byte where "LABEL_RTP_AUTH = 1"
definition LABEL_RTP_SALT :: byte where "LABEL_RTP_SALT = 2"
definition LABEL_RTCP_ENCRYPTION :: byte where "LABEL_RTCP_ENCRYPTION = 3"
definition LABEL_RTCP_AUTH :: byte where "LABEL_RTCP_AUTH = 4"
definition LABEL_RTCP_SALT :: byte where "LABEL_RTCP_SALT = 5"
definition SRTP_RESET_THRESHOLD :: u32 where "SRTP_RESET_THRESHOLD = 100"

lemmas srtp_lens = SRTP_MASTER_KEY_LEN_def SRTP_MASTER_SALT_LEN_def SRTP_MASTER_LEN_def
  SRTP_SESSION_KEY_LEN_def SRTP_SESSION_SALT_LEN_def SRTP_AUTH_KEY_LEN_def
  SRTP_AUTH_TAG_80_def SRTP_AUTH_TAG_32_def SRTCP_AUTH_TAG_LEN_def SRTCP_INDEX_LEN_def

datatype srtp_cipher_suite = AesCm128HmacSha1_80 | AesCm128HmacSha1_32

definition suite_from_str :: "string \<Rightarrow> srtp_cipher_suite option" where
  "suite_from_str s =
     (if s = ''AES_CM_128_HMAC_SHA1_80'' then Some AesCm128HmacSha1_80
      else if s = ''AES_CM_128_HMAC_SHA1_32'' then Some AesCm128HmacSha1_32
      else None)"

fun suite_as_str :: "srtp_cipher_suite \<Rightarrow> string" where
  "suite_as_str AesCm128HmacSha1_80 = ''AES_CM_128_HMAC_SHA1_80''"
| "suite_as_str AesCm128HmacSha1_32 = ''AES_CM_128_HMAC_SHA1_32''"

fun rtp_auth_tag_len :: "srtp_cipher_suite \<Rightarrow> nat" where
  "rtp_auth_tag_len AesCm128HmacSha1_80 = SRTP_AUTH_TAG_80"
| "rtp_auth_tag_len AesCm128HmacSha1_32 = SRTP_AUTH_TAG_32"

section \<open>The SDP crypto attribute\<close>

record crypto_attribute =
  tag :: u32
  ca_suite :: srtp_cipher_suite
  ca_master_key :: bytes
  ca_master_salt :: bytes
  ca_mki :: "bytes option"
  ca_mki_length :: "nat option"

definition USIZE_MAX :: nat where "USIZE_MAX = 2 ^ 64 - 1"
definition U32_MAX :: nat where "U32_MAX = 2 ^ 32 - 1"
definition U128_MAX :: nat where "U128_MAX = 2 ^ 128 - 1"

text \<open>One round of the loop over the pipe-separated fields after the key.\<close>

definition mki_field :: "(bytes option \<times> nat option) \<Rightarrow> string \<Rightarrow> bytes option \<times> nat option" where
  "mki_field acc part =
     (case split_once (CHR '':'') part of None \<Rightarrow> acc
      | Some (mki_val_str, mki_len_str) \<Rightarrow>
         (case parse_uint USIZE_MAX mki_len_str of None \<Rightarrow> acc
          | Some len \<Rightarrow>
             (case parse_uint U128_MAX mki_val_str of None \<Rightarrow> acc
              | Some v \<Rightarrow>
                 if 0 < len \<and> len \<le> 16
                 then (let full_bytes = be_bytes 16 v;
                           start = (if length full_bytes > len then length full_bytes - len else 0)
                       in (Some (drop start full_bytes), Some len))
                 else acc)))"

definition crypto_parse :: "(string \<Rightarrow> (string, bytes) outcome) \<Rightarrow> string \<Rightarrow> crypto_attribute res" where
  "crypto_parse b64dec value =
     (let parts = split_whitespace value in
      if length parts < 3 then Err (Rtp ''Invalid crypto attribute: too few fields'')
      else (case parse_uint U32_MAX (parts ! 0) of
        None \<Rightarrow> Err (Rtp ''Invalid crypto tag'')
      | Some t \<Rightarrow>
        (case suite_from_str (parts ! 1) of
          None \<Rightarrow> Err (Rtp (''Unsupported cipher suite: '' @ parts ! 1))
        | Some su \<Rightarrow>
          (let key_param = parts ! 2; inline_prefix = ''inline:'' in
           if \<not> starts_with inline_prefix key_param
           then Err (Rtp (''Crypto key must start with '' @ [CHR 0x27] @ ''inline:'' @ [CHR 0x27]))
           else
             (let after_inline = drop (length inline_prefix) key_param;
                  parts_pipe = split_on (CHR ''|'') after_inline;
                  b64_key = parts_pipe ! 0;
                  (mki, mki_length) = foldl mki_field (None, None) (drop 1 parts_pipe)
              in (case b64dec b64_key of
                   Panic \<Rightarrow> Panic
                 | Err e \<Rightarrow> Err (Rtp (''Invalid base64 key: '' @ e))
                 | Ok key_material \<Rightarrow>
                   if length key_material \<noteq> SRTP_MASTER_LEN
                   then Err (Rtp (''Master key material must be '' @ show_nat SRTP_MASTER_LEN
                          @ '' bytes, got '' @ show_nat (length key_material)))
                   else Ok \<lparr>tag = of_nat t, ca_suite = su,
                          ca_master_key = take SRTP_MASTER_KEY_LEN key_material,
                          ca_master_salt = drop SRTP_MASTER_KEY_LEN key_material,
                          ca_mki = mki, ca_mki_length = mki_length\<rparr>))))))"

text \<open>\<open>rng\<close> stands for the two draws of the thread-local random generator.\<close>

definition crypto_generate :: "(nat \<Rightarrow> bytes) \<Rightarrow> (nat \<Rightarrow> bytes) \<Rightarrow> srtp_cipher_suite \<Rightarrow> crypto_attribute" where
  "crypto_generate rng1 rng2 su =
     \<lparr>tag = 1, ca_suite = su, ca_master_key = rng1 SRTP_MASTER_KEY_LEN,
      ca_master_salt = rng2 SRTP_MASTER_SALT_LEN, ca_mki = None, ca_mki_length = None\<rparr>"

definition mki_numeric :: "bytes \<Rightarrow> u128" where
  "mki_numeric mki = foldl (\<lambda>val b. push_bit 8 val OR ucast b) 0 mki"

definition to_sdp_value :: "(bytes \<Rightarrow> string) \<Rightarrow> crypto_attribute \<Rightarrow> string" where
  "to_sdp_value b64enc c =
     (let b64 = b64enc (ca_master_key c @ ca_master_salt c);
          inline_part = (case (ca_mki c, ca_mki_length c) of
              (Some mki_val, Some mki_len) \<Rightarrow>
                ''inline:'' @ b64 @ ''|'' @ show_nat (unat (mki_numeric mki_val)) @ '':'' @ show_nat mki_len
            | _ \<Rightarrow> ''inline:'' @ b64)
      in show_nat (unat (tag c)) @ '' '' @ suite_as_str (ca_suite c) @ '' '' @ inline_part)"

section \<open>AES counter mode and key derivation\<close>

record session_keys =
  enc_key :: bytes
  auth_key :: bytes
  salt :: bytes

definition xor_bytes :: "bytes \<Rightarrow> bytes \<Rightarrow> bytes" where
  "xor_bytes a b = map2 (XOR) a b"

text \<open>\<open>block := iv\<close> with the 16-bit block counter in its last two bytes.\<close>

definition counter_block :: "bytes \<Rightarrow> nat \<Rightarrow> bytes" where
  "counter_block iv block_idx =
     (let counter = (of_nat block_idx :: u16)
      in iv[14 := ucast (drop_bit 8 counter), 15 := ucast counter])"

definition blocks_needed :: "nat \<Rightarrow> nat" where
  "blocks_needed len = (len + 15) div 16"

text \<open>The keystream loops: \<open>n\<close> blocks to go, starting at block \<open>i\<close>, over what is left of
  the output (\<open>todo\<close> bytes, or the data that is encrypted in place).\<close>

fun prf_blocks :: "(bytes \<Rightarrow> bytes) \<Rightarrow> bytes \<Rightarrow> nat \<Rightarrow> nat \<Rightarrow> nat \<Rightarrow> bytes" where
  "prf_blocks E iv 0 i todo = []"
| "prf_blocks E iv (Suc n) i todo =
     take (min 16 todo) (E (counter_block iv i)) @ prf_blocks E iv n (Suc i) (todo - min 16 todo)"

fun cm_blocks :: "(bytes \<Rightarrow> bytes) \<Rightarrow> bytes \<Rightarrow> nat \<Rightarrow> nat \<Rightarrow> bytes \<Rightarrow> bytes" where
  "cm_blocks E iv 0 i data = data"
| "cm_blocks E iv (Suc n) i data =
     xor_bytes (take 16 data) (E (counter_block iv i)) @ cm_blocks E iv n (Suc i) (drop 16 data)"

definition prf_iv :: "bytes \<Rightarrow> byte \<Rightarrow> u64 \<Rightarrow> bytes" where
  "prf_iv ms label r =
     (let key_id = label # drop 2 (be64 r)
      in take 7 ms @ xor_bytes (drop 7 ms) key_id @ [0, 0])"

definition prf_derive :: "(bytes \<Rightarrow> bytes \<Rightarrow> bytes) \<Rightarrow> bytes \<Rightarrow> bytes \<Rightarrow> byte \<Rightarrow> u64 \<Rightarrow> nat \<Rightarrow> bytes res" where
  "prf_derive aes mk ms label r out_len =
     (let n = (if out_len + 15 < 2 ^ 64 then blocks_needed out_len else 0)
      in if 65536 < n then Panic
         else Ok (prf_blocks (aes mk) (prf_iv ms label r) n 0 out_len))"

definition derive_session_keys ::
    "(bytes \<Rightarrow> bytes \<Rightarrow> bytes) \<Rightarrow> bytes \<Rightarrow> bytes \<Rightarrow> bool \<Rightarrow> u64 \<Rightarrow> u64 \<Rightarrow> session_keys res" where
  "derive_session_keys aes mk ms is_rtcp kdr index =
     (let enc_label = (if is_rtcp then LABEL_RTCP_ENCRYPTION else LABEL_RTP_ENCRYPTION);
          auth_label = (if is_rtcp then LABEL_RTCP_AUTH else LABEL_RTP_AUTH);
          salt_label = (if is_rtcp then LABEL_RTCP_SALT else LABEL_RTP_SALT);
          r = (if kdr > 0 then index div kdr else 0)
      in res_bind (prf_derive aes mk ms enc_label r SRTP_SESSION_KEY_LEN) (\<lambda>ek.
         res_bind (prf_derive aes mk ms auth_label r SRTP_AUTH_KEY_LEN) (\<lambda>ak.
         res_bind (prf_derive aes mk ms salt_label r SRTP_SESSION_SALT_LEN) (\<lambda>sa.
         Ok \<lparr>enc_key = ek, auth_key = ak, salt = sa\<rparr>))))"

definition cm_iv :: "bytes \<Rightarrow> u32 \<Rightarrow> u64 \<Rightarrow> bytes" where
  "cm_iv session_salt ssrc index =
     xor_bytes ([0, 0, 0, 0] @ be32 ssrc @ drop 2 (be64 index)) session_salt @ [0, 0]"

definition aes_cm_encrypt ::
    "(bytes \<Rightarrow> bytes \<Rightarrow> bytes) \<Rightarrow> bytes \<Rightarrow> bytes \<Rightarrow> u32 \<Rightarrow> u64 \<Rightarrow> bytes \<Rightarrow> bytes res" where
  "aes_cm_encrypt aes session_key session_salt ssrc index data =
     (if 2 ^ 64 \<le> length data + 15 then Ok data
      else if 65536 < blocks_needed (length data) then Panic
      else Ok (cm_blocks (aes session_key) (cm_iv session_salt ssrc index)
                 (blocks_needed (length data)) 0 data))"

definition aes_cm_encrypt_srtcp ::
    "(bytes \<Rightarrow> bytes \<Rightarrow> bytes) \<Rightarrow> bytes \<Rightarrow> bytes \<Rightarrow> u32 \<Rightarrow> u32 \<Rightarrow> bytes \<Rightarrow> bytes res" where
  "aes_cm_encrypt_srtcp aes session_key session_salt ssrc srtcp_index data =
     (if srtcp_index > 0x7FFFFFFF then Panic
      else aes_cm_encrypt aes session_key session_salt ssrc (ucast srtcp_index) data)"

definition compute_rtp_auth_tag :: "(bytes \<Rightarrow> bytes \<Rightarrow> bytes) \<Rightarrow> bytes \<Rightarrow> bytes \<Rightarrow> u32 \<Rightarrow> nat \<Rightarrow> bytes" where
  "compute_rtp_auth_tag hmac ak portion roc tag_len = take tag_len (hmac ak (portion @ be32 roc))"

definition rtp_header_len :: "bytes \<Rightarrow> nat res" where
  "rtp_header_len packet =
     (if length packet < 12 then Err (Rtp ''Packet too short for RTP header'')
      else
        (let cc = unat (packet ! 0 AND 0x0F);
             has_extension = (packet ! 0 AND 0x10 \<noteq> 0);
             len = 12 + cc * 4
         in if has_extension \<and> length packet < len + 4
            then Err (Rtp ''Packet too short for extension header'')
            else (let len' = (if has_extension then len + 4 + unat (rd16 packet (len + 2)) * 4 else len)
                  in if len' > length packet then Err (Rtp ''Header length exceeds packet'')
                     else Ok len')))"

fun diff_or :: "bytes \<Rightarrow> bytes \<Rightarrow> byte \<Rightarrow> byte" where
  "diff_or (x # xs) (y # ys) d = diff_or xs ys (d OR (x XOR y))"
| "diff_or _ _ d = d"

definition constant_time_eq :: "bytes \<Rightarrow> bytes \<Rightarrow> bool" where
  "constant_time_eq a b = (if length a \<noteq> length b then False else diff_or a b 0 = 0)"

section \<open>The context and its receive state\<close>

record srtp_context =
  suite :: srtp_cipher_suite
  master_key :: bytes
  master_salt :: bytes
  rtp_keys :: session_keys
  rtcp_keys :: session_keys
  key_derivation_rate :: u64
  roc :: u32
  s_l :: u16
  initialized :: bool
  send_counter :: u64
  send_initialized :: bool
  last_sent_index :: u64
  packets_encrypted :: u64
  srtcp_index :: u32
  replay_window :: u128
  replay_window_base :: u64
  srtcp_replay_window :: u64
  srtcp_replay_window_base :: u64
  srtcp_replay_initialized :: bool
  error_count :: u32
  mki :: "bytes option"
  mki_length :: "nat option"
  current_recv_ssrc :: "u32 option"

definition with_mki :: "(bytes \<Rightarrow> bytes \<Rightarrow> bytes) \<Rightarrow> srtp_cipher_suite \<Rightarrow> bytes \<Rightarrow> bytes \<Rightarrow> bytes option
    \<Rightarrow> nat option \<Rightarrow> srtp_context res" where
  "with_mki aes su mk ms m ml =
     (if (case m of None \<Rightarrow> False | Some mki_val \<Rightarrow>
            (case ml of None \<Rightarrow> True | Some declared_len \<Rightarrow> declared_len \<noteq> length mki_val))
      then Panic
      else res_bind (derive_session_keys aes mk ms False 0 0) (\<lambda>rk.
           res_bind (derive_session_keys aes mk ms True 0 0) (\<lambda>ck.
           Ok \<lparr>suite = su, master_key = mk, master_salt = ms, rtp_keys = rk, rtcp_keys = ck,
               key_derivation_rate = 0, roc = 0, s_l = 0, initialized = False,
               send_counter = 0, send_initialized = False, last_sent_index = 0,
               packets_encrypted = 0, srtcp_index = 0, replay_window = 0, replay_window_base = 0,
               srtcp_replay_window = 0, srtcp_replay_window_base = 0,
               srtcp_replay_initialized = False, error_count = 0, mki = m, mki_length = ml,
               current_recv_ssrc = None\<rparr>)))"

definition srtp_new :: "(bytes \<Rightarrow> bytes \<Rightarrow> bytes) \<Rightarrow> srtp_cipher_suite \<Rightarrow> bytes \<Rightarrow> bytes \<Rightarrow> srtp_context res" where
  "srtp_new aes su mk ms = with_mki aes su mk ms None None"

definition from_crypto :: "(bytes \<Rightarrow> bytes \<Rightarrow> bytes) \<Rightarrow> crypto_attribute \<Rightarrow> srtp_context res" where
  "from_crypto aes c = with_mki aes (ca_suite c) (ca_master_key c) (ca_master_salt c) (ca_mki c)
     (ca_mki_length c)"

definition handle_unprotect_error :: "srtp_context \<Rightarrow> srtp_context" where
  "handle_unprotect_error c =
     (let n = error_count c + 1
      in if n \<ge> SRTP_RESET_THRESHOLD then c\<lparr>error_count := 0\<rparr> else c\<lparr>error_count := n\<rparr>)"

definition estimate_roc :: "srtp_context \<Rightarrow> u16 \<Rightarrow> u32" where
  "estimate_roc c seq =
     (if \<not> initialized c then 0
      else if seq > s_l c then
        (let diff = seq - s_l c in if diff > 0x8000 then roc c - 1 else roc c)
      else if seq < s_l c then
        (let diff = s_l c - seq in if diff > 0x8000 then roc c + 1 else roc c)
      else roc c)"

definition packet_index :: "u32 \<Rightarrow> u16 \<Rightarrow> u64" where
  "packet_index v seq = push_bit 16 (ucast v) OR ucast seq"

definition update_roc_recv :: "srtp_context \<Rightarrow> u16 \<Rightarrow> u32 \<Rightarrow> srtp_context" where
  "update_roc_recv c seq estimated_roc =
     (if \<not> initialized c then c\<lparr>s_l := seq, roc := estimated_roc, initialized := True\<rparr>
      else if packet_index estimated_roc seq > packet_index (roc c) (s_l c)
      then c\<lparr>roc := estimated_roc, s_l := seq\<rparr>
      else c)"

definition check_replay :: "srtp_context \<Rightarrow> u64 \<Rightarrow> bool" where
  "check_replay c index =
     (if index > replay_window_base c then True
      else (let delta = replay_window_base c - index
            in if delta \<ge> 128 then False
               else replay_window c AND push_bit (unat delta) 1 = 0))"

definition accept_replay :: "srtp_context \<Rightarrow> u64 \<Rightarrow> srtp_context" where
  "accept_replay c index =
     (if index > replay_window_base c
      then (let shift = index - replay_window_base c;
                w = (if shift \<ge> 128 then 0 else push_bit (unat shift) (replay_window c))
            in c\<lparr>replay_window := w OR 1, replay_window_base := index\<rparr>)
      else (let delta = replay_window_base c - index
            in if delta < 128
               then c\<lparr>replay_window := replay_window c OR push_bit (unat delta) 1\<rparr>
               else c))"

definition check_srtcp_replay :: "srtp_context \<Rightarrow> u64 \<Rightarrow> bool" where
  "check_srtcp_replay c index =
     (if index > srtcp_replay_window_base c then True
      else (let delta = srtcp_replay_window_base c - index
            in if delta \<ge> 64 then False
               else srtcp_replay_window c AND push_bit (unat delta) 1 = 0))"

definition accept_srtcp_replay :: "srtp_context \<Rightarrow> u64 \<Rightarrow> srtp_context" where
  "accept_srtcp_replay c index =
     (if index > srtcp_replay_window_base c
      then (let shift = index - srtcp_replay_window_base c;
                w = (if shift \<ge> 64 then 0 else push_bit (unat shift) (srtcp_replay_window c))
            in c\<lparr>srtcp_replay_window := w OR 1, srtcp_replay_window_base := index\<rparr>)
      else (let delta = srtcp_replay_window_base c - index
            in if delta < 64
               then c\<lparr>srtcp_replay_window := srtcp_replay_window c OR push_bit (unat delta) 1\<rparr>
               else c))"

section \<open>Protecting and unprotecting RTP\<close>

definition KEY_LIFETIME_MAX :: u64 where "KEY_LIFETIME_MAX = push_bit 48 1"

text \<open>The 48-bit send counter after the packet with sequence number \<open>seq\<close>.\<close>

definition next_send_counter :: "srtp_context \<Rightarrow> u16 \<Rightarrow> u64" where
  "next_send_counter c seq =
     (if \<not> send_initialized c then ucast seq
      else (let prev_seq = (ucast (send_counter c AND 0xFFFF) :: u16)
            in if seq < prev_seq \<and> prev_seq - seq > 0x8000
               then push_bit 16 (drop_bit 16 (send_counter c) + 1) OR ucast seq
               else (send_counter c AND NOT 0xFFFF) OR ucast seq))"

definition protect_rtp :: "(bytes \<Rightarrow> bytes \<Rightarrow> bytes) \<Rightarrow> (bytes \<Rightarrow> bytes \<Rightarrow> bytes) \<Rightarrow> srtp_context \<Rightarrow> bytes
    \<Rightarrow> srtp_context \<times> bytes res" where
  "protect_rtp aes hmac c packet =
     (if length packet < 12 then (c, Err (Rtp ''RTP packet too short''))
      else if packets_encrypted c \<ge> KEY_LIFETIME_MAX
      then (c, Err (Rtp ''SRTP key lifetime exhausted: 2^48 packets encrypted, re-key required''))
      else (case rtp_header_len packet of
          Panic \<Rightarrow> (c, Panic)
        | Err e \<Rightarrow> (c, Err e)
        | Ok header_len \<Rightarrow>
          (let seq = rd16 packet 2;
               ssrc = rd32 packet 8;
               c1 = c\<lparr>send_counter := next_send_counter c seq, send_initialized := True\<rparr>;
               index = send_counter c1 AND 0xFFFFFFFFFFFF
           in if packets_encrypted c1 > 0 \<and> index \<le> last_sent_index c1
              then (c1, Err (Rtp ''SRTP non-monotonic send index: keystream reuse prevented''))
              else
                (let c2 = c1\<lparr>last_sent_index := index, packets_encrypted := packets_encrypted c1 + 1\<rparr>;
                     roc = (ucast (drop_bit 16 index) :: u32)
                 in (case aes_cm_encrypt aes (enc_key (rtp_keys c2)) (salt (rtp_keys c2)) ssrc index
                            (drop header_len packet) of
                       Panic \<Rightarrow> (c2, Panic)
                     | Err e \<Rightarrow> (c2, Err e)
                     | Ok payload \<Rightarrow>
                       (let output = take header_len packet @ payload;
                            auth_tag = compute_rtp_auth_tag hmac (auth_key (rtp_keys c2)) output roc
                                         (rtp_auth_tag_len (suite c2));
                            output1 = (case mki c2 of None \<Rightarrow> output | Some mki_bytes \<Rightarrow> output @ mki_bytes)
                        in (c2, Ok (output1 @ auth_tag))))))))"

definition rejected :: "'a res" where
  "rejected = Err (Rtp ''SRTP packet rejected'')"

definition ssrc_changed :: "srtp_context \<Rightarrow> u32 \<Rightarrow> bool" where
  "ssrc_changed c ssrc = (case current_recv_ssrc c of None \<Rightarrow> False | Some prev \<Rightarrow> prev \<noteq> ssrc)"

text \<open>The tag is checked under the estimated rollover counter and, for a new SSRC, again
  under counter 0. The result is the verdict with the packet index and counter to commit.\<close>

definition rtp_authenticate :: "(bytes \<Rightarrow> bytes \<Rightarrow> bytes) \<Rightarrow> srtp_context \<Rightarrow> bool \<Rightarrow> bytes \<Rightarrow> bytes
    \<Rightarrow> u16 \<Rightarrow> bool \<times> u64 \<times> u32" where
  "rtp_authenticate hmac c changed auth_data received_tag seq =
     (let estimated_roc = estimate_roc c seq;
          index = packet_index estimated_roc seq;
          tag_for = (\<lambda>v. compute_rtp_auth_tag hmac (auth_key (rtp_keys c)) auth_data v
                       (rtp_auth_tag_len (suite c)))
      in if constant_time_eq (tag_for estimated_roc) received_tag then (True, index, estimated_roc)
         else if changed
         then (if constant_time_eq (tag_for 0) received_tag then (True, packet_index 0 seq, 0)
               else (False, index, estimated_roc))
         else (False, index, estimated_roc))"

text \<open>The receive state after a packet with SSRC \<open>ssrc\<close> is authenticated under packet index
  \<open>final_index\<close> (rollover counter \<open>final_roc\<close>).\<close>

definition commit_recv :: "srtp_context \<Rightarrow> bool \<Rightarrow> u32 \<Rightarrow> u16 \<Rightarrow> u32 \<Rightarrow> u64 \<Rightarrow> srtp_context" where
  "commit_recv c changed ssrc seq final_roc final_index =
     (let c1 = (if changed
                then c\<lparr>replay_window := 0, replay_window_base := 0, s_l := 0, roc := 0,
                       initialized := False\<rparr>
                else c);
          c2 = c1\<lparr>current_recv_ssrc := Some ssrc\<rparr>;
          c3 = update_roc_recv c2 seq final_roc
      in accept_replay c3 final_index)"

definition unprotect_rtp :: "(bytes \<Rightarrow> bytes \<Rightarrow> bytes) \<Rightarrow> (bytes \<Rightarrow> bytes \<Rightarrow> bytes) \<Rightarrow> srtp_context \<Rightarrow> bytes
    \<Rightarrow> srtp_context \<times> bytes res" where
  "unprotect_rtp aes hmac c packet =
     (let auth_tag_len = rtp_auth_tag_len (suite c);
          mki_len = (case mki_length c of None \<Rightarrow> 0 | Some n \<Rightarrow> n);
          trailer_len = auth_tag_len + mki_len
      in if length packet < 12 + trailer_len then (handle_unprotect_error c, rejected)
         else
           (let seq = rd16 packet 2;
                ssrc = rd32 packet 8;
                changed = ssrc_changed c ssrc;
                index = packet_index (estimate_roc c seq) seq
            in if initialized c \<and> \<not> changed \<and> \<not> check_replay c index then (c, rejected)
               else
                 (let received_tag = drop (length packet - auth_tag_len) packet;
                      auth_data = take (length packet - auth_tag_len - mki_len) packet;
                      (auth_ok, final_index, final_roc) =
                        rtp_authenticate hmac c changed auth_data received_tag seq
                  in if \<not> auth_ok then (handle_unprotect_error c, rejected)
                     else
                       (let c1 = commit_recv c changed ssrc seq final_roc final_index
                        in (case rtp_header_len auth_data of
                              Panic \<Rightarrow> (c1, Panic)
                            | Err e \<Rightarrow> (c1, Err e)
                            | Ok header_len \<Rightarrow>
                              (case aes_cm_encrypt aes (enc_key (rtp_keys c1)) (salt (rtp_keys c1)) ssrc
                                      final_index (drop header_len auth_data) of
                                 Panic \<Rightarrow> (c1, Panic)
                               | Err e \<Rightarrow> (c1, Err e)
                               | Ok payload \<Rightarrow>
                                 (c1\<lparr>error_count := 0\<rparr>, Ok (take header_len auth_data @ payload))))))))"

section \<open>Protecting and unprotecting RTCP\<close>

definition protect_rtcp :: "(bytes \<Rightarrow> bytes \<Rightarrow> bytes) \<Rightarrow> (bytes \<Rightarrow> bytes \<Rightarrow> bytes) \<Rightarrow> srtp_context \<Rightarrow> bytes
    \<Rightarrow> srtp_context \<times> bytes res" where
  "protect_rtcp aes hmac c packet =
     (if length packet < 8 then (c, Err (Rtp ''RTCP packet too short''))
      else
        (let ssrc = rd32 packet 4
         in if srtcp_index c \<ge> 0x80000000
            then (c, Err (Rtp ''SRTCP index overflow: 31-bit index space exhausted''))
            else
              (let idx = srtcp_index c;
                   c1 = c\<lparr>srtcp_index := idx + 1\<rparr>;
                   body = (if length packet > 8
                           then aes_cm_encrypt_srtcp aes (enc_key (rtcp_keys c1)) (salt (rtcp_keys c1)) ssrc
                                  idx (drop 8 packet)
                           else Ok [])
               in (case body of
                     Panic \<Rightarrow> (c1, Panic)
                   | Err e \<Rightarrow> (c1, Err e)
                   | Ok payload \<Rightarrow>
                     (let output = take 8 packet @ payload @ be32 (0x80000000 OR (idx AND 0x7FFFFFFF));
                          auth_tag = take SRTCP_AUTH_TAG_LEN (hmac (auth_key (rtcp_keys c1)) output);
                          output1 = (case mki c1 of None \<Rightarrow> output | Some mki_bytes \<Rightarrow> output @ mki_bytes)
                      in (c1, Ok (output1 @ auth_tag)))))))"

definition unprotect_rtcp :: "(bytes \<Rightarrow> bytes \<Rightarrow> bytes) \<Rightarrow> (bytes \<Rightarrow> bytes \<Rightarrow> bytes) \<Rightarrow> srtp_context \<Rightarrow> bytes
    \<Rightarrow> srtp_context \<times> bytes res" where
  "unprotect_rtcp aes hmac c packet =
     (let mki_len = (case mki_length c of None \<Rightarrow> 0 | Some n \<Rightarrow> n);
          min_len = 8 + SRTCP_INDEX_LEN + mki_len + SRTCP_AUTH_TAG_LEN
      in if length packet < min_len then (c, Err (Rtp ''SRTCP packet too short''))
         else
           (let ssrc = rd32 packet 4;
                received_tag = drop (length packet - SRTCP_AUTH_TAG_LEN) packet;
                auth_data = take (length packet - SRTCP_AUTH_TAG_LEN - mki_len) packet;
                computed_tag = take SRTCP_AUTH_TAG_LEN (hmac (auth_key (rtcp_keys c)) auth_data)
            in if \<not> constant_time_eq computed_tag received_tag then (c, rejected)
               else
                 (let index_start = length auth_data - SRTCP_INDEX_LEN;
                      e_index = rd32 auth_data index_start;
                      is_encrypted = (e_index AND 0x80000000 \<noteq> 0);
                      idx = e_index AND 0x7FFFFFFF;
                      idx64 = (ucast idx :: u64)
                  in if srtcp_replay_initialized c \<and> \<not> check_srtcp_replay c idx64 then (c, rejected)
                     else
                       (let output = take index_start auth_data;
                            body = (if is_encrypted \<and> length output > 8
                                    then aes_cm_encrypt_srtcp aes (enc_key (rtcp_keys c)) (salt (rtcp_keys c))
                                           ssrc idx (drop 8 output)
                                    else Ok (drop 8 output))
                        in (case body of
                              Panic \<Rightarrow> (c, Panic)
                            | Err e \<Rightarrow> (c, Err e)
                            | Ok payload \<Rightarrow>
                              ((accept_srtcp_replay c idx64)\<lparr>srtcp_replay_initialized := True\<rparr>,
                               Ok (take 8 output @ payload)))))))"

end
