(* ===== verification/Srtp_Replay.thy ===== *)
theory Srtp_Replay
  imports Srtp
begin

text \<open>
  The two sliding replay windows of an SRTP context against one abstract window: a highest
  index and the set of indices seen among the last \<open>L\<close>. The locale \<open>replay_guard\<close> is the
  contract of a check and an accept operation over that abstraction; it is interpreted on
  the 128-packet RTP window and on the 64-packet SRTCP window.
\<close>

section \<open>The abstract window\<close>

type_synonym window = "nat \<times> nat set"

fun spec_check :: "nat \<Rightarrow> window \<Rightarrow> nat \<Rightarrow> bool" where
  "spec_check L (b, S) i \<longleftrightarrow> i > b \<or> (b - i < L \<and> i \<notin> S)"

fun spec_accept :: "nat \<Rightarrow> window \<Rightarrow> nat \<Rightarrow> window" where
  "spec_accept L (b, S) i = (max b i, {j \<in> insert i S. max b i - j < L})"

definition window_abs :: "'w::len word \<Rightarrow> u64 \<Rightarrow> window" where
  "window_abs w b =
     (unat b, {i. i \<le> unat b \<and> unat b - i < LENGTH('w) \<and> bit w (unat b - i)})"

lemma window_abs_zero: "window_abs 0 b = (unat b, {})"
  by (simp add: window_abs_def)

lemma spec_accepted_blocked: "L > 0 \<Longrightarrow> \<not> spec_check L (spec_accept L s i) i"
  by (cases s) auto

lemma spec_blocked_stays: "\<not> spec_check L s i \<Longrightarrow> \<not> spec_check L (spec_accept L s j) i"
  by (cases s) auto

section \<open>The contract of a replay guard\<close>

text \<open>\<open>deliver\<close> offers indices in turn; those that pass the check are accepted and listed.\<close>

primrec deliver :: "('s \<Rightarrow> u64 \<Rightarrow> bool) \<Rightarrow> ('s \<Rightarrow> u64 \<Rightarrow> 's) \<Rightarrow> 's \<Rightarrow> u64 list \<Rightarrow> u64 list" where
  "deliver check accept s [] = []"
| "deliver check accept s (i # is) =
     (if check s i then i # deliver check accept (accept s i) is else deliver check accept s is)"

locale replay_guard =
  fixes check :: "'s \<Rightarrow> u64 \<Rightarrow> bool"
    and accept :: "'s \<Rightarrow> u64 \<Rightarrow> 's"
    and abs :: "'s \<Rightarrow> window"
    and L :: nat
  assumes window_pos: "L > 0"
    and check_abs: "check s i = spec_check L (abs s) (unat i)"
    and accept_abs: "abs (accept s i) = spec_accept L (abs s) (unat i)"
begin

lemma accepted_blocked: "\<not> check (accept s i) i"
  by (simp add: check_abs accept_abs spec_accepted_blocked window_pos)

lemma blocked_stays: "\<not> check s i \<Longrightarrow> \<not> check (accept s j) i"
  by (simp add: check_abs accept_abs spec_blocked_stays)

lemma deliver_checked: "i \<in> set (deliver check accept s is) \<Longrightarrow> check s i"
proof (induction "is" arbitrary: s)
  case (Cons j js)
  then show ?case using blocked_stays by (auto split: if_splits)
qed simp

lemma deliver_distinct: "distinct (deliver check accept s is)"
proof (induction "is" arbitrary: s)
  case (Cons j js)
  have "j \<notin> set (deliver check accept (accept s j) js)"
    using deliver_checked accepted_blocked by blast
  with Cons show ?case by simp
qed simp

lemma fresh_passes: "unat i > fst (abs s) \<Longrightarrow> check s i"
  by (cases "abs s") (simp add: check_abs)

end

section \<open>The windows of the code refine the abstract one\<close>

lemma bit_or_exp_iff: "bit (w OR 2 ^ n :: 'w::len word) m \<longleftrightarrow> bit w m \<or> (m = n \<and> n < LENGTH('w))"
  by (auto simp: bit_simps)

lemma unat_diff: "b \<le> a \<Longrightarrow> unat (a - b :: 'a::len word) = unat a - unat b"
  by (simp add: unat_sub)

lemma window_check:
  fixes w :: "'w::len word"
  assumes "chk \<longleftrightarrow> (if i > b then True
     else if unat (b - i) \<ge> LENGTH('w) then False else w AND push_bit (unat (b - i)) 1 = 0)"
  shows "chk = spec_check LENGTH('w) (window_abs w b) (unat i)"
  using assms
  by (auto simp: window_abs_def and_exp_eq_0_iff_not_bit unat_diff not_less word_less_nat_alt word_le_nat_alt)

lemma window_accept_ahead:
  fixes w :: "'w::len word"
  assumes "b < i"
  shows "window_abs ((if unat (i - b) \<ge> LENGTH('w) then 0 else push_bit (unat (i - b)) w) OR 1) i
     = spec_accept LENGTH('w) (window_abs w b) (unat i)"
  using assms
  by (auto simp: window_abs_def unat_diff less_imp_le word_less_nat_alt bit_simps)

lemma window_accept_within:
  fixes w :: "'w::len word"
  assumes "\<not> b < i"
  shows "window_abs (if unat (b - i) < LENGTH('w) then w OR push_bit (unat (b - i)) 1 else w) b
     = spec_accept LENGTH('w) (window_abs w b) (unat i)"
  using assms
  by (auto simp: window_abs_def unat_diff not_less word_le_nat_alt bit_or_exp_iff)

abbreviation rtp_window :: "srtp_context \<Rightarrow> window" where
  "rtp_window c \<equiv> window_abs (replay_window c) (replay_window_base c)"

abbreviation srtcp_window :: "srtp_context \<Rightarrow> window" where
  "srtcp_window c \<equiv> window_abs (srtcp_replay_window c) (srtcp_replay_window_base c)"

lemma check_replay_window: "check_replay c i = spec_check 128 (rtp_window c) (unat i)"
  using window_check [of "check_replay c i" "replay_window_base c" i "replay_window c"]
  by (simp add: check_replay_def Let_def word_le_nat_alt)

lemma accept_replay_window: "rtp_window (accept_replay c i) = spec_accept 128 (rtp_window c) (unat i)"
  using window_accept_ahead [of "replay_window_base c" i "replay_window c"]
    window_accept_within [of "replay_window_base c" i "replay_window c"]
  by (auto simp: accept_replay_def Let_def word_le_nat_alt word_less_nat_alt not_le not_less
      split: if_splits)

lemma check_srtcp_replay_window:
  "check_srtcp_replay c i = spec_check 64 (srtcp_window c) (unat i)"
  using window_check [of "check_srtcp_replay c i" "srtcp_replay_window_base c" i "srtcp_replay_window c"]
  by (simp add: check_srtcp_replay_def Let_def word_le_nat_alt)

lemma accept_srtcp_replay_window:
  "srtcp_window (accept_srtcp_replay c i) = spec_accept 64 (srtcp_window c) (unat i)"
  using window_accept_ahead [of "srtcp_replay_window_base c" i "srtcp_replay_window c"]
    window_accept_within [of "srtcp_replay_window_base c" i "srtcp_replay_window c"]
  by (auto simp: accept_srtcp_replay_def Let_def word_le_nat_alt word_less_nat_alt not_le not_less
      split: if_splits)

interpretation rtp_guard: replay_guard check_replay accept_replay rtp_window 128
  by unfold_locales (simp_all add: check_replay_window accept_replay_window)

interpretation srtcp_guard: replay_guard check_srtcp_replay accept_srtcp_replay srtcp_window 64
  by unfold_locales (simp_all add: check_srtcp_replay_window accept_srtcp_replay_window)

section \<open>Properties of the windows\<close>

text \<open>C11: the RTP replay window of the code is the abstract window of the 128 latest indices:
  the bit test and the shifting update compute exactly membership in, and insertion into, the set
  of indices seen.\<close>

theorem replay_window_refines:
  "check_replay c i = spec_check 128 (rtp_window c) (unat i)
   \<and> rtp_window (accept_replay c i) = spec_accept 128 (rtp_window c) (unat i)"
  by (simp add: check_replay_window accept_replay_window)

end
