(* ===== verification/Srtp_Crypt.thy ===== *)
theory Srtp_Crypt
  imports Srtp
begin

text \<open>
  Facts on the counter-mode cipher, the header length and the packet index that the SRTP
  properties rest on. The block cipher is any function from a key and a block to a block of
  16 bytes (\<open>block_cipher\<close>), the MAC any function to 20 bytes (\<open>mac20\<close>).
\<close>

definition block_cipher :: "(bytes \<Rightarrow> bytes \<Rightarrow> bytes) \<Rightarrow> bool" where
  "block_cipher aes \<longleftrightarrow> (\<forall>k b. length (aes k b) = 16)"

definition mac20 :: "(bytes \<Rightarrow> bytes \<Rightarrow> bytes) \<Rightarrow> bool" where
  "mac20 hmac \<longleftrightarrow> (\<forall>k m. length (hmac k m) = 20)"

section \<open>The keystream\<close>

lemma length_xor_bytes [simp]: "length (xor_bytes a b) = min (length a) (length b)"
  by (simp add: xor_bytes_def)

lemma xor_bytes_twice: "length a \<le> length k \<Longrightarrow> xor_bytes (xor_bytes a k) k = a"
proof (induction a arbitrary: k)
  case (Cons x xs)
  then show ?case by (cases k) (simp_all add: xor_bytes_def xor.assoc)
qed (simp add: xor_bytes_def)

lemma length_cm_blocks [simp]:
  "(\<And>b. length (E b) = 16) \<Longrightarrow> length (cm_blocks E iv n i d) = length d"
  by (induction n arbitrary: i d) simp_all

lemma cm_blocks_Nil: "cm_blocks E iv n i [] = []"
  by (induction n arbitrary: i) (simp_all add: xor_bytes_def)

lemma cm_blocks_involution:
  assumes E: "\<And>b. length (E b) = 16"
  shows "cm_blocks E iv n i (cm_blocks E iv n i d) = d"
proof (induction n arbitrary: i d)
  case (Suc n)
  let ?k = "E (counter_block iv i)"
  let ?a = "xor_bytes (take 16 d) ?k"
  have undo: "xor_bytes ?a ?k = take 16 d"
    by (rule xor_bytes_twice) (simp add: E)
  show ?case
  proof (cases "16 \<le> length d")
    case True
    then have len: "length ?a = 16" by (simp add: E)
    then have "take 16 (?a @ r) = ?a" "drop 16 (?a @ r) = r" for r
      by simp_all
    with Suc undo show ?thesis by (simp only: cm_blocks.simps append_take_drop_id)
  next
    case False
    then have "drop 16 d = []" "take 16 d = d" by simp_all
    with undo False E show ?thesis by (simp add: cm_blocks_Nil)
  qed
qed simp

lemma aes_cm_encrypt_length:
  "block_cipher aes \<Longrightarrow> aes_cm_encrypt aes k s ssrc i d = Ok e \<Longrightarrow> length e = length d"
  by (auto simp: aes_cm_encrypt_def block_cipher_def split: if_splits)

lemma aes_cm_encrypt_back:
  assumes "block_cipher aes" and "aes_cm_encrypt aes k s ssrc i d = Ok e"
  shows "aes_cm_encrypt aes k s ssrc i e = Ok d"
proof -
  have "length e = length d" using assms by (rule aes_cm_encrypt_length)
  moreover have "cm_blocks (aes k) iv n j (cm_blocks (aes k) iv n j d) = d" for iv n j
    using assms(1) by (intro cm_blocks_involution) (simp add: block_cipher_def)
  moreover have "e = d \<or> e = cm_blocks (aes k) (cm_iv s ssrc i) (blocks_needed (length d)) 0 d"
    using assms(2) by (simp add: aes_cm_encrypt_def split: if_splits)
  ultimately show ?thesis
    using assms(2) unfolding aes_cm_encrypt_def by (elim disjE) (simp_all split: if_splits)
qed

lemma aes_cm_encrypt_srtcp_back:
  assumes "block_cipher aes" and "aes_cm_encrypt_srtcp aes k s ssrc i d = Ok e"
  shows "aes_cm_encrypt_srtcp aes k s ssrc i e = Ok d \<and> length e = length d"
  using assms
  by (auto simp: aes_cm_encrypt_srtcp_def split: if_splits
      intro: aes_cm_encrypt_back aes_cm_encrypt_length)

lemma aes_cm_encrypt_small:
  "length d \<le> 1048576 \<Longrightarrow> is_ok (aes_cm_encrypt aes k s ssrc i d)"
  by (auto simp: aes_cm_encrypt_def blocks_needed_def is_ok_iff)

section \<open>Tags\<close>

lemma diff_or_mono: "d \<noteq> 0 \<Longrightarrow> diff_or a b d \<noteq> 0"
proof (induction a b d rule: diff_or.induct)
  case (1 x xs y ys d)
  then have "d OR (x XOR y) \<noteq> 0" by (metis or_eq_0_iff)
  with 1 show ?case by simp
qed simp_all

lemma xor_eq_0_iff_eq: "(x :: 'a::len word) XOR y = 0 \<longleftrightarrow> x = y"
  by (metis xor.right_neutral xor.left_commute xor_self_eq)

lemma diff_or_0_iff: "length a = length b \<Longrightarrow> diff_or a b 0 = 0 \<longleftrightarrow> a = b"
proof (induction a b rule: list_induct2)
  case (Cons x xs y ys)
  show ?case
  proof (cases "x = y")
    case True
    with Cons show ?thesis by simp
  next
    case False
    then have "x XOR y \<noteq> 0" by (simp add: xor_eq_0_iff_eq)
    with False show ?thesis by (simp add: diff_or_mono)
  qed
qed simp

lemma constant_time_eq_iff [simp]: "constant_time_eq a b \<longleftrightarrow> a = b"
  by (auto simp: constant_time_eq_def diff_or_0_iff)

lemma rtp_tag_len_le [simp]: "rtp_auth_tag_len s \<le> 20"
  by (cases s) (simp_all add: srtp_lens)

lemma length_rtp_tag [simp]:
  "mac20 hmac \<Longrightarrow> length (compute_rtp_auth_tag hmac k d v (rtp_auth_tag_len s)) = rtp_auth_tag_len s"
  by (simp add: compute_rtp_auth_tag_def mac20_def)

section \<open>The header\<close>

lemma rtp_header_len_ok:
  "rtp_header_len p = Ok h \<Longrightarrow> 12 \<le> h \<and> h \<le> length p"
  by (auto simp: rtp_header_len_def Let_def split: if_splits)

lemma nth_of_take: "take h p = take h q \<Longrightarrow> i < h \<Longrightarrow> p ! i = q ! i"
  by (metis nth_take)

lemma rtp_header_len_cong:
  assumes p: "rtp_header_len p = Ok h" and eq: "take h q = take h p" and "h \<le> length q"
  shows "rtp_header_len q = Ok h"
proof -
  have h: "12 \<le> h" using rtp_header_len_ok [OF p] by simp
  have q0: "q ! 0 = p ! 0" using nth_of_take [OF eq, of 0] h by simp
  let ?l = "12 + unat (p ! 0 AND 0x0F) * 4"
  have "rd16 q (?l + 2) = rd16 p (?l + 2)" if "p ! 0 AND 0x10 \<noteq> 0"
  proof -
    have "?l + 4 \<le> h"
      using p that by (auto simp: rtp_header_len_def Let_def split: if_splits)
    then show ?thesis
      using nth_of_take [OF eq, of "?l + 2"] nth_of_take [OF eq, of "?l + 3"]
      by (simp add: rd16_def eval_nat_numeral)
  qed
  with p q0 h assms(3) show ?thesis
    by (auto simp: rtp_header_len_def Let_def split: if_splits)
qed

lemma header_fields_cong:
  assumes "take h q = take h p" and "12 \<le> h"
  shows "rd16 q 2 = rd16 p 2" and "rd32 q 8 = rd32 p 8"
  using nth_of_take [OF assms(1), of 2] nth_of_take [OF assms(1), of 3]
    nth_of_take [OF assms(1), of 8] nth_of_take [OF assms(1), of 9]
    nth_of_take [OF assms(1), of 10] nth_of_take [OF assms(1), of 11] assms(2)
  by (simp_all add: rd16_def rd32_def)

section \<open>Packet indices\<close>

lemma bit_u16D: "bit (x :: u16) n \<Longrightarrow> n < 16"
  using bit_imp_le_length [of x n] by simp

lemma mask16_u64: "(0xFFFF :: u64) = mask 16"
  by (simp add: mask_eq_exp_minus_1)

lemma mask48_u64: "(0xFFFFFFFFFFFF :: u64) = mask 48"
  by (simp add: mask_eq_exp_minus_1)

lemma next_send_counter_low: "n < 16 \<Longrightarrow> bit (next_send_counter c seq) n = bit seq n"
  by (auto simp: next_send_counter_def mask16_u64 Let_def bit_simps)

lemma unat_packet_index: "unat (packet_index v seq) = unat v * 65536 + unat seq"
proof -
  have "packet_index v seq = push_bit 16 (ucast v) + ucast seq"
    unfolding packet_index_def by (rule disjunctive_add [symmetric]) (auto simp: bit_simps dest: bit_u16D)
  also have "\<dots> = of_nat (unat v * 65536 + unat seq)"
    by (simp add: push_bit_eq_mult)
  finally have "unat (packet_index v seq) = unat (of_nat (unat v * 65536 + unat seq) :: u64)"
    by (rule arg_cong)
  then have "unat (packet_index v seq) = (unat v * 65536 + unat seq) mod 2 ^ 64"
    by (simp only: unat_of_nat) simp
  moreover have "unat v * 65536 + unat seq < 2 ^ 64"
    using unat32_less [of v] unat16_less [of seq] by simp
  ultimately show ?thesis by simp
qed

lemma packet_index_split:
  assumes "\<And>n. n < 16 \<Longrightarrow> bit w n = bit seq n"
  shows "packet_index (ucast (drop_bit 16 (w AND 0xFFFFFFFFFFFF))) seq = w AND 0xFFFFFFFFFFFF"
  unfolding packet_index_def mask48_u64
proof (rule bit_eqI)
  fix n
  show "bit (push_bit 16 (ucast (ucast (drop_bit 16 (w AND mask 48)) :: u32)) OR ucast seq :: u64) n
      = bit (w AND mask 48) n"
  proof (cases "n < 16")
    case True
    then show ?thesis by (auto simp: bit_simps assms)
  next
    case False
    then show ?thesis by (auto simp: bit_simps dest: bit_u16D)
  qed
qed

section \<open>Trailers\<close>

lemma split_trailer:
  assumes "q = d @ m @ t"
  shows "take (length q - length t - length m) q = d" and "drop (length q - length t) q = t"
  by (simp_all add: assms)

end
