(* ===== verification/Srtp_Props.thy ===== *)
theory Srtp_Props
  imports Srtp_Replay Srtp_Crypt
begin

text \<open>
  What an SRTP context promises: the sender never reuses a keystream index, the receiver
  undoes the sender and delivers an index at most once, the rollover counter is estimated
  correctly within half the sequence space.
\<close>

section \<open>The sender\<close>

lemma protect_rtp_OkE:
  assumes "protect_rtp aes hmac c p = (c', Ok out)"
  obtains h payload where
    "rtp_header_len p = Ok h"
    "packets_encrypted c < KEY_LIFETIME_MAX"
    "last_sent_index c' = next_send_counter c (rd16 p 2) AND 0xFFFFFFFFFFFF"
    "packets_encrypted c > 0 \<Longrightarrow> last_sent_index c < last_sent_index c'"
    "packets_encrypted c' = packets_encrypted c + 1"
    "aes_cm_encrypt aes (enc_key (rtp_keys c)) (salt (rtp_keys c)) (rd32 p 8) (last_sent_index c')
       (drop h p) = Ok payload"
    "out = take h p @ payload @ (case mki c of None \<Rightarrow> [] | Some m \<Rightarrow> m)
       @ compute_rtp_auth_tag hmac (auth_key (rtp_keys c)) (take h p @ payload)
           (ucast (drop_bit 16 (last_sent_index c'))) (rtp_auth_tag_len (suite c))"
  using assms
  by (auto simp: protect_rtp_def Let_def not_le split: if_splits outcome.splits option.splits)

lemma protect_rtp_failed:
  "protect_rtp aes hmac c p = (c', r) \<Longrightarrow> \<not> is_ok r \<Longrightarrow>
     packets_encrypted c' = packets_encrypted c \<and> last_sent_index c' = last_sent_index c
     \<or> r = Panic"
  by (auto simp: protect_rtp_def Let_def aes_cm_encrypt_def split: if_splits outcome.splits)

text \<open>The packets offered to one sending context in turn, up to the first panic, and the packet
  index each successful one is encrypted under.\<close>

primrec sent_indices :: "(bytes \<Rightarrow> bytes \<Rightarrow> bytes) \<Rightarrow> (bytes \<Rightarrow> bytes \<Rightarrow> bytes) \<Rightarrow> srtp_context \<Rightarrow> bytes list
    \<Rightarrow> u64 list" where
  "sent_indices aes hmac c [] = []"
| "sent_indices aes hmac c (p # ps) =
     (case protect_rtp aes hmac c p of
        (c', Ok _) \<Rightarrow> last_sent_index c' # sent_indices aes hmac c' ps
      | (c', Err _) \<Rightarrow> sent_indices aes hmac c' ps
      | (c', Panic) \<Rightarrow> [])"

lemma lifetime_no_wrap: "(n :: u64) < KEY_LIFETIME_MAX \<Longrightarrow> n + 1 > 0"
proof (rule ccontr)
  assume n: "n < KEY_LIFETIME_MAX" and "\<not> n + 1 > 0"
  then have "n = - 1" by (simp add: eq_neg_iff_add_eq_0 word_gt_0)
  with n show False by (simp add: KEY_LIFETIME_MAX_def)
qed

lemma sent_indices_above:
  "packets_encrypted c > 0 \<Longrightarrow> i \<in> set (sent_indices aes hmac c ps) \<Longrightarrow> last_sent_index c < i"
proof (induction ps arbitrary: c)
  case (Cons p ps)
  obtain c' r where step: "protect_rtp aes hmac c p = (c', r)" by fastforce
  show ?case
  proof (cases r)
    case (Ok out)
    with step have "protect_rtp aes hmac c p = (c', Ok out)" by simp
    then have "last_sent_index c < last_sent_index c'" "packets_encrypted c' > 0"
      using Cons.prems(1) by (auto elim!: protect_rtp_OkE simp: lifetime_no_wrap)
    with Cons step Ok show ?thesis by fastforce
  next
    case (Err e)
    with step have "packets_encrypted c' = packets_encrypted c" "last_sent_index c' = last_sent_index c"
      using protect_rtp_failed by fastforce+
    with Cons.IH [of c'] Cons.prems step Err show ?thesis by simp
  next
    case Panic
    with Cons.prems step show ?thesis by simp
  qed
qed simp

lemma sent_indices_sorted: "sorted_wrt (<) (sent_indices aes hmac c ps)"
proof (induction ps arbitrary: c)
  case (Cons p ps)
  obtain c' r where step: "protect_rtp aes hmac c p = (c', r)" by fastforce
  show ?case
  proof (cases r)
    case (Ok out)
    with step have "protect_rtp aes hmac c p = (c', Ok out)" by simp
    then have "packets_encrypted c' > 0"
      by (auto elim!: protect_rtp_OkE simp: lifetime_no_wrap)
    with Cons step Ok sent_indices_above show ?thesis by fastforce
  qed (use Cons step in simp_all)
qed simp

text \<open>C1: one sending context never encrypts two packets under the same packet index: over any
  sequence of calls, errors included, the indices of the packets that are sent strictly increase,
  so no AES-CM keystream is reused.\<close>

theorem no_keystream_reuse:
  "sorted_wrt (<) (sent_indices aes hmac c ps) \<and> distinct (sent_indices aes hmac c ps)"
  using sent_indices_sorted [of aes hmac c ps] by (simp add: strict_sorted_iff)

section \<open>The rollover counter\<close>

lemma update_roc_recv_window [simp]:
  "replay_window (update_roc_recv c q v) = replay_window c"
  "replay_window_base (update_roc_recv c q v) = replay_window_base c"
  "initialized (update_roc_recv c q v)"
  "rtp_keys (update_roc_recv c q v) = rtp_keys c"
  "suite (update_roc_recv c q v) = suite c"
  "mki_length (update_roc_recv c q v) = mki_length c"
  "current_recv_ssrc (update_roc_recv c q v) = current_recv_ssrc c"
  by (auto simp: update_roc_recv_def)

lemma accept_replay_frame [simp]:
  "initialized (accept_replay c i) = initialized c"
  "roc (accept_replay c i) = roc c"
  "s_l (accept_replay c i) = s_l c"
  "rtp_keys (accept_replay c i) = rtp_keys c"
  "suite (accept_replay c i) = suite c"
  "mki_length (accept_replay c i) = mki_length c"
  "current_recv_ssrc (accept_replay c i) = current_recv_ssrc c"
  by (auto simp: accept_replay_def Let_def)

text \<open>The highest 48-bit index received, as a number.\<close>

definition highest :: "srtp_context \<Rightarrow> int" where
  "highest c = int (unat (roc c)) * 65536 + int (unat (s_l c))"

lemma unat_u32_pred: "unat (w :: u32) > 0 \<Longrightarrow> unat (w - 1) = unat w - 1"
  by (rule unat_minus_one) auto

lemma unat_u16_diff: "(b :: u16) \<le> a \<Longrightarrow> unat (a - b) = unat a - unat b"
  by (rule unat_sub)

lemma near_step:
  "\<bar>d * 65536 + e\<bar> < 32768 \<Longrightarrow> - 65536 < e \<Longrightarrow> e < 65536 \<Longrightarrow> d = 0 \<or> d = 1 \<or> d = (- 1 :: int)"
  by arith

lemma estimate_roc_number:
  fixes seq :: u16 and H I :: int
  assumes "initialized c" and H: "H = highest c"
    and I: "I mod 65536 = int (unat seq)" "0 \<le> I" "I < 2 ^ 48" and near: "\<bar>I - H\<bar> < 32768"
  shows "int (unat (estimate_roc c seq)) = I div 65536"
proof -
  let ?v = "I div 65536" and ?r = "int (unat (roc c))" and ?s = "int (unat (s_l c))"
    and ?q = "int (unat seq)"
  have q: "?q < 65536" "?s < 65536" using unat16_less [of seq] unat16_less [of "s_l c"] by linarith+
  have split: "I = ?v * 65536 + ?q" using I(1) by (metis mult_div_mod_eq mult.commute)
  have v: "0 \<le> ?v" "?v < 4294967296" using I by simp_all
  have r: "?r < 4294967296" using unat32_less [of "roc c"] by linarith
  have near': "\<bar>(?v - ?r) * 65536 + (?q - ?s)\<bar> < 32768"
    using near split H by (simp add: highest_def algebra_simps)
  have "0 \<le> ?q" "0 \<le> ?s" by simp_all
  with q have e: "- 65536 < ?q - ?s" "?q - ?s < 65536" by linarith+
  consider "?v - ?r = 0" | "?v - ?r = 1" | "?v - ?r = - 1"
    using near_step [OF near' e] by blast
  then consider "?v = ?r" | "?v = ?r + 1" | "?v = ?r - 1"
    by cases (auto simp: algebra_simps)
  then show ?thesis
  proof cases
    case 1
    then have "\<bar>?q - ?s\<bar> < 32768" using near' by (simp only: diff_self mult_zero_left add_0)
    then have "unat seq - unat (s_l c) < 32768" "unat (s_l c) - unat seq < 32768" by linarith+
    then have "estimate_roc c seq = roc c"
      using assms(1)
      by (auto simp: estimate_roc_def Let_def word_less_nat_alt unat_u16_diff less_imp_le)
    with 1 show ?thesis by simp
  next
    case 2
    then have "(1 :: int) * 65536 + (?q - ?s) < 32768" using near' by (simp add: abs_less_iff)
    then have "unat (s_l c) - unat seq > 32768" by linarith
    then have "estimate_roc c seq = roc c + 1"
      using assms(1)
      by (auto simp: estimate_roc_def Let_def word_less_nat_alt unat_u16_diff less_imp_le)
    moreover have "unat (roc c + 1) = unat (roc c) + 1"
    proof -
      have "unat (roc c) + 1 < 4294967296" using 2 v by linarith
      then show ?thesis by (simp add: unat_word_ariths)
    qed
    ultimately show ?thesis using 2 by simp
  next
    case 3
    then have "- 32768 < (- 1 :: int) * 65536 + (?q - ?s)" using near' by (simp add: abs_less_iff)
    then have "unat seq - unat (s_l c) > 32768" by linarith
    then have "estimate_roc c seq = roc c - 1"
      using assms(1)
      by (auto simp: estimate_roc_def Let_def word_less_nat_alt unat_u16_diff less_imp_le)
    moreover have "unat (roc c - 1) = unat (roc c) - 1"
    proof (rule unat_u32_pred)
      show "unat (roc c) > 0" using 3 v by linarith
    qed
    moreover have "unat (roc c) > 0" using 3 v by linarith
    ultimately show ?thesis using 3 by (simp only: of_nat_diff)
  qed
qed

lemma estimate_roc_index:
  assumes "initialized c" and "I mod 65536 = int (unat seq)" and "0 \<le> I" and "I < 2 ^ 48"
    and "\<bar>I - highest c\<bar> < 32768"
  shows "int (unat (packet_index (estimate_roc c seq) seq)) = I"
proof -
  have "int (unat (estimate_roc c seq)) = I div 65536"
    using assms by (intro estimate_roc_number) auto
  then show ?thesis
    using assms(2) div_mult_mod_eq [of I 65536]
    by (simp only: unat_packet_index of_nat_add of_nat_mult of_nat_numeral)
qed

text \<open>the rollover counter of a received packet is estimated exactly as long as the packet is
  less than half the sequence space away from the highest one received: the 48-bit index of
  the sender is recovered from its low 16 bits, across wrap-arounds in both directions.\<close>

theorem estimate_roc_exact:
  assumes "initialized c" and "I mod 65536 = int (unat seq)" and "0 \<le> I" and "I < 2 ^ 48"
    and "\<bar>I - highest c\<bar> < 32768"
  shows "int (unat (packet_index (estimate_roc c seq) seq)) = I"
  using assms by (rule estimate_roc_index)

section \<open>The receiver\<close>

abbreviation srtp_seq :: "bytes \<Rightarrow> u16" where "srtp_seq p \<equiv> rd16 p 2"
abbreviation srtp_ssrc :: "bytes \<Rightarrow> u32" where "srtp_ssrc p \<equiv> rd32 p 8"

definition trailer_of :: "srtp_context \<Rightarrow> nat \<times> nat" where
  "trailer_of c = (rtp_auth_tag_len (suite c), case mki_length c of None \<Rightarrow> 0 | Some n \<Rightarrow> n)"

text \<open>The verdict on a packet, with the index and counter it would be accepted under.\<close>

definition verdict :: "(bytes \<Rightarrow> bytes \<Rightarrow> bytes) \<Rightarrow> srtp_context \<Rightarrow> bytes \<Rightarrow> bool \<times> u64 \<times> u32" where
  "verdict hmac c p =
     (let (t, m) = trailer_of c
      in rtp_authenticate hmac c (ssrc_changed c (srtp_ssrc p)) (take (length p - t - m) p)
           (drop (length p - t) p) (srtp_seq p))"

definition accepted_index :: "(bytes \<Rightarrow> bytes \<Rightarrow> bytes) \<Rightarrow> srtp_context \<Rightarrow> bytes \<Rightarrow> u64" where
  "accepted_index hmac c p = fst (snd (verdict hmac c p))"

lemma handle_error_frame [simp]:
  "replay_window (handle_unprotect_error c) = replay_window c"
  "replay_window_base (handle_unprotect_error c) = replay_window_base c"
  "initialized (handle_unprotect_error c) = initialized c"
  "current_recv_ssrc (handle_unprotect_error c) = current_recv_ssrc c"
  by (auto simp: handle_unprotect_error_def Let_def)

lemma check_replay_frame:
  "replay_window c = replay_window d \<Longrightarrow> replay_window_base c = replay_window_base d \<Longrightarrow>
     check_replay c = check_replay d"
  by (auto simp: check_replay_def fun_eq_iff)

lemma commit_recv_frame [simp]:
  "initialized (commit_recv c ch ssrc q v i)"
  "current_recv_ssrc (commit_recv c ch ssrc q v i) = Some ssrc"
  "rtp_keys (commit_recv c ch ssrc q v i) = rtp_keys c"
  "suite (commit_recv c ch ssrc q v i) = suite c"
  "mki_length (commit_recv c ch ssrc q v i) = mki_length c"
  by (simp_all add: commit_recv_def)

lemma commit_recv_blocks: "\<not> check_replay (commit_recv c ch ssrc q v i) i"
  by (simp add: commit_recv_def rtp_guard.accepted_blocked)

lemma commit_recv_stays:
  assumes "\<not> check_replay c j"
  shows "\<not> check_replay (commit_recv c False ssrc q v i) j"
proof -
  let ?d = "update_roc_recv (c\<lparr>current_recv_ssrc := Some ssrc\<rparr>) q v"
  have "check_replay ?d = check_replay c" by (rule check_replay_frame) simp_all
  with assms have "\<not> check_replay (accept_replay ?d i) j" by (simp add: rtp_guard.blocked_stays)
  then show ?thesis by (simp add: commit_recv_def)
qed

text \<open>Every way an unprotect call can go.\<close>

lemma unprotect_rtp_cases:
  assumes "unprotect_rtp aes hmac c p = (c', r)"
  obtains
    (short) "c' = handle_unprotect_error c" "r = rejected"
  | (replayed) "c' = c" "r = rejected"
  | (forged) "c' = handle_unprotect_error c" "r = rejected"
  | (unparsed) v where "verdict hmac c p = (True, accepted_index hmac c p, v)" "\<not> is_ok r"
      "initialized c \<Longrightarrow> \<not> ssrc_changed c (srtp_ssrc p) \<Longrightarrow>
         check_replay c (packet_index (estimate_roc c (srtp_seq p)) (srtp_seq p))"
      "c' = commit_recv c (ssrc_changed c (srtp_ssrc p)) (srtp_ssrc p) (srtp_seq p) v
              (accepted_index hmac c p)"
  | (accepted) v out where "verdict hmac c p = (True, accepted_index hmac c p, v)" "r = Ok out"
      "initialized c \<Longrightarrow> \<not> ssrc_changed c (srtp_ssrc p) \<Longrightarrow>
         check_replay c (packet_index (estimate_roc c (srtp_seq p)) (srtp_seq p))"
      "c' = (commit_recv c (ssrc_changed c (srtp_ssrc p)) (srtp_ssrc p) (srtp_seq p) v
              (accepted_index hmac c p))\<lparr>error_count := 0\<rparr>"
proof -
  obtain t m where tm: "trailer_of c = (t, m)" by fastforce
  obtain ok i v where vd: "verdict hmac c p = (ok, i, v)" by (metis prod_cases3)
  have i: "accepted_index hmac c p = i" by (simp add: accepted_index_def vd)
  have au: "rtp_authenticate hmac c (ssrc_changed c (srtp_ssrc p))
      (take (length p - t - m) p) (drop (length p - t) p) (srtp_seq p) = (ok, i, v)"
    using vd tm by (simp add: verdict_def)
  note au' = au [unfolded diff_diff_left]
  have t: "rtp_auth_tag_len (suite c) = t" "(case mki_length c of None \<Rightarrow> 0 | Some n \<Rightarrow> n) = m"
    using tm by (simp_all add: trailer_of_def)
  let ?ch = "ssrc_changed c (srtp_ssrc p)" and ?d = "take (length p - (t + m)) p"
  let ?idx = "packet_index (estimate_roc c (srtp_seq p)) (srtp_seq p)"
  let ?c1 = "commit_recv c ?ch (srtp_ssrc p) (srtp_seq p) v i"
  show ?thesis
  proof (cases "length p < 12 + (t + m)")
    case True
    with assms t short show ?thesis by (simp add: unprotect_rtp_def)
  next
    case long: False
    show ?thesis
    proof (cases "initialized c \<and> \<not> ?ch \<and> \<not> check_replay c ?idx")
      case True
      with assms t long replayed show ?thesis by (simp add: unprotect_rtp_def)
    next
      case fresh: False
      show ?thesis
      proof (cases ok)
        case False
        with assms t long fresh forged show ?thesis
          by (simp add: unprotect_rtp_def au')
      next
        case ok: True
        have run: "(case rtp_header_len ?d of
            Panic \<Rightarrow> (?c1, Panic) | Err e \<Rightarrow> (?c1, Err e)
          | Ok h \<Rightarrow> (case aes_cm_encrypt aes (enc_key (rtp_keys ?c1)) (salt (rtp_keys ?c1)) (srtp_ssrc p) i
                     (drop h ?d) of
                Panic \<Rightarrow> (?c1, Panic) | Err e \<Rightarrow> (?c1, Err e)
              | Ok payload \<Rightarrow> (?c1\<lparr>error_count := 0\<rparr>, Ok (take h ?d @ payload)))) = (c', r)"
          using assms t long fresh ok by (simp add: unprotect_rtp_def au' Let_def)
        have vd': "verdict hmac c p = (True, accepted_index hmac c p, v)"
          using vd i ok by simp
        show ?thesis
        proof (cases "is_ok r")
          case True
          then obtain out where out: "r = Ok out" by (auto simp: is_ok_iff)
          with run have "c' = ?c1\<lparr>error_count := 0\<rparr>" by (auto split: outcome.splits)
          with fresh i show ?thesis by (intro accepted [OF vd' out]) auto
        next
          case False
          with run have "c' = ?c1" by (auto split: outcome.splits)
          with fresh i show ?thesis by (intro unparsed [OF vd' False]) auto
        qed
      qed
    qed
  qed
qed

text \<open>The packets fed to one receiving context and the indices of those it delivers.\<close>

primrec delivered_indices :: "(bytes \<Rightarrow> bytes \<Rightarrow> bytes) \<Rightarrow> (bytes \<Rightarrow> bytes \<Rightarrow> bytes) \<Rightarrow> srtp_context
    \<Rightarrow> bytes list \<Rightarrow> u64 list" where
  "delivered_indices aes hmac c [] = []"
| "delivered_indices aes hmac c (p # ps) =
     (case unprotect_rtp aes hmac c p of
        (c', Ok _) \<Rightarrow> accepted_index hmac c p # delivered_indices aes hmac c' ps
      | (c', _) \<Rightarrow> delivered_indices aes hmac c' ps)"

definition one_ssrc :: "u32 \<Rightarrow> srtp_context \<Rightarrow> bytes list \<Rightarrow> bool" where
  "one_ssrc ssrc c ps \<longleftrightarrow>
     (current_recv_ssrc c = None \<or> current_recv_ssrc c = Some ssrc) \<and> (\<forall>p \<in> set ps. srtp_ssrc p = ssrc)"

lemma one_ssrc_unchanged: "one_ssrc ssrc c (p # ps) \<Longrightarrow> \<not> ssrc_changed c (srtp_ssrc p)"
  by (auto simp: one_ssrc_def ssrc_changed_def)

lemma unchanged_index:
  "\<not> ssrc_changed c (srtp_ssrc p) \<Longrightarrow>
     accepted_index hmac c p = packet_index (estimate_roc c (srtp_seq p)) (srtp_seq p)"
  by (auto simp: accepted_index_def verdict_def rtp_authenticate_def Let_def split: prod.splits)

lemma check_replay_error_count [simp]: "check_replay (c\<lparr>error_count := n\<rparr>) = check_replay c"
  by (rule check_replay_frame) simp_all

lemma check_replay_handle_error [simp]: "check_replay (handle_unprotect_error c) = check_replay c"
  by (rule check_replay_frame) simp_all

lemma unprotect_step:
  assumes "unprotect_rtp aes hmac c p = (c', r)" and "one_ssrc ssrc c (p # ps)"
  shows "one_ssrc ssrc c' ps"
    and "initialized c \<Longrightarrow> initialized c'"
    and "\<not> check_replay c i \<Longrightarrow> \<not> check_replay c' i"
    and "is_ok r \<Longrightarrow> initialized c' \<and> \<not> check_replay c' (accepted_index hmac c p)"
    and "is_ok r \<Longrightarrow> initialized c \<Longrightarrow> check_replay c (accepted_index hmac c p)"
proof -
  have ch: "\<not> ssrc_changed c (srtp_ssrc p)" using assms(2) by (rule one_ssrc_unchanged)
  note ix = unchanged_index [OF ch, of hmac]
  from assms show "one_ssrc ssrc c' ps"
    by (cases rule: unprotect_rtp_cases) (auto simp: one_ssrc_def)
  from assms(1) show "initialized c \<Longrightarrow> initialized c'"
    by (cases rule: unprotect_rtp_cases) auto
  from assms(1) show "\<not> check_replay c i \<Longrightarrow> \<not> check_replay c' i"
    by (cases rule: unprotect_rtp_cases) (auto simp: ch commit_recv_stays)
  from assms(1) show "is_ok r \<Longrightarrow> initialized c' \<and> \<not> check_replay c' (accepted_index hmac c p)"
    by (cases rule: unprotect_rtp_cases) (auto simp: rejected_def commit_recv_blocks)
  from assms(1) show "is_ok r \<Longrightarrow> initialized c \<Longrightarrow> check_replay c (accepted_index hmac c p)"
    by (cases rule: unprotect_rtp_cases) (auto simp: rejected_def ch ix)
qed

lemma delivered_passed:
  assumes "one_ssrc ssrc c ps" and "initialized c" and "i \<in> set (delivered_indices aes hmac c ps)"
  shows "check_replay c i"
  using assms
proof (induction ps arbitrary: c)
  case (Cons p ps)
  obtain c' r where step: "unprotect_rtp aes hmac c p = (c', r)" by fastforce
  note st = unprotect_step [OF step Cons.prems(1)]
  have later: "i \<in> set (delivered_indices aes hmac c' ps) \<Longrightarrow> check_replay c i"
    using Cons.IH [OF st(1) st(2) [OF Cons.prems(2)]] st(3) by blast
  show ?case
  proof (cases "i \<in> set (delivered_indices aes hmac c' ps)")
    case False
    with Cons.prems(3) step have "i = accepted_index hmac c p" "is_ok r"
      by (auto split: outcome.splits)
    with st(5) Cons.prems(2) show ?thesis by simp
  qed (rule later)
qed simp

text \<open>C2: a receiver delivers each packet index at most once: over any sequence of packets of one
  SSRC (genuine, forged, replayed or malformed), the indices of the packets that are delivered are
  pairwise distinct.\<close>

theorem delivers_at_most_once:
  assumes "one_ssrc ssrc c ps"
  shows "distinct (delivered_indices aes hmac c ps)"
  using assms
proof (induction ps arbitrary: c)
  case (Cons p ps)
  obtain c' r where step: "unprotect_rtp aes hmac c p = (c', r)" by fastforce
  note st = unprotect_step [OF step Cons.prems]
  have "accepted_index hmac c p \<notin> set (delivered_indices aes hmac c' ps)" if "is_ok r"
    using delivered_passed [OF st(1)] st(4) [OF that] by blast
  with Cons.IH [OF st(1)] step show ?case by (cases r) auto
qed simp

lemma verdict_index: "verdict hmac c p = (True, i, v) \<Longrightarrow> i = packet_index v (srtp_seq p)"
  by (auto simp: verdict_def rtp_authenticate_def Let_def split: prod.splits if_splits)

lemma verdict_unchanged:
  "\<not> ssrc_changed c (srtp_ssrc p) \<Longrightarrow> verdict hmac c p = (True, i, v) \<Longrightarrow> v = estimate_roc c (srtp_seq p)"
  by (auto simp: verdict_def rtp_authenticate_def Let_def split: prod.splits if_splits)

lemma estimate_roc_frame:
  "roc c = roc d \<Longrightarrow> s_l c = s_l d \<Longrightarrow> initialized c = initialized d \<Longrightarrow> estimate_roc c = estimate_roc d"
  by (auto simp: estimate_roc_def fun_eq_iff)

lemma estimate_own: "initialized c \<Longrightarrow> s_l c = q \<Longrightarrow> estimate_roc c q = roc c"
  by (simp add: estimate_roc_def)

lemma estimate_after_commit:
  assumes "\<not> ch \<Longrightarrow> v = estimate_roc c q"
  shows "estimate_roc (commit_recv c ch ssrc q v i) q = v"
proof (cases "ch \<or> \<not> initialized c \<or> packet_index v q > packet_index (roc c) (s_l c)")
  case True
  then show ?thesis by (auto simp: commit_recv_def update_roc_recv_def estimate_own Let_def)
next
  case False
  then have "estimate_roc (commit_recv c ch ssrc q v i) q = estimate_roc c q"
    by (intro fun_cong [OF estimate_roc_frame]) (auto simp: commit_recv_def update_roc_recv_def Let_def)
  with False assms show ?thesis by simp
qed

text \<open>a packet that was delivered is rejected when it is received again, even when the first
  copy announced a new SSRC or was late.\<close>

theorem immediate_replay_rejected:
  assumes "unprotect_rtp aes hmac c p = (c', Ok out)"
  shows "snd (unprotect_rtp aes hmac c' p) = rejected"
proof -
  from assms obtain v where vd: "verdict hmac c p = (True, accepted_index hmac c p, v)"
    and c': "c' = (commit_recv c (ssrc_changed c (srtp_ssrc p)) (srtp_ssrc p) (srtp_seq p) v
              (accepted_index hmac c p))\<lparr>error_count := 0\<rparr>"
    by (cases rule: unprotect_rtp_cases) (auto simp: rejected_def)
  have "estimate_roc c' (srtp_seq p) = v"
    using estimate_after_commit [of "ssrc_changed c (srtp_ssrc p)" v c "srtp_seq p"]
      verdict_unchanged [OF _ vd] estimate_roc_frame [of c' _]
    by (simp add: c' estimate_roc_def)
  then have blocked: "\<not> check_replay c' (packet_index (estimate_roc c' (srtp_seq p)) (srtp_seq p))"
    using verdict_index [OF vd] commit_recv_blocks by (simp add: c')
  have init: "initialized c'" "\<not> ssrc_changed c' (srtp_ssrc p)"
    by (simp_all add: c' ssrc_changed_def)
  obtain c2 r where r: "unprotect_rtp aes hmac c' p = (c2, r)" by fastforce
  then have "r = rejected"
    by (cases rule: unprotect_rtp_cases) (use blocked init in auto)
  with r show ?thesis by simp
qed

section \<open>Sender and receiver together\<close>

lemma protect_rtp_frame:
  "protect_rtp aes hmac c p = (c', r) \<Longrightarrow>
     rtp_keys c' = rtp_keys c \<and> suite c' = suite c \<and> mki c' = mki c"
  by (auto simp: protect_rtp_def Let_def split: if_splits outcome.splits)

lemma sent_index_split:
  assumes "protect_rtp aes hmac c p = (c', Ok q)"
  shows "packet_index (ucast (drop_bit 16 (last_sent_index c'))) (srtp_seq p) = last_sent_index c'"
proof -
  have "last_sent_index c' = next_send_counter c (srtp_seq p) AND 0xFFFFFFFFFFFF"
    using assms by (auto elim: protect_rtp_OkE)
  then show ?thesis by (simp only: packet_index_split [OF next_send_counter_low])
qed

definition paired :: "srtp_context \<Rightarrow> srtp_context \<Rightarrow> bool" where
  "paired s r \<longleftrightarrow> rtp_keys r = rtp_keys s \<and> suite r = suite s \<and> mki_length r = map_option length (mki s)"

lemma unprotect_protected:
  assumes ax: "block_cipher aes" "mac20 hmac"
    and prot: "protect_rtp aes hmac s p = (s', Ok q)" and pair: "paired s r"
    and ssrc: "\<not> ssrc_changed r (srtp_ssrc p)"
    and roc: "estimate_roc r (srtp_seq p) = ucast (drop_bit 16 (last_sent_index s'))"
    and fresh: "initialized r \<Longrightarrow> check_replay r (last_sent_index s')"
  shows "unprotect_rtp aes hmac r q =
     ((commit_recv r False (srtp_ssrc p) (srtp_seq p)
         (ucast (drop_bit 16 (last_sent_index s'))) (last_sent_index s'))\<lparr>error_count := 0\<rparr>, Ok p)"
proof -
  let ?i = "last_sent_index s'" and ?t = "rtp_auth_tag_len (suite s)"
  let ?v = "ucast (drop_bit 16 ?i) :: u32" and ?m = "case mki s of None \<Rightarrow> [] | Some m \<Rightarrow> m"
  from prot obtain h payload where hp: "rtp_header_len p = Ok h"
    and enc: "aes_cm_encrypt aes (enc_key (rtp_keys s)) (salt (rtp_keys s)) (srtp_ssrc p) ?i (drop h p)
         = Ok payload"
    and q: "q = take h p @ payload @ ?m
         @ compute_rtp_auth_tag hmac (auth_key (rtp_keys s)) (take h p @ payload) ?v ?t"
    by (auto elim: protect_rtp_OkE)
  let ?d = "take h p @ payload"
  have h: "12 \<le> h" "h \<le> length p" using rtp_header_len_ok [OF hp] by simp_all
  have tl: "length (compute_rtp_auth_tag hmac (auth_key (rtp_keys s)) ?d ?v ?t) = ?t"
    by (rule length_rtp_tag [OF ax(2)])
  have ml: "(case mki_length r of None \<Rightarrow> 0 | Some n \<Rightarrow> n) = length ?m"
    using pair by (cases "mki s") (simp_all add: paired_def)
  note pre = take_of_take_append [OF h(2)]
  have hq: "take h q = take h p" "take h ?d = take h p" by (simp_all only: q pre)
  have fields: "srtp_seq q = srtp_seq p" "srtp_ssrc q = srtp_ssrc p"
    using header_fields_cong [OF hq(1) h(1)] by simp_all
  have hd: "rtp_header_len ?d = Ok h"
    by (rule rtp_header_len_cong [OF hp hq(2)]) (use h in simp)
  have dec: "aes_cm_encrypt aes (enc_key (rtp_keys s)) (salt (rtp_keys s)) (srtp_ssrc p) ?i payload
      = Ok (drop h p)"
    by (rule aes_cm_encrypt_back [OF ax(1) enc])
  have len: "length q = length ?d + length ?m + ?t" using q tl by simp
  have q': "q = ?d @ ?m @ compute_rtp_auth_tag hmac (auth_key (rtp_keys s)) ?d ?v ?t"
    using q by simp
  have data: "take (length q - ?t - length ?m) q = ?d" "drop (length q - ?t) q =
      compute_rtp_auth_tag hmac (auth_key (rtp_keys s)) ?d ?v ?t"
    using split_trailer [OF q'] by (simp_all only: tl)
  have auth: "rtp_authenticate hmac r False ?d
      (compute_rtp_auth_tag hmac (auth_key (rtp_keys s)) ?d ?v ?t) (srtp_seq p) = (True, ?i, ?v)"
    using pair by (simp add: rtp_authenticate_def paired_def roc sent_index_split [OF prot])
  have "\<not> length q < 12 + (?t + length ?m)" using len h by simp
  moreover have "rtp_keys r = rtp_keys s" "suite r = suite s" using pair by (simp_all add: paired_def)
  moreover have "\<not> (initialized r \<and> \<not> check_replay r ?i)" using fresh by blast
  ultimately show ?thesis
    using ssrc
    by (simp add: unprotect_rtp_def ml fields data auth roc sent_index_split [OF prot]
        hd h dec Let_def del: diff_diff_left) blast
qed

text \<open>C12: the receiver undoes the sender. A packet that the sending context protects is delivered
  unchanged by a receiving context with the same keys, suite and MKI, whenever the receiver's
  rollover estimate agrees with the sender's index and the index is not one it has seen.\<close>

theorem unprotect_inverts_protect:
  assumes "block_cipher aes" and "mac20 hmac"
    and "protect_rtp aes hmac s p = (s', Ok q)" and "paired s r"
    and "\<not> ssrc_changed r (srtp_ssrc p)"
    and "estimate_roc r (srtp_seq p) = ucast (drop_bit 16 (last_sent_index s'))"
    and "initialized r \<Longrightarrow> check_replay r (last_sent_index s')"
  shows "snd (unprotect_rtp aes hmac r q) = Ok p"
  using unprotect_protected [OF assms] by simp

text \<open>A channel: each packet is protected by the sender and, if that succeeds, unprotected by the
  receiver at once. The result lists what the receiver returned.\<close>

primrec channel :: "(bytes \<Rightarrow> bytes \<Rightarrow> bytes) \<Rightarrow> (bytes \<Rightarrow> bytes \<Rightarrow> bytes) \<Rightarrow> srtp_context
    \<Rightarrow> srtp_context \<Rightarrow> bytes list \<Rightarrow> bytes res list" where
  "channel aes hmac s r [] = []"
| "channel aes hmac s r (p # ps) =
     (case protect_rtp aes hmac s p of
        (s', Ok q) \<Rightarrow> (let (r', x) = unprotect_rtp aes hmac r q in x # channel aes hmac s' r' ps)
      | (s', Err _) \<Rightarrow> channel aes hmac s' r ps
      | (s', Panic) \<Rightarrow> [])"

primrec sent_packets :: "(bytes \<Rightarrow> bytes \<Rightarrow> bytes) \<Rightarrow> (bytes \<Rightarrow> bytes \<Rightarrow> bytes) \<Rightarrow> srtp_context
    \<Rightarrow> bytes list \<Rightarrow> bytes list" where
  "sent_packets aes hmac s [] = []"
| "sent_packets aes hmac s (p # ps) =
     (case protect_rtp aes hmac s p of
        (s', Ok _) \<Rightarrow> p # sent_packets aes hmac s' ps
      | (s', Err _) \<Rightarrow> sent_packets aes hmac s' ps
      | (s', Panic) \<Rightarrow> [])"

text \<open>The contexts agree: the receiver's highest index is the last one the sender used, and the
  replay window does not reach past it.\<close>

definition in_step :: "srtp_context \<Rightarrow> srtp_context \<Rightarrow> bool" where
  "in_step s r \<longleftrightarrow> paired s r \<and> packets_encrypted s > 0 \<and> initialized r
     \<and> packet_index (roc r) (s_l r) = last_sent_index s \<and> replay_window_base r \<le> last_sent_index s"

definition small_step :: "u64 \<Rightarrow> u64 \<Rightarrow> bool" where
  "small_step i j \<longleftrightarrow> unat j - unat i < 32768"

lemma sent_index_bound: "protect_rtp aes hmac s p = (s', Ok q) \<Longrightarrow> last_sent_index s' < 2 ^ 48"
proof -
  assume "protect_rtp aes hmac s p = (s', Ok q)"
  then have "last_sent_index s' = next_send_counter s (srtp_seq p) AND mask 48"
    by (auto elim!: protect_rtp_OkE simp: mask48_u64)
  also have "\<dots> < 2 ^ 48" by (rule and_mask_less_size) (simp add: word_size)
  finally show ?thesis .
qed

lemma commit_after_highest:
  assumes "initialized r" and "packet_index (roc r) (s_l r) < packet_index v q"
    and "replay_window_base r < packet_index v q"
  shows "packet_index (roc (commit_recv r False ssrc q v (packet_index v q)))
      (s_l (commit_recv r False ssrc q v (packet_index v q))) = packet_index v q"
    and "replay_window_base (commit_recv r False ssrc q v (packet_index v q)) = packet_index v q"
  using assms by (auto simp: commit_recv_def update_roc_recv_def accept_replay_def Let_def)

lemma packet_index_inj: "packet_index v q = packet_index v' q \<Longrightarrow> v = v'"
proof -
  assume "packet_index v q = packet_index v' q"
  then have "unat v * 65536 + unat q = unat v' * 65536 + unat q"
    by (simp flip: unat_packet_index)
  then show ?thesis by (simp add: word_unat_eq_iff)
qed

lemma highest_packet_index: "highest c = int (unat (packet_index (roc c) (s_l c)))"
  by (simp add: highest_def unat_packet_index)

lemma in_step_estimate:
  assumes st: "in_step s r" and prot: "protect_rtp aes hmac s p = (s', Ok q)"
    and gap: "small_step (last_sent_index s) (last_sent_index s')"
  shows "estimate_roc r (srtp_seq p) = ucast (drop_bit 16 (last_sent_index s'))"
proof -
  let ?i = "last_sent_index s'" and ?v = "ucast (drop_bit 16 (last_sent_index s')) :: u32"
  have pi: "packet_index ?v (srtp_seq p) = ?i" by (rule sent_index_split [OF prot])
  have lt: "last_sent_index s < ?i"
    using prot st by (auto elim!: protect_rtp_OkE simp: in_step_def)
  have mod: "unat ?i mod 65536 = unat (srtp_seq p)"
    using unat16_less [of "srtp_seq p"]
    by (subst pi [symmetric]) (simp add: unat_packet_index)
  have bound: "unat ?i < 2 ^ 48"
    using sent_index_bound [OF prot] by (simp add: word_less_nat_alt)
  have hi: "highest r = int (unat (last_sent_index s))"
    using st by (simp add: highest_packet_index in_step_def)
  have near: "\<bar>int (unat ?i) - highest r\<bar> < 32768"
    using lt gap unfolding hi small_step_def word_less_nat_alt by linarith
  have "int (unat (packet_index (estimate_roc r (srtp_seq p)) (srtp_seq p))) = int (unat ?i)"
  proof (rule estimate_roc_index)
    show "initialized r" using st by (simp add: in_step_def)
    show "int (unat ?i) mod 65536 = int (unat (srtp_seq p))"
      using mod by (metis of_nat_mod of_nat_numeral)
    show "int (unat ?i) < 2 ^ 48"
      using bound by (simp only: of_nat_less_numeral_power_cancel_iff)
  qed (use near in auto)
  then have "packet_index (estimate_roc r (srtp_seq p)) (srtp_seq p) = packet_index ?v (srtp_seq p)"
    by (simp only: of_nat_eq_iff pi word_unat_eq_iff)
  then show ?thesis by (rule packet_index_inj)
qed

lemma channel_step:
  assumes ax: "block_cipher aes" "mac20 hmac" and st: "in_step s r"
    and prot: "protect_rtp aes hmac s p = (s', Ok q)"
    and gap: "small_step (last_sent_index s) (last_sent_index s')"
    and ssrc: "current_recv_ssrc r = Some (srtp_ssrc p)"
  obtains r' where "unprotect_rtp aes hmac r q = (r', Ok p)" "in_step s' r'"
    "current_recv_ssrc r' = Some (srtp_ssrc p)"
proof -
  let ?i = "last_sent_index s'" and ?v = "ucast (drop_bit 16 (last_sent_index s')) :: u32"
  let ?r = "(commit_recv r False (srtp_ssrc p) (srtp_seq p) ?v ?i)\<lparr>error_count := 0\<rparr>"
  have pi: "packet_index ?v (srtp_seq p) = ?i" by (rule sent_index_split [OF prot])
  have lt: "last_sent_index s < ?i" "packets_encrypted s' > 0"
    using prot st by (auto elim!: protect_rtp_OkE simp: in_step_def lifetime_no_wrap)
  have r: "paired s r" "initialized r" "packet_index (roc r) (s_l r) < ?i" "replay_window_base r < ?i"
    using st lt by (auto simp: in_step_def)
  have "unprotect_rtp aes hmac r q = (?r, Ok p)"
    using unprotect_protected [OF ax prot r(1) _ in_step_estimate [OF st prot gap]] r(4) ssrc
    by (simp add: ssrc_changed_def check_replay_def)
  moreover have "in_step s' ?r"
    using commit_after_highest [of r ?v "srtp_seq p" "srtp_ssrc p"] r lt protect_rtp_frame [OF prot]
    by (simp add: in_step_def paired_def pi)
  moreover have "current_recv_ssrc ?r = Some (srtp_ssrc p)" by simp
  ultimately show ?thesis by (rule that)
qed

lemma channel_in_step:
  assumes ax: "block_cipher aes" "mac20 hmac" and "in_step s r"
    and "current_recv_ssrc r = Some ssrc" and "\<forall>p \<in> set ps. srtp_ssrc p = ssrc"
    and "successively small_step (last_sent_index s # sent_indices aes hmac s ps)"
  shows "channel aes hmac s r ps = map Ok (sent_packets aes hmac s ps)"
  using assms(3-)
proof (induction ps arbitrary: s r)
  case (Cons p ps)
  obtain s' x where prot: "protect_rtp aes hmac s p = (s', x)" by fastforce
  show ?case
  proof (cases x)
    case (Ok q)
    note prot' = prot [unfolded Ok]
    have gap: "small_step (last_sent_index s) (last_sent_index s')"
      "successively small_step (last_sent_index s' # sent_indices aes hmac s' ps)"
      using Cons.prems(4) prot Ok by simp_all
    have sp: "current_recv_ssrc r = Some (srtp_ssrc p)" using Cons.prems by simp
    obtain r' where u: "unprotect_rtp aes hmac r q = (r', Ok p)" "in_step s' r'"
        "current_recv_ssrc r' = Some (srtp_ssrc p)"
      by (rule channel_step [OF ax Cons.prems(1) prot' gap(1) sp])
    have "channel aes hmac s' r' ps = map Ok (sent_packets aes hmac s' ps)"
      using Cons.prems u gap by (intro Cons.IH) auto
    with prot Ok u show ?thesis by simp
  next
    case (Err e)
    have "packets_encrypted s' = packets_encrypted s \<and> last_sent_index s' = last_sent_index s"
      using protect_rtp_failed [OF prot] Err by simp
    with Cons.prems prot Err have "in_step s' r"
      using protect_rtp_frame [OF prot] by (simp add: in_step_def paired_def)
    with Cons prot Err \<open>_ \<and> last_sent_index s' = _\<close> show ?thesis by simp
  qed (use prot in simp)
qed simp

section \<open>Fresh contexts\<close>

lemma from_crypto_fresh:
  assumes "from_crypto aes a = Ok c"
  shows "packets_encrypted c = 0 \<and> \<not> send_initialized c \<and> \<not> initialized c
     \<and> replay_window_base c = 0 \<and> current_recv_ssrc c = None
     \<and> mki c = ca_mki a \<and> mki_length c = ca_mki_length a"
  using assms by (auto simp: from_crypto_def with_mki_def split: if_splits)

lemma from_crypto_paired:
  assumes "from_crypto aes a = Ok c" and "ca_mki a = None \<Longrightarrow> ca_mki_length a = None"
  shows "paired c c"
  using assms
  by (auto simp: paired_def from_crypto_def with_mki_def split: if_splits option.splits)

lemma first_send_index:
  assumes "protect_rtp aes hmac s p = (s', Ok q)" and "\<not> send_initialized s"
  shows "last_sent_index s' = ucast (srtp_seq p)"
proof -
  have "last_sent_index s' = next_send_counter s (srtp_seq p) AND mask 48"
    using assms(1) by (auto elim!: protect_rtp_OkE simp: mask48_u64)
  also have "\<dots> = ucast (srtp_seq p)"
    unfolding next_send_counter_def using assms(2)
    by (intro bit_eqI) (auto simp: bit_simps dest: bit_u16D)
  finally show ?thesis .
qed

lemma first_step:
  assumes ax: "block_cipher aes" "mac20 hmac" and pair: "paired s r"
    and s: "packets_encrypted s = 0" "\<not> send_initialized s"
    and r: "\<not> initialized r" "replay_window_base r = 0" "current_recv_ssrc r = None"
    and prot: "protect_rtp aes hmac s p = (s', Ok q)"
  obtains r' where "unprotect_rtp aes hmac r q = (r', Ok p)" "in_step s' r'"
    "current_recv_ssrc r' = Some (srtp_ssrc p)"
proof -
  let ?i = "last_sent_index s'" and ?v = "ucast (drop_bit 16 (last_sent_index s')) :: u32"
  let ?r = "(commit_recv r False (srtp_ssrc p) (srtp_seq p) ?v ?i)\<lparr>error_count := 0\<rparr>"
  have pi: "packet_index ?v (srtp_seq p) = ?i" by (rule sent_index_split [OF prot])
  have v: "?v = 0"
    unfolding first_send_index [OF prot s(2)]
    by (intro bit_eqI) (auto simp: bit_simps dest: bit_u16D)
  have "unprotect_rtp aes hmac r q = (?r, Ok p)"
    by (rule unprotect_protected [OF ax prot pair])
      (use r v in \<open>simp_all add: ssrc_changed_def estimate_roc_def\<close>)
  moreover have "in_step s' ?r"
  proof -
    have "packets_encrypted s' > 0"
      using prot by (auto elim!: protect_rtp_OkE simp: lifetime_no_wrap)
    moreover have "packet_index (roc ?r) (s_l ?r) = ?i" "replay_window_base ?r \<le> ?i"
      using r(1,2) pi by (auto simp: commit_recv_def update_roc_recv_def accept_replay_def Let_def)
    ultimately show ?thesis
      using pair protect_rtp_frame [OF prot] by (simp add: in_step_def paired_def)
  qed
  moreover have "current_recv_ssrc ?r = Some (srtp_ssrc p)" by simp
  ultimately show ?thesis by (rule that)
qed

lemma failed_first_send:
  assumes "protect_rtp aes hmac s p = (s', Err e)" and "packets_encrypted s = 0"
  shows "s' = s"
  using assms by (auto simp: protect_rtp_def Let_def aes_cm_encrypt_def split: if_splits outcome.splits)

lemma channel_fresh:
  assumes ax: "block_cipher aes" "mac20 hmac" and pair: "paired s r"
    and s: "packets_encrypted s = 0" "\<not> send_initialized s"
    and r: "\<not> initialized r" "replay_window_base r = 0" "current_recv_ssrc r = None"
    and "\<forall>p \<in> set ps. srtp_ssrc p = ssrc"
    and "successively small_step (sent_indices aes hmac s ps)"
  shows "channel aes hmac s r ps = map Ok (sent_packets aes hmac s ps)"
  using assms(9-)
proof (induction ps)
  case (Cons p ps)
  obtain s' x where prot: "protect_rtp aes hmac s p = (s', x)" by fastforce
  show ?case
  proof (cases x)
    case (Ok q)
    obtain r' where u: "unprotect_rtp aes hmac r q = (r', Ok p)" "in_step s' r'"
        "current_recv_ssrc r' = Some (srtp_ssrc p)"
      by (rule first_step [OF ax pair s r prot [unfolded Ok]])
    have "channel aes hmac s' r' ps = map Ok (sent_packets aes hmac s' ps)"
      using Cons.prems u prot Ok by (intro channel_in_step [OF ax u(2,3)]) auto
    with prot Ok u show ?thesis by simp
  next
    case (Err e)
    with failed_first_send [of aes hmac s p s' e] prot s Cons show ?thesis by auto
  qed (use prot in simp)
qed simp

text \<open>C13: end to end, nothing is lost or changed. Two contexts made from the same crypto attribute
  form a channel that returns exactly the packets the sender accepted, in order, for one SSRC and
  any length of stream (rollovers included), as long as successive packet indices are less than
  half the sequence space apart.\<close>

theorem lossless_channel:
  assumes "block_cipher aes" and "mac20 hmac"
    and "from_crypto aes a = Ok c" and "ca_mki a = None \<Longrightarrow> ca_mki_length a = None"
    and "\<forall>p \<in> set ps. srtp_ssrc p = ssrc"
    and "successively small_step (sent_indices aes hmac c ps)"
  shows "channel aes hmac c c ps = map Ok (sent_packets aes hmac c ps)"
  using assms from_crypto_fresh [OF assms(3)] from_crypto_paired [OF assms(3,4)]
  by (intro channel_fresh) auto

section \<open>When a packet is accepted\<close>

definition decryptable :: "bytes \<Rightarrow> bool" where
  "decryptable d = (case rtp_header_len d of
       Ok h \<Rightarrow> 2 ^ 64 \<le> length (drop h d) + 15 \<or> blocks_needed (length (drop h d)) \<le> 65536
     | _ \<Rightarrow> False)"

lemma aes_cm_encrypt_ok_iff:
  "is_ok (aes_cm_encrypt aes k s ssrc i d) \<longleftrightarrow> 2 ^ 64 \<le> length d + 15 \<or> blocks_needed (length d) \<le> 65536"
  by (auto simp: aes_cm_encrypt_def is_ok_iff)

lemma unprotect_ok_iff:
  assumes tm: "trailer_of c = (t, m)"
  shows "is_ok (snd (unprotect_rtp aes hmac c p)) \<longleftrightarrow>
     12 + (t + m) \<le> length p
     \<and> (initialized c \<and> \<not> ssrc_changed c (srtp_ssrc p) \<longrightarrow>
          check_replay c (packet_index (estimate_roc c (srtp_seq p)) (srtp_seq p)))
     \<and> fst (verdict hmac c p) \<and> decryptable (take (length p - t - m) p)"
proof -
  obtain ok i v where vd: "verdict hmac c p = (ok, i, v)" by (metis prod_cases3)
  have au: "rtp_authenticate hmac c (ssrc_changed c (srtp_ssrc p))
      (take (length p - t - m) p) (drop (length p - t) p) (srtp_seq p) = (ok, i, v)"
    using vd tm by (simp add: verdict_def)
  have t: "rtp_auth_tag_len (suite c) = t" "(case mki_length c of None \<Rightarrow> 0 | Some n \<Rightarrow> n) = m"
    using tm by (simp_all add: trailer_of_def)
  let ?d = "take (length p - t - m) p" and ?ch = "ssrc_changed c (srtp_ssrc p)"
  let ?idx = "packet_index (estimate_roc c (srtp_seq p)) (srtp_seq p)"
  have dec: "decryptable ?d \<longleftrightarrow> (\<exists>h. rtp_header_len ?d = Ok h \<and>
       is_ok (aes_cm_encrypt aes k s ssrc j (drop h ?d)))" for k s ssrc j
    by (auto simp: decryptable_def aes_cm_encrypt_ok_iff split: outcome.splits)
  consider (short) "length p < 12 + (t + m)"
    | (seen) "\<not> length p < 12 + (t + m)" "initialized c \<and> \<not> ?ch \<and> \<not> check_replay c ?idx"
    | (auth) "\<not> length p < 12 + (t + m)" "\<not> (initialized c \<and> \<not> ?ch \<and> \<not> check_replay c ?idx)"
    by blast
  then show ?thesis
  proof cases
    case auth
    let ?c1 = "commit_recv c ?ch (srtp_ssrc p) (srtp_seq p) v i"
    have run: "unprotect_rtp aes hmac c p = (if \<not> ok then (handle_unprotect_error c, rejected)
        else (case rtp_header_len ?d of
            Panic \<Rightarrow> (?c1, Panic) | Err e \<Rightarrow> (?c1, Err e)
          | Ok h \<Rightarrow> (case aes_cm_encrypt aes (enc_key (rtp_keys ?c1)) (salt (rtp_keys ?c1)) (srtp_ssrc p) i
                     (drop h ?d) of
                Panic \<Rightarrow> (?c1, Panic) | Err e \<Rightarrow> (?c1, Err e)
              | Ok payload \<Rightarrow> (?c1\<lparr>error_count := 0\<rparr>, Ok (take h ?d @ payload)))))"
      using auth
      by (simp only: unprotect_rtp_def Let_def t au if_False prod.case simp_thms)
    show ?thesis
      unfolding run dec [of "enc_key (rtp_keys ?c1)" "salt (rtp_keys ?c1)" "srtp_ssrc p" i]
      using auth vd by (auto simp: rejected_def is_ok_iff split: outcome.splits)
  qed (simp_all add: unprotect_rtp_def t rejected_def)
qed

section \<open>Change of SSRC\<close>

lemma unprotect_keeps:
  assumes "unprotect_rtp aes hmac c p = (c', Ok x)"
  shows "trailer_of c' = trailer_of c" "rtp_keys c' = rtp_keys c" "suite c' = suite c"
    "current_recv_ssrc c' = Some (srtp_ssrc p)"
  using assms by (cases rule: unprotect_rtp_cases, auto simp: rejected_def trailer_of_def)+

lemma verdict_zero_roc:
  assumes "verdict hmac c p = (True, i, 0)"
    and "trailer_of d = trailer_of c" "rtp_keys d = rtp_keys c" "suite d = suite c"
    and "ssrc_changed d (srtp_ssrc p)"
  shows "fst (verdict hmac d p)"
proof -
  obtain t m where tm: "trailer_of c = (t, m)" by fastforce
  have "compute_rtp_auth_tag hmac (auth_key (rtp_keys c)) (take (length p - t - m) p) 0
      (rtp_auth_tag_len (suite c)) = drop (length p - t) p"
    using assms(1) tm
    by (auto simp: verdict_def rtp_authenticate_def Let_def split: if_splits)
  with tm assms(2-) show ?thesis by (simp add: verdict_def rtp_authenticate_def Let_def)
qed

text \<open>replay protection does not reach across a change of SSRC. Once a packet with another
  SSRC is accepted, any earlier packet of the old SSRC that was accepted under rollover counter 0
  is accepted again, although the context has delivered it: the check is skipped for a packet
  whose SSRC differs from the current one and is not made up after the reset.\<close>

theorem replay_after_ssrc_change:
  assumes first: "unprotect_rtp aes hmac c p = (c1, Ok x)"
    and zero: "accepted_index hmac c p = packet_index 0 (srtp_seq p)"
    and other: "unprotect_rtp aes hmac c1 p' = (c2, Ok y)" "srtp_ssrc p' \<noteq> srtp_ssrc p"
  shows "is_ok (snd (unprotect_rtp aes hmac c2 p))"
proof -
  obtain t m where tm: "trailer_of c = (t, m)" by fastforce
  note k1 = unprotect_keeps [OF first] and k2 = unprotect_keeps [OF other(1)]
  have tm2: "trailer_of c2 = (t, m)" using k1 k2 tm by simp
  obtain v where vd: "verdict hmac c p = (True, accepted_index hmac c p, v)"
    using first by (cases rule: unprotect_rtp_cases) (auto simp: rejected_def)
  with zero have "v = 0" using verdict_index [OF vd] packet_index_inj by metis
  have ch: "ssrc_changed c2 (srtp_ssrc p)" using other(2) k2 by (simp add: ssrc_changed_def)
  have "fst (verdict hmac c2 p)"
    by (rule verdict_zero_roc [OF vd [unfolded \<open>v = 0\<close>]]) (use k1 k2 ch in simp_all)
  moreover have "12 + (t + m) \<le> length p" "decryptable (take (length p - t - m) p)"
    using first unprotect_ok_iff [OF tm, of aes hmac p] by simp_all
  ultimately show ?thesis using ch by (simp add: unprotect_ok_iff [OF tm2])
qed

end
