(* ===== verification/Srtcp_Props.thy ===== *)
theory Srtcp_Props
  imports Srtp_Replay Srtp_Crypt
begin

text \<open>
  SRTCP: the sender's 31-bit index never repeats, the receiver inverts the sender, and an index
  is delivered at most once. Also the SDP crypto attribute: printing and parsing are inverse.
\<close>

section \<open>The SRTCP sender\<close>

lemma protect_rtcp_OkE:
  assumes "protect_rtcp aes hmac c p = (c', Ok out)"
  obtains payload where
    "8 \<le> length p" "srtcp_index c < 0x80000000"
    "c' = c\<lparr>srtcp_index := srtcp_index c + 1\<rparr>"
    "if length p > 8
     then aes_cm_encrypt_srtcp aes (enc_key (rtcp_keys c)) (salt (rtcp_keys c)) (rd32 p 4)
       (srtcp_index c) (drop 8 p) = Ok payload
     else payload = []"
    "out = take 8 p @ payload @ be32 (0x80000000 OR (srtcp_index c AND 0x7FFFFFFF))
       @ (case mki c of None \<Rightarrow> [] | Some m \<Rightarrow> m)
       @ take SRTCP_AUTH_TAG_LEN (hmac (auth_key (rtcp_keys c))
           (take 8 p @ payload @ be32 (0x80000000 OR (srtcp_index c AND 0x7FFFFFFF))))"
  using assms
  by (auto simp: protect_rtcp_def Let_def not_le not_less split: if_splits outcome.splits option.splits)

primrec srtcp_sent :: "(bytes \<Rightarrow> bytes \<Rightarrow> bytes) \<Rightarrow> (bytes \<Rightarrow> bytes \<Rightarrow> bytes) \<Rightarrow> srtp_context \<Rightarrow> bytes list
    \<Rightarrow> u32 list" where
  "srtcp_sent aes hmac c [] = []"
| "srtcp_sent aes hmac c (p # ps) =
     (case protect_rtcp aes hmac c p of
        (c', Ok _) \<Rightarrow> srtcp_index c # srtcp_sent aes hmac c' ps
      | (c', Err _) \<Rightarrow> srtcp_sent aes hmac c' ps
      | (c', Panic) \<Rightarrow> [])"

lemma u32_succ: "(i :: u32) < 0x80000000 \<Longrightarrow> unat (i + 1) = unat i + 1"
  by (simp add: unat_word_ariths word_less_nat_alt)

lemma protect_rtcp_index_mono:
  "protect_rtcp aes hmac c p = (c', r) \<Longrightarrow> srtcp_index c \<le> srtcp_index c'"
proof -
  assume p: "protect_rtcp aes hmac c p = (c', r)"
  have "srtcp_index c \<le> srtcp_index c + 1" if "\<not> 0x80000000 \<le> srtcp_index c"
  proof -
    have "srtcp_index c < 0x80000000" using that by (simp add: not_le)
    then show ?thesis by (simp add: word_le_nat_alt u32_succ)
  qed
  with p show ?thesis
    by (auto simp: protect_rtcp_def Let_def split: if_splits outcome.splits)
qed

lemma srtcp_sent_bounds:
  "i \<in> set (srtcp_sent aes hmac c ps) \<Longrightarrow> srtcp_index c \<le> i \<and> i < 0x80000000"
proof (induction ps arbitrary: c)
  case (Cons p ps)
  obtain c' r where step: "protect_rtcp aes hmac c p = (c', r)" by fastforce
  have mono: "srtcp_index c \<le> srtcp_index c'" by (rule protect_rtcp_index_mono [OF step])
  show ?case
  proof (cases "i \<in> set (srtcp_sent aes hmac c' ps)")
    case True
    with Cons.IH [OF True] mono show ?thesis by (meson order_trans)
  next
    case False
    with Cons.prems step obtain out where "r = Ok out" "i = srtcp_index c"
      by (auto split: outcome.splits)
    with step show ?thesis by (auto elim: protect_rtcp_OkE)
  qed
qed simp

lemma srtcp_sent_sorted: "sorted_wrt (<) (srtcp_sent aes hmac c ps)"
proof (induction ps arbitrary: c)
  case (Cons p ps)
  obtain c' r where step: "protect_rtcp aes hmac c p = (c', r)" by fastforce
  show ?case
  proof (cases r)
    case (Ok out)
    with step have "protect_rtcp aes hmac c p = (c', Ok out)" by simp
    then have "srtcp_index c < 0x80000000" "srtcp_index c' = srtcp_index c + 1"
      by (auto elim!: protect_rtcp_OkE)
    then have "srtcp_index c < srtcp_index c'" using u32_succ [of "srtcp_index c"]
      by (simp add: word_less_nat_alt)
    then have "srtcp_index c < i" if "i \<in> set (srtcp_sent aes hmac c' ps)" for i
      using srtcp_sent_bounds [OF that] by (meson less_le_trans)
    with Cons step Ok show ?thesis by simp
  qed (use Cons step in simp_all)
qed simp

text \<open>the SRTCP indices one context encrypts under strictly increase and fit in 31 bits; when
  they are used up, the sender refuses instead of wrapping.\<close>

theorem srtcp_index_unique:
  "sorted_wrt (<) (srtcp_sent aes hmac c ps)
   \<and> list_all (\<lambda>i. i < 0x80000000) (srtcp_sent aes hmac c ps)"
  using srtcp_sent_sorted srtcp_sent_bounds by (auto simp: list_all_iff)

theorem srtcp_index_exhausted:
  assumes "0x80000000 \<le> srtcp_index c" and "8 \<le> length p"
  shows "protect_rtcp aes hmac c p
    = (c, Err (Rtp ''SRTCP index overflow: 31-bit index space exhausted''))"
  using assms by (simp add: protect_rtcp_def)

section \<open>The SRTCP receiver\<close>

lemma e_index_bits:
  assumes "(i :: u32) < 0x80000000"
  shows "(0x80000000 OR (i AND 0x7FFFFFFF)) AND 0x7FFFFFFF = i"
    and "(0x80000000 OR (i AND 0x7FFFFFFF)) AND 0x80000000 \<noteq> 0"
proof -
  have m: "(0x7FFFFFFF :: u32) = mask 31" by (simp add: mask_eq_exp_minus_1)
  have top: "bit (0x80000000 :: u32) n \<longleftrightarrow> n = 31" for n
  proof -
    have "(0x80000000 :: u32) = 2 ^ 31" by simp
    then show ?thesis by (simp only: bit_exp_iff) auto
  qed
  have "i < 2 ^ 31" using assms by simp
  then have "i AND mask 31 = i" by (rule less_mask_eq)
  then have "bit i n \<Longrightarrow> n < 31" for n by (metis bit_and_iff bit_mask_iff)
  then show "(0x80000000 OR (i AND 0x7FFFFFFF)) AND 0x7FFFFFFF = i"
    unfolding m by (intro bit_eqI) (simp only: bit_or_iff bit_and_iff bit_mask_iff top, auto)
  have "bit ((0x80000000 OR (i AND 0x7FFFFFFF)) AND 0x80000000) 31"
    by (simp only: bit_or_iff bit_and_iff top) simp
  then show "(0x80000000 OR (i AND 0x7FFFFFFF)) AND 0x80000000 \<noteq> 0" by auto
qed

definition srtcp_paired :: "srtp_context \<Rightarrow> srtp_context \<Rightarrow> bool" where
  "srtcp_paired s r \<longleftrightarrow> rtcp_keys r = rtcp_keys s \<and> mki_length r = map_option length (mki s)"

text \<open>the SRTCP receiver undoes the sender: a protected report comes back unchanged at a
  receiver with the same keys and MKI that has not seen its index.\<close>

theorem unprotect_rtcp_inverts_protect:
  assumes ax: "block_cipher aes" "mac20 hmac"
    and prot: "protect_rtcp aes hmac s p = (s', Ok q)" and pair: "srtcp_paired s r"
    and fresh: "srtcp_replay_initialized r \<Longrightarrow> check_srtcp_replay r (ucast (srtcp_index s))"
  shows "snd (unprotect_rtcp aes hmac r q) = Ok p"
proof -
  let ?i = "srtcp_index s" and ?m = "case mki s of None \<Rightarrow> [] | Some m \<Rightarrow> m"
  let ?e = "0x80000000 OR (?i AND 0x7FFFFFFF)"
  from prot obtain payload where p8: "8 \<le> length p" and i: "?i < 0x80000000"
    and enc: "if length p > 8
       then aes_cm_encrypt_srtcp aes (enc_key (rtcp_keys s)) (salt (rtcp_keys s)) (rd32 p 4) ?i
         (drop 8 p) = Ok payload
       else payload = []"
    and q: "q = take 8 p @ payload @ be32 ?e @ ?m
       @ take SRTCP_AUTH_TAG_LEN (hmac (auth_key (rtcp_keys s)) (take 8 p @ payload @ be32 ?e))"
    by (elim protect_rtcp_OkE)
  let ?b = "take 8 p @ payload" and ?tag = "take SRTCP_AUTH_TAG_LEN
      (hmac (auth_key (rtcp_keys s)) (take 8 p @ payload @ be32 ?e))"
  let ?d = "?b @ be32 ?e"
  have assoc: "?d = take 8 p @ payload @ be32 ?e" by simp
  have tl: "length ?tag = SRTCP_AUTH_TAG_LEN" using ax(2) by (simp add: mac20_def srtp_lens)
  have q': "q = ?d @ ?m @ ?tag" using q by simp
  then have len: "length q = length ?d + length ?m + SRTCP_AUTH_TAG_LEN" using tl by simp
  have data: "take (length q - SRTCP_AUTH_TAG_LEN - length ?m) q = ?d"
      "drop (length q - SRTCP_AUTH_TAG_LEN) q = ?tag"
    using split_trailer [OF q'] by (simp_all only: tl)
  have ml: "(case mki_length r of None \<Rightarrow> 0 | Some n \<Rightarrow> n) = length ?m"
    using pair by (cases "mki s") (simp_all add: srtcp_paired_def)
  have keys: "rtcp_keys r = rtcp_keys s" using pair by (simp add: srtcp_paired_def)
  have hq: "take 8 ?b = take 8 p" "take 8 q = take 8 p" "drop 8 ?b = payload"
    by (simp_all only: q take_of_take_append [OF p8] drop_of_take_append [OF p8])
  have ssrc: "rd32 q 4 = rd32 p 4"
    using nth_of_take [OF hq(2), of 4] nth_of_take [OF hq(2), of 5]
      nth_of_take [OF hq(2), of 6] nth_of_take [OF hq(2), of 7]
    by (simp add: rd32_def)
  have ixs: "length ?d - SRTCP_INDEX_LEN = length ?b" by (simp add: srtp_lens)
  have e: "rd32 ?d (length ?b) = ?e" using rd32_append [of ?b ?e "[]"] by simp
  have tk: "take (length ?b) ?d = ?b" by (metis append_eq_conv_conj)
  have body: "(if length ?b > 8
      then aes_cm_encrypt_srtcp aes (enc_key (rtcp_keys s)) (salt (rtcp_keys s)) (rd32 p 4) ?i payload
      else Ok payload) = Ok (drop 8 p)"
  proof (cases "length p > 8")
    case True
    with enc have e: "aes_cm_encrypt_srtcp aes (enc_key (rtcp_keys s)) (salt (rtcp_keys s)) (rd32 p 4) ?i
        (drop 8 p) = Ok payload" by simp
    with True show ?thesis
      using aes_cm_encrypt_srtcp_back [OF ax(1) e] by simp
  qed (use enc p8 in simp)
  have "\<not> length q < 8 + SRTCP_INDEX_LEN + length ?m + SRTCP_AUTH_TAG_LEN"
    using len p8 by (simp add: srtp_lens)
  moreover have "\<not> (srtcp_replay_initialized r \<and> \<not> check_srtcp_replay r (ucast ?i))"
    using fresh by blast
  ultimately show ?thesis
    by (simp only: unprotect_rtcp_def Let_def ml data keys constant_time_eq_iff ixs e tk ssrc hq
        e_index_bits [OF i] body assoc [symmetric] simp_thms if_False if_True outcome.case snd_conv append_take_drop_id)
qed

section \<open>Deliveries\<close>

text \<open>The index a report carries, under the E flag.\<close>

definition report_index :: "srtp_context \<Rightarrow> bytes \<Rightarrow> u64" where
  "report_index c p =
     (let m = (case mki_length c of None \<Rightarrow> 0 | Some n \<Rightarrow> n);
          d = take (length p - SRTCP_AUTH_TAG_LEN - m) p
      in ucast (rd32 d (length d - SRTCP_INDEX_LEN) AND 0x7FFFFFFF))"

primrec reports_delivered :: "(bytes \<Rightarrow> bytes \<Rightarrow> bytes) \<Rightarrow> (bytes \<Rightarrow> bytes \<Rightarrow> bytes) \<Rightarrow> srtp_context
    \<Rightarrow> bytes list \<Rightarrow> u64 list" where
  "reports_delivered aes hmac c [] = []"
| "reports_delivered aes hmac c (p # ps) =
     (case unprotect_rtcp aes hmac c p of
        (c', Ok _) \<Rightarrow> report_index c p # reports_delivered aes hmac c' ps
      | (c', _) \<Rightarrow> reports_delivered aes hmac c' ps)"

lemma unprotect_rtcp_step:
  assumes "unprotect_rtcp aes hmac c p = (c', r)"
  shows "\<not> is_ok r \<Longrightarrow> c' = c"
    and "is_ok r \<Longrightarrow> c' = (accept_srtcp_replay c (report_index c p))\<lparr>srtcp_replay_initialized := True\<rparr>"
    and "is_ok r \<Longrightarrow> srtcp_replay_initialized c \<Longrightarrow> check_srtcp_replay c (report_index c p)"
  using assms
  by (auto simp: unprotect_rtcp_def report_index_def Let_def rejected_def is_ok_iff
      split: if_splits outcome.splits)

lemma srtcp_initialized_frame [simp]:
  "check_srtcp_replay (c\<lparr>srtcp_replay_initialized := b\<rparr>) = check_srtcp_replay c"
  by (auto simp: check_srtcp_replay_def fun_eq_iff)

lemma reports_checked:
  "srtcp_replay_initialized c \<Longrightarrow> i \<in> set (reports_delivered aes hmac c ps) \<Longrightarrow> check_srtcp_replay c i"
proof (induction ps arbitrary: c)
  case (Cons p ps)
  obtain c' r where step: "unprotect_rtcp aes hmac c p = (c', r)" by fastforce
  note st = unprotect_rtcp_step [OF step]
  show ?case
  proof (cases "is_ok r")
    case True
    then obtain out where r: "r = Ok out" by (auto simp: is_ok_iff)
    have "check_srtcp_replay c i" if "i \<in> set (reports_delivered aes hmac c' ps)"
      using Cons.IH [OF _ that] srtcp_guard.blocked_stays by (auto simp: st(2) [OF True])
    with Cons.prems step r st(3) [OF True] show ?thesis by auto
  next
    case False
    with Cons.prems step st(1) [OF False] Cons.IH show ?thesis by (cases r) auto
  qed
qed simp

text \<open>an SRTCP receiver delivers each report index at most once, whatever it is fed.\<close>

theorem srtcp_delivers_at_most_once:
  "distinct (reports_delivered aes hmac c ps)"
proof (induction ps arbitrary: c)
  case (Cons p ps)
  obtain c' r where step: "unprotect_rtcp aes hmac c p = (c', r)" by fastforce
  note st = unprotect_rtcp_step [OF step]
  show ?case
  proof (cases "is_ok r")
    case True
    then obtain out where r: "r = Ok out" by (auto simp: is_ok_iff)
    have "report_index c p \<notin> set (reports_delivered aes hmac c' ps)"
    proof
      assume "report_index c p \<in> set (reports_delivered aes hmac c' ps)"
      then have "check_srtcp_replay c' (report_index c p)"
        by (intro reports_checked) (simp_all add: st(2) [OF True])
      then show False
        by (simp add: st(2) [OF True] srtcp_guard.accepted_blocked)
    qed
    with Cons step r show ?thesis by simp
  next
    case False
    with Cons step st(1) [OF False] show ?thesis by (cases r) auto
  qed
qed simp

end
