(* ===== verification/Srtp_Sdes.thy ===== *)
theory Srtp_Sdes
  imports Srtp
begin

text \<open>
  The SDP crypto attribute of \<^verbatim>\<open>src/rtp/srtp.rs\<close>: printing an attribute and parsing the text
  gives the attribute back. Base64 is a pair of functions that satisfies \<open>base64_codec\<close>, the
  documented behaviour of the standard alphabet: decoding inverts encoding, and the alphabet
  holds neither white space nor the pipe character.
\<close>

definition base64_codec :: "(bytes \<Rightarrow> string) \<Rightarrow> (string \<Rightarrow> (string, bytes) outcome) \<Rightarrow> bool" where
  "base64_codec enc dec \<longleftrightarrow>
     (\<forall>k. dec (enc k) = Ok k \<and> list_all (\<lambda>x. \<not> is_ws x \<and> x \<noteq> CHR ''|'') (enc k))"

definition crypto_wf :: "crypto_attribute \<Rightarrow> bool" where
  "crypto_wf c \<longleftrightarrow> length (ca_master_key c) = 16 \<and> length (ca_master_salt c) = 14
     \<and> (case ca_mki c of None \<Rightarrow> ca_mki_length c = None
        | Some m \<Rightarrow> ca_mki_length c = Some (length m) \<and> 0 < length m \<and> length m \<le> 16)"

lemma be_bytes_drop: "j \<le> n \<Longrightarrow> drop (n - j) (be_bytes n x) = be_bytes j x"
proof (induction n arbitrary: j x)
  case (Suc n)
  show ?case
  proof (cases j)
    case (Suc j')
    with Suc.IH [of j' "x div 256"] Suc.prems show ?thesis by simp
  qed simp
qed simp

lemma mki_numeric_value: "mki_numeric m = of_nat (be_nat m)"
proof (induction m rule: rev_induct)
  case (snoc b m)
  let ?v = "mki_numeric m"
  have "push_bit 8 ?v OR ucast b = push_bit 8 ?v + ucast b"
    by (rule disjunctive_add [symmetric])
      (auto simp: bit_simps dest: bit_imp_le_length)
  also have "\<dots> = of_nat (be_nat m * 256 + unat b)"
    by (simp add: push_bit_eq_mult snoc mult.commute)
  finally show ?case by (simp add: mki_numeric_def)
qed (simp add: mki_numeric_def)

lemma mki_value_bytes:
  assumes "length m \<le> 16"
  shows "unat (mki_numeric m) \<le> U128_MAX"
    and "drop (16 - length m) (be_bytes 16 (unat (mki_numeric m))) = m"
proof -
  have "be_nat m < 256 ^ length m" by (rule be_nat_less)
  also have "\<dots> \<le> 256 ^ 16" using assms by (intro power_increasing) simp_all
  finally have "be_nat m < 2 ^ 128" by simp
  then have v: "unat (mki_numeric m) = be_nat m"
    by (simp add: mki_numeric_value unat_of_nat)
  with \<open>be_nat m < 2 ^ 128\<close> show "unat (mki_numeric m) \<le> U128_MAX" by (simp add: U128_MAX_def)
  show "drop (16 - length m) (be_bytes 16 (unat (mki_numeric m))) = m"
    using be_bytes_drop [OF assms] by (simp add: v be_bytes_be_nat)
qed

lemma suite_roundtrip: "suite_from_str (suite_as_str s) = Some s"
  by (cases s) (simp_all add: suite_from_str_def)

lemma suite_text: "list_all (\<lambda>c. \<not> is_ws c) (suite_as_str s)" "suite_as_str s \<noteq> []"
  by (cases s; simp add: is_ws_def)+

lemma split_three:
  assumes "list_all (\<lambda>c. \<not> is_ws c) a" "list_all (\<lambda>c. \<not> is_ws c) b" "list_all (\<lambda>c. \<not> is_ws c) c"
    and "a \<noteq> []" "b \<noteq> []" "c \<noteq> []"
  shows "split_whitespace (a @ '' '' @ b @ '' '' @ c) = [a, b, c]"
proof -
  have sp: "is_ws (CHR '' '')" by (simp add: is_ws_def)
  have "split_by is_ws (a @ (CHR '' '') # b @ (CHR '' '') # c) = [a, b, c]"
    using assms(1-3) sp by (simp add: split_by_append split_by_no_sep)
  with assms(4-) show ?thesis by (simp add: split_whitespace_def)
qed

text \<open>The field after the pipe that carries an MKI is read back to the same bytes.\<close>

lemma mki_field_printed:
  assumes "0 < length m" and "length m \<le> 16"
  shows "mki_field acc (show_nat (unat (mki_numeric m)) @ '':'' @ show_nat (length m))
    = (Some m, Some (length m))"
proof -
  have "list_all (\<lambda>c. c \<noteq> CHR '':'') (show_nat (unat (mki_numeric m)))"
    by (rule digits_avoid [OF show_nat_digits]) (simp add: is_digit_def)
  then have "split_once (CHR '':'') (show_nat (unat (mki_numeric m)) @ '':'' @ show_nat (length m))
      = Some (show_nat (unat (mki_numeric m)), show_nat (length m))"
    using split_once_append by simp
  moreover have "length m \<le> USIZE_MAX" using assms by (simp add: USIZE_MAX_def)
  ultimately show ?thesis
    using assms mki_value_bytes [OF assms(2)]
    by (auto simp: mki_field_def parse_uint_show_nat Let_def)
qed

definition key_text :: "(bytes \<Rightarrow> string) \<Rightarrow> crypto_attribute \<Rightarrow> string" where
  "key_text enc c = enc (ca_master_key c @ ca_master_salt c) @
     (case ca_mki c of None \<Rightarrow> [] | Some m \<Rightarrow>
        ''|'' @ show_nat (unat (mki_numeric m)) @ '':'' @ show_nat (length m))"

lemma to_sdp_value_text:
  "crypto_wf c \<Longrightarrow> to_sdp_value enc c =
     show_nat (unat (tag c)) @ '' '' @ suite_as_str (ca_suite c) @ '' '' @ ''inline:'' @ key_text enc c"
  by (auto simp: to_sdp_value_def key_text_def crypto_wf_def Let_def split: option.splits)

lemma key_text_fields:
  assumes "base64_codec enc dec" and "crypto_wf c"
  shows "split_on (CHR ''|'') (key_text enc c) = enc (ca_master_key c @ ca_master_salt c) #
      (case ca_mki c of None \<Rightarrow> []
       | Some m \<Rightarrow> [show_nat (unat (mki_numeric m)) @ '':'' @ show_nat (length m)])"
    and "list_all (\<lambda>x. \<not> is_ws x) (key_text enc c)"
proof -
  let ?b = "enc (ca_master_key c @ ca_master_salt c)"
  have b: "list_all (\<lambda>x. \<not> x = CHR ''|'') ?b" "list_all (\<lambda>x. \<not> is_ws x) ?b"
    using assms(1) by (simp_all add: base64_codec_def list_all_iff)
  have d: "list_all (\<lambda>x. \<not> x = CHR ''|'') (show_nat n)" for n
    by (rule digits_avoid [OF show_nat_digits]) (simp add: is_digit_def)
  show "split_on (CHR ''|'') (key_text enc c) = ?b #
      (case ca_mki c of None \<Rightarrow> []
       | Some m \<Rightarrow> [show_nat (unat (mki_numeric m)) @ '':'' @ show_nat (length m)])"
    using b(1) d by (cases "ca_mki c")
      (simp_all add: key_text_def split_on_def split_by_append split_by_no_sep)
  show "list_all (\<lambda>x. \<not> is_ws x) (key_text enc c)"
    using b(2) show_nat_not_ws by (simp add: key_text_def is_ws_def split: option.splits)
qed

text \<open>an SDP crypto attribute survives printing and parsing: key, salt, suite, tag and MKI come
  back exactly, for every tag and every MKI of 1 to 16 bytes.\<close>

theorem crypto_attribute_roundtrip:
  assumes b64: "base64_codec enc dec" and wf: "crypto_wf c"
  shows "crypto_parse dec (to_sdp_value enc c) = Ok c"
proof -
  let ?k = "''inline:'' @ key_text enc c" and ?km = "ca_master_key c @ ca_master_salt c"
  note ft = key_text_fields [OF b64 wf]
  have words: "split_whitespace (to_sdp_value enc c)
      = [show_nat (unat (tag c)), suite_as_str (ca_suite c), ?k]"
    unfolding to_sdp_value_text [OF wf]
    by (rule split_three) (use ft(2) suite_text show_nat_not_ws in \<open>simp_all add: is_ws_def\<close>)
  have tagv: "parse_uint U32_MAX (show_nat (unat (tag c))) = Some (unat (tag c))"
    using unat32_less [of "tag c"] by (intro parse_uint_show_nat) (simp add: U32_MAX_def)
  have dec: "dec (enc ?km) = Ok ?km" using b64 by (simp add: base64_codec_def)
  have len: "length (ca_master_key c) = 16" "length (ca_master_salt c) = 14"
    using wf by (simp_all add: crypto_wf_def)
  have mki: "foldl mki_field (None, None) (case ca_mki c of None \<Rightarrow> []
       | Some m \<Rightarrow> [show_nat (unat (mki_numeric m)) @ '':'' @ show_nat (length m)])
     = (ca_mki c, ca_mki_length c)"
    using wf by (auto simp: crypto_wf_def mki_field_printed [simplified] split: option.splits)
  have drop: "drop (length ''inline:'') ?k = key_text enc c" by simp
  show ?thesis
    using len
    by (simp add: crypto_parse_def words tagv suite_roundtrip Let_def ft(1) mki dec srtp_lens
        starts_with_def)
qed

end
