(* ===== verification/Srtp_Witness.thy ===== *)
theory Srtp_Witness
  imports Srtp_Props Srtcp_Props Srtp_Sdes
begin

text \<open>
  Closed instances of the SRTP properties: a concrete 16-byte block function and a concrete
  20-byte tag function stand for the crates, and every hypothesis is evaluated on concrete
  packets. The packets cross a rollover of the sequence number.
\<close>

definition demo_aes :: "bytes \<Rightarrow> bytes \<Rightarrow> bytes" where
  "demo_aes k b = replicate 16 (hd k + 3)"

definition demo_mac :: "bytes \<Rightarrow> bytes \<Rightarrow> bytes" where
  "demo_mac k m = replicate 20 (hd k + last m)"

lemma demo_block_cipher: "block_cipher demo_aes"
  by (simp add: block_cipher_def demo_aes_def)

lemma demo_mac20: "mac20 demo_mac"
  by (simp add: mac20_def demo_mac_def)

definition demo_attr :: crypto_attribute where
  "demo_attr = \<lparr>tag = 1, ca_suite = AesCm128HmacSha1_80, ca_master_key = replicate 16 5,
     ca_master_salt = replicate 14 9, ca_mki = Some [1, 2], ca_mki_length = Some 2\<rparr>"

definition demo_keys :: session_keys where
  "demo_keys = \<lparr>enc_key = replicate 16 8, auth_key = replicate 20 8, salt = replicate 14 8\<rparr>"

definition demo_ctx :: srtp_context where
  "demo_ctx = \<lparr>suite = AesCm128HmacSha1_80, master_key = replicate 16 5,
     master_salt = replicate 14 9, rtp_keys = demo_keys, rtcp_keys = demo_keys,
     key_derivation_rate = 0, roc = 0, s_l = 0, initialized = False,
     send_counter = 0, send_initialized = False, last_sent_index = 0,
     packets_encrypted = 0, srtcp_index = 0, replay_window = 0, replay_window_base = 0,
     srtcp_replay_window = 0, srtcp_replay_window_base = 0,
     srtcp_replay_initialized = False, error_count = 0, mki = Some [1, 2], mki_length = Some 2,
     current_recv_ssrc = None\<rparr>"

lemma prf_blocks_two: "prf_blocks E iv 2 i todo =
    take (min 16 todo) (E (counter_block iv i)) @
    take (min 16 (todo - min 16 todo)) (E (counter_block iv (Suc i)))"
  by (simp add: numeral_2_eq_2)

lemma demo_prf:
  "prf_derive demo_aes (replicate 16 5) ms l r 16 = Ok (replicate 16 8)"
  "prf_derive demo_aes (replicate 16 5) ms l r 20 = Ok (replicate 20 8)"
  "prf_derive demo_aes (replicate 16 5) ms l r 14 = Ok (replicate 14 8)"
  by (simp_all add: prf_derive_def blocks_needed_def demo_aes_def prf_blocks_two flip: replicate_add)

lemma demo_ctx_made: "from_crypto demo_aes demo_attr = Ok demo_ctx"
  by (simp add: from_crypto_def with_mki_def demo_attr_def derive_session_keys_def demo_prf
      demo_ctx_def demo_keys_def srtp_lens)

text \<open>Packets of 14 bytes with sequence numbers 65535, 0 (the rollover) and 1.\<close>

definition demo_packet :: "byte \<Rightarrow> byte \<Rightarrow> bytes" where
  "demo_packet hi lo = [0x80, 0, hi, lo, 0, 0, 0, 1, 0, 0, 0, 7, 0xAB, 0xCD]"

lemma lifetime_one: "\<not> (281474976710656 :: u64) \<le> 1" "\<not> (281474976710656 :: u64) \<le> 2"
  by (simp_all add: word_le_nat_alt)

lemma replicate_16: "replicate 16 x = x # x # replicate 14 x"
  by (simp add: eval_nat_numeral)

lemmas demo_eval = replicate_16 demo_ctx_def demo_packet_def rtp_header_len_def rd16_def rd32_def
  be_nat_def Let_def KEY_LIFETIME_MAX_def next_send_counter_def aes_cm_encrypt_def
  blocks_needed_def demo_aes_def demo_keys_def xor_bytes_def compute_rtp_auth_tag_def
  demo_mac_def srtp_lens be32_list lifetime_one

lemma demo_sent: "sent_indices demo_aes demo_mac demo_ctx
    [demo_packet 255 255, demo_packet 0 0, demo_packet 0 1] = [65535, 65536, 65537]"
  by (simp add: protect_rtp_def demo_eval)

lemma demo_sent_packets: "sent_packets demo_aes demo_mac demo_ctx
    [demo_packet 255 255, demo_packet 0 0, demo_packet 0 1]
     = [demo_packet 255 255, demo_packet 0 0, demo_packet 0 1]"
  by (simp add: protect_rtp_def demo_eval)

lemma demo_protect:
  "is_ok (snd (protect_rtp demo_aes demo_mac demo_ctx (demo_packet 255 255)))"
  by (simp add: protect_rtp_def demo_eval)

text \<open>The protected form of the first packet, and of one with SSRC 8.\<close>

definition demo_wire :: "byte \<Rightarrow> bytes" where
  "demo_wire ssrc = [0x80, 0, 255, 255, 0, 0, 0, 1, 0, 0, 0, ssrc, 0xA0, 0xC6, 1, 2] @ replicate 10 8"

lemma demo_wire_protect:
  "snd (protect_rtp demo_aes demo_mac demo_ctx (demo_packet 255 255)) = Ok (demo_wire 7)"
  by (simp add: protect_rtp_def demo_eval demo_wire_def)

lemmas demo_recv = unprotect_rtp_def ssrc_changed_def estimate_roc_def packet_index_def
  rtp_authenticate_def commit_recv_def update_roc_recv_def accept_replay_def check_replay_def
  demo_wire_def demo_eval

lemma demo_recv_first:
  "unprotect_rtp demo_aes demo_mac demo_ctx (demo_wire 7) =
     (demo_ctx\<lparr>initialized := True, s_l := 65535, current_recv_ssrc := Some 7,
        replay_window := 1, replay_window_base := 65535\<rparr>, Ok (demo_packet 255 255))"
  by (simp add: demo_recv)

lemma demo_recv_other:
  "is_ok (snd (unprotect_rtp demo_aes demo_mac (demo_ctx\<lparr>initialized := True, s_l := 65535,
        current_recv_ssrc := Some 7, replay_window := 1, replay_window_base := 65535\<rparr>) (demo_wire 8)))"
  by (simp add: demo_recv)

lemma demo_protect_ok:
  obtains s' where "protect_rtp demo_aes demo_mac demo_ctx (demo_packet 255 255) = (s', Ok (demo_wire 7))"
  using demo_wire_protect by (cases "protect_rtp demo_aes demo_mac demo_ctx (demo_packet 255 255)") auto

section \<open>Witnesses\<close>

theorem delivers_at_most_once_witness:
  "one_ssrc 7 demo_ctx [demo_wire 7, demo_wire 7]
   \<and> distinct (delivered_indices demo_aes demo_mac demo_ctx [demo_wire 7, demo_wire 7])"
proof -
  have h: "one_ssrc 7 demo_ctx [demo_wire 7, demo_wire 7]"
    by (simp add: one_ssrc_def demo_ctx_def demo_wire_def rd32_def be_nat_def)
  show ?thesis using h delivers_at_most_once [OF h] by blast
qed

theorem estimate_roc_exact_witness:
  "int (unat (packet_index (estimate_roc (demo_ctx\<lparr>initialized := True, s_l := 65535\<rparr>) 0) 0)) = 65536"
  by (rule estimate_roc_exact) (simp_all add: demo_ctx_def highest_def)

theorem immediate_replay_rejected_witness:
  "\<exists>c' out. unprotect_rtp demo_aes demo_mac demo_ctx (demo_wire 7) = (c', Ok out)
     \<and> snd (unprotect_rtp demo_aes demo_mac c' (demo_wire 7)) = rejected"
  using demo_recv_first immediate_replay_rejected [OF demo_recv_first] by blast

theorem unprotect_inverts_protect_witness:
  "snd (unprotect_rtp demo_aes demo_mac demo_ctx (demo_wire 7)) = Ok (demo_packet 255 255)"
proof -
  obtain s' where prot: "protect_rtp demo_aes demo_mac demo_ctx (demo_packet 255 255)
      = (s', Ok (demo_wire 7))" by (rule demo_protect_ok)
  have "last_sent_index s' = 65535"
    using first_send_index [OF prot]
    by (simp add: demo_ctx_def demo_packet_def rd16_def be_nat_def)
  then show ?thesis
    by (intro unprotect_inverts_protect [OF demo_block_cipher demo_mac20 prot
          from_crypto_paired [OF demo_ctx_made]])
      (simp_all add: demo_attr_def demo_ctx_def ssrc_changed_def estimate_roc_def)
qed

theorem lossless_channel_witness:
  "channel demo_aes demo_mac demo_ctx demo_ctx [demo_packet 255 255, demo_packet 0 0, demo_packet 0 1]
   = [Ok (demo_packet 255 255), Ok (demo_packet 0 0), Ok (demo_packet 0 1)]"
proof -
  have "channel demo_aes demo_mac demo_ctx demo_ctx [demo_packet 255 255, demo_packet 0 0, demo_packet 0 1]
    = map Ok (sent_packets demo_aes demo_mac demo_ctx
        [demo_packet 255 255, demo_packet 0 0, demo_packet 0 1])"
  proof (rule lossless_channel [OF demo_block_cipher demo_mac20 demo_ctx_made, where ssrc = 7])
    show "successively small_step (sent_indices demo_aes demo_mac demo_ctx
        [demo_packet 255 255, demo_packet 0 0, demo_packet 0 1])"
      unfolding demo_sent by (simp add: small_step_def)
  qed (simp_all add: demo_attr_def demo_packet_def rd32_def be_nat_def)
  then show ?thesis unfolding demo_sent_packets by (simp only: list.map)
qed

lemma demo_rtcp_protect:
  "protect_rtcp demo_aes demo_mac demo_ctx [0x80, 201, 0, 1, 0, 0, 0, 7]
   = (demo_ctx\<lparr>srtcp_index := 1\<rparr>,
      Ok ([0x80, 201, 0, 1, 0, 0, 0, 7, 0x80, 0, 0, 0, 1, 2] @ replicate 10 8))"
  by (simp add: protect_rtcp_def demo_eval)

theorem unprotect_rtcp_inverts_protect_witness:
  "snd (unprotect_rtcp demo_aes demo_mac demo_ctx
     ([0x80, 201, 0, 1, 0, 0, 0, 7, 0x80, 0, 0, 0, 1, 2] @ replicate 10 8))
   = Ok [0x80, 201, 0, 1, 0, 0, 0, 7]"
  by (rule unprotect_rtcp_inverts_protect [OF demo_block_cipher demo_mac20 demo_rtcp_protect])
    (simp_all add: srtcp_paired_def demo_ctx_def)

theorem replay_after_ssrc_change_witness:
  "\<exists>c1 c2 x y. unprotect_rtp demo_aes demo_mac demo_ctx (demo_wire 7) = (c1, Ok x)
     \<and> unprotect_rtp demo_aes demo_mac c1 (demo_wire 8) = (c2, Ok y)
     \<and> is_ok (snd (unprotect_rtp demo_aes demo_mac c2 (demo_wire 7)))"
proof -
  obtain c2 y where other: "unprotect_rtp demo_aes demo_mac (demo_ctx\<lparr>initialized := True, s_l := 65535,
        current_recv_ssrc := Some 7, replay_window := 1, replay_window_base := 65535\<rparr>) (demo_wire 8)
      = (c2, Ok y)"
    using demo_recv_other by (metis is_ok_iff prod.collapse)
  have zero: "accepted_index demo_mac demo_ctx (demo_wire 7) = packet_index 0 (srtp_seq (demo_wire 7))"
    by (simp add: unchanged_index ssrc_changed_def demo_ctx_def estimate_roc_def)
  have "srtp_ssrc (demo_wire 8) \<noteq> srtp_ssrc (demo_wire 7)"
    by (simp add: demo_wire_def rd32_def be_nat_def)
  then have "is_ok (snd (unprotect_rtp demo_aes demo_mac c2 (demo_wire 7)))"
    by (rule replay_after_ssrc_change [OF demo_recv_first zero other])
  with demo_recv_first other show ?thesis by blast
qed

text \<open>A text codec that satisfies \<open>base64_codec\<close>: two characters from \<open>a..p\<close> per byte.\<close>

definition demo_enc :: "bytes \<Rightarrow> string" where
  "demo_enc = concat \<circ> map (\<lambda>b. [char_of (97 + unat b div 16), char_of (97 + unat b mod 16)])"

fun demo_dec :: "string \<Rightarrow> (string, bytes) outcome" where
  "demo_dec [] = Ok []"
| "demo_dec [x] = Err ''odd''"
| "demo_dec (x # y # s) = res_bind (demo_dec s)
     (\<lambda>bs. Ok (of_nat ((of_char x - 97) * 16 + (of_char y - 97)) # bs))"

lemma demo_base64: "base64_codec demo_enc demo_dec"
proof -
  have "demo_dec (demo_enc k) = Ok k" for k
  proof (induction k)
    case (Cons b k)
    have b: "unat b < 256" by (rule unat_byte_less)
    then have "of_char (char_of (97 + unat b div 16) :: char) = 97 + unat b div 16"
      "of_char (char_of (97 + unat b mod 16) :: char) = 97 + unat b mod 16"
      by (simp_all add: of_char_of)
    with Cons show ?case by (simp add: demo_enc_def)
  qed (simp add: demo_enc_def)
  moreover have "list_all (\<lambda>x. \<not> is_ws x \<and> x \<noteq> CHR ''|'') (demo_enc k)" for k
  proof (induction k)
    case (Cons b k)
    have b: "unat b < 256" by (rule unat_byte_less)
    then have c: "of_char (char_of (97 + unat b div 16) :: char) = 97 + unat b div 16"
      "of_char (char_of (97 + unat b mod 16) :: char) = 97 + unat b mod 16"
      by (simp_all add: of_char_of)
    have "unat b div 16 < 16" "unat b mod 16 < 16" using b by auto
    with c have "\<not> is_ws (char_of (97 + unat b div 16))" "\<not> is_ws (char_of (97 + unat b mod 16))"
      "char_of (97 + unat b div 16) \<noteq> CHR ''|''" "char_of (97 + unat b mod 16) \<noteq> CHR ''|''"
      by (auto simp: is_ws_def dest: arg_cong [of _ _ "of_char :: char \<Rightarrow> nat"])
    with Cons show ?case by (simp add: demo_enc_def)
  qed (simp add: demo_enc_def)
  ultimately show ?thesis by (simp add: base64_codec_def)
qed

theorem crypto_attribute_roundtrip_witness:
  "crypto_parse demo_dec (to_sdp_value demo_enc demo_attr) = Ok demo_attr"
  by (rule crypto_attribute_roundtrip [OF demo_base64]) (simp add: crypto_wf_def demo_attr_def)

end
