(* ===== verification/Rtp_BTree.thy ===== *)
theory Rtp_BTree
  imports Rtp_Prelude
begin

text \<open>
  Rust's \<^verbatim>\<open>BTreeMap\<close> as an association list kept sorted by key: iteration is in key
  order, which the jitter buffer's scans depend on. The contract the clients rely on is the
  locale \<open>ordered_map\<close>; \<open>bt\<close> is its interpretation on the lists.
\<close>

section \<open>The contract of an ordered map\<close>

locale ordered_map =
  fixes wf :: "'m \<Rightarrow> bool"
    and get :: "'m \<Rightarrow> 'k :: linorder \<Rightarrow> 'v option"
    and ins :: "'k \<Rightarrow> 'v \<Rightarrow> 'm \<Rightarrow> 'm"
    and del :: "'k \<Rightarrow> 'm \<Rightarrow> 'm"
    and keys :: "'m \<Rightarrow> 'k list"
  assumes wf_ins: "wf m \<Longrightarrow> wf (ins k v m)"
    and wf_del: "wf m \<Longrightarrow> wf (del k m)"
    and get_ins: "wf m \<Longrightarrow> get (ins k v m) = (get m)(k \<mapsto> v)"
    and get_del: "wf m \<Longrightarrow> get (del k m) = (get m)(k := None)"
    and keys_sorted: "wf m \<Longrightarrow> sorted_wrt (<) (keys m)"
    and keys_dom: "wf m \<Longrightarrow> set (keys m) = dom (get m)"
begin

lemma keys_distinct: "wf m \<Longrightarrow> distinct (keys m)"
  using keys_sorted strict_sorted_iff by blast

lemma size_dom: "wf m \<Longrightarrow> length (keys m) = card (dom (get m))"
  by (metis distinct_card keys_distinct keys_dom)

lemma finite_dom: "wf m \<Longrightarrow> finite (dom (get m))"
  by (metis List.finite_set keys_dom)

lemma size_ins_new:
  assumes "wf m" and "get m k = None"
  shows "length (keys (ins k v m)) = Suc (length (keys m))"
proof -
  have "dom (get (ins k v m)) = insert k (dom (get m))"
    using assms by (simp add: get_ins)
  moreover have "k \<notin> dom (get m)" using assms by auto
  ultimately show ?thesis
    using assms by (simp add: size_dom wf_ins finite_dom)
qed

lemma size_del_present:
  assumes "wf m" and "get m k = Some v"
  shows "Suc (length (keys (del k m))) = length (keys m)"
proof -
  have "dom (get (del k m)) = dom (get m) - {k}"
    using assms by (auto simp: get_del)
  moreover have "k \<in> dom (get m)" using assms by auto
  ultimately show ?thesis
    using finite_dom [OF assms(1)] card_Suc_Diff1 [of "dom (get m)" k]
    by (simp only: size_dom [OF assms(1)] size_dom [OF wf_del [OF assms(1)]])
qed

lemma keys_del: "wf m \<Longrightarrow> set (keys (del k m)) = set (keys m) - {k}"
  by (auto simp: keys_dom wf_del get_del)

lemma keys_ins: "wf m \<Longrightarrow> set (keys (ins k v m)) = insert k (set (keys m))"
  by (simp add: keys_dom wf_ins get_ins)

end

section \<open>The sorted association list\<close>

type_synonym ('k, 'v) btree = "('k \<times> 'v) list"

definition bt_get :: "('k, 'v) btree \<Rightarrow> 'k \<Rightarrow> 'v option" where
  "bt_get m = map_of m"

fun bt_insert :: "'k :: linorder \<Rightarrow> 'v \<Rightarrow> ('k, 'v) btree \<Rightarrow> ('k, 'v) btree" where
  "bt_insert k v [] = [(k, v)]"
| "bt_insert k v ((k', v') # m) =
     (if k < k' then (k, v) # (k', v') # m
      else if k = k' then (k, v) # m
      else (k', v') # bt_insert k v m)"

definition bt_remove :: "'k \<Rightarrow> ('k, 'v) btree \<Rightarrow> ('k, 'v) btree" where
  "bt_remove k m = filter (\<lambda>e. fst e \<noteq> k) m"

definition bt_keys :: "('k, 'v) btree \<Rightarrow> 'k list" where
  "bt_keys m = map fst m"

definition bt_wf :: "('k :: linorder, 'v) btree \<Rightarrow> bool" where
  "bt_wf m = sorted_wrt (<) (map fst m)"

lemma set_bt_insert: "set (map fst (bt_insert k v m)) = insert k (set (map fst m))"
  by (induction k v m rule: bt_insert.induct) auto

lemma bt_wf_insert: "bt_wf m \<Longrightarrow> bt_wf (bt_insert k v m)"
  unfolding bt_wf_def
proof (induction k v m rule: bt_insert.induct)
  case (2 k v k' v' m)
  have k: "(x, y) \<in> set (bt_insert k v m) \<Longrightarrow> x = k \<or> (\<exists>z. (x, z) \<in> set m)" for x y
    using set_bt_insert [of k v m] by force
  show ?case
  proof (cases "k < k' \<or> k = k'")
    case True
    with 2 show ?thesis by auto
  next
    case False
    then have "k' < k" by auto
    with 2 False show ?thesis by (auto dest!: k)
  qed
qed simp

lemma bt_get_insert: "bt_wf m \<Longrightarrow> map_of (bt_insert k v m) = (map_of m)(k \<mapsto> v)"
  unfolding bt_wf_def
  by (induction k v m rule: bt_insert.induct) (auto simp: fun_eq_iff)

lemma bt_get_remove: "map_of (bt_remove k m) = (map_of m)(k := None)"
  by (induction m) (auto simp: bt_remove_def fun_eq_iff)

interpretation bt: ordered_map bt_wf bt_get bt_insert bt_remove bt_keys
proof
  fix m :: "('a, 'b) btree" and k :: 'a
  assume wf: "bt_wf m"
  show "bt_wf (bt_remove k m)"
    using wf by (induction m) (auto simp: bt_wf_def bt_remove_def)
qed (auto simp: bt_get_def bt_get_insert bt_get_remove bt_keys_def bt_wf_insert
      bt_wf_def [symmetric] bt_wf_def [THEN iffD1] dom_map_of_conv_image_fst)

lemma bt_wf_Nil [simp]: "bt_wf []"
  by (simp add: bt_wf_def)

lemma bt_keys_simps [simp]: "bt_keys [] = []" "bt_keys ((k, v) # m) = k # bt_keys m"
  by (simp_all add: bt_keys_def)

lemma length_bt_keys [simp]: "length (bt_keys m) = length m"
  by (simp add: bt_keys_def)

lemma bt_get_in_keys: "bt_get m k = Some v \<Longrightarrow> k \<in> set (bt_keys m)"
  by (auto simp: bt_get_def bt_keys_def dest: map_of_SomeD intro: rev_image_eqI)

lemma bt_keys_get: "k \<in> set (bt_keys m) \<longleftrightarrow> (\<exists>v. bt_get m k = Some v)"
  by (auto simp: bt_get_def bt_keys_def map_of_eq_None_iff dest: map_of_SomeD
      intro: rev_image_eqI) (metis map_of_eq_None_iff not_None_eq image_eqI fst_conv)

lemma bt_get_None: "bt_get m k = None \<longleftrightarrow> k \<notin> set (bt_keys m)"
  by (simp add: bt_get_def bt_keys_def map_of_eq_None_iff)

end
