(* ===== verification/Rtp_Float.thy ===== *)
theory Rtp_Float
  imports Rtp_Prelude Complex_Main
begin

text \<open>
  Finite \<^verbatim>\<open>f64\<close> values as rationals: every operation computes the exact result and rounds
  it to 53 significant bits, to nearest with ties to even, with the subnormal quantum below
  \<open>2 ^ (-1022)\<close>. Overflow to an infinity and NaN have no counterpart: the values the crate
  computes with here are bounded by 64-bit integers. Casts to integers truncate and saturate.
\<close>

fun bit_len :: "nat \<Rightarrow> nat" where
  "bit_len n = (if n = 0 then 0 else Suc (bit_len (n div 2)))"

declare bit_len.simps [simp del]

text \<open>The exponent \<open>e\<close> with \<open>2 ^ e \<le> x < 2 ^ (e + 1)\<close> of a positive rational.\<close>

definition exponent :: "rat \<Rightarrow> int" where
  "exponent x = (let (a, b) = quotient_of x; e = int (bit_len (nat a)) - int (bit_len (nat b))
                 in if 2 powi e \<le> x then e else e - 1)"

definition round_half_even :: "rat \<Rightarrow> int" where
  "round_half_even x = (let f = \<lfloor>x\<rfloor>; r = x - of_int f
     in if r < 1 / 2 then f else if r > 1 / 2 then f + 1 else if even f then f else f + 1)"

definition f64_round :: "rat \<Rightarrow> rat" where
  "f64_round x = (if x = 0 then 0
     else let q = 2 powi (max (exponent \<bar>x\<bar>) (- 1022) - 52) in of_int (round_half_even (x / q)) * q)"

definition f64_of_int :: "int \<Rightarrow> rat" where "f64_of_int n = f64_round (of_int n)"
definition f64_add :: "rat \<Rightarrow> rat \<Rightarrow> rat" where "f64_add x y = f64_round (x + y)"
definition f64_sub :: "rat \<Rightarrow> rat \<Rightarrow> rat" where "f64_sub x y = f64_round (x - y)"
definition f64_mul :: "rat \<Rightarrow> rat \<Rightarrow> rat" where "f64_mul x y = f64_round (x * y)"
definition f64_div :: "rat \<Rightarrow> rat \<Rightarrow> rat" where "f64_div x y = f64_round (x / y)"

definition f64_to_u32 :: "rat \<Rightarrow> u32" where
  "f64_to_u32 x = (if x \<le> 0 then 0 else if 4294967295 \<le> x then 4294967295 else of_int \<lfloor>x\<rfloor>)"

text \<open>A 64-bit signed value: the result of an \<^verbatim>\<open>i64\<close> operation or cast.\<close>

definition i64 :: "int \<Rightarrow> int" where "i64 x = sint (word_of_int x :: u64)"

text \<open>Integer division of Rust, which truncates towards zero.\<close>

definition quot :: "int \<Rightarrow> int \<Rightarrow> int" where
  "quot a b = sgn a * sgn b * (\<bar>a\<bar> div \<bar>b\<bar>)"

text \<open>Durations are nanoseconds; \<^verbatim>\<open>Duration::as_secs_f64\<close> and \<^verbatim>\<open>Duration::from_secs_f64\<close>.\<close>

definition as_secs_f64 :: "nat \<Rightarrow> rat" where
  "as_secs_f64 d = f64_add (f64_of_int (int (d div 1000000000)))
     (f64_div (f64_of_int (int (d mod 1000000000))) 1000000000)"

definition from_secs_f64 :: "rat \<Rightarrow> nat" where
  "from_secs_f64 x = nat (round_half_even (x * 1000000000))"

text \<open>\<^verbatim>\<open>f64::sqrt\<close> is correctly rounded; a root is never halfway between two floats.\<close>

fun isqrt :: "nat \<Rightarrow> nat" where
  "isqrt n = (if n = 0 then 0 else (let r = 2 * isqrt (n div 4) in if (r + 1) * (r + 1) \<le> n then r + 1 else r))"

declare isqrt.simps [simp del]

definition f64_sqrt :: "rat \<Rightarrow> rat" where
  "f64_sqrt x =
     (if x \<le> 0 then 0
      else
        (let q = 2 powi (exponent x div 2 - 52); y = x / (q * q); m = of_nat (isqrt (nat \<lfloor>y\<rfloor>)) :: int
         in if y > (of_int m + 1 / 2) * (of_int m + 1 / 2) then of_int (m + 1) * q else of_int m * q))"

lemma round_half_even_mono: "x \<le> y \<Longrightarrow> round_half_even x \<le> round_half_even y"
proof -
  assume le: "x \<le> y"
  have near: "\<lfloor>z\<rfloor> \<le> round_half_even z \<and> round_half_even z \<le> \<lfloor>z\<rfloor> + 1" for z
    by (simp add: round_half_even_def Let_def)
  consider "\<lfloor>x\<rfloor> = \<lfloor>y\<rfloor>" | "\<lfloor>x\<rfloor> + 1 \<le> \<lfloor>y\<rfloor>"
    using floor_mono [OF le] by linarith
  then show ?thesis
  proof cases
    case 1
    with le show ?thesis by (auto simp: round_half_even_def Let_def)
  next
    case 2
    with near [of x] near [of y] show ?thesis by linarith
  qed
qed

lemma round_half_even_int [simp]: "round_half_even (of_int n) = n"
  by (simp add: round_half_even_def)

lemma round_half_even_near: "\<bar>x - of_int n\<bar> < 1 / 2 \<Longrightarrow> round_half_even x = n"
proof -
  assume near: "\<bar>x - of_int n\<bar> < 1 / 2"
  show ?thesis
  proof (cases "of_int n \<le> x")
    case True
    then have "\<lfloor>x\<rfloor> = n" using near by (intro floor_unique) (simp_all add: abs_if split: if_splits)
    then show ?thesis using near True by (simp add: round_half_even_def)
  next
    case False
    then have "\<lfloor>x\<rfloor> = n - 1" using near by (intro floor_unique) (simp_all add: abs_if split: if_splits)
    then show ?thesis using near False by (simp add: round_half_even_def abs_if split: if_splits)
  qed
qed

lemma f64_round_near:
  assumes "exponent \<bar>x\<bar> = 52 - int k" and "k \<le> 1074" and "\<bar>x * 2 ^ k - of_int n\<bar> < 1 / 2" and "x \<noteq> 0"
  shows "f64_round x = of_int n / 2 ^ k"
proof -
  have q: "2 powi (- int k) = (1 / 2 ^ k :: rat)" by (simp add: power_int_minus inverse_eq_divide)
  show ?thesis
    using assms round_half_even_near [OF assms(3)] by (simp add: f64_round_def Let_def q)
qed

lemma f64_round_nonneg: "0 \<le> x \<Longrightarrow> 0 \<le> f64_round x"
proof -
  assume x: "0 \<le> x"
  let ?q = "2 powi (max (exponent \<bar>x\<bar>) (- 1022) - 52) :: rat"
  have "0 \<le> x / ?q" using x by simp
  then have "round_half_even 0 \<le> round_half_even (x / ?q)" by (rule round_half_even_mono)
  then have "0 \<le> round_half_even (x / ?q)" using round_half_even_int [of 0] by simp
  then show ?thesis by (simp add: f64_round_def Let_def)
qed

lemma f64_round_0 [simp]: "f64_round 0 = 0"
  by (simp add: f64_round_def)

section \<open>How far rounding moves a value\<close>

lemma bit_len_le: "n < 2 ^ k \<Longrightarrow> bit_len n \<le> k"
proof (induction k arbitrary: n)
  case 0 then show ?case by (simp add: bit_len.simps)
next
  case (Suc k)
  then have "bit_len (n div 2) \<le> k" by (intro Suc.IH) simp
  then show ?case by (simp add: bit_len.simps [of n])
qed

lemma bit_len_1 [simp]: "bit_len (Suc 0) = 1"
  by (simp add: bit_len.simps)

lemma bit_len_bounds: "n < 2 ^ bit_len n \<and> (0 < n \<longrightarrow> 2 ^ bit_len n \<le> 2 * n)"
proof (induction n rule: bit_len.induct)
  case (1 n)
  then show ?case by (cases "n \<le> 1") (auto simp: bit_len.simps [of n] le_Suc_eq bit_len.simps [of 0])
qed

lemma le_if: "(if c then e else e - 1) \<le> (e :: int)" by simp

text \<open>Integers of up to 53 bits are floats.\<close>

lemma f64_round_int:
  assumes "\<bar>n\<bar> < 2 ^ 53"
  shows "f64_round (of_int n) = of_int n"
proof (cases "n = 0")
  case False
  have q: "quotient_of \<bar>of_int n\<bar> = (\<bar>n\<bar>, 1)" using quotient_of_int [of "\<bar>n\<bar>"] by (simp only: Rat.of_int_def of_int_abs)
  have "nat \<bar>n\<bar> < 2 ^ 53" using assms by (simp add: nat_less_iff)
  from bit_len_le [OF this] have l: "int (bit_len (nat \<bar>n\<bar>)) \<le> 53" by simp
  have "exponent \<bar>of_int n\<bar> \<le> int (bit_len (nat \<bar>n\<bar>)) - int (bit_len (nat 1))"
    unfolding exponent_def q Let_def prod.case by (rule le_if)
  with l have "exponent \<bar>of_int n\<bar> \<le> 52" by (simp del: One_nat_def)
  then have "0 \<le> 52 - max (exponent \<bar>of_int n\<bar>) (- 1022)" by simp
  then obtain k where k: "52 - max (exponent \<bar>of_int n\<bar>) (- 1022) = int k" by (rule nonneg_int_cases)
  then have e: "max (exponent \<bar>of_int n\<bar>) (- 1022) - 52 = - int k" by simp
  have "of_int n / 2 powi (- int k) = (of_int (n * 2 ^ k) :: rat)" by (simp add: power_int_minus field_simps)
  then have "round_half_even (of_int n / 2 powi (- int k)) = n * 2 ^ k" by (simp only: round_half_even_int)
  then show ?thesis using False by (simp add: f64_round_def e Let_def power_int_minus)
qed simp

lemma f64_round_numeral:
  "numeral k < (2 ^ 53 :: int) \<Longrightarrow> f64_round (numeral k) = numeral k"
  "numeral k < (2 ^ 53 :: int) \<Longrightarrow> f64_round (- numeral k) = - numeral k"
  "f64_round 1 = 1" "f64_round (- 1) = - 1"
  using f64_round_int [of "numeral k"] f64_round_int [of "- numeral k"] f64_round_int [of 1] f64_round_int [of "- 1"] by simp_all

text \<open>Rounding moves a value by at most its share of a unit in the last place.\<close>

lemma exponent_le: "0 < x \<Longrightarrow> 2 powi exponent x \<le> x"
proof -
  assume x: "0 < x"
  obtain a b where ab: "quotient_of x = (a, b)" by (cases "quotient_of x")
  have b: "0 < b" and a: "x = of_int a / of_int b" using quotient_of_denom_pos [OF ab] quotient_of_div [OF ab] by auto
  then have "0 < a" using x by (simp add: zero_less_divide_iff)
  then have "(2 :: int) ^ bit_len (nat a) \<le> 2 * a" "b < 2 ^ bit_len (nat b)"
    using bit_len_bounds [of "nat a"] bit_len_bounds [of "nat b"] b
    by (simp_all flip: of_nat_le_iff [where 'a = int] of_nat_less_iff [where 'a = int])
  then have "of_int (2 ^ bit_len (nat a)) \<le> (of_int (2 * a) :: rat)" "of_int b < (of_int (2 ^ bit_len (nat b)) :: rat)"
    by (simp_all only: of_int_le_iff of_int_less_iff)
  then have l: "(2 :: rat) ^ bit_len (nat a) \<le> 2 * of_int a" and u: "of_int b < (2 :: rat) ^ bit_len (nat b)"
    by simp_all
  have "(2 :: rat) powi (int (bit_len (nat a)) - int (bit_len (nat b)) - 1)
      = 2 ^ bit_len (nat a) / 2 / 2 ^ bit_len (nat b)"
    by (simp add: power_int_diff)
  also have "\<dots> \<le> of_int a / of_int b"
    by (rule frac_le) (use l u b \<open>0 < a\<close> in simp_all)
  also have "\<dots> = x" by (simp add: a)
  finally show ?thesis by (simp add: exponent_def ab Let_def)
qed

lemma f64_round_error: "\<bar>f64_round x - x\<bar> \<le> (\<bar>x\<bar> + 1) / 2 ^ 53"
proof (cases "x = 0")
  case False
  define q :: rat where "q = 2 powi (max (exponent \<bar>x\<bar>) (- 1022) - 52)"
  have q: "0 < q" by (simp add: q_def)
  have "\<bar>of_int (round_half_even (x / q)) - x / q\<bar> \<le> 1 / 2"
    using floor_correct [of "x / q"] unfolding round_half_even_def Let_def
    by (cases "x / q - of_int \<lfloor>x / q\<rfloor> < 1 / 2"; cases "x / q - of_int \<lfloor>x / q\<rfloor> > 1 / 2"; cases "even \<lfloor>x / q\<rfloor>")
       (simp_all only: if_True if_False of_int_add of_int_1, linarith+)
  then have "\<bar>of_int (round_half_even (x / q)) - x / q\<bar> * q \<le> 1 / 2 * q" using q by (intro mult_right_mono) simp_all
  moreover have "\<bar>of_int (round_half_even (x / q)) - x / q\<bar> * q = \<bar>f64_round x - x\<bar>"
  proof -
    have "\<bar>of_int (round_half_even (x / q)) - x / q\<bar> * q = \<bar>(of_int (round_half_even (x / q)) - x / q) * q\<bar>"
      using q by (simp add: abs_mult)
    also have "(of_int (round_half_even (x / q)) - x / q) * q = of_int (round_half_even (x / q)) * q - x"
      using q by (simp add: left_diff_distrib)
    finally show ?thesis using False by (simp add: f64_round_def Let_def flip: q_def)
  qed
  moreover have "q \<le> (\<bar>x\<bar> + 1) / 2 ^ 52"
  proof -
    have "2 powi max (exponent \<bar>x\<bar>) (- 1022) \<le> \<bar>x\<bar> + (1 :: rat)"
    proof (cases "exponent \<bar>x\<bar> \<le> - 1022")
      case True
      have "2 powi (- 1022) \<le> (1 :: rat)" by (simp add: power_int_minus)
      with True show ?thesis by (simp add: max_def) 
    next
      case e: False
      have "2 powi exponent \<bar>x\<bar> \<le> \<bar>x\<bar>" using exponent_le [of "\<bar>x\<bar>"] False by simp
      with e show ?thesis by (simp add: max_def)
    qed
    then show ?thesis by (simp add: q_def power_int_diff divide_right_mono)
  qed
  ultimately show ?thesis by simp
qed simp

lemma f64_round_close: "\<bar>x\<bar> \<le> 100000 \<Longrightarrow> \<bar>f64_round x - x\<bar> \<le> 1 / 100000"
proof -
  assume x: "\<bar>x\<bar> \<le> 100000"
  have "(\<bar>x\<bar> + 1) / 2 ^ 53 \<le> 100001 / 2 ^ 53" using x by (intro divide_right_mono) simp_all
  also have "\<dots> \<le> (1 / 100000 :: rat)" by simp
  finally show ?thesis using f64_round_error order_trans by blast
qed

end
