(* ===== verification/Rtp_Packet.thy ===== *)
theory Rtp_Packet
  imports Rtp_Prelude
begin

text \<open>
  \<^verbatim>\<open>src/rtp/packet.rs\<close>: the RTP packets the crate builds, in the layout of the \<^verbatim>\<open>Header\<close>
  and \<^verbatim>\<open>Packet\<close> literals of the builder, the builder itself, and the length guard in front
  of the third-party parser, which is a parameter (\<open>unmarshal\<close>), as is the serializer.
\<close>

record rtp_header =
  h_version :: byte
  h_padding :: bool
  h_extension :: bool
  h_marker :: bool
  h_payload_type :: byte
  h_sequence_number :: u16
  h_timestamp :: u32
  h_ssrc :: u32
  h_csrc :: "u32 list"
  h_extension_profile :: u16
  h_extensions :: "(byte \<times> bytes) list"
  h_extensions_padding :: nat

record rtp_packet =
  pkt_header :: rtp_header
  pkt_payload :: bytes

section \<open>The packet builder\<close>

record packet_builder =
  pb_payload_type :: byte
  pb_ssrc :: u32
  pb_sequence :: u16
  pb_timestamp :: u32

definition builder_new :: "u16 \<Rightarrow> u32 \<Rightarrow> byte \<Rightarrow> u32 \<Rightarrow> packet_builder" where
  "builder_new random_sequence random_timestamp pt ssrc =
     \<lparr>pb_payload_type = pt, pb_ssrc = ssrc, pb_sequence = random_sequence,
      pb_timestamp = random_timestamp\<rparr>"

definition with_initial :: "byte \<Rightarrow> u32 \<Rightarrow> u16 \<Rightarrow> u32 \<Rightarrow> packet_builder" where
  "with_initial pt ssrc initial_sequence initial_timestamp =
     \<lparr>pb_payload_type = pt, pb_ssrc = ssrc, pb_sequence = initial_sequence,
      pb_timestamp = initial_timestamp\<rparr>"

definition build_with_marker ::
  "packet_builder \<Rightarrow> bytes \<Rightarrow> u32 \<Rightarrow> bool \<Rightarrow> (packet_builder \<times> rtp_packet) res" where
  "build_with_marker b pl samples marker =
     (let hdr = \<lparr>h_version = 2, h_padding = False, h_extension = False, h_marker = marker,
                 h_payload_type = pb_payload_type b, h_sequence_number = pb_sequence b,
                 h_timestamp = pb_timestamp b, h_ssrc = pb_ssrc b, h_csrc = [],
                 h_extension_profile = 0, h_extensions = [], h_extensions_padding = 0\<rparr>;
          b1 = b\<lparr>pb_sequence := pb_sequence b + 1\<rparr>
      in if samples > 0
         then Ok (b1\<lparr>pb_timestamp := pb_timestamp b + samples\<rparr>,
                  \<lparr>pkt_header = hdr, pkt_payload = pl\<rparr>)
         else Panic)"

definition build_packet :: "packet_builder \<Rightarrow> bytes \<Rightarrow> u32 \<Rightarrow> (packet_builder \<times> rtp_packet) res" where
  "build_packet b pl samples = build_with_marker b pl samples False"

definition next_sequence :: "packet_builder \<Rightarrow> packet_builder \<times> u16" where
  "next_sequence b = (b\<lparr>pb_sequence := pb_sequence b + 1\<rparr>, pb_sequence b)"

definition set_sequence :: "packet_builder \<Rightarrow> u16 \<Rightarrow> packet_builder" where
  "set_sequence b seq = b\<lparr>pb_sequence := seq\<rparr>"

section \<open>Parsing and serializing\<close>

definition parse_rtp_packet ::
  "(bytes \<Rightarrow> (string, rtp_packet) outcome) \<Rightarrow> bytes \<Rightarrow> rtp_packet res" where
  "parse_rtp_packet unmarshal d =
     (let cc = unat (d ! 0 AND 0x0F); min_len = 12 + cc * 4
      in if 12 \<le> length d \<and> length d < min_len
         then Err (Rtp ''RTP packet too short for CC'')
         else (case unmarshal d of
                 Ok p \<Rightarrow> Ok p
               | Err e \<Rightarrow> Err (Rtp (''Failed to parse RTP packet: '' @ e))
               | Panic \<Rightarrow> Panic))"

definition serialize_rtp_packet ::
  "(rtp_packet \<Rightarrow> (string, bytes) outcome) \<Rightarrow> rtp_packet \<Rightarrow> bytes res" where
  "serialize_rtp_packet marshal p =
     (case marshal p of
        Ok d \<Rightarrow> Ok d
      | Err e \<Rightarrow> Err (Rtp (''Failed to serialize RTP packet: '' @ e))
      | Panic \<Rightarrow> Panic)"

section \<open>A stream of packets\<close>

fun build_stream :: "packet_builder \<Rightarrow> (bytes \<times> u32 \<times> bool) list \<Rightarrow> rtp_packet list res" where
  "build_stream b [] = Ok []"
| "build_stream b ((pl, samples, marker) # fs) =
     res_bind (build_with_marker b pl samples marker)
       (\<lambda>(b', p). res_bind (build_stream b' fs) (\<lambda>ps. Ok (p # ps)))"

lemma build_stream_nth:
  assumes "build_stream b fs = Ok ps"
  shows "length ps = length fs"
    and "i < length fs \<Longrightarrow>
      h_sequence_number (pkt_header (ps ! i)) = pb_sequence b + of_nat i
      \<and> h_timestamp (pkt_header (ps ! i)) = pb_timestamp b + sum_list (map (fst \<circ> snd) (take i fs))
      \<and> h_ssrc (pkt_header (ps ! i)) = pb_ssrc b \<and> pkt_payload (ps ! i) = fst (fs ! i)"
  using assms
proof (induction b fs arbitrary: ps i rule: build_stream.induct)
  case (2 b pl samples marker fs)
  { case 1
    from 2 1 show ?case by (auto simp: build_with_marker_def Let_def split: if_splits) }
  { case 2
    from 2 obtain b' p ps' where st: "build_with_marker b pl samples marker = Ok (b', p)"
      "build_stream b' fs = Ok ps'" "ps = p # ps'"
      by auto
    from st(1) have b': "pb_sequence b' = pb_sequence b + 1" "pb_timestamp b' = pb_timestamp b + samples"
      "pb_ssrc b' = pb_ssrc b" and p: "pkt_payload p = pl"
      "h_sequence_number (pkt_header p) = pb_sequence b"
      "h_timestamp (pkt_header p) = pb_timestamp b" "h_ssrc (pkt_header p) = pb_ssrc b"
      by (auto simp: build_with_marker_def Let_def split: if_splits)
    show ?case
    proof (cases i)
      case 0
      with st p show ?thesis by simp
    next
      case (Suc j)
      with 2 st have j: "j < length fs" by simp
      show ?thesis
        using "2.IH"(2) [OF j st(2)] Suc st b' by (simp add: algebra_simps)
    qed }
qed simp_all

end
