(* ===== verification/Rtp_Jitter.thy ===== *)
theory Rtp_Jitter
  imports Rtp_BTree Rtp_Float Rtp_Packet
begin

text \<open>
  \<^verbatim>\<open>src/rtp/jitter.rs\<close>: the adaptive jitter buffer, one definition per operation and per
  stage of \<^verbatim>\<open>push\<close> and \<^verbatim>\<open>pop\<close>, in the order of the code. The clock reading of
  \<^verbatim>\<open>Instant::now\<close> is an argument, in nanoseconds. \<open>Panic\<close> is a division by a sample
  rate of zero or a \<^verbatim>\<open>clamp\<close> with reversed bounds. Arithmetic wraps as in the release
  profile of the crate.
\<close>

section \<open>Data\<close>

record jitter_stats =
  js_packets_received :: u64
  js_packets_lost :: u64
  js_packets_dropped :: u64
  js_packets_reordered :: u64
  js_packets_duplicated :: u64
  js_jitter_ms :: rat
  js_buffer_delay_ms :: u32
  js_buffer_size :: nat
  js_nack_requests :: u64
  js_nack_recovered :: u64

definition stats_default :: jitter_stats where
  "stats_default = \<lparr>js_packets_received = 0, js_packets_lost = 0, js_packets_dropped = 0,
     js_packets_reordered = 0, js_packets_duplicated = 0, js_jitter_ms = 0,
     js_buffer_delay_ms = 0, js_buffer_size = 0, js_nack_requests = 0, js_nack_recovered = 0\<rparr>"

record jitter_config =
  jc_min_delay_ms :: u32
  jc_max_delay_ms :: u32
  jc_target_delay_ms :: u32
  jc_max_packets :: nat
  jc_sample_rate :: u32
  jc_samples_per_packet :: u32
  jc_nack_enabled :: bool
  jc_max_wait_before_loss :: u32

definition jitter_config_default :: jitter_config where
  "jitter_config_default = \<lparr>jc_min_delay_ms = 20, jc_max_delay_ms = 200, jc_target_delay_ms = 60,
     jc_max_packets = 50, jc_sample_rate = 8000, jc_samples_per_packet = 160,
     jc_nack_enabled = False, jc_max_wait_before_loss = 2\<rparr>"

record buffered_packet =
  bp_packet :: rtp_packet
  bp_arrival_time :: nat

record jitter_buffer =
  jb_config :: jitter_config
  jb_packets :: "(u16, buffered_packet) btree"
  jb_next_sequence :: "u16 option"
  jb_last_played :: "u16 option"
  jb_stats :: jitter_stats
  jb_jitter_estimate :: rat
  jb_last_arrival :: "nat option"
  jb_last_timestamp :: "u32 option"
  jb_current_delay_ms :: u32
  jb_playout_started :: bool
  jb_initial_buffering_done :: bool
  jb_nack_list :: "u16 list"
  jb_consecutive_miss :: u32
  jb_pop_count :: u32
  jb_drift_high_count :: u32
  jb_drift_low_count :: u32
  jb_drift_check_count :: u32

definition jb_with_config :: "jitter_config \<Rightarrow> jitter_buffer" where
  "jb_with_config cfg = \<lparr>jb_config = cfg, jb_packets = [], jb_next_sequence = None,
     jb_last_played = None, jb_stats = stats_default, jb_jitter_estimate = 0,
     jb_last_arrival = None, jb_last_timestamp = None,
     jb_current_delay_ms = jc_target_delay_ms cfg, jb_playout_started = False,
     jb_initial_buffering_done = False, jb_nack_list = [], jb_consecutive_miss = 0,
     jb_pop_count = 0, jb_drift_high_count = 0, jb_drift_low_count = 0, jb_drift_check_count = 0\<rparr>"

definition jb_new :: jitter_buffer where
  "jb_new = jb_with_config jitter_config_default"

definition jb_reset :: "jitter_buffer \<Rightarrow> jitter_buffer" where
  "jb_reset b = b\<lparr>jb_packets := [], jb_next_sequence := None, jb_last_played := None,
     jb_stats := stats_default, jb_jitter_estimate := 0, jb_last_arrival := None,
     jb_last_timestamp := None, jb_current_delay_ms := jc_target_delay_ms (jb_config b),
     jb_playout_started := False, jb_initial_buffering_done := False, jb_nack_list := [],
     jb_consecutive_miss := 0, jb_pop_count := 0, jb_drift_high_count := 0,
     jb_drift_low_count := 0, jb_drift_check_count := 0\<rparr>"

section \<open>Sequence numbers\<close>

definition seq_before :: "u16 \<Rightarrow> u16 \<Rightarrow> bool" where
  "seq_before a b = (let diff = b - a in 0 < diff \<and> diff < 0x8000)"

definition seq_after :: "u16 \<Rightarrow> u16 \<Rightarrow> bool" where
  "seq_after a b = seq_before b a"

text \<open>The scan for the oldest key, in key order (it appears four times in the code).\<close>

definition oldest_key :: "u16 list \<Rightarrow> u16 option" where
  "oldest_key ks = (case ks of [] \<Rightarrow> None
     | k # ks' \<Rightarrow> Some (foldl (\<lambda>oldest k. if seq_before k oldest then k else oldest) k ks'))"

definition oldest_seq :: "jitter_buffer \<Rightarrow> u16 option" where
  "oldest_seq b = oldest_key (bt_keys (jb_packets b))"

lemma oldest_fold_mem:
  "foldl (\<lambda>oldest k. if seq_before k oldest then k else oldest) k ks \<in> insert k (set ks)"
  by (induction ks arbitrary: k) (simp, force)

lemma oldest_key_mem: "oldest_key ks = Some k \<Longrightarrow> k \<in> set ks"
  using oldest_fold_mem by (auto simp: oldest_key_def split: list.splits)

lemma oldest_key_None [simp]: "oldest_key ks = None \<longleftrightarrow> ks = []"
  by (simp add: oldest_key_def split: list.splits)

lemma oldest_seq_None [simp]: "oldest_seq b = None \<longleftrightarrow> jb_packets b = []"
  by (simp add: oldest_seq_def bt_keys_def)

section \<open>Pushing a packet\<close>

definition stats_upd :: "(jitter_stats \<Rightarrow> jitter_stats) \<Rightarrow> jitter_buffer \<Rightarrow> jitter_buffer" where
  "stats_upd f b = b\<lparr>jb_stats := f (jb_stats b)\<rparr>"

definition bump_received :: "jitter_buffer \<Rightarrow> jitter_buffer" where
  "bump_received = stats_upd (\<lambda>s. s\<lparr>js_packets_received := js_packets_received s + 1\<rparr>)"
definition bump_dropped :: "jitter_buffer \<Rightarrow> jitter_buffer" where
  "bump_dropped = stats_upd (\<lambda>s. s\<lparr>js_packets_dropped := js_packets_dropped s + 1\<rparr>)"
definition bump_duplicated :: "jitter_buffer \<Rightarrow> jitter_buffer" where
  "bump_duplicated = stats_upd (\<lambda>s. s\<lparr>js_packets_duplicated := js_packets_duplicated s + 1\<rparr>)"
definition bump_reordered :: "jitter_buffer \<Rightarrow> jitter_buffer" where
  "bump_reordered = stats_upd (\<lambda>s. s\<lparr>js_packets_reordered := js_packets_reordered s + 1\<rparr>)"
definition bump_nacks :: "jitter_buffer \<Rightarrow> jitter_buffer" where
  "bump_nacks = stats_upd (\<lambda>s. s\<lparr>js_nack_requests := js_nack_requests s + 1\<rparr>)"
definition bump_recovered :: "jitter_buffer \<Rightarrow> jitter_buffer" where
  "bump_recovered = stats_upd (\<lambda>s. s\<lparr>js_nack_recovered := js_nack_recovered s + 1\<rparr>)"
definition add_lost :: "u64 \<Rightarrow> jitter_buffer \<Rightarrow> jitter_buffer" where
  "add_lost n = stats_upd (\<lambda>s. s\<lparr>js_packets_lost := js_packets_lost s + n\<rparr>)"
definition sync_size :: "jitter_buffer \<Rightarrow> jitter_buffer" where
  "sync_size b = stats_upd (\<lambda>s. s\<lparr>js_buffer_size := length (jb_packets b)\<rparr>) b"

definition already_played :: "jitter_buffer \<Rightarrow> u16 \<Rightarrow> bool" where
  "already_played b seq =
     (case jb_last_played b of Some lp \<Rightarrow> seq_before seq lp \<or> seq = lp | None \<Rightarrow> False)"

definition ts_diff_samples :: "u32 \<Rightarrow> u32 \<Rightarrow> int" where
  "ts_diff_samples ts last_ts = (let raw = ts - last_ts
     in if raw < 0x80000000 then uint raw else - uint (last_ts - ts))"

definition timestamp_jump :: "jitter_buffer \<Rightarrow> u32 \<Rightarrow> bool" where
  "timestamp_jump b ts = (case (jb_last_arrival b, jb_last_timestamp b) of
       (Some _, Some lt) \<Rightarrow> \<bar>ts_diff_samples ts lt\<bar> > uint (jc_sample_rate (jb_config b)) * 5
     | _ \<Rightarrow> False)"

definition store_packet :: "nat \<Rightarrow> rtp_packet \<Rightarrow> jitter_buffer \<Rightarrow> jitter_buffer" where
  "store_packet now p b = b\<lparr>jb_packets :=
     bt_insert (h_sequence_number (pkt_header p)) \<lparr>bp_packet = p, bp_arrival_time = now\<rparr> (jb_packets b)\<rparr>"

definition restart_with :: "nat \<Rightarrow> rtp_packet \<Rightarrow> jitter_buffer \<Rightarrow> jitter_buffer" where
  "restart_with now p b =
     (let b1 = bump_received (jb_reset b);
          b2 = b1\<lparr>jb_last_arrival := Some now, jb_last_timestamp := Some (h_timestamp (pkt_header p)),
                  jb_next_sequence := Some (h_sequence_number (pkt_header p) + 1)\<rparr>
      in sync_size (store_packet now p b2))"

definition update_jitter :: "nat \<Rightarrow> u32 \<Rightarrow> jitter_buffer \<Rightarrow> jitter_buffer res" where
  "update_jitter now ts b = (case (jb_last_arrival b, jb_last_timestamp b) of
     (Some la, Some lt) \<Rightarrow>
       if jc_sample_rate (jb_config b) = 0 then Panic
       else
         (let diff = ts_diff_samples ts lt;
              arrival_diff = i64 (int ((now - la) div 1000000));
              timestamp_diff = quot (diff * 1000) (uint (jc_sample_rate (jb_config b)));
              d = f64_of_int (i64 \<bar>i64 (arrival_diff - timestamp_diff)\<bar>);
              j = f64_add (jb_jitter_estimate b) (f64_div (f64_sub d (jb_jitter_estimate b)) 16);
              b1 = stats_upd (\<lambda>s. s\<lparr>js_jitter_ms := j\<rparr>) (b\<lparr>jb_jitter_estimate := j\<rparr>)
          in Ok (if diff \<ge> 0
                 then b1\<lparr>jb_last_arrival := Some now, jb_last_timestamp := Some ts\<rparr> else b1))
   | _ \<Rightarrow> Ok (b\<lparr>jb_last_arrival := Some now, jb_last_timestamp := Some ts\<rparr>))"

definition count_reordered :: "u16 \<Rightarrow> jitter_buffer \<Rightarrow> jitter_buffer" where
  "count_reordered seq b = (case jb_next_sequence b of
     Some expected \<Rightarrow>
       if seq_before seq expected
          \<and> (case jb_last_played b of Some lp \<Rightarrow> \<not> seq_before seq lp | None \<Rightarrow> True)
       then bump_reordered b else b
   | None \<Rightarrow> b)"

definition note_missing :: "jitter_buffer \<Rightarrow> u16 \<Rightarrow> jitter_buffer" where
  "note_missing b missing =
     (if bt_get (jb_packets b) missing \<noteq> None then b
      else bump_nacks (b\<lparr>jb_nack_list :=
        (if length (jb_nack_list b) \<ge> 500 then tl (jb_nack_list b) else jb_nack_list b) @ [missing]\<rparr>))"

definition note_gap :: "u16 \<Rightarrow> jitter_buffer \<Rightarrow> jitter_buffer" where
  "note_gap seq b = (case jb_next_sequence b of
     Some expected \<Rightarrow>
       (let gap = seq - expected
        in if jc_nack_enabled (jb_config b) \<and> seq_after seq expected \<and> gap > 0 \<and> gap \<le> 100
           then foldl note_missing b (map (\<lambda>i. expected + of_nat i) [0..<unat gap]) else b)
   | None \<Rightarrow> b)"

definition advance_next :: "u16 \<Rightarrow> jitter_buffer \<Rightarrow> jitter_buffer" where
  "advance_next seq b =
     (if (case jb_next_sequence b of None \<Rightarrow> True | Some n \<Rightarrow> \<not> seq_before seq n)
      then b\<lparr>jb_next_sequence := Some (seq + 1)\<rparr> else b)"

function evict_excess :: "jitter_buffer \<Rightarrow> jitter_buffer" where
  "evict_excess b =
     (if length (jb_packets b) > jc_max_packets (jb_config b) then
        (case oldest_seq b of None \<Rightarrow> b
         | Some k \<Rightarrow> evict_excess (bump_dropped (b\<lparr>jb_packets := bt_remove k (jb_packets b)\<rparr>)))
      else b)"
  by pat_completeness auto

lemma bt_remove_shorter:
  assumes "k \<in> set (bt_keys m)"
  shows "length (bt_remove k m) < length m"
proof -
  obtain v where "(k, v) \<in> set m" using assms by (auto simp: bt_keys_def)
  then show ?thesis unfolding bt_remove_def by (rule length_filter_less) simp
qed

termination evict_excess
proof (relation "measure (\<lambda>b. length (jb_packets b))")
  fix b k
  assume "oldest_seq b = Some k"
  then have "k \<in> set (bt_keys (jb_packets b))"
    unfolding oldest_seq_def by (rule oldest_key_mem)
  then show "(bump_dropped (b\<lparr>jb_packets := bt_remove k (jb_packets b)\<rparr>), b)
    \<in> measure (\<lambda>b. length (jb_packets b))"
    by (simp add: bump_dropped_def stats_upd_def bt_remove_shorter)
qed simp

declare evict_excess.simps [simp del]

definition buffer_duration_ms :: "jitter_buffer \<Rightarrow> u32" where
  "buffer_duration_ms b = ucast ((of_nat (length (jb_packets b))
     * ucast (jc_samples_per_packet (jb_config b)) * 1000 :: u64) div ucast (jc_sample_rate (jb_config b)))"

definition check_initial :: "jitter_buffer \<Rightarrow> jitter_buffer res" where
  "check_initial b =
     (if jb_initial_buffering_done b then Ok b
      else if jc_sample_rate (jb_config b) = 0 then Panic
      else if buffer_duration_ms b \<ge> min (jb_current_delay_ms b) (jc_target_delay_ms (jb_config b))
      then Ok (b\<lparr>jb_initial_buffering_done := True\<rparr>) else Ok b)"

definition enqueue :: "nat \<Rightarrow> rtp_packet \<Rightarrow> jitter_buffer \<Rightarrow> jitter_buffer res" where
  "enqueue now p b = (let seq = h_sequence_number (pkt_header p);
       b1 = note_gap seq (count_reordered seq b)
     in if bt_get (jb_packets b1) seq \<noteq> None then Ok (bump_duplicated b1)
        else check_initial (sync_size (evict_excess (store_packet now p (advance_next seq b1)))))"

definition jb_push :: "nat \<Rightarrow> rtp_packet \<Rightarrow> jitter_buffer \<Rightarrow> jitter_buffer res" where
  "jb_push now p b =
     (let b1 = bump_received b;
          seq = h_sequence_number (pkt_header p); ts = h_timestamp (pkt_header p)
      in if already_played b1 seq then Ok (bump_dropped b1)
         else if timestamp_jump b1 ts then Ok (restart_with now p b1)
         else res_bind (update_jitter now ts b1) (enqueue now p))"

section \<open>Popping a packet\<close>

definition skip_overfull :: "jitter_buffer \<Rightarrow> jitter_buffer" where
  "skip_overfull b =
     (let dur = (if jc_sample_rate (jb_config b) > 0 then buffer_duration_ms b else 0)
      in if jb_initial_buffering_done b \<and> dur > jb_current_delay_ms b * 2 \<and> jb_current_delay_ms b > 0
         then (case oldest_seq b of None \<Rightarrow> b
               | Some k \<Rightarrow> sync_size (bump_dropped (b\<lparr>jb_packets := bt_remove k (jb_packets b)\<rparr>)))
         else b)"

definition target_seq :: "jitter_buffer \<Rightarrow> u16 option" where
  "target_seq b = (case jb_last_played b of Some lp \<Rightarrow> Some (lp + 1) | None \<Rightarrow> oldest_seq b)"

definition adapt_delay :: "jitter_buffer \<Rightarrow> jitter_buffer res" where
  "adapt_delay b = (let c = jb_config b in
     if jc_sample_rate c = 0 \<or> jc_min_delay_ms c > jc_max_delay_ms c then Panic
     else
       (let level = buffer_duration_ms b;
            jitter_target = f64_to_u32 (f64_mul (js_jitter_ms (jb_stats b)) 2);
            adaptive_target = max (jc_min_delay_ms c) (min jitter_target (jc_max_delay_ms c));
            ptime = ucast ((ucast (jc_samples_per_packet c) * 1000 :: u64) div ucast (jc_sample_rate c)) :: u32;
            hysteresis = max ptime 1;
            d = (if level < sat_sub adaptive_target hysteresis
                 then min (jb_current_delay_ms b + 5) (jc_max_delay_ms c)
                 else if level > sat_add adaptive_target hysteresis
                 then max (sat_sub (jb_current_delay_ms b) 5) (jc_min_delay_ms c)
                 else jb_current_delay_ms b)
        in Ok (stats_upd (\<lambda>s. s\<lparr>js_buffer_delay_ms := d\<rparr>) (b\<lparr>jb_current_delay_ms := d\<rparr>))))"

definition drift_skip :: "jitter_buffer \<Rightarrow> jitter_buffer" where
  "drift_skip b = (case jb_last_played b of None \<Rightarrow> b
     | Some lps \<Rightarrow>
       (let skipped = lps + 1;
            b1 = (if bt_get (jb_packets b) skipped \<noteq> None
                  then sync_size (bump_dropped (b\<lparr>jb_packets := bt_remove skipped (jb_packets b)\<rparr>))
                  else b)
        in b1\<lparr>jb_last_played := Some skipped\<rparr>))"

definition drift_check :: "jitter_buffer \<Rightarrow> jitter_buffer res" where
  "drift_check b = (let c = jb_config b in
     if jb_drift_check_count b mod 500 = 0 \<and> jb_drift_check_count b > 0 then
       if jc_sample_rate c = 0 then Panic
       else
         (let fill = length (jb_packets b);
              target = unat (jc_target_delay_ms c)
                       div max (unat (jc_samples_per_packet c * 1000 div jc_sample_rate c)) 1
          in if fill > target + 2 then
               (let b1 = b\<lparr>jb_drift_high_count := jb_drift_high_count b + 1, jb_drift_low_count := 0\<rparr>
                in if jb_drift_high_count b1 \<ge> 3
                   then Ok (drift_skip (b1\<lparr>jb_drift_high_count := 0\<rparr>)) else Ok b1)
             else if fill < target - 2 \<and> target > 2 then
               (let b1 = b\<lparr>jb_drift_low_count := jb_drift_low_count b + 1, jb_drift_high_count := 0\<rparr>
                in Ok (if jb_drift_low_count b1 \<ge> 3 then b1\<lparr>jb_drift_low_count := 0\<rparr> else b1))
             else Ok (b\<lparr>jb_drift_high_count := 0, jb_drift_low_count := 0\<rparr>))
     else Ok b)"

definition play_target ::
  "u16 \<Rightarrow> buffered_packet \<Rightarrow> jitter_buffer \<Rightarrow> (jitter_buffer \<times> rtp_packet option) res" where
  "play_target k bp b =
     (let b1 = (sync_size (b\<lparr>jb_packets := bt_remove k (jb_packets b), jb_last_played := Some k\<rparr>))
               \<lparr>jb_consecutive_miss := 0\<rparr>
      in res_bind (if jb_pop_count b1 \<ge> 250 then adapt_delay (b1\<lparr>jb_pop_count := 0\<rparr>) else Ok b1)
           (\<lambda>b2. res_bind (drift_check b2) (\<lambda>b3. Ok (b3, Some (bp_packet bp)))))"

definition catch_up :: "u16 \<Rightarrow> jitter_buffer \<Rightarrow> jitter_buffer \<times> rtp_packet option" where
  "catch_up target b =
     (if length (jb_packets b) > jc_max_packets (jb_config b) div 2 then
        (case oldest_seq b of None \<Rightarrow> (b, None)
         | Some k \<Rightarrow>
           (case bt_get (jb_packets b) k of None \<Rightarrow> (b, None)
            | Some bp \<Rightarrow>
              (let b1 = b\<lparr>jb_packets := bt_remove k (jb_packets b)\<rparr>;
                   skipped = k - (target + 1);
                   b2 = (if skipped > 0 \<and> skipped < 0x8000 then add_lost (ucast skipped) b1 else b1)
               in (sync_size (b2\<lparr>jb_last_played := Some k\<rparr>), Some (bp_packet bp)))))
      else (b, None))"

definition miss_target :: "u16 \<Rightarrow> jitter_buffer \<Rightarrow> jitter_buffer \<times> rtp_packet option" where
  "miss_target target b =
     (if jb_initial_buffering_done b \<and> jc_sample_rate (jb_config b) > 0
         \<and> buffer_duration_ms b < jb_current_delay_ms b div 2 then (b, None)
      else
        (let b1 = b\<lparr>jb_consecutive_miss := jb_consecutive_miss b + 1\<rparr>
         in if jb_consecutive_miss b1 < jc_max_wait_before_loss (jb_config b) then (b1, None)
            else catch_up target
                   ((add_lost 1 (b1\<lparr>jb_consecutive_miss := 0\<rparr>))\<lparr>jb_last_played := Some target\<rparr>)))"

definition jb_pop :: "jitter_buffer \<Rightarrow> (jitter_buffer \<times> rtp_packet option) res" where
  "jb_pop b =
     (if \<not> jb_initial_buffering_done b \<and> \<not> jb_playout_started b then Ok (b, None)
      else
        (let b1 = skip_overfull (b\<lparr>jb_playout_started := True, jb_pop_count := jb_pop_count b + 1,
                                   jb_drift_check_count := jb_drift_check_count b + 1\<rparr>)
         in case target_seq b1 of None \<Rightarrow> Ok (b1, None)
            | Some target \<Rightarrow>
              (case bt_get (jb_packets b1) target of
                 Some bp \<Rightarrow> play_target target bp b1
               | None \<Rightarrow> Ok (miss_target target b1))))"

section \<open>The other operations\<close>

definition jb_get_stats :: "jitter_buffer \<Rightarrow> jitter_stats" where
  "jb_get_stats b = (jb_stats b)\<lparr>js_buffer_delay_ms := jb_current_delay_ms b\<rparr>"

definition jb_is_ready :: "jitter_buffer \<Rightarrow> bool" where
  "jb_is_ready b = (jb_initial_buffering_done b \<or> jb_playout_started b)"

definition reset_initial_buffering :: "jitter_buffer \<Rightarrow> jitter_buffer" where
  "reset_initial_buffering b =
     (stats_upd (\<lambda>s. s\<lparr>js_buffer_size := 0\<rparr>) (b\<lparr>jb_initial_buffering_done := False, jb_packets := []\<rparr>))
     \<lparr>jb_last_played := None, jb_next_sequence := None\<rparr>"

definition contains_seq :: "jitter_buffer \<Rightarrow> u16 \<Rightarrow> bool" where
  "contains_seq b seq = (bt_get (jb_packets b) seq \<noteq> None)"

definition pending_nacks :: "jitter_buffer \<Rightarrow> jitter_buffer \<times> u16 list" where
  "pending_nacks b = (b\<lparr>jb_nack_list := []\<rparr>,
     filter (\<lambda>s. \<not> already_played b s) (filter (\<lambda>s. \<not> contains_seq b s) (jb_nack_list b)))"

text \<open>RFC 2198 redundancy: the header blocks up to the primary one, then the redundant data.
  A block is its payload type, timestamp offset and length.\<close>

function red_headers :: "bytes \<Rightarrow> nat \<Rightarrow> ((byte \<times> u32 \<times> nat) list \<times> nat) option" where
  "red_headers pl off =
     (if off < length pl then
        if pl ! off AND 0x80 = 0 then Some ([], off + 1)
        else if off + 4 > length pl then None
        else
          (let ts_offset = push_bit 6 (ucast (pl ! (off + 1)) :: u32) OR drop_bit 2 (ucast (pl ! (off + 2)));
               block_len = push_bit 8 (unat (pl ! (off + 2) AND 0x03)) OR unat (pl ! (off + 3))
           in case red_headers pl (off + 4) of None \<Rightarrow> None
              | Some (bs, d) \<Rightarrow> Some ((pl ! off AND 0x7F, ts_offset, block_len) # bs, d))
      else Some ([], off))"
  by pat_completeness auto
termination by (relation "measure (\<lambda>(pl, off). length pl - off)") auto

declare red_headers.simps [simp del]

definition red_seq :: "jitter_buffer \<Rightarrow> u16 \<Rightarrow> u32 \<Rightarrow> u16" where
  "red_seq b seq ts_offset = seq - ucast (ts_offset div jc_samples_per_packet (jb_config b)) - 1"

fun red_insert :: "nat \<Rightarrow> rtp_packet \<Rightarrow> (byte \<times> u32 \<times> nat) list \<Rightarrow> nat \<Rightarrow> jitter_buffer \<Rightarrow> jitter_buffer" where
  "red_insert now p [] start b = b"
| "red_insert now p ((pt, ts_offset, len) # bs) start b =
     (let h = pkt_header p;
          seq = red_seq b (h_sequence_number h) ts_offset;
          synthetic = \<lparr>pkt_header = h\<lparr>h_sequence_number := seq, h_timestamp := h_timestamp h - ts_offset,
                                      h_payload_type := pt, h_marker := False\<rparr>,
                       pkt_payload = take len (drop start (pkt_payload p))\<rparr>;
          skip = start + len > length (pkt_payload p) \<or> jc_samples_per_packet (jb_config b) = 0
                 \<or> already_played b seq \<or> contains_seq b seq
      in red_insert now p bs (start + len)
           (if skip then b else bump_recovered (store_packet now synthetic b)))"

definition process_redundancy :: "nat \<Rightarrow> rtp_packet \<Rightarrow> jitter_buffer \<Rightarrow> jitter_buffer" where
  "process_redundancy now p b =
     (if pkt_payload p = [] then b
      else case red_headers (pkt_payload p) 0 of None \<Rightarrow> b
         | Some (bs, data_start) \<Rightarrow> red_insert now p bs data_start b)"

end
