(* ===== verification/Rtp_Jitter_Props.thy ===== *)
theory Rtp_Jitter_Props
  imports Rtp_Jitter
begin

text \<open>
  Runs of the jitter buffer and what holds over them: no panic and bounded buffers, playout in
  sequence order, and every packet received accounted for.
\<close>

section \<open>Runs\<close>

datatype jb_event = Push nat rtp_packet | Pop | Marker | Nacks | Reset

fun jb_step :: "jitter_buffer \<Rightarrow> jb_event \<Rightarrow> (jitter_buffer \<times> rtp_packet list) res" where
  "jb_step b (Push now p) = res_bind (jb_push now p b) (\<lambda>b'. Ok (b', []))"
| "jb_step b Pop = res_bind (jb_pop b) (\<lambda>(b', r). Ok (b', case r of None \<Rightarrow> [] | Some p \<Rightarrow> [p]))"
| "jb_step b Marker = Ok (reset_initial_buffering b, [])"
| "jb_step b Nacks = Ok (fst (pending_nacks b), [])"
| "jb_step b Reset = Ok (jb_reset b, [])"

fun jb_run :: "jitter_buffer \<Rightarrow> jb_event list \<Rightarrow> (jitter_buffer \<times> rtp_packet list) res" where
  "jb_run b [] = Ok (b, [])"
| "jb_run b (e # es) = res_bind (jb_step b e) (\<lambda>(b', ps).
     res_bind (jb_run b' es) (\<lambda>(b'', qs). Ok (b'', ps @ qs)))"

section \<open>Frame lemmas\<close>

lemmas bump_defs = bump_received_def bump_dropped_def bump_duplicated_def bump_reordered_def
  bump_nacks_def bump_recovered_def add_lost_def sync_size_def stats_upd_def

definition same_but_stats :: "jitter_buffer \<Rightarrow> jitter_buffer \<Rightarrow> bool" where
  "same_but_stats b b' = (jb_packets b' = jb_packets b \<and> jb_config b' = jb_config b
     \<and> jb_last_played b' = jb_last_played b \<and> jb_current_delay_ms b' = jb_current_delay_ms b)"

text \<open>The counters of \<open>accounting\<close>: received, dropped, duplicated.\<close>

definition counts :: "jitter_buffer \<Rightarrow> u64 \<times> u64 \<times> u64" where
  "counts b = (js_packets_received (jb_stats b), js_packets_dropped (jb_stats b),
     js_packets_duplicated (jb_stats b))"

lemma update_jitter_frame:
  "update_jitter now ts b = Ok b' \<Longrightarrow> same_but_stats b b' \<and> counts b' = counts b
     \<and> jb_nack_list b' = jb_nack_list b \<and> js_buffer_size (jb_stats b') = js_buffer_size (jb_stats b)
     \<and> jb_next_sequence b' = jb_next_sequence b"
  by (auto simp: update_jitter_def same_but_stats_def counts_def stats_upd_def Let_def
      split: option.splits if_splits)

lemma count_reordered_frame:
  "same_but_stats b (count_reordered seq b) \<and> counts (count_reordered seq b) = counts b
     \<and> jb_nack_list (count_reordered seq b) = jb_nack_list b"
  by (auto simp: count_reordered_def same_but_stats_def counts_def bump_defs
      split: option.splits)

lemma note_missing_frame:
  "same_but_stats b (note_missing b m) \<and> counts (note_missing b m) = counts b
     \<and> (length (jb_nack_list b) \<le> 500 \<longrightarrow> length (jb_nack_list (note_missing b m)) \<le> 500)"
  by (auto simp: note_missing_def same_but_stats_def counts_def bump_defs)

lemma note_missing_all_frame:
  "same_but_stats b (foldl note_missing b ms) \<and> counts (foldl note_missing b ms) = counts b
     \<and> (length (jb_nack_list b) \<le> 500 \<longrightarrow> length (jb_nack_list (foldl note_missing b ms)) \<le> 500)"
proof (induction ms arbitrary: b)
  case (Cons m ms)
  from Cons [of "note_missing b m"] note_missing_frame [of b m] show ?case
    by (auto simp: same_but_stats_def)
qed (simp add: same_but_stats_def)

lemma note_gap_frame:
  "same_but_stats b (note_gap seq b) \<and> counts (note_gap seq b) = counts b
     \<and> (length (jb_nack_list b) \<le> 500 \<longrightarrow> length (jb_nack_list (note_gap seq b)) \<le> 500)"
  using note_missing_all_frame
  by (simp add: note_gap_def Let_def same_but_stats_def split: option.split)

lemma check_initial_frame:
  "check_initial b = Ok b' \<Longrightarrow> same_but_stats b b' \<and> jb_stats b' = jb_stats b
     \<and> jb_nack_list b' = jb_nack_list b"
  by (auto simp: check_initial_def same_but_stats_def split: if_splits)

lemma oldest_seq_present: "oldest_seq b = Some k \<Longrightarrow> k \<in> set (bt_keys (jb_packets b))"
  unfolding oldest_seq_def by (rule oldest_key_mem)

lemma length_bt_insert_new:
  "bt_wf m \<Longrightarrow> bt_get m k = None \<Longrightarrow> length (bt_insert k v m) = Suc (length m)"
  using bt.size_ins_new [of m k v] by simp

lemma length_bt_remove:
  "bt_wf m \<Longrightarrow> bt_get m k = Some v \<Longrightarrow> Suc (length (bt_remove k m)) = length m"
  using bt.size_del_present [of m k v] by simp

lemma length_bt_remove_le: "length (bt_remove k m) \<le> length m"
  by (simp add: bt_remove_def)

section \<open>The well-formed buffer\<close>

text \<open>The map is sorted and every packet sits under its own sequence number.\<close>

definition jb_wf :: "jitter_buffer \<Rightarrow> bool" where
  "jb_wf b = (bt_wf (jb_packets b)
     \<and> (\<forall>k bp. bt_get (jb_packets b) k = Some bp \<longrightarrow> h_sequence_number (pkt_header (bp_packet bp)) = k))"

lemma jb_wf_remove: "jb_wf b \<Longrightarrow> jb_packets b' = bt_remove k (jb_packets b) \<Longrightarrow> jb_wf b'"
  by (auto simp: jb_wf_def bt.wf_del bt.get_del split: if_splits)

lemma jb_wf_store: "jb_wf b \<Longrightarrow> jb_wf (store_packet now p b)"
  by (auto simp: jb_wf_def store_packet_def bt.wf_ins bt.get_ins split: if_splits)

lemma jb_wf_same: "jb_wf b \<Longrightarrow> jb_packets b' = jb_packets b \<Longrightarrow> jb_wf b'"
  by (simp add: jb_wf_def)

text \<open>Evicting: the keys shrink, what leaves is counted as dropped, the size obeys the bound.\<close>

lemma evict_excess_frame:
  assumes "jb_wf b"
  shows "jb_wf (evict_excess b)
    \<and> set (bt_keys (jb_packets (evict_excess b))) \<subseteq> set (bt_keys (jb_packets b))
    \<and> length (jb_packets (evict_excess b)) \<le> jc_max_packets (jb_config b)
    \<and> jb_config (evict_excess b) = jb_config b
    \<and> jb_last_played (evict_excess b) = jb_last_played b
    \<and> jb_current_delay_ms (evict_excess b) = jb_current_delay_ms b
    \<and> jb_nack_list (evict_excess b) = jb_nack_list b
    \<and> js_packets_received (jb_stats (evict_excess b)) = js_packets_received (jb_stats b)
    \<and> js_packets_duplicated (jb_stats (evict_excess b)) = js_packets_duplicated (jb_stats b)
    \<and> js_packets_dropped (jb_stats (evict_excess b)) + of_nat (length (jb_packets (evict_excess b)))
       = js_packets_dropped (jb_stats b) + of_nat (length (jb_packets b))"
  using assms
proof (induction b rule: evict_excess.induct)
  case (1 b)
  show ?case
  proof (cases "length (jb_packets b) > jc_max_packets (jb_config b)")
    case False
    then show ?thesis using 1(2) by (simp add: evict_excess.simps [of b])
  next
    case True
    then obtain k where k: "oldest_seq b = Some k" by (metis list.size(3) not_less_zero oldest_seq_None option.exhaust)
    let ?b = "bump_dropped (b\<lparr>jb_packets := bt_remove k (jb_packets b)\<rparr>)"
    obtain v where v: "bt_get (jb_packets b) k = Some v"
      using oldest_seq_present [OF k] by (auto simp: bt_keys_get)
    have wf: "jb_wf ?b" using 1(2) by (rule jb_wf_remove) (simp add: bump_defs)
    have len: "Suc (length (bt_remove k (jb_packets b))) = length (jb_packets b)"
      using 1(2) v by (simp add: jb_wf_def length_bt_remove)
    have sub: "set (bt_keys (bt_remove k (jb_packets b))) \<subseteq> set (bt_keys (jb_packets b))"
      using 1(2) by (auto simp: jb_wf_def bt.keys_del)
    have ev: "evict_excess b = evict_excess ?b"
      using True k by (simp add: evict_excess.simps [of b])
    note IH = "1.IH" [OF True k wf]
    have drop: "js_packets_dropped (jb_stats ?b) + of_nat (length (jb_packets ?b))
      = js_packets_dropped (jb_stats b) + of_nat (length (jb_packets b))"
      unfolding len [symmetric] by (simp add: bump_defs)
    from IH sub drop show ?thesis unfolding ev by (auto simp: bump_defs)
  qed
qed


section \<open>One push\<close>

text \<open>What a push or pop keeps: \<open>n\<close> is the number of packets that went out of the buffer's
  books (received minus delivered).\<close>

definition balanced :: "jitter_buffer \<Rightarrow> u64 \<Rightarrow> bool" where
  "balanced b n = (n = js_packets_dropped (jb_stats b) + js_packets_duplicated (jb_stats b)
     + of_nat (length (jb_packets b)))"

definition jb_bounded :: "jitter_buffer \<Rightarrow> bool" where
  "jb_bounded b = (jb_wf b \<and> length (jb_packets b) \<le> jc_max_packets (jb_config b)
     \<and> length (jb_nack_list b) \<le> 500
     \<and> js_buffer_size (jb_stats b) = length (jb_packets b)
     \<and> jc_min_delay_ms (jb_config b) \<le> jb_current_delay_ms b
     \<and> jb_current_delay_ms b \<le> jc_max_delay_ms (jb_config b))"

definition config_ok :: "jitter_config \<Rightarrow> bool" where
  "config_ok c = (1 \<le> jc_max_packets c \<and> 0 < jc_sample_rate c
     \<and> jc_min_delay_ms c \<le> jc_target_delay_ms c \<and> jc_target_delay_ms c \<le> jc_max_delay_ms c
     \<and> jc_max_delay_ms c \<le> 4294967290)"

lemma enqueue_cases:
  assumes "enqueue now p b = Ok b'" and "jb_wf b"
  defines "seq \<equiv> h_sequence_number (pkt_header p)"
  shows "jb_wf b'" and "set (bt_keys (jb_packets b')) \<subseteq> insert seq (set (bt_keys (jb_packets b)))"
    and "jb_config b' = jb_config b" and "jb_last_played b' = jb_last_played b"
    and "jb_current_delay_ms b' = jb_current_delay_ms b"
    and "js_packets_received (jb_stats b') = js_packets_received (jb_stats b)"
    and "balanced b n \<Longrightarrow> balanced b' (n + 1)"
    and "jb_bounded b \<Longrightarrow> jb_bounded b'"
proof -
  let ?b1 = "note_gap seq (count_reordered seq b)"
  have fr: "same_but_stats b ?b1 \<and> counts ?b1 = counts b
     \<and> (length (jb_nack_list b) \<le> 500 \<longrightarrow> length (jb_nack_list ?b1) \<le> 500)"
    using count_reordered_frame [of b seq] note_gap_frame [of "count_reordered seq b" seq]
    by (simp add: same_but_stats_def)
  have size1: "js_buffer_size (jb_stats ?b1) = js_buffer_size (jb_stats b)"
  proof -
    have nm: "js_buffer_size (jb_stats (foldl note_missing x ms)) = js_buffer_size (jb_stats x)" for x ms
      by (induction ms arbitrary: x) (auto simp: note_missing_def bump_defs)
    show ?thesis
      by (auto simp: note_gap_def count_reordered_def nm bump_defs Let_def split: option.splits)
  qed
  have wf1: "jb_wf ?b1" using assms(2) by (rule jb_wf_same) (use fr in \<open>simp add: same_but_stats_def\<close>)
  have all: "jb_wf b' \<and> set (bt_keys (jb_packets b')) \<subseteq> insert seq (set (bt_keys (jb_packets b)))
    \<and> jb_config b' = jb_config b \<and> jb_last_played b' = jb_last_played b
    \<and> jb_current_delay_ms b' = jb_current_delay_ms b
    \<and> js_packets_received (jb_stats b') = js_packets_received (jb_stats b)
    \<and> (balanced b n \<longrightarrow> balanced b' (n + 1)) \<and> (jb_bounded b \<longrightarrow> jb_bounded b')"
  proof (cases "bt_get (jb_packets ?b1) seq = None")
    case False
    then have "b' = bump_duplicated ?b1"
      using assms(1) by (simp add: enqueue_def Let_def seq_def)
    with fr wf1 size1 show ?thesis
      by (auto simp: bump_defs same_but_stats_def counts_def balanced_def jb_bounded_def
          intro: jb_wf_same)
  next
    case True
    let ?s = "store_packet now p (advance_next seq ?b1)"
    have adv: "jb_packets (advance_next seq ?b1) = jb_packets ?b1
      \<and> jb_stats (advance_next seq ?b1) = jb_stats ?b1 \<and> same_but_stats ?b1 (advance_next seq ?b1)
      \<and> jb_nack_list (advance_next seq ?b1) = jb_nack_list ?b1"
      by (simp add: advance_next_def same_but_stats_def)
    have ci: "check_initial (sync_size (evict_excess ?s)) = Ok b'"
      using assms(1) True by (simp add: enqueue_def Let_def seq_def)
    note ci = check_initial_frame [OF ci]
    have wfs: "jb_wf ?s"
      by (rule jb_wf_store, rule jb_wf_same [OF wf1]) (simp add: adv)
    have bwf: "bt_wf (jb_packets ?b1)" using wf1 by (simp add: jb_wf_def)
    have ins: "jb_packets ?s = bt_insert seq \<lparr>bp_packet = p, bp_arrival_time = now\<rparr> (jb_packets ?b1)"
      using adv unfolding seq_def by (simp add: store_packet_def)
    have len: "length (jb_packets ?s) = Suc (length (jb_packets ?b1))"
      unfolding ins using bwf True by (rule length_bt_insert_new)
    have keys: "set (bt_keys (jb_packets ?s)) = insert seq (set (bt_keys (jb_packets ?b1)))"
      unfolding ins by (rule bt.keys_ins [OF bwf])
    have store: "jb_stats ?s = jb_stats ?b1" "same_but_stats (?s\<lparr>jb_packets := jb_packets ?b1\<rparr>) ?b1"
      "jb_nack_list ?s = jb_nack_list ?b1"
      using adv by (simp_all add: store_packet_def same_but_stats_def)
    note ev = evict_excess_frame [OF wfs]
    have wf': "jb_wf b'" using ev ci by (auto simp: same_but_stats_def bump_defs intro: jb_wf_same)
    have bal: "balanced b n \<longrightarrow> balanced b' (n + 1)"
      using ev ci store fr len by (auto simp: balanced_def same_but_stats_def bump_defs counts_def algebra_simps)
    show ?thesis
      using ev ci fr keys store wf' bal by (auto simp: same_but_stats_def bump_defs jb_bounded_def counts_def)
  qed
  show "jb_wf b'" and "set (bt_keys (jb_packets b')) \<subseteq> insert seq (set (bt_keys (jb_packets b)))"
    and "jb_config b' = jb_config b" and "jb_last_played b' = jb_last_played b"
    and "jb_current_delay_ms b' = jb_current_delay_ms b"
    and "js_packets_received (jb_stats b') = js_packets_received (jb_stats b)"
    and "balanced b n \<Longrightarrow> balanced b' (n + 1)"
    and "jb_bounded b \<Longrightarrow> jb_bounded b'"
    using all by auto
qed


lemma already_played_received [simp]:
  "already_played (bump_received b) s = already_played b s"
  "timestamp_jump (bump_received b) ts = timestamp_jump b ts"
  by (simp_all add: already_played_def timestamp_jump_def bump_defs cong: option.case_cong)

text \<open>A push that does not restart the stream.\<close>

lemma push_quiet:
  assumes "jb_push now p b = Ok b'" and "jb_wf b"
    and "\<not> timestamp_jump b (h_timestamp (pkt_header p))"
  shows "jb_wf b'" and "jb_last_played b' = jb_last_played b"
    and "js_packets_received (jb_stats b') = js_packets_received (jb_stats b) + 1"
    and "balanced b n \<Longrightarrow> balanced b' (n + 1)"
    and "k \<in> set (bt_keys (jb_packets b')) \<Longrightarrow> k \<in> set (bt_keys (jb_packets b))
      \<or> k = h_sequence_number (pkt_header p) \<and> \<not> already_played b k"
proof -
  let ?seq = "h_sequence_number (pkt_header p)"
  have all: "jb_wf b' \<and> jb_last_played b' = jb_last_played b
    \<and> js_packets_received (jb_stats b') = js_packets_received (jb_stats b) + 1
    \<and> (balanced b n \<longrightarrow> balanced b' (n + 1))
    \<and> set (bt_keys (jb_packets b')) \<subseteq> set (bt_keys (jb_packets b))
        \<union> (if already_played b ?seq then {} else {?seq})"
  proof (cases "already_played b ?seq")
    case True
    with assms(1) have "b' = bump_dropped (bump_received b)" by (simp add: jb_push_def Let_def)
    with assms(2) True show ?thesis
      by (auto simp: bump_defs balanced_def intro: jb_wf_same)
  next
    case False
    with assms obtain b1 where b1: "update_jitter now (h_timestamp (pkt_header p)) (bump_received b) = Ok b1"
      "enqueue now p b1 = Ok b'"
      by (auto simp: jb_push_def Let_def)
    note uj = update_jitter_frame [OF b1(1)]
    have wf1: "jb_wf b1" using assms(2) by (rule jb_wf_same) (use uj in \<open>simp add: same_but_stats_def bump_defs\<close>)
    have bal: "balanced b n \<Longrightarrow> balanced b1 n"
      using uj by (auto simp: balanced_def counts_def same_but_stats_def bump_defs)
    note en = enqueue_cases [OF b1(2) wf1]
    from uj en bal False show ?thesis
      by (auto simp: same_but_stats_def bump_defs counts_def)
  qed
  show "jb_wf b'" and "jb_last_played b' = jb_last_played b"
    and "js_packets_received (jb_stats b') = js_packets_received (jb_stats b) + 1"
    and "balanced b n \<Longrightarrow> balanced b' (n + 1)" using all by auto
  show "k \<in> set (bt_keys (jb_packets b')) \<Longrightarrow> k \<in> set (bt_keys (jb_packets b))
      \<or> k = ?seq \<and> \<not> already_played b k"
    using all by (auto split: if_splits)
qed

lemma update_jitter_total:
  "jc_sample_rate (jb_config b) \<noteq> 0 \<Longrightarrow> \<exists>b'. update_jitter now ts b = Ok b'"
  by (simp add: update_jitter_def Let_def split: option.split)

lemma enqueue_total:
  "jc_sample_rate (jb_config b) \<noteq> 0 \<Longrightarrow> jb_wf b \<Longrightarrow> \<exists>b'. enqueue now p b = Ok b'"
proof -
  assume rate: "jc_sample_rate (jb_config b) \<noteq> 0" and wf: "jb_wf b"
  let ?seq = "h_sequence_number (pkt_header p)"
  let ?b1 = "note_gap ?seq (count_reordered ?seq b)"
  have b1: "jb_config ?b1 = jb_config b" "jb_packets ?b1 = jb_packets b"
    using count_reordered_frame [of b ?seq] note_gap_frame [of "count_reordered ?seq b" ?seq]
    by (auto simp: same_but_stats_def)
  let ?s = "store_packet now p (advance_next ?seq ?b1)"
  have wfs: "jb_wf ?s"
    by (rule jb_wf_store, rule jb_wf_same [OF wf]) (simp add: advance_next_def b1)
  have "jb_config (evict_excess ?s) = jb_config b"
    using evict_excess_frame [OF wfs] b1 by (simp add: store_packet_def advance_next_def)
  then show ?thesis
    using rate by (simp add: enqueue_def Let_def check_initial_def sync_size_def stats_upd_def)
qed

lemma push_bounded:
  assumes "jb_bounded b" and "config_ok (jb_config b)"
  shows "\<exists>b'. jb_push now p b = Ok b' \<and> jb_bounded b' \<and> jb_config b' = jb_config b"
proof -
  let ?b1 = "bump_received b" let ?seq = "h_sequence_number (pkt_header p)"
  have B1: "jb_bounded ?b1" using assms(1) by (auto simp: jb_bounded_def bump_defs intro: jb_wf_same)
  consider "already_played b ?seq"
    | "\<not> already_played b ?seq" "timestamp_jump b (h_timestamp (pkt_header p))"
    | "\<not> already_played b ?seq" "\<not> timestamp_jump b (h_timestamp (pkt_header p))" by auto
  then show ?thesis
  proof cases
    case 1
    then have "jb_push now p b = Ok (bump_dropped ?b1)" by (simp add: jb_push_def Let_def)
    with assms show ?thesis by (auto simp: jb_bounded_def bump_defs intro: jb_wf_same)
  next
    case 2
    have "jb_wf (restart_with now p ?b1)"
      by (simp add: jb_wf_def restart_with_def store_packet_def bump_defs jb_reset_def bt_get_def bt_wf_def)
    moreover have "jb_push now p b = Ok (restart_with now p ?b1)"
      using 2 by (simp add: jb_push_def Let_def)
    ultimately show ?thesis using assms(2)
      by (auto simp: jb_bounded_def restart_with_def bump_defs store_packet_def
          jb_reset_def config_ok_def stats_default_def)
  next
    case 3
    have rate: "jc_sample_rate (jb_config ?b1) \<noteq> 0"
      using assms(2) by (auto simp: config_ok_def bump_defs)
    then obtain b2 where b2: "update_jitter now (h_timestamp (pkt_header p)) ?b1 = Ok b2"
      using update_jitter_total by blast
    note uj = update_jitter_frame [OF b2]
    have B2: "jb_bounded b2" using B1 uj
      by (auto simp: jb_bounded_def same_but_stats_def intro: jb_wf_same)
    obtain b' where b': "enqueue now p b2 = Ok b'"
      using enqueue_total [of b2] rate uj B2 by (auto simp: same_but_stats_def jb_bounded_def)
    have "jb_bounded b'" "jb_config b' = jb_config b"
      using enqueue_cases [OF b'] B2 uj by (auto simp: jb_bounded_def same_but_stats_def bump_defs)
    with 3 b2 b' show ?thesis by (simp add: jb_push_def Let_def)
  qed
qed


section \<open>One pop\<close>

text \<open>The stages of a pop only take packets out, and \<open>m\<close> of them were handed out.\<close>

definition takes :: "u64 \<Rightarrow> jitter_buffer \<Rightarrow> jitter_buffer \<Rightarrow> bool" where
  "takes m b b' = (jb_wf b'
     \<and> set (bt_keys (jb_packets b')) \<subseteq> set (bt_keys (jb_packets b))
     \<and> length (jb_packets b') \<le> length (jb_packets b)
     \<and> jb_config b' = jb_config b \<and> jb_nack_list b' = jb_nack_list b
     \<and> js_packets_received (jb_stats b') = js_packets_received (jb_stats b)
     \<and> (js_buffer_size (jb_stats b) = length (jb_packets b)
          \<longrightarrow> js_buffer_size (jb_stats b') = length (jb_packets b'))
     \<and> js_packets_dropped (jb_stats b') + js_packets_duplicated (jb_stats b')
         + of_nat (length (jb_packets b')) + m
       = js_packets_dropped (jb_stats b) + js_packets_duplicated (jb_stats b)
         + of_nat (length (jb_packets b)))"

lemma takes_trans: "takes m b b' \<Longrightarrow> takes m' b' b'' \<Longrightarrow> takes (m + m') b b''"
  by (fastforce simp: takes_def algebra_simps)

lemma takes_none:
  "jb_wf b \<Longrightarrow> jb_packets b' = jb_packets b \<Longrightarrow> jb_config b' = jb_config b
   \<Longrightarrow> jb_nack_list b' = jb_nack_list b \<Longrightarrow> counts b' = counts b
   \<Longrightarrow> js_buffer_size (jb_stats b') = js_buffer_size (jb_stats b) \<Longrightarrow> takes 0 b b'"
  by (auto simp: takes_def counts_def intro: jb_wf_same)

lemma takes_remove:
  assumes "jb_wf b" and "bt_get (jb_packets b) k = Some v"
    and "jb_packets b' = bt_remove k (jb_packets b)" and "jb_config b' = jb_config b"
    and "jb_nack_list b' = jb_nack_list b"
    and "counts b' = (js_packets_received (jb_stats b), js_packets_dropped (jb_stats b) + d,
      js_packets_duplicated (jb_stats b))"
    and "js_buffer_size (jb_stats b') = length (jb_packets b')" and "d + m = 1"
  shows "takes m b b'"
proof -
  have len: "length (jb_packets b) = Suc (length (jb_packets b'))"
    using assms(1-3) by (simp add: jb_wf_def length_bt_remove)
  have eq: "js_packets_dropped (jb_stats b') + js_packets_duplicated (jb_stats b')
        + of_nat (length (jb_packets b')) + m
      = js_packets_dropped (jb_stats b) + js_packets_duplicated (jb_stats b)
        + of_nat (length (jb_packets b'))  + (d + m)"
    using assms(6) by (simp add: counts_def algebra_simps)
  have wf: "jb_wf b'" using assms(1) assms(3) by (rule jb_wf_remove)
  have keys: "set (bt_keys (jb_packets b')) \<subseteq> set (bt_keys (jb_packets b))"
    using assms(1) unfolding assms(3) by (auto simp: jb_wf_def bt.keys_del)
  show ?thesis
    unfolding takes_def
    using wf keys assms(4,5,6,7) eq by (simp add: len assms(8) counts_def)
qed

lemma counts_sync [simp]: "counts (sync_size b) = counts b"
  by (simp add: counts_def bump_defs)

lemma counts_dropped [simp]: "counts (bump_dropped b)
  = (js_packets_received (jb_stats b), js_packets_dropped (jb_stats b) + 1, js_packets_duplicated (jb_stats b))"
  by (simp add: counts_def bump_defs)

lemma skip_overfull_takes:
  assumes "jb_wf b"
  shows "takes 0 b (skip_overfull b)" and "jb_last_played (skip_overfull b) = jb_last_played b"
    and "jb_current_delay_ms (skip_overfull b) = jb_current_delay_ms b"
proof -
  show "takes 0 b (skip_overfull b)"
  proof (cases "skip_overfull b = b")
    case True
    then show ?thesis using assms by (simp add: takes_none)
  next
    case False
    then obtain k where k: "oldest_seq b = Some k"
      and eq: "skip_overfull b = sync_size (bump_dropped (b\<lparr>jb_packets := bt_remove k (jb_packets b)\<rparr>))"
      by (auto simp: skip_overfull_def Let_def split: if_splits option.splits)
    obtain v where v: "bt_get (jb_packets b) k = Some v"
      using oldest_seq_present [OF k] by (auto simp: bt_keys_get)
    show ?thesis unfolding eq
      by (rule takes_remove [OF assms v, where d = 1]) (simp_all add: bump_defs counts_def)
  qed
qed (auto simp: skip_overfull_def bump_defs Let_def split: option.split)

lemma adapt_delay_frame:
  assumes "adapt_delay b = Ok b'" and "jb_wf b"
  shows "takes 0 b b'" and "jb_last_played b' = jb_last_played b"
    and "jb_packets b' = jb_packets b"
    and "jb_drift_check_count b' = jb_drift_check_count b"
  using assms
  by (auto simp: adapt_delay_def Let_def stats_upd_def counts_def split: if_splits intro!: takes_none)

lemma adapt_delay_total:
  assumes "config_ok (jb_config b)" and "jc_min_delay_ms (jb_config b) \<le> jb_current_delay_ms b"
    and "jb_current_delay_ms b \<le> jc_max_delay_ms (jb_config b)"
  shows "\<exists>b'. adapt_delay b = Ok b' \<and> jc_min_delay_ms (jb_config b) \<le> jb_current_delay_ms b'
    \<and> jb_current_delay_ms b' \<le> jc_max_delay_ms (jb_config b)"
proof -
  let ?c = "jb_config b" let ?d = "jb_current_delay_ms b"
  have "?d \<le> 4294967290" using assms by (auto simp: config_ok_def)
  then have "unat ?d + 5 < 4294967296" by (simp add: word_le_nat_alt)
  then have "unat (?d + 5) = unat ?d + 5" by (simp add: unat_word_ariths)
  then have up: "?d \<le> ?d + 5" by (simp add: word_le_nat_alt)
  have low: "jc_min_delay_ms ?c \<le> min (?d + 5) (jc_max_delay_ms ?c)"
    using assms up by (auto intro: order_trans)
  have high: "max (sat_sub ?d 5) (jc_min_delay_ms ?c) \<le> jc_max_delay_ms ?c"
    using assms(2,3) sat_sub_le [of ?d 5] by (auto intro: order_trans)
  have "\<not> (jc_sample_rate ?c = 0 \<or> jc_min_delay_ms ?c > jc_max_delay_ms ?c)"
    using assms by (auto simp: config_ok_def)
  then show ?thesis
    unfolding adapt_delay_def Let_def using low high assms(2,3) by (simp add: stats_upd_def)
qed

lemma drift_skip_takes:
  assumes "jb_wf b"
  shows "takes 0 b (drift_skip b)" and "jb_current_delay_ms (drift_skip b) = jb_current_delay_ms b"
    and "jb_last_played b = Some l \<Longrightarrow> jb_last_played (drift_skip b) = Some (l + 1)
      \<and> l + 1 \<notin> set (bt_keys (jb_packets (drift_skip b)))"
proof -
  show "takes 0 b (drift_skip b)"
  proof (cases "jb_last_played b")
    case None
    then show ?thesis using assms by (simp add: drift_skip_def takes_none)
  next
    case (Some l)
    show ?thesis
    proof (cases "bt_get (jb_packets b) (l + 1)")
      case None
      then show ?thesis using assms Some by (auto simp: drift_skip_def counts_def intro!: takes_none)
    next
      case (Some v)
      show ?thesis
        by (rule takes_remove [OF assms Some, where d = 1])
          (simp_all add: drift_skip_def bump_defs counts_def \<open>jb_last_played b = Some l\<close> Some Let_def)
    qed
  qed
  show "jb_last_played b = Some l \<Longrightarrow> jb_last_played (drift_skip b) = Some (l + 1)
      \<and> l + 1 \<notin> set (bt_keys (jb_packets (drift_skip b)))"
    using assms
    by (auto simp: drift_skip_def Let_def bump_defs bt_get_None jb_wf_def bt.keys_del)
qed (auto simp: drift_skip_def bump_defs Let_def split: option.split)

lemma drift_check_cases:
  assumes "drift_check b = Ok b'" and "jb_wf b" and "jb_last_played b = Some l"
  shows "takes 0 b b'" and "jb_current_delay_ms b' = jb_current_delay_ms b"
    and "jb_last_played b' = Some l
      \<or> (jb_last_played b' = Some (l + 1) \<and> l + 1 \<notin> set (bt_keys (jb_packets b')))"
proof -
  let ?hi = "b\<lparr>jb_drift_low_count := 0, jb_drift_high_count := 0\<rparr>"
  have wf: "jb_wf (b\<lparr>jb_drift_low_count := h, jb_drift_high_count := w\<rparr>)" for h w
    using assms(2) by (rule jb_wf_same) simp
  have same: "takes 0 b (b\<lparr>jb_drift_high_count := h, jb_drift_low_count := w\<rparr>)"
    "takes 0 b (b\<lparr>jb_drift_low_count := w, jb_drift_high_count := h\<rparr>)" for h w
    by (rule takes_none [OF assms(2)]; simp add: counts_def)+
  have "b' = drift_skip ?hi \<or> b' = b \<or> (\<exists>h w. b' = b\<lparr>jb_drift_high_count := h, jb_drift_low_count := w\<rparr>)
    \<or> (\<exists>h w. b' = b\<lparr>jb_drift_low_count := w, jb_drift_high_count := h\<rparr>)"
    using assms(1) by (auto simp: drift_check_def Let_def split: if_splits)
  then consider "b' = drift_skip ?hi"
    | "takes 0 b b'" "jb_last_played b' = Some l" "jb_current_delay_ms b' = jb_current_delay_ms b"
    using assms(2,3) same by (auto intro: takes_none)
  then have "takes 0 b b' \<and> jb_current_delay_ms b' = jb_current_delay_ms b
    \<and> (jb_last_played b' = Some l
      \<or> (jb_last_played b' = Some (l + 1) \<and> l + 1 \<notin> set (bt_keys (jb_packets b'))))"
  proof cases
    case 1
    have "takes 0 b ?hi" using assms(2) by (rule takes_none) (simp_all add: counts_def)
    then have "takes (0 + 0) b b'" unfolding 1 by (rule takes_trans) (rule drift_skip_takes [OF wf])
    then show ?thesis using drift_skip_takes [OF wf [of 0 0]] assms(3) unfolding 1 by simp
  qed auto
  then show "takes 0 b b'" and "jb_current_delay_ms b' = jb_current_delay_ms b"
    and "jb_last_played b' = Some l
      \<or> (jb_last_played b' = Some (l + 1) \<and> l + 1 \<notin> set (bt_keys (jb_packets b')))" by auto
qed

lemma drift_check_total:
  "jc_sample_rate (jb_config b) \<noteq> 0 \<Longrightarrow> \<exists>b'. drift_check b = Ok b'"
  by (simp add: drift_check_def Let_def)


text \<open>What a pop hands out: the packet after the last one played, or the oldest one.\<close>

definition picks :: "jitter_buffer \<Rightarrow> jitter_buffer \<Rightarrow> u16 \<Rightarrow> bool" where
  "picks b b' k =
     (k \<in> set (bt_keys (jb_packets b)) \<and> k \<notin> set (bt_keys (jb_packets b'))
      \<and> (jb_last_played b' = Some k
         \<or> jb_last_played b' = Some (k + 1) \<and> k + 1 \<notin> set (bt_keys (jb_packets b')))
      \<and> (jb_last_played b = Some (k - 1)
         \<or> (\<exists>ks. oldest_key ks = Some k \<and> set ks \<subseteq> set (bt_keys (jb_packets b))
                \<and> set (bt_keys (jb_packets b')) \<subseteq> set ks)))"

definition waits :: "jitter_buffer \<Rightarrow> jitter_buffer \<Rightarrow> bool" where
  "waits b b' = (jb_last_played b' = jb_last_played b
     \<or> (\<exists>l. jb_last_played b = Some l \<and> jb_last_played b' = Some (l + 1)
            \<and> l + 1 \<notin> set (bt_keys (jb_packets b'))))"

lemma play_target_cases:
  assumes "play_target k bp b = Ok (b', r)" and "jb_wf b" and "bt_get (jb_packets b) k = Some bp"
  shows "takes 1 b b'" and "r = Some (bp_packet bp)"
    and "h_sequence_number (pkt_header (bp_packet bp)) = k"
    and "k \<notin> set (bt_keys (jb_packets b'))"
    and "jb_last_played b' = Some k
      \<or> jb_last_played b' = Some (k + 1) \<and> k + 1 \<notin> set (bt_keys (jb_packets b'))"
proof -
  let ?b1 = "(sync_size (b\<lparr>jb_packets := bt_remove k (jb_packets b), jb_last_played := Some k\<rparr>))
     \<lparr>jb_consecutive_miss := 0\<rparr>"
  have t1: "takes 1 b ?b1"
    by (rule takes_remove [OF assms(2,3), where d = 0]) (simp_all add: bump_defs counts_def)
  have wf1: "jb_wf ?b1" using t1 by (simp add: takes_def)
  obtain b2 where b2: "(if jb_pop_count ?b1 \<ge> 250 then adapt_delay (?b1\<lparr>jb_pop_count := 0\<rparr>) else Ok ?b1) = Ok b2"
    and b3: "drift_check b2 = Ok b'" and r: "r = Some (bp_packet bp)"
    using assms(1) by (auto simp only: play_target_def Let_def res_bind_Ok_iff outcome.inject prod.inject)
  have s2: "takes 0 ?b1 b2 \<and> jb_last_played b2 = Some k \<and> jb_packets b2 = bt_remove k (jb_packets b)"
  proof (cases "jb_pop_count ?b1 \<ge> 250")
    case True
    let ?b0 = "?b1\<lparr>jb_pop_count := 0\<rparr>"
    have wf0: "jb_wf ?b0" using wf1 by (rule jb_wf_same) simp
    have ad: "adapt_delay ?b0 = Ok b2" using True b2 by simp
    have "takes 0 ?b1 ?b0" using wf1 by (rule takes_none) (simp_all add: counts_def)
    then have "takes (0 + 0) ?b1 b2" by (rule takes_trans) (rule adapt_delay_frame(1) [OF ad wf0])
    then show ?thesis using adapt_delay_frame(2,3) [OF ad wf0] by (simp add: bump_defs)
  next
    case False
    with b2 wf1 show ?thesis by (auto simp: bump_defs intro: takes_none)
  qed
  then have wf2: "jb_wf b2" by (simp add: takes_def)
  note dc = drift_check_cases [OF b3 wf2, of k]
  have "takes (1 + 0 + 0) b b'" using t1 s2 dc(1) by (intro takes_trans) auto
  then show "takes 1 b b'" by simp
  show "r = Some (bp_packet bp)" by (rule r)
  show "h_sequence_number (pkt_header (bp_packet bp)) = k" using assms by (simp add: jb_wf_def)
  have "set (bt_keys (jb_packets b')) \<subseteq> set (bt_keys (jb_packets b2))"
    using dc(1) s2 by (simp add: takes_def)
  then show "k \<notin> set (bt_keys (jb_packets b'))"
    using s2 assms(2) by (auto simp: jb_wf_def bt.keys_del)
  show "jb_last_played b' = Some k
      \<or> jb_last_played b' = Some (k + 1) \<and> k + 1 \<notin> set (bt_keys (jb_packets b'))"
    using dc(3) s2 by auto
qed

lemma catch_up_cases:
  assumes "catch_up t b = (b', r)" and "jb_wf b"
  shows "(r = None \<and> b' = b)
    \<or> (\<exists>k bp. oldest_seq b = Some k \<and> bt_get (jb_packets b) k = Some bp \<and> r = Some (bp_packet bp)
        \<and> jb_last_played b' = Some k \<and> takes 1 b b' \<and> k \<notin> set (bt_keys (jb_packets b')))"
proof (cases "r = None")
  case True
  with assms(1) show ?thesis
    by (auto simp: catch_up_def Let_def split: if_splits option.splits)
next
  case False
  with assms(1) obtain k bp where k: "oldest_seq b = Some k" "bt_get (jb_packets b) k = Some bp"
    and r: "r = Some (bp_packet bp)" and lp: "jb_last_played b' = Some k"
    and pk: "jb_packets b' = bt_remove k (jb_packets b)" "jb_config b' = jb_config b"
      "jb_nack_list b' = jb_nack_list b" "counts b' = counts b"
      "js_buffer_size (jb_stats b') = length (jb_packets b')"
    by (auto simp: catch_up_def Let_def bump_defs counts_def split: if_splits option.splits)
  have "takes 1 b b'"
    by (rule takes_remove [OF assms(2) k(2), where d = 0]) (use pk in \<open>simp_all add: counts_def\<close>)
  moreover have "k \<notin> set (bt_keys (jb_packets b'))"
    using assms(2) unfolding pk by (simp add: jb_wf_def bt.keys_del)
  ultimately show ?thesis using k r lp by blast
qed

lemma miss_target_cases:
  assumes "miss_target t b = (b', r)" and "jb_wf b"
  shows "(r = None \<and> takes 0 b b' \<and> (jb_last_played b' = jb_last_played b \<or> jb_last_played b' = Some t))
    \<or> (\<exists>k bp. oldest_seq b = Some k \<and> bt_get (jb_packets b) k = Some bp \<and> r = Some (bp_packet bp)
        \<and> jb_last_played b' = Some k \<and> takes 1 b b' \<and> k \<notin> set (bt_keys (jb_packets b')))"
proof -
  let ?b2 = "(add_lost 1 (b\<lparr>jb_consecutive_miss := 0\<rparr>))\<lparr>jb_last_played := Some t\<rparr>"
  have t2: "takes 0 b ?b2" using assms(2) by (rule takes_none) (simp_all add: bump_defs counts_def)
  have o2: "oldest_seq ?b2 = oldest_seq b" "jb_packets ?b2 = jb_packets b"
    by (simp_all add: oldest_seq_def bump_defs)
  have cases: "r = None \<and> b' = b
    \<or> r = None \<and> b' = b\<lparr>jb_consecutive_miss := jb_consecutive_miss b + 1\<rparr>
    \<or> catch_up t ?b2 = (b', r)"
    using assms(1) by (simp add: miss_target_def Let_def split: if_splits)
  then consider "r = None" "b' = b" | "r = None" "b' = b\<lparr>jb_consecutive_miss := jb_consecutive_miss b + 1\<rparr>"
    | "catch_up t ?b2 = (b', r)" by blast
  then show ?thesis
  proof cases
    case 3
    have wf2: "jb_wf ?b2" using t2 by (simp add: takes_def)
    from catch_up_cases [OF 3 wf2] show ?thesis
    proof
      assume "r = None \<and> b' = ?b2"
      then show ?thesis using t2 by simp
    next
      assume "\<exists>k bp. oldest_seq ?b2 = Some k \<and> bt_get (jb_packets ?b2) k = Some bp
        \<and> r = Some (bp_packet bp) \<and> jb_last_played b' = Some k \<and> takes 1 ?b2 b'
        \<and> k \<notin> set (bt_keys (jb_packets b'))"
      then obtain k bp where k: "oldest_seq b = Some k" "bt_get (jb_packets b) k = Some bp"
        "r = Some (bp_packet bp)" "jb_last_played b' = Some k" "takes 1 ?b2 b'"
        "k \<notin> set (bt_keys (jb_packets b'))" using o2 by auto
      have "takes (0 + 1) b b'" using t2 k(5) by (rule takes_trans)
      with k show ?thesis by auto
    qed
  qed (use assms(2) in \<open>auto simp: counts_def intro: takes_none\<close>)
qed

lemma pop_cases:
  assumes "jb_pop b = Ok (b', r)" and "jb_wf b"
  shows "case r of None \<Rightarrow> takes 0 b b' \<and> waits b b'
    | Some p \<Rightarrow> takes 1 b b' \<and> picks b b' (h_sequence_number (pkt_header p))"
proof (cases "\<not> jb_initial_buffering_done b \<and> \<not> jb_playout_started b")
  case True
  with assms show ?thesis by (auto simp: jb_pop_def waits_def intro: takes_none)
next
  case False
  let ?b0 = "b\<lparr>jb_playout_started := True, jb_pop_count := jb_pop_count b + 1,
               jb_drift_check_count := jb_drift_check_count b + 1\<rparr>"
  define b1 where "b1 = skip_overfull ?b0"
  have wf0: "jb_wf ?b0" using assms(2) by (rule jb_wf_same) simp
  have t0: "takes 0 b ?b0" using assms(2) by (rule takes_none) (simp_all add: counts_def)
  have "takes (0 + 0) b b1" unfolding b1_def by (rule takes_trans [OF t0]) (rule skip_overfull_takes [OF wf0])
  then have t1: "takes 0 b b1" by simp
  have l1: "jb_last_played b1 = jb_last_played b"
    using skip_overfull_takes(2) [OF wf0] by (simp add: b1_def)
  have wf1: "jb_wf b1" and k1: "set (bt_keys (jb_packets b1)) \<subseteq> set (bt_keys (jb_packets b))"
    using t1 by (simp_all add: takes_def)
  have pop: "(case target_seq b1 of None \<Rightarrow> Ok (b1, None)
      | Some target \<Rightarrow> (case bt_get (jb_packets b1) target of Some bp \<Rightarrow> play_target target bp b1
               | None \<Rightarrow> Ok (miss_target target b1))) = Ok (b', r)"
    using assms(1) False unfolding jb_pop_def Let_def b1_def by simp
  show ?thesis
  proof (cases "target_seq b1")
    case None
    with pop t1 l1 show ?thesis by (auto simp: waits_def)
  next
    case (Some t)
    have tt: "jb_last_played b = Some (t - 1) \<or> (jb_last_played b = None \<and> oldest_seq b1 = Some t)"
      using Some l1 by (auto simp: target_seq_def split: option.splits)
    show ?thesis
    proof (cases "bt_get (jb_packets b1) t")
      case (Some bp)
      with pop \<open>target_seq b1 = Some t\<close> have "play_target t bp b1 = Ok (b', r)" by simp
      note pt = play_target_cases [OF this wf1 Some]
      have "takes (0 + 1) b b'" using t1 pt(1) by (rule takes_trans)
      moreover have "t \<in> set (bt_keys (jb_packets b))"
        using bt_get_in_keys [OF Some] k1 by auto
      moreover have "set (bt_keys (jb_packets b')) \<subseteq> set (bt_keys (jb_packets b1))"
        using pt(1) by (simp add: takes_def)
      ultimately show ?thesis
        using pt(2-5) tt k1 unfolding picks_def oldest_seq_def by auto
    next
      case None
      with pop \<open>target_seq b1 = Some t\<close> have mt: "miss_target t b1 = (b', r)" by simp
      have lt: "jb_last_played b = Some (t - 1)"
        using tt None oldest_seq_present [of b1 t] by (auto simp: bt_keys_get)
      have nt: "t \<notin> set (bt_keys (jb_packets b1))" using None by (simp add: bt_get_None)
      from miss_target_cases [OF mt wf1] show ?thesis
      proof
        assume A: "r = None \<and> takes 0 b1 b' \<and> (jb_last_played b' = jb_last_played b1 \<or> jb_last_played b' = Some t)"
        then have "takes (0 + 0) b b'" using t1 by (blast intro: takes_trans)
        moreover have "set (bt_keys (jb_packets b')) \<subseteq> set (bt_keys (jb_packets b1))"
          using A by (simp add: takes_def)
        ultimately show ?thesis using A l1 lt nt unfolding waits_def by auto
      next
        assume "\<exists>k bp. oldest_seq b1 = Some k \<and> bt_get (jb_packets b1) k = Some bp
          \<and> r = Some (bp_packet bp) \<and> jb_last_played b' = Some k \<and> takes 1 b1 b'
          \<and> k \<notin> set (bt_keys (jb_packets b'))"
        then obtain k bp where k: "oldest_seq b1 = Some k" "bt_get (jb_packets b1) k = Some bp"
          "r = Some (bp_packet bp)" "jb_last_played b' = Some k" "takes 1 b1 b'"
          "k \<notin> set (bt_keys (jb_packets b'))" by auto
        have "takes (0 + 1) b b'" using t1 k(5) by (rule takes_trans)
        moreover have "h_sequence_number (pkt_header (bp_packet bp)) = k"
          using wf1 k(2) by (simp add: jb_wf_def)
        moreover have "set (bt_keys (jb_packets b')) \<subseteq> set (bt_keys (jb_packets b1))"
          using k(5) by (simp add: takes_def)
        ultimately show ?thesis
          using k k1 bt_get_in_keys [OF k(2)] unfolding picks_def oldest_seq_def by auto
      qed
    qed
  qed
qed


section \<open>Sequence numbers within half the space\<close>

definition offset :: "u16 \<Rightarrow> u16 \<Rightarrow> nat" where
  "offset base k = unat (k - base)"

lemma offset_suc: "offset base k < 65535 \<Longrightarrow> offset base (k + 1) = Suc (offset base k)"
proof -
  assume "offset base k < 65535"
  then have "unat (k - base) + 1 < 2 ^ LENGTH(16)" by (simp add: offset_def)
  then have "unat ((k - base) + 1) = Suc (unat (k - base))" by (simp only: unat_word_ariths) simp
  moreover have "k + 1 - base = (k - base) + 1" by simp
  ultimately show ?thesis by (simp only: offset_def)
qed

lemma offset_inj: "offset base a = offset base b \<longleftrightarrow> a = b"
  by (metis diff_add_cancel offset_def word_unat_eq_iff)

lemma before_half:
  assumes "unat (x :: u16) < 0x8000" and "unat y < 0x8000"
  shows "(0 < y - x \<and> y - x < 0x8000) \<longleftrightarrow> unat x < unat y"
proof (cases "unat x < unat y")
  case True
  then have "unat (y - x) = unat y - unat x" by (simp add: unat_sub word_le_nat_alt)
  with True assms show ?thesis by (simp add: word_less_nat_alt)
next
  case False
  show ?thesis
  proof (cases "x = y")
    case ne: False
    then have lt: "unat y < unat x" using False by (metis linorder_neqE_nat word_unat_eq_iff)
    have "(of_nat (65536 + unat y - unat x) :: u16) = of_nat (65536 + unat y) - of_nat (unat x)"
      using assms by (intro of_nat_diff) simp
    then have "y - x = of_nat (65536 + unat y - unat x)" by simp
    then have "unat (y - x) = 65536 + unat y - unat x"
      using lt assms by (simp only: unat_of_nat) simp
    with lt assms show ?thesis by (simp add: word_less_nat_alt)
  qed simp
qed

lemma seq_before_offset:
  assumes "offset base a < 0x8000" and "offset base b < 0x8000"
  shows "seq_before a b \<longleftrightarrow> offset base a < offset base b"
proof -
  have d: "(b - base) - (a - base) = b - a" by simp
  show ?thesis
    using before_half [of "a - base" "b - base"] assms unfolding d seq_before_def Let_def offset_def .
qed

lemma oldest_fold_min:
  assumes "\<forall>x \<in> insert k (set ks). offset base x < 0x8000"
  shows "\<forall>x \<in> insert k (set ks).
    offset base (foldl (\<lambda>o' k. if seq_before k o' then k else o') k ks) \<le> offset base x"
  using assms
proof (induction ks arbitrary: k)
  case (Cons x ks)
  let ?m = "if seq_before x k then x else k"
  have "\<forall>y \<in> insert ?m (set ks). offset base (foldl (\<lambda>o' k. if seq_before k o' then k else o') ?m ks)
    \<le> offset base y"
    using Cons by (intro Cons.IH) auto
  moreover have "offset base ?m \<le> offset base x \<and> offset base ?m \<le> offset base k"
    using Cons(2) by (auto simp: seq_before_offset)
  ultimately show ?case using Cons(2) by fastforce
qed simp

lemma oldest_key_min:
  assumes "oldest_key ks = Some k" and "\<forall>x \<in> set ks. offset base x < 0x8000" and "x \<in> set ks"
  shows "offset base k \<le> offset base x"
  using assms oldest_fold_min [of "hd ks" "tl ks" base]
  by (cases ks) (auto simp: oldest_key_def)

section \<open>Playout order and accounting\<close>

fun quiet :: "jitter_buffer \<Rightarrow> jb_event \<Rightarrow> bool" where
  "quiet b (Push now p) = (\<not> timestamp_jump b (h_timestamp (pkt_header p)))"
| "quiet b Pop = True"
| "quiet b Nacks = True"
| "quiet b Marker = False"
| "quiet b Reset = False"

fun quiet_run :: "jitter_buffer \<Rightarrow> jb_event list \<Rightarrow> bool" where
  "quiet_run b [] = True"
| "quiet_run b (e # es) = (quiet b e
     \<and> (case jb_step b e of Ok (b', _) \<Rightarrow> quiet_run b' es | _ \<Rightarrow> True))"

fun pushed :: "jb_event list \<Rightarrow> rtp_packet list" where
  "pushed [] = []"
| "pushed (Push now p # es) = p # pushed es"
| "pushed (e # es) = pushed es"

fun pops :: "jb_event list \<Rightarrow> nat" where
  "pops [] = 0"
| "pops (Pop # es) = Suc (pops es)"
| "pops (e # es) = pops es"

abbreviation seq_of :: "rtp_packet \<Rightarrow> u16" where
  "seq_of p \<equiv> h_sequence_number (pkt_header p)"

definition in_stretch :: "u16 \<Rightarrow> nat \<Rightarrow> nat \<Rightarrow> jitter_buffer \<Rightarrow> bool" where
  "in_stretch base n c b = (jb_wf b \<and> (\<forall>k \<in> set (bt_keys (jb_packets b)). offset base k < n)
     \<and> (\<forall>l. jb_last_played b = Some l \<longrightarrow> offset base l < n + 2 * c
          \<and> (\<forall>k \<in> set (bt_keys (jb_packets b)). offset base l < offset base k)))"

definition floor_of :: "u16 \<Rightarrow> jitter_buffer \<Rightarrow> nat" where
  "floor_of base b = (case jb_last_played b of None \<Rightarrow> 0 | Some l \<Rightarrow> Suc (offset base l))"

lemma push_in_stretch:
  assumes "jb_push now p b = Ok b'" and "in_stretch base n c b"
    and "\<not> timestamp_jump b (h_timestamp (pkt_header p))"
    and "offset base (seq_of p) < n" and "n + 2 * c \<le> 0x8000"
  shows "in_stretch base n c b'" and "floor_of base b' = floor_of base b"
proof -
  have wf: "jb_wf b" using assms(2) by (simp add: in_stretch_def)
  note pq = push_quiet [OF assms(1) wf assms(3)]
  have new: "offset base l < offset base k"
    if l: "jb_last_played b = Some l" and k: "k = seq_of p" and np: "\<not> already_played b k" for k l
  proof -
    have "offset base l < n + 2 * c" using assms(2) l by (simp add: in_stretch_def)
    then have "offset base l < 0x8000" "offset base k < 0x8000" using assms(4,5) k by auto
    then have "\<not> offset base k < offset base l" "k \<noteq> l"
      using np l by (auto simp: already_played_def seq_before_offset)
    then show ?thesis by (metis linorder_neqE_nat offset_inj)
  qed
  show "in_stretch base n c b'"
    using assms(2,4) pq(1,2) new by (auto simp: in_stretch_def dest!: pq(5))
  show "floor_of base b' = floor_of base b" using pq(2) by (simp add: floor_of_def)
qed

lemma pop_in_stretch:
  assumes "jb_pop b = Ok (b', r)" and "in_stretch base n c b" and "n + 2 * Suc c \<le> 0x8000"
  shows "in_stretch base n (Suc c) b'"
    and "floor_of base b \<le> floor_of base b'"
    and "r = Some p \<Longrightarrow> floor_of base b \<le> offset base (seq_of p) \<and> offset base (seq_of p) < floor_of base b'"
proof -
  have wf: "jb_wf b" using assms(2) by (simp add: in_stretch_def)
  have lt: "l \<in> set (bt_keys (jb_packets b)) \<Longrightarrow> offset base l < n" for l
    using assms(2) by (simp add: in_stretch_def)
  have lp: "jb_last_played b = Some l \<Longrightarrow> offset base l < n + 2 * c
      \<and> (\<forall>k \<in> set (bt_keys (jb_packets b)). offset base l < offset base k)" for l
    using assms(2) by (simp add: in_stretch_def)
  note pc = pop_cases [OF assms(1) wf]
  have "in_stretch base n (Suc c) b' \<and> floor_of base b \<le> floor_of base b'
    \<and> (r = Some p \<longrightarrow> floor_of base b \<le> offset base (seq_of p) \<and> offset base (seq_of p) < floor_of base b')"
  proof (cases r)
    case None
    with pc have t: "takes 0 b b'" and w: "waits b b'" by auto
    from t have sub: "set (bt_keys (jb_packets b')) \<subseteq> set (bt_keys (jb_packets b))" and wf': "jb_wf b'"
      by (simp_all add: takes_def)
    from w show ?thesis unfolding waits_def
    proof
      assume "jb_last_played b' = jb_last_played b"
      then show ?thesis using lt lp sub wf' None by (fastforce simp: in_stretch_def floor_of_def)
    next
      assume "\<exists>l. jb_last_played b = Some l \<and> jb_last_played b' = Some (l + 1)
            \<and> l + 1 \<notin> set (bt_keys (jb_packets b'))"
      then obtain l where l: "jb_last_played b = Some l" "jb_last_played b' = Some (l + 1)"
        "l + 1 \<notin> set (bt_keys (jb_packets b'))" by auto
      have s: "offset base (l + 1) = Suc (offset base l)"
        using lp [OF l(1)] assms(3) by (intro offset_suc) auto
      have above: "k \<in> set (bt_keys (jb_packets b')) \<Longrightarrow> offset base (l + 1) < offset base k" for k
        using lp [OF l(1)] sub l(3) s by (metis Suc_lessI offset_inj subsetD)
      show ?thesis
        using l lt lp [OF l(1)] sub wf' None s above by (auto simp: in_stretch_def floor_of_def)
    qed
  next
    case (Some q)
    let ?k = "seq_of q"
    from Some pc have t: "takes 1 b b'" and pk: "picks b b' ?k" by auto
    from t have sub: "set (bt_keys (jb_packets b')) \<subseteq> set (bt_keys (jb_packets b))" and wf': "jb_wf b'"
      by (simp_all add: takes_def)
    have kin: "?k \<in> set (bt_keys (jb_packets b))" "?k \<notin> set (bt_keys (jb_packets b'))"
      using pk by (auto simp: picks_def)
    have kn: "offset base ?k < n" by (rule lt [OF kin(1)])
    have fl: "floor_of base b \<le> offset base ?k"
      using lp kin(1) by (auto simp: floor_of_def Suc_le_eq split: option.split)
    have above: "offset base ?k < offset base x" if x: "x \<in> set (bt_keys (jb_packets b'))" for x
    proof -
      have "offset base ?k \<le> offset base x"
      proof (cases "jb_last_played b = Some (?k - 1)")
        case True
        then have "offset base (?k - 1) < 0x8000" using lp assms(3) by fastforce
        then have "offset base ?k = Suc (offset base (?k - 1))" using offset_suc [of base "?k - 1"] by simp
        then show ?thesis using lp [OF True] x sub by fastforce
      next
        case False
        then obtain ks where ks: "oldest_key ks = Some ?k" "set ks \<subseteq> set (bt_keys (jb_packets b))"
          "set (bt_keys (jb_packets b')) \<subseteq> set ks" using pk by (auto simp: picks_def)
        have half: "\<forall>y \<in> set ks. offset base y < 0x8000" using ks(2) lt assms(3) by fastforce
        show ?thesis by (rule oldest_key_min [OF ks(1) half]) (use ks(3) x in blast)
      qed
      moreover have "x \<noteq> ?k" using x kin(2) by auto
      ultimately show ?thesis by (metis le_neq_implies_less offset_inj)
    qed
    have s: "offset base (?k + 1) = Suc (offset base ?k)"
      using kn assms(3) by (intro offset_suc) auto
    have "jb_last_played b' = Some ?k
         \<or> jb_last_played b' = Some (?k + 1) \<and> ?k + 1 \<notin> set (bt_keys (jb_packets b'))"
      using pk by (simp add: picks_def)
    then show ?thesis
    proof
      assume "jb_last_played b' = Some ?k"
      then show ?thesis using above lt sub wf' kn fl Some by (auto simp: in_stretch_def floor_of_def)
    next
      assume A: "jb_last_played b' = Some (?k + 1) \<and> ?k + 1 \<notin> set (bt_keys (jb_packets b'))"
      have "x \<in> set (bt_keys (jb_packets b')) \<Longrightarrow> Suc (offset base ?k) < offset base x" for x
        using above A s by (metis Suc_lessI offset_inj)
      then show ?thesis using A s above lt sub wf' kn fl Some by (auto simp: in_stretch_def floor_of_def)
    qed
  qed
  then show "in_stretch base n (Suc c) b'" and "floor_of base b \<le> floor_of base b'"
    and "r = Some p \<Longrightarrow> floor_of base b \<le> offset base (seq_of p) \<and> offset base (seq_of p) < floor_of base b'"
    by auto
qed


lemma nacks_in_stretch: "in_stretch base n c b \<Longrightarrow> in_stretch base n c (fst (pending_nacks b))"
  by (auto simp: in_stretch_def pending_nacks_def jb_wf_def)

lemma run_in_order:
  assumes "jb_run b es = Ok (b', ps)" and "quiet_run b es" and "in_stretch base n c b"
    and "\<forall>p \<in> set (pushed es). offset base (seq_of p) < n" and "n + 2 * (c + pops es) \<le> 0x8000"
  shows "sorted_wrt (<) (map (offset base \<circ> seq_of) ps)
    \<and> (\<forall>p \<in> set ps. floor_of base b \<le> offset base (seq_of p))"
  using assms
proof (induction es arbitrary: b ps c)
  case (Cons e es)
  obtain b1 qs rs where st: "jb_step b e = Ok (b1, qs)" "jb_run b1 es = Ok (b', rs)" "ps = qs @ rs"
    using Cons.prems(1) by auto
  have q: "quiet b e" "quiet_run b1 es" using Cons.prems(2) st(1) by auto
  show ?case
  proof (cases e)
    case (Push now p)
    then have pu: "jb_push now p b = Ok b1" "qs = []" using st(1) by auto
    have "in_stretch base n c b1" "floor_of base b1 = floor_of base b"
      using push_in_stretch [OF pu(1) Cons.prems(3)] q(1) Cons.prems(4,5) Push by auto
    with Cons.IH [OF st(2) q(2), of c] Cons.prems(4,5) Push st(3) pu(2) show ?thesis by auto
  next
    case Pop
    then obtain r where po: "jb_pop b = Ok (b1, r)" and qs: "qs = (case r of None \<Rightarrow> [] | Some p \<Rightarrow> [p])"
      using st(1) by auto
    have c: "n + 2 * Suc c \<le> 0x8000" using Cons.prems(5) Pop by simp
    note pi = pop_in_stretch [OF po Cons.prems(3) c]
    have IH: "sorted_wrt (<) (map (offset base \<circ> seq_of) rs)
      \<and> (\<forall>p \<in> set rs. floor_of base b1 \<le> offset base (seq_of p))"
      by (rule Cons.IH [OF st(2) q(2) pi(1)]) (use Cons.prems(4,5) Pop in auto)
    show ?thesis
    proof (cases r)
      case None
      with IH qs st(3) pi(2) show ?thesis by (auto simp: comp_def)
    next
      case (Some p)
      with pi(3) [of p] have "floor_of base b \<le> offset base (seq_of p)"
        "offset base (seq_of p) < floor_of base b1" by auto
      with IH qs st(3) Some show ?thesis by (fastforce simp: comp_def)
    qed
  next
    case Nacks
    then have "b1 = fst (pending_nacks b)" "qs = []" using st(1) by auto
    moreover have "floor_of base (fst (pending_nacks b)) = floor_of base b"
      by (simp add: floor_of_def pending_nacks_def)
    ultimately show ?thesis
      using Cons.IH [OF st(2) q(2), of c] nacks_in_stretch [OF Cons.prems(3)] Cons.prems(4,5) Nacks st(3)
      by auto
  qed (use q(1) in simp_all)
qed simp


lemma run_balanced:
  assumes "jb_run b es = Ok (b', ps)" and "quiet_run b es" and "jb_wf b"
    and "balanced b (js_packets_received (jb_stats b) - m)"
  shows "balanced b' (js_packets_received (jb_stats b') - (m + of_nat (length ps)))"
  using assms
proof (induction es arbitrary: b ps m)
  case (Cons e es)
  obtain b1 qs rs where st: "jb_step b e = Ok (b1, qs)" "jb_run b1 es = Ok (b', rs)" "ps = qs @ rs"
    using Cons.prems(1) by auto
  have q: "quiet b e" "quiet_run b1 es" using Cons.prems(2) st(1) by auto
  have "jb_wf b1 \<and> balanced b1 (js_packets_received (jb_stats b1) - (m + of_nat (length qs)))"
  proof (cases e)
    case (Push now p)
    then have pu: "jb_push now p b = Ok b1" "qs = []" using st(1) by auto
    have nj: "\<not> timestamp_jump b (h_timestamp (pkt_header p))" using q(1) Push by simp
    note pq = push_quiet [OF pu(1) Cons.prems(3) nj]
    show ?thesis
      using pq(1,3) pq(4) [OF Cons.prems(4)] pu(2) by (simp add: algebra_simps)
  next
    case Pop
    then obtain r where po: "jb_pop b = Ok (b1, r)" and qs: "qs = (case r of None \<Rightarrow> [] | Some p \<Rightarrow> [p])"
      using st(1) by auto
    have t: "takes (of_nat (length qs)) b b1"
      using pop_cases [OF po Cons.prems(3)] qs by (auto split: option.splits)
    then have "js_packets_dropped (jb_stats b1) + js_packets_duplicated (jb_stats b1)
        + of_nat (length (jb_packets b1)) + of_nat (length qs) = js_packets_received (jb_stats b) - m"
      using Cons.prems(4) by (simp add: takes_def balanced_def)
    then show ?thesis using t by (simp add: takes_def balanced_def algebra_simps)
  next
    case Nacks
    then have "b1 = fst (pending_nacks b)" "qs = []" using st(1) by auto
    then show ?thesis using Cons.prems by (simp add: pending_nacks_def balanced_def jb_wf_def)
  qed (use q(1) in simp_all)
  then have "balanced b' (js_packets_received (jb_stats b') - (m + of_nat (length qs) + of_nat (length rs)))"
    using Cons.IH [OF st(2) q(2)] by blast
  then show ?case by (simp add: st(3) add.assoc)
qed simp

text \<open>C17: No packet vanishes: the statistics of the buffer account for every packet received since
  the last restart, which was delivered, counted as dropped, counted as a duplicate, or is
  still buffered.\<close>

theorem every_packet_accounted:
  assumes "jb_run (jb_with_config cfg) es = Ok (b, ps)" and "quiet_run (jb_with_config cfg) es"
  shows "js_packets_received (jb_stats b) = of_nat (length ps) + js_packets_dropped (jb_stats b)
    + js_packets_duplicated (jb_stats b) + of_nat (length (jb_packets b))"
proof -
  have "balanced b (js_packets_received (jb_stats b) - (0 + of_nat (length ps)))"
    by (rule run_balanced [OF assms])
      (simp_all add: jb_wf_def balanced_def jb_with_config_def stats_default_def bt_get_def)
  then show ?thesis by (simp add: balanced_def algebra_simps)
qed

section \<open>Bounds\<close>

lemma pop_delay_bounds:
  assumes "jb_bounded b" and "config_ok (jb_config b)"
  shows "\<exists>b' r. jb_pop b = Ok (b', r)
    \<and> jc_min_delay_ms (jb_config b) \<le> jb_current_delay_ms b' \<and> jb_current_delay_ms b' \<le> jc_max_delay_ms (jb_config b)"
proof (cases "\<not> jb_initial_buffering_done b \<and> \<not> jb_playout_started b")
  case True
  with assms show ?thesis by (simp add: jb_pop_def jb_bounded_def)
next
  case False
  let ?c = "jb_config b"
  let ?b0 = "b\<lparr>jb_playout_started := True, jb_pop_count := jb_pop_count b + 1,
               jb_drift_check_count := jb_drift_check_count b + 1\<rparr>"
  define b1 where "b1 = skip_overfull ?b0"
  have wf0: "jb_wf ?b0" using assms(1) by (auto simp: jb_bounded_def intro: jb_wf_same)
  note so = skip_overfull_takes [OF wf0, folded b1_def]
  have wf1: "jb_wf b1" and cf1: "jb_config b1 = ?c" using so by (simp_all add: takes_def)
  have d1: "jc_min_delay_ms ?c \<le> jb_current_delay_ms b1" "jb_current_delay_ms b1 \<le> jc_max_delay_ms ?c"
    using so(3) assms(1) by (simp_all add: jb_bounded_def)
  have pop: "jb_pop b = (case target_seq b1 of None \<Rightarrow> Ok (b1, None)
      | Some target \<Rightarrow> (case bt_get (jb_packets b1) target of Some bp \<Rightarrow> play_target target bp b1
               | None \<Rightarrow> Ok (miss_target target b1)))"
    using False unfolding jb_pop_def Let_def b1_def by auto
  have miss: "jb_current_delay_ms (fst (miss_target t b1)) = jb_current_delay_ms b1" for t
    by (auto simp: miss_target_def catch_up_def Let_def bump_defs split: option.splits)
  have play: "\<exists>b'. play_target t bp b1 = Ok (b', Some (bp_packet bp)) \<and>
      jc_min_delay_ms ?c \<le> jb_current_delay_ms b' \<and> jb_current_delay_ms b' \<le> jc_max_delay_ms ?c"
    if bp: "bt_get (jb_packets b1) t = Some bp" for t bp
  proof -
    let ?b2 = "(sync_size (b1\<lparr>jb_packets := bt_remove t (jb_packets b1), jb_last_played := Some t\<rparr>))
     \<lparr>jb_consecutive_miss := 0\<rparr>"
    have t2: "takes 1 b1 ?b2"
      by (rule takes_remove [OF wf1 bp, where d = 0]) (simp_all add: bump_defs counts_def)
    have wf2: "jb_wf ?b2" using t2 by (simp add: takes_def)
    have cf2: "jb_config ?b2 = ?c" "jb_config (?b2\<lparr>jb_pop_count := 0\<rparr>) = ?c"
      and de2: "jb_current_delay_ms ?b2 = jb_current_delay_ms b1" using cf1 by (simp_all add: bump_defs)
    obtain b3 where b3: "(if jb_pop_count ?b2 \<ge> 250 then adapt_delay (?b2\<lparr>jb_pop_count := 0\<rparr>) else Ok ?b2) = Ok b3"
      and d3: "jc_min_delay_ms ?c \<le> jb_current_delay_ms b3" "jb_current_delay_ms b3 \<le> jc_max_delay_ms ?c"
    proof -
      obtain b4 where b4: "adapt_delay (?b2\<lparr>jb_pop_count := 0\<rparr>) = Ok b4"
        "jc_min_delay_ms ?c \<le> jb_current_delay_ms b4" "jb_current_delay_ms b4 \<le> jc_max_delay_ms ?c"
        using adapt_delay_total [of "?b2\<lparr>jb_pop_count := 0\<rparr>"] assms(2) d1 unfolding cf2
        by (auto simp: bump_defs)
      show ?thesis
        by (rule that [of "if jb_pop_count ?b2 \<ge> 250 then b4 else ?b2"]) (use b4 d1 de2 in auto)
    qed
    have w3: "jb_wf b3 \<and> jb_last_played b3 = Some t \<and> jb_config b3 = ?c"
    proof (cases "jb_pop_count ?b2 \<ge> 250")
      case True
      have wf2': "jb_wf (?b2\<lparr>jb_pop_count := 0\<rparr>)" using wf2 by (rule jb_wf_same) simp
      from True b3 have "adapt_delay (?b2\<lparr>jb_pop_count := 0\<rparr>) = Ok b3" by simp
      from adapt_delay_frame [OF this wf2'] cf2 show ?thesis by (auto simp: takes_def bump_defs)
    next
      case False
      with b3 wf2 cf1 show ?thesis by (auto simp: bump_defs)
    qed
    have "jc_sample_rate (jb_config b3) \<noteq> 0" using w3 assms(2) by (auto simp: config_ok_def)
    then obtain b4 where b4: "drift_check b3 = Ok b4" using drift_check_total by blast
    have "jb_current_delay_ms b4 = jb_current_delay_ms b3"
      using drift_check_cases(2) [OF b4, of t] w3 by auto
    then show ?thesis using b3 b4 d3 unfolding play_target_def Let_def by (auto cong: if_cong)
  qed
  show ?thesis
  proof (cases "target_seq b1")
    case None
    with pop d1 show ?thesis by simp
  next
    case (Some t)
    show ?thesis
    proof (cases "bt_get (jb_packets b1) t")
      case None
      obtain b' r where "miss_target t b1 = (b', r)" by fastforce
      with None Some pop d1 miss [of t] show ?thesis by simp
    next
      case (Some bp)
      with \<open>target_seq b1 = Some t\<close> pop play [OF Some] show ?thesis by auto
    qed
  qed
qed

lemma pop_bounded:
  assumes "jb_bounded b" and "config_ok (jb_config b)"
  shows "\<exists>b' r. jb_pop b = Ok (b', r) \<and> jb_bounded b' \<and> jb_config b' = jb_config b"
proof -
  obtain b' r where p: "jb_pop b = Ok (b', r)"
    and d: "jc_min_delay_ms (jb_config b) \<le> jb_current_delay_ms b'"
      "jb_current_delay_ms b' \<le> jc_max_delay_ms (jb_config b)"
    using pop_delay_bounds [OF assms] by auto
  have wf: "jb_wf b" using assms(1) by (simp add: jb_bounded_def)
  obtain m where "takes m b b'"
    using pop_cases [OF p wf] by (auto split: option.splits)
  then show ?thesis using p d assms(1) by (auto simp: takes_def jb_bounded_def)
qed

lemma step_bounded:
  assumes "jb_bounded b" and "config_ok (jb_config b)"
  shows "\<exists>b' ps. jb_step b e = Ok (b', ps) \<and> jb_bounded b' \<and> jb_config b' = jb_config b"
proof (cases e)
  case (Push now p)
  with push_bounded [OF assms, of now p] show ?thesis by auto
next
  case Pop
  with pop_bounded [OF assms] show ?thesis by auto
qed (use assms in \<open>auto simp: jb_bounded_def reset_initial_buffering_def pending_nacks_def jb_reset_def
    stats_upd_def stats_default_def jb_wf_def bt_get_def config_ok_def\<close>)

lemma run_bounded:
  assumes "jb_bounded b" and "config_ok (jb_config b)"
  shows "\<exists>b' ps. jb_run b es = Ok (b', ps) \<and> jb_bounded b' \<and> jb_config b' = jb_config b"
  using assms
proof (induction es arbitrary: b)
  case (Cons e es)
  then obtain b1 ps where "jb_step b e = Ok (b1, ps)" "jb_bounded b1" "jb_config b1 = jb_config b"
    using step_bounded by blast
  with Cons.IH [of b1] Cons.prems(2) show ?case by auto
qed simp

text \<open>Any sequence of operations, with any packets at any times, runs without a panic and
  leaves the buffer within its bounds: at most the configured number of packets, at most 500
  pending NACKs, the delay within the configured range, the size statistic true.\<close>

theorem jitter_buffer_bounded:
  assumes "config_ok cfg"
  shows "\<exists>b ps. jb_run (jb_with_config cfg) es = Ok (b, ps)
    \<and> length (jb_packets b) \<le> jc_max_packets cfg \<and> length (jb_nack_list b) \<le> 500
    \<and> js_buffer_size (jb_stats b) = length (jb_packets b)
    \<and> jc_min_delay_ms cfg \<le> jb_current_delay_ms b \<and> jb_current_delay_ms b \<le> jc_max_delay_ms cfg"
proof -
  have "jb_bounded (jb_with_config cfg)" "jb_config (jb_with_config cfg) = cfg"
    using assms by (simp_all add: jb_bounded_def jb_with_config_def jb_wf_def bt_get_def
        stats_default_def config_ok_def)
  then show ?thesis using run_bounded [of "jb_with_config cfg" es] assms
    by (auto simp: jb_bounded_def)
qed


section \<open>Two places where the code does not do what it means to\<close>

lemma oldest_seq_first:
  assumes "k \<in> set (bt_keys (jb_packets b))"
    and "\<forall>x \<in> set (bt_keys (jb_packets b)). offset k x < 0x8000"
  shows "oldest_seq b = Some k"
proof -
  obtain k' where k': "oldest_seq b = Some k'"
    using assms(1) by (cases "oldest_seq b") auto
  then have "offset k k' \<le> offset k k"
    using assms unfolding oldest_seq_def by (intro oldest_key_min) auto
  moreover have "offset k k = 0" by (simp add: offset_def)
  ultimately have "k' = k" by (metis le_zero_eq offset_inj)
  with k' show ?thesis by simp
qed

text \<open>An overfull buffer discards the packet it is about to play: when the next packet in
  sequence is buffered and the buffer is over twice the adaptive delay, the latency skip
  removes exactly that packet, and the pop then reports it as missing and delivers nothing.\<close>

theorem overfull_pop_drops_target:
  assumes "bt_wf (jb_packets b)" and "jb_initial_buffering_done b"
    and "jc_sample_rate (jb_config b) > 0" and "jb_current_delay_ms b > 0"
    and "buffer_duration_ms b > jb_current_delay_ms b * 2"
    and "jb_last_played b = Some l" and "contains_seq b (l + 1)"
    and "\<forall>x \<in> set (bt_keys (jb_packets b)). offset (l + 1) x < 0x8000"
    and "jb_consecutive_miss b + 1 < jc_max_wait_before_loss (jb_config b)"
  shows "\<exists>b'. jb_pop b = Ok (b', None) \<and> \<not> contains_seq b' (l + 1) \<and> jb_last_played b' = Some l
    \<and> js_packets_dropped (jb_stats b') = js_packets_dropped (jb_stats b) + 1"
proof -
  let ?b0 = "b\<lparr>jb_playout_started := True, jb_pop_count := jb_pop_count b + 1,
               jb_drift_check_count := jb_drift_check_count b + 1\<rparr>"
  have old: "oldest_seq ?b0 = Some (l + 1)"
    using assms(7,8) by (intro oldest_seq_first) (auto simp: contains_seq_def bt_get_None)
  have dur: "buffer_duration_ms ?b0 = buffer_duration_ms b" by (simp add: buffer_duration_ms_def)
  define b1 where "b1 = sync_size (bump_dropped (?b0\<lparr>jb_packets := bt_remove (l + 1) (jb_packets b)\<rparr>))"
  have skip: "skip_overfull ?b0 = b1"
    using assms(2-5) old by (simp add: skip_overfull_def Let_def dur b1_def)
  have gone: "bt_get (jb_packets b1) (l + 1) = None"
    using assms(1) by (simp add: b1_def bump_defs bt.get_del)
  have b1: "jb_last_played b1 = Some l" "jb_consecutive_miss b1 = jb_consecutive_miss b"
    "jb_config b1 = jb_config b"
    "js_packets_dropped (jb_stats b1) = js_packets_dropped (jb_stats b) + 1"
    using assms(6) by (simp_all add: b1_def bump_defs)
  have pop: "jb_pop b = Ok (miss_target (l + 1) b1)"
    using assms(2) skip b1(1) gone by (simp add: jb_pop_def Let_def target_seq_def)
  have "miss_target (l + 1) b1 = (b1, None)
      \<or> miss_target (l + 1) b1 = (b1\<lparr>jb_consecutive_miss := jb_consecutive_miss b1 + 1\<rparr>, None)"
    using assms(9) b1 by (simp add: miss_target_def Let_def)
  then show ?thesis using pop gone b1 by (auto simp: contains_seq_def)
qed

text \<open>A redundant block that is k packets old is filed under the number of the packet before
  it: it is inserted with the timestamp of packet seq - k and the sequence number
  seq - k - 1.\<close>

theorem redundancy_off_by_one:
  assumes "jc_samples_per_packet (jb_config b) = spp" and "0 < spp" and "k * unat spp < 2 ^ 32"
  shows "red_seq b seq (of_nat k * spp) = seq - of_nat k - 1"
proof -
  have "(of_nat k * spp :: u32) = of_nat (k * unat spp)" by simp
  then have u: "unat (of_nat k * spp :: u32) = k * unat spp"
    using assms(3) by (simp only: unat_of_nat) simp
  have "unat (of_nat k * spp div spp :: u32) = k * unat spp div unat spp"
    by (simp only: unat_div u)
  also have "\<dots> = k" using assms(2) by (simp add: word_less_nat_alt)
  finally have "ucast (of_nat k * spp div spp :: u32) = (of_nat k :: u16)"
    by (metis of_nat_unat)
  then show ?thesis using assms(1) by (simp add: red_seq_def)
qed

section \<open>Witnesses\<close>

text \<open>The jitter-buffer properties applied to concrete runs.\<close>

definition demo_rtp :: "u16 \<Rightarrow> u32 \<Rightarrow> rtp_packet" where
  "demo_rtp seq ts = \<lparr>pkt_header = \<lparr>h_version = 2, h_padding = False, h_extension = False,
     h_marker = False, h_payload_type = 0, h_sequence_number = seq, h_timestamp = ts, h_ssrc = 7,
     h_csrc = [], h_extension_profile = 0, h_extensions = [], h_extensions_padding = 0\<rparr>,
     pkt_payload = [1, 2]\<rparr>"

definition demo_config :: jitter_config where
  "demo_config = \<lparr>jc_min_delay_ms = 20, jc_max_delay_ms = 200, jc_target_delay_ms = 20,
     jc_max_packets = 50, jc_sample_rate = 8000, jc_samples_per_packet = 160,
     jc_nack_enabled = False, jc_max_wait_before_loss = 2\<rparr>"

text \<open>Two packets that arrive in the wrong order across the wrap of the sequence number.\<close>

definition demo_events :: "jb_event list" where
  "demo_events = [Push 0 (demo_rtp 0 160), Push 0 (demo_rtp 65535 160), Pop, Pop]"

lemmas jb_eval = jb_push_def jb_pop_def jb_with_config_def demo_config_def demo_rtp_def
  bump_defs already_played_def timestamp_jump_def update_jitter_def enqueue_def note_gap_def
  count_reordered_def advance_next_def store_packet_def check_initial_def evict_excess.simps
  buffer_duration_ms_def skip_overfull_def target_seq_def oldest_seq_def oldest_key_def
  seq_before_def seq_after_def bt_get_def bt_keys_def bt_remove_def play_target_def
  adapt_delay_def drift_check_def miss_target_def catch_up_def stats_default_def
  ts_diff_samples_def i64_def quot_def f64_of_int_def f64_add_def f64_sub_def f64_div_def

definition demo_state :: "(u16, buffered_packet) btree \<Rightarrow> u64 \<Rightarrow> u64 \<Rightarrow> u16 option \<Rightarrow> bool \<Rightarrow> u32 \<Rightarrow> jitter_buffer" where
  "demo_state ps received reordered played started n = \<lparr>jb_config = demo_config, jb_packets = ps,
     jb_next_sequence = Some 1, jb_last_played = played,
     jb_stats = stats_default\<lparr>js_packets_received := received, js_buffer_size := length ps,
       js_packets_reordered := reordered\<rparr>, jb_jitter_estimate = 0,
     jb_last_arrival = Some 0, jb_last_timestamp = Some 160, jb_current_delay_ms = 20,
     jb_playout_started = started, jb_initial_buffering_done = True, jb_nack_list = [],
     jb_consecutive_miss = 0, jb_pop_count = n, jb_drift_high_count = 0, jb_drift_low_count = 0,
     jb_drift_check_count = n\<rparr>"

definition demo_entry :: "u16 \<Rightarrow> u16 \<times> buffered_packet" where
  "demo_entry k = (k, \<lparr>bp_packet = demo_rtp k 160, bp_arrival_time = 0\<rparr>)"

lemma demo_push1: "jb_push 0 (demo_rtp 0 160) (jb_with_config demo_config)
  = Ok (demo_state [demo_entry 0] 1 0 None False 0)"
  by (simp add: jb_eval demo_state_def demo_entry_def Let_def)

lemma demo_jitter: "update_jitter 0 160 (demo_state ps n r lp st k) = Ok (demo_state ps n r lp st k)"
  by (simp add: update_jitter_def demo_state_def demo_config_def stats_upd_def ts_diff_samples_def
      i64_def quot_def f64_of_int_def f64_add_def f64_sub_def f64_div_def stats_default_def)

lemma demo_received: "bump_received (demo_state ps n r lp st k) = demo_state ps (n + 1) r lp st k"
  by (simp add: bump_defs demo_state_def)

lemma demo_enqueue: "enqueue 0 (demo_rtp 65535 160) (demo_state [demo_entry 0] 2 0 None False 0)
  = Ok (demo_state [demo_entry 0, demo_entry 65535] 2 1 None False 0)"
proof -
  have re: "count_reordered 65535 (demo_state [demo_entry 0] 2 0 None False 0) = demo_state [demo_entry 0] 2 1 None False 0"
    by (simp add: count_reordered_def demo_state_def seq_before_def bump_defs word_less_nat_alt)
  have ga: "note_gap 65535 (demo_state [demo_entry 0] 2 1 None False 0) = demo_state [demo_entry 0] 2 1 None False 0"
    by (simp add: note_gap_def demo_state_def demo_config_def)
  have ad: "advance_next 65535 (demo_state [demo_entry 0] 2 1 None False 0) = demo_state [demo_entry 0] 2 1 None False 0"
    by (simp add: advance_next_def demo_state_def seq_before_def word_less_nat_alt)
  have no: "bt_get (jb_packets (demo_state [demo_entry 0] 2 1 None False 0)) 65535 = None"
    by (simp add: bt_get_def demo_state_def demo_entry_def)
  have seq: "h_sequence_number (pkt_header (demo_rtp 65535 160)) = 65535"
    by (simp add: demo_rtp_def)
  show ?thesis
    unfolding enqueue_def Let_def seq re ga no ad
    by (simp add: store_packet_def seq evict_excess.simps sync_size_def stats_upd_def check_initial_def
        demo_state_def demo_config_def demo_entry_def word_less_nat_alt)
qed

lemma demo_push2: "jb_push 0 (demo_rtp 65535 160) (demo_state [demo_entry 0] 1 0 None False 0)
  = Ok (demo_state [demo_entry 0, demo_entry 65535] 2 1 None False 0)"
proof -
  have "\<not> already_played (demo_state [demo_entry 0] 2 0 None False 0) 65535"
    "\<not> timestamp_jump (demo_state [demo_entry 0] 2 0 None False 0) 160"
    by (simp_all add: already_played_def timestamp_jump_def demo_state_def ts_diff_samples_def)
  moreover have "h_sequence_number (pkt_header (demo_rtp 65535 160)) = 65535"
    "h_timestamp (pkt_header (demo_rtp 65535 160)) = 160" by (simp_all add: demo_rtp_def)
  ultimately show ?thesis
    by (simp only: jb_push_def demo_received Let_def one_add_one if_False demo_jitter res_bind.simps demo_enqueue)
qed

lemma demo_pop1: "jb_pop (demo_state [demo_entry 0, demo_entry 65535] 2 1 None False 0)
  = Ok (demo_state [demo_entry 0] 2 1 (Some 65535) True 1, Some (demo_rtp 65535 160))"
  by (simp add: jb_eval demo_state_def demo_entry_def Let_def)
    (simp add: word_less_nat_alt word_le_nat_alt)

lemma demo_pop2: "jb_pop (demo_state [demo_entry 0] 2 1 (Some 65535) True 1)
  = Ok (demo_state [] 2 1 (Some 0) True 2, Some (demo_rtp 0 160))"
  by (simp add: jb_eval demo_state_def demo_entry_def Let_def)

lemma demo_run: "jb_run (jb_with_config demo_config) demo_events
  = Ok (demo_state [] 2 1 (Some 0) True 2, [demo_rtp 65535 160, demo_rtp 0 160])"
  by (simp add: demo_events_def demo_push1 demo_push2 demo_pop1 demo_pop2)

lemma demo_quiet: "quiet_run (jb_with_config demo_config) demo_events"
  by (simp add: demo_events_def demo_push1 demo_push2 demo_pop1 demo_pop2)
    (simp add: timestamp_jump_def demo_state_def jb_with_config_def ts_diff_samples_def demo_rtp_def
      demo_config_def)


theorem every_packet_accounted_witness:
  "js_packets_received (jb_stats (demo_state [] 2 1 (Some 0) True 2))
   = of_nat (length [demo_rtp 65535 160, demo_rtp 0 160])
     + js_packets_dropped (jb_stats (demo_state [] 2 1 (Some 0) True 2))
     + js_packets_duplicated (jb_stats (demo_state [] 2 1 (Some 0) True 2))
     + of_nat (length (jb_packets (demo_state [] 2 1 (Some 0) True 2)))"
  by (rule every_packet_accounted [OF demo_run demo_quiet])

theorem jitter_buffer_bounded_witness:
  "\<exists>b ps. jb_run (jb_with_config jitter_config_default) demo_events = Ok (b, ps)
    \<and> length (jb_packets b) \<le> jc_max_packets jitter_config_default
    \<and> length (jb_nack_list b) \<le> 500
    \<and> js_buffer_size (jb_stats b) = length (jb_packets b)
    \<and> jc_min_delay_ms jitter_config_default \<le> jb_current_delay_ms b
    \<and> jb_current_delay_ms b \<le> jc_max_delay_ms jitter_config_default"
  by (rule jitter_buffer_bounded) (simp add: config_ok_def jitter_config_default_def)

text \<open>Three packets of 20 ms over a delay of 20 ms: the next one, 1, is dropped.\<close>

theorem overfull_pop_drops_target_witness:
  "\<exists>b'. jb_pop (demo_state [demo_entry 1, demo_entry 2, demo_entry 3] 4 0 (Some 0) True 1) = Ok (b', None)
    \<and> \<not> contains_seq b' (0 + 1) \<and> jb_last_played b' = Some 0
    \<and> js_packets_dropped (jb_stats b')
      = js_packets_dropped (jb_stats (demo_state [demo_entry 1, demo_entry 2, demo_entry 3] 4 0 (Some 0) True 1)) + 1"
  by (rule overfull_pop_drops_target)
    (simp_all add: demo_state_def demo_entry_def demo_config_def bt_wf_def buffer_duration_ms_def
      contains_seq_def bt_get_def bt_keys_def offset_def)

theorem redundancy_off_by_one_witness:
  "red_seq (jb_with_config jitter_config_default) 100 (of_nat 1 * 160) = 100 - of_nat 1 - 1"
  by (rule redundancy_off_by_one) (simp_all add: jb_with_config_def jitter_config_default_def)

end
