(* ===== verification/Rtp_Dtmf.thy ===== *)
theory Rtp_Dtmf
  imports Rtp_Prelude Rtp_Strings
begin

text \<open>
  \<^verbatim>\<open>src/rtp/dtmf.rs\<close>: telephone events over RTP (RFC 4733): the payload, the device
  workaround flags, the sender and the detector. The detector's atomics and mutexes become
  the fields of one record, since its \<^verbatim>\<open>process_rtp\<close> must be called from a single thread;
  the wall clock is an argument in nanoseconds.
\<close>

section \<open>Constants and events\<close>

definition TELEPHONE_EVENT_PT :: byte where "TELEPHONE_EVENT_PT = 101"
definition DEFAULT_VOLUME :: byte where "DEFAULT_VOLUME = 10"
definition DTMF_SANITY_LIMIT :: u32 where "DTMF_SANITY_LIMIT = 1500"
definition DTMF_MAX_DURATION :: u32 where "DTMF_MAX_DURATION = 240000"
definition DTMF_END_TIMEOUT_MS :: u32 where "DTMF_END_TIMEOUT_MS = 5000"
definition DTMF_MIN_DURATION_MS :: u32 where "DTMF_MIN_DURATION_MS = 50"
definition DTMF_INTERDIGIT_GAP :: u32 where "DTMF_INTERDIGIT_GAP = 640"

datatype dtmf_event = Digit0 | Digit1 | Digit2 | Digit3 | Digit4 | Digit5 | Digit6 | Digit7
  | Digit8 | Digit9 | Star | Pound | Event_A | Event_B | Event_C | Event_D

definition event_from_char :: "char \<Rightarrow> dtmf_event option" where
  "event_from_char c =
     (if c = CHR ''0'' then Some Digit0 else if c = CHR ''1'' then Some Digit1
      else if c = CHR ''2'' then Some Digit2 else if c = CHR ''3'' then Some Digit3
      else if c = CHR ''4'' then Some Digit4 else if c = CHR ''5'' then Some Digit5
      else if c = CHR ''6'' then Some Digit6 else if c = CHR ''7'' then Some Digit7
      else if c = CHR ''8'' then Some Digit8 else if c = CHR ''9'' then Some Digit9
      else if c = CHR ''*'' then Some Star else if c = CHR ''#'' then Some Pound
      else if c = CHR ''A'' \<or> c = CHR ''a'' then Some Event_A
      else if c = CHR ''B'' \<or> c = CHR ''b'' then Some Event_B
      else if c = CHR ''C'' \<or> c = CHR ''c'' then Some Event_C
      else if c = CHR ''D'' \<or> c = CHR ''d'' then Some Event_D
      else None)"

definition all_events :: "dtmf_event list" where
  "all_events = [Digit0, Digit1, Digit2, Digit3, Digit4, Digit5, Digit6, Digit7,
     Digit8, Digit9, Star, Pound, Event_A, Event_B, Event_C, Event_D]"

definition event_from_code :: "byte \<Rightarrow> dtmf_event option" where
  "event_from_code code = (if code < 16 then Some (all_events ! unat code) else None)"

fun event_to_char :: "dtmf_event \<Rightarrow> char" where
  "event_to_char Digit0 = CHR ''0''" | "event_to_char Digit1 = CHR ''1''"
| "event_to_char Digit2 = CHR ''2''" | "event_to_char Digit3 = CHR ''3''"
| "event_to_char Digit4 = CHR ''4''" | "event_to_char Digit5 = CHR ''5''"
| "event_to_char Digit6 = CHR ''6''" | "event_to_char Digit7 = CHR ''7''"
| "event_to_char Digit8 = CHR ''8''" | "event_to_char Digit9 = CHR ''9''"
| "event_to_char Star = CHR ''*''" | "event_to_char Pound = CHR ''#''"
| "event_to_char Event_A = CHR ''A''" | "event_to_char Event_B = CHR ''B''"
| "event_to_char Event_C = CHR ''C''" | "event_to_char Event_D = CHR ''D''"

fun event_code :: "dtmf_event \<Rightarrow> byte" where
  "event_code Digit0 = 0" | "event_code Digit1 = 1" | "event_code Digit2 = 2"
| "event_code Digit3 = 3" | "event_code Digit4 = 4" | "event_code Digit5 = 5"
| "event_code Digit6 = 6" | "event_code Digit7 = 7" | "event_code Digit8 = 8"
| "event_code Digit9 = 9" | "event_code Star = 10" | "event_code Pound = 11"
| "event_code Event_A = 12" | "event_code Event_B = 13" | "event_code Event_C = 14"
| "event_code Event_D = 15"

section \<open>The payload\<close>

record dtmf_payload =
  dp_event :: byte
  dp_is_end :: bool
  dp_volume :: byte
  dp_duration :: u16

definition payload_new :: "dtmf_event \<Rightarrow> bool \<Rightarrow> u16 \<Rightarrow> dtmf_payload" where
  "payload_new event is_end duration =
     \<lparr>dp_event = event_code event, dp_is_end = is_end, dp_volume = DEFAULT_VOLUME,
      dp_duration = duration\<rparr>"

definition payload_parse :: "bytes \<Rightarrow> dtmf_payload option" where
  "payload_parse packet =
     (if length packet < 4 then None
      else
        (let off = (if length packet \<ge> 8 \<and> packet ! 0 = 0 \<and> packet ! 1 = 0 \<and> packet ! 2 = 0
                       \<and> packet ! 3 = 0 \<and> packet ! 4 \<le> 15 then 4 else 0);
             d = drop off packet
         in if length d < 4 then None
            else if d ! 0 > 15 then None
            else Some \<lparr>dp_event = d ! 0, dp_is_end = (d ! 1 AND 0x80 \<noteq> 0),
                       dp_volume = d ! 1 AND 0x3F,
                       dp_duration = push_bit 8 (ucast (d ! 2)) OR ucast (d ! 3)\<rparr>))"

definition payload_serialize :: "dtmf_payload \<Rightarrow> bytes" where
  "payload_serialize p =
     [dp_event p, (if dp_is_end p then 0x80 else 0) OR (dp_volume p AND 0x3F),
      ucast (drop_bit 8 (dp_duration p)), ucast (dp_duration p AND 0xFF)]"

definition sat_mul8 :: "u32 \<Rightarrow> u32" where
  "sat_mul8 ms = (if unat ms * 8 < 2 ^ 32 then ms * 8 else - 1)"

definition clamp16 :: "u32 \<Rightarrow> u16" where
  "clamp16 x = ucast (min x 65535)"

definition ms_to_timestamp :: "u32 \<Rightarrow> u16" where
  "ms_to_timestamp ms = clamp16 (sat_mul8 ms)"

definition timestamp_to_ms :: "u16 \<Rightarrow> u32" where
  "timestamp_to_ms ts = ucast ts div 8"

definition payload_to_char :: "dtmf_payload \<Rightarrow> char option" where
  "payload_to_char p = map_option event_to_char (event_from_code (dp_event p))"

section \<open>Device workarounds\<close>

record rtp_bug_flags =
  sonus_dtmf_timestamp :: bool
  never_send_marker :: bool
  ignore_duration :: bool
  cisco_skip_marker_2833 :: bool
  ignore_mark_bit :: bool
  change_ssrc_on_marker :: bool
  accept_any_payload :: bool

definition no_bugs :: rtp_bug_flags where
  "no_bugs = \<lparr>sonus_dtmf_timestamp = False, never_send_marker = False, ignore_duration = False,
     cisco_skip_marker_2833 = False, ignore_mark_bit = False, change_ssrc_on_marker = False,
     accept_any_payload = False\<rparr>"

definition detect_from_user_agent :: "string \<Rightarrow> rtp_bug_flags" where
  "detect_from_user_agent ua =
     (let l = to_lowercase ua;
          f1 = (if contains_str ''sonus'' l
                then no_bugs\<lparr>sonus_dtmf_timestamp := True, never_send_marker := True\<rparr> else no_bugs)
      in if contains_str ''cisco'' l
         then f1\<lparr>never_send_marker := True, cisco_skip_marker_2833 := True\<rparr> else f1)"

definition has_workarounds :: "rtp_bug_flags \<Rightarrow> bool" where
  "has_workarounds f = (sonus_dtmf_timestamp f \<or> never_send_marker f \<or> ignore_duration f
     \<or> cisco_skip_marker_2833 f \<or> ignore_mark_bit f \<or> change_ssrc_on_marker f \<or> accept_any_payload f)"

definition flags_merge :: "rtp_bug_flags \<Rightarrow> rtp_bug_flags \<Rightarrow> rtp_bug_flags" where
  "flags_merge a b =
     \<lparr>sonus_dtmf_timestamp = (sonus_dtmf_timestamp a \<or> sonus_dtmf_timestamp b),
      never_send_marker = (never_send_marker a \<or> never_send_marker b),
      ignore_duration = (ignore_duration a \<or> ignore_duration b),
      cisco_skip_marker_2833 = (cisco_skip_marker_2833 a \<or> cisco_skip_marker_2833 b),
      ignore_mark_bit = (ignore_mark_bit a \<or> ignore_mark_bit b),
      change_ssrc_on_marker = (change_ssrc_on_marker a \<or> change_ssrc_on_marker b),
      accept_any_payload = (accept_any_payload a \<or> accept_any_payload b)\<rparr>"

section \<open>The sender\<close>

record dtmf_packet =
  dk_payload_type :: byte
  dk_sequence :: u16
  dk_timestamp :: u32
  dk_ssrc :: u32
  dk_marker :: bool
  dk_payload :: bytes

definition to_rtp_bytes :: "dtmf_packet \<Rightarrow> bytes" where
  "to_rtp_bytes p =
     [0x80, (if dk_marker p then 0x80 else 0) OR (dk_payload_type p AND 0x7F),
      ucast (drop_bit 8 (dk_sequence p)), ucast (dk_sequence p AND 0xFF),
      ucast (drop_bit 24 (dk_timestamp p)), ucast (drop_bit 16 (dk_timestamp p)),
      ucast (drop_bit 8 (dk_timestamp p)), ucast (dk_timestamp p AND 0xFF),
      ucast (drop_bit 24 (dk_ssrc p)), ucast (drop_bit 16 (dk_ssrc p)),
      ucast (drop_bit 8 (dk_ssrc p)), ucast (dk_ssrc p AND 0xFF)] @ dk_payload p"

record dtmf_sender =
  ds_payload_type :: byte
  ds_ssrc :: u32
  ds_digit_timestamp :: u32
  ds_out_digit :: "dtmf_event option"
  ds_out_digit_sofar :: u32
  ds_out_digit_dur :: u32
  ds_rtp_bugs :: rtp_bug_flags

definition sender_new :: "u32 \<Rightarrow> dtmf_sender" where
  "sender_new ssrc = \<lparr>ds_payload_type = TELEPHONE_EVENT_PT, ds_ssrc = ssrc, ds_digit_timestamp = 0,
     ds_out_digit = None, ds_out_digit_sofar = 0, ds_out_digit_dur = 0, ds_rtp_bugs = no_bugs\<rparr>"

definition sender_with_payload_type :: "u32 \<Rightarrow> byte \<Rightarrow> dtmf_sender" where
  "sender_with_payload_type ssrc pt = (sender_new ssrc)\<lparr>ds_payload_type := pt\<rparr>"

definition sender_with_rtp_bugs :: "u32 \<Rightarrow> rtp_bug_flags \<Rightarrow> dtmf_sender" where
  "sender_with_rtp_bugs ssrc bugs = (sender_new ssrc)\<lparr>ds_rtp_bugs := bugs\<rparr>"

definition sender_set_rtp_bugs :: "dtmf_sender \<Rightarrow> rtp_bug_flags \<Rightarrow> dtmf_sender" where
  "sender_set_rtp_bugs s bugs = s\<lparr>ds_rtp_bugs := bugs\<rparr>"

definition enable_sonus_mode :: "dtmf_sender \<Rightarrow> dtmf_sender" where
  "enable_sonus_mode s = s\<lparr>ds_rtp_bugs := (ds_rtp_bugs s)\<lparr>sonus_dtmf_timestamp := True,
     never_send_marker := True\<rparr>\<rparr>"

text \<open>The shared sequence counter is passed in and out.\<close>

definition build_dtmf :: "dtmf_sender \<Rightarrow> dtmf_payload \<Rightarrow> bool \<Rightarrow> u16 \<Rightarrow> dtmf_sender \<times> u16 \<times> dtmf_packet" where
  "build_dtmf s p marker seq =
     (let sonus = sonus_dtmf_timestamp (ds_rtp_bugs s);
          s' = (if sonus then s\<lparr>ds_digit_timestamp := ds_digit_timestamp s + 160\<rparr> else s)
      in (s', seq + 1,
          \<lparr>dk_payload_type = ds_payload_type s, dk_sequence = seq,
           dk_timestamp = ds_digit_timestamp s, dk_ssrc = ds_ssrc s,
           dk_marker = (if never_send_marker (ds_rtp_bugs s) \<or> sonus then False else marker),
           dk_payload = payload_serialize p\<rparr>))"

definition end_digit :: "dtmf_sender \<Rightarrow> u16 \<Rightarrow> dtmf_sender \<times> u16 \<times> dtmf_packet list" where
  "end_digit s seq =
     (case ds_out_digit s of
        None \<Rightarrow> (s, seq, [])
      | Some digit \<Rightarrow>
          (let s0 = s\<lparr>ds_out_digit := None\<rparr>;
               p = payload_new digit True (clamp16 (ds_out_digit_sofar s))
           in if sonus_dtmf_timestamp (ds_rtp_bugs s) then
                (let (s1, q1, k1) = build_dtmf s0 p False seq;
                     (s2, q2, k2) = build_dtmf s1 p False q1;
                     (s3, q3, k3) = build_dtmf s2 p False q2
                 in (s3, q3, [k1, k2, k3]))
              else
                (let (s1, q1, k1) = build_dtmf s0 p False seq
                 in (s1\<lparr>ds_digit_timestamp := ds_digit_timestamp s1 + ds_out_digit_dur s\<rparr>,
                     q1, [k1, k1, k1]))))"

definition start_digit ::
  "dtmf_sender \<Rightarrow> char \<Rightarrow> u32 \<Rightarrow> u16 \<Rightarrow> u32 \<Rightarrow> u32 \<Rightarrow> (dtmf_sender \<times> u16 \<times> dtmf_packet list) res" where
  "start_digit s digit duration_ms seq audio_timestamp interval_ms =
     (case event_from_char digit of
        None \<Rightarrow> Err (Rtp (''Invalid DTMF digit: '' @ [digit]))
      | Some event \<Rightarrow>
          (let (s0, q0, prefix) = (if ds_out_digit s \<noteq> None then end_digit s seq else (s, seq, []));
               s1 = s0\<lparr>ds_digit_timestamp := audio_timestamp, ds_out_digit := Some event,
                       ds_out_digit_dur := sat_mul8 duration_ms, ds_out_digit_sofar := 0\<rparr>;
               initial = ms_to_timestamp (max interval_ms 1);
               (s2, q2, k) = build_dtmf s1 (payload_new event False initial) True q0
           in Ok (s2\<lparr>ds_out_digit_sofar := ucast initial\<rparr>, q2, prefix @ [k])))"

definition continue_digit ::
  "dtmf_sender \<Rightarrow> u32 \<Rightarrow> u16 \<Rightarrow> dtmf_sender \<times> u16 \<times> dtmf_packet option" where
  "continue_digit s interval_ms seq =
     (case ds_out_digit s of
        None \<Rightarrow> (s, seq, None)
      | Some digit \<Rightarrow>
          if ds_out_digit_sofar s \<ge> ds_out_digit_dur s then (s, seq, None)
          else
            (let sofar = ds_out_digit_sofar s + ucast (ms_to_timestamp interval_ms);
                 s1 = s\<lparr>ds_out_digit_sofar := sofar\<rparr>
             in if sofar \<ge> ds_out_digit_dur s then (s1, seq, None)
                else
                  (let (s2, q2, k) = build_dtmf s1 (payload_new digit False (clamp16 sofar)) False seq
                   in (s2, q2, Some k))))"

definition digit_is_complete :: "dtmf_sender \<Rightarrow> bool" where
  "digit_is_complete s = (ds_out_digit s = None \<or> ds_out_digit_sofar s \<ge> ds_out_digit_dur s)"

fun continue_times ::
  "nat \<Rightarrow> dtmf_sender \<Rightarrow> u32 \<Rightarrow> u16 \<Rightarrow> dtmf_sender \<times> u16 \<times> dtmf_packet list" where
  "continue_times 0 s interval_ms seq = (s, seq, [])"
| "continue_times (Suc n) s interval_ms seq =
     (let (s1, q1, k) = continue_digit s interval_ms seq;
          (s2, q2, ks) = continue_times n s1 interval_ms q1
      in (s2, q2, (case k of None \<Rightarrow> [] | Some p \<Rightarrow> [p]) @ ks))"

definition generate_digit ::
  "dtmf_sender \<Rightarrow> char \<Rightarrow> u32 \<Rightarrow> u32 \<Rightarrow> u16 \<Rightarrow> u32 \<Rightarrow> (dtmf_sender \<times> u16 \<times> dtmf_packet list) res" where
  "generate_digit s digit duration_ms interval_ms seq audio_timestamp =
     res_bind (start_digit s digit duration_ms seq audio_timestamp interval_ms) (\<lambda>(s1, q1, ks1).
       if interval_ms = 0 then Panic
       else
         (let n = max ((duration_ms + interval_ms - 1) div interval_ms) 1;
              (s2, q2, ks2) = continue_times (unat n) s1 interval_ms q1;
              (s3, q3, ks3) = end_digit s2 q2
          in Ok (s3, q3, ks1 @ ks2 @ ks3)))"

section \<open>The detector\<close>

record detected_dtmf =
  de_digit :: char
  de_event :: dtmf_event
  de_duration_ms :: u32
  de_is_end :: bool

record dtmf_detector =
  dd_in_digit_seq :: u16
  dd_prev_seq :: u16
  dd_in_digit_ts :: u32
  dd_last_in_digit_ts :: u32
  dd_in_digit_sanity :: u32
  dd_last_duration :: u16
  dd_duration_flip :: u32
  dd_current_digit :: "dtmf_event option"
  dd_expected_pt :: byte
  dd_latched_pt :: byte
  dd_detected_queue :: "detected_dtmf list"
  dd_last_end_timestamp :: u32
  dd_first_packet_ts :: u32
  dd_end_timeout_ms :: u32
  dd_digit_start_time :: "nat option"
  dd_rtp_bugs :: rtp_bug_flags

definition detector_new :: dtmf_detector where
  "detector_new = \<lparr>dd_in_digit_seq = 0, dd_prev_seq = 0, dd_in_digit_ts = 0, dd_last_in_digit_ts = 0,
     dd_in_digit_sanity = 0, dd_last_duration = 0, dd_duration_flip = 0, dd_current_digit = None,
     dd_expected_pt = TELEPHONE_EVENT_PT, dd_latched_pt = 0, dd_detected_queue = [],
     dd_last_end_timestamp = 0, dd_first_packet_ts = 0, dd_end_timeout_ms = DTMF_END_TIMEOUT_MS,
     dd_digit_start_time = None, dd_rtp_bugs = no_bugs\<rparr>"

definition detector_set_rtp_bugs :: "dtmf_detector \<Rightarrow> rtp_bug_flags \<Rightarrow> dtmf_detector" where
  "detector_set_rtp_bugs d bugs = d\<lparr>dd_rtp_bugs := bugs\<rparr>"

definition detector_with_payload_type :: "byte \<Rightarrow> dtmf_detector" where
  "detector_with_payload_type pt = detector_new\<lparr>dd_expected_pt := pt\<rparr>"

definition set_end_timeout_ms :: "dtmf_detector \<Rightarrow> u32 \<Rightarrow> dtmf_detector" where
  "set_end_timeout_ms d ms = d\<lparr>dd_end_timeout_ms := ms\<rparr>"

definition set_expected_pt :: "dtmf_detector \<Rightarrow> byte \<Rightarrow> dtmf_detector" where
  "set_expected_pt d pt = d\<lparr>dd_expected_pt := pt, dd_latched_pt := pt\<rparr>"

definition reset_state :: "dtmf_detector \<Rightarrow> dtmf_detector" where
  "reset_state d = d\<lparr>dd_in_digit_seq := 0, dd_prev_seq := 0, dd_in_digit_ts := 0,
     dd_last_in_digit_ts := 0, dd_in_digit_sanity := 0, dd_last_duration := 0,
     dd_duration_flip := 0, dd_current_digit := None, dd_last_end_timestamp := 0,
     dd_first_packet_ts := 0, dd_digit_start_time := None\<rparr>"

definition detector_reset :: "dtmf_detector \<Rightarrow> dtmf_detector" where
  "detector_reset d = (reset_state d)\<lparr>dd_detected_queue := []\<rparr>"

definition pt_accepted :: "dtmf_detector \<Rightarrow> byte \<Rightarrow> bool" where
  "pt_accepted d pt =
     (if dd_expected_pt d \<noteq> 0 then pt = dd_expected_pt d
      else 96 \<le> pt \<and> pt \<le> 127 \<and> (dd_latched_pt d = 0 \<or> pt = dd_latched_pt d))"

definition latch_pt :: "dtmf_detector \<Rightarrow> byte \<Rightarrow> dtmf_detector" where
  "latch_pt d pt = (if dd_expected_pt d = 0 \<and> dd_latched_pt d = 0 then d\<lparr>dd_latched_pt := pt\<rparr> else d)"

definition gap_suppressed :: "dtmf_detector \<Rightarrow> u32 \<Rightarrow> bool \<Rightarrow> bool" where
  "gap_suppressed d ts is_end =
     (let last_end = dd_last_end_timestamp d in
      last_end \<noteq> 0 \<and>
      (if ts = last_end then \<not> is_end
       else (let gap = ts - last_end in gap < DTMF_INTERDIGIT_GAP \<and> gap < 0x80000000)))"

definition seq_stale :: "dtmf_detector \<Rightarrow> u16 \<Rightarrow> u32 \<Rightarrow> bool" where
  "seq_stale d seq ts =
     (dd_prev_seq d \<noteq> 0 \<and> ts = dd_in_digit_ts d
      \<and> (let diff = seq - dd_prev_seq d in diff = 0 \<or> diff > 0x8000))"

definition duration_of :: "u32 \<Rightarrow> u32" where
  "duration_of tot = max (tot div 8) DTMF_MIN_DURATION_MS"

definition forced_result :: "dtmf_detector \<Rightarrow> dtmf_event \<Rightarrow> detected_dtmf" where
  "forced_result d digit =
     \<lparr>de_digit = event_to_char digit, de_event = digit,
      de_duration_ms = duration_of (ucast (dd_last_duration d) + dd_duration_flip d),
      de_is_end = False\<rparr>"

definition enqueue_digit :: "detected_dtmf \<Rightarrow> dtmf_detector \<Rightarrow> dtmf_detector" where
  "enqueue_digit r d = d\<lparr>dd_detected_queue := dd_detected_queue d @ [r]\<rparr>"

definition end_timed_out :: "nat \<Rightarrow> u32 \<Rightarrow> dtmf_detector \<Rightarrow> bool" where
  "end_timed_out now ts d =
     (let first_ts = dd_first_packet_ts d;
          rtp_timeout = (first_ts \<noteq> 0 \<and> ts - first_ts > sat_mul8 (dd_end_timeout_ms d)
                         \<and> ts - first_ts < 0x80000000);
          wall_timeout = (case dd_digit_start_time d of None \<Rightarrow> False
            | Some t \<Rightarrow> (of_nat ((now - t) div 1000000) :: u32) > dd_end_timeout_ms d)
      in rtp_timeout \<or> wall_timeout)"

definition force_timeout :: "nat \<Rightarrow> u32 \<Rightarrow> dtmf_detector \<Rightarrow> dtmf_detector" where
  "force_timeout now ts d =
     (case dd_current_digit d of
        None \<Rightarrow> d
      | Some digit \<Rightarrow>
          if end_timed_out now ts d
          then enqueue_digit (forced_result d digit)
                 (d\<lparr>dd_current_digit := None, dd_duration_flip := 0, dd_last_duration := 0,
                    dd_last_end_timestamp := dd_last_in_digit_ts d, dd_first_packet_ts := 0,
                    dd_digit_start_time := None\<rparr>)
          else d)"

definition begin_digit :: "nat \<Rightarrow> u16 \<Rightarrow> u32 \<Rightarrow> dtmf_event \<Rightarrow> dtmf_detector \<Rightarrow> dtmf_detector" where
  "begin_digit now seq ts event d =
     (let d1 = (case dd_current_digit d of
                  None \<Rightarrow> d
                | Some prev \<Rightarrow> enqueue_digit (forced_result d prev)
                    (d\<lparr>dd_last_end_timestamp := dd_last_in_digit_ts d, dd_first_packet_ts := 0,
                       dd_digit_start_time := None\<rparr>))
      in d1\<lparr>dd_current_digit := Some event, dd_last_in_digit_ts := ts, dd_last_duration := 0,
            dd_duration_flip := 0, dd_prev_seq := seq, dd_first_packet_ts := ts,
            dd_digit_start_time := Some now\<rparr>)"

definition track_duration ::
  "u32 \<Rightarrow> dtmf_payload \<Rightarrow> dtmf_detector \<Rightarrow> dtmf_detector \<times> detected_dtmf option" where
  "track_duration ts p d =
     (let last_dur = dd_last_duration d;
          d1 = d\<lparr>dd_last_duration := dp_duration p\<rparr>;
          d2 = (if dp_duration p < last_dur \<and> last_dur \<ge> 0xFC17
                then d1\<lparr>dd_duration_flip := dd_duration_flip d1 + 0xFFFF\<rparr> else d1);
          tot = ucast (dp_duration p) + dd_duration_flip d2
      in if tot > DTMF_MAX_DURATION then (reset_state d2, None)
         else
           (case dd_current_digit d2 of
              Some digit \<Rightarrow>
                if dp_is_end p then
                  (let d3 = d2\<lparr>dd_current_digit := None, dd_duration_flip := 0,
                               dd_first_packet_ts := 0, dd_digit_start_time := None\<rparr>
                   in if tot = 0 then (d3, None)
                      else
                        (let r = \<lparr>de_digit = event_to_char digit, de_event = digit,
                                  de_duration_ms = duration_of tot, de_is_end = True\<rparr>
                         in (enqueue_digit r (d3\<lparr>dd_last_end_timestamp := ts\<rparr>), Some r)))
                else (d2, None)
            | None \<Rightarrow> (d2, None)))"

definition digit_step ::
  "nat \<Rightarrow> u16 \<Rightarrow> u32 \<Rightarrow> dtmf_event \<Rightarrow> dtmf_payload \<Rightarrow> dtmf_detector
   \<Rightarrow> dtmf_detector \<times> detected_dtmf option" where
  "digit_step now seq ts event p d =
     (if ts \<noteq> dd_last_in_digit_ts d then
        (let d1 = begin_digit now seq ts event d
         in if ignore_duration (dd_rtp_bugs d1) then
              (let r = \<lparr>de_digit = event_to_char event, de_event = event,
                        de_duration_ms = DTMF_MIN_DURATION_MS, de_is_end = False\<rparr>
               in (enqueue_digit r (d1\<lparr>dd_current_digit := None, dd_last_end_timestamp := ts,
                                       dd_first_packet_ts := 0, dd_digit_start_time := None\<rparr>), Some r))
            else track_duration ts p d1)
      else
        (case dd_current_digit d of
           Some c \<Rightarrow> if event \<noteq> c then (d, None) else track_duration ts p d
         | None \<Rightarrow> track_duration ts p d))"

definition process_rtp ::
  "nat \<Rightarrow> byte \<Rightarrow> u16 \<Rightarrow> u32 \<Rightarrow> bytes \<Rightarrow> dtmf_detector \<Rightarrow> dtmf_detector \<times> detected_dtmf option" where
  "process_rtp now pt seq ts pl d =
     (if \<not> pt_accepted d pt then (d, None)
      else case payload_parse pl of
        None \<Rightarrow> (d, None)
      | Some p \<Rightarrow>
        (case event_from_code (dp_event p) of
           None \<Rightarrow> (d, None)
         | Some event \<Rightarrow>
           (let d1 = latch_pt d pt
            in if gap_suppressed d1 ts (dp_is_end p) \<or> seq_stale d1 seq ts then (d1, None)
               else
                 (let same = (ts = dd_in_digit_ts d1);
                      d2 = d1\<lparr>dd_in_digit_ts := ts, dd_in_digit_seq := seq, dd_prev_seq := seq,
                              dd_in_digit_sanity := (if same then dd_in_digit_sanity d1 + 1 else 0)\<rparr>
                  in if same \<and> dd_in_digit_sanity d1 > DTMF_SANITY_LIMIT then (reset_state d2, None)
                     else digit_step now seq ts event p (force_timeout now ts d2)))))"

definition pop_digit :: "dtmf_detector \<Rightarrow> dtmf_detector \<times> detected_dtmf option" where
  "pop_digit d = (case dd_detected_queue d of [] \<Rightarrow> (d, None)
     | r # rs \<Rightarrow> (d\<lparr>dd_detected_queue := rs\<rparr>, Some r))"

definition has_digits :: "dtmf_detector \<Rightarrow> bool" where
  "has_digits d = (dd_detected_queue d \<noteq> [])"

end
