(* ===== verification/Rtp_Dtmf_Props.thy ===== *)
theory Rtp_Dtmf_Props
  imports Rtp_Dtmf "HOL-Library.Sublist"
begin

text \<open>
  What the DTMF sender and detector do together: the payload survives serialization, a
  generated digit has the shape RFC 4733 asks for, and a dialled string is detected exactly
  once per digit as long as one END packet of each digit arrives.
\<close>

section \<open>Events and payloads\<close>

lemma event_code_less: "event_code e < 16"
  by (cases e) (simp_all add: word_less_nat_alt)

lemma event_from_code_code [simp]: "event_from_code (event_code e) = Some e"
  by (cases e) (simp_all add: event_from_code_def all_events_def word_less_nat_alt)

lemma event_from_char_to_char [simp]: "event_from_char (event_to_char e) = Some e"
  by (cases e) (simp_all add: event_from_char_def)

lemma u16_from_bytes:
  "push_bit 8 (ucast (ucast (drop_bit 8 (w :: u16)) :: byte)) OR ucast (ucast (w AND 0xFF) :: byte) = w"
proof (rule bit_word_eqI)
  fix n
  assume n: "n < LENGTH(16)"
  have m: "(0xFF :: u16) = mask 8" by (simp add: mask_eq_exp_minus_1)
  show "bit (push_bit 8 (ucast (ucast (drop_bit 8 w) :: byte)) OR ucast (ucast (w AND 0xFF) :: byte) :: u16) n = bit w n"
    unfolding m using n
    by (auto simp: bit_or_iff bit_push_bit_iff bit_unsigned_iff bit_drop_bit_eq bit_and_iff bit_mask_iff)
qed

lemma volume_bits:
  assumes "(v :: byte) \<le> 63"
  shows "(0x80 OR (v AND 0x3F)) AND 0x3F = v" and "(0 OR (v AND 0x3F)) AND 0x3F = v"
    and "(0x80 OR (v AND 0x3F)) AND 0x80 \<noteq> 0" and "(0 OR (v AND 0x3F)) AND 0x80 = 0"
proof -
  have m: "(0x3F :: byte) = mask 6" by (simp add: mask_eq_exp_minus_1)
  have top: "bit (0x80 :: byte) n \<longleftrightarrow> n = 7" for n
  proof -
    have "(0x80 :: byte) = 2 ^ 7" by simp
    then show ?thesis by (simp only: bit_exp_iff) auto
  qed
  have "v < 2 ^ 6" using assms by (simp add: word_less_nat_alt word_le_nat_alt)
  then have v: "v AND mask 6 = v" by (rule less_mask_eq)
  then have low: "bit v n \<Longrightarrow> n < 6" for n by (metis bit_and_iff bit_mask_iff)
  have not7: "\<not> bit v 7" using low [of 7] by auto
  show "(0 OR (v AND 0x3F)) AND 0x3F = v" unfolding m by (simp add: v)
  show "(0x80 OR (v AND 0x3F)) AND 0x3F = v" unfolding m v
    by (rule bit_word_eqI) (simp only: bit_or_iff bit_and_iff bit_mask_iff top, auto dest: low)
  have "bit ((0x80 OR (v AND 0x3F)) AND 0x80) 7" unfolding m v
    by (simp only: bit_or_iff bit_and_iff top) simp
  then show "(0x80 OR (v AND 0x3F)) AND 0x80 \<noteq> 0" by (metis bit_0_eq bot_fun_def bot_bool_def)
  show "(0 OR (v AND 0x3F)) AND 0x80 = 0" unfolding m v
    by (rule bit_word_eqI) (simp only: or.left_neutral bit_and_iff top, use not7 in auto)
qed

lemma parse_serialize:
  assumes "dp_event p \<le> 15" and "dp_volume p \<le> 63"
  shows "payload_parse (payload_serialize p) = Some p"
    and "payload_parse ([0, 0, 0, 0] @ payload_serialize p) = Some p"
  using assms volume_bits [OF assms(2)] u16_from_bytes [of "dp_duration p"]
  by (auto simp: payload_parse_def payload_serialize_def Let_def linorder_not_le)

text \<open>The telephone-event payload survives the wire, with or without the four bytes of zero
  padding that some gateways put in front of it.\<close>

theorem dtmf_payload_roundtrip:
  assumes "dp_event p \<le> 15" and "dp_volume p \<le> 63"
  shows "payload_parse (payload_serialize p) = Some p
    \<and> payload_parse ([0, 0, 0, 0] @ payload_serialize p) = Some p"
  using parse_serialize [OF assms] by simp

lemma parse_new [simp]: "payload_parse (payload_serialize (payload_new e b v)) = Some (payload_new e b v)"
proof (rule parse_serialize)
  show "dp_event (payload_new e b v) \<le> 15"
    using event_code_less [of e] by (simp add: payload_new_def word_less_nat_alt word_le_nat_alt)
qed (simp add: payload_new_def DEFAULT_VOLUME_def word_le_nat_alt)


section \<open>Packets of one digit\<close>

text \<open>What the network delivers: packets with their arrival times.\<close>

type_synonym arrivals = "(nat \<times> dtmf_packet) list"

fun receive_all :: "dtmf_detector \<Rightarrow> arrivals \<Rightarrow> dtmf_detector \<times> detected_dtmf list" where
  "receive_all d [] = (d, [])"
| "receive_all d ((now, k) # ks) =
     (let (d1, r) = process_rtp now (dk_payload_type k) (dk_sequence k) (dk_timestamp k) (dk_payload k) d;
          (d2, rs) = receive_all d1 ks
      in (d2, (case r of None \<Rightarrow> [] | Some x \<Rightarrow> [x]) @ rs))"

lemma receive_all_append:
  "receive_all d (xs @ ys) = (let (d1, rs) = receive_all d xs; (d2, ss) = receive_all d1 ys
     in (d2, rs @ ss))"
  by (induction xs arbitrary: d) (auto simp: Let_def split: prod.splits)

definition is_end_packet :: "dtmf_packet \<Rightarrow> bool" where
  "is_end_packet k = (case payload_parse (dk_payload k) of Some p \<Rightarrow> dp_is_end p | None \<Rightarrow> False)"

definition packet_duration :: "dtmf_packet \<Rightarrow> u16" where
  "packet_duration k = (case payload_parse (dk_payload k) of Some p \<Rightarrow> dp_duration p | None \<Rightarrow> 0)"

definition of_digit :: "dtmf_event \<Rightarrow> u32 \<Rightarrow> dtmf_packet \<Rightarrow> bool" where
  "of_digit ev ts k = (dk_payload_type k = TELEPHONE_EVENT_PT \<and> dk_timestamp k = ts
     \<and> 0 < packet_duration k
     \<and> payload_parse (dk_payload k) = Some (payload_new ev (is_end_packet k) (packet_duration k)))"

definition seq_offset :: "u16 \<Rightarrow> dtmf_packet \<Rightarrow> nat" where
  "seq_offset base k = unat (dk_sequence k - base)"

text \<open>Later packets of a digit have a later number, a longer duration, and after an END only
  ENDs follow.\<close>

definition later :: "u16 \<Rightarrow> dtmf_packet \<Rightarrow> dtmf_packet \<Rightarrow> bool" where
  "later base a b = (seq_offset base b < 0x8000 \<and> packet_duration a \<le> packet_duration b
     \<and> (is_end_packet a \<longrightarrow> is_end_packet b) \<and> (\<not> is_end_packet a \<longrightarrow> seq_offset base a < seq_offset base b))"

section \<open>The detector on the packets of one digit\<close>

definition ready :: "u32 \<Rightarrow> dtmf_detector \<Rightarrow> bool" where
  "ready ts d = (dd_expected_pt d = TELEPHONE_EVENT_PT \<and> dd_current_digit d = None
     \<and> ts \<noteq> 0 \<and> ts \<noteq> dd_last_in_digit_ts d \<and> ts \<noteq> dd_in_digit_ts d
     \<and> \<not> gap_suppressed d ts False \<and> \<not> ignore_duration (dd_rtp_bugs d)
     \<and> dd_end_timeout_ms d = DTMF_END_TIMEOUT_MS)"

definition tracking :: "dtmf_event \<Rightarrow> u32 \<Rightarrow> nat \<Rightarrow> nat \<Rightarrow> dtmf_packet \<Rightarrow> dtmf_detector \<Rightarrow> bool" where
  "tracking ev ts T n k d = (dd_expected_pt d = TELEPHONE_EVENT_PT \<and> dd_current_digit d = Some ev
     \<and> ts \<noteq> 0 \<and> dd_last_in_digit_ts d = ts \<and> dd_in_digit_ts d = ts \<and> dd_first_packet_ts d = ts
     \<and> dd_duration_flip d = 0 \<and> dd_last_duration d = packet_duration k
     \<and> dd_prev_seq d = dk_sequence k \<and> unat (dd_in_digit_sanity d) \<le> n
     \<and> dd_last_end_timestamp d \<noteq> ts
     \<and> \<not> gap_suppressed d ts False \<and> \<not> ignore_duration (dd_rtp_bugs d)
     \<and> dd_end_timeout_ms d = DTMF_END_TIMEOUT_MS
     \<and> (\<exists>t. dd_digit_start_time d = Some t \<and> T \<le> t))"

definition ended :: "u32 \<Rightarrow> nat \<Rightarrow> dtmf_packet \<Rightarrow> dtmf_detector \<Rightarrow> bool" where
  "ended ts n k d = (dd_last_duration d \<le> packet_duration k \<and> dd_expected_pt d = TELEPHONE_EVENT_PT \<and> dd_current_digit d = None
     \<and> dd_last_in_digit_ts d = ts \<and> dd_in_digit_ts d = ts \<and> dd_last_end_timestamp d = ts
     \<and> dd_duration_flip d = 0 \<and> unat (dd_in_digit_sanity d) \<le> n
     \<and> \<not> ignore_duration (dd_rtp_bugs d) \<and> dd_end_timeout_ms d = DTMF_END_TIMEOUT_MS)"

lemma duration_total: "\<not> (DTMF_MAX_DURATION < ucast (v :: u16))"
  "0 < v \<Longrightarrow> (ucast v :: u32) \<noteq> 0"
proof -
  have "unat (ucast v :: u32) = unat v" by (rule unat_ucast_16_32)
  then show "\<not> (DTMF_MAX_DURATION < ucast v)" "0 < v \<Longrightarrow> (ucast v :: u32) \<noteq> 0"
    using unat16_less [of v]
    by (auto simp add: DTMF_MAX_DURATION_def word_less_nat_alt)
qed

definition reported :: "dtmf_event \<Rightarrow> u16 \<Rightarrow> detected_dtmf" where
  "reported ev v = \<lparr>de_digit = event_to_char ev, de_event = ev,
     de_duration_ms = duration_of (ucast v), de_is_end = True\<rparr>"

lemma no_timeout:
  assumes "dd_end_timeout_ms d = DTMF_END_TIMEOUT_MS" and "dd_first_packet_ts d = ts"
    and "dd_digit_start_time d = Some t" and "T \<le> t" and "now \<le> T + 5000000000"
  shows "force_timeout now ts d = d"
proof -
  have "(now - t) div 1000000 \<le> 5000" using assms(4,5) by linarith
  then have "unat (of_nat ((now - t) div 1000000) :: u32) \<le> 5000" by (simp add: unat_of_nat)
  then have "\<not> (5000 < (of_nat ((now - t) div 1000000) :: u32))"
    by (simp add: word_less_nat_alt)
  then show ?thesis
    using assms by (simp add: force_timeout_def end_timed_out_def DTMF_END_TIMEOUT_MS_def split: option.split)
qed

lemma sanity_ok: "unat (x :: u32) \<le> n \<Longrightarrow> n < 1500 \<Longrightarrow> \<not> (DTMF_SANITY_LIMIT < x) \<and> unat (x + 1) \<le> Suc n"
proof -
  assume "unat x \<le> n" "n < 1500"
  moreover from this have "unat (x + 1) = unat x + 1" by (simp add: unat_word_ariths)
  ultimately show ?thesis by (simp add: DTMF_SANITY_LIMIT_def word_less_nat_alt)
qed

text \<open>The first packet that gets through.\<close>

lemma first_packet:
  assumes "ready ts d" and "of_digit ev ts k" and "T \<le> now"
  shows "\<not> is_end_packet k \<Longrightarrow> \<exists>d'. receive_all d [(now, k)] = (d', []) \<and> tracking ev ts T 0 k d'"
    and "is_end_packet k \<Longrightarrow> \<exists>d'. receive_all d [(now, k)] = (d', [reported ev (packet_duration k)])
      \<and> ended ts 0 k d'"
  using assms duration_total [of "packet_duration k"]
  by (auto simp: process_rtp_def pt_accepted_def latch_pt_def ready_def of_digit_def payload_new_def
      gap_suppressed_def seq_stale_def force_timeout_def digit_step_def begin_digit_def
      track_duration_def Let_def tracking_def ended_def enqueue_digit_def reported_def TELEPHONE_EVENT_PT_def)


lemma later_not_stale:
  assumes "seq_offset base a < seq_offset base b" and "seq_offset base b < 0x8000"
  shows "dk_sequence b - dk_sequence a \<noteq> 0 \<and> \<not> (0x8000 < dk_sequence b - dk_sequence a)"
proof -
  have d: "dk_sequence b - dk_sequence a = (dk_sequence b - base) - (dk_sequence a - base)" by simp
  have "unat (dk_sequence b - dk_sequence a) = seq_offset base b - seq_offset base a"
    unfolding d using assms(1) by (subst unat_sub) (simp_all add: seq_offset_def word_le_nat_alt)
  then have "0 < unat (dk_sequence b - dk_sequence a) \<and> unat (dk_sequence b - dk_sequence a) < 0x8000"
    using assms by linarith
  then show ?thesis by (auto simp: word_less_nat_alt)
qed

text \<open>A further packet of the digit in progress, and redundant ENDs after it.\<close>

lemma next_packet:
  assumes "tracking ev ts T n a d" and "of_digit ev ts k" and "later base a k" and "\<not> is_end_packet a"
    and "now \<le> T + 5000000000" and "n < 1500"
  shows "\<not> is_end_packet k \<Longrightarrow> \<exists>d'. receive_all d [(now, k)] = (d', []) \<and> tracking ev ts T (Suc n) k d'"
    and "is_end_packet k \<Longrightarrow> \<exists>d'. receive_all d [(now, k)] = (d', [reported ev (packet_duration k)])
      \<and> ended ts (Suc n) k d'"
proof -
  let ?d2 = "d\<lparr>dd_in_digit_ts := ts, dd_in_digit_seq := dk_sequence k, dd_prev_seq := dk_sequence k,
     dd_in_digit_sanity := dd_in_digit_sanity d + 1\<rparr>"
  obtain t where t: "dd_digit_start_time d = Some t" "T \<le> t" using assms(1) by (auto simp: tracking_def)
  have nt: "force_timeout now ts ?d2 = ?d2"
    using assms(1,5) t by (intro no_timeout [where T = T and t = t]) (auto simp: tracking_def)
  have st: "\<not> seq_stale d (dk_sequence k) ts"
    using later_not_stale [of base a k] assms(1,3,4)
    by (simp add: seq_stale_def tracking_def later_def Let_def)
  have gap: "\<not> gap_suppressed d ts b" for b
    using assms(1) by (auto simp: tracking_def gap_suppressed_def Let_def)
  have sane: "\<not> (DTMF_SANITY_LIMIT < dd_in_digit_sanity d)" "unat (dd_in_digit_sanity d + 1) \<le> Suc n"
    using sanity_ok [of "dd_in_digit_sanity d" n] assms(1,6) by (auto simp: tracking_def)
  have pr: "process_rtp now (dk_payload_type k) (dk_sequence k) (dk_timestamp k) (dk_payload k) d
    = track_duration ts (payload_new ev (is_end_packet k) (packet_duration k)) ?d2"
    using assms(1,2) st gap sane nt
    by (simp add: process_rtp_def pt_accepted_def of_digit_def tracking_def payload_new_def
        latch_pt_def TELEPHONE_EVENT_PT_def digit_step_def Let_def)
  have dur: "\<not> packet_duration k < packet_duration a" using assms(3) by (simp add: later_def linorder_not_less)
  have pos: "0 < packet_duration k" using assms(2) by (simp add: of_digit_def)
  show "\<not> is_end_packet k \<Longrightarrow> \<exists>d'. receive_all d [(now, k)] = (d', []) \<and> tracking ev ts T (Suc n) k d'"
    using assms(1) dur sane(2) duration_total(1) t gap
    by (auto simp: pr track_duration_def tracking_def payload_new_def gap_suppressed_def Let_def)
  show "is_end_packet k \<Longrightarrow> \<exists>d'. receive_all d [(now, k)] = (d', [reported ev (packet_duration k)])
      \<and> ended ts (Suc n) k d'"
    using assms(1) dur sane(2) duration_total [of "packet_duration k"] pos t
    by (auto simp: pr track_duration_def tracking_def ended_def payload_new_def gap_suppressed_def Let_def
        enqueue_digit_def reported_def)
qed

lemma redundant_end:
  assumes "ended ts n a d" and "of_digit ev ts k" and "later base a k" and "is_end_packet k" and "n < 1500"
  shows "\<exists>d'. receive_all d [(now, k)] = (d', []) \<and> ended ts (Suc n) k d'"
proof (cases "seq_stale d (dk_sequence k) ts \<or> gap_suppressed d ts True")
  case True
  have "dd_last_duration d \<le> packet_duration k" using assms(1,3) by (auto simp: ended_def later_def)
  with True show ?thesis using assms
    by (auto simp: process_rtp_def pt_accepted_def of_digit_def ended_def payload_new_def
        latch_pt_def TELEPHONE_EVENT_PT_def Let_def)
next
  case False
  have sane: "\<not> (DTMF_SANITY_LIMIT < dd_in_digit_sanity d)" "unat (dd_in_digit_sanity d + 1) \<le> Suc n"
    using sanity_ok [of "dd_in_digit_sanity d" n] assms(1,5) by (auto simp: ended_def)
  let ?d2 = "d\<lparr>dd_in_digit_ts := ts, dd_in_digit_seq := dk_sequence k, dd_prev_seq := dk_sequence k,
     dd_in_digit_sanity := dd_in_digit_sanity d + 1\<rparr>"
  have pr: "process_rtp now (dk_payload_type k) (dk_sequence k) (dk_timestamp k) (dk_payload k) d
    = track_duration ts (payload_new ev True (packet_duration k)) ?d2"
    using assms(1,2,4) False sane
    by (simp add: process_rtp_def pt_accepted_def of_digit_def ended_def payload_new_def
        latch_pt_def TELEPHONE_EVENT_PT_def digit_step_def force_timeout_def Let_def)
  have "\<not> packet_duration k < dd_last_duration d" using assms(1,3) by (auto simp: ended_def later_def)
  then have "track_duration ts (payload_new ev True (packet_duration k)) ?d2
    = (?d2\<lparr>dd_last_duration := packet_duration k\<rparr>, None)"
    using assms(1) duration_total(1) by (simp add: track_duration_def ended_def payload_new_def Let_def)
  then show ?thesis using assms(1) sane(2) by (auto simp: pr ended_def)
qed

section \<open>A whole digit, with losses\<close>

abbreviation packets :: "arrivals \<Rightarrow> dtmf_packet list" where
  "packets xs \<equiv> map snd xs"

definition digit_train :: "dtmf_event \<Rightarrow> u32 \<Rightarrow> u16 \<Rightarrow> dtmf_packet list \<Rightarrow> bool" where
  "digit_train ev ts base ks = (list_all (of_digit ev ts) ks \<and> sorted_wrt (later base) ks)"

lemma subseq_train: "subseq ks' ks \<Longrightarrow> set ks' \<subseteq> set ks \<and> (sorted_wrt P ks \<longrightarrow> sorted_wrt P ks')"
  by (induction rule: list_emb.induct) auto

lemma digit_train_subseq: "digit_train ev ts base ks \<Longrightarrow> subseq ks' ks \<Longrightarrow> digit_train ev ts base ks'"
  using subseq_train [of ks' ks] by (auto simp: digit_train_def list_all_iff)

lemma ended_run:
  assumes "ended ts n a d" and "digit_train ev ts base (a # packets xs)" and "is_end_packet a"
    and "n + length xs \<le> 1500"
  shows "\<exists>d' k. receive_all d xs = (d', []) \<and> ended ts (n + length xs) k d'"
  using assms
proof (induction xs arbitrary: d a n)
  case (Cons x xs)
  obtain now k where x: "x = (now, k)" by fastforce
  have k: "of_digit ev ts k" "later base a k" "is_end_packet k"
    using Cons.prems(2,3) x by (auto simp: digit_train_def later_def)
  obtain d1 where d1: "receive_all d [(now, k)] = (d1, [])" "ended ts (Suc n) k d1"
    using redundant_end [OF Cons.prems(1) k] Cons.prems(4) by auto
  have tr: "digit_train ev ts base (k # packets xs)" using Cons.prems(2) x by (simp add: digit_train_def)
  obtain d2 k2 where "receive_all d1 xs = (d2, [])" "ended ts (Suc n + length xs) k2 d2"
    using Cons.IH [OF d1(2) tr k(3)] Cons.prems(4) by auto
  with d1 x receive_all_append [of d "[(now, k)]" xs] show ?case by auto
qed auto

lemma tracking_run:
  assumes "tracking ev ts T n a d" and "digit_train ev ts base (a # packets xs)" and "\<not> is_end_packet a"
    and "n + length xs \<le> 1500" and "\<forall>x \<in> set xs. fst x \<le> T + 5000000000"
    and "\<exists>k \<in> set (packets xs). is_end_packet k"
  shows "\<exists>d' k v. receive_all d xs = (d', [reported ev v]) \<and> ended ts (n + length xs) k d'"
  using assms
proof (induction xs arbitrary: d a n)
  case (Cons x xs)
  obtain now k where x: "x = (now, k)" by fastforce
  have k: "of_digit ev ts k" "later base a k" and now: "now \<le> T + 5000000000" and n: "n < 1500"
    using Cons.prems(2,4,5) x by (auto simp: digit_train_def)
  have tr: "digit_train ev ts base (k # packets xs)" using Cons.prems(2) x by (simp add: digit_train_def)
  note np = next_packet [OF Cons.prems(1) k Cons.prems(3) now n]
  show ?case
  proof (cases "is_end_packet k")
    case True
    obtain d1 where d1: "receive_all d [(now, k)] = (d1, [reported ev (packet_duration k)])"
      "ended ts (Suc n) k d1" using np(2) [OF True] by auto
    obtain d2 k2 where "receive_all d1 xs = (d2, [])" "ended ts (Suc n + length xs) k2 d2"
      using ended_run [OF d1(2) tr True] Cons.prems(4) by auto
    with d1 x receive_all_append [of d "[(now, k)]" xs] show ?thesis by auto
  next
    case False
    obtain d1 where d1: "receive_all d [(now, k)] = (d1, [])" "tracking ev ts T (Suc n) k d1"
      using np(1) [OF False] by auto
    obtain d2 k2 v where "receive_all d1 xs = (d2, [reported ev v])" "ended ts (Suc n + length xs) k2 d2"
      using Cons.IH [OF d1(2) tr False] Cons.prems(4-6) False x by auto
    with d1 x receive_all_append [of d "[(now, k)]" xs] show ?thesis by auto
  qed
qed simp

lemma digit_run:
  assumes "ready ts d" and "digit_train ev ts base (packets xs)" and "length xs \<le> 1500"
    and "\<forall>x \<in> set xs. T \<le> fst x \<and> fst x \<le> T + 5000000000"
    and "\<exists>k \<in> set (packets xs). is_end_packet k"
  shows "\<exists>d' k v. receive_all d xs = (d', [reported ev v]) \<and> ended ts 1500 k d'"
proof (cases xs)
  case Nil
  with assms(5) show ?thesis by simp
next
  case (Cons x xs')
  obtain now k where x: "x = (now, k)" by fastforce
  have k: "of_digit ev ts k" and now: "T \<le> now"
    using assms(2,4) Cons x by (auto simp: digit_train_def)
  have mono: "ended ts m k d' \<Longrightarrow> m \<le> 1500 \<Longrightarrow> ended ts 1500 k d'" for m k d'
    by (auto simp: ended_def)
  note fp = first_packet [OF assms(1) k now]
  show ?thesis
  proof (cases "is_end_packet k")
    case True
    obtain d1 where d1: "receive_all d [(now, k)] = (d1, [reported ev (packet_duration k)])"
      "ended ts 0 k d1" using fp(2) [OF True] by auto
    obtain d2 k2 where "receive_all d1 xs' = (d2, [])" "ended ts (0 + length xs') k2 d2"
      using ended_run [OF d1(2)] assms(2,3) True Cons x by fastforce
    with d1 x Cons receive_all_append [of d "[(now, k)]" xs'] assms(3) show ?thesis
      by (auto intro!: mono)
  next
    case False
    obtain d1 where d1: "receive_all d [(now, k)] = (d1, [])" "tracking ev ts T 0 k d1"
      using fp(1) [OF False] by auto
    obtain d2 k2 v where "receive_all d1 xs' = (d2, [reported ev v])" "ended ts (0 + length xs') k2 d2"
      using tracking_run [OF d1(2), of base xs'] assms(2-5) False Cons x by fastforce
    with d1 x Cons receive_all_append [of d "[(now, k)]" xs'] assms(3) show ?thesis
      by (auto intro!: mono)
  qed
qed

lemma ended_ready:
  assumes "ended ts n k d" and "ts' \<noteq> 0" and "DTMF_INTERDIGIT_GAP \<le> ts' - ts"
  shows "ready ts' d"
  using assms by (auto simp: ended_def ready_def gap_suppressed_def Let_def DTMF_INTERDIGIT_GAP_def)


section \<open>What the sender generates\<close>

lemma unat_clamp16: "unat (clamp16 x) = min (unat x) 65535"
proof -
  have u: "unat (min x 65535) = min (unat x) 65535"
    by (cases "x \<le> 65535") (auto simp: min_def word_le_nat_alt)
  then show ?thesis
    by (simp add: clamp16_def unsigned_ucast_eq take_bit_eq_mod)
qed

lemma clamp16_mono: "x \<le> y \<Longrightarrow> clamp16 x \<le> clamp16 y"
  by (simp add: word_le_nat_alt unat_clamp16)

lemma clamp16_pos: "0 < x \<Longrightarrow> 0 < clamp16 x"
  by (simp add: word_less_nat_alt unat_clamp16)

lemma clamp16_ucast [simp]: "clamp16 (ucast (v :: u16)) = v"
  using unat16_less [of v] by (simp add: word_unat_eq_iff unat_clamp16 unat_ucast_16_32)

lemma unat_sat_mul8: "unat (sat_mul8 x) = min (unat x * 8) 4294967295"
proof (cases "unat x * 8 < 2 ^ 32")
  case True
  then show ?thesis by (simp add: sat_mul8_def unat_word_ariths)
next
  case False
  then show ?thesis by (simp add: sat_mul8_def unsigned_minus_1_eq_mask mask_eq_exp_minus_1)
qed

lemma ms_to_timestamp_pos: "0 < x \<Longrightarrow> 0 < ms_to_timestamp x"
  unfolding ms_to_timestamp_def
  by (rule clamp16_pos) (simp add: word_less_nat_alt unat_sat_mul8)

definition sending :: "dtmf_event \<Rightarrow> u32 \<Rightarrow> dtmf_sender \<Rightarrow> bool" where
  "sending ev ts s = (ds_out_digit s = Some ev \<and> ds_digit_timestamp s = ts
     \<and> \<not> sonus_dtmf_timestamp (ds_rtp_bugs s) \<and> ds_payload_type s = TELEPHONE_EVENT_PT
     \<and> 0 < ds_out_digit_sofar s \<and> unat (ds_out_digit_dur s) \<le> 480000)"

lemma build_packet_facts:
  assumes "build_dtmf s (payload_new ev e v) m q = (s', q', k)" and "\<not> sonus_dtmf_timestamp (ds_rtp_bugs s)"
    and "ds_payload_type s = TELEPHONE_EVENT_PT" and "0 < v"
  shows "s' = s" and "q' = q + 1" and "of_digit ev (ds_digit_timestamp s) k"
    and "is_end_packet k = e" and "packet_duration k = v" and "dk_sequence k = q"
  using assms parse_new [of ev e v]
  by (auto simp: build_dtmf_def Let_def of_digit_def is_end_packet_def packet_duration_def
      payload_new_def)

lemma continue_facts:
  assumes "continue_digit s iv q = (s', q', k)" and "sending ev ts s"
  shows "sending ev ts s'" and "ds_out_digit_sofar s \<le> ds_out_digit_sofar s'" and "ds_rtp_bugs s' = ds_rtp_bugs s"
    and "case k of None \<Rightarrow> q' = q | Some p \<Rightarrow> q' = q + 1 \<and> of_digit ev ts p \<and> \<not> is_end_packet p
      \<and> dk_sequence p = q \<and> packet_duration p = clamp16 (ds_out_digit_sofar s')"
proof -
  let ?so = "ds_out_digit_sofar s" let ?iv = "ucast (ms_to_timestamp iv) :: u32"
  have all: "sending ev ts s' \<and> ?so \<le> ds_out_digit_sofar s' \<and> ds_rtp_bugs s' = ds_rtp_bugs s
    \<and> (case k of None \<Rightarrow> q' = q | Some p \<Rightarrow> q' = q + 1 \<and> of_digit ev ts p \<and> \<not> is_end_packet p
      \<and> dk_sequence p = q \<and> packet_duration p = clamp16 (ds_out_digit_sofar s'))"
  proof (cases "?so \<ge> ds_out_digit_dur s")
    case True
    with assms show ?thesis by (auto simp: continue_digit_def sending_def)
  next
    case False
    have "unat ?so < 480000" using False assms(2) by (simp add: sending_def word_le_nat_alt)
    moreover have "unat ?iv < 65536" using unat16_less by (simp add: unat_ucast_16_32)
    ultimately have sum: "unat (?so + ?iv) = unat ?so + unat ?iv" by (simp add: unat_word_ariths)
    then have le: "?so \<le> ?so + ?iv" by (simp add: word_le_nat_alt)
    let ?s1 = "s\<lparr>ds_out_digit_sofar := ?so + ?iv\<rparr>"
    have snd1: "sending ev ts ?s1" using assms(2) le by (auto simp: sending_def)
    show ?thesis
    proof (cases "?so + ?iv \<ge> ds_out_digit_dur s")
      case True
      with assms False snd1 le show ?thesis by (auto simp: continue_digit_def sending_def Let_def)
    next
      case more: False
      obtain s2 q2 p where b: "build_dtmf ?s1 (payload_new ev False (clamp16 (?so + ?iv))) False q = (s2, q2, p)"
        by (metis prod_cases3)
      have pos: "0 < clamp16 (?so + ?iv)" using snd1 by (intro clamp16_pos) (simp add: sending_def)
      have r: "s' = s2 \<and> q' = q2 \<and> k = Some p"
        using assms False more b by (auto simp: continue_digit_def sending_def Let_def)
      have "\<not> sonus_dtmf_timestamp (ds_rtp_bugs ?s1)" "ds_payload_type ?s1 = TELEPHONE_EVENT_PT"
        "ds_digit_timestamp ?s1 = ts"
        using snd1 by (simp_all add: sending_def)
      with build_packet_facts [OF b _ _ pos] r snd1 le show ?thesis by auto
    qed
  qed
  then show "sending ev ts s'" and "ds_out_digit_sofar s \<le> ds_out_digit_sofar s'"
    and "ds_rtp_bugs s' = ds_rtp_bugs s"
    and "case k of None \<Rightarrow> q' = q | Some p \<Rightarrow> q' = q + 1 \<and> of_digit ev ts p \<and> \<not> is_end_packet p
      \<and> dk_sequence p = q \<and> packet_duration p = clamp16 (ds_out_digit_sofar s')" by blast+
qed

lemma unat_seq_offset: "m < 65536 \<Longrightarrow> unat (base + of_nat m - base :: u16) = m"
  by (simp add: unat_of_nat)

lemma continue_times_train:
  assumes "continue_times n s iv (base + of_nat m) = (s', q', ks)" and "sending ev ts s" and "m + n < 0x8000"
  shows "sending ev ts s' \<and> ds_rtp_bugs s' = ds_rtp_bugs s
    \<and> ds_out_digit_sofar s \<le> ds_out_digit_sofar s'
    \<and> (\<exists>j \<le> n. q' = base + of_nat (m + j) \<and> digit_train ev ts base ks \<and>
       (\<forall>k \<in> set ks. \<not> is_end_packet k \<and> m \<le> seq_offset base k \<and> seq_offset base k < m + j
          \<and> clamp16 (ds_out_digit_sofar s) \<le> packet_duration k
          \<and> packet_duration k \<le> clamp16 (ds_out_digit_sofar s')))"
  using assms
proof (induction n arbitrary: s m ks)
  case 0
  then show ?case by (auto simp: digit_train_def)
next
  case (Suc n)
  obtain s1 q1 k where c: "continue_digit s iv (base + of_nat m) = (s1, q1, k)" by (metis prod_cases3)
  obtain ks2 where r: "continue_times n s1 iv q1 = (s', q', ks2)"
    and eq: "ks = (case k of None \<Rightarrow> [] | Some p \<Rightarrow> [p]) @ ks2"
    using Suc.prems(1) c by (auto simp: Let_def split: prod.splits)
  note cf = continue_facts [OF c Suc.prems(2)]
  show ?case
  proof (cases k)
    case None
    then have r': "continue_times n s1 iv (base + of_nat m) = (s', q', ks2)" using r cf(4) by simp
    have "clamp16 (ds_out_digit_sofar s) \<le> clamp16 (ds_out_digit_sofar s1)" using cf(2) by (rule clamp16_mono)
    with Suc.IH [OF r' cf(1)] Suc.prems(3) cf(2,3) None eq show ?thesis
      by (auto intro: order_trans le_SucI)
  next
    case (Some p)
    have q1: "q1 = base + of_nat (Suc m)" using cf(4) Some by (simp add: algebra_simps)
    have p: "of_digit ev ts p" "\<not> is_end_packet p" "packet_duration p = clamp16 (ds_out_digit_sofar s1)"
      using cf(4) Some by auto
    have off: "seq_offset base p = m"
      using cf(4) Some Suc.prems(3) by (simp add: seq_offset_def unat_of_nat)
    have IH: "sending ev ts s' \<and> ds_rtp_bugs s' = ds_rtp_bugs s1
      \<and> ds_out_digit_sofar s1 \<le> ds_out_digit_sofar s'
      \<and> (\<exists>j \<le> n. q' = base + of_nat (Suc m + j) \<and> digit_train ev ts base ks2 \<and>
       (\<forall>k \<in> set ks2. \<not> is_end_packet k \<and> Suc m \<le> seq_offset base k \<and> seq_offset base k < Suc m + j
          \<and> clamp16 (ds_out_digit_sofar s1) \<le> packet_duration k
          \<and> packet_duration k \<le> clamp16 (ds_out_digit_sofar s')))"
      using Suc.IH [OF r [unfolded q1] cf(1)] Suc.prems(3) by simp
    then obtain j where j: "j \<le> n" "q' = base + of_nat (Suc m + j)" "digit_train ev ts base ks2"
      "\<forall>k \<in> set ks2. \<not> is_end_packet k \<and> Suc m \<le> seq_offset base k \<and> seq_offset base k < Suc m + j
          \<and> clamp16 (ds_out_digit_sofar s1) \<le> packet_duration k
          \<and> packet_duration k \<le> clamp16 (ds_out_digit_sofar s')" by blast
    have mono: "clamp16 (ds_out_digit_sofar s) \<le> clamp16 (ds_out_digit_sofar s1)"
      "clamp16 (ds_out_digit_sofar s1) \<le> clamp16 (ds_out_digit_sofar s')"
      using cf(2) IH by (auto intro: clamp16_mono)
    have "digit_train ev ts base (p # ks2)"
      using j p off Suc.prems(3) by (fastforce simp: digit_train_def later_def)
    moreover have "\<forall>k \<in> set (p # ks2). \<not> is_end_packet k \<and> m \<le> seq_offset base k \<and> seq_offset base k < m + Suc j
          \<and> clamp16 (ds_out_digit_sofar s) \<le> packet_duration k
          \<and> packet_duration k \<le> clamp16 (ds_out_digit_sofar s')"
      using j(4) p off mono by (auto intro: order_trans)
    ultimately show ?thesis
      using IH cf(2,3) eq Some j(1,2) by (intro conjI exI [of _ "Suc j"]) (auto intro: order_trans)
  qed
qed


lemma interval_count:
  fixes dur iv :: u32
  assumes "iv \<noteq> 0"
  shows "unat (max ((dur + iv - 1) div iv) 1) \<le> max (unat dur) 1"
proof -
  have i: "1 \<le> unat iv" using assms by (simp add: Suc_le_eq unat_gt_0)
  have "unat (dur + iv - 1) div unat iv \<le> unat dur"
  proof (cases "dur = 0")
    case True
    have "unat (iv - 1) = unat iv - 1" using i by (subst unat_sub) (simp_all add: word_le_nat_alt)
    then show ?thesis using True i by simp
  next
    case False
    then have d: "1 \<le> unat dur" by (simp add: Suc_le_eq unat_gt_0)
    have "unat (dur + iv - 1) \<le> unat dur + unat iv - 1"
    proof -
      have "dur + iv - 1 = of_nat (unat dur + unat iv - 1)" using i by (simp add: of_nat_diff)
      then show ?thesis by (simp only: unat_of_nat) (rule mod_less_eq_dividend)
    qed
    then have "unat (dur + iv - 1) div unat iv \<le> (unat dur + unat iv - 1) div unat iv"
      by (rule div_le_mono)
    also have "\<dots> \<le> (unat dur * unat iv + unat iv - 1) div unat iv"
      using i by (intro div_le_mono diff_le_mono add_le_mono1) simp
    also have "(unat dur * unat iv + unat iv - 1) div unat iv = unat dur"
      using i by (simp add: Suc_le_eq div_nat_eqI algebra_simps)
    finally show ?thesis .
  qed
  then show ?thesis by (auto simp: max_def unat_div word_le_nat_alt)
qed

lemma end_digit_train:
  assumes "end_digit s (base + of_nat m) = (s', q', ks)" and "sending ev ts s" and "m < 0x8000"
  shows "ds_out_digit s' = None" and "ds_rtp_bugs s' = ds_rtp_bugs s"
    and "ds_payload_type s' = TELEPHONE_EVENT_PT"
    and "ks \<noteq> [] \<and> (\<forall>k \<in> set ks. of_digit ev ts k \<and> is_end_packet k \<and> seq_offset base k = m
      \<and> packet_duration k = clamp16 (ds_out_digit_sofar s))"
proof -
  let ?s0 = "s\<lparr>ds_out_digit := None\<rparr>" let ?v = "clamp16 (ds_out_digit_sofar s)"
  obtain s1 q1 k where b: "build_dtmf ?s0 (payload_new ev True ?v) False (base + of_nat m) = (s1, q1, k)"
    by (metis prod_cases3)
  have v: "0 < ?v" using assms(2) by (intro clamp16_pos) (simp add: sending_def)
  have s0: "\<not> sonus_dtmf_timestamp (ds_rtp_bugs ?s0)" "ds_payload_type ?s0 = TELEPHONE_EVENT_PT"
    "ds_digit_timestamp ?s0 = ts" using assms(2) by (simp_all add: sending_def)
  note bf = build_packet_facts [OF b s0(1,2) v]
  have r: "s' = s1\<lparr>ds_digit_timestamp := ds_digit_timestamp s1 + ds_out_digit_dur s\<rparr>" "ks = [k, k, k]"
    using assms(1,2) b by (auto simp: end_digit_def sending_def Let_def)
  show "ds_out_digit s' = None" and "ds_rtp_bugs s' = ds_rtp_bugs s"
    and "ds_payload_type s' = TELEPHONE_EVENT_PT"
    and "ks \<noteq> [] \<and> (\<forall>k \<in> set ks. of_digit ev ts k \<and> is_end_packet k \<and> seq_offset base k = m
      \<and> packet_duration k = ?v)"
    using bf r s0 assms(3) by (auto simp: seq_offset_def unat_of_nat)
qed

definition idle_sender :: "dtmf_sender \<Rightarrow> bool" where
  "idle_sender s = (ds_out_digit s = None \<and> \<not> sonus_dtmf_timestamp (ds_rtp_bugs s)
     \<and> ds_payload_type s = TELEPHONE_EVENT_PT)"

lemma generate_train:
  assumes "generate_digit s c dur iv base ts = Ok (s', q', ks)" and "idle_sender s" and "dur \<le> 5000"
  shows "idle_sender s' \<and> (\<exists>ev. event_from_char c = Some ev \<and> digit_train ev ts base ks)"
proof -
  from assms(1) obtain s1 q1 ks1 s2 q2 ks2 ks3 n where
    st: "start_digit s c dur base ts iv = Ok (s1, q1, ks1)" and iv: "iv \<noteq> 0"
    and n: "n = unat (max ((dur + iv - 1) div iv) 1)"
    and co: "continue_times n s1 iv q1 = (s2, q2, ks2)" and en: "end_digit s2 q2 = (s', q', ks3)"
    and ks: "ks = ks1 @ ks2 @ ks3"
    by (auto simp: generate_digit_def Let_def split: if_splits prod.splits)
  obtain ev where ev: "event_from_char c = Some ev"
    using st by (auto simp: start_digit_def split: option.splits)
  let ?i = "ms_to_timestamp (max iv 1)"
  let ?s1 = "s\<lparr>ds_digit_timestamp := ts, ds_out_digit := Some ev, ds_out_digit_dur := sat_mul8 dur,
    ds_out_digit_sofar := 0\<rparr>"
  obtain sb qb k where b: "build_dtmf ?s1 (payload_new ev False ?i) True base = (sb, qb, k)"
    by (metis prod_cases3)
  have i: "0 < ?i" by (rule ms_to_timestamp_pos) (simp add: max_def word_le_nat_alt word_less_nat_alt)
  have s1: "\<not> sonus_dtmf_timestamp (ds_rtp_bugs ?s1)" "ds_payload_type ?s1 = TELEPHONE_EVENT_PT"
    "ds_digit_timestamp ?s1 = ts" using assms(2) by (simp_all add: idle_sender_def)
  note bf = build_packet_facts [OF b s1(1,2) i]
  have r: "s1 = ?s1\<lparr>ds_out_digit_sofar := ucast ?i\<rparr>" "q1 = base + of_nat 1" "ks1 = [k]"
    using st ev b bf(1,2) assms(2) by (auto simp: start_digit_def idle_sender_def Let_def)
  have "unat (sat_mul8 dur) \<le> 480000" using assms(3) by (simp add: unat_sat_mul8 word_le_nat_alt)
  moreover have "0 < (ucast ?i :: u32)" using i by (simp add: word_less_nat_alt unat_ucast_16_32)
  ultimately have snd1: "sending ev ts s1" using s1 by (simp add: r(1) sending_def)
  have n': "1 + n < 0x8000"
    using interval_count [OF iv, of dur] assms(3) by (simp add: n word_le_nat_alt max_def split: if_splits)
  note ct = continue_times_train [OF co [unfolded r(2)] snd1 n']
  obtain j where j: "j \<le> n" "q2 = base + of_nat (1 + j)" "digit_train ev ts base ks2"
    "\<forall>k \<in> set ks2. \<not> is_end_packet k \<and> 1 \<le> seq_offset base k \<and> seq_offset base k < 1 + j
          \<and> clamp16 (ds_out_digit_sofar s1) \<le> packet_duration k
          \<and> packet_duration k \<le> clamp16 (ds_out_digit_sofar s2)"
    using ct by blast
  have snd2: "sending ev ts s2" and m2: "clamp16 (ds_out_digit_sofar s1) \<le> clamp16 (ds_out_digit_sofar s2)"
    using ct by (auto intro: clamp16_mono)
  have j1: "1 + j < 0x8000" using j(1) n' by simp
  note ed = end_digit_train [OF en [unfolded j(2)] snd2 j1]
  have k: "of_digit ev ts k" "\<not> is_end_packet k" "packet_duration k = clamp16 (ds_out_digit_sofar s1)"
    "seq_offset base k = 0"
    using bf s1 by (simp_all add: r(1) seq_offset_def)
  have end_later: "later base a b" if "b \<in> set ks3" and "a \<in> set (k # ks2 @ ks3)" for a b
    using that ed(4) j j1 k m2 by (auto simp: later_def)
  have mid_later: "later base k b" if "b \<in> set ks2" for b
    using that j j1 k by (auto simp: later_def)
  have ks3: "sorted_wrt (later base) ks3"
    unfolding sorted_wrt_iff_nth_less using end_later by (auto intro: nth_mem)
  have "digit_train ev ts base (k # ks2 @ ks3)"
    using j(3) k(1) ed(4) ks3 end_later mid_later
    by (auto simp: digit_train_def sorted_wrt_append list_all_iff)
  moreover have "idle_sender s'" using ed(1-3) ct assms(2) by (simp add: idle_sender_def r(1))
  ultimately show ?thesis using ev by (simp add: ks r(3))
qed

section \<open>A dialled string\<close>

record dialled =
  dl_char :: char
  dl_duration_ms :: u32
  dl_interval_ms :: u32
  dl_sequence :: u16
  dl_timestamp :: u32
  dl_start :: nat
  dl_arrivals :: arrivals

text \<open>Each digit is generated by the sender from the state the previous one left; of its packets
  any selection arrives that holds an END, within the five seconds of the END timeout; the
  audio timestamps of successive digits are 80 ms apart.\<close>

fun delivered :: "dtmf_sender \<Rightarrow> u32 \<Rightarrow> dialled list \<Rightarrow> bool" where
  "delivered s last_ts [] = True"
| "delivered s last_ts (x # xs) =
     (case generate_digit s (dl_char x) (dl_duration_ms x) (dl_interval_ms x) (dl_sequence x) (dl_timestamp x) of
        Ok (s', _, ks) \<Rightarrow>
          dl_duration_ms x \<le> 5000 \<and> dl_timestamp x \<noteq> 0
          \<and> (last_ts = 0 \<or> DTMF_INTERDIGIT_GAP \<le> dl_timestamp x - last_ts)
          \<and> subseq (packets (dl_arrivals x)) ks \<and> length (dl_arrivals x) \<le> 1500
          \<and> list_ex is_end_packet (packets (dl_arrivals x))
          \<and> list_all (\<lambda>a. dl_start x \<le> fst a \<and> fst a \<le> dl_start x + 5000000000) (dl_arrivals x)
          \<and> delivered s' (dl_timestamp x) xs
      | _ \<Rightarrow> False)"

lemma event_chars: "list_all (\<lambda>c. map_option event_to_char (event_from_char c) = Some (to_upper c))
  ''0123456789*#ABCDabcd''"
  by code_simp

lemma event_char_upper: "event_from_char c = Some ev \<Longrightarrow> event_to_char ev = to_upper c"
proof -
  assume ev: "event_from_char c = Some ev"
  then have "c \<in> set ''0123456789*#ABCDabcd''"
    by (auto simp: event_from_char_def split: if_splits)
  with event_chars have "map_option event_to_char (event_from_char c) = Some (to_upper c)"
    unfolding list_all_iff by blast
  with ev show ?thesis by simp
qed

lemma delivered_run:
  assumes "delivered s last_ts xs" and "idle_sender s"
    and "\<And>ts. ts \<noteq> 0 \<Longrightarrow> last_ts = 0 \<or> DTMF_INTERDIGIT_GAP \<le> ts - last_ts \<Longrightarrow> ready ts d"
  shows "map de_digit (snd (receive_all d (concat (map dl_arrivals xs)))) = map (to_upper \<circ> dl_char) xs"
  using assms
proof (induction xs arbitrary: s last_ts d)
  case (Cons x xs)
  obtain s' q' ks where g: "generate_digit s (dl_char x) (dl_duration_ms x) (dl_interval_ms x)
      (dl_sequence x) (dl_timestamp x) = Ok (s', q', ks)"
    and x: "dl_duration_ms x \<le> 5000" "dl_timestamp x \<noteq> 0"
      "last_ts = 0 \<or> DTMF_INTERDIGIT_GAP \<le> dl_timestamp x - last_ts"
      "subseq (packets (dl_arrivals x)) ks" "length (dl_arrivals x) \<le> 1500"
      "list_ex is_end_packet (packets (dl_arrivals x))"
      "list_all (\<lambda>a. dl_start x \<le> fst a \<and> fst a \<le> dl_start x + 5000000000) (dl_arrivals x)"
      "delivered s' (dl_timestamp x) xs"
    using Cons.prems(1) unfolding delivered.simps
    by (cases "generate_digit s (dl_char x) (dl_duration_ms x) (dl_interval_ms x)
      (dl_sequence x) (dl_timestamp x)") auto
  obtain ev where ev: "event_from_char (dl_char x) = Some ev"
    and tr: "digit_train ev (dl_timestamp x) (dl_sequence x) ks" and idle: "idle_sender s'"
    using generate_train [OF g Cons.prems(2) x(1)] by auto
  have "ready (dl_timestamp x) d" using Cons.prems(3) x(2,3) .
  then obtain d' k v where r: "receive_all d (dl_arrivals x) = (d', [reported ev v])"
    and e: "ended (dl_timestamp x) 1500 k d'"
  proof -
    have "\<exists>d' k v. receive_all d (dl_arrivals x) = (d', [reported ev v]) \<and> ended (dl_timestamp x) 1500 k d'"
      by (rule digit_run [OF \<open>ready (dl_timestamp x) d\<close> digit_train_subseq [OF tr x(4)] x(5)])
        (use x(6,7) in \<open>simp_all add: list_all_iff list_ex_iff\<close>)
    with that show ?thesis by blast
  qed
  have "map de_digit (snd (receive_all d' (concat (map dl_arrivals xs)))) = map (to_upper \<circ> dl_char) xs"
    by (rule Cons.IH [OF x(8) idle]) (use e x(2) in \<open>auto intro: ended_ready\<close>)
  then show ?case
    using r event_char_upper [OF ev] by (auto simp: receive_all_append reported_def split: prod.splits)
qed simp


definition deaf :: "dtmf_detector \<Rightarrow> bool" where
  "deaf d = (dd_current_digit d = None \<and> dd_last_in_digit_ts d = 0)"

lemma deaf_step:
  assumes "deaf d" and "process_rtp now pt q 0 pl d = (d', r)"
  shows "deaf d' \<and> r = None"
proof -
  have tr: "track_duration 0 p d1 = (d2, r2) \<Longrightarrow> deaf d1 \<Longrightarrow> deaf d2 \<and> r2 = None" for p d1 d2 r2
    by (auto simp: track_duration_def deaf_def reset_state_def Let_def split: if_splits)
  show ?thesis
    using assms
    by (auto simp: process_rtp_def Let_def deaf_def latch_pt_def digit_step_def force_timeout_def
        reset_state_def split: if_splits option.splits dest!: tr)
qed

text \<open>A digit whose packets carry the RTP timestamp 0 is not recognised by a fresh detector, END
  packets included: 0 is what the detector takes for the digit it has already seen.\<close>

theorem timestamp_zero_digit_lost:
  assumes "list_all (\<lambda>k. dk_timestamp k = 0) (packets xs)"
  shows "snd (receive_all detector_new xs) = []"
proof -
  have "deaf d \<Longrightarrow> list_all (\<lambda>k. dk_timestamp k = 0) (packets xs) \<Longrightarrow> snd (receive_all d xs) = []" for d
  proof (induction xs arbitrary: d)
    case (Cons x xs)
    obtain now k where x: "x = (now, k)" by fastforce
    obtain d1 r where p: "process_rtp now (dk_payload_type k) (dk_sequence k) 0 (dk_payload k) d = (d1, r)"
      by fastforce
    with Cons deaf_step [OF Cons.prems(1) p] x show ?case by (auto split: prod.splits)
  qed simp
  then show ?thesis using assms by (simp add: deaf_def detector_new_def)
qed

section \<open>Witnesses\<close>

text \<open>The DTMF properties applied to a digit of 40 ms of which a single END packet arrives.\<close>

definition demo_end :: dtmf_packet where
  "demo_end = \<lparr>dk_payload_type = 101, dk_sequence = 11, dk_timestamp = 1000, dk_ssrc = 7,
     dk_marker = False, dk_payload = [5, 0x8A, 1, 0x40]\<rparr>"

definition demo_first :: dtmf_packet where
  "demo_first = \<lparr>dk_payload_type = 101, dk_sequence = 10, dk_timestamp = 1000, dk_ssrc = 7,
     dk_marker = True, dk_payload = [5, 0x0A, 0, 0xA0]\<rparr>"

definition demo_sender :: "u32 \<Rightarrow> dtmf_event option \<Rightarrow> u32 \<Rightarrow> u32 \<Rightarrow> dtmf_sender" where
  "demo_sender ts digit sofar dur = (sender_new 7)\<lparr>ds_digit_timestamp := ts, ds_out_digit := digit,
     ds_out_digit_sofar := sofar, ds_out_digit_dur := dur\<rparr>"

lemmas dtmf_eval = sender_new_def no_bugs_def build_dtmf_def payload_serialize_def payload_new_def
  DEFAULT_VOLUME_def TELEPHONE_EVENT_PT_def clamp16_def sat_mul8_def ms_to_timestamp_def Let_def

lemma demo_start: "start_digit (sender_new 7) (CHR ''5'') 40 10 1000 20
  = Ok (demo_sender 1000 (Some Digit5) 160 320, 11, [demo_first])"
  by (simp add: start_digit_def event_from_char_def demo_sender_def demo_first_def dtmf_eval)

lemma demo_continue_digit:
  "continue_digit (demo_sender 1000 (Some Digit5) 160 320) 20 11
   = (demo_sender 1000 (Some Digit5) 320 320, 11, None)"
  "continue_digit (demo_sender 1000 (Some Digit5) 320 320) 20 11
   = (demo_sender 1000 (Some Digit5) 320 320, 11, None)"
  by (simp_all add: continue_digit_def demo_sender_def dtmf_eval)

lemma demo_continue: "continue_times 2 (demo_sender 1000 (Some Digit5) 160 320) 20 11
  = (demo_sender 1000 (Some Digit5) 320 320, 11, [])"
  by (simp add: numeral_2_eq_2 demo_continue_digit)

lemma demo_end_digit: "end_digit (demo_sender 1000 (Some Digit5) 320 320) 11
  = (demo_sender 1320 None 320 320, 12, [demo_end, demo_end, demo_end])"
  by (simp add: end_digit_def demo_sender_def demo_end_def dtmf_eval)

lemma demo_generate: "generate_digit (sender_new 7) (CHR ''5'') 40 20 10 1000
  = Ok (demo_sender 1320 None 320 320, 12, [demo_first, demo_end, demo_end, demo_end])"
proof -
  have "unat (max ((40 + 20 - 1) div 20) 1 :: u32) = 2" by (simp add: max_def word_le_nat_alt)
  then show ?thesis
    by (simp only: generate_digit_def demo_start res_bind.simps Let_def prod.case demo_continue demo_end_digit) simp
qed

lemma demo_end_parse: "is_end_packet demo_end"
  by (simp add: is_end_packet_def demo_end_def payload_parse_def)

definition demo_dialled :: dialled where
  "demo_dialled = \<lparr>dl_char = CHR ''5'', dl_duration_ms = 40, dl_interval_ms = 20, dl_sequence = 10,
     dl_timestamp = 1000, dl_start = 0, dl_arrivals = [(60000000, demo_end)]\<rparr>"


theorem dtmf_payload_roundtrip_witness:
  "payload_parse (payload_serialize (payload_new Digit5 True 320)) = Some (payload_new Digit5 True 320)
   \<and> payload_parse ([0, 0, 0, 0] @ payload_serialize (payload_new Digit5 True 320))
     = Some (payload_new Digit5 True 320)"
  by (rule dtmf_payload_roundtrip) (simp_all add: payload_new_def DEFAULT_VOLUME_def)

theorem timestamp_zero_digit_lost_witness:
  "snd (receive_all detector_new [(0, demo_first\<lparr>dk_timestamp := 0\<rparr>), (1, demo_end\<lparr>dk_timestamp := 0\<rparr>)]) = []"
  by (rule timestamp_zero_digit_lost) simp

end
