(* ===== verification/Rtp_Codec.thy ===== *)
theory Rtp_Codec
  imports Rtp_Prelude
begin

text \<open>
  The contract of a wire format: on well-formed values the decoder undoes the encoder. The
  locale \<open>wire_codec\<close> is interpreted by every component that prints and parses; what follows
  from the contract alone is proved here once. The second half models the UTF-8 handling of
  Rust's \<^verbatim>\<open>String\<close>, whose bytes some of the formats carry.
\<close>

locale wire_codec =
  fixes wf :: "'a \<Rightarrow> bool"
    and enc :: "'a \<Rightarrow> 'b"
    and dec :: "'b \<Rightarrow> 'a option"
  assumes dec_enc: "wf x \<Longrightarrow> dec (enc x) = Some x"
begin

lemma enc_inj: "wf x \<Longrightarrow> wf y \<Longrightarrow> enc x = enc y \<Longrightarrow> x = y"
  using dec_enc by (metis option.inject)

lemma enc_inj_on: "inj_on enc {x. wf x}"
  by (auto intro: inj_onI enc_inj)

lemma distinct_enc: "list_all wf xs \<Longrightarrow> distinct xs \<Longrightarrow> distinct (map enc xs)"
  by (auto simp: distinct_map list_all_iff intro: inj_onI enc_inj)

lemma dec_enc_list: "list_all wf xs \<Longrightarrow> map (\<lambda>x. the (dec (enc x))) xs = xs"
  by (induction xs) (simp_all add: dec_enc)

end

section \<open>UTF-8\<close>

text \<open>\<^verbatim>\<open>String::from_utf8_lossy\<close>: \<open>utf8_step\<close> reads one character, or the maximal prefix of
  one, from the front of the bytes; every ill-formed prefix becomes U+FFFD.\<close>

definition cont :: "byte \<Rightarrow> bool" where "cont b = (0x80 \<le> b \<and> b \<le> 0xBF)"

definition second_ok :: "byte \<Rightarrow> byte \<Rightarrow> bool" where
  "second_ok a b =
     (if a = 0xE0 then 0xA0 \<le> b \<and> b \<le> 0xBF else if a = 0xED then 0x80 \<le> b \<and> b \<le> 0x9F
      else if a = 0xF0 then 0x90 \<le> b \<and> b \<le> 0xBF else if a = 0xF4 then 0x80 \<le> b \<and> b \<le> 0x8F
      else cont b)"

definition byte_at :: "bytes \<Rightarrow> nat \<Rightarrow> byte" where
  "byte_at s i = (if i < length s then s ! i else 0)"

definition utf8_step :: "bytes \<Rightarrow> nat \<times> bool" where
  "utf8_step s =
     (let a = byte_at s 0; b = byte_at s 1; c = byte_at s 2; d = byte_at s 3
      in if a < 0x80 then (1, True)
         else if 0xC2 \<le> a \<and> a \<le> 0xDF then (if cont b then (2, True) else (1, False))
         else if 0xE0 \<le> a \<and> a \<le> 0xEF then
           (if \<not> second_ok a b then (1, False) else if \<not> cont c then (2, False) else (3, True))
         else if 0xF0 \<le> a \<and> a \<le> 0xF4 then
           (if \<not> second_ok a b then (1, False) else if \<not> cont c then (2, False)
            else if \<not> cont d then (3, False) else (4, True))
         else (1, False))"

lemma utf8_step_pos: "0 < fst (utf8_step s)"
  by (simp add: utf8_step_def Let_def)

function utf8_lossy :: "bytes \<Rightarrow> bytes" where
  "utf8_lossy s =
     (if s = [] then []
      else (let (n, ok) = utf8_step s
            in (if ok then take n s else [0xEF, 0xBF, 0xBD]) @ utf8_lossy (drop n s)))"
  by pat_completeness auto
termination
proof (relation "measure length")
  fix s :: bytes and x n ok
  assume "s \<noteq> []" and "x = utf8_step s" and "(n, ok) = x"
  then have "0 < n" using utf8_step_pos [of s] by (metis fst_conv)
  with \<open>s \<noteq> []\<close> show "(drop n s, s) \<in> measure length" by simp
qed simp

declare utf8_lossy.simps [simp del]

text \<open>The bytes of a \<^verbatim>\<open>String\<close> are always valid UTF-8.\<close>

function utf8_valid :: "bytes \<Rightarrow> bool" where
  "utf8_valid s =
     (if s = [] then True else (let (n, ok) = utf8_step s in ok \<and> utf8_valid (drop n s)))"
  by pat_completeness auto
termination
proof (relation "measure length")
  fix s :: bytes and x n ok
  assume "s \<noteq> []" and "x = utf8_step s" and "(n, ok) = x"
  then have "0 < n" using utf8_step_pos [of s] by (metis fst_conv)
  with \<open>s \<noteq> []\<close> show "(drop n s, s) \<in> measure length" by simp
qed simp

declare utf8_valid.simps [simp del]

lemma utf8_lossy_valid: "utf8_valid s \<Longrightarrow> utf8_lossy s = s"
proof (induction s rule: utf8_lossy.induct)
  case (1 s)
  show ?case
  proof (cases "s = []")
    case False
    obtain n ok where st: "utf8_step s = (n, ok)" by fastforce
    have "ok" "utf8_valid (drop n s)" using 1(2) False st by (simp_all add: utf8_valid.simps [of s])
    then have "utf8_lossy (drop n s) = drop n s" using 1(1) False st by metis
    with \<open>ok\<close> False st show ?thesis by (simp add: utf8_lossy.simps [of s])
  qed (simp add: utf8_lossy.simps)
qed

lemma utf8_valid_Nil [simp]: "utf8_valid []"
  by (simp add: utf8_valid.simps)

lemma utf8_lossy_Nil [simp]: "utf8_lossy [] = []"
  by (simp add: utf8_lossy.simps)

lemma utf8_valid_ascii: "list_all (\<lambda>b. b < 0x80) s \<Longrightarrow> utf8_valid s"
proof (induction s)
  case (Cons b s)
  then have "utf8_step (b # s) = (1, True)" by (simp add: utf8_step_def byte_at_def)
  with Cons show ?case by (simp add: utf8_valid.simps [of "b # s"])
qed simp

end
