(* ===== verification/Nat_Stun.thy ===== *)
theory Nat_Stun
  imports Rtp_Codec
begin

text \<open>
  \<^verbatim>\<open>src/nat/stun/attributes.rs\<close> and \<^verbatim>\<open>src/nat/stun/message.rs\<close>: the STUN attribute codec
  and the message codec. A \<^verbatim>\<open>String\<close> is the list of its bytes, a socket address its octets as
  a number and its port (the flow and scope fields of an IPv6 address are not carried on the
  wire). CRC-32 (\<open>crc32\<close>) and HMAC-SHA1 (\<open>hmac\<close>) of the third-party crates are parameters.
\<close>

section \<open>Constants\<close>

definition MAGIC_COOKIE :: u32 where "MAGIC_COOKIE = 0x2112A442"
definition HEADER_SIZE :: nat where "HEADER_SIZE = 20"
definition ATTR_MESSAGE_INTEGRITY :: u16 where "ATTR_MESSAGE_INTEGRITY = 0x0008"
definition ATTR_FINGERPRINT :: u16 where "ATTR_FINGERPRINT = 0x8028"
definition FINGERPRINT_XOR :: u32 where "FINGERPRINT_XOR = 0x5354554E"
definition BINDING_REQUEST :: u16 where "BINDING_REQUEST = 0x0001"
definition BINDING_SUCCESS :: u16 where "BINDING_SUCCESS = 0x0101"
definition BINDING_ERROR :: u16 where "BINDING_ERROR = 0x0111"
definition BINDING_INDICATION :: u16 where "BINDING_INDICATION = 0x0011"
definition ATTR_MAPPED_ADDRESS :: u16 where "ATTR_MAPPED_ADDRESS = 0x0001"
definition ATTR_CHANGE_REQUEST :: u16 where "ATTR_CHANGE_REQUEST = 0x0003"
definition ATTR_CHANGED_ADDRESS :: u16 where "ATTR_CHANGED_ADDRESS = 0x0005"
definition ATTR_ERROR_CODE :: u16 where "ATTR_ERROR_CODE = 0x0009"
definition ATTR_XOR_MAPPED_ADDRESS :: u16 where "ATTR_XOR_MAPPED_ADDRESS = 0x0020"
definition ATTR_SOFTWARE :: u16 where "ATTR_SOFTWARE = 0x8022"
definition ATTR_RESPONSE_ORIGIN :: u16 where "ATTR_RESPONSE_ORIGIN = 0x802B"
definition ATTR_OTHER_ADDRESS :: u16 where "ATTR_OTHER_ADDRESS = 0x802C"

lemmas attr_consts = ATTR_MAPPED_ADDRESS_def ATTR_CHANGE_REQUEST_def ATTR_CHANGED_ADDRESS_def
  ATTR_ERROR_CODE_def ATTR_XOR_MAPPED_ADDRESS_def ATTR_SOFTWARE_def ATTR_RESPONSE_ORIGIN_def
  ATTR_OTHER_ADDRESS_def ATTR_FINGERPRINT_def

section \<open>Attributes\<close>

datatype sock_addr = V4 u32 u16 | V6 u128 u16

datatype stun_attribute =
    MappedAddress sock_addr
  | XorMappedAddress sock_addr
  | ChangedAddress sock_addr
  | ChangeRequest bool bool
  | ResponseOrigin sock_addr
  | OtherAddress sock_addr
  | ErrorCode u16 bytes
  | Software bytes
  | Unknown u16 bytes

definition pad4 :: "nat \<Rightarrow> nat" where "pad4 n = (n + 3) div 4 * 4"

definition xor_octets :: "bytes \<Rightarrow> bytes \<Rightarrow> bytes" where
  "xor_octets a b = map2 (XOR) a b"

definition v6_octets :: "u128 \<Rightarrow> bytes" where "v6_octets a = be_bytes 16 (unat a)"

definition cookie_port :: u16 where "cookie_port = ucast (drop_bit 16 MAGIC_COOKIE)"

definition encode_address_attr :: "u16 \<Rightarrow> sock_addr \<Rightarrow> bool \<Rightarrow> bytes \<Rightarrow> bytes" where
  "encode_address_attr ty addr xr txn =
     (case addr of
        V4 ip port \<Rightarrow>
          be16 ty @ be16 8 @ [0, 1] @ be16 (if xr then port XOR cookie_port else port)
          @ (if xr then xor_octets (be32 ip) (be32 MAGIC_COOKIE) else be32 ip)
      | V6 ip port \<Rightarrow>
          be16 ty @ be16 20 @ [0, 2] @ be16 (if xr then port XOR cookie_port else port)
          @ (if xr then xor_octets (v6_octets ip) (be32 MAGIC_COOKIE @ txn) else v6_octets ip))"

definition decode_address :: "bytes \<Rightarrow> bool \<Rightarrow> bytes \<Rightarrow> sock_addr option" where
  "decode_address d xr txn =
     (if length d < 4 then None
      else
        (let port = (if xr then rd16 d 2 XOR cookie_port else rd16 d 2)
         in if d ! 1 = 1 then
              (if length d < 8 then None
               else Some (V4 (of_nat (be_nat (let o4 = take 4 (drop 4 d)
                      in if xr then xor_octets o4 (be32 MAGIC_COOKIE) else o4))) port))
            else if d ! 1 = 2 then
              (if length d < 20 then None
               else Some (V6 (of_nat (be_nat (let o16 = take 16 (drop 4 d)
                      in if xr then xor_octets o16 (be32 MAGIC_COOKIE @ txn) else o16))) port))
            else None))"

definition padded :: "u16 \<Rightarrow> bytes \<Rightarrow> bytes" where
  "padded ty v = be16 ty @ be16 (of_nat (length v)) @ v @ replicate (pad4 (length v) - length v) 0"

fun attr_encode :: "stun_attribute \<Rightarrow> bytes \<Rightarrow> bytes" where
  "attr_encode (MappedAddress a) txn = encode_address_attr ATTR_MAPPED_ADDRESS a False txn"
| "attr_encode (XorMappedAddress a) txn = encode_address_attr ATTR_XOR_MAPPED_ADDRESS a True txn"
| "attr_encode (ChangedAddress a) txn = encode_address_attr ATTR_CHANGED_ADDRESS a False txn"
| "attr_encode (ChangeRequest change_ip change_port) txn =
     be16 ATTR_CHANGE_REQUEST @ be16 4
     @ be32 ((if change_ip then 0x04 else 0) OR (if change_port then 0x02 else 0))"
| "attr_encode (ResponseOrigin a) txn = encode_address_attr ATTR_RESPONSE_ORIGIN a False txn"
| "attr_encode (OtherAddress a) txn = encode_address_attr ATTR_OTHER_ADDRESS a False txn"
| "attr_encode (ErrorCode code reason) txn =
     padded ATTR_ERROR_CODE ([0, 0, ucast (code div 100) AND 0x07, ucast (code mod 100)] @ reason)"
| "attr_encode (Software s) txn = padded ATTR_SOFTWARE s"
| "attr_encode (Unknown ty v) txn = padded ty v"

definition attr_decode :: "u16 \<Rightarrow> bytes \<Rightarrow> bytes \<Rightarrow> stun_attribute option" where
  "attr_decode ty d txn =
     (if ty = ATTR_MAPPED_ADDRESS then map_option MappedAddress (decode_address d False txn)
      else if ty = ATTR_XOR_MAPPED_ADDRESS then map_option XorMappedAddress (decode_address d True txn)
      else if ty = ATTR_CHANGED_ADDRESS then map_option ChangedAddress (decode_address d False txn)
      else if ty = ATTR_CHANGE_REQUEST then
        (if length d < 4 then None
         else Some (ChangeRequest (rd32 d 0 AND 0x04 \<noteq> 0) (rd32 d 0 AND 0x02 \<noteq> 0)))
      else if ty = ATTR_RESPONSE_ORIGIN then map_option ResponseOrigin (decode_address d False txn)
      else if ty = ATTR_OTHER_ADDRESS then map_option OtherAddress (decode_address d False txn)
      else if ty = ATTR_ERROR_CODE then
        (if length d < 4 then None
         else Some (ErrorCode (ucast (d ! 2 AND 0x07) * 100 + ucast (d ! 3)) (utf8_lossy (drop 4 d))))
      else if ty = ATTR_SOFTWARE then Some (Software (utf8_lossy d))
      else Some (Unknown ty d))"

section \<open>Messages\<close>

record stun_message =
  sm_msg_type :: u16
  sm_transaction_id :: bytes
  sm_attributes :: "stun_attribute list"

datatype stun_error = TooShort | InvalidHeader | InvalidMagicCookie | TruncatedAttribute
  | FingerprintMismatch | UnknownComprehensionRequired u16

definition new_binding_request :: "bytes \<Rightarrow> stun_message" where
  "new_binding_request random_id =
     \<lparr>sm_msg_type = BINDING_REQUEST, sm_transaction_id = random_id, sm_attributes = []\<rparr>"

definition new_binding_indication :: "bytes \<Rightarrow> stun_message" where
  "new_binding_indication random_id =
     \<lparr>sm_msg_type = BINDING_INDICATION, sm_transaction_id = random_id, sm_attributes = []\<rparr>"

definition is_stun :: "bytes \<Rightarrow> bool" where
  "is_stun d =
     (if length d < 20 then False
      else if d ! 0 AND 0xC0 \<noteq> 0 then False
      else if rd16 d 2 mod 4 \<noteq> 0 then False
      else if length d < 20 + unat (rd16 d 2) then False
      else rd32 d 4 = MAGIC_COOKIE)"

text \<open>The loop over the attributes: the attributes read and the FINGERPRINT, as its value and
  the offset of its header.\<close>

function parse_attrs ::
  "bytes \<Rightarrow> bytes \<Rightarrow> nat \<Rightarrow> nat \<Rightarrow> stun_attribute list \<Rightarrow> (u32 \<times> nat) option
   \<Rightarrow> (stun_error, stun_attribute list \<times> (u32 \<times> nat) option) outcome" where
  "parse_attrs d txn stop off acc fp =
     (if off + 4 \<le> stop then
        (let ty = rd16 d off; len = unat (rd16 d (off + 2)); next = off + 4 + pad4 len
         in if off + 4 + len > stop then Err TruncatedAttribute
            else if ty = ATTR_FINGERPRINT then
              parse_attrs d txn stop next acc (if len = 4 then Some (rd32 d (off + 4), off) else fp)
            else
              (case attr_decode ty (take len (drop (off + 4) d)) txn of
                 Some a \<Rightarrow> parse_attrs d txn stop next (acc @ [a]) fp
               | None \<Rightarrow> if ty < 0x8000 then Err (UnknownComprehensionRequired ty)
                         else parse_attrs d txn stop next acc fp))
      else Ok (acc, fp))"
  by pat_completeness auto
termination by (relation "measure (\<lambda>(d, txn, stop, off, acc, fp). Suc stop - off)") auto

declare parse_attrs.simps [simp del]

definition fingerprint_input :: "bytes \<Rightarrow> nat \<Rightarrow> bytes" where
  "fingerprint_input d fp_off =
     (let len_bytes = be16 (of_nat (fp_off - HEADER_SIZE + 8))
      in (take fp_off d)[2 := len_bytes ! 0, 3 := len_bytes ! 1])"

definition unmarshal :: "(bytes \<Rightarrow> u32) \<Rightarrow> bytes \<Rightarrow> (stun_error, stun_message) outcome" where
  "unmarshal crc32 d =
     (if length d < HEADER_SIZE then Err TooShort
      else if d ! 0 AND 0xC0 \<noteq> 0 then Err InvalidHeader
      else
        (let msg_len = unat (rd16 d 2)
         in if msg_len mod 4 \<noteq> 0 then Err InvalidHeader
            else if rd32 d 4 \<noteq> MAGIC_COOKIE then Err InvalidMagicCookie
            else
              (let txn = take 12 (drop 8 d)
               in if HEADER_SIZE + msg_len > length d then Err TooShort
                  else
                    res_bind (parse_attrs d txn (HEADER_SIZE + msg_len) HEADER_SIZE [] None) (\<lambda>(attrs, fp).
                      if (case fp of None \<Rightarrow> False
                          | Some (v, o') \<Rightarrow> crc32 (fingerprint_input d o') XOR FINGERPRINT_XOR \<noteq> v)
                      then Err FingerprintMismatch
                      else Ok \<lparr>sm_msg_type = rd16 d 0, sm_transaction_id = txn, sm_attributes = attrs\<rparr>))))"

definition stun_header :: "stun_message \<Rightarrow> nat \<Rightarrow> bytes" where
  "stun_header m len =
     be16 (sm_msg_type m) @ be16 (of_nat len) @ be32 MAGIC_COOKIE @ sm_transaction_id m"

definition attr_bytes :: "stun_message \<Rightarrow> bytes" where
  "attr_bytes m = concat (map (\<lambda>a. attr_encode a (sm_transaction_id m)) (sm_attributes m))"

definition fingerprint_tlv :: "(bytes \<Rightarrow> u32) \<Rightarrow> bytes \<Rightarrow> bytes" where
  "fingerprint_tlv crc32 buf = be16 ATTR_FINGERPRINT @ be16 4 @ be32 (crc32 buf XOR FINGERPRINT_XOR)"

definition marshal :: "(bytes \<Rightarrow> u32) \<Rightarrow> stun_message \<Rightarrow> bytes" where
  "marshal crc32 m =
     (let buf = stun_header m (length (attr_bytes m) + 8) @ attr_bytes m
      in buf @ fingerprint_tlv crc32 buf)"

definition marshal_with_integrity ::
  "(bytes \<Rightarrow> u32) \<Rightarrow> (bytes \<Rightarrow> bytes \<Rightarrow> bytes) \<Rightarrow> bytes \<Rightarrow> stun_message \<Rightarrow> bytes" where
  "marshal_with_integrity crc32 hmac key m =
     (let ab = attr_bytes m;
          mac = hmac key (stun_header m (length ab + 24) @ ab);
          buf = stun_header m (length ab + 24 + 8) @ ab @ be16 ATTR_MESSAGE_INTEGRITY @ be16 20 @ mac
      in buf @ fingerprint_tlv crc32 buf)"

definition add_attribute :: "stun_message \<Rightarrow> stun_attribute \<Rightarrow> stun_message" where
  "add_attribute m a = m\<lparr>sm_attributes := sm_attributes m @ [a]\<rparr>"

section \<open>Reading a message\<close>

fun first_some :: "('a \<Rightarrow> 'b option) \<Rightarrow> 'a list \<Rightarrow> 'b option" where
  "first_some f [] = None"
| "first_some f (x # xs) = (case f x of Some y \<Rightarrow> Some y | None \<Rightarrow> first_some f xs)"

definition xor_mapped_address :: "stun_message \<Rightarrow> sock_addr option" where
  "xor_mapped_address m =
     first_some (\<lambda>a. case a of XorMappedAddress x \<Rightarrow> Some x | _ \<Rightarrow> None) (sm_attributes m)"

definition mapped_address :: "stun_message \<Rightarrow> sock_addr option" where
  "mapped_address m =
     first_some (\<lambda>a. case a of MappedAddress x \<Rightarrow> Some x | _ \<Rightarrow> None) (sm_attributes m)"

definition reflexive_address :: "stun_message \<Rightarrow> sock_addr option" where
  "reflexive_address m =
     (case xor_mapped_address m of Some a \<Rightarrow> Some a | None \<Rightarrow> mapped_address m)"

definition changed_address :: "stun_message \<Rightarrow> sock_addr option" where
  "changed_address m =
     first_some (\<lambda>a. case a of ChangedAddress x \<Rightarrow> Some x | OtherAddress x \<Rightarrow> Some x | _ \<Rightarrow> None)
       (sm_attributes m)"

definition stun_error_code :: "stun_message \<Rightarrow> u16 option" where
  "stun_error_code m = first_some (\<lambda>a. case a of ErrorCode c _ \<Rightarrow> Some c | _ \<Rightarrow> None) (sm_attributes m)"

definition is_response_to :: "stun_message \<Rightarrow> bytes \<Rightarrow> bool" where
  "is_response_to m txn = (sm_transaction_id m = txn)"

definition is_success :: "stun_message \<Rightarrow> bool" where
  "is_success m = (sm_msg_type m AND 0x0110 = 0x0100)"
definition is_error :: "stun_message \<Rightarrow> bool" where
  "is_error m = (sm_msg_type m AND 0x0110 = 0x0110)"
definition is_request :: "stun_message \<Rightarrow> bool" where
  "is_request m = (sm_msg_type m AND 0x0110 = 0x0000)"
definition is_indication :: "stun_message \<Rightarrow> bool" where
  "is_indication m = (sm_msg_type m AND 0x0110 = 0x0010)"

end
