(* ===== verification/Nat_Stun_Props.thy ===== *)
theory Nat_Stun_Props
  imports Nat_Stun
begin

text \<open>
  The STUN codec is lossless: every well-formed message survives \<^verbatim>\<open>marshal\<close> followed by
  \<^verbatim>\<open>unmarshal\<close>, FINGERPRINT and MESSAGE-INTEGRITY included.
\<close>

section \<open>Octets\<close>

lemma length_v6_octets [simp]: "length (v6_octets a) = 16"
  by (simp add: v6_octets_def)

lemma be32_back: "of_nat (be_nat (be32 ip)) = ip"
  by (simp add: be_nat_be32)

lemma v6_back: "of_nat (be_nat (v6_octets ip)) = ip"
proof -
  have "unat ip < 2 ^ 128" using unsigned_less [of ip, where ?'a = nat] by simp
  then show ?thesis by (simp add: v6_octets_def be_nat_be_bytes)
qed

lemma length_xor_octets [simp]: "length (xor_octets a b) = min (length a) (length b)"
  by (simp add: xor_octets_def)

lemma xor_octets_involution: "length a = length b \<Longrightarrow> xor_octets (xor_octets a b) b = a"
  by (induction a b rule: list_induct2) (simp_all add: xor_octets_def xor.assoc)

lemma length_padded [simp]: "length (padded ty v) = 4 + pad4 (length v)"
proof -
  have "length v \<le> pad4 (length v)" unfolding pad4_def by linarith
  then show ?thesis by (simp add: padded_def)
qed

lemma pad4_dvd: "4 dvd pad4 n"
  by (simp add: pad4_def)

section \<open>Attributes\<close>

definition known_types :: "u16 list" where
  "known_types = [ATTR_MAPPED_ADDRESS, ATTR_XOR_MAPPED_ADDRESS, ATTR_CHANGED_ADDRESS,
     ATTR_CHANGE_REQUEST, ATTR_RESPONSE_ORIGIN, ATTR_OTHER_ADDRESS, ATTR_ERROR_CODE, ATTR_SOFTWARE,
     ATTR_FINGERPRINT]"

fun attr_wf :: "stun_attribute \<Rightarrow> bool" where
  "attr_wf (ErrorCode code reason) = (code < 800 \<and> utf8_valid reason \<and> length reason < 65532)"
| "attr_wf (Software s) = (utf8_valid s \<and> length s < 65536)"
| "attr_wf (Unknown ty v) = (ty \<notin> set known_types \<and> length v < 65536)"
| "attr_wf _ = True"

definition addr_value :: "sock_addr \<Rightarrow> bool \<Rightarrow> bytes \<Rightarrow> bytes" where
  "addr_value a xr txn = drop 4 (encode_address_attr 0 a xr txn)"

lemma encode_address_padded:
  "length txn = 12 \<Longrightarrow> encode_address_attr ty a xr txn = padded ty (addr_value a xr txn)"
  "length txn = 12 \<Longrightarrow> length (addr_value a xr txn) \<le> 20"
  by (cases a; simp add: encode_address_attr_def addr_value_def padded_def pad4_def)+

lemma decode_addr_value:
  assumes "length txn = 12"
  shows "decode_address (addr_value a xr txn) xr txn = Some a"
proof (cases a)
  case (V4 ip port)
  let ?p = "if xr then port XOR cookie_port else port"
  let ?o = "if xr then xor_octets (be32 ip) (be32 MAGIC_COOKIE) else be32 ip"
  have v: "addr_value a xr txn = [0, 1] @ be16 ?p @ ?o" by (simp add: V4 addr_value_def encode_address_attr_def)
  have lo: "length ?o = 4" by simp
  have p: "rd16 (addr_value a xr txn) 2 = ?p"
    unfolding v by (rule rd16_at) simp
  have o4: "take 4 (drop 4 (addr_value a xr txn)) = ?o" unfolding v using lo by simp
  have "(if xr then xor_octets ?o (be32 MAGIC_COOKIE) else ?o) = be32 ip"
    by (simp add: xor_octets_involution)
  then show ?thesis
    unfolding decode_address_def p o4 Let_def using v lo
    by (simp add: V4 be32_back xor.assoc)
next
  case (V6 ip port)
  let ?p = "if xr then port XOR cookie_port else port"
  let ?o = "if xr then xor_octets (v6_octets ip) (be32 MAGIC_COOKIE @ txn) else v6_octets ip"
  have v: "addr_value a xr txn = [0, 2] @ be16 ?p @ ?o" by (simp add: V6 addr_value_def encode_address_attr_def)
  have lo: "length ?o = 16" using assms by simp
  have p: "rd16 (addr_value a xr txn) 2 = ?p"
    unfolding v by (rule rd16_at) simp
  have o16: "take 16 (drop 4 (addr_value a xr txn)) = ?o" unfolding v using lo by simp
  have "(if xr then xor_octets ?o (be32 MAGIC_COOKIE @ txn) else ?o) = v6_octets ip"
    using assms by (simp add: xor_octets_involution)
  then show ?thesis
    unfolding decode_address_def p o16 Let_def using v lo
    by (simp add: V6 v6_back xor.assoc)
qed

lemma code_split:
  assumes "(code :: u16) < 800"
  shows "ucast ((ucast (code div 100) :: byte) AND 0x07) * 100 + ucast (ucast (code mod 100) :: byte) = code"
proof -
  have m: "(0x07 :: byte) = mask 3" by (simp add: mask_eq_exp_minus_1)
  have c: "unat code < 800" using assms by (simp add: word_less_nat_alt)
  have "unat (ucast (code div 100) :: byte) = unat code div 100"
    using c by (simp add: unsigned_ucast_eq take_bit_eq_mod unat_div)
  moreover have "unat (ucast (code mod 100) :: byte) = unat code mod 100"
    using c by (simp add: unsigned_ucast_eq take_bit_eq_mod unat_mod)
  moreover have small: "unat code div 100 < 8" "unat code mod 100 < 100" using c by auto
  ultimately have q: "ucast (code div 100) = (of_nat (unat code div 100) :: byte)"
    and r: "ucast (code mod 100) = (of_nat (unat code mod 100) :: byte)" by (simp_all add: word_unat_eq_iff unat_of_nat)
  have "(of_nat (unat code div 100) :: byte) < 2 ^ 3"
    using c by (simp add: word_less_nat_alt unat_of_nat)
  then have "(of_nat (unat code div 100) :: byte) AND mask 3 = of_nat (unat code div 100)"
    by (rule less_mask_eq)
  moreover have "ucast (of_nat (unat code div 100) :: byte) = (of_nat (unat code div 100) :: u16)"
    and "ucast (of_nat (unat code mod 100) :: byte) = (of_nat (unat code mod 100) :: u16)"
    using c by (simp_all add: word_unat_eq_iff unsigned_ucast_eq unat_of_nat take_bit_eq_mod)
  moreover have "(of_nat (unat code div 100) * 100 + of_nat (unat code mod 100) :: u16) = of_nat (unat code)"
  proof -
    have "(of_nat (unat code div 100 * 100 + unat code mod 100) :: u16) = of_nat (unat code)"
      by (simp only: div_mult_mod_eq)
    then show ?thesis by (simp only: of_nat_add of_nat_mult of_nat_numeral)
  qed
  ultimately show ?thesis unfolding q r m by simp
qed

lemma attr_decode_consts:
  "attr_decode ATTR_MAPPED_ADDRESS d txn = map_option MappedAddress (decode_address d False txn)"
  "attr_decode ATTR_XOR_MAPPED_ADDRESS d txn = map_option XorMappedAddress (decode_address d True txn)"
  "attr_decode ATTR_CHANGED_ADDRESS d txn = map_option ChangedAddress (decode_address d False txn)"
  "attr_decode ATTR_RESPONSE_ORIGIN d txn = map_option ResponseOrigin (decode_address d False txn)"
  "attr_decode ATTR_OTHER_ADDRESS d txn = map_option OtherAddress (decode_address d False txn)"
  "attr_decode ATTR_SOFTWARE d txn = Some (Software (utf8_lossy d))"
  by (simp_all add: attr_decode_def attr_consts)

lemma attr_not_fingerprint:
  "ATTR_MAPPED_ADDRESS \<noteq> ATTR_FINGERPRINT" "ATTR_XOR_MAPPED_ADDRESS \<noteq> ATTR_FINGERPRINT"
  "ATTR_CHANGED_ADDRESS \<noteq> ATTR_FINGERPRINT" "ATTR_RESPONSE_ORIGIN \<noteq> ATTR_FINGERPRINT"
  "ATTR_OTHER_ADDRESS \<noteq> ATTR_FINGERPRINT"
  by (simp_all add: attr_consts)

text \<open>Every well-formed attribute is a TLV that decodes to it.\<close>

lemma attr_tlv:
  assumes "attr_wf a" and "length txn = 12"
  shows "\<exists>ty v. attr_encode a txn = padded ty v \<and> length v < 65536 \<and> ty \<noteq> ATTR_FINGERPRINT
    \<and> attr_decode ty v txn = Some a"
proof -
  have addr: "\<exists>ty' v. encode_address_attr ty x xr txn = padded ty' v \<and> length v < 65536 \<and> ty' \<noteq> ATTR_FINGERPRINT
    \<and> attr_decode ty' v txn = Some a"
    if "ty \<noteq> ATTR_FINGERPRINT" "attr_decode ty (addr_value x xr txn) txn = Some a" for ty x xr
    using encode_address_padded(1) [OF assms(2), where ty = ty and a = x and xr = xr]
      encode_address_padded(2) [OF assms(2), where a = x and xr = xr] that
    by fastforce
  show ?thesis
  proof (cases a)
    case (ChangeRequest i p)
    let ?v = "be32 ((if i then 0x04 else 0) OR (if p then 0x02 else 0))"
    have rd: "rd32 ?v 0 = (if i then 0x04 else 0) OR (if p then 0x02 else 0)"
      using rd32_append [of "[]" "(if i then 0x04 else 0) OR (if p then 0x02 else 0)" "[]"] by simp
    have "attr_encode a txn = padded ATTR_CHANGE_REQUEST ?v" by (simp add: ChangeRequest padded_def pad4_def)
    moreover have "attr_decode ATTR_CHANGE_REQUEST ?v txn = Some a"
      by (simp add: attr_decode_def attr_consts rd ChangeRequest)
    moreover have "length ?v < 65536" "ATTR_CHANGE_REQUEST \<noteq> ATTR_FINGERPRINT" by (simp_all add: attr_consts)
    ultimately show ?thesis by blast
  next
    case (ErrorCode code reason)
    let ?v = "[0, 0, ucast (code div 100) AND 0x07, ucast (code mod 100)] @ reason"
    have "attr_decode ATTR_ERROR_CODE ?v txn = Some a"
      using assms(1) code_split [of code]
      by (simp add: attr_decode_def attr_consts ErrorCode utf8_lossy_valid)
    moreover have "length ?v < 65536" "ATTR_ERROR_CODE \<noteq> ATTR_FINGERPRINT"
      using assms(1) by (simp_all add: ErrorCode attr_consts)
    ultimately show ?thesis by (metis ErrorCode attr_encode.simps(7))
  next
    case (Software s)
    then show ?thesis using assms(1)
      by (intro exI [of _ ATTR_SOFTWARE] exI [of _ s]) (simp add: attr_decode_def utf8_lossy_valid attr_consts)
  next
    case (Unknown ty v)
    then show ?thesis using assms(1)
      by (intro exI [of _ ty] exI [of _ v]) (simp add: attr_decode_def known_types_def)
  qed (use addr attr_decode_consts decode_addr_value [OF assms(2)] attr_not_fingerprint in \<open>fastforce\<close>)+
qed


section \<open>The attribute loop\<close>

lemma parse_padded:
  assumes "length v < 65536" and "ty \<noteq> ATTR_FINGERPRINT" and "attr_decode ty v txn = Some a"
    and "length pre + 4 + pad4 (length v) \<le> stop"
  shows "parse_attrs (pre @ padded ty v @ post) txn stop (length pre) acc fp
    = parse_attrs (pre @ padded ty v @ post) txn stop (length (pre @ padded ty v)) (acc @ [a]) fp"
proof -
  let ?d = "pre @ padded ty v @ post"
  have ty: "rd16 ?d (length pre) = ty"
    unfolding padded_def by (simp add: rd16_at)
  have "rd16 ((pre @ be16 ty) @ be16 (of_nat (length v)) @ v @ replicate (pad4 (length v) - length v) 0 @ post)
      (length pre + 2) = of_nat (length v)"
    by (rule rd16_at) simp
  then have len: "unat (rd16 ?d (length pre + 2)) = length v"
    using assms(1) by (simp add: padded_def unat_of_nat)
  have val: "take (length v) (drop (length pre + 4) ?d) = v"
    by (simp add: padded_def)
  have pad: "length v \<le> pad4 (length v)" unfolding pad4_def by linarith
  show ?thesis
    apply (subst parse_attrs.simps)
    apply (simp only: Let_def ty len val)
    using assms(2,3,4) pad by (simp add: add.assoc)
qed

lemma parse_all:
  assumes "list_all attr_wf as" and "length txn = 12"
    and "length pre + length (concat (map (\<lambda>a. attr_encode a txn) as)) \<le> stop"
  shows "parse_attrs (pre @ concat (map (\<lambda>a. attr_encode a txn) as) @ post) txn stop (length pre) acc fp
    = parse_attrs (pre @ concat (map (\<lambda>a. attr_encode a txn) as) @ post) txn stop
        (length (pre @ concat (map (\<lambda>a. attr_encode a txn) as))) (acc @ as) fp"
  using assms
proof (induction as arbitrary: pre acc)
  case (Cons a as)
  obtain ty v where t: "attr_encode a txn = padded ty v" "length v < 65536" "ty \<noteq> ATTR_FINGERPRINT"
    "attr_decode ty v txn = Some a"
    using attr_tlv [of a txn] Cons.prems(1,2) by auto
  have le: "length pre + 4 + pad4 (length v) \<le> stop" using Cons.prems(3) t(1) by simp
  show ?case
    using parse_padded [OF t(2-4) le, of "concat (map (\<lambda>a. attr_encode a txn) as) @ post" acc fp]
      Cons.IH [of "pre @ padded ty v" "acc @ [a]"] Cons.prems t(1)
    by (simp add: add.assoc)
qed simp

section \<open>Messages\<close>

definition stun_wf :: "stun_message \<Rightarrow> bool" where
  "stun_wf m = (sm_msg_type m < 0x4000 \<and> length (sm_transaction_id m) = 12
     \<and> list_all attr_wf (sm_attributes m) \<and> length (attr_bytes m) < 65528)"

lemma attr_bytes_dvd:
  assumes "list_all attr_wf as" and "length txn = 12"
  shows "4 dvd length (concat (map (\<lambda>a. attr_encode a txn) as))"
  using assms
proof (induction as)
  case (Cons a as)
  obtain ty v where "attr_encode a txn = padded ty v"
    using attr_tlv [of a txn] Cons.prems by auto
  with Cons show ?case by (simp add: pad4_dvd)
qed simp

lemma top_bits_clear:
  assumes "(t :: u16) < 0x4000"
  shows "(of_nat (unat t div 256) :: byte) AND 0xC0 = 0"
proof -
  have "unat t div 256 < 64" using assms by (simp add: word_less_nat_alt)
  then have "(of_nat (unat t div 256) :: byte) < 2 ^ 6" by (simp add: word_less_nat_alt unat_of_nat)
  then have m: "(of_nat (unat t div 256) :: byte) AND mask 6 = of_nat (unat t div 256)" by (rule less_mask_eq)
  have "(mask 6 :: byte) AND 0xC0 = 0" by (simp add: mask_eq_exp_minus_1)
  then have "((of_nat (unat t div 256) :: byte) AND mask 6) AND 0xC0 = 0" by (simp only: and.assoc and_zero_eq)
  then show ?thesis unfolding m .
qed

lemma patch_length: "(a # b # c # d # xs)[2 := e, 3 := f] = a # b # e # f # xs"
  by (simp add: eval_nat_numeral)

lemma unmarshal_marshal:
  assumes "stun_wf m"
  shows "unmarshal crc32 (marshal crc32 m) = Ok m"
proof -
  let ?txn = "sm_transaction_id m" let ?n = "length (attr_bytes m)"
  let ?h = "stun_header m (?n + 8)" let ?buf = "?h @ attr_bytes m"
  let ?fp = "crc32 ?buf XOR FINGERPRINT_XOR"
  let ?tlv = "be16 ATTR_FINGERPRINT @ be16 4 @ be32 ?fp"
  let ?d = "?buf @ ?tlv"
  have wf: "sm_msg_type m < 0x4000" "length ?txn = 12" "list_all attr_wf (sm_attributes m)" "?n < 65528"
    using assms by (simp_all add: stun_wf_def)
  have d: "marshal crc32 m = ?d" by (simp add: marshal_def fingerprint_tlv_def Let_def)
  have lh: "length ?h = 20" using wf(2) by (simp add: stun_header_def)
  have hd: "?d = be16 (sm_msg_type m) @ be16 (of_nat (?n + 8)) @ be32 MAGIC_COOKIE @ ?txn @ attr_bytes m @ ?tlv"
    by (simp add: stun_header_def)
  have r0: "rd16 ?d 0 = sm_msg_type m" unfolding hd using rd16_at [of "[]"] by simp
  have r2: "rd16 ?d 2 = of_nat (?n + 8)" unfolding hd by (rule rd16_at) simp
  have r4: "rd32 ?d 4 = MAGIC_COOKIE"
    using rd32_at [of "be16 (sm_msg_type m) @ be16 (of_nat (?n + 8))" 4 MAGIC_COOKIE "?txn @ attr_bytes m @ ?tlv"]
    unfolding hd by simp
  have len: "unat (of_nat (?n + 8) :: u16) = ?n + 8" using wf(4) by (simp only: unat_of_nat) simp
  have top: "?d ! 0 AND 0xC0 = 0"
    unfolding hd using top_bits_clear [OF wf(1)] by (simp add: be16_list)
  have txn: "take 12 (drop 8 ?d) = ?txn" unfolding hd using wf(2) by simp
  have dv: "(?n + 8) mod 4 = 0"
    using attr_bytes_dvd [OF wf(3,2)] by (simp add: attr_bytes_def mod_eq_0_iff_dvd)
  have "parse_attrs ?d ?txn (20 + (?n + 8)) (length ?h) [] None
    = parse_attrs ?d ?txn (20 + (?n + 8)) (length ?buf) (sm_attributes m) None"
    using parse_all [OF wf(3,2), of ?h "20 + (?n + 8)" ?tlv "[]" None] lh by (simp add: attr_bytes_def)
  also have "\<dots> = Ok (sm_attributes m, Some (?fp, length ?buf))"
  proof -
    have f0: "rd16 ?d (length ?buf) = ATTR_FINGERPRINT" by (simp only: rd16_append append_assoc [symmetric, of ?h])
    have "rd16 ((?buf @ be16 ATTR_FINGERPRINT) @ be16 4 @ be32 ?fp) (length ?buf + 2) = 4"
      by (rule rd16_at) simp
    then have f2: "rd16 ?d (length ?buf + 2) = 4" by simp
    have "rd32 ((?buf @ be16 ATTR_FINGERPRINT @ be16 4) @ be32 ?fp @ []) (length ?buf + 4) = ?fp"
      by (rule rd32_at) simp
    then have f4: "rd32 ?d (length ?buf + 4) = ?fp" by simp
    show ?thesis
      apply (subst parse_attrs.simps)
      apply (simp only: Let_def f0 f2 f4)
      apply (subst parse_attrs.simps)
      by (simp add: lh pad4_def)
  qed
  finally have parse: "parse_attrs ?d ?txn (20 + (?n + 8)) 20 [] None = Ok (sm_attributes m, Some (?fp, length ?buf))"
    unfolding lh .
  have fi: "fingerprint_input ?d (length ?buf) = ?buf"
  proof -
    have "length ?buf - HEADER_SIZE + 8 = ?n + 8" using lh by (simp add: HEADER_SIZE_def)
    moreover have "take (length ?buf) ?d = ?buf" by simp
    moreover have "?buf[2 := be16 (of_nat (?n + 8)) ! 0, 3 := be16 (of_nat (?n + 8)) ! 1] = ?buf"
      unfolding stun_header_def be16_list by (simp add: patch_length)
    ultimately show ?thesis by (simp only: fingerprint_input_def Let_def)
  qed
  have big: "\<not> length ?d < 20" "\<not> 20 + (?n + 8) > length ?d" using lh by simp_all
  show ?thesis
    unfolding d unmarshal_def Let_def HEADER_SIZE_def r0 r2 r4 len txn
    using top dv big parse fi by simp
qed

text \<open>MESSAGE-INTEGRITY is one more attribute.\<close>

lemma integrity_is_attribute:
  assumes "length (hmac key (stun_header m (length (attr_bytes m) + 24) @ attr_bytes m)) = 20"
  shows "marshal_with_integrity crc32 hmac key m = marshal crc32 (add_attribute m
    (Unknown ATTR_MESSAGE_INTEGRITY (hmac key (stun_header m (length (attr_bytes m) + 24) @ attr_bytes m))))"
  using assms
  by (simp add: marshal_with_integrity_def marshal_def Let_def add_attribute_def attr_bytes_def
      stun_header_def padded_def pad4_def add.assoc)

lemma integrity_wf:
  assumes "stun_wf m" and "length (attr_bytes m) + 24 < 65528" and "length mac = 20"
  shows "stun_wf (add_attribute m (Unknown ATTR_MESSAGE_INTEGRITY mac))"
  using assms
  by (simp add: stun_wf_def add_attribute_def attr_bytes_def pad4_def known_types_def attr_consts
      ATTR_MESSAGE_INTEGRITY_def)

text \<open>C30: Every well-formed message survives the wire, and with MESSAGE-INTEGRITY it comes back with
  the HMAC of exactly the bytes that precede it as one more attribute, for any CRC-32 function and any MAC
  of twenty bytes.\<close>

theorem stun_roundtrip:
  assumes "stun_wf m" and "\<forall>k b. length (hmac k b) = 20"
    and "length (attr_bytes m) + 24 < 65528"
  shows "unmarshal crc32 (marshal crc32 m) = Ok m
    \<and> unmarshal crc32 (marshal_with_integrity crc32 hmac key m) = Ok (add_attribute m
       (Unknown ATTR_MESSAGE_INTEGRITY (hmac key (stun_header m (length (attr_bytes m) + 24) @ attr_bytes m))))"
proof -
  let ?mac = "hmac key (stun_header m (length (attr_bytes m) + 24) @ attr_bytes m)"
  have wf: "stun_wf (add_attribute m (Unknown ATTR_MESSAGE_INTEGRITY ?mac))"
    using integrity_wf [OF assms(1,3)] assms(2) by simp
  show ?thesis
    using unmarshal_marshal [OF assms(1)] unmarshal_marshal [OF wf] integrity_is_attribute assms(2) by metis
qed

definition stun_dec :: "(bytes \<Rightarrow> u32) \<Rightarrow> bytes \<Rightarrow> stun_message option" where
  "stun_dec crc32 d = (case unmarshal crc32 d of Ok m \<Rightarrow> Some m | _ \<Rightarrow> None)"

interpretation stun: wire_codec stun_wf "marshal crc32" "stun_dec crc32" for crc32
  by unfold_locales (simp add: stun_dec_def unmarshal_marshal)

end
