(* ===== verification/Nat_Demux.thy ===== *)
theory Nat_Demux
  imports Nat_Stun_Props
begin

text \<open>
  \<^verbatim>\<open>src/nat/turn/message.rs\<close> (TURN ChannelData framing), \<^verbatim>\<open>src/nat/demux.rs\<close> (telling RTP,
  RTCP, STUN and ChannelData apart on one socket) and the strategy choice of
  \<^verbatim>\<open>src/nat/types.rs\<close>.
\<close>

section \<open>ChannelData\<close>

definition CHANNEL_DATA_HEADER_SIZE :: nat where "CHANNEL_DATA_HEADER_SIZE = 4"
definition CHANNEL_MIN :: u16 where "CHANNEL_MIN = 0x4000"
definition CHANNEL_MAX :: u16 where "CHANNEL_MAX = 0x7FFE"

definition is_valid_channel :: "u16 \<Rightarrow> bool" where
  "is_valid_channel c = (CHANNEL_MIN \<le> c \<and> c \<le> CHANNEL_MAX)"

definition parse_channel_data :: "bytes \<Rightarrow> (u16 \<times> bytes) option" where
  "parse_channel_data d =
     (if length d < CHANNEL_DATA_HEADER_SIZE then None
      else if \<not> is_valid_channel (rd16 d 0) then None
      else
        (let len = unat (rd16 d 2)
         in if length d < CHANNEL_DATA_HEADER_SIZE + len then None
            else Some (rd16 d 0, take len (drop CHANNEL_DATA_HEADER_SIZE d))))"

definition build_channel_data :: "u16 \<Rightarrow> bytes \<Rightarrow> bytes" where
  "build_channel_data c pl =
     (let buf = be16 c @ be16 (of_nat (length pl)) @ pl
      in buf @ replicate (pad4 (length buf) - length buf) 0)"

section \<open>Demultiplexing\<close>

datatype demux_result = DRtp bytes | DRtcp bytes | DStun bytes | DTurnChannelData bytes
  | DTooShort | DUnknown bytes

definition demux_packet :: "bytes \<Rightarrow> demux_result" where
  "demux_packet d =
     (if length d < 4 then DTooShort
      else
        (let top = drop_bit 6 (d ! 0)
         in if top = 0 then
              (if length d \<ge> 8 \<and> rd32 d 4 = MAGIC_COOKIE then DStun d else DUnknown d)
            else if top = 1 then
              (if is_valid_channel (rd16 d 0) then DTurnChannelData d else DUnknown d)
            else
              (let b1 = d ! 1
               in if 200 \<le> b1 \<and> b1 \<le> 211 then
                    (let l = unat (rd16 d 2)
                     in if (l + 1) * 4 \<le> length d \<and> l > 0 then DRtcp d else DRtp d)
                  else DRtp d)))"

section \<open>NAT types and strategies\<close>

datatype nat_type = Open_Nat | FullCone | RestrictedCone | PortRestrictedCone | Symmetric | Unknown_Nat

datatype traversal_strategy = Direct | HolePunch | Relay

fun for_nat_type :: "nat_type \<Rightarrow> traversal_strategy" where
  "for_nat_type Open_Nat = Direct"
| "for_nat_type FullCone = Direct"
| "for_nat_type RestrictedCone = HolePunch"
| "for_nat_type PortRestrictedCone = HolePunch"
| "for_nat_type Symmetric = Relay"
| "for_nat_type Unknown_Nat = HolePunch"

section \<open>Properties\<close>

definition channel_wf :: "u16 \<times> bytes \<Rightarrow> bool" where
  "channel_wf x = (is_valid_channel (fst x) \<and> length (snd x) < 65536)"

lemma parse_build_channel:
  assumes "is_valid_channel c" and "length pl < 65536"
  shows "parse_channel_data (build_channel_data c pl @ post) = Some (c, pl)"
proof -
  let ?d = "build_channel_data c pl @ post"
  have l: "length (be16 c @ be16 (of_nat (length pl)) @ pl) = 4 + length pl" by simp
  have d: "?d = be16 c @ be16 (of_nat (length pl)) @ pl @ replicate (pad4 (4 + length pl) - (4 + length pl)) 0 @ post"
    by (simp only: build_channel_data_def Let_def l append_assoc)
  have r0: "rd16 ?d 0 = c" unfolding d using rd16_at [of "[]"] by simp
  have r2: "rd16 ?d 2 = of_nat (length pl)" unfolding d by (rule rd16_at) simp
  have len: "unat (of_nat (length pl) :: u16) = length pl" using assms(2) by (simp add: unat_of_nat)
  show ?thesis
    unfolding parse_channel_data_def Let_def r0 r2 len using assms(1)
    by (simp add: d CHANNEL_DATA_HEADER_SIZE_def)
qed

interpretation channel: wire_codec channel_wf "\<lambda>x. build_channel_data (fst x) (snd x)" parse_channel_data
  by unfold_locales (use parse_build_channel [where post = "[]"] in \<open>simp add: channel_wf_def\<close>)

lemma channel_top_bits:
  assumes "is_valid_channel c"
  shows "drop_bit 6 ((of_nat (unat c div 256)) :: byte) = 1"
proof -
  have c: "unat c div 256 div 64 = 1" "unat c div 256 < 128"
    using assms by (auto simp: is_valid_channel_def CHANNEL_MIN_def CHANNEL_MAX_def word_le_nat_alt)
  have "unat (drop_bit 6 ((of_nat (unat c div 256)) :: byte)) = unat c div 256 mod 256 div 64"
    by (simp add: drop_bit_eq_div unat_div unat_of_nat)
  also have "\<dots> = 1" using c by simp
  finally show ?thesis by (simp add: word_unat_eq_iff)
qed

lemma stun_top_bits:
  assumes "(t :: u16) < 0x4000"
  shows "drop_bit 6 ((of_nat (unat t div 256)) :: byte) = 0"
proof -
  have "unat t div 256 < 64" using assms by (simp add: word_less_nat_alt)
  then have "unat (drop_bit 6 ((of_nat (unat t div 256)) :: byte)) = 0"
    by (simp add: drop_bit_eq_div unat_div unat_of_nat)
  then show ?thesis by (simp add: word_unat_eq_iff)
qed

lemma demux_stun:
  assumes "stun_wf m"
  shows "demux_packet (marshal crc32 m) = DStun (marshal crc32 m)"
    and "is_stun (marshal crc32 m)"
proof -
  let ?n = "length (attr_bytes m)"
  let ?t = "fingerprint_tlv crc32 (stun_header m (?n + 8) @ attr_bytes m)"
  have wf: "sm_msg_type m < 0x4000" "length (sm_transaction_id m) = 12"
    "list_all attr_wf (sm_attributes m)" "?n < 65528"
    using assms by (simp_all add: stun_wf_def)
  have d: "marshal crc32 m = be16 (sm_msg_type m) @ be16 (of_nat (?n + 8)) @ be32 MAGIC_COOKIE
      @ sm_transaction_id m @ attr_bytes m @ ?t"
    by (simp add: marshal_def stun_header_def Let_def)
  have lt: "length ?t = 8" by (simp add: fingerprint_tlv_def)
  have r2: "rd16 (marshal crc32 m) 2 = of_nat (?n + 8)" unfolding d by (rule rd16_at) simp
  have r4: "rd32 (marshal crc32 m) 4 = MAGIC_COOKIE"
    using rd32_at [of "be16 (sm_msg_type m) @ be16 (of_nat (?n + 8))" 4 MAGIC_COOKIE
      "sm_transaction_id m @ attr_bytes m @ ?t"]
    unfolding d by simp
  have b0: "marshal crc32 m ! 0 = of_nat (unat (sm_msg_type m) div 256)"
    unfolding d by (simp add: be16_list)
  have len: "length (marshal crc32 m) = 28 + ?n" unfolding d using wf(2) lt by simp
  have u: "unat (of_nat (?n + 8) :: u16) = ?n + 8" using wf(4) by (simp only: unat_of_nat) simp
  have "4 dvd ?n + 8"
    using attr_bytes_dvd [OF wf(3,2)] by (simp add: attr_bytes_def)
  then have "unat (of_nat (?n + 8) mod 4 :: u16) = 0" by (simp only: unat_mod u) simp
  then have m4: "(of_nat (?n + 8) mod 4 :: u16) = 0" by (metis unat_eq_zero)
  show "demux_packet (marshal crc32 m) = DStun (marshal crc32 m)"
    unfolding demux_packet_def Let_def b0 r4 using stun_top_bits [OF wf(1)] by (simp add: len)
  show "is_stun (marshal crc32 m)"
    unfolding is_stun_def b0 r2 r4 u m4 len using top_bits_clear [OF wf(1)] by simp
qed

lemma demux_channel:
  assumes "is_valid_channel c"
  shows "demux_packet (build_channel_data c pl) = DTurnChannelData (build_channel_data c pl)"
proof -
  let ?d = "build_channel_data c pl"
  have l: "length (be16 c @ be16 (of_nat (length pl)) @ pl) = 4 + length pl" by simp
  have d: "?d = be16 c @ be16 (of_nat (length pl)) @ pl @ replicate (pad4 (4 + length pl) - (4 + length pl)) 0"
    by (simp only: build_channel_data_def Let_def l append_assoc)
  have r0: "rd16 ?d 0 = c" unfolding d using rd16_at [of "[]"] by simp
  have b0: "?d ! 0 = of_nat (unat c div 256)" unfolding d by (simp add: be16_list)
  have len: "\<not> length ?d < 4" unfolding d by simp
  show ?thesis
    unfolding demux_packet_def Let_def b0 r0 using channel_top_bits [OF assms] assms len by simp
qed

text \<open>ChannelData framed for a valid channel reads back as the same channel and payload, whatever
  follows it, and is recognised as ChannelData on the shared socket.\<close>

theorem channel_data_roundtrip:
  assumes "is_valid_channel c" and "length pl < 65536"
  shows "parse_channel_data (build_channel_data c pl @ post) = Some (c, pl)
    \<and> demux_packet (build_channel_data c pl) = DTurnChannelData (build_channel_data c pl)"
  using parse_build_channel [OF assms] demux_channel [OF assms(1)] by simp

text \<open>Every well-formed STUN message, plain or with integrity, is recognised as STUN on the shared
  socket, by the demultiplexer and by the STUN parser's own guard.\<close>

theorem stun_demuxed:
  assumes "stun_wf m" and "length (hmac key (stun_header m (length (attr_bytes m) + 24) @ attr_bytes m)) = 20"
    and "length (attr_bytes m) + 24 < 65528"
  shows "demux_packet (marshal crc32 m) = DStun (marshal crc32 m) \<and> is_stun (marshal crc32 m)
    \<and> demux_packet (marshal_with_integrity crc32 hmac key m) = DStun (marshal_with_integrity crc32 hmac key m)
    \<and> is_stun (marshal_with_integrity crc32 hmac key m)"
proof -
  let ?mac = "hmac key (stun_header m (length (attr_bytes m) + 24) @ attr_bytes m)"
  have wf: "stun_wf (add_attribute m (Unknown ATTR_MESSAGE_INTEGRITY ?mac))"
    using integrity_wf [OF assms(1,3)] assms(2) by simp
  show ?thesis
    using demux_stun [OF assms(1)] demux_stun [OF wf] integrity_is_attribute assms(2) by metis
qed

end
