(* ===== verification/Nat_Transaction.thy ===== *)
theory Nat_Transaction
  imports Nat_Stun
begin

text \<open>
  \<^verbatim>\<open>src/nat/stun/transaction.rs\<close>: the retransmission state machine of a STUN request. Times
  and durations are nanoseconds.
\<close>

definition MAX_RETRANSMITS :: nat where "MAX_RETRANSMITS = 7"
definition INITIAL_RTO :: nat where "INITIAL_RTO = 500000000"

datatype poll_result = Retransmit bytes | Wait | PollTimedOut | Complete

datatype txn_state = Waiting | Completed | TimedOut

record stun_transaction =
  tx_id :: bytes
  tx_request_bytes :: bytes
  tx_state :: txn_state
  tx_created_at :: nat
  tx_retransmit_at :: nat
  tx_retransmit_count :: nat
  tx_rto :: nat
  tx_response :: "stun_message option"

definition transaction_new :: "(bytes \<Rightarrow> u32) \<Rightarrow> stun_message \<Rightarrow> nat \<Rightarrow> stun_transaction" where
  "transaction_new crc32 request now =
     \<lparr>tx_id = sm_transaction_id request, tx_request_bytes = marshal crc32 request,
      tx_state = Waiting, tx_created_at = now, tx_retransmit_at = now + INITIAL_RTO,
      tx_retransmit_count = 0, tx_rto = INITIAL_RTO, tx_response = None\<rparr>"

definition receive_response :: "stun_transaction \<Rightarrow> stun_message \<Rightarrow> stun_transaction \<times> bool" where
  "receive_response t msg =
     (if tx_state t \<noteq> Waiting then (t, False)
      else if sm_transaction_id msg \<noteq> tx_id t then (t, False)
      else (t\<lparr>tx_state := Completed, tx_response := Some msg\<rparr>, True))"

definition txn_poll :: "stun_transaction \<Rightarrow> nat \<Rightarrow> stun_transaction \<times> poll_result" where
  "txn_poll t now =
     (case tx_state t of
        Completed \<Rightarrow> (t, Complete)
      | TimedOut \<Rightarrow> (t, PollTimedOut)
      | Waiting \<Rightarrow>
          if now < tx_retransmit_at t then (t, Wait)
          else if tx_retransmit_count t \<ge> MAX_RETRANSMITS
          then (t\<lparr>tx_state := TimedOut\<rparr>, PollTimedOut)
          else
            (let rto = tx_rto t * 2
             in (t\<lparr>tx_retransmit_count := tx_retransmit_count t + 1, tx_rto := rto,
                   tx_retransmit_at := now + rto\<rparr>,
                 Retransmit (tx_request_bytes t))))"

definition next_deadline :: "stun_transaction \<Rightarrow> nat option" where
  "next_deadline t = (if tx_state t = Waiting then Some (tx_retransmit_at t) else None)"

definition is_done :: "stun_transaction \<Rightarrow> bool" where "is_done t = (tx_state t \<noteq> Waiting)"
definition is_complete :: "stun_transaction \<Rightarrow> bool" where "is_complete t = (tx_state t = Completed)"
definition is_timed_out :: "stun_transaction \<Rightarrow> bool" where "is_timed_out t = (tx_state t = TimedOut)"

section \<open>Runs\<close>

text \<open>What happens to a transaction: the caller polls, or a message arrives.\<close>

datatype txn_event = Poll nat | Receive stun_message

fun txn_step :: "stun_transaction \<Rightarrow> txn_event \<Rightarrow> stun_transaction \<times> bytes list" where
  "txn_step t (Poll now) = (case txn_poll t now of
       (t', Retransmit b) \<Rightarrow> (t', [b]) | (t', _) \<Rightarrow> (t', []))"
| "txn_step t (Receive m) = (fst (receive_response t m), [])"

fun txn_run :: "stun_transaction \<Rightarrow> txn_event list \<Rightarrow> stun_transaction \<times> bytes list" where
  "txn_run t [] = (t, [])"
| "txn_run t (e # es) = (let (t1, bs) = txn_step t e; (t2, cs) = txn_run t1 es in (t2, bs @ cs))"

lemma txn_step_done: "tx_state t \<noteq> Waiting \<Longrightarrow> txn_step t e = (t, [])"
  by (cases e; cases "tx_state t") (auto simp: txn_poll_def receive_response_def)

lemma txn_run_done: "tx_state t \<noteq> Waiting \<Longrightarrow> txn_run t es = (t, [])"
  by (induction es) (auto simp: txn_step_done)

lemma txn_step_waiting:
  assumes "txn_step t e = (t', bs)" and "tx_state t = Waiting"
    and "tx_retransmit_count t \<le> MAX_RETRANSMITS"
  shows "tx_retransmit_count t' = tx_retransmit_count t + length bs"
    and "tx_retransmit_count t' \<le> MAX_RETRANSMITS" and "set bs \<subseteq> {tx_request_bytes t}"
    and "tx_request_bytes t' = tx_request_bytes t" and "tx_id t' = tx_id t"
    and "tx_state t' = Completed \<Longrightarrow> \<exists>m. e = Receive m \<and> sm_transaction_id m = tx_id t \<and> tx_response t' = Some m"
  using assms
  by (cases e; auto simp: txn_poll_def receive_response_def Let_def split: if_splits)+

lemma txn_run_bound:
  assumes "txn_run t es = (t', bs)" and "tx_retransmit_count t \<le> MAX_RETRANSMITS"
    and "tx_state t = Waiting"
  shows "tx_retransmit_count t + length bs \<le> MAX_RETRANSMITS \<and> set bs \<subseteq> {tx_request_bytes t}
    \<and> (tx_state t' = Completed \<longrightarrow> (\<exists>m. Receive m \<in> set es \<and> sm_transaction_id m = tx_id t \<and> tx_response t' = Some m))"
  using assms
proof (induction es arbitrary: t bs)
  case (Cons e es)
  obtain t1 bs1 bs2 where st: "txn_step t e = (t1, bs1)" "txn_run t1 es = (t', bs2)" "bs = bs1 @ bs2"
    using Cons.prems(1) by (auto split: prod.splits)
  note ts = txn_step_waiting [OF st(1) Cons.prems(3,2)]
  show ?case
  proof (cases "tx_state t1 = Waiting")
    case True
    with Cons.IH [OF st(2) ts(2) True] ts st(3) show ?thesis by auto
  next
    case False
    then have "txn_run t1 es = (t1, [])" by (rule txn_run_done)
    with st ts show ?thesis by auto
  qed
qed simp

text \<open>A transaction never sends more than seven retransmissions, each the original request, and
  completes only with a response that carries its transaction id, whatever is polled and received in
  any order.\<close>

theorem transaction_safe:
  "case txn_run (transaction_new crc32 req now) es of (t, bs) \<Rightarrow>
     length bs \<le> 7 \<and> set bs \<subseteq> {marshal crc32 req}
     \<and> (case tx_state t of
           Completed \<Rightarrow> (\<exists>m. tx_response t = Some m \<and> sm_transaction_id m = sm_transaction_id req
             \<and> Receive m \<in> set es)
         | _ \<Rightarrow> True)"
proof -
  obtain t bs where r: "txn_run (transaction_new crc32 req now) es = (t, bs)" by fastforce
  have init: "tx_retransmit_count (transaction_new crc32 req now) \<le> MAX_RETRANSMITS"
    "tx_state (transaction_new crc32 req now) = Waiting" by (simp_all add: transaction_new_def)
  show ?thesis
    unfolding r prod.case using txn_run_bound [OF r init]
    by (auto simp: transaction_new_def MAX_RETRANSMITS_def split: txn_state.split)
qed

section \<open>Timing\<close>

text \<open>The caller wakes up at every deadline and no response comes.\<close>

primrec unanswered :: "nat \<Rightarrow> stun_transaction \<Rightarrow> stun_transaction" where
  "unanswered 0 t = t"
| "unanswered (Suc n) t = (let t' = unanswered n t in
     case next_deadline t' of None \<Rightarrow> t' | Some d \<Rightarrow> fst (txn_poll t' d))"

lemma unanswered_state:
  "n \<le> 7 \<Longrightarrow> tx_state (unanswered n (transaction_new crc32 req now)) = Waiting
    \<and> tx_retransmit_count (unanswered n (transaction_new crc32 req now)) = n
    \<and> tx_rto (unanswered n (transaction_new crc32 req now)) = INITIAL_RTO * 2 ^ n
    \<and> tx_retransmit_at (unanswered n (transaction_new crc32 req now)) + INITIAL_RTO
        = now + INITIAL_RTO * 2 ^ Suc n"
proof (induction n)
  case (Suc n)
  then show ?case
    by (simp add: next_deadline_def txn_poll_def MAX_RETRANSMITS_def Let_def)
qed (simp add: transaction_new_def)

text \<open>An unanswered transaction retransmits 0.5, 1.5, 3.5, ... 63.5 seconds after it started and gives up
  after 127.5 seconds (the file's header says 39.5).\<close>

theorem transaction_timing:
  "list_all (\<lambda>n. next_deadline (unanswered n (transaction_new crc32 req now))
     = Some (now + 500000000 * (2 ^ Suc n - 1))) [0..<8]
   \<and> is_timed_out (unanswered 8 (transaction_new crc32 req now))
   \<and> tx_retransmit_at (unanswered 8 (transaction_new crc32 req now)) = now + 127500000000"
proof -
  have "next_deadline (unanswered n (transaction_new crc32 req now))
     = Some (now + 500000000 * (2 ^ Suc n - 1))" if "n \<le> 7" for n
    using unanswered_state [OF that, of crc32 req now]
    by (simp add: next_deadline_def INITIAL_RTO_def diff_mult_distrib2) linarith
  moreover have "is_timed_out (unanswered 8 (transaction_new crc32 req now))
    \<and> tx_retransmit_at (unanswered 8 (transaction_new crc32 req now)) = now + 127500000000"
  proof -
    have "(8 :: nat) = Suc 7" by simp
    then show ?thesis
      using unanswered_state [of 7 crc32 req now]
      by (simp only: unanswered.simps Let_def)
        (simp add: next_deadline_def txn_poll_def MAX_RETRANSMITS_def is_timed_out_def INITIAL_RTO_def)
  qed
  ultimately show ?thesis by (simp add: list_all_iff)
qed

end
