(* ===== verification/Nat_Witness.thy ===== *)
theory Nat_Witness
  imports Nat_Demux Nat_Transaction
begin

text \<open>Closed instances of the STUN and demultiplexer properties, on a binding response with a
  reflexive address and an error response.\<close>

definition demo_stun :: stun_message where
  "demo_stun = \<lparr>sm_msg_type = BINDING_ERROR, sm_transaction_id = replicate 12 7,
     sm_attributes = [XorMappedAddress (V4 0xC0000201 40000), ErrorCode 438 [83, 116]]\<rparr>"

definition demo_hmac :: "bytes \<Rightarrow> bytes \<Rightarrow> bytes" where
  "demo_hmac k b = replicate 20 (last k + of_nat (length b))"

lemma demo_hmac_length: "length (demo_hmac k b) = 20"
  by (simp add: demo_hmac_def)

lemma demo_attrs_length: "length (attr_bytes demo_stun) = 24"
  by (simp add: attr_bytes_def demo_stun_def encode_address_attr_def padded_def pad4_def xor_octets_def)

lemma demo_reason: "utf8_valid [83, 116]"
  by (simp add: utf8_valid.simps utf8_step_def byte_at_def Let_def)

lemma demo_stun_wf: "stun_wf demo_stun"
  using demo_attrs_length demo_reason
  by (simp add: stun_wf_def demo_stun_def BINDING_ERROR_def word_less_nat_alt)

theorem stun_roundtrip_witness:
  "unmarshal (\<lambda>b. of_nat (length b)) (marshal (\<lambda>b. of_nat (length b)) demo_stun) = Ok demo_stun"
proof -
  have "\<forall>k b. length (demo_hmac k b) = 20" by (simp add: demo_hmac_length)
  moreover have "length (attr_bytes demo_stun) + 24 < 65528" by (simp add: demo_attrs_length)
  ultimately show ?thesis
    using stun_roundtrip [OF demo_stun_wf, of demo_hmac "\<lambda>b. of_nat (length b)" "[1]"] by blast
qed

theorem stun_demuxed_witness:
  "demux_packet (marshal_with_integrity (\<lambda>b. 9) demo_hmac [1, 2] demo_stun)
     = DStun (marshal_with_integrity (\<lambda>b. 9) demo_hmac [1, 2] demo_stun)"
  using stun_demuxed [of demo_stun demo_hmac "[1, 2]" "\<lambda>b. 9"] demo_stun_wf demo_hmac_length demo_attrs_length
  by simp

theorem channel_data_roundtrip_witness:
  "parse_channel_data (build_channel_data 0x4001 [1, 2, 3] @ [9]) = Some (0x4001, [1, 2, 3])"
proof -
  have "is_valid_channel 0x4001" by (simp add: is_valid_channel_def CHANNEL_MIN_def CHANNEL_MAX_def)
  then show ?thesis using channel_data_roundtrip [where c = "0x4001" and pl = "[1, 2, 3]" and post = "[9]"] by simp
qed

end
