(* ===== verification/Session_Manager.thy ===== *)
theory Session_Manager
  imports Rtp_Prelude
begin

text \<open>
  \<^verbatim>\<open>src/session/state.rs\<close>, \<^verbatim>\<open>src/session/events.rs\<close> and \<^verbatim>\<open>src/session/manager.rs\<close>: the
  call states and the validator of their transitions, call timing, call events, and the
  manager of the sessions. The concurrent map of the manager is a finite map, its event channel the
  list of the events sent, an RTP engine a number, and stopping one an entry in the list of the
  engines stopped. Instants are nanoseconds.
\<close>

section \<open>Call states\<close>

datatype call_state = Initializing | Trying | Calling | Ringing | EarlyMedia | Answered | Active
  | Hold | Terminating | Terminated | Ended | Failed

definition is_terminal :: "call_state \<Rightarrow> bool" where
  "is_terminal s = (s \<in> {Terminated, Failed, Ended})"

definition can_media :: "call_state \<Rightarrow> bool" where
  "can_media s = (s \<in> {Active, Answered, EarlyMedia, Hold})"

fun state_as_str :: "call_state \<Rightarrow> string" where
  "state_as_str Initializing = ''initializing''"
| "state_as_str Trying = ''trying''"
| "state_as_str Calling = ''calling''"
| "state_as_str Ringing = ''ringing''"
| "state_as_str EarlyMedia = ''early_media''"
| "state_as_str Answered = ''answered''"
| "state_as_str Active = ''active''"
| "state_as_str Hold = ''hold''"
| "state_as_str Terminating = ''terminating''"
| "state_as_str Terminated = ''terminated''"
| "state_as_str Ended = ''ended''"
| "state_as_str Failed = ''failed''"

fun can_transition :: "call_state \<Rightarrow> call_state \<Rightarrow> bool" where
  "can_transition Initializing t = (t \<in> {Calling, Trying, Ringing, Failed, Ended})"
| "can_transition Calling t = (t \<in> {Ringing, EarlyMedia, Answered, Failed, Terminating, Terminated, Ended})"
| "can_transition Trying t = (t \<in> {Ringing, EarlyMedia, Answered, Active, Failed, Terminating, Terminated, Ended})"
| "can_transition Ringing t = (t \<in> {EarlyMedia, Answered, Active, Failed, Terminating, Terminated, Ended})"
| "can_transition EarlyMedia t = (t \<in> {Ringing, Answered, Active, Failed, Terminating, Terminated, Ended})"
| "can_transition Answered t = (t \<in> {Active, Failed, Terminating, Terminated, Ended})"
| "can_transition Active t = (t \<in> {Hold, Terminating, Terminated, Ended, Failed})"
| "can_transition Hold t = (t \<in> {Active, Terminating, Terminated, Ended, Failed})"
| "can_transition Terminating t = (t \<in> {Terminated, Ended, Failed})"
| "can_transition Failed t = (t \<in> {Terminated, Ended})"
| "can_transition Terminated t = False"
| "can_transition Ended t = False"

datatype call_direction = Outbound | Inbound

record call_timing =
  ct_created_at :: nat
  ct_ringing_at :: "nat option"
  ct_answered_at :: "nat option"
  ct_ended_at :: "nat option"

definition timing_default :: "nat \<Rightarrow> call_timing" where
  "timing_default now = \<lparr>ct_created_at = now, ct_ringing_at = None, ct_answered_at = None,
     ct_ended_at = None\<rparr>"

definition millis :: "nat \<Rightarrow> nat \<Rightarrow> u64" where
  "millis later earlier = of_nat ((later - earlier) div 1000000)"

definition setup_time_ms :: "call_timing \<Rightarrow> u64 option" where
  "setup_time_ms t = map_option (\<lambda>a. millis a (ct_created_at t)) (ct_answered_at t)"

definition duration_ms :: "call_timing \<Rightarrow> u64 option" where
  "duration_ms t = (case (ct_answered_at t, ct_ended_at t) of
     (Some a, Some e) \<Rightarrow> Some (millis e a) | _ \<Rightarrow> None)"

definition ring_time_ms :: "call_timing \<Rightarrow> u64 option" where
  "ring_time_ms t = (case (ct_ringing_at t, ct_answered_at t) of
     (Some r, Some a) \<Rightarrow> Some (millis a r) | _ \<Rightarrow> None)"

section \<open>Call events\<close>

datatype call_event =
    EvIncoming string string string string
  | EvCalling string string string string
  | EvRinging string
  | EvAnswered string
  | EvMediaReady string
  | EvStateChanged string string string
  | EvEnded string string "u64 option"
  | EvFailed string string
  | EvDtmfReceived string char
  | EvAudioReceived string nat u32
  | EvTransferInitiated string string
  | EvTransferProgress string u16 bool
  | EvMediaTimeout string
  | EvCancelled string
  | EvReInvite string "string option"

fun event_call_id :: "call_event \<Rightarrow> string" where
  "event_call_id (EvIncoming c _ _ _) = c" | "event_call_id (EvCalling c _ _ _) = c"
| "event_call_id (EvRinging c) = c" | "event_call_id (EvAnswered c) = c"
| "event_call_id (EvMediaReady c) = c" | "event_call_id (EvStateChanged c _ _) = c"
| "event_call_id (EvEnded c _ _) = c" | "event_call_id (EvFailed c _) = c"
| "event_call_id (EvDtmfReceived c _) = c" | "event_call_id (EvAudioReceived c _ _) = c"
| "event_call_id (EvTransferInitiated c _) = c" | "event_call_id (EvTransferProgress c _ _) = c"
| "event_call_id (EvMediaTimeout c) = c" | "event_call_id (EvCancelled c) = c"
| "event_call_id (EvReInvite c _) = c"

fun event_type :: "call_event \<Rightarrow> string" where
  "event_type (EvIncoming _ _ _ _) = ''incoming''" | "event_type (EvCalling _ _ _ _) = ''calling''"
| "event_type (EvRinging _) = ''ringing''" | "event_type (EvAnswered _) = ''answered''"
| "event_type (EvMediaReady _) = ''media_ready''" | "event_type (EvStateChanged _ _ _) = ''state_changed''"
| "event_type (EvEnded _ _ _) = ''ended''" | "event_type (EvFailed _ _) = ''failed''"
| "event_type (EvDtmfReceived _ _) = ''dtmf_received''"
| "event_type (EvAudioReceived _ _ _) = ''audio_received''"
| "event_type (EvTransferInitiated _ _) = ''transfer_initiated''"
| "event_type (EvTransferProgress _ _ _) = ''transfer_progress''"
| "event_type (EvMediaTimeout _) = ''media_timeout''" | "event_type (EvCancelled _) = ''cancelled''"
| "event_type (EvReInvite _ _) = ''reinvite''"

definition state_changed :: "string \<Rightarrow> call_state \<Rightarrow> call_state \<Rightarrow> call_event" where
  "state_changed call_id old new = EvStateChanged call_id (state_as_str old) (state_as_str new)"

section \<open>Sessions\<close>

record call_session =
  cs_call_id :: string
  cs_state :: call_state
  cs_direction :: call_direction
  cs_provider_id :: string
  cs_rtp_engine :: "nat option"
  cs_remote_party :: string
  cs_local_party :: string
  cs_timing :: call_timing
  cs_local_sdp :: "string option"
  cs_remote_sdp :: "string option"

definition new_outbound :: "nat \<Rightarrow> string \<Rightarrow> string \<Rightarrow> string \<Rightarrow> string \<Rightarrow> call_session" where
  "new_outbound now call_id to from provider_id =
     \<lparr>cs_call_id = call_id, cs_state = Initializing, cs_direction = Outbound,
      cs_provider_id = provider_id, cs_rtp_engine = None, cs_remote_party = to,
      cs_local_party = from, cs_timing = timing_default now, cs_local_sdp = None, cs_remote_sdp = None\<rparr>"

definition new_inbound :: "nat \<Rightarrow> string \<Rightarrow> string \<Rightarrow> string \<Rightarrow> string \<Rightarrow> call_session" where
  "new_inbound now call_id from to provider_id =
     \<lparr>cs_call_id = call_id, cs_state = Ringing, cs_direction = Inbound,
      cs_provider_id = provider_id, cs_rtp_engine = None, cs_remote_party = from,
      cs_local_party = to, cs_timing = timing_default now, cs_local_sdp = None, cs_remote_sdp = None\<rparr>"

definition set_rtp_engine :: "nat \<Rightarrow> call_session \<Rightarrow> call_session" where
  "set_rtp_engine engine s = s\<lparr>cs_rtp_engine := Some engine\<rparr>"

definition set_state :: "nat \<Rightarrow> call_state \<Rightarrow> call_session \<Rightarrow> call_session" where
  "set_state now st s =
     (let t = cs_timing s;
          t' = (if st = Ringing then t\<lparr>ct_ringing_at := Some now\<rparr>
                else if st = Answered \<or> st = Active
                then (if ct_answered_at t = None then t\<lparr>ct_answered_at := Some now\<rparr> else t)
                else if is_terminal st then t\<lparr>ct_ended_at := Some now\<rparr>
                else t)
      in s\<lparr>cs_timing := t', cs_state := st\<rparr>)"

section \<open>The session manager\<close>

record session_manager =
  sn_sessions :: "string \<rightharpoonup> call_session"
  sn_events :: "call_event list"
  sn_stopped :: "nat list"

definition manager_new :: session_manager where
  "manager_new = \<lparr>sn_sessions = Map.empty, sn_events = [], sn_stopped = []\<rparr>"

definition stop_engine :: "nat option \<Rightarrow> session_manager \<Rightarrow> session_manager" where
  "stop_engine e m = (case e of None \<Rightarrow> m | Some n \<Rightarrow> m\<lparr>sn_stopped := sn_stopped m @ [n]\<rparr>)"

definition add_session :: "call_session \<Rightarrow> session_manager \<Rightarrow> session_manager" where
  "add_session s m =
     (let rtp_to_stop = (case sn_sessions m (cs_call_id s) of None \<Rightarrow> None | Some old \<Rightarrow> cs_rtp_engine old);
          m1 = stop_engine rtp_to_stop m
      in m1\<lparr>sn_sessions := (sn_sessions m1)(cs_call_id s \<mapsto> s)\<rparr>)"

definition active_call_count :: "session_manager \<Rightarrow> nat" where
  "active_call_count m = card (dom (sn_sessions m))"

definition get_session :: "string \<Rightarrow> session_manager \<Rightarrow> call_session option" where
  "get_session call_id m = sn_sessions m call_id"

definition remove_session :: "string \<Rightarrow> session_manager \<Rightarrow> session_manager \<times> call_session option" where
  "remove_session call_id m =
     (case sn_sessions m call_id of
        None \<Rightarrow> (m, None)
      | Some s \<Rightarrow> (stop_engine (cs_rtp_engine s) (m\<lparr>sn_sessions := (sn_sessions m)(call_id := None)\<rparr>), Some s))"

definition emit :: "call_event \<Rightarrow> session_manager \<Rightarrow> session_manager" where
  "emit e m = m\<lparr>sn_events := sn_events m @ [e]\<rparr>"

definition update_state :: "nat \<Rightarrow> string \<Rightarrow> call_state \<Rightarrow> session_manager \<Rightarrow> session_manager" where
  "update_state now call_id new_state m =
     (case get_session call_id m of
        None \<Rightarrow> m
      | Some s \<Rightarrow>
          if \<not> can_transition (cs_state s) new_state then m
          else emit (state_changed call_id (cs_state s) new_state)
                 (m\<lparr>sn_sessions := (sn_sessions m)(call_id \<mapsto> set_state now new_state s)\<rparr>))"

section \<open>The life of a call\<close>

text \<open>The transitions a call may make, as a relation, and the paths of states it allows.\<close>

inductive call_path :: "call_state \<Rightarrow> call_state list \<Rightarrow> call_state \<Rightarrow> bool" where
  path_refl: "call_path s [] s"
| path_step: "call_path s ss t \<Longrightarrow> can_transition t u \<Longrightarrow> call_path s (ss @ [u]) u"

inductive_cases call_pathE: "call_path s ss t"

definition closed :: "call_state \<Rightarrow> bool" where
  "closed s = (s = Terminated \<or> s = Ended)"

lemma closed_final: "closed s \<Longrightarrow> \<not> can_transition s t"
  by (auto simp: closed_def)

lemma path_from_closed: "call_path s ss t \<Longrightarrow> closed s \<Longrightarrow> ss = [] \<and> t = s"
  by (induction rule: call_path.induct) (auto simp: closed_final)

text \<open>The rank of a state never decreases but between the states of ringing and of an active
  call, so a call cannot go back from being answered to being set up.\<close>

fun rank :: "call_state \<Rightarrow> nat" where
  "rank Initializing = 0" | "rank Calling = 1" | "rank Trying = 1" | "rank Ringing = 2"
| "rank EarlyMedia = 2" | "rank Answered = 3" | "rank Active = 4" | "rank Hold = 4"
| "rank Terminating = 5" | "rank Failed = 6" | "rank Terminated = 7" | "rank Ended = 7"

lemma transition_rank: "can_transition s t \<Longrightarrow> rank s \<le> rank t \<and> s \<noteq> t"
  by (cases s) auto

lemma path_rank: "call_path s ss t \<Longrightarrow> rank s \<le> rank t"
  by (induction rule: call_path.induct) (auto dest: transition_rank)

section \<open>Runs of the manager\<close>

datatype manager_op = Add call_session | Remove string | Update nat string call_state

fun manager_step :: "session_manager \<Rightarrow> manager_op \<Rightarrow> session_manager" where
  "manager_step m (Add s) = add_session s m"
| "manager_step m (Remove c) = fst (remove_session c m)"
| "manager_step m (Update now c st) = update_state now c st m"

abbreviation manager_run :: "session_manager \<Rightarrow> manager_op list \<Rightarrow> session_manager" where
  "manager_run \<equiv> foldl manager_step"

text \<open>The states a call reports.\<close>

fun changes_of :: "string \<Rightarrow> call_event list \<Rightarrow> (string \<times> string) list" where
  "changes_of c [] = []"
| "changes_of c (EvStateChanged c' old new # es) =
     (if c' = c then (old, new) # changes_of c es else changes_of c es)"
| "changes_of c (e # es) = changes_of c es"

lemma changes_of_append [simp]: "changes_of c (xs @ ys) = changes_of c xs @ changes_of c ys"
  by (induction c xs rule: changes_of.induct) auto

lemma update_state_effect:
  assumes "get_session c m = Some s"
  shows "\<exists>s'. get_session c (update_state now c st m) = Some s'
    \<and> (if can_transition (cs_state s) st
       then cs_state s' = st \<and> changes_of c (sn_events (update_state now c st m))
          = changes_of c (sn_events m) @ [(state_as_str (cs_state s), state_as_str st)]
       else s' = s \<and> sn_events (update_state now c st m) = sn_events m)"
  using assms
  by (simp add: update_state_def get_session_def emit_def set_state_def state_changed_def Let_def)

lemma update_state_other:
  "c' \<noteq> c \<Longrightarrow> get_session c (update_state now c' st m) = get_session c m
    \<and> changes_of c (sn_events (update_state now c' st m)) = changes_of c (sn_events m)"
  by (auto simp: update_state_def get_session_def emit_def state_changed_def split: option.split)

text \<open>The pairs that a path reports.\<close>

fun steps_from :: "call_state \<Rightarrow> call_state list \<Rightarrow> (string \<times> string) list" where
  "steps_from s [] = []"
| "steps_from s (t # ts) = (state_as_str s, state_as_str t) # steps_from t ts"

lemma steps_from_snoc:
  "steps_from s (ts @ [u]) = steps_from s ts @ [(state_as_str (last (s # ts)), state_as_str u)]"
  by (induction ts arbitrary: s) auto

lemma path_last: "call_path s ss t \<Longrightarrow> last (s # ss) = t"
  by (induction rule: call_path.induct) auto

definition only_updates :: "string \<Rightarrow> manager_op list \<Rightarrow> bool" where
  "only_updates c ops = list_all (\<lambda>op. case op of Add s \<Rightarrow> cs_call_id s \<noteq> c
     | Remove c' \<Rightarrow> c' \<noteq> c | Update _ _ _ \<Rightarrow> True) ops"

lemma run_path:
  assumes "get_session c m = Some s" and "only_updates c ops"
  shows "\<exists>s' ss. get_session c (manager_run m ops) = Some s' \<and> call_path (cs_state s) ss (cs_state s')
    \<and> changes_of c (sn_events (manager_run m ops))
      = changes_of c (sn_events m) @ steps_from (cs_state s) ss"
  using assms(2)
proof (induction ops rule: rev_induct)
  case Nil
  show ?case using assms(1) by (auto intro: path_refl exI [of _ "[]"])
next
  case (snoc op ops)
  let ?m = "manager_run m ops"
  obtain s' ss where s': "get_session c ?m = Some s'" "call_path (cs_state s) ss (cs_state s')"
    "changes_of c (sn_events ?m) = changes_of c (sn_events m) @ steps_from (cs_state s) ss"
    using snoc by (auto simp: only_updates_def)
  have same: "get_session c (manager_step ?m op) = Some s' \<and> sn_events (manager_step ?m op) = sn_events ?m"
    if "\<forall>now c' st. op \<noteq> Update now c' st"
    using that snoc.prems s'(1)
    by (cases op) (auto simp: only_updates_def add_session_def remove_session_def stop_engine_def
        get_session_def Let_def split: option.splits)
  show ?case
  proof (cases "\<exists>now st. op = Update now c st")
    case True
    then obtain now st where op: "op = Update now c st" by auto
    note ue = update_state_effect [OF s'(1), of now st]
    show ?thesis
    proof (cases "can_transition (cs_state s') st")
      case True
      have "call_path (cs_state s) (ss @ [st]) st" using s'(2) True by (rule path_step)
      moreover have "steps_from (cs_state s) (ss @ [st])
          = steps_from (cs_state s) ss @ [(state_as_str (cs_state s'), state_as_str st)]"
        using path_last [OF s'(2)] by (simp only: steps_from_snoc)
      moreover have "steps_from (cs_state s) ss @ [(state_as_str (cs_state s'), state_as_str st)]
          = steps_from (cs_state s) (ss @ [st])" by (simp only: calculation(2))
      ultimately show ?thesis using ue True s'(3) op by (auto intro!: exI [of _ "ss @ [st]"])
    next
      case False
      with ue s' op show ?thesis by auto
    qed
  next
    case False
    then consider "\<forall>now c' st. op \<noteq> Update now c' st" | now c' st where "op = Update now c' st" "c' \<noteq> c" by blast
    then show ?thesis
    proof cases
      case 1
      with same s' show ?thesis by auto
    next
      case 2
      with update_state_other [of c' c now st ?m] s' show ?thesis by auto
    qed
  qed
qed

text \<open>C32: A call follows the state machine: over any operations on a manager that neither replace nor
  remove the call, its state moves along a path of allowed transitions, its rank never
  decreases, the reported changes are exactly the steps of that path, and once terminated or
  ended it stays so.\<close>

theorem call_follows_state_machine:
  assumes "get_session c m = Some s" and "only_updates c ops"
  shows "\<exists>s' ss. get_session c (manager_run m ops) = Some s' \<and> call_path (cs_state s) ss (cs_state s')
    \<and> rank (cs_state s) \<le> rank (cs_state s')
    \<and> changes_of c (sn_events (manager_run m ops))
      = changes_of c (sn_events m) @ steps_from (cs_state s) ss
    \<and> (if closed (cs_state s) then ss = [] else True)"
  using run_path [OF assms] path_from_closed path_rank by (metis (full_types))

lemma set_state_engine [simp]: "cs_rtp_engine (set_state now st s) = cs_rtp_engine s"
  by (simp add: set_state_def Let_def)

section \<open>Engines\<close>

definition live_engines :: "session_manager \<Rightarrow> nat set" where
  "live_engines m = {e. \<exists>c s. sn_sessions m c = Some s \<and> cs_rtp_engine s = Some e}"

fun added_engines :: "manager_op list \<Rightarrow> nat set" where
  "added_engines [] = {}"
| "added_engines (Add s # ops) = set_option (cs_rtp_engine s) \<union> added_engines ops"
| "added_engines (op # ops) = added_engines ops"

lemma live_engines_update:
  "live_engines (n\<lparr>sn_sessions := (sn_sessions m)(c := v)\<rparr>)
   = {e. \<exists>c' s. c' \<noteq> c \<and> sn_sessions m c' = Some s \<and> cs_rtp_engine s = Some e}
     \<union> (case v of None \<Rightarrow> {} | Some s \<Rightarrow> set_option (cs_rtp_engine s))"
  by (cases v) (auto simp: live_engines_def split: if_splits)

lemma live_engines_split:
  "live_engines m
   = {e. \<exists>c' s. c' \<noteq> c \<and> sn_sessions m c' = Some s \<and> cs_rtp_engine s = Some e}
     \<union> (case sn_sessions m c of None \<Rightarrow> {} | Some s \<Rightarrow> set_option (cs_rtp_engine s))"
  using live_engines_update [where n = m and m = m and c = c and v = "sn_sessions m c"] by simp

lemma live_engines_stopped [simp]: "live_engines (m\<lparr>sn_stopped := x\<rparr>) = live_engines m"
  "live_engines (m\<lparr>sn_events := y\<rparr>) = live_engines m"
  by (simp_all add: live_engines_def)

lemma stop_engine_simps [simp]:
  "sn_sessions (stop_engine e m) = sn_sessions m"
  "live_engines (stop_engine e m) = live_engines m"
  "set (sn_stopped (stop_engine e m)) = set (sn_stopped m) \<union> set_option e"
  by (auto simp: stop_engine_def split: option.split)

lemma step_engines:
  "live_engines (manager_step m op) \<union> set (sn_stopped (manager_step m op))
   = live_engines m \<union> set (sn_stopped m) \<union> added_engines [op]"
proof (cases op)
  case (Add s)
  show ?thesis
    using live_engines_split [of m "cs_call_id s"]
    by (auto simp: Add add_session_def Let_def live_engines_update split: option.splits)
next
  case (Remove c)
  show ?thesis
    using live_engines_split [of m c]
    by (auto simp: Remove remove_session_def live_engines_update split: option.splits)
next
  case (Update now c st)
  have "live_engines (update_state now c st m) = live_engines m"
    using live_engines_split [of m c]
    by (auto simp: update_state_def get_session_def emit_def live_engines_update split: option.split)
  moreover have "sn_stopped (update_state now c st m) = sn_stopped m"
    by (simp add: update_state_def get_session_def emit_def split: option.split)
  ultimately show ?thesis by (simp add: Update)
qed

text \<open>No RTP engine leaks: after any run, every engine that came in with a session still
  belongs to a session of the manager or has been stopped.\<close>

theorem engines_stopped_or_live:
  "added_engines ops \<subseteq> live_engines (manager_run manager_new ops)
     \<union> set (sn_stopped (manager_run manager_new ops))"
proof -
  have app: "added_engines (xs @ [x]) = added_engines xs \<union> added_engines [x]" for xs x
    by (induction xs rule: added_engines.induct) (cases x; auto)+
  show ?thesis
  proof (induction ops rule: rev_induct)
    case (snoc op ops)
    then show ?case using step_engines [of "manager_run manager_new ops" op] app [of ops op] by auto
  qed simp
qed

section \<open>Witnesses\<close>

text \<open>A closed instance of the session property: an outbound call that is answered, becomes
  active, tries to ring again and ends, while another call comes and goes.\<close>

definition demo_call :: "string \<Rightarrow> call_session" where
  "demo_call c = set_rtp_engine 5 (new_outbound 0 c ''+15551234'' ''+15550000'' ''p1'')"

definition demo_ops :: "manager_op list" where
  "demo_ops = [Update 1 ''a'' Calling, Add (demo_call ''b''), Update 2 ''a'' Answered,
     Update 3 ''a'' Ringing, Update 4 ''a'' Active, Remove ''b'', Update 5 ''a'' Ended]"

theorem call_follows_state_machine_witness:
  "\<exists>s' ss. get_session ''a'' (manager_run (add_session (demo_call ''a'') manager_new) demo_ops) = Some s'
    \<and> call_path Initializing ss (cs_state s')"
proof -
  have "get_session ''a'' (add_session (demo_call ''a'') manager_new) = Some (demo_call ''a'')"
    by (simp add: get_session_def add_session_def Let_def demo_call_def set_rtp_engine_def new_outbound_def)
  moreover have "only_updates ''a'' demo_ops"
    by (simp add: only_updates_def demo_ops_def demo_call_def set_rtp_engine_def new_outbound_def)
  moreover have "cs_state (demo_call ''a'') = Initializing"
    by (simp add: demo_call_def set_rtp_engine_def new_outbound_def)
  ultimately show ?thesis using call_follows_state_machine by metis
qed

end
