(* ===== verification/Nat_Symmetric_Rtp.thy ===== *)
theory Nat_Symmetric_Rtp
  imports Nat_Stun
begin

text \<open>
  \<^verbatim>\<open>src/nat/symmetric_rtp.rs\<close>: learning the remote address of a stream from the packets
  that arrive. Instants are nanoseconds; \<open>Instant::now\<close> is an argument.
\<close>

datatype auto_adjust_mode = Once | Always | Disabled

record switch_rate_limit =
  rl_max_switches :: u32
  rl_switch_window_secs :: u64

definition rate_limit_default :: switch_rate_limit where
  "rate_limit_default = \<lparr>rl_max_switches = 5, rl_switch_window_secs = 10\<rparr>"

record symmetric_rtp =
  sy_configured_addr :: "sock_addr option"
  sy_candidate_addr :: "sock_addr option"
  sy_tally :: u32
  sy_threshold :: u32
  sy_window :: u32
  sy_window_remaining :: u32
  sy_learned_addr :: "sock_addr option"
  sy_mode :: auto_adjust_mode
  sy_packets_processed :: u64
  sy_learned_ssrc :: "u32 option"
  sy_rate_limit :: switch_rate_limit
  sy_switch_times :: "nat list"
  sy_locked :: bool

definition symmetric_new :: "u32 \<Rightarrow> symmetric_rtp" where
  "symmetric_new thr =
     (let threshold = max thr 1
      in \<lparr>sy_configured_addr = None, sy_candidate_addr = None, sy_tally = 0,
          sy_threshold = threshold, sy_window = threshold * 2, sy_window_remaining = threshold * 2,
          sy_learned_addr = None, sy_mode = Always, sy_packets_processed = 0,
          sy_learned_ssrc = None, sy_rate_limit = rate_limit_default, sy_switch_times = [],
          sy_locked = False\<rparr>)"

definition symmetric_defaults :: symmetric_rtp where
  "symmetric_defaults = (symmetric_new 10)\<lparr>sy_mode := Always\<rparr>"

definition symmetric_new_rtcp :: symmetric_rtp where
  "symmetric_new_rtcp =
     \<lparr>sy_configured_addr = None, sy_candidate_addr = None, sy_tally = 0, sy_threshold = 1,
      sy_window = 4, sy_window_remaining = 4, sy_learned_addr = None, sy_mode = Always,
      sy_packets_processed = 0, sy_learned_ssrc = None, sy_rate_limit = rate_limit_default,
      sy_switch_times = [], sy_locked = False\<rparr>"

definition symmetric_disabled :: symmetric_rtp where
  "symmetric_disabled =
     \<lparr>sy_configured_addr = None, sy_candidate_addr = None, sy_tally = 0, sy_threshold = 1,
      sy_window = 0, sy_window_remaining = 0, sy_learned_addr = None, sy_mode = Disabled,
      sy_packets_processed = 0, sy_learned_ssrc = None, sy_rate_limit = rate_limit_default,
      sy_switch_times = [], sy_locked = False\<rparr>"

definition set_rate_limit :: "u32 \<Rightarrow> u64 \<Rightarrow> symmetric_rtp \<Rightarrow> symmetric_rtp" where
  "set_rate_limit mx secs s = s\<lparr>sy_rate_limit := \<lparr>rl_max_switches = mx, rl_switch_window_secs = secs\<rparr>\<rparr>"

definition set_mode :: "auto_adjust_mode \<Rightarrow> symmetric_rtp \<Rightarrow> symmetric_rtp" where
  "set_mode md s =
     (let s1 = s\<lparr>sy_mode := md\<rparr>
      in if md \<noteq> Disabled then s1\<lparr>sy_window_remaining := sy_window s1\<rparr> else s1)"

definition set_configured :: "sock_addr \<Rightarrow> symmetric_rtp \<Rightarrow> symmetric_rtp" where
  "set_configured a s = s\<lparr>sy_configured_addr := Some a\<rparr>"

text \<open>The sliding window, in nanoseconds. An instant before the window's length has no window
  start, and nothing is pruned.\<close>

definition window_dur :: "symmetric_rtp \<Rightarrow> nat" where
  "window_dur s = unat (rl_switch_window_secs (sy_rate_limit s)) * 1000000000"

definition record_switch :: "nat \<Rightarrow> symmetric_rtp \<Rightarrow> symmetric_rtp \<times> bool" where
  "record_switch now s =
     (if sy_mode s \<noteq> Always then (s, True)
      else
        (let s1 = (if window_dur s \<le> now
                   then s\<lparr>sy_switch_times := filter (\<lambda>t. t \<ge> now - window_dur s) (sy_switch_times s)\<rparr>
                   else s);
             s2 = s1\<lparr>sy_switch_times := sy_switch_times s1 @ [now]\<rparr>
         in if (of_nat (length (sy_switch_times s2)) :: u32) > rl_max_switches (sy_rate_limit s2)
            then (s2\<lparr>sy_locked := True\<rparr>, False)
            else (s2, True)))"

text \<open>The acceptance of a candidate, the same code in both branches of the source.\<close>

definition accept_source :: "sock_addr \<Rightarrow> nat \<Rightarrow> symmetric_rtp \<Rightarrow> symmetric_rtp \<times> bool" where
  "accept_source source now s =
     (let old = sy_learned_addr s;
          is_switch = (old \<noteq> None \<and> old \<noteq> Some source);
          (s1, allowed) = (if is_switch then record_switch now s else (s, True))
      in if \<not> allowed then (s1, False)
         else
           (let s2 = s1\<lparr>sy_learned_addr := Some source\<rparr>;
                s3 = (if sy_mode s2 = Once then s2\<lparr>sy_window_remaining := 0\<rparr> else s2)
            in (s3, old \<noteq> Some source)))"

definition decrement_window :: "symmetric_rtp \<Rightarrow> symmetric_rtp" where
  "decrement_window s =
     (if sy_window_remaining s > 0 then s\<lparr>sy_window_remaining := sy_window_remaining s - 1\<rparr> else s)"

definition process_incoming :: "sock_addr \<Rightarrow> nat \<Rightarrow> symmetric_rtp \<Rightarrow> symmetric_rtp \<times> bool" where
  "process_incoming source now s0 =
     (let s = s0\<lparr>sy_packets_processed := sy_packets_processed s0 + 1\<rparr>;
          unaccepted = (\<lambda>s. (if sy_mode s = Once then decrement_window s else s, False))
      in if sy_mode s = Disabled then (s, False)
         else if sy_locked s then (s, False)
         else if sy_mode s = Once \<and> sy_window_remaining s = 0 then (s, False)
         else if sy_configured_addr s = Some source then (s, False)
         else if sy_learned_addr s = Some source then (s, False)
         else if sy_candidate_addr s = Some source then
           (let s1 = s\<lparr>sy_tally := sy_tally s + 1\<rparr>
            in if sy_tally s1 \<ge> sy_threshold s1 then accept_source source now s1 else unaccepted s1)
         else
           (let s1 = s\<lparr>sy_candidate_addr := Some source, sy_tally := 1\<rparr>
            in if sy_threshold s1 \<le> 1 then accept_source source now s1 else unaccepted s1))"

definition process_incoming_with_ssrc ::
  "sock_addr \<Rightarrow> u32 \<Rightarrow> nat \<Rightarrow> symmetric_rtp \<Rightarrow> symmetric_rtp \<times> bool" where
  "process_incoming_with_ssrc source ssrc now s =
     (let s1 = (case sy_learned_ssrc s of
          Some prev \<Rightarrow> if prev \<noteq> ssrc
            then s\<lparr>sy_candidate_addr := None, sy_tally := 0, sy_learned_ssrc := Some ssrc\<rparr> else s
        | None \<Rightarrow> s\<lparr>sy_learned_ssrc := Some ssrc\<rparr>)
      in process_incoming source now s1)"

definition rearm :: "symmetric_rtp \<Rightarrow> symmetric_rtp" where
  "rearm s = s\<lparr>sy_window_remaining := sy_window s, sy_candidate_addr := None, sy_tally := 0\<rparr>"

definition effective_remote :: "symmetric_rtp \<Rightarrow> sock_addr option" where
  "effective_remote s =
     (case sy_learned_addr s of Some a \<Rightarrow> Some a | None \<Rightarrow> sy_configured_addr s)"

definition has_learned :: "symmetric_rtp \<Rightarrow> bool" where
  "has_learned s = (sy_learned_addr s \<noteq> None \<and> sy_learned_addr s \<noteq> sy_configured_addr s)"

definition is_learning :: "symmetric_rtp \<Rightarrow> bool" where
  "is_learning s = (case sy_mode s of Disabled \<Rightarrow> False | Always \<Rightarrow> \<not> sy_locked s
     | Once \<Rightarrow> sy_window_remaining s > 0)"

definition symmetric_reset :: "symmetric_rtp \<Rightarrow> symmetric_rtp" where
  "symmetric_reset s =
     s\<lparr>sy_learned_addr := None, sy_candidate_addr := None, sy_tally := 0,
       sy_window_remaining := sy_window s, sy_packets_processed := 0, sy_learned_ssrc := None,
       sy_switch_times := [], sy_locked := False\<rparr>"

section \<open>Runs\<close>

datatype symmetric_op = Packet sock_addr nat | PacketSsrc sock_addr u32 nat | SetMode auto_adjust_mode
  | SetConfigured sock_addr | SetRateLimit u32 u64 | Rearm | ResetAll

fun symmetric_step :: "symmetric_rtp \<Rightarrow> symmetric_op \<Rightarrow> symmetric_rtp" where
  "symmetric_step s (Packet a now) = fst (process_incoming a now s)"
| "symmetric_step s (PacketSsrc a ssrc now) = fst (process_incoming_with_ssrc a ssrc now s)"
| "symmetric_step s (SetMode md) = set_mode md s"
| "symmetric_step s (SetConfigured a) = set_configured a s"
| "symmetric_step s (SetRateLimit mx secs) = set_rate_limit mx secs s"
| "symmetric_step s Rearm = rearm s"
| "symmetric_step s ResetAll = symmetric_reset s"

abbreviation symmetric_run :: "symmetric_rtp \<Rightarrow> symmetric_op list \<Rightarrow> symmetric_rtp" where
  "symmetric_run \<equiv> foldl symmetric_step"

fun packet_from :: "sock_addr \<Rightarrow> symmetric_op \<Rightarrow> bool" where
  "packet_from a (Packet b _) = (b = a)"
| "packet_from a (PacketSsrc b _ _) = (b = a)"
| "packet_from a _ = False"

definition packets_from :: "sock_addr \<Rightarrow> symmetric_op list \<Rightarrow> nat" where
  "packets_from a ops = length (filter (packet_from a) ops)"

text \<open>The tally never exceeds the number of packets of the candidate, nor the threshold, so it never
  wraps; a candidate at the threshold is the learned address unless switching is locked.\<close>

definition symmetric_inv :: "(sock_addr \<Rightarrow> nat) \<Rightarrow> symmetric_rtp \<Rightarrow> bool" where
  "symmetric_inv n s \<longleftrightarrow> sy_threshold s \<noteq> 0
     \<and> (\<forall>a. sy_candidate_addr s = Some a \<longrightarrow> unat (sy_tally s) \<le> n a)
     \<and> (\<forall>a. sy_learned_addr s = Some a \<longrightarrow> unat (sy_threshold s) \<le> n a)
     \<and> (\<not> sy_locked s \<longrightarrow> (\<forall>a. sy_candidate_addr s = Some a \<and> sy_learned_addr s \<noteq> Some a
          \<longrightarrow> sy_tally s < sy_threshold s))"

lemma record_switch_frame [simp]:
  "sy_threshold (fst (record_switch now s)) = sy_threshold s"
  "sy_candidate_addr (fst (record_switch now s)) = sy_candidate_addr s"
  "sy_learned_addr (fst (record_switch now s)) = sy_learned_addr s"
  "sy_tally (fst (record_switch now s)) = sy_tally s"
  "sy_mode (fst (record_switch now s)) = sy_mode s"
  "sy_configured_addr (fst (record_switch now s)) = sy_configured_addr s"
  "sy_rate_limit (fst (record_switch now s)) = sy_rate_limit s"
  by (simp_all add: record_switch_def Let_def)

lemma record_switch_refused: "\<not> snd (record_switch now s) \<Longrightarrow> sy_locked (fst (record_switch now s))"
  by (auto simp: record_switch_def Let_def split: if_splits)

lemma decrement_window_frame [simp]:
  "sy_threshold (decrement_window s) = sy_threshold s"
  "sy_candidate_addr (decrement_window s) = sy_candidate_addr s"
  "sy_learned_addr (decrement_window s) = sy_learned_addr s"
  "sy_tally (decrement_window s) = sy_tally s"
  "sy_locked (decrement_window s) = sy_locked s"
  "sy_switch_times (decrement_window s) = sy_switch_times s"
  "sy_mode (decrement_window s) = sy_mode s"
  "sy_rate_limit (decrement_window s) = sy_rate_limit s"
  by (simp_all add: decrement_window_def)

lemma accept_source_cases:
  obtains (refused) "accept_source a now s = (fst (record_switch now s), False)"
      "sy_locked (fst (record_switch now s))"
  | (accepted) s1 b where "accept_source a now s = (s1, b)" "sy_learned_addr s1 = Some a"
      "sy_candidate_addr s1 = sy_candidate_addr s" "sy_tally s1 = sy_tally s"
      "sy_threshold s1 = sy_threshold s"
proof (cases "sy_learned_addr s \<noteq> None \<and> sy_learned_addr s \<noteq> Some a \<and> \<not> snd (record_switch now s)")
  case True
  then show ?thesis
    using record_switch_refused refused
    by (simp add: accept_source_def Let_def case_prod_beta)
next
  case False
  then show ?thesis
    by (intro accepted [of "fst (accept_source a now s)" "snd (accept_source a now s)"])
      (auto simp: accept_source_def Let_def case_prod_beta split: if_splits)
qed

lemma accept_source_inv:
  assumes "sy_threshold s \<noteq> 0" and "sy_candidate_addr s = Some a" and "unat (sy_tally s) \<le> n a"
    and "sy_threshold s \<le> sy_tally s"
    and "\<forall>b. sy_learned_addr s = Some b \<longrightarrow> unat (sy_threshold s) \<le> n b"
  shows "symmetric_inv n (fst (accept_source a now s))"
proof (cases rule: accept_source_cases [of a now s])
  case refused
  then show ?thesis using assms by (simp add: symmetric_inv_def)
next
  case (accepted s1 b)
  have "unat (sy_threshold s) \<le> n a" using assms(3,4) by (simp add: word_le_nat_alt)
  with accepted assms show ?thesis by (simp add: symmetric_inv_def)
qed

lemma symmetric_inv_mono: "symmetric_inv n s \<Longrightarrow> (\<And>a. n a \<le> m a) \<Longrightarrow> symmetric_inv m s"
  unfolding symmetric_inv_def using le_trans by blast

lemma unat_suc_below: "(t :: u32) < thr \<Longrightarrow> unat (t + 1) = Suc (unat t)"
  using unsigned_less [of thr, where ?'a = nat] by (simp add: unat_word_ariths word_less_nat_alt)

lemma process_incoming_inv:
  assumes "symmetric_inv n s"
  shows "symmetric_inv (n(a := Suc (n a))) (fst (process_incoming a now s))"
proof -
  let ?m = "n(a := Suc (n a))"
  let ?s = "s\<lparr>sy_packets_processed := sy_packets_processed s + 1\<rparr>"
  have m: "symmetric_inv ?m ?s"
    using symmetric_inv_mono [OF assms, of ?m] by (simp add: symmetric_inv_def)
  have thr: "sy_threshold s \<noteq> 0" and cand: "sy_candidate_addr s = Some a \<Longrightarrow> unat (sy_tally s) \<le> n a"
    and lrn: "\<forall>b. sy_learned_addr s = Some b \<longrightarrow> unat (sy_threshold s) \<le> ?m b"
    using assms m by (auto simp: symmetric_inv_def)
  show ?thesis
  proof (cases "sy_mode s = Disabled \<or> sy_locked s \<or> (sy_mode s = Once \<and> sy_window_remaining s = 0)
      \<or> sy_configured_addr s = Some a \<or> sy_learned_addr s = Some a")
    case True
    then show ?thesis using m by (auto simp: process_incoming_def Let_def)
  next
    case False
    show ?thesis
    proof (cases "sy_candidate_addr s = Some a")
      case True
      let ?t = "?s\<lparr>sy_tally := sy_tally s + 1\<rparr>"
      have "sy_tally s < sy_threshold s" using assms False True by (auto simp: symmetric_inv_def)
      then have tally: "unat (sy_tally s + 1) \<le> Suc (n a)"
        using cand [OF True] unat_suc_below by simp
      show ?thesis
      proof (cases "sy_threshold s \<le> sy_tally s + 1")
        case acc: True
        then have "fst (process_incoming a now s) = fst (accept_source a now ?t)"
          using False True by (auto simp: process_incoming_def Let_def)
        then show ?thesis using accept_source_inv [of ?t a ?m now] thr tally acc lrn True by simp
      next
        case no: False
        then show ?thesis
          using False True thr tally lrn
          by (auto simp: process_incoming_def Let_def symmetric_inv_def not_le)
      qed
    next
      case new: False
      let ?t = "?s\<lparr>sy_candidate_addr := Some a, sy_tally := 1\<rparr>"
      show ?thesis
      proof (cases "sy_threshold s \<le> 1")
        case True
        then have "fst (process_incoming a now s) = fst (accept_source a now ?t)"
          using False new by (auto simp: process_incoming_def Let_def)
        then show ?thesis using accept_source_inv [of ?t a ?m now] thr lrn True by simp
      next
        case no: False
        then show ?thesis
          using False new thr lrn
          by (auto simp: process_incoming_def Let_def symmetric_inv_def not_le)
      qed
    qed
  qed
qed

lemma symmetric_step_inv:
  assumes "symmetric_inv n s"
  shows "symmetric_inv (\<lambda>a. n a + (if packet_from a op then 1 else 0)) (symmetric_step s op)"
proof -
  have upd: "(\<lambda>a. n a + (if b = a then 1 else 0)) = n(b := Suc (n b))" for b by auto
  show ?thesis
  proof (cases op)
    case (Packet b now)
    then show ?thesis using process_incoming_inv [OF assms, of b now] by (simp add: upd)
  next
    case (PacketSsrc b ssrc now)
    have "symmetric_inv n (case sy_learned_ssrc s of
          Some prev \<Rightarrow> if prev \<noteq> ssrc
            then s\<lparr>sy_candidate_addr := None, sy_tally := 0, sy_learned_ssrc := Some ssrc\<rparr> else s
        | None \<Rightarrow> s\<lparr>sy_learned_ssrc := Some ssrc\<rparr>)"
      using assms by (auto simp: symmetric_inv_def split: option.split)
    from process_incoming_inv [OF this, of b now] PacketSsrc show ?thesis
      by (simp add: upd process_incoming_with_ssrc_def Let_def)
  qed (use assms in \<open>auto simp: symmetric_inv_def set_mode_def set_configured_def set_rate_limit_def
        rearm_def symmetric_reset_def Let_def\<close>)
qed

lemma symmetric_run_inv: "symmetric_inv (\<lambda>a. packets_from a ops) (symmetric_run (symmetric_new thr) ops)"
proof (induction ops rule: rev_induct)
  case Nil
  have "max thr 1 \<noteq> 0" by (cases "thr = 0") (auto simp: max_def)
  then show ?case by (simp add: symmetric_inv_def symmetric_new_def Let_def)
next
  case (snoc op ops)
  then show ?case
    using symmetric_step_inv [OF snoc, of op]
    by (simp add: packets_from_def if_distrib cong: if_cong)
qed

text \<open>C33: Media is never redirected to an address on fewer than the threshold of packets from it, over any
  packets, mode changes, re-arming and resets; in particular one spoofed packet never suffices
  under the default threshold.\<close>

theorem learned_after_threshold:
  "case sy_learned_addr (symmetric_run (symmetric_new thr) ops) of
     None \<Rightarrow> True | Some a \<Rightarrow> unat (max thr 1) \<le> packets_from a ops"
proof -
  have "sy_threshold (symmetric_run (symmetric_new thr) ops) = max thr 1"
  proof (induction ops rule: rev_induct)
    case (snoc op ops)
    have "sy_threshold (symmetric_step s op) = sy_threshold s" for s
      by (cases op) (auto simp: process_incoming_def process_incoming_with_ssrc_def accept_source_def
          set_mode_def set_configured_def set_rate_limit_def rearm_def symmetric_reset_def Let_def
          case_prod_beta split: option.split)
    with snoc show ?case by simp
  qed (simp add: symmetric_new_def Let_def)
  with symmetric_run_inv [of ops thr] show ?thesis
    by (auto simp: symmetric_inv_def split: option.split)
qed

section \<open>The rate of switching\<close>

text \<open>The instants at which a stream's learned address is replaced by another.\<close>

fun switches :: "symmetric_rtp \<Rightarrow> (sock_addr \<times> nat) list \<Rightarrow> nat list" where
  "switches s [] = []"
| "switches s ((a, now) # ps) =
     (let s' = fst (process_incoming a now s)
      in (if sy_learned_addr s \<noteq> None \<and> sy_learned_addr s' \<noteq> sy_learned_addr s then [now] else [])
         @ switches s' ps)"

abbreviation recent :: "symmetric_rtp \<Rightarrow> nat \<Rightarrow> nat list" where
  "recent s now \<equiv> filter (\<lambda>t. now \<le> t + window_dur s) (sy_switch_times s) @ [now]"

lemma record_switch_always:
  assumes "sy_mode s = Always"
  shows "sy_switch_times (fst (record_switch now s)) = recent s now"
    and "snd (record_switch now s) \<longleftrightarrow>
      (of_nat (length (recent s now)) :: u32) \<le> rl_max_switches (sy_rate_limit s)"
    and "sy_locked (fst (record_switch now s)) = (sy_locked s \<or> \<not> snd (record_switch now s))"
proof -
  have "filter (\<lambda>t. t \<ge> now - window_dur s) xs = filter (\<lambda>t. now \<le> t + window_dur s) xs" for xs
    by (rule filter_cong) auto
  moreover have "\<not> window_dur s \<le> now \<Longrightarrow> filter (\<lambda>t. now \<le> t + window_dur s) xs = xs" for xs
    by (rule filter_True) auto
  ultimately show "sy_switch_times (fst (record_switch now s)) = recent s now"
    "snd (record_switch now s) \<longleftrightarrow>
      (of_nat (length (recent s now)) :: u32) \<le> rl_max_switches (sy_rate_limit s)"
    "sy_locked (fst (record_switch now s)) = (sy_locked s \<or> \<not> snd (record_switch now s))"
    using assms by (auto simp: record_switch_def Let_def not_less)
qed

lemma accept_source_switch:
  assumes "sy_mode s = Always" and "\<not> sy_locked s"
  shows "sy_mode (fst (accept_source a now s)) = Always
    \<and> sy_rate_limit (fst (accept_source a now s)) = sy_rate_limit s
    \<and> (sy_locked (fst (accept_source a now s)) \<and> sy_learned_addr (fst (accept_source a now s)) = sy_learned_addr s
       \<or> sy_learned_addr s \<noteq> None \<and> sy_learned_addr (fst (accept_source a now s)) \<noteq> sy_learned_addr s
         \<and> \<not> sy_locked (fst (accept_source a now s))
         \<and> sy_switch_times (fst (accept_source a now s)) = recent s now
         \<and> (of_nat (length (recent s now)) :: u32) \<le> rl_max_switches (sy_rate_limit s)
       \<or> (sy_learned_addr s = None \<or> sy_learned_addr (fst (accept_source a now s)) = sy_learned_addr s)
         \<and> \<not> sy_locked (fst (accept_source a now s))
         \<and> sy_switch_times (fst (accept_source a now s)) = sy_switch_times s)"
  using assms record_switch_always [OF assms(1), of now]
  by (auto simp: accept_source_def Let_def case_prod_beta)

lemma process_incoming_switch:
  assumes always: "sy_mode s = Always" and s': "s' = fst (process_incoming a now s)"
  shows "sy_mode s' = Always \<and> sy_rate_limit s' = sy_rate_limit s
    \<and> (sy_locked s' \<and> sy_learned_addr s' = sy_learned_addr s
      \<or> sy_learned_addr s \<noteq> None \<and> sy_learned_addr s' \<noteq> sy_learned_addr s
         \<and> \<not> sy_locked s \<and> \<not> sy_locked s' \<and> sy_switch_times s' = recent s now
         \<and> (of_nat (length (recent s now)) :: u32) \<le> rl_max_switches (sy_rate_limit s)
      \<or> (sy_learned_addr s = None \<or> sy_learned_addr s' = sy_learned_addr s)
         \<and> \<not> sy_locked s \<and> \<not> sy_locked s' \<and> sy_switch_times s' = sy_switch_times s)"
proof (cases "sy_locked s \<or> sy_configured_addr s = Some a \<or> sy_learned_addr s = Some a")
  case True
  then show ?thesis using always by (auto simp: s' process_incoming_def Let_def)
next
  case False
  let ?s = "s\<lparr>sy_packets_processed := sy_packets_processed s + 1\<rparr>"
  obtain t where t: "sy_mode t = Always" "\<not> sy_locked t" "sy_rate_limit t = sy_rate_limit s"
    "sy_learned_addr t = sy_learned_addr s" "sy_switch_times t = sy_switch_times s"
    "s' = t \<or> s' = fst (accept_source a now t)"
  proof (cases "sy_candidate_addr s = Some a")
    case True
    with always False show ?thesis
      by (intro that [of "?s\<lparr>sy_tally := sy_tally s + 1\<rparr>"])
        (simp_all add: s' process_incoming_def Let_def)
  next
    case new: False
    with always False show ?thesis
      by (intro that [of "?s\<lparr>sy_candidate_addr := Some a, sy_tally := 1\<rparr>"])
        (simp_all add: s' process_incoming_def Let_def)
  qed
  have "window_dur t = window_dur s" by (simp add: window_dur_def t)
  then have "recent t now = recent s now" by (simp add: t)
  with t accept_source_switch [OF t(1,2), of a now] False show ?thesis by (elim disjE) simp_all
qed

text \<open>What a run keeps, with the switches so far: they are in order, at most five of them lie within any
  ten seconds, and the switch times kept are those within ten seconds of the last one.\<close>

definition ten_secs :: nat where "ten_secs = 10000000000"

definition within :: "nat \<Rightarrow> nat list \<Rightarrow> nat list" where
  "within start log = filter (\<lambda>t. start \<le> t \<and> t \<le> start + ten_secs) log"

definition switch_inv :: "nat list \<Rightarrow> symmetric_rtp \<Rightarrow> bool" where
  "switch_inv log s \<longleftrightarrow> sy_mode s = Always \<and> sy_rate_limit s = rate_limit_default \<and> sorted log
     \<and> (\<forall>start. length (within start log) \<le> 5)
     \<and> (\<not> sy_locked s \<longrightarrow> sy_switch_times s = (if log = [] then [] else filter (\<lambda>t. last log \<le> t + ten_secs) log))"

lemma window_default: "sy_rate_limit s = rate_limit_default \<Longrightarrow> window_dur s = ten_secs"
  by (simp add: window_dur_def rate_limit_default_def ten_secs_def)

lemma last_within:
  assumes "sorted log" and "log \<noteq> []" and "\<forall>t \<in> set log. t \<le> now"
  shows "filter (\<lambda>t. now \<le> t + ten_secs) log = within (now - ten_secs) log"
  unfolding within_def using assms(3) by (intro filter_cong) auto

lemma switch_inv_step:
  assumes inv: "switch_inv log s" and lt: "\<forall>t \<in> set log. t \<le> now"
    and s': "s' = fst (process_incoming a now s)"
  shows "switch_inv (log @ (if sy_learned_addr s \<noteq> None \<and> sy_learned_addr s' \<noteq> sy_learned_addr s
           then [now] else [])) s'"
proof -
  have m: "sy_mode s = Always" "sy_rate_limit s = rate_limit_default" "sorted log"
    "\<forall>start. length (within start log) \<le> 5"
    using inv by (simp_all add: switch_inv_def)
  note ps = process_incoming_switch [OF m(1) s']
  show ?thesis
  proof (cases "sy_learned_addr s \<noteq> None \<and> sy_learned_addr s' \<noteq> sy_learned_addr s")
    case False
    then show ?thesis using ps inv by (auto simp: switch_inv_def)
  next
    case True
    define kept where "kept = filter (\<lambda>t. now \<le> t + ten_secs) log"
    have kept: "kept = within (now - ten_secs) log" if "log \<noteq> []"
      unfolding kept_def using last_within [OF m(3) that lt] .
    have last: "last log \<le> now" if "log \<noteq> []" using lt that by simp
    have unlocked: "\<not> sy_locked s'" "\<not> sy_locked s" and times: "sy_switch_times s' = recent s now"
      and few: "(of_nat (length (recent s now)) :: u32) \<le> 5"
      using ps True m(2) by (auto simp: rate_limit_default_def)
    have rec: "recent s now = kept @ [now]"
      using inv unlocked(2) last m(2)
      by (auto simp: switch_inv_def window_default kept_def intro!: filter_cong)
    have "length kept \<le> 5" using kept m(4) by (cases "log = []") (auto simp: kept_def)
    then have len: "Suc (length kept) \<le> 5"
      using few unfolding rec by (simp add: word_le_nat_alt unat_of_nat flip: of_nat_Suc)
    have "length (within start (log @ [now])) \<le> 5" for start
    proof (cases "start \<le> now \<and> now \<le> start + ten_secs")
      case True
      have "length (within start log) \<le> length kept"
        unfolding within_def kept_def using True
        by (induction log) auto
      with True len show ?thesis by (simp add: within_def)
    next
      case False
      then show ?thesis using m(4) by (auto simp: within_def)
    qed
    moreover have "sorted (log @ [now])" using m(3) lt by (simp add: sorted_append)
    ultimately show ?thesis
      using True ps m(2) times rec unlocked
      by (simp add: switch_inv_def kept_def)
  qed
qed

lemma switch_inv_run:
  assumes "switch_inv log s" and "sorted (map snd ps)" and "\<forall>t \<in> set log. \<forall>p \<in> set ps. t \<le> snd p"
  shows "length (within start (log @ switches s ps)) \<le> 5"
  using assms
proof (induction ps arbitrary: log s)
  case (Cons p ps)
  obtain a now where p: "p = (a, now)" by (cases p)
  let ?s = "fst (process_incoming a now s)"
  let ?new = "if sy_learned_addr s \<noteq> None \<and> sy_learned_addr ?s \<noteq> sy_learned_addr s then [now] else []"
  have "switch_inv (log @ ?new) ?s"
    using switch_inv_step [OF Cons.prems(1), of now ?s a] Cons.prems(3) p by simp
  then have "length (within start ((log @ ?new) @ switches ?s ps)) \<le> 5"
    using Cons.IH [of "log @ ?new" ?s] Cons.prems(2,3) p by auto
  then show ?case by (simp add: p Let_def)
qed (simp add: switch_inv_def)

text \<open>A storm of packets from many sources redirects an established stream at most five times within any
  ten seconds, whatever the sources, as long as the clock does not run backwards.\<close>

theorem switches_rate_limited:
  assumes "sorted (map snd ps)"
  shows "length (filter (\<lambda>t. start \<le> t \<and> t \<le> start + 10000000000)
    (switches (symmetric_new thr) ps)) \<le> 5"
proof -
  have "switch_inv [] (symmetric_new thr)"
    by (simp add: switch_inv_def symmetric_new_def Let_def within_def)
  from switch_inv_run [OF this assms, of start] show ?thesis
    by (simp add: within_def ten_secs_def)
qed

text \<open>Once a stream has learned an address, packets from the configured address never bring it back: however
  many arrive, and whenever, media keeps going to the learned address.\<close>

theorem configured_never_relearned:
  "effective_remote (foldl (\<lambda>s now. fst (process_incoming a now s))
     (s\<lparr>sy_configured_addr := Some a, sy_learned_addr := Some b\<rparr>) nows) = Some b"
proof -
  have "sy_configured_addr (fst (process_incoming a now s)) = Some a
      \<and> sy_learned_addr (fst (process_incoming a now s)) = Some b"
    if "sy_configured_addr s = Some a \<and> sy_learned_addr s = Some b" for s now
    using that by (simp add: process_incoming_def Let_def)
  then have "sy_configured_addr (foldl (\<lambda>s now. fst (process_incoming a now s)) s nows) = Some a
      \<and> sy_learned_addr (foldl (\<lambda>s now. fst (process_incoming a now s)) s nows) = Some b"
    if "sy_configured_addr s = Some a \<and> sy_learned_addr s = Some b" for s
    using that by (induction nows arbitrary: s) auto
  from this [of "s\<lparr>sy_configured_addr := Some a, sy_learned_addr := Some b\<rparr>"] show ?thesis
    by (simp add: effective_remote_def)
qed

text \<open>A closed instance: three sources compete for a stream that learns from one packet.\<close>

definition rival :: "u16 \<Rightarrow> sock_addr" where "rival p = V4 0xC0000201 p"

theorem switches_rate_limited_witness:
  "length (filter (\<lambda>t. 0 \<le> t \<and> t \<le> 10000000000)
     (switches (symmetric_new 1) [(rival 1, 5), (rival 2, 6), (rival 3, 7), (rival 1, 7)])) \<le> 5"
  using switches_rate_limited [of "[(rival 1, 5), (rival 2, 6), (rival 3, 7), (rival 1, 7)]" 0 1] by simp

end
