(* ===== verification/Sip_Session_Timer.thy ===== *)
theory Sip_Session_Timer
  imports Rtp_Strings
begin

text \<open>
  \<^verbatim>\<open>src/sip/session_timer.rs\<close>: the session timer of RFC 4028. Instants and durations are
  nanoseconds; \<^verbatim>\<open>Instant::now\<close> is an argument.
\<close>

record handle_422_result =
  h4_session_expires :: u32
  h4_min_se :: u32
  h4_should_include_min_se_header :: bool

datatype refresh_role = LocalRole | RemoteRole

record session_timer_config =
  tc_enabled :: bool
  tc_session_expires :: u32
  tc_min_se :: u32
  tc_preferred_role :: refresh_role

definition timer_config_default :: session_timer_config where
  "timer_config_default = \<lparr>tc_enabled = True, tc_session_expires = 1800, tc_min_se = 90,
     tc_preferred_role = LocalRole\<rparr>"

definition grace_seconds :: "u32 \<Rightarrow> nat" where
  "grace_seconds session_expires = min 32 (unat session_expires div 3)"

record session_timer =
  st_config :: session_timer_config
  st_session_expires :: u32
  st_min_se :: u32
  st_role :: refresh_role
  st_last_refresh :: nat
  st_active :: bool

definition timer_new :: "nat \<Rightarrow> session_timer_config \<Rightarrow> session_timer" where
  "timer_new now cfg =
     \<lparr>st_config = cfg, st_session_expires = tc_session_expires cfg, st_min_se = tc_min_se cfg,
      st_role = tc_preferred_role cfg, st_last_refresh = now, st_active = False\<rparr>"

definition timer_start :: "nat \<Rightarrow> u32 \<Rightarrow> refresh_role \<Rightarrow> session_timer \<Rightarrow> session_timer" where
  "timer_start now negotiated_expires role t =
     t\<lparr>st_session_expires := max negotiated_expires (st_min_se t), st_role := role,
       st_last_refresh := now, st_active := True\<rparr>"

definition timer_refresh :: "nat \<Rightarrow> session_timer \<Rightarrow> session_timer" where
  "timer_refresh now t = t\<lparr>st_last_refresh := now\<rparr>"

definition secs :: "nat \<Rightarrow> nat" where "secs n = n * 1000000000"

definition refresh_interval :: "session_timer \<Rightarrow> nat" where
  "refresh_interval t =
     (let se = unat (st_session_expires t); grace = grace_seconds (st_session_expires t)
      in secs (min (se div 2) (se - grace)))"

definition expiry_interval :: "session_timer \<Rightarrow> nat" where
  "expiry_interval t = secs (unat (st_session_expires t) + grace_seconds (st_session_expires t))"

definition needs_refresh :: "nat \<Rightarrow> session_timer \<Rightarrow> bool" where
  "needs_refresh now t =
     (if \<not> st_active t \<or> st_role t \<noteq> LocalRole then False
      else now - st_last_refresh t \<ge> refresh_interval t)"

definition is_expired :: "nat \<Rightarrow> session_timer \<Rightarrow> bool" where
  "is_expired now t =
     (if \<not> st_active t then False else now - st_last_refresh t \<ge> expiry_interval t)"

definition time_until_refresh :: "nat \<Rightarrow> session_timer \<Rightarrow> nat option" where
  "time_until_refresh now t =
     (if \<not> st_active t \<or> st_role t \<noteq> LocalRole then None
      else Some (refresh_interval t - (now - st_last_refresh t)))"

definition time_until_expiry :: "nat \<Rightarrow> session_timer \<Rightarrow> nat" where
  "time_until_expiry now t =
     (if \<not> st_active t then 0 else expiry_interval t - (now - st_last_refresh t))"

definition refresher_name :: "refresh_role \<Rightarrow> bool \<Rightarrow> string" where
  "refresher_name role is_uac = (case (role, is_uac) of
       (LocalRole, True) \<Rightarrow> ''uac'' | (LocalRole, False) \<Rightarrow> ''uas''
     | (RemoteRole, True) \<Rightarrow> ''uas'' | (RemoteRole, False) \<Rightarrow> ''uac'')"

definition build_session_expires_header :: "session_timer \<Rightarrow> bool \<Rightarrow> string" where
  "build_session_expires_header t is_uac =
     show_nat (unat (st_session_expires t)) @ '';refresher='' @ refresher_name (st_role t) is_uac"

definition build_min_se_header :: "session_timer \<Rightarrow> string" where
  "build_min_se_header t = show_nat (unat (st_min_se t))"

definition refresher_of :: "string \<Rightarrow> bool \<Rightarrow> refresh_role option" where
  "refresher_of v is_uac =
     (let value = to_lowercase (trim v)
      in if value = ''uac'' then Some (if is_uac then LocalRole else RemoteRole)
         else if value = ''uas'' then Some (if is_uac then RemoteRole else LocalRole)
         else None)"

fun find_refresher :: "string list \<Rightarrow> bool \<Rightarrow> refresh_role option" where
  "find_refresher [] is_uac = None"
| "find_refresher (p # ps) is_uac =
     (let param = trim p
      in if starts_with ''refresher='' param then refresher_of (drop 10 param) is_uac
         else find_refresher ps is_uac)"

definition extract_refresher_role :: "string \<Rightarrow> bool \<Rightarrow> refresh_role option" where
  "extract_refresher_role params is_uac = find_refresher (split_on (CHR '';'') params) is_uac"

definition parse_session_expires :: "string \<Rightarrow> bool \<Rightarrow> (u32 \<times> refresh_role option) option" where
  "parse_session_expires header is_uac =
     (let h = trim header;
          (first, rest) = (case split_once (CHR '';'') h of
             Some (a, b) \<Rightarrow> (a, Some b) | None \<Rightarrow> (h, None))
      in case parse_u32 (trim first) of
           None \<Rightarrow> None
         | Some seconds \<Rightarrow> Some (seconds, (case rest of
               Some params \<Rightarrow> extract_refresher_role params is_uac | None \<Rightarrow> None)))"

definition parse_min_se :: "string \<Rightarrow> u32 option" where
  "parse_min_se header = parse_u32 (trim (hd (split_on (CHR '';'') (trim header))))"

definition handle_422_response :: "u32 \<Rightarrow> session_timer \<Rightarrow> session_timer \<times> handle_422_result" where
  "handle_422_response remote_min_se t =
     (let should_include = remote_min_se > st_min_se t;
          t1 = (if remote_min_se > st_min_se t then t\<lparr>st_min_se := remote_min_se\<rparr> else t);
          t2 = (if st_session_expires t1 < st_min_se t1
                then t1\<lparr>st_session_expires := st_min_se t1\<rparr> else t1)
      in (t2, \<lparr>h4_session_expires = st_session_expires t2, h4_min_se = st_min_se t2,
               h4_should_include_min_se_header = should_include\<rparr>))"

definition DEFAULT_SESSION_EXPIRES :: u32 where "DEFAULT_SESSION_EXPIRES = 1800"

definition process_response ::
  "nat \<Rightarrow> string option \<Rightarrow> bool \<Rightarrow> session_timer \<Rightarrow> session_timer \<times> (u32 \<times> refresh_role)" where
  "process_response now header is_uac t =
     (let fallback = (timer_start now DEFAULT_SESSION_EXPIRES LocalRole t,
                      (DEFAULT_SESSION_EXPIRES, LocalRole))
      in case header of
           Some h \<Rightarrow>
             (case parse_session_expires h is_uac of
                Some (seconds, role_opt) \<Rightarrow>
                  (let role = (case role_opt of Some r \<Rightarrow> r | None \<Rightarrow> tc_preferred_role (st_config t))
                   in (timer_start now seconds role t, (max seconds (st_min_se t), role)))
              | None \<Rightarrow> fallback)
         | None \<Rightarrow> fallback)"

definition timer_stop :: "session_timer \<Rightarrow> session_timer" where
  "timer_stop t = t\<lparr>st_active := False\<rparr>"

section \<open>Headers\<close>

fun other_role :: "refresh_role \<Rightarrow> refresh_role" where
  "other_role LocalRole = RemoteRole" | "other_role RemoteRole = LocalRole"

lemma refresher_name_read:
  "refresher_of (refresher_name role is_uac) (\<not> is_uac) = Some (other_role role)"
  by (cases role; cases is_uac) (simp_all add: refresher_of_def refresher_name_def trim_def is_ws_def
      to_lowercase_def to_lower_def)

lemma parse_built_session_expires:
  "parse_session_expires (build_session_expires_header t is_uac) (\<not> is_uac)
     = Some (st_session_expires t, Some (other_role (st_role t)))"
proof -
  let ?n = "show_nat (unat (st_session_expires t))" and ?r = "refresher_name (st_role t) is_uac"
  have r: "list_all (\<lambda>c. \<not> is_ws c) ?r" "list_all (\<lambda>c. c \<noteq> CHR '';'') ?r"
    by (auto simp: refresher_name_def is_ws_def split: refresh_role.split bool.split)
  have p: "list_all (\<lambda>c. \<not> is_ws c) ''refresher=''" "list_all (\<lambda>c. c \<noteq> CHR '';'') ''refresher=''"
    "\<not> is_ws (CHR '';'')"
    by (simp_all add: is_ws_def)
  let ?h = "?n @ CHR '';'' # ''refresher='' @ ?r"
  have h: "build_session_expires_header t is_uac = ?h" by (simp add: build_session_expires_header_def)
  have w: "list_all (\<lambda>c. \<not> is_ws c) ?h" using r p show_nat_not_ws by simp
  have s: "split_once (CHR '';'') ?h = Some (?n, ''refresher='' @ ?r)"
    by (rule split_once_append, rule digits_avoid [OF show_nat_digits]) (simp add: is_digit_def)
  have sp: "split_on (CHR '';'') (''refresher='' @ ?r) = [''refresher='' @ ?r]"
    unfolding split_on_def using r(2) p(2) by (intro split_by_no_sep) (auto simp: list_all_iff)
  have t: "trim (''refresher='' @ ?r) = ''refresher='' @ ?r"
    using r(1) p(1) by (intro trim_id) (simp only: list_all_append simp_thms)
  have e: "extract_refresher_role (''refresher='' @ ?r) (\<not> is_uac) = Some (other_role (st_role t))"
    unfolding extract_refresher_role_def sp find_refresher.simps Let_def t
    using refresher_name_read by (simp add: starts_with_def)
  show ?thesis
    unfolding parse_session_expires_def h trim_id [OF w] Let_def s option.case prod.case
    by (simp only: trim_id [OF show_nat_not_ws] parse_u32_show e option.case)
qed

lemma parse_built_min_se: "parse_min_se (build_min_se_header t) = Some (st_min_se t)"
proof -
  have "split_on (CHR '';'') (show_nat (unat (st_min_se t))) = [show_nat (unat (st_min_se t))]"
    unfolding split_on_def
    by (rule split_by_no_sep, rule digits_avoid [OF show_nat_digits]) (simp add: is_digit_def)
  then show ?thesis
    by (simp add: parse_min_se_def build_min_se_header_def trim_id show_nat_not_ws parse_u32_show)
qed

text \<open>Both ends of a dialog agree on who refreshes: whatever one end announces in its Session-Expires
  header, the other end, on accepting it, starts its timer with the same interval, unless its own
  minimum is larger, and with the opposite role; and the Min-SE header reads back.\<close>

theorem refresher_agreed:
  "case process_response now (Some (build_session_expires_header t is_uac)) (\<not> is_uac) p of (p', _, role) \<Rightarrow>
     st_role p' = other_role (st_role t) \<and> role = st_role p' \<and> st_active p'
     \<and> st_session_expires p' = max (st_session_expires t) (st_min_se p)
     \<and> parse_min_se (build_min_se_header t) = Some (st_min_se t)"
  by (simp add: process_response_def parse_built_session_expires timer_start_def Let_def parse_built_min_se)

section \<open>Timing\<close>

lemma secs_mono: "a \<le> b \<Longrightarrow> secs a \<le> secs b"
  by (simp add: secs_def)

lemma refresh_before_expiry: "refresh_interval t \<le> secs (unat (st_session_expires t) div 2)"
    "secs (unat (st_session_expires t)) \<le> expiry_interval t"
    "expiry_interval t \<le> secs (unat (st_session_expires t) + 32)"
  by (simp_all add: refresh_interval_def expiry_interval_def grace_seconds_def Let_def secs_def)

text \<open>The two ends of a call: the local end refreshes, the remote end counts the refreshes it gets.
  The local end is polled at given instants, and a refresh reaches both ends at once.\<close>

fun keep_alive :: "session_timer \<times> session_timer \<Rightarrow> nat list \<Rightarrow> session_timer \<times> session_timer" where
  "keep_alive (l, r) [] = (l, r)"
| "keep_alive (l, r) (now # ts) =
     (if needs_refresh now l then keep_alive (timer_refresh now l, timer_refresh now r) ts
      else keep_alive (l, r) ts)"

definition paired_timers :: "session_timer \<Rightarrow> session_timer \<Rightarrow> bool" where
  "paired_timers l r \<longleftrightarrow> st_active l \<and> st_role l = LocalRole \<and> st_active r
     \<and> st_session_expires r = st_session_expires l \<and> st_last_refresh r = st_last_refresh l"

text \<open>The polls follow each other by at most a gap, starting at an instant.\<close>

fun gaps_below :: "nat \<Rightarrow> nat \<Rightarrow> nat list \<Rightarrow> bool" where
  "gaps_below g start [] = True"
| "gaps_below g start (now # ts) = (start \<le> now \<and> now - start < g \<and> gaps_below g now ts)"

lemma keep_alive_recent:
  assumes "paired_timers l r" and "gaps_below g start ts" and "st_last_refresh l \<le> start"
    and "start - st_last_refresh l < refresh_interval l + g"
    and "g \<le> secs (unat (st_session_expires l)) - secs (unat (st_session_expires l) div 2)"
    and "0 < g" and "keep_alive (l, r) ts = (l', r')"
  shows "paired_timers l' r' \<and> \<not> is_expired (last (start # ts)) l' \<and> \<not> is_expired (last (start # ts)) r'"
  using assms
proof (induction ts arbitrary: l r start)
  case Nil
  have "refresh_interval l + g \<le> expiry_interval l"
    using Nil.prems(5) refresh_before_expiry [of l] secs_mono [of "unat (st_session_expires l) div 2" "unat (st_session_expires l)"]
    by linarith
  moreover have "expiry_interval r = expiry_interval l"
    using Nil.prems(1) by (simp add: paired_timers_def expiry_interval_def)
  ultimately show ?case using Nil.prems by (auto simp: is_expired_def paired_timers_def)
next
  case (Cons now ts)
  have gap: "start \<le> now" "now - start < g" "gaps_below g now ts" using Cons.prems(2) by simp_all
  show ?case
  proof (cases "needs_refresh now l")
    case True
    have "refresh_interval (timer_refresh now l) = refresh_interval l"
      by (simp add: refresh_interval_def timer_refresh_def)
    with Cons.IH [of "timer_refresh now l" "timer_refresh now r" now] Cons.prems gap True
    show ?thesis by (simp add: paired_timers_def timer_refresh_def)
  next
    case False
    then have "now - st_last_refresh l < refresh_interval l"
      using Cons.prems(1) by (simp add: needs_refresh_def paired_timers_def split: if_splits)
    with Cons.IH [of l r now] Cons.prems gap False show ?thesis by simp
  qed
qed

text \<open>Refreshing keeps a call alive: if the refresher's timer is polled with gaps shorter than half
  the session interval, neither end ever finds the session expired.\<close>

theorem session_kept_alive:
  assumes "paired_timers l r" and "gaps_below (secs (unat (st_session_expires l)) div 2) (st_last_refresh l) ts"
    and "0 < unat (st_session_expires l) div 2"
  shows "case keep_alive (l, r) ts of (l', r') \<Rightarrow>
    \<not> is_expired (last (st_last_refresh l # ts)) l' \<and> \<not> is_expired (last (st_last_refresh l # ts)) r'"
proof -
  obtain l' r' where k: "keep_alive (l, r) ts = (l', r')" by fastforce
  have g: "0 < secs (unat (st_session_expires l)) div 2"
    "secs (unat (st_session_expires l)) div 2 \<le> secs (unat (st_session_expires l)) - secs (unat (st_session_expires l) div 2)"
    using assms(3) by (simp_all add: secs_def)
  from keep_alive_recent [OF assms(1,2) order_refl _ g(2) g(1) k] g(1) k show ?thesis by simp
qed

text \<open>A dead session is found: without a refresh, a started timer is expired from at most 32 seconds
  after its interval on, and not before the interval has passed.\<close>

theorem silent_session_expires:
  "let t' = timer_start now se role t; d = unat (max se (st_min_se t))
   in is_expired (now + secs (d + 32) + k) t' \<and> (if k < secs d then \<not> is_expired (now + k) t' else True)"
  using refresh_before_expiry [of "timer_start now se role t"]
  by (auto simp: Let_def is_expired_def timer_start_def)

text \<open>After a 422 the retried offer satisfies the remote end: both values are at least its minimum, neither
  has shrunk, and the Min-SE header is included exactly when the minimum was raised.\<close>

theorem retry_after_422:
  "case handle_422_response m t of (t', h) \<Rightarrow>
     m \<le> h4_min_se h \<and> h4_min_se h \<le> h4_session_expires h
     \<and> st_min_se t \<le> h4_min_se h \<and> st_session_expires t \<le> h4_session_expires h
     \<and> (h4_should_include_min_se_header h \<longleftrightarrow> h4_min_se h \<noteq> st_min_se t)
     \<and> st_min_se t' = h4_min_se h \<and> st_session_expires t' = h4_session_expires h
     \<and> snd (handle_422_response m t') = h\<lparr>h4_should_include_min_se_header := False\<rparr>"
  by (auto simp: handle_422_response_def Let_def)

text \<open>When the response has no Session-Expires header and the minimum is above 1800 seconds, the value
  returned is not the one the timer runs with.\<close>

lemma fallback_mismatch:
  assumes "st_min_se t > 1800"
  shows "fst (snd (process_response now None is_uac t))
    \<noteq> st_session_expires (fst (process_response now None is_uac t))"
  using assms by (auto simp: process_response_def timer_start_def DEFAULT_SESSION_EXPIRES_def Let_def max_def)

section \<open>A closed instance\<close>

definition demo_timer :: "refresh_role \<Rightarrow> session_timer" where
  "demo_timer role = timer_start 7 300 role (timer_new 0 timer_config_default)"

theorem session_kept_alive_witness:
  "case keep_alive (demo_timer LocalRole, demo_timer RemoteRole) [secs 100, secs 220, secs 330] of (l', r') \<Rightarrow>
     \<not> is_expired (secs 330) l' \<and> \<not> is_expired (secs 330) r'"
proof -
  have "paired_timers (demo_timer LocalRole) (demo_timer RemoteRole)"
    by (simp add: paired_timers_def demo_timer_def timer_start_def timer_new_def)
  moreover have "st_session_expires (demo_timer LocalRole) = 300" "st_last_refresh (demo_timer LocalRole) = 7"
    by (simp_all add: demo_timer_def timer_start_def timer_new_def timer_config_default_def max_def)
  ultimately show ?thesis
    using session_kept_alive [of "demo_timer LocalRole" "demo_timer RemoteRole" "[secs 100, secs 220, secs 330]"]
    by (simp add: secs_def)
qed

end
