(* ===== verification/Sip_Digest.thy ===== *)
theory Sip_Digest
  imports Rtp_Strings
begin

text \<open>
  \<^verbatim>\<open>src/sip/digest_auth.rs\<close>: digest authentication. The hex-encoded MD5 and SHA-256 of the
  third-party crates are parameters (\<open>md5\<close>, \<open>sha256\<close>, from text to text), the random client nonce
  and the clock are arguments; instants are nanoseconds.
\<close>

section \<open>Challenges\<close>

datatype digest_algorithm = Md5 | Md5Sess | Sha256

definition algorithm_parse :: "string \<Rightarrow> digest_algorithm" where
  "algorithm_parse s =
     (let lower = to_lowercase (trim s)
      in if lower = ''sha-256'' \<or> lower = ''sha256'' then Sha256
         else if lower = ''md5-sess'' then Md5Sess
         else Md5)"

fun show_algorithm :: "digest_algorithm \<Rightarrow> string" where
  "show_algorithm Md5 = ''MD5''"
| "show_algorithm Md5Sess = ''MD5-sess''"
| "show_algorithm Sha256 = ''SHA-256''"

datatype qop = QopAuth | QopAuthInt

fun show_qop :: "qop \<Rightarrow> string" where
  "show_qop QopAuth = ''auth''"
| "show_qop QopAuthInt = ''auth-int''"

datatype auth_header_type = Authorization | ProxyAuthorization

fun header_name :: "auth_header_type \<Rightarrow> string" where
  "header_name Authorization = ''Authorization''"
| "header_name ProxyAuthorization = ''Proxy-Authorization''"

fun challenge_header_name :: "auth_header_type \<Rightarrow> string" where
  "challenge_header_name Authorization = ''WWW-Authenticate''"
| "challenge_header_name ProxyAuthorization = ''Proxy-Authenticate''"

record digest_challenge =
  dc_realm :: string
  dc_nonce :: string
  dc_opaque :: "string option"
  dc_qop :: "qop option"
  dc_algorithm :: digest_algorithm
  dc_stale :: bool

section \<open>Parameters\<close>

definition dquote :: char where "dquote = CHR 0x22"
definition backslash :: char where "backslash = CHR 0x5C"

definition is_blank :: "char \<Rightarrow> bool" where
  "is_blank c = (c = CHR '' '' \<or> c = CHR 0x09)"

text \<open>The quoted value at the head of the text, up to its closing quote, and the text from
  there; a backslash takes the next byte with it.\<close>

fun scan_quoted :: "string \<Rightarrow> string \<times> string" where
  "scan_quoted [] = ([], [])"
| "scan_quoted [c] = (if c = dquote then ([], [c]) else ([c], []))"
| "scan_quoted (c # d # cs) =
     (if c = dquote then ([], c # d # cs)
      else if c = backslash then (let (v, r) = scan_quoted cs in (c # d # v, r))
      else (let (v, r) = scan_quoted (d # cs) in (c # v, r)))"

lemma scan_quoted_length: "length (snd (scan_quoted s)) \<le> length s"
  by (induction s rule: scan_quoted.induct) (auto simp: Let_def split: prod.splits)

definition param_value :: "string \<Rightarrow> string \<times> string" where
  "param_value s =
     (if s \<noteq> [] \<and> hd s = dquote then (let (v, r) = scan_quoted (tl s) in (v, drop 1 r))
      else
        (let stop = (\<lambda>c. c = CHR '','' \<or> is_blank c)
         in (trim (takeWhile (\<lambda>c. \<not> stop c) s), dropWhile (\<lambda>c. \<not> stop c) s)))"

lemma param_value_length: "length (snd (param_value s)) \<le> length s"
proof (cases "s \<noteq> [] \<and> hd s = dquote")
  case True
  obtain v r where vr: "scan_quoted (tl s) = (v, r)" by fastforce
  have "param_value s = (v, drop 1 r)" unfolding param_value_def if_P [OF True] vr by simp
  then show ?thesis using scan_quoted_length [of "tl s"] vr by simp
next
  case False
  then show ?thesis unfolding param_value_def if_not_P [OF False] by (simp add: Let_def length_dropWhile_le)
qed

lemma skip_key_shorter:
  assumes "s1 = dropWhile (\<lambda>c. c = CHR '','' \<or> is_blank c) s" and "s1 \<noteq> []"
    and "s2 = dropWhile (\<lambda>c. \<not> (c = CHR ''='' \<or> c = CHR '',''))  s1"
    and "s2 = [] \<or> hd s2 \<noteq> CHR ''=''"
  shows "length s2 < length s"
proof -
  have "hd s1 \<noteq> CHR '',''" 
    using hd_dropWhile [of "\<lambda>c. c = CHR '','' \<or> is_blank c" s] assms(1,2) by simp
  with assms(2,3,4) have "length s2 < length s1"
    using length_dropWhile_le [of "\<lambda>c. \<not> (c = CHR ''='' \<or> c = CHR '','')" "tl s1"]
    by (cases s1) (auto split: if_splits)
  moreover have "length s1 \<le> length s" unfolding assms(1) by (rule length_dropWhile_le)
  ultimately show ?thesis by simp
qed

lemma skip_value_shorter:
  assumes "s1 = dropWhile P s" and "s2 = dropWhile Q s1" and "s2 \<noteq> []"
    and "(v, s3) = param_value (dropWhile is_blank (tl s2))"
  shows "length s3 < length s"
proof -
  have "length s3 \<le> length (tl s2)"
    using le_trans [OF param_value_length [of "dropWhile is_blank (tl s2)"] length_dropWhile_le]
    by (simp flip: assms(4))
  also have "\<dots> < length s2" using assms(3) by simp
  also have "\<dots> \<le> length s" unfolding assms(1,2)
    by (rule le_trans [OF length_dropWhile_le length_dropWhile_le])
  finally show ?thesis .
qed

function parse_params_from :: "string \<Rightarrow> (string \<rightharpoonup> string) \<Rightarrow> (string \<rightharpoonup> string)" where
  "parse_params_from s params =
     (let s1 = dropWhile (\<lambda>c. c = CHR '','' \<or> is_blank c) s
      in if s1 = [] then params
         else
           (let stop = (\<lambda>c. c = CHR ''='' \<or> c = CHR '','');
                key = to_lowercase (trim (takeWhile (\<lambda>c. \<not> stop c) s1));
                s2 = dropWhile (\<lambda>c. \<not> stop c) s1
            in if s2 = [] \<or> hd s2 \<noteq> CHR ''='' then parse_params_from s2 params
               else
                 (let (v, s3) = param_value (dropWhile is_blank (tl s2))
                  in parse_params_from s3 (if key \<noteq> [] then params(key \<mapsto> v) else params))))"
  by pat_completeness auto
termination
proof (relation "measure (length \<circ> fst)", goal_cases)
  case (2 s params s1 stop key s2)
  then show ?case using skip_key_shorter [of s1 s s2] by simp
next
  case (3 s params s1 stop key s2 x v s3)
  then show ?case using skip_value_shorter [of s1 _ s s2 _ v s3] by simp
qed simp

declare parse_params_from.simps [simp del]

definition parse_params :: "string \<Rightarrow> (string \<rightharpoonup> string)" where
  "parse_params s = parse_params_from s Map.empty"

definition qop_offered :: "string \<Rightarrow> qop option" where
  "qop_offered q =
     (let lower = to_lowercase q;
          has_auth = list_ex (\<lambda>t. trim t = ''auth'') (split_on (CHR '','') lower);
          has_auth_int = list_ex (\<lambda>t. trim t = ''auth-int'') (split_on (CHR '','') lower)
      in if has_auth then Some QopAuth else if has_auth_int then None else None)"

definition parse_challenge :: "string \<Rightarrow> digest_challenge res" where
  "parse_challenge header_value =
     (let trimmed = trim header_value
      in if \<not> (length trimmed \<ge> 6 \<and> eq_ignore_case (take 6 trimmed) ''Digest'')
         then Err (Auth (''expected Digest scheme, got: '' @ take 20 trimmed))
         else
           (let params = parse_params (trim (drop 6 trimmed))
            in case params ''realm'' of
                 None \<Rightarrow> Err (Auth ''missing realm in challenge'')
               | Some realm \<Rightarrow>
                   (case params ''nonce'' of
                      None \<Rightarrow> Err (Auth ''missing nonce in challenge'')
                    | Some nonce \<Rightarrow>
                        Ok \<lparr>dc_realm = realm, dc_nonce = nonce, dc_opaque = params ''opaque'',
                            dc_qop = Option.bind (params ''qop'') qop_offered,
                            dc_algorithm = (case params ''algorithm'' of
                                Some a \<Rightarrow> algorithm_parse a | None \<Rightarrow> Md5),
                            dc_stale = (case params ''stale'' of
                                Some t \<Rightarrow> eq_ignore_case t ''true'' | None \<Rightarrow> False)\<rparr>)))"

section \<open>The response\<close>

definition hex_digit :: "nat \<Rightarrow> char" where
  "hex_digit n = (if n < 10 then digit_char n else char_of (87 + n))"

definition hex8 :: "u32 \<Rightarrow> string" where
  "hex8 w = map (\<lambda>i. hex_digit (unat w div 16 ^ i mod 16)) [7, 6, 5, 4, 3, 2, 1, 0]"

definition digest_hash ::
  "(string \<Rightarrow> string) \<Rightarrow> (string \<Rightarrow> string) \<Rightarrow> digest_algorithm \<Rightarrow> string \<Rightarrow> string" where
  "digest_hash md5 sha256 alg input = (case alg of Sha256 \<Rightarrow> sha256 input | _ \<Rightarrow> md5 input)"

definition compute_response ::
  "(string \<Rightarrow> string) \<Rightarrow> (string \<Rightarrow> string) \<Rightarrow> digest_challenge \<Rightarrow> string \<Rightarrow> string
   \<Rightarrow> string \<Rightarrow> string \<Rightarrow> u32 \<Rightarrow> string \<Rightarrow> string" where
  "compute_response md5 sha256 ch username password meth uri nc cnonce =
     (let H = digest_hash md5 sha256 (dc_algorithm ch);
          ha1_base = H (username @ '':'' @ dc_realm ch @ '':'' @ password);
          ha1 = (if dc_algorithm ch = Md5Sess then H (ha1_base @ '':'' @ dc_nonce ch @ '':'' @ cnonce)
                 else ha1_base);
          ha2 = H (meth @ '':'' @ uri)
      in case dc_qop ch of
           Some q \<Rightarrow> H (ha1 @ '':'' @ dc_nonce ch @ '':'' @ hex8 nc @ '':'' @ cnonce @ '':''
                        @ show_qop q @ '':'' @ ha2)
         | None \<Rightarrow> H (ha1 @ '':'' @ dc_nonce ch @ '':'' @ ha2))"

definition replace_char :: "char \<Rightarrow> string \<Rightarrow> string \<Rightarrow> string" where
  "replace_char c r s = concat (map (\<lambda>x. if x = c then r else [x]) s)"

definition join :: "string \<Rightarrow> string list \<Rightarrow> string" where
  "join sep ps = (case ps of [] \<Rightarrow> [] | p # qs \<Rightarrow> p @ concat (map ((@) sep) qs))"

definition quoted :: "string \<Rightarrow> string \<Rightarrow> string" where
  "quoted k v = k @ ''='' @ [dquote] @ v @ [dquote]"

definition escape_username :: "string \<Rightarrow> string" where
  "escape_username u =
     replace_char dquote [backslash, dquote] (replace_char backslash [backslash, backslash] u)"

definition build_auth_header ::
  "digest_challenge \<Rightarrow> string \<Rightarrow> string \<Rightarrow> string \<Rightarrow> u32 \<Rightarrow> string \<Rightarrow> auth_header_type \<Rightarrow> string" where
  "build_auth_header ch username uri response nc cnonce header_type =
     join '', ''
       ([''Digest '' @ quoted ''username'' (escape_username username),
         quoted ''realm'' (dc_realm ch), quoted ''nonce'' (dc_nonce ch), quoted ''uri'' uri,
         quoted ''response'' response, ''algorithm='' @ show_algorithm (dc_algorithm ch)]
        @ (case dc_qop ch of
             Some q \<Rightarrow> [''qop='' @ show_qop q, ''nc='' @ hex8 nc, quoted ''cnonce'' cnonce]
           | None \<Rightarrow> [])
        @ (case dc_opaque ch of Some o' \<Rightarrow> [quoted ''opaque'' o'] | None \<Rightarrow> []))"

section \<open>Credentials\<close>

record digest_credentials =
  cr_username :: string
  cr_password :: string
  cr_expected_realm :: "string option"
  cr_cached_nonce :: "string option"
  cr_cached_realm :: "string option"
  cr_cached_opaque :: "string option"
  cr_cached_qop :: "qop option"
  cr_cached_algorithm :: digest_algorithm
  cr_nc :: u32
  cr_cached_at :: "nat option"
  cr_nonce_ttl :: nat

definition credentials_new :: "string \<Rightarrow> string \<Rightarrow> digest_credentials" where
  "credentials_new username password =
     \<lparr>cr_username = username, cr_password = password, cr_expected_realm = None,
      cr_cached_nonce = None, cr_cached_realm = None, cr_cached_opaque = None, cr_cached_qop = None,
      cr_cached_algorithm = Md5, cr_nc = 0, cr_cached_at = None, cr_nonce_ttl = 300 * 1000000000\<rparr>"

definition update_challenge :: "nat \<Rightarrow> digest_challenge \<Rightarrow> digest_credentials \<Rightarrow> digest_credentials" where
  "update_challenge now ch c =
     (if dc_stale ch \<and> cr_cached_nonce c \<noteq> None
      then c\<lparr>cr_cached_nonce := Some (dc_nonce ch), cr_cached_at := Some now, cr_nc := 0\<rparr>
      else if cr_cached_nonce c = Some (dc_nonce ch) then c
      else c\<lparr>cr_cached_nonce := Some (dc_nonce ch), cr_cached_realm := Some (dc_realm ch),
             cr_cached_opaque := dc_opaque ch, cr_cached_qop := dc_qop ch,
             cr_cached_algorithm := dc_algorithm ch, cr_cached_at := Some now, cr_nc := 0\<rparr>)"

definition nonce_expired :: "nat \<Rightarrow> digest_credentials \<Rightarrow> bool" where
  "nonce_expired now c = (case cr_cached_at c of Some a \<Rightarrow> now - a > cr_nonce_ttl c | None \<Rightarrow> False)"

definition has_cached_nonce :: "nat \<Rightarrow> digest_credentials \<Rightarrow> bool" where
  "has_cached_nonce now c = (if nonce_expired now c then False else cr_cached_nonce c \<noteq> None)"

definition clear_cache :: "digest_credentials \<Rightarrow> digest_credentials" where
  "clear_cache c =
     c\<lparr>cr_cached_nonce := None, cr_cached_realm := None, cr_cached_opaque := None,
       cr_cached_qop := None, cr_cached_at := None, cr_nc := 0\<rparr>"

definition authorize ::
  "(string \<Rightarrow> string) \<Rightarrow> (string \<Rightarrow> string) \<Rightarrow> string \<Rightarrow> nat \<Rightarrow> digest_challenge \<Rightarrow> string
   \<Rightarrow> string \<Rightarrow> auth_header_type \<Rightarrow> digest_credentials \<Rightarrow> digest_credentials \<times> string" where
  "authorize md5 sha256 cnonce now ch meth uri header_type c =
     (let c1 = (if nonce_expired now c then clear_cache c else c);
          c2 = update_challenge now ch c1;
          c3 = (if dc_qop ch \<noteq> None then c2\<lparr>cr_nc := cr_nc c2 + 1\<rparr> else c2);
          response = compute_response md5 sha256 ch (cr_username c3) (cr_password c3) meth uri (cr_nc c3) cnonce
      in (c3, build_auth_header ch (cr_username c3) uri response (cr_nc c3) cnonce header_type))"

definition cached_challenge :: "string \<Rightarrow> string \<Rightarrow> digest_credentials \<Rightarrow> digest_challenge" where
  "cached_challenge realm nonce c =
     \<lparr>dc_realm = realm, dc_nonce = nonce, dc_opaque = cr_cached_opaque c, dc_qop = cr_cached_qop c,
      dc_algorithm = cr_cached_algorithm c, dc_stale = False\<rparr>"

definition authorize_cached ::
  "(string \<Rightarrow> string) \<Rightarrow> (string \<Rightarrow> string) \<Rightarrow> string \<Rightarrow> nat \<Rightarrow> string \<Rightarrow> string
   \<Rightarrow> auth_header_type \<Rightarrow> digest_credentials \<Rightarrow> digest_credentials \<times> string option" where
  "authorize_cached md5 sha256 cnonce now meth uri header_type c =
     (if nonce_expired now c then (clear_cache c, None)
      else
        (case (cr_cached_nonce c, cr_cached_realm c) of
           (Some nonce, Some realm) \<Rightarrow>
             (let (c', h) = authorize md5 sha256 cnonce now (cached_challenge realm nonce c) meth uri header_type c
              in (c', Some h))
         | _ \<Rightarrow> (c, None)))"

end
