(* ===== verification/Sip_Digest_Props.thy ===== *)
theory Sip_Digest_Props
  imports Sip_Digest
begin

text \<open>
  What makes digest authentication correct: a server that reads the header with the same grammar
  and recomputes the response accepts it, and no nonce count is used twice with a nonce.
\<close>

section \<open>Reading back a built header\<close>

fun quotable :: "string \<Rightarrow> bool" where
  "quotable [] = True"
| "quotable [c] = (c \<noteq> dquote \<and> c \<noteq> backslash)"
| "quotable (c # d # cs) = (c \<noteq> dquote \<and> (if c = backslash then quotable cs else quotable (d # cs)))"

lemma scan_quotable: "quotable v \<Longrightarrow> scan_quoted (v @ dquote # r) = (v, dquote # r)"
proof (induction v rule: quotable.induct)
  case 1
  show ?case by (cases r) simp_all
next
  case (2 c)
  then show ?case by (cases r) simp_all
next
  case (3 c d cs)
  then show ?case by (cases "c = backslash") simp_all
qed

lemma plain_quotable: "list_all (\<lambda>c. c \<noteq> dquote \<and> c \<noteq> backslash) v \<Longrightarrow> quotable v"
  by (induction v rule: quotable.induct) auto

definition key_ok :: "string \<Rightarrow> bool" where
  "key_ok k \<longleftrightarrow> k \<noteq> []
     \<and> list_all (\<lambda>c. c \<noteq> CHR ''='' \<and> c \<noteq> CHR '','' \<and> \<not> is_ws c \<and> to_lower c = c) k"

definition plain_value :: "string \<Rightarrow> bool" where
  "plain_value v \<longleftrightarrow> v \<noteq> [] \<and> list_all (\<lambda>c. c \<noteq> CHR '','' \<and> \<not> is_ws c \<and> c \<noteq> dquote) v"

lemma blank_ws: "is_blank c \<Longrightarrow> is_ws c"
  by (auto simp: is_blank_def is_ws_def)

lemma takeWhile_key:
  assumes "list_all P k" and "\<not> P c"
  shows "takeWhile P (k @ c # r) = k" and "dropWhile P (k @ c # r) = c # r"
  using assms by (simp_all add: list_all_iff takeWhile_append2 dropWhile_append2)

lemma parse_key:
  assumes k: "key_ok k"
  shows "parse_params_from (k @ CHR ''='' # s) m =
    (let (v, s3) = param_value (dropWhile is_blank s) in parse_params_from s3 (m(k \<mapsto> v)))"
proof -
  let ?stop = "\<lambda>c. c = CHR ''='' \<or> c = CHR '',''"
  have l: "list_all (\<lambda>c. \<not> ?stop c) k" "list_all (\<lambda>c. \<not> is_ws c) k" "k \<noteq> []" "to_lowercase k = k"
    using k by (auto simp: key_ok_def list_all_iff to_lowercase_def intro: map_idI)
  have hd: "\<not> (hd k = CHR '','' \<or> is_blank (hd k))"
    using k blank_ws by (cases k) (auto simp: key_ok_def)
  have skip: "dropWhile (\<lambda>c. c = CHR '','' \<or> is_blank c) (k @ CHR ''='' # s) = k @ CHR ''='' # s"
    using l(3) hd by (cases k) auto
  have tk: "takeWhile (\<lambda>c. \<not> ?stop c) (k @ CHR ''='' # s) = k"
    "dropWhile (\<lambda>c. \<not> ?stop c) (k @ CHR ''='' # s) = CHR ''='' # s"
    using takeWhile_key [OF l(1)] by simp_all
  show ?thesis
    by (subst parse_params_from.simps)
      (simp only: Let_def skip tk trim_id [OF l(2)] l, simp add: l(3))
qed

lemma parse_quoted:
  assumes "key_ok k" and "quotable v"
  shows "parse_params_from (quoted k v @ rest) m = parse_params_from rest (m(k \<mapsto> v))"
proof -
  have "quoted k v @ rest = k @ CHR ''='' # dquote # v @ dquote # rest" by (simp add: quoted_def)
  moreover have "dropWhile is_blank (dquote # v @ dquote # rest) = dquote # v @ dquote # rest"
    by (simp add: is_blank_def dquote_def)
  ultimately show ?thesis
    using scan_quotable [OF assms(2), of rest] by (simp add: parse_key [OF assms(1)] param_value_def)
qed

lemma parse_plain:
  assumes "key_ok k" and "plain_value v" and "rest = [] \<or> hd rest = CHR '',''"
  shows "parse_params_from (k @ ''='' @ v @ rest) m = parse_params_from rest (m(k \<mapsto> v))"
proof -
  let ?stop = "\<lambda>c. c = CHR '','' \<or> is_blank c"
  have v: "list_all (\<lambda>c. \<not> ?stop c) v" "list_all (\<lambda>c. \<not> is_ws c) v" "v \<noteq> []" "hd v \<noteq> dquote"
    "\<not> is_blank (hd v)"
    using assms(2) by (cases v; auto simp: plain_value_def list_all_iff dest: blank_ws)+
  have drop: "dropWhile is_blank (v @ rest) = v @ rest" using v(3,5) by (cases v) auto
  have tk: "takeWhile (\<lambda>c. \<not> ?stop c) (v @ rest) = v" "dropWhile (\<lambda>c. \<not> ?stop c) (v @ rest) = rest"
    using takeWhile_key [OF v(1)] assms(3) v(1)
    by (cases rest; simp add: takeWhile_eq_all_conv dropWhile_eq_Nil_conv list_all_iff)+
  have "param_value (v @ rest) = (v, rest)"
    using v(3,4) by (simp only: param_value_def Let_def tk trim_id [OF v(2)]) simp
  then show ?thesis using parse_key [OF assms(1), of "v @ rest" m] by (simp add: drop)
qed

lemma parse_separator:
  "parse_params_from (CHR '','' # CHR '' '' # s) m = parse_params_from s m"
  "parse_params_from (CHR '' '' # s) m = parse_params_from s m"
  by (subst (1 2) parse_params_from.simps, simp add: is_blank_def)+

text \<open>A parameter as written: quoted or plain.\<close>

type_synonym param = "string \<times> bool \<times> string"

fun render :: "param \<Rightarrow> string" where
  "render (k, q, v) = (if q then quoted k v else k @ ''='' @ v)"

fun param_ok :: "param \<Rightarrow> bool" where
  "param_ok (k, q, v) = (key_ok k \<and> (if q then quotable v else plain_value v))"

lemma parse_tail:
  "list_all param_ok ps \<Longrightarrow> parse_params_from (concat (map (\<lambda>p. '', '' @ render p) ps)) m
     = foldl (\<lambda>m (k, q, v). m(k \<mapsto> v)) m ps"
proof (induction ps arbitrary: m)
  case Nil
  show ?case by (subst parse_params_from.simps) simp
next
  case (Cons p ps)
  obtain k q v where p: "p = (k, q, v)" by (cases p) auto
  let ?r = "concat (map (\<lambda>p. '', '' @ render p) ps)"
  have r: "?r = [] \<or> hd ?r = CHR '',''" by (cases ps) auto
  have "parse_params_from (render p @ ?r) m = parse_params_from ?r (m(k \<mapsto> v))"
    using Cons.prems parse_quoted [of k v ?r m] parse_plain [of k v ?r m] r by (cases q) (simp_all add: p)
  then show ?case using Cons parse_separator(1) by (simp add: p)
qed

lemma parse_rendered:
  assumes "list_all param_ok (p # ps)"
  shows "parse_params (CHR '' '' # render p @ concat (map (\<lambda>p. '', '' @ render p) ps))
     = foldl (\<lambda>m (k, q, v). m(k \<mapsto> v)) Map.empty (p # ps)"
proof -
  have "parse_params (CHR '' '' # render p @ concat (map (\<lambda>p. '', '' @ render p) ps))
      = parse_params_from (concat (map (\<lambda>p. '', '' @ render p) (p # ps))) Map.empty"
    by (simp add: parse_params_def parse_separator)
  then show ?thesis using parse_tail [OF assms] by simp
qed

section \<open>The user name\<close>

fun unescape :: "string \<Rightarrow> string" where
  "unescape [] = []"
| "unescape [c] = [c]"
| "unescape (c # d # cs) = (if c = backslash then d # unescape cs else c # unescape (d # cs))"

lemma escape_username_Cons:
  "escape_username (c # u) = (if c = backslash then [backslash, backslash] else if c = dquote then [backslash, dquote] else [c])
     @ escape_username u"
  by (simp add: escape_username_def replace_char_def dquote_def backslash_def)

lemma escape_username_Nil [simp]: "escape_username [] = []"
  by (simp add: escape_username_def replace_char_def)

lemma dquote_not_backslash [simp]: "dquote \<noteq> backslash" "backslash \<noteq> dquote"
  by (simp_all add: dquote_def backslash_def)

lemma unescape_Cons: "c \<noteq> backslash \<Longrightarrow> unescape (c # s) = c # unescape s"
  by (cases s) simp_all

lemma quotable_Cons: "c \<noteq> backslash \<Longrightarrow> c \<noteq> dquote \<Longrightarrow> quotable (c # s) = quotable s"
  by (cases s) simp_all

lemma escaped_username: "unescape (escape_username u) = u" "quotable (escape_username u)"
  by (induction u) (auto simp: escape_username_Cons unescape_Cons quotable_Cons)

section \<open>The server's side\<close>

text \<open>The parameters of a built header.\<close>

definition auth_params ::
  "digest_challenge \<Rightarrow> string \<Rightarrow> string \<Rightarrow> string \<Rightarrow> u32 \<Rightarrow> string \<Rightarrow> param list" where
  "auth_params ch username uri response nc cnonce =
     [(''username'', True, escape_username username), (''realm'', True, dc_realm ch),
      (''nonce'', True, dc_nonce ch), (''uri'', True, uri), (''response'', True, response),
      (''algorithm'', False, show_algorithm (dc_algorithm ch))]
     @ (case dc_qop ch of
          Some q \<Rightarrow> [(''qop'', False, show_qop q), (''nc'', False, hex8 nc), (''cnonce'', True, cnonce)]
        | None \<Rightarrow> [])
     @ (case dc_opaque ch of Some o' \<Rightarrow> [(''opaque'', True, o')] | None \<Rightarrow> [])"

lemma header_rendered:
  "drop 6 (build_auth_header ch username uri response nc cnonce header_type)
     = CHR '' '' # render (hd (auth_params ch username uri response nc cnonce))
       @ concat (map (\<lambda>p. '', '' @ render p) (tl (auth_params ch username uri response nc cnonce)))"
  by (simp add: build_auth_header_def auth_params_def join_def split: option.split)

definition header_clean :: "digest_challenge \<Rightarrow> string \<Rightarrow> string \<Rightarrow> bool" where
  "header_clean ch uri cnonce \<longleftrightarrow> quotable (dc_realm ch) \<and> quotable (dc_nonce ch) \<and> quotable uri
     \<and> quotable cnonce \<and> (case dc_opaque ch of Some o' \<Rightarrow> quotable o' | None \<Rightarrow> True)"

lemma hex_digit_plain: "n < 16 \<Longrightarrow> hex_digit n \<noteq> CHR '','' \<and> \<not> is_ws (hex_digit n) \<and> hex_digit n \<noteq> dquote"
proof -
  assume "n < 16"
  then have "(of_char (hex_digit n) :: nat) \<ge> 48"
    by (auto simp: hex_digit_def of_digit_char)
  then show ?thesis by (auto simp: is_ws_def dquote_def)
qed

lemma hex8_plain: "plain_value (hex8 w)"
  by (simp add: plain_value_def hex8_def hex_digit_plain)

lemma auth_params_ok:
  assumes "header_clean ch uri cnonce" and "quotable response"
  shows "list_all param_ok (auth_params ch username uri response nc cnonce)"
proof -
  have keys: "key_ok ''username''" "key_ok ''realm''" "key_ok ''nonce''" "key_ok ''uri''" "key_ok ''response''"
    "key_ok ''algorithm''" "key_ok ''qop''" "key_ok ''nc''" "key_ok ''cnonce''" "key_ok ''opaque''"
    by (simp_all add: key_ok_def is_ws_def to_lower_def)
  have vals: "plain_value (show_algorithm a)" "plain_value (show_qop q)" for a q
    by (cases a; simp add: plain_value_def is_ws_def dquote_def)
      (cases q; simp add: plain_value_def is_ws_def dquote_def)
  show ?thesis
    using assms escaped_username(2) hex8_plain
    by (auto simp: auth_params_def header_clean_def keys vals split: option.split)
qed

text \<open>The response a server computes from the parameters it has read, by the formulas of RFC 2617 and RFC 7616 on the text of
  the parameters, with the user's password.\<close>

definition rfc_response ::
  "(string \<Rightarrow> string) \<Rightarrow> (string \<rightharpoonup> string) \<Rightarrow> string \<Rightarrow> string \<Rightarrow> string \<Rightarrow> string option" where
  "rfc_response H ps username password meth =
     (case (ps ''realm'', ps ''nonce'', ps ''uri'') of
        (Some realm, Some nonce, Some uri) \<Rightarrow>
          (let a1 = H (join '':'' [username, realm, password]);
               ha2 = H (join '':'' [meth, uri])
           in case (ps ''qop'', ps ''nc'', ps ''cnonce'') of
                (Some q, Some nc, Some cnonce) \<Rightarrow>
                  (let ha1 = (if ps ''algorithm'' = Some ''MD5-sess'' then H (join '':'' [a1, nonce, cnonce]) else a1)
                   in Some (H (join '':'' [ha1, nonce, nc, cnonce, q, ha2])))
              | _ \<Rightarrow> if ps ''algorithm'' = Some ''MD5-sess'' then None
                     else Some (H (join '':'' [a1, nonce, ha2])))
      | _ \<Rightarrow> None)"

definition server_accepts ::
  "(string \<Rightarrow> string) \<Rightarrow> (string \<Rightarrow> string) \<Rightarrow> digest_challenge \<Rightarrow> string \<Rightarrow> string \<Rightarrow> string \<Rightarrow> string \<Rightarrow> bool" where
  "server_accepts md5 sha256 ch username password meth header =
     (let ps = parse_params (drop 6 header)
      in starts_with ''Digest'' header
         \<and> map_option unescape (ps ''username'') = Some username
         \<and> ps ''realm'' = Some (dc_realm ch) \<and> ps ''nonce'' = Some (dc_nonce ch)
         \<and> ps ''opaque'' = dc_opaque ch
         \<and> ps ''response'' \<noteq> None
         \<and> ps ''response'' = rfc_response (digest_hash md5 sha256 (dc_algorithm ch)) ps username password meth)"

lemma parse_built_header:
  assumes "header_clean ch uri cnonce" and "quotable response"
  shows "parse_params (drop 6 (build_auth_header ch username uri response nc cnonce header_type))
     = foldl (\<lambda>m (k, q, v). m(k \<mapsto> v)) Map.empty (auth_params ch username uri response nc cnonce)"
proof -
  have ne: "auth_params ch username uri response nc cnonce \<noteq> []" by (simp add: auth_params_def)
  then have "hd (auth_params ch username uri response nc cnonce) # tl (auth_params ch username uri response nc cnonce)
      = auth_params ch username uri response nc cnonce" by simp
  with parse_rendered [of "hd (auth_params ch username uri response nc cnonce)"
      "tl (auth_params ch username uri response nc cnonce)"] auth_params_ok [OF assms]
  show ?thesis unfolding header_rendered by simp
qed

lemma authorize_header:
  "snd (authorize md5 sha256 cnonce now ch meth uri header_type c) =
     (let nc = cr_nc (fst (authorize md5 sha256 cnonce now ch meth uri header_type c))
      in build_auth_header ch (cr_username c) uri
           (compute_response md5 sha256 ch (cr_username c) (cr_password c) meth uri nc cnonce) nc cnonce header_type)"
proof -
  have "cr_username (clear_cache c) = cr_username c" "cr_password (clear_cache c) = cr_password c"
    "cr_username (update_challenge now ch c') = cr_username c'"
    "cr_password (update_challenge now ch c') = cr_password c'" for c c'
    by (simp_all add: clear_cache_def update_challenge_def)
  then show ?thesis by (simp add: authorize_def Let_def)
qed

lemma built_header_accepted:
  assumes "header_clean ch uri cnonce" and "dc_algorithm ch = Md5Sess \<longrightarrow> dc_qop ch \<noteq> None"
    and "\<forall>t. quotable (md5 t) \<and> quotable (sha256 t)"
  shows "server_accepts md5 sha256 ch u p meth
    (build_auth_header ch u uri (compute_response md5 sha256 ch u p meth uri nc cnonce) nc cnonce header_type)"
proof -
  let ?r = "compute_response md5 sha256 ch u p meth uri nc cnonce"
  have r: "quotable ?r"
    using assms(3) by (auto simp: compute_response_def Let_def digest_hash_def split: option.split digest_algorithm.split)
  have start: "starts_with ''Digest'' (build_auth_header ch u uri ?r nc cnonce header_type)"
    by (simp add: build_auth_header_def join_def starts_with_def)
  show ?thesis
    unfolding server_accepts_def Let_def parse_built_header [OF assms(1) r]
    using assms(2) start escaped_username(1)
    by (cases "dc_qop ch"; cases "dc_opaque ch"; cases "dc_algorithm ch")
      (simp_all add: auth_params_def rfc_response_def compute_response_def join_def Let_def)
qed


text \<open>Under MD5-sess without a qop the response depends on a client nonce that the header does not carry.\<close>

lemma md5_sess_without_cnonce:
  assumes "header_clean ch uri cnonce" and "quotable response" and "dc_qop ch = None"
  shows "parse_params (drop 6 (build_auth_header ch u uri response nc cnonce header_type)) ''cnonce'' = None"
  unfolding parse_built_header [OF assms(1,2)] using assms(3)
  by (cases "dc_opaque ch") (simp_all add: auth_params_def)

section \<open>Nonce counts\<close>

datatype digest_op =
    AuthOp string nat digest_challenge string string auth_header_type
  | CachedOp string nat string string auth_header_type
  | ClearOp

text \<open>One operation: the credentials after it, and the nonce with its count if the header carries them.\<close>

fun digest_step :: "(string \<Rightarrow> string) \<Rightarrow> (string \<Rightarrow> string) \<Rightarrow> digest_credentials \<Rightarrow> digest_op
    \<Rightarrow> digest_credentials \<times> (string \<times> u32) list" where
  "digest_step md5 sha256 c (AuthOp cnonce now ch meth uri ht) =
     (let c' = fst (authorize md5 sha256 cnonce now ch meth uri ht c)
      in (c', if dc_qop ch \<noteq> None then [(dc_nonce ch, cr_nc c')] else []))"
| "digest_step md5 sha256 c (CachedOp cnonce now meth uri ht) =
     (case authorize_cached md5 sha256 cnonce now meth uri ht c of
        (c', Some _) \<Rightarrow> (c', if cr_cached_qop c \<noteq> None then [(the (cr_cached_nonce c), cr_nc c')] else [])
      | (c', None) \<Rightarrow> (c', []))"
| "digest_step md5 sha256 c ClearOp = (clear_cache c, [])"

fun counts_sent :: "(string \<Rightarrow> string) \<Rightarrow> (string \<Rightarrow> string) \<Rightarrow> digest_credentials \<Rightarrow> digest_op list
    \<Rightarrow> (string \<times> u32) list" where
  "counts_sent md5 sha256 c [] = []"
| "counts_sent md5 sha256 c (op # ops) =
     (let (c', sent) = digest_step md5 sha256 c op in sent @ counts_sent md5 sha256 c' ops)"

text \<open>An operation restarts the count when it brings a nonce that is not the cached one, or that is
  marked stale. The server is fresh if it never brings back a nonce it has used before.\<close>

definition restarts :: "digest_credentials \<Rightarrow> nat \<Rightarrow> digest_challenge \<Rightarrow> bool" where
  "restarts c now ch \<longleftrightarrow> nonce_expired now c \<or> (dc_stale ch \<and> cr_cached_nonce c \<noteq> None)
     \<or> cr_cached_nonce c \<noteq> Some (dc_nonce ch)"

fun server_fresh :: "(string \<Rightarrow> string) \<Rightarrow> (string \<Rightarrow> string) \<Rightarrow> digest_credentials \<Rightarrow> string list
    \<Rightarrow> digest_op list \<Rightarrow> bool" where
  "server_fresh md5 sha256 c seen [] = True"
| "server_fresh md5 sha256 c seen (op # ops) =
     ((case op of AuthOp _ now ch _ _ _ \<Rightarrow> restarts c now ch \<longrightarrow> dc_nonce ch \<notin> set seen | _ \<Rightarrow> True)
      \<and> server_fresh md5 sha256 (fst (digest_step md5 sha256 c op))
           (case op of AuthOp _ _ ch _ _ _ \<Rightarrow> dc_nonce ch # seen | _ \<Rightarrow> seen) ops)"

definition count_inv :: "string list \<Rightarrow> (string \<times> u32) list \<Rightarrow> digest_credentials \<Rightarrow> nat \<Rightarrow> bool" where
  "count_inv seen sent c k \<longleftrightarrow> distinct sent \<and> fst ` set sent \<subseteq> set seen
     \<and> (case cr_cached_nonce c of None \<Rightarrow> True
         | Some n \<Rightarrow> n \<in> set seen \<and> (\<forall>j. (n, j) \<in> set sent \<longrightarrow> j \<le> cr_nc c))
     \<and> unat (cr_nc c) \<le> k"

lemma authorize_effect:
  shows "cr_cached_nonce (fst (authorize md5 sha256 cnonce now ch meth uri ht c)) = Some (dc_nonce ch)"
    and "cr_nc (fst (authorize md5 sha256 cnonce now ch meth uri ht c)) =
      (if restarts c now ch then 0 else cr_nc c) + (if dc_qop ch \<noteq> None then 1 else 0)"
  by (auto simp: authorize_def Let_def restarts_def update_challenge_def clear_cache_def)

lemma nc_increment: "unat (n :: u32) < 4294967295 \<Longrightarrow> unat (n + 1) = unat n + 1"
  by (simp add: unat_word_ariths)

lemma authorize_count:
  assumes inv: "count_inv seen sent c k" and k: "k < 4294967295"
    and fresh: "restarts c now ch \<Longrightarrow> dc_nonce ch \<notin> set seen"
    and c': "c' = fst (authorize md5 sha256 cnonce now ch meth uri ht c)"
  shows "count_inv (dc_nonce ch # seen)
    (sent @ (if dc_qop ch \<noteq> None then [(dc_nonce ch, cr_nc c')] else [])) c' (Suc k)"
proof -
  define base where "base = (if restarts c now ch then 0 else cr_nc c)"
  have base: "unat base \<le> k" using inv by (simp add: base_def count_inv_def)
  have below: "j \<le> base" if "(dc_nonce ch, j) \<in> set sent" for j
  proof (cases "restarts c now ch")
    case True
    with fresh inv that show ?thesis by (force simp: count_inv_def)
  next
    case False
    with inv that show ?thesis by (auto simp: count_inv_def restarts_def base_def)
  qed
  have nc: "cr_nc c' = base + (if dc_qop ch \<noteq> None then 1 else 0)"
    "cr_cached_nonce c' = Some (dc_nonce ch)"
    unfolding c' base_def authorize_effect by simp_all
  have up: "base < base + 1" "unat (base + 1) = unat base + 1"
    using base k nc_increment [of base] by (simp_all add: word_less_nat_alt)
  have sent: "distinct sent" "fst ` set sent \<subseteq> set seen" using inv by (simp_all add: count_inv_def)
  show ?thesis
  proof (cases "dc_qop ch = None")
    case True
    with nc sent below base show ?thesis by (auto simp: count_inv_def)
  next
    case False
    have "(dc_nonce ch, base + 1) \<notin> set sent" using below up(1) by (meson leD)
    moreover have "j \<le> base + 1" if "(dc_nonce ch, j) \<in> set sent" for j
      using below [OF that] up(1) by simp
    ultimately show ?thesis using False nc sent base up by (auto simp: count_inv_def)
  qed
qed

lemma cached_fresh:
  assumes "\<not> nonce_expired now c" and "cr_cached_nonce c = Some n"
  shows "\<not> restarts c now (cached_challenge realm n c)"
  using assms by (simp add: restarts_def cached_challenge_def)

lemma count_inv_seen: "count_inv seen sent c k \<Longrightarrow> set seen = set seen' \<Longrightarrow> count_inv seen' sent c k"
  by (simp add: count_inv_def split: option.splits)

lemma step_count:
  assumes inv: "count_inv seen sent c k" and k: "k < 4294967295"
    and fresh: "server_fresh md5 sha256 c seen (op # ops)"
  shows "count_inv (case op of AuthOp _ _ ch _ _ _ \<Rightarrow> dc_nonce ch # seen | _ \<Rightarrow> seen)
    (sent @ snd (digest_step md5 sha256 c op)) (fst (digest_step md5 sha256 c op)) (Suc k)"
proof (cases op)
  case (AuthOp cnonce now ch meth uri ht)
  with authorize_count [OF inv k _ refl, of now ch md5 sha256 cnonce meth uri ht] fresh
  show ?thesis by (simp add: Let_def)
next
  case (CachedOp cnonce now meth uri ht)
  have clear: "count_inv seen sent (clear_cache c) (Suc k)" "count_inv seen sent c (Suc k)"
    using inv by (auto simp: count_inv_def clear_cache_def split: option.splits)
  show ?thesis
  proof (cases "\<not> nonce_expired now c \<and> cr_cached_nonce c \<noteq> None \<and> cr_cached_realm c \<noteq> None")
    case False
    then show ?thesis
      using CachedOp clear by (auto simp: authorize_cached_def split: option.splits)
  next
    case True
    then obtain n r where nr: "cr_cached_nonce c = Some n" "cr_cached_realm c = Some r" "\<not> nonce_expired now c"
      by auto
    let ?ch = "cached_challenge r n c"
    have seen: "set (dc_nonce ?ch # seen) = set seen"
      using inv nr(1) by (auto simp: count_inv_def cached_challenge_def)
    have eq: "digest_step md5 sha256 c op = digest_step md5 sha256 c (AuthOp cnonce now ?ch meth uri ht)"
      using nr by (simp add: CachedOp authorize_cached_def Let_def cached_challenge_def split: prod.split)
    from count_inv_seen [OF authorize_count [OF inv k _ refl, of now ?ch md5 sha256 cnonce meth uri ht] seen]
      cached_fresh [OF nr(3,1)]
    show ?thesis unfolding eq by (simp add: CachedOp Let_def)
  qed
next
  case ClearOp
  then show ?thesis using inv by (auto simp: count_inv_def clear_cache_def)
qed

lemma counts_distinct:
  assumes "count_inv seen sent c k" and "server_fresh md5 sha256 c seen ops" and "k + length ops < 4294967296"
  shows "distinct (sent @ counts_sent md5 sha256 c ops)"
  using assms
proof (induction ops arbitrary: seen sent c k)
  case Nil
  then show ?case by (simp add: count_inv_def)
next
  case (Cons op ops)
  have "k < 4294967295" using Cons.prems(3) by simp
  from Cons.IH [OF step_count [OF Cons.prems(1) this Cons.prems(2)]] Cons.prems(2,3)
  show ?case by (simp add: case_prod_beta Let_def)
qed

text \<open>No nonce is used twice with the same count: over any authorizations, cached ones and cache clearings,
  the pairs of nonce and count sent to a server are distinct, provided the server never brings back a nonce
  it has replaced and marks no current nonce stale.\<close>

theorem nonce_counts_unique:
  assumes "server_fresh md5 sha256 (credentials_new u p) [] ops" and "length ops < 4294967296"
  shows "distinct (counts_sent md5 sha256 (credentials_new u p) ops)"
proof -
  have "count_inv [] [] (credentials_new u p) 0" by (simp add: count_inv_def credentials_new_def)
  from counts_distinct [OF this assms(1)] assms(2) show ?thesis by simp
qed

text \<open>Answering the same stale challenge twice uses its nonce twice with the count one.\<close>

lemma stale_count_reused:
  assumes "dc_stale ch" and "dc_qop ch = Some QopAuth" and "cr_cached_nonce c \<noteq> None" and "\<not> nonce_expired now c"
  shows "counts_sent md5 sha256 c [AuthOp x now ch meth uri ht, AuthOp y now ch meth uri ht]
    = [(dc_nonce ch, 1), (dc_nonce ch, 1)]"
proof -
  have "restarts c' now ch" if "cr_cached_nonce c' \<noteq> None" for c'
    using that assms(1) by (simp add: restarts_def)
  then show ?thesis using assms(2,3) by (simp add: Let_def authorize_effect)
qed

section \<open>Witnesses\<close>

text \<open>Closed instances of the digest properties, with toy hash functions, a challenge with qop and
  opaque, and a user name that needs escaping.\<close>

definition demo_challenge :: digest_challenge where
  "demo_challenge = \<lparr>dc_realm = ''a'', dc_nonce = ''n1'', dc_opaque = Some ''o'', dc_qop = Some QopAuth,
     dc_algorithm = Md5Sess, dc_stale = False\<rparr>"

definition toy_hash :: "string \<Rightarrow> string" where
  "toy_hash t = show_nat (length t)"

lemma toy_hash_quotable: "quotable (toy_hash t)"
proof (rule plain_quotable)
  have "list_all is_digit (toy_hash t)" by (simp add: toy_hash_def show_nat_digits)
  moreover have "\<not> is_digit dquote" "\<not> is_digit backslash"
    by (simp_all add: is_digit_def dquote_def backslash_def)
  ultimately show "list_all (\<lambda>c. c \<noteq> dquote \<and> c \<noteq> backslash) (toy_hash t)"
    by (auto simp: list_all_iff)
qed

definition demo_creds :: digest_credentials where
  "demo_creds = credentials_new [CHR ''b'', dquote, CHR ''c''] ''secret''"


definition demo_digest_ops :: "digest_op list" where
  "demo_digest_ops = [AuthOp ''77'' 5 demo_challenge ''REGISTER'' ''sip:a'' Authorization,
     CachedOp ''78'' 6 ''REGISTER'' ''sip:a'' Authorization,
     AuthOp ''79'' 7 (demo_challenge\<lparr>dc_nonce := ''n2'', dc_stale := True\<rparr>) ''REGISTER'' ''sip:a'' Authorization]"

theorem nonce_counts_unique_witness:
  "distinct (counts_sent toy_hash toy_hash (credentials_new ''b'' ''c'') demo_digest_ops)
   \<and> length demo_digest_ops < 4294967296"
proof -
  have "server_fresh toy_hash toy_hash (credentials_new ''b'' ''c'') [] demo_digest_ops"
    by (simp add: demo_digest_ops_def demo_challenge_def restarts_def credentials_new_def nonce_expired_def
        authorize_def authorize_cached_def Let_def update_challenge_def cached_challenge_def)
  moreover have "length demo_digest_ops < 4294967296" by (simp add: demo_digest_ops_def)
  ultimately show ?thesis using nonce_counts_unique by blast
qed

end
