(* ===== verification/Rtp_Rtcp.thy ===== *)
theory Rtp_Rtcp
  imports Rtp_Codec
begin

text \<open>
  The packets of \<^verbatim>\<open>src/rtp/rtcp.rs\<close>: NTP timestamps, report blocks, the parsers and
  builders of SR, RR, SDES, BYE and XR. A \<^verbatim>\<open>String\<close> is the list of its bytes. A builder
  returns the bytes it writes at the head of its buffer; a parser reads its packet as a list of
  bytes. The \<^verbatim>\<open>i32\<close> of the cumulative loss is its two's complement word.
\<close>

definition PT_SR :: byte where "PT_SR = 200"
definition PT_RR :: byte where "PT_RR = 201"
definition PT_SDES :: byte where "PT_SDES = 202"
definition PT_BYE :: byte where "PT_BYE = 203"
definition PT_XR :: byte where "PT_XR = 207"
definition NTP_EPOCH_OFFSET :: nat where "NTP_EPOCH_OFFSET = 2208988800"
definition SDES_CNAME :: byte where "SDES_CNAME = 1"

lemmas pt_defs = PT_SR_def PT_RR_def PT_SDES_def PT_BYE_def PT_XR_def

record ntp_timestamp =
  ntp_seconds :: u32
  ntp_fraction :: u32

text \<open>The system time is given as the seconds and nanoseconds since 1970.\<close>

definition ntp_now :: "nat \<Rightarrow> nat \<Rightarrow> ntp_timestamp" where
  "ntp_now unix_secs nanos =
     \<lparr>ntp_seconds = of_nat (unix_secs + NTP_EPOCH_OFFSET),
      ntp_fraction = of_nat (nanos * 2 ^ 32 div 1000000000)\<rparr>"

definition ntp_compact :: "ntp_timestamp \<Rightarrow> u32" where
  "ntp_compact t =
     push_bit 16 (ntp_seconds t AND 0xFFFF) OR (drop_bit 16 (ntp_fraction t) AND 0xFFFF)"

definition ntp_bytes :: "ntp_timestamp \<Rightarrow> bytes" where
  "ntp_bytes t = be32 (ntp_seconds t) @ be32 (ntp_fraction t)"

definition ntp_parse :: "bytes \<Rightarrow> ntp_timestamp" where
  "ntp_parse b = \<lparr>ntp_seconds = rd32 b 0, ntp_fraction = rd32 b 4\<rparr>"

record report_block =
  rb_ssrc :: u32
  rb_fraction_lost :: byte
  rb_cumulative_lost :: u32
  rb_extended_highest_seq :: u32
  rb_jitter :: u32
  rb_last_sr :: u32
  rb_delay_since_last_sr :: u32

definition RB_SIZE :: nat where "RB_SIZE = 24"

definition block_bytes :: "report_block \<Rightarrow> bytes" where
  "block_bytes rb =
     (let cum = rb_cumulative_lost rb AND 0x00FFFFFF
      in be32 (rb_ssrc rb)
         @ [rb_fraction_lost rb, ucast (drop_bit 16 cum AND 0xFF), ucast (drop_bit 8 cum AND 0xFF),
            ucast (cum AND 0xFF)]
         @ be32 (rb_extended_highest_seq rb) @ be32 (rb_jitter rb) @ be32 (rb_last_sr rb)
         @ be32 (rb_delay_since_last_sr rb))"

definition sign_extend_24 :: "u32 \<Rightarrow> u32" where
  "sign_extend_24 raw = (if raw AND 0x00800000 \<noteq> 0 then raw OR push_bit 24 0xFF else raw)"

definition block_parse :: "bytes \<Rightarrow> report_block" where
  "block_parse b =
     (let cum_raw = push_bit 16 (ucast (b ! 5)) OR push_bit 8 (ucast (b ! 6)) OR ucast (b ! 7)
      in \<lparr>rb_ssrc = rd32 b 0, rb_fraction_lost = b ! 4, rb_cumulative_lost = sign_extend_24 cum_raw,
          rb_extended_highest_seq = rd32 b 8, rb_jitter = rd32 b 12, rb_last_sr = rd32 b 16,
          rb_delay_since_last_sr = rd32 b 20\<rparr>)"

record sender_report =
  sr_ssrc :: u32
  sr_ntp_timestamp :: ntp_timestamp
  sr_rtp_timestamp :: u32
  sr_packet_count :: u32
  sr_octet_count :: u32
  sr_report_blocks :: "report_block list"

record receiver_report =
  rr_ssrc :: u32
  rr_report_blocks :: "report_block list"

record sdes_chunk =
  sc_ssrc :: u32
  sc_cname :: "bytes option"

record goodbye =
  bye_sources :: "u32 list"
  bye_reason :: "bytes option"

record voip_metrics =
  vm_loss_rate :: byte
  vm_discard_rate :: byte
  vm_burst_density :: byte
  vm_gap_density :: byte
  vm_burst_duration :: u16
  vm_gap_duration :: u16
  vm_round_trip_delay :: u16
  vm_end_system_delay :: u16
  vm_signal_level :: byte
  vm_noise_level :: byte
  vm_rerl :: byte
  vm_gmin :: byte
  vm_r_factor :: byte
  vm_ext_r_factor :: byte
  vm_mos_lq :: byte
  vm_mos_cq :: byte
  vm_rx_config :: byte
  vm_jb_nominal :: u16
  vm_jb_maximum :: u16
  vm_jb_abs_max :: u16

record voip_metrics_block =
  vb_source_ssrc :: u32
  vb_metrics :: voip_metrics

record extended_report =
  xr_ssrc :: u32
  xr_voip_metrics :: "voip_metrics_block option"

datatype rtcp_packet = SenderReport sender_report | ReceiverReport receiver_report
  | SourceDescription "sdes_chunk list" | Goodbye goodbye | ExtendedReport extended_report
  | UnknownRtcp byte

section \<open>Parsing\<close>

text \<open>The report blocks from an offset on, as many as announced and present.\<close>

fun parse_blocks :: "bytes \<Rightarrow> nat \<Rightarrow> nat \<Rightarrow> report_block list" where
  "parse_blocks d off 0 = []"
| "parse_blocks d off (Suc rc) =
     (if off + RB_SIZE > length d then []
      else block_parse (drop off d) # parse_blocks d (off + RB_SIZE) rc)"

definition parse_sender_report :: "bytes \<Rightarrow> nat \<Rightarrow> sender_report option" where
  "parse_sender_report d rc =
     (if length d < 28 then None
      else Some \<lparr>sr_ssrc = rd32 d 4, sr_ntp_timestamp = ntp_parse (take 8 (drop 8 d)),
                sr_rtp_timestamp = rd32 d 16, sr_packet_count = rd32 d 20, sr_octet_count = rd32 d 24,
                sr_report_blocks = parse_blocks d 28 rc\<rparr>)"

definition parse_receiver_report :: "bytes \<Rightarrow> nat \<Rightarrow> receiver_report option" where
  "parse_receiver_report d rc =
     (if length d < 8 then None
      else Some \<lparr>rr_ssrc = rd32 d 4, rr_report_blocks = parse_blocks d 8 rc\<rparr>)"

definition utf8_text :: "bytes \<Rightarrow> bytes option" where
  "utf8_text b = (if utf8_valid b then Some b else None)"

text \<open>The items of one SDES chunk: the offset after them and the CNAME.\<close>

function parse_sdes_items :: "bytes \<Rightarrow> nat \<Rightarrow> bytes option \<Rightarrow> nat \<times> bytes option" where
  "parse_sdes_items d off cname =
     (if off \<ge> length d then (off, cname)
      else if d ! off = 0 then ((off + 1 + 3) div 4 * 4, cname)
      else if off + 2 > length d then (off, cname)
      else
        (let item_len = unat (d ! (off + 1))
         in if off + 2 + item_len > length d then (off, cname)
            else parse_sdes_items d (off + 2 + item_len)
                   (if d ! off = SDES_CNAME then utf8_text (take item_len (drop (off + 2) d)) else cname)))"
  by pat_completeness auto
termination by (relation "measure (\<lambda>(d, off, cname). length d - off)") auto

declare parse_sdes_items.simps [simp del]

fun parse_sdes_chunks :: "bytes \<Rightarrow> nat \<Rightarrow> nat \<Rightarrow> sdes_chunk list" where
  "parse_sdes_chunks d off 0 = []"
| "parse_sdes_chunks d off (Suc sc) =
     (if off + 4 > length d then []
      else
        (let (off', cname) = parse_sdes_items d (off + 4) None
         in \<lparr>sc_ssrc = rd32 d off, sc_cname = cname\<rparr> # parse_sdes_chunks d off' sc))"

definition parse_sdes :: "bytes \<Rightarrow> nat \<Rightarrow> sdes_chunk list option" where
  "parse_sdes d sc = Some (parse_sdes_chunks d 4 sc)"

text \<open>The sources of a BYE and the offset after them.\<close>

fun parse_sources :: "bytes \<Rightarrow> nat \<Rightarrow> nat \<Rightarrow> u32 list \<times> nat" where
  "parse_sources d off 0 = ([], off)"
| "parse_sources d off (Suc sc) =
     (if off + 4 > length d then ([], off)
      else (let (ss, off') = parse_sources d (off + 4) sc in (rd32 d off # ss, off')))"

definition parse_bye :: "bytes \<Rightarrow> nat \<Rightarrow> goodbye option" where
  "parse_bye d sc =
     (let (sources, off) = parse_sources d 4 sc;
          reason = (if off < length d
             then (let reason_len = unat (d ! off)
                   in if off + 1 + reason_len \<le> length d
                      then utf8_text (take reason_len (drop (off + 1) d)) else None)
             else None)
      in Some \<lparr>bye_sources = sources, bye_reason = reason\<rparr>)"

definition VM_BLOCK_TYPE :: byte where "VM_BLOCK_TYPE = 7"

definition metrics_bytes :: "voip_metrics \<Rightarrow> bytes" where
  "metrics_bytes m =
     [vm_loss_rate m, vm_discard_rate m, vm_burst_density m, vm_gap_density m]
     @ be16 (vm_burst_duration m) @ be16 (vm_gap_duration m) @ be16 (vm_round_trip_delay m)
     @ be16 (vm_end_system_delay m)
     @ [vm_signal_level m, vm_noise_level m, vm_rerl m, vm_gmin m, vm_r_factor m, vm_ext_r_factor m,
        vm_mos_lq m, vm_mos_cq m, vm_rx_config m, 0]
     @ be16 (vm_jb_nominal m) @ be16 (vm_jb_maximum m) @ be16 (vm_jb_abs_max m)"

definition metrics_parse :: "bytes \<Rightarrow> voip_metrics option" where
  "metrics_parse b =
     (if length b < 28 then None
      else Some \<lparr>vm_loss_rate = b ! 0, vm_discard_rate = b ! 1, vm_burst_density = b ! 2,
        vm_gap_density = b ! 3, vm_burst_duration = rd16 b 4, vm_gap_duration = rd16 b 6,
        vm_round_trip_delay = rd16 b 8, vm_end_system_delay = rd16 b 10, vm_signal_level = b ! 12,
        vm_noise_level = b ! 13, vm_rerl = b ! 14, vm_gmin = b ! 15, vm_r_factor = b ! 16,
        vm_ext_r_factor = b ! 17, vm_mos_lq = b ! 18, vm_mos_cq = b ! 19, vm_rx_config = b ! 20,
        vm_jb_nominal = rd16 b 22, vm_jb_maximum = rd16 b 24,
        vm_jb_abs_max = (if length b \<ge> 28 then rd16 b 26 else 0)\<rparr>)"

function parse_xr_blocks :: "bytes \<Rightarrow> nat \<Rightarrow> voip_metrics_block option \<Rightarrow> voip_metrics_block option" where
  "parse_xr_blocks d off vm =
     (if off + 4 \<le> length d then
        (let block_data_len = unat (rd16 d (off + 2)) * 4
         in if off + 4 + block_data_len > length d then vm
            else
              (let body = take block_data_len (drop (off + 4) d);
                   vm' = (if d ! off = VM_BLOCK_TYPE \<and> length body \<ge> 32
                          then (case metrics_parse (drop 4 body) of
                                  Some m \<Rightarrow> Some \<lparr>vb_source_ssrc = rd32 body 0, vb_metrics = m\<rparr>
                                | None \<Rightarrow> vm)
                          else vm)
               in parse_xr_blocks d (off + 4 + block_data_len) vm'))
      else vm)"
  by pat_completeness auto
termination by (relation "measure (\<lambda>(d, off, vm). Suc (length d) - off)") auto

declare parse_xr_blocks.simps [simp del]

definition parse_xr :: "bytes \<Rightarrow> extended_report option" where
  "parse_xr d =
     (if length d < 8 then None
      else Some \<lparr>xr_ssrc = rd32 d 4, xr_voip_metrics = parse_xr_blocks d 8 None\<rparr>)"

definition opt_list :: "'a option \<Rightarrow> 'a list" where
  "opt_list x = (case x of None \<Rightarrow> [] | Some y \<Rightarrow> [y])"

definition parse_one :: "byte \<Rightarrow> nat \<Rightarrow> bytes \<Rightarrow> rtcp_packet list" where
  "parse_one pt rc payload =
     (if pt = PT_SR then opt_list (map_option SenderReport (parse_sender_report payload rc))
      else if pt = PT_RR then opt_list (map_option ReceiverReport (parse_receiver_report payload rc))
      else if pt = PT_SDES then opt_list (map_option SourceDescription (parse_sdes payload rc))
      else if pt = PT_BYE then opt_list (map_option Goodbye (parse_bye payload rc))
      else if pt = PT_XR then opt_list (map_option ExtendedReport (parse_xr payload))
      else [UnknownRtcp pt])"

text \<open>The end of a packet without its padding.\<close>

definition effective_len :: "bytes \<Rightarrow> nat \<Rightarrow> nat" where
  "effective_len d packet_len =
     (if d ! 0 AND 0x20 \<noteq> 0 \<and> packet_len \<ge> 5
      then (let pad_count = unat (d ! (packet_len - 1))
            in if pad_count > 0 \<and> pad_count < packet_len - 4 then packet_len - pad_count else packet_len)
      else packet_len)"

text \<open>The loop over the packets of a compound; the argument is what remains of the data.\<close>

function parse_rtcp_compound :: "bytes \<Rightarrow> rtcp_packet list" where
  "parse_rtcp_compound d =
     (if 4 \<le> length d then
        (if drop_bit 6 (d ! 0) AND 0x03 \<noteq> 2 then []
         else
           (let rc = unat (d ! 0 AND 0x1F); pt = d ! 1; packet_len = (unat (rd16 d 2) + 1) * 4
            in if packet_len > length d then []
               else parse_one pt rc (take (effective_len d packet_len) d)
                    @ parse_rtcp_compound (drop packet_len d)))
      else [])"
  by pat_completeness auto
termination by (relation "measure length") auto

declare parse_rtcp_compound.simps [simp del]

section \<open>Building\<close>

definition rtcp_header :: "byte \<Rightarrow> bool \<Rightarrow> byte \<Rightarrow> byte \<Rightarrow> u16 \<Rightarrow> bytes" where
  "rtcp_header version padding rc pt length_words =
     [push_bit 6 version OR (if padding then 0x20 else 0) OR (rc AND 0x1F), pt] @ be16 length_words"

definition blocks_bytes :: "report_block list \<Rightarrow> bytes" where
  "blocks_bytes rbs = concat (map block_bytes (take 31 rbs))"

definition build_sender_report ::
  "u32 \<Rightarrow> ntp_timestamp \<Rightarrow> u32 \<Rightarrow> u32 \<Rightarrow> u32 \<Rightarrow> report_block list \<Rightarrow> bytes" where
  "build_sender_report ssrc ntp rtp_ts packets octets rbs =
     (let rc = min (length rbs) 31
      in rtcp_header 2 False (of_nat rc) PT_SR (of_nat (6 + rc * 6))
         @ be32 ssrc @ ntp_bytes ntp @ be32 rtp_ts @ be32 packets @ be32 octets @ blocks_bytes rbs)"

definition build_receiver_report :: "u32 \<Rightarrow> report_block list \<Rightarrow> bytes" where
  "build_receiver_report ssrc rbs =
     (let rc = min (length rbs) 31
      in rtcp_header 2 False (of_nat rc) PT_RR (of_nat (1 + rc * 6)) @ be32 ssrc @ blocks_bytes rbs)"

definition build_sdes_cname :: "u32 \<Rightarrow> bytes \<Rightarrow> bytes" where
  "build_sdes_cname ssrc cname =
     (let cname_len = min (length cname) 255;
          padded_items_len = (2 + cname_len + 1 + 3) div 4 * 4;
          total_len = 4 + 4 + padded_items_len
      in rtcp_header 2 False 1 PT_SDES (of_nat (total_len div 4 - 1))
         @ be32 ssrc @ [SDES_CNAME, of_nat cname_len] @ take cname_len cname
         @ replicate (padded_items_len - 2 - cname_len) 0)"

definition build_bye :: "u32 list \<Rightarrow> bytes option \<Rightarrow> bytes" where
  "build_bye sources reason =
     (let sc = min (length sources) 31;
          reason_len = (case reason of None \<Rightarrow> 0 | Some r \<Rightarrow> (1 + min (length r) 255 + 3) div 4 * 4);
          total_len = 4 + sc * 4 + reason_len
      in rtcp_header 2 False (of_nat sc) PT_BYE (of_nat (total_len div 4 - 1))
         @ concat (map be32 (take 31 sources))
         @ (case reason of None \<Rightarrow> []
            | Some r \<Rightarrow> (let len = min (length r) 255
                        in [of_nat len] @ take len r @ replicate (reason_len - 1 - len) 0)))"

definition build_compound_sr ::
  "u32 \<Rightarrow> ntp_timestamp \<Rightarrow> u32 \<Rightarrow> u32 \<Rightarrow> u32 \<Rightarrow> report_block list \<Rightarrow> bytes \<Rightarrow> bytes" where
  "build_compound_sr ssrc ntp rtp_ts packets octets rbs cname =
     build_sender_report ssrc ntp rtp_ts packets octets rbs @ build_sdes_cname ssrc cname"

definition build_compound_rr :: "u32 \<Rightarrow> report_block list \<Rightarrow> bytes \<Rightarrow> bytes" where
  "build_compound_rr ssrc rbs cname = build_receiver_report ssrc rbs @ build_sdes_cname ssrc cname"

definition build_xr_voip_metrics :: "u32 \<Rightarrow> u32 \<Rightarrow> voip_metrics \<Rightarrow> bytes" where
  "build_xr_voip_metrics ssrc remote_ssrc m =
     rtcp_header 2 False 0 PT_XR (of_nat (44 div 4 - 1)) @ be32 ssrc
     @ [VM_BLOCK_TYPE, 0] @ be16 8 @ be32 remote_ssrc @ metrics_bytes m"

end
