(* ===== verification/Rtp_Rtcp_Session.thy ===== *)
theory Rtp_Rtcp_Session
  imports Rtp_Rtcp Rtp_Float
begin

text \<open>
  \<^verbatim>\<open>RtcpSession\<close> of \<^verbatim>\<open>src/rtp/rtcp.rs\<close>: the statistics of one stream. Instants and
  durations are nanoseconds, the clock, the system time and the random factor of the send interval
  are arguments, \<^verbatim>\<open>f64\<close> values are rounded rationals, and the \<^verbatim>\<open>loss_window\<close> array is a
  list of 256 booleans. The clock rate is that of a codec, so it is not 0: a division by 0, infinite in
  the code, has the value 0 here.
\<close>

definition MAX_DROPOUT :: u16 where "MAX_DROPOUT = 3000"
definition MAX_MISORDER :: u16 where "MAX_MISORDER = 100"

record rtcp_session =
  rs_local_ssrc :: u32
  rs_cname :: bytes
  rs_packets_sent :: u32
  rs_octets_sent :: u32
  rs_last_rtp_timestamp :: u32
  rs_remote_ssrc :: "u32 option"
  rs_packets_received :: u32
  rs_expected_packets :: u32
  rs_highest_ext_seq :: u32
  rs_seq_cycles :: u64
  rs_highest_seq :: u16
  rs_first_packet_received :: bool
  rs_base_seq :: u32
  rs_jitter :: rat
  rs_last_recv_rtp_ts :: u32
  rs_last_recv_time :: "nat option"
  rs_last_rr_packets_received :: u32
  rs_last_rr_expected_packets :: u32
  rs_last_sr_ntp_compact :: u32
  rs_last_sr_received_at :: "nat option"
  rs_rtt :: "nat option"
  rs_last_sr_sent_at :: "nat option"
  rs_clock_rate :: u32
  rs_jb_nominal_ms :: u16
  rs_jb_maximum_ms :: u16
  rs_remote_voip_metrics :: "voip_metrics_block option"
  rs_rtcp_interval :: nat
  rs_last_rtcp_sent :: nat
  rs_bandwidth_fraction :: rat
  rs_num_participants :: u32
  rs_loss_window :: "bool list"
  rs_loss_window_len :: nat
  rs_burst_density :: byte
  rs_gap_density :: byte

section \<open>Constants\<close>

definition lit :: "rat \<Rightarrow> rat" where "lit x = f64_round x"

section \<open>Creation\<close>

definition randomized_interval :: "rat \<Rightarrow> nat \<Rightarrow> nat" where
  "randomized_interval random base =
     from_secs_f64 (f64_mul (as_secs_f64 base) (f64_add (lit (1/2)) random))"

definition session_with_clock_rate :: "rat \<Rightarrow> nat \<Rightarrow> u32 \<Rightarrow> bytes \<Rightarrow> u32 \<Rightarrow> rtcp_session" where
  "session_with_clock_rate random now local_ssrc cname clock_rate =
     (let interval = randomized_interval random 5000000000
      in \<lparr>rs_local_ssrc = local_ssrc, rs_cname = cname, rs_packets_sent = 0, rs_octets_sent = 0,
          rs_last_rtp_timestamp = 0, rs_remote_ssrc = None, rs_packets_received = 0,
          rs_expected_packets = 0, rs_highest_ext_seq = 0, rs_seq_cycles = 0, rs_highest_seq = 0,
          rs_first_packet_received = False, rs_base_seq = 0, rs_jitter = 0, rs_last_recv_rtp_ts = 0,
          rs_last_recv_time = None, rs_last_rr_packets_received = 0, rs_last_rr_expected_packets = 0,
          rs_last_sr_ntp_compact = 0, rs_last_sr_received_at = None, rs_rtt = None,
          rs_last_sr_sent_at = None, rs_clock_rate = clock_rate, rs_jb_nominal_ms = 0,
          rs_jb_maximum_ms = 0, rs_remote_voip_metrics = None, rs_rtcp_interval = interval,
          rs_last_rtcp_sent = now - interval div 2, rs_bandwidth_fraction = lit (5/100),
          rs_num_participants = 2, rs_loss_window = replicate 256 True, rs_loss_window_len = 0,
          rs_burst_density = 0, rs_gap_density = 0\<rparr>)"

definition session_new :: "rat \<Rightarrow> nat \<Rightarrow> u32 \<Rightarrow> bytes \<Rightarrow> rtcp_session" where
  "session_new random now local_ssrc cname = session_with_clock_rate random now local_ssrc cname 8000"

definition f64_max :: "rat \<Rightarrow> rat \<Rightarrow> rat" where "f64_max = max"

definition f64_clamp :: "rat \<Rightarrow> rat \<Rightarrow> rat \<Rightarrow> rat" where
  "f64_clamp x lo hi = (if x < lo then lo else if x > hi then hi else x)"

definition compute_bandwidth_interval :: "rat \<Rightarrow> rtcp_session \<Rightarrow> nat" where
  "compute_bandwidth_interval random s =
     (let session_bw_bps = f64_mul (f64_of_int (int (unat (rs_clock_rate s)))) 8;
          rtcp_bw = f64_mul session_bw_bps (rs_bandwidth_fraction s)
      in if rtcp_bw \<le> 0 then 5000000000
         else
           (let n = f64_of_int (int (unat (max (rs_num_participants s) 1)));
                td_secs = f64_div (f64_mul (f64_mul n 100) 8) rtcp_bw
            in randomized_interval random (from_secs_f64 (f64_max td_secs 5))))"

definition set_bandwidth_fraction :: "rat \<Rightarrow> rat \<Rightarrow> rtcp_session \<Rightarrow> rtcp_session" where
  "set_bandwidth_fraction random fraction s =
     (let s1 = s\<lparr>rs_bandwidth_fraction := f64_clamp fraction (lit (1/1000)) (lit (1/4))\<rparr>
      in s1\<lparr>rs_rtcp_interval := compute_bandwidth_interval random s1\<rparr>)"

definition set_num_participants :: "rat \<Rightarrow> u32 \<Rightarrow> rtcp_session \<Rightarrow> rtcp_session" where
  "set_num_participants random n s =
     (let s1 = s\<lparr>rs_num_participants := max n 1\<rparr>
      in s1\<lparr>rs_rtcp_interval := compute_bandwidth_interval random s1\<rparr>)"

section \<open>Loss bursts\<close>

text \<open>The loop over the window: packets lost and seen in bursts, lost and seen in gaps.\<close>

record burst_count =
  bc_burst_lost :: u32
  bc_burst_total :: u32
  bc_gap_lost :: u32
  bc_gap_total :: u32
  bc_in_burst :: bool

fun burst_scan :: "bool list \<Rightarrow> burst_count \<Rightarrow> burst_count" where
  "burst_scan [] b = b"
| "burst_scan (received # rest) b =
     (if \<not> received then
        burst_scan rest (b\<lparr>bc_in_burst := True, bc_burst_lost := bc_burst_lost b + 1,
                           bc_burst_total := bc_burst_total b + 1\<rparr>)
      else if bc_in_burst b then
        (let next_lost = (case rest of r # _ \<Rightarrow> \<not> r | [] \<Rightarrow> False)
         in if next_lost then burst_scan rest (b\<lparr>bc_burst_total := bc_burst_total b + 1\<rparr>)
            else burst_scan rest (b\<lparr>bc_in_burst := False, bc_gap_total := bc_gap_total b + 1\<rparr>))
      else burst_scan rest (b\<lparr>bc_gap_total := bc_gap_total b + 1\<rparr>))"

definition density :: "u32 \<Rightarrow> u32 \<Rightarrow> byte" where
  "density lost tot =
     (if tot > 0 then ucast (min ((ucast lost * 256) div ucast tot :: u64) 255) else 0)"

definition compute_burst_gap_density :: "rtcp_session \<Rightarrow> rtcp_session" where
  "compute_burst_gap_density s =
     (if rs_loss_window_len s < 2 then s\<lparr>rs_burst_density := 0, rs_gap_density := 0\<rparr>
      else
        (let b = burst_scan (take (rs_loss_window_len s) (rs_loss_window s))
               \<lparr>bc_burst_lost = 0, bc_burst_total = 0, bc_gap_lost = 0, bc_gap_total = 0, bc_in_burst = False\<rparr>
         in s\<lparr>rs_burst_density := density (bc_burst_lost b) (bc_burst_total b),
              rs_gap_density := density (bc_gap_lost b) (bc_gap_total b)\<rparr>))"

definition record_loss_event :: "bool \<Rightarrow> rtcp_session \<Rightarrow> rtcp_session" where
  "record_loss_event received s =
     compute_burst_gap_density
       (s\<lparr>rs_loss_window := received # take 255 (rs_loss_window s),
          rs_loss_window_len := (if rs_loss_window_len s < 256 then rs_loss_window_len s + 1
                                 else rs_loss_window_len s)\<rparr>)"

section \<open>Sending and receiving RTP\<close>

definition record_rtp_sent :: "u32 \<Rightarrow> u32 \<Rightarrow> rtcp_session \<Rightarrow> rtcp_session" where
  "record_rtp_sent payload_bytes rtp_timestamp s =
     s\<lparr>rs_packets_sent := rs_packets_sent s + 1, rs_octets_sent := rs_octets_sent s + payload_bytes,
       rs_last_rtp_timestamp := rtp_timestamp\<rparr>"

definition reset_receiver :: "u32 \<Rightarrow> rtcp_session \<Rightarrow> rtcp_session" where
  "reset_receiver new_ssrc s =
     s\<lparr>rs_remote_ssrc := Some new_ssrc, rs_packets_received := 0, rs_expected_packets := 0,
       rs_highest_ext_seq := 0, rs_seq_cycles := 0, rs_highest_seq := 0,
       rs_first_packet_received := False, rs_base_seq := 0, rs_jitter := 0, rs_last_recv_rtp_ts := 0,
       rs_last_recv_time := None, rs_last_rr_packets_received := 0, rs_last_rr_expected_packets := 0,
       rs_last_sr_ntp_compact := 0, rs_last_sr_received_at := None, rs_rtt := None\<rparr>"

text \<open>The validation of a sequence number (RFC 3550, appendix A.1).\<close>

definition track_seq :: "u16 \<Rightarrow> rtcp_session \<Rightarrow> rtcp_session" where
  "track_seq seq s =
     (if \<not> rs_first_packet_received s
      then s\<lparr>rs_base_seq := ucast seq, rs_highest_seq := seq, rs_seq_cycles := 0,
             rs_first_packet_received := True\<rparr>
      else
        (let udelta = seq - rs_highest_seq s
         in if udelta < MAX_DROPOUT then
              s\<lparr>rs_seq_cycles := (if seq < rs_highest_seq s then rs_seq_cycles s + 1 else rs_seq_cycles s),
                rs_highest_seq := seq\<rparr>
            else if udelta \<le> 0xFFFF - MAX_MISORDER then
              s\<lparr>rs_base_seq := ucast seq, rs_highest_seq := seq, rs_seq_cycles := 0,
                rs_packets_received := 1, rs_last_rr_packets_received := 0,
                rs_last_rr_expected_packets := 0\<rparr>
            else s))"

definition note_losses :: "bool \<Rightarrow> u16 \<Rightarrow> u16 \<Rightarrow> rtcp_session \<Rightarrow> rtcp_session" where
  "note_losses was_first_received prev_highest seq s =
     (if \<not> was_first_received then s
      else
        (let expected_seq = prev_highest + 1
         in if seq = expected_seq then record_loss_event True s
            else
              (let gap = seq - expected_seq
               in if gap > 0 \<and> gap < MAX_DROPOUT
                  then record_loss_event True ((record_loss_event False ^^ unat gap) s)
                  else record_loss_event True s)))"

definition update_counts :: "rtcp_session \<Rightarrow> rtcp_session" where
  "update_counts s =
     (let ext = push_bit 16 (ucast (rs_seq_cycles s)) OR ucast (rs_highest_seq s)
      in s\<lparr>rs_highest_ext_seq := ext, rs_expected_packets := sat_sub ext (rs_base_seq s) + 1\<rparr>)"

definition update_arrival :: "nat \<Rightarrow> u32 \<Rightarrow> rtcp_session \<Rightarrow> rtcp_session" where
  "update_arrival now rtp_timestamp s =
     (let s1 = (case rs_last_recv_time s of
          None \<Rightarrow> s
        | Some last_time \<Rightarrow>
            (let arrival_diff_us = i64 (int ((now - last_time) div 1000));
                 arrival_diff_ts = quot (i64 (arrival_diff_us * int (unat (rs_clock_rate s)))) 1000000;
                 rtp_diff_ts = sint (rtp_timestamp - rs_last_recv_rtp_ts s);
                 d = f64_of_int \<bar>i64 (arrival_diff_ts - rtp_diff_ts)\<bar>
             in s\<lparr>rs_jitter := f64_add (rs_jitter s) (f64_div (f64_sub d (rs_jitter s)) 16)\<rparr>))
      in s1\<lparr>rs_last_recv_rtp_ts := rtp_timestamp, rs_last_recv_time := Some now\<rparr>)"

definition record_rtp_received :: "nat \<Rightarrow> u32 \<Rightarrow> u16 \<Rightarrow> u32 \<Rightarrow> rtcp_session \<Rightarrow> rtcp_session" where
  "record_rtp_received now ssrc seq rtp_timestamp s =
     (let s1 = (if rs_remote_ssrc s = None \<or> rs_remote_ssrc s = Some ssrc
                then s\<lparr>rs_remote_ssrc := Some ssrc\<rparr> else reset_receiver ssrc s);
          s2 = s1\<lparr>rs_packets_received := rs_packets_received s1 + 1\<rparr>;
          s3 = track_seq seq s2;
          s4 = note_losses (rs_first_packet_received s2) (rs_highest_seq s2) seq s3
      in update_arrival now rtp_timestamp (update_counts s4))"

section \<open>Incoming RTCP\<close>

definition ema :: "nat \<Rightarrow> nat \<Rightarrow> nat" where
  "ema old new = from_secs_f64 (f64_add (f64_mul (as_secs_f64 old) (lit (7/10)))
     (f64_mul (as_secs_f64 new) (lit (3/10))))"

definition calculate_rtt :: "nat \<Rightarrow> ntp_timestamp \<Rightarrow> report_block \<Rightarrow> rtcp_session \<Rightarrow> rtcp_session" where
  "calculate_rtt now ntp rb s =
     (let rtt_duration = (case rs_last_sr_sent_at s of
          Some sent_at \<Rightarrow>
            (let elapsed = now - sent_at;
                 dlsr = unat (drop_bit 16 (ucast (rb_delay_since_last_sr rb) * 1000000 :: u64)) * 1000
             in if dlsr \<le> elapsed then Some (elapsed - dlsr) else None)
        | None \<Rightarrow>
            (let rtt_compact = ntp_compact ntp - rb_last_sr rb - rb_delay_since_last_sr rb
             in Some (unat (drop_bit 16 (ucast rtt_compact * 1000000 :: u64)) * 1000)))
      in case rtt_duration of
           None \<Rightarrow> s
         | Some rtt \<Rightarrow>
             if rtt div 1000 < 30000000
             then s\<lparr>rs_rtt := Some (case rs_rtt s of Some old \<Rightarrow> ema old rtt | None \<Rightarrow> rtt)\<rparr>
             else s)"

definition take_blocks :: "nat \<Rightarrow> ntp_timestamp \<Rightarrow> report_block list \<Rightarrow> rtcp_session \<Rightarrow> rtcp_session" where
  "take_blocks now ntp rbs s =
     foldl (\<lambda>s rb. if rb_ssrc rb = rs_local_ssrc s \<and> rb_last_sr rb \<noteq> 0 then calculate_rtt now ntp rb s else s)
       s rbs"

fun process_packet :: "nat \<Rightarrow> ntp_timestamp \<Rightarrow> rtcp_session \<times> bool \<Rightarrow> rtcp_packet \<Rightarrow> rtcp_session \<times> bool" where
  "process_packet now ntp (s, collision) (SenderReport sr) =
     (let c = (collision \<or> sr_ssrc sr = rs_local_ssrc s);
          s1 = s\<lparr>rs_last_sr_ntp_compact := ntp_compact (sr_ntp_timestamp sr),
                 rs_last_sr_received_at := Some now\<rparr>
      in (take_blocks now ntp (sr_report_blocks sr) s1, c))"
| "process_packet now ntp (s, collision) (ReceiverReport rr) =
     (take_blocks now ntp (rr_report_blocks rr) s, collision \<or> rr_ssrc rr = rs_local_ssrc s)"
| "process_packet now ntp (s, collision) (ExtendedReport xr) =
     ((case xr_voip_metrics xr of Some vm \<Rightarrow> s\<lparr>rs_remote_voip_metrics := Some vm\<rparr> | None \<Rightarrow> s), collision)"
| "process_packet now ntp (s, collision) _ = (s, collision)"

definition process_incoming_rtcp ::
  "nat \<Rightarrow> ntp_timestamp \<Rightarrow> bytes \<Rightarrow> rtcp_session \<Rightarrow> rtcp_session \<times> bool" where
  "process_incoming_rtcp now ntp d s = foldl (process_packet now ntp) (s, False) (parse_rtcp_compound d)"

section \<open>Quality\<close>

definition jitter_ms :: "rtcp_session \<Rightarrow> rat" where
  "jitter_ms s = f64_div (rs_jitter s) (f64_div (f64_of_int (int (unat (rs_clock_rate s)))) 1000)"

definition loss_percent :: "rtcp_session \<Rightarrow> rat" where
  "loss_percent s =
     (if rs_expected_packets s = 0 then 0
      else
        (let ex = f64_of_int (int (unat (rs_expected_packets s)));
             lost = f64_sub ex (f64_of_int (int (unat (rs_packets_received s))))
         in f64_max (f64_mul (f64_div lost ex) 100) 0))"

definition r_factor :: "rtcp_session \<Rightarrow> rat" where
  "r_factor s =
     (let loss = loss_percent s;
          rtt_ms = (case rs_rtt s of Some r \<Rightarrow> f64_mul (as_secs_f64 r) 1000 | None \<Rightarrow> 0);
          one_way_delay = f64_add (f64_div rtt_ms 2) (jitter_ms s);
          id' = (if one_way_delay < 100 then 0
                 else f64_add (f64_mul (lit (24/1000)) one_way_delay)
                        (f64_mul (lit (11/100)) (f64_max (f64_sub one_way_delay (lit (1773/10))) 0)));
          ie = 0;
          ie_eff = f64_add ie (f64_div (f64_mul (f64_sub 95 ie) loss) (f64_add loss (lit (251/10))))
      in f64_clamp (f64_sub (f64_sub (lit (932/10)) id') ie_eff) 0 100)"

definition mos :: "rtcp_session \<Rightarrow> rat" where
  "mos s =
     (let r = r_factor s
      in if r \<le> 0 then 1
         else if r > 100 then lit (45/10)
         else f64_clamp
           (f64_add (f64_add 1 (f64_mul (lit (35/1000)) r))
              (f64_mul (f64_mul (f64_mul r (f64_sub r 60)) (f64_sub 100 r)) (lit (7/1000000))))
           1 (lit (45/10)))"

section \<open>Building RTCP\<close>

definition should_send_rtcp :: "nat \<Rightarrow> rtcp_session \<Rightarrow> bool" where
  "should_send_rtcp now s = (now - rs_last_rtcp_sent s \<ge> rs_rtcp_interval s)"

definition fraction_lost_of :: "u32 \<Rightarrow> u32 \<Rightarrow> byte" where
  "fraction_lost_of expected_interval received_interval =
     (let lost_interval = sint (expected_interval - received_interval)
      in if expected_interval = 0 \<or> lost_interval \<le> 0 then 0
         else ucast (min ((word_of_int lost_interval * 256) div ucast expected_interval :: u64) 255))"

definition cumulative_lost_of :: "u32 \<Rightarrow> u32 \<Rightarrow> u32" where
  "cumulative_lost_of expected received =
     word_of_int (min (max (sint (expected - received)) (- 0x7FFFFF)) 0x7FFFFF)"

definition dlsr_of :: "nat \<Rightarrow> u32" where
  "dlsr_of elapsed =
     (let secs' = min (elapsed div 1000000000) 65535;
          micros = elapsed mod 1000000000 div 1000
      in ucast (push_bit 16 (of_nat secs' :: u64) OR of_nat (min (micros * 65536 div 1000000) 65535)))"

definition build_report_blocks :: "nat \<Rightarrow> rtcp_session \<Rightarrow> report_block list" where
  "build_report_blocks now s =
     (case rs_remote_ssrc s of
        None \<Rightarrow> []
      | Some remote_ssrc \<Rightarrow>
          [\<lparr>rb_ssrc = remote_ssrc,
            rb_fraction_lost = fraction_lost_of (sat_sub (rs_expected_packets s) (rs_last_rr_expected_packets s))
              (sat_sub (rs_packets_received s) (rs_last_rr_packets_received s)),
            rb_cumulative_lost = cumulative_lost_of (rs_expected_packets s) (rs_packets_received s),
            rb_extended_highest_seq = rs_highest_ext_seq s, rb_jitter = f64_to_u32 (rs_jitter s),
            rb_last_sr = rs_last_sr_ntp_compact s,
            rb_delay_since_last_sr = (case rs_last_sr_received_at s of
                Some t \<Rightarrow> dlsr_of (now - t) | None \<Rightarrow> 0)\<rparr>])"

text \<open>\<^verbatim>\<open>f64::round\<close> of a value that is not negative, and the saturating cast to \<^verbatim>\<open>u8\<close>.\<close>

definition f64_nearest :: "rat \<Rightarrow> rat" where "f64_nearest x = of_int \<lfloor>x + 1/2\<rfloor>"

definition f64_to_u8 :: "rat \<Rightarrow> byte" where
  "f64_to_u8 x = (if x \<le> 0 then 0 else if 255 \<le> x then 255 else of_int \<lfloor>x\<rfloor>)"

definition xr_metrics :: "rtcp_session \<Rightarrow> voip_metrics" where
  "xr_metrics s =
     (let m = mos s; r = r_factor s;
          mos_scaled = (if m \<ge> 1 \<and> m \<le> lit (45/10) then f64_to_u8 (f64_nearest (f64_mul m 10)) else 127);
          r_scaled = (if r \<ge> 0 \<and> r \<le> 100 then f64_to_u8 (f64_nearest r) else 127)
      in \<lparr>vm_loss_rate = f64_to_u8 (f64_clamp (f64_nearest (f64_mul (f64_div (loss_percent s) 100) 256)) 0 255),
          vm_discard_rate = 0, vm_burst_density = rs_burst_density s, vm_gap_density = rs_gap_density s,
          vm_burst_duration = 0, vm_gap_duration = 0,
          vm_round_trip_delay = (case rs_rtt s of Some d \<Rightarrow> of_nat (d div 1000000) | None \<Rightarrow> 0),
          vm_end_system_delay = rs_jb_nominal_ms s, vm_signal_level = 127, vm_noise_level = 127,
          vm_rerl = 127, vm_gmin = 16, vm_r_factor = r_scaled, vm_ext_r_factor = 127,
          vm_mos_lq = mos_scaled, vm_mos_cq = mos_scaled, vm_rx_config = 0,
          vm_jb_nominal = rs_jb_nominal_ms s, vm_jb_maximum = rs_jb_maximum_ms s,
          vm_jb_abs_max = (if rs_jb_maximum_ms s > 0 then rs_jb_maximum_ms s else 1000)\<rparr>)"

definition build_xr :: "rtcp_session \<Rightarrow> bytes" where
  "build_xr s = (case rs_remote_ssrc s of None \<Rightarrow> []
     | Some remote_ssrc \<Rightarrow> build_xr_voip_metrics (rs_local_ssrc s) remote_ssrc (xr_metrics s))"

text \<open>The builders index the caller's buffer and panic when it is too short for the compound.\<close>

definition build_rtcp ::
  "rat \<Rightarrow> nat \<Rightarrow> ntp_timestamp \<Rightarrow> nat \<Rightarrow> rtcp_session \<Rightarrow> (rtcp_session \<times> bytes) res" where
  "build_rtcp random now ntp buf_len s =
     (let rbs = build_report_blocks now s;
          s1 = (if rs_packets_sent s > 0 then s\<lparr>rs_last_sr_sent_at := Some now\<rparr> else s);
          compound = (if rs_packets_sent s > 0
            then build_compound_sr (rs_local_ssrc s) ntp (rs_last_rtp_timestamp s) (rs_packets_sent s)
                   (rs_octets_sent s) rbs (rs_cname s)
            else build_compound_rr (rs_local_ssrc s) rbs (rs_cname s))
      in if length compound > buf_len then Panic
         else
           (let out = (if rs_remote_ssrc s1 \<noteq> None \<and> length compound + 48 \<le> buf_len
                       then compound @ build_xr s1 else compound);
                s2 = s1\<lparr>rs_last_rtcp_sent := now, rs_rtcp_interval := compute_bandwidth_interval random s1,
                       rs_last_rr_packets_received := rs_packets_received s1,
                       rs_last_rr_expected_packets := rs_expected_packets s1\<rparr>
            in Ok (s2, out)))"

definition session_build_bye :: "bytes option \<Rightarrow> rtcp_session \<Rightarrow> bytes" where
  "session_build_bye reason s = build_bye [rs_local_ssrc s] reason"

end
