(* ===== verification/Rtp_Rtcp_Props.thy ===== *)
theory Rtp_Rtcp_Props
  imports Rtp_Rtcp
begin

text \<open>
  Round trips of the RTCP packets: what the builders write, the compound parser reads back.
\<close>

section \<open>Words in a list of bytes\<close>

lemma be32_bytes: obtains a b c d where "be32 w = [a, b, c, d]" and "of_nat (be_nat [a, b, c, d]) = w"
proof -
  obtain a b c d where e: "be32 w = [a, b, c, d]" using be32_list by blast
  moreover have "of_nat (be_nat (be32 w)) = w"
    using rd32_at [of "[]" 0 w "[]"] e by (simp add: rd32_def)
  ultimately show ?thesis using that by simp
qed

lemma be16_bytes: obtains a b where "be16 w = [a, b]" and "of_nat (be_nat [a, b]) = w"
proof -
  obtain a b where e: "be16 w = [a, b]" using be16_list by blast
  moreover have "of_nat (be_nat (be16 w)) = w"
    using rd16_at [of "[]" 0 w "[]"] e by (simp add: rd16_def)
  ultimately show ?thesis using that by simp
qed

section \<open>The signed cumulative loss\<close>

definition fits_24 :: "u32 \<Rightarrow> bool" where
  "fits_24 w \<longleftrightarrow> - (2 ^ 23) \<le> sint w \<and> sint w < 2 ^ 23"

lemma mask_words: "(0xFF :: u32) = mask 8" "(0x00FFFFFF :: u32) = mask 24"
  by (simp_all add: mask_eq_exp_minus_1)

lemma and_800000: "((w :: u32) AND 0x00800000) \<noteq> 0 \<longleftrightarrow> bit w 23"
proof -
  have "(0x00800000 :: u32) = 2 ^ 23" by simp
  then show ?thesis by (simp only: and_exp_eq_0_iff_not_bit simp_thms)
qed

lemma shift_back: "m \<le> n \<Longrightarrow> m + (n - m) = (n :: nat)" by simp

lemma join_24:
  "push_bit 16 (ucast (ucast (drop_bit 16 c AND 0xFF) :: byte)) OR
   (push_bit 8 (ucast (ucast (drop_bit 8 c AND 0xFF) :: byte)) OR
   ucast (ucast (c AND 0xFF) :: byte)) = (c AND 0x00FFFFFF :: u32)" (is "?l = ?r")
proof (rule bit_word_eqI)
  fix n assume n: "n < LENGTH(32)"
  consider "n < 8" | "8 \<le> n" "n < 16" | "16 \<le> n" "n < 24" | "24 \<le> n" by linarith
  then show "bit ?l n = bit ?r n"
    unfolding mask_words
    by cases (use n in \<open>auto simp: bit_or_iff bit_and_iff bit_push_bit_iff bit_drop_bit_eq bit_ucast_iff
      bit_mask_iff shift_back\<close>)
qed

lemma sign_extend_bits:
  "n < 32 \<Longrightarrow> bit (sign_extend_24 (w AND 0x00FFFFFF)) n = bit w (min n 23)"
  by (auto simp: sign_extend_24_def and_800000 mask_words bit_or_iff bit_and_iff bit_push_bit_iff
      bit_mask_iff min_def)

lemma fits_24_bits:
  assumes "fits_24 w" and "23 \<le> n" and "n < 32"
  shows "bit w n = bit w 23"
proof -
  have "signed_take_bit 23 (sint w) = sint w"
    using assms(1) by (simp add: fits_24_def signed_take_bit_int_eq_self_iff)
  then have "bit (sint w) n = bit (signed_take_bit 23 (sint w)) n" by simp
  also have "\<dots> = bit (sint w) 23"
    using assms(2) by (simp add: bit_signed_take_bit_iff min_def)
  finally show ?thesis using assms(3) by (simp add: bit_sint_iff)
qed

lemma sign_extend_fits:
  assumes "fits_24 w" shows "sign_extend_24 (w AND 0x00FFFFFF) = w"
proof (rule bit_word_eqI)
  fix n assume "n < LENGTH(32)"
  then have n: "n < 32" by simp
  show "bit (sign_extend_24 (w AND 0x00FFFFFF)) n = bit w n"
    using fits_24_bits [OF assms _ n] by (simp add: sign_extend_bits [OF n] min_def)
qed

section \<open>Report blocks\<close>

lemma block_parse_bytes:
  assumes "fits_24 (rb_cumulative_lost rb)"
  shows "block_parse (block_bytes rb @ post) = rb"
proof -
  obtain a1 a2 a3 a4 where a: "be32 (rb_ssrc rb) = [a1, a2, a3, a4]" "of_nat (be_nat [a1, a2, a3, a4]) = rb_ssrc rb"
    by (rule be32_bytes)
  obtain b1 b2 b3 b4 where b: "be32 (rb_extended_highest_seq rb) = [b1, b2, b3, b4]"
    "of_nat (be_nat [b1, b2, b3, b4]) = rb_extended_highest_seq rb" by (rule be32_bytes)
  obtain c1 c2 c3 c4 where c: "be32 (rb_jitter rb) = [c1, c2, c3, c4]"
    "of_nat (be_nat [c1, c2, c3, c4]) = rb_jitter rb" by (rule be32_bytes)
  obtain d1 d2 d3 d4 where d: "be32 (rb_last_sr rb) = [d1, d2, d3, d4]"
    "of_nat (be_nat [d1, d2, d3, d4]) = rb_last_sr rb" by (rule be32_bytes)
  obtain e1 e2 e3 e4 where e: "be32 (rb_delay_since_last_sr rb) = [e1, e2, e3, e4]"
    "of_nat (be_nat [e1, e2, e3, e4]) = rb_delay_since_last_sr rb" by (rule be32_bytes)
  let ?cum = "rb_cumulative_lost rb AND 0x00FFFFFF"
  let ?d = "[a1, a2, a3, a4, rb_fraction_lost rb, ucast (drop_bit 16 ?cum AND 0xFF),
      ucast (drop_bit 8 ?cum AND 0xFF), ucast (?cum AND 0xFF), b1, b2, b3, b4, c1, c2, c3, c4, d1, d2, d3, d4,
      e1, e2, e3, e4] @ post"
  have bytes: "block_bytes rb @ post = ?d" by (simp add: block_bytes_def Let_def a b c d e)
  have r: "rd32 ?d 0 = rb_ssrc rb" "rd32 ?d 8 = rb_extended_highest_seq rb" "rd32 ?d 12 = rb_jitter rb"
    "rd32 ?d 16 = rb_last_sr rb" "rd32 ?d 20 = rb_delay_since_last_sr rb"
    using a(2) b(2) c(2) d(2) e(2) by (simp_all add: rd32_def)
  have n: "?d ! 4 = rb_fraction_lost rb" "?d ! 5 = ucast (drop_bit 16 ?cum AND 0xFF)"
    "?d ! 6 = ucast (drop_bit 8 ?cum AND 0xFF)" "?d ! 7 = ucast (?cum AND 0xFF)"
    by simp_all
  have "?cum AND 0x00FFFFFF = ?cum" by (simp add: and.assoc)
  then have "sign_extend_24 ?cum = rb_cumulative_lost rb" using sign_extend_fits [OF assms] by simp
  then show ?thesis
    unfolding block_parse_def bytes r n Let_def join_24 by (simp add: and.assoc)
qed

lemma length_block_bytes [simp]: "length (block_bytes rb) = 24"
  by (simp add: block_bytes_def Let_def)

lemma parse_blocks_bytes:
  "list_all (\<lambda>rb. fits_24 (rb_cumulative_lost rb)) rbs \<Longrightarrow> length pre = off
    \<Longrightarrow> parse_blocks (pre @ concat (map block_bytes rbs) @ post) off (length rbs) = rbs"
proof (induction rbs arbitrary: pre off)
  case (Cons rb rbs)
  let ?r = "concat (map block_bytes rbs) @ post"
  have "parse_blocks ((pre @ block_bytes rb) @ ?r) (off + 24) (length rbs) = rbs"
    using Cons.prems by (intro Cons.IH) auto
  moreover have "block_parse (drop off (pre @ block_bytes rb @ ?r)) = rb"
    using Cons.prems by (simp add: block_parse_bytes)
  ultimately show ?case using Cons.prems(2) by (simp add: RB_SIZE_def)
qed simp

section \<open>The header\<close>

lemma header_byte:
  assumes "rc < 32"
  defines "b \<equiv> push_bit 6 2 OR (0 OR (of_nat rc AND 0x1F)) :: byte"
  shows "drop_bit 6 b AND 0x03 = 2" and "b AND 0x20 = 0" and "unat (b AND 0x1F) = rc"
proof -
  have "rc \<in> set [0..<32]" using assms(1) by simp
  then show "drop_bit 6 b AND 0x03 = 2" "b AND 0x20 = 0" "unat (b AND 0x1F) = rc"
    unfolding b_def by (auto simp: upt_rec)
qed

lemma parse_compound_step:
  assumes p: "p = rtcp_header 2 False (of_nat rc) pt lw @ body" and rc: "rc < 32"
    and len: "length p = (unat lw + 1) * 4"
  shows "parse_rtcp_compound (p @ rest) = parse_one pt rc p @ parse_rtcp_compound rest"
proof -
  let ?d = "p @ rest"
  have d: "?d = [push_bit 6 2 OR (0 OR (of_nat rc AND 0x1F)), pt] @ be16 lw @ body @ rest"
    by (simp add: p rtcp_header_def)
  have l: "4 \<le> length ?d" using len by simp
  have b0: "?d ! 0 = push_bit 6 2 OR (0 OR (of_nat rc AND 0x1F))" "?d ! 1 = pt" unfolding d by simp_all
  have lw: "rd16 ?d 2 = lw" unfolding d by (rule rd16_at) simp
  have eff: "effective_len ?d ((unat lw + 1) * 4) = (unat lw + 1) * 4"
    unfolding effective_len_def b0 header_byte(2) [OF rc] by simp
  have tk: "take ((unat lw + 1) * 4) ?d = p" "drop ((unat lw + 1) * 4) ?d = rest" using len by simp_all
  have le: "\<not> (unat lw + 1) * 4 > length ?d" using len by simp
  show ?thesis
    by (subst parse_rtcp_compound.simps)
      (simp only: Let_def b0 header_byte [OF rc] lw eff tk l le if_True if_False simp_thms)
qed

section \<open>Each packet\<close>

definition blocks_ok :: "report_block list \<Rightarrow> bool" where
  "blocks_ok rbs \<longleftrightarrow> length rbs \<le> 31 \<and> list_all (\<lambda>rb. fits_24 (rb_cumulative_lost rb)) rbs"

lemma length_blocks_bytes [simp]: "length (blocks_bytes rbs) = min (length rbs) 31 * 24"
proof -
  have "length (concat (map block_bytes xs)) = length xs * 24" for xs by (induction xs) simp_all
  then show ?thesis by (simp add: blocks_bytes_def min.commute)
qed

lemma length_header [simp]: "length (rtcp_header v p rc pt lw) = 4"
  by (simp add: rtcp_header_def)

lemma unat_small_u16: "n < 65536 \<Longrightarrow> unat (of_nat n :: u16) = n"
  by (simp add: unat_of_nat)

lemma parse_built_sr:
  assumes "blocks_ok rbs"
  shows "parse_rtcp_compound (build_sender_report ssrc ntp rts pc oc rbs @ rest) =
    SenderReport \<lparr>sr_ssrc = ssrc, sr_ntp_timestamp = ntp, sr_rtp_timestamp = rts, sr_packet_count = pc,
      sr_octet_count = oc, sr_report_blocks = rbs\<rparr> # parse_rtcp_compound rest"
proof -
  let ?rc = "length rbs"
  let ?h = "rtcp_header 2 False (of_nat ?rc) PT_SR (of_nat (6 + ?rc * 6))"
  let ?pre = "?h @ be32 ssrc @ ntp_bytes ntp @ be32 rts @ be32 pc @ be32 oc"
  let ?p = "build_sender_report ssrc ntp rts pc oc rbs"
  have rc: "?rc \<le> 31" "?rc < 32" and fits: "list_all (\<lambda>rb. fits_24 (rb_cumulative_lost rb)) rbs"
    using assms by (simp_all add: blocks_ok_def)
  have bb: "blocks_bytes rbs = concat (map block_bytes rbs)" using rc(1) by (simp add: blocks_bytes_def)
  have p: "?p = ?h @ be32 ssrc @ ntp_bytes ntp @ be32 rts @ be32 pc @ be32 oc @ concat (map block_bytes rbs)"
    using rc(1) by (simp add: build_sender_report_def Let_def bb min_def)
  have len: "length ?p = 28 + ?rc * 24"
    using rc(1) by (simp add: build_sender_report_def Let_def ntp_bytes_def min_def)
  have lw: "length ?p = (unat (of_nat (6 + ?rc * 6) :: u16) + 1) * 4"
    unfolding len using unat_small_u16 [of "6 + ?rc * 6"] rc(1) by simp
  have n: "take 8 (drop 8 ?p) = be32 (ntp_seconds ntp) @ be32 (ntp_fraction ntp)"
    unfolding p by (simp add: ntp_bytes_def)
  have w: "rd32 ?p 4 = ssrc" unfolding p by (rule rd32_at) simp
  have w1: "rd32 ?p 16 = rts"
    using rd32_at [of "?h @ be32 ssrc @ ntp_bytes ntp" 16 rts] unfolding p by (simp add: ntp_bytes_def)
  have w2: "rd32 ?p 20 = pc"
    using rd32_at [of "?h @ be32 ssrc @ ntp_bytes ntp @ be32 rts" 20 pc] unfolding p by (simp add: ntp_bytes_def)
  have w3: "rd32 ?p 24 = oc"
    using rd32_at [of "?h @ be32 ssrc @ ntp_bytes ntp @ be32 rts @ be32 pc" 24 oc] unfolding p
    by (simp add: ntp_bytes_def)
  have np: "ntp_parse (take 8 (drop 8 ?p)) = ntp"
    unfolding n ntp_parse_def using rd32_at [of "[]" 0 "ntp_seconds ntp" "be32 (ntp_fraction ntp)"]
      rd32_at [of "be32 (ntp_seconds ntp)" 4 "ntp_fraction ntp" "[]"] by simp
  have "parse_blocks ?p 28 ?rc = rbs"
    using parse_blocks_bytes [OF fits, of ?pre 28 "[]"] unfolding p by (simp add: ntp_bytes_def)
  then have one: "parse_one PT_SR ?rc ?p = [SenderReport \<lparr>sr_ssrc = ssrc, sr_ntp_timestamp = ntp, sr_rtp_timestamp = rts,
      sr_packet_count = pc, sr_octet_count = oc, sr_report_blocks = rbs\<rparr>]"
    by (simp add: parse_one_def parse_sender_report_def opt_list_def len w w1 w2 w3 np)
  show ?thesis using parse_compound_step [OF p rc(2) lw, of rest] one by simp
qed

lemma parse_built_rr:
  assumes "blocks_ok rbs"
  shows "parse_rtcp_compound (build_receiver_report ssrc rbs @ rest) =
    ReceiverReport \<lparr>rr_ssrc = ssrc, rr_report_blocks = rbs\<rparr> # parse_rtcp_compound rest"
proof -
  let ?rc = "length rbs"
  let ?h = "rtcp_header 2 False (of_nat ?rc) PT_RR (of_nat (1 + ?rc * 6))"
  let ?p = "build_receiver_report ssrc rbs"
  have rc: "?rc \<le> 31" "?rc < 32" and fits: "list_all (\<lambda>rb. fits_24 (rb_cumulative_lost rb)) rbs"
    using assms by (simp_all add: blocks_ok_def)
  have p: "?p = ?h @ be32 ssrc @ concat (map block_bytes rbs)"
    using rc(1) by (simp add: build_receiver_report_def Let_def blocks_bytes_def min_def)
  have len: "length ?p = 8 + ?rc * 24"
    using rc(1) by (simp add: build_receiver_report_def Let_def min_def)
  have lw: "length ?p = (unat (of_nat (1 + ?rc * 6) :: u16) + 1) * 4"
    unfolding len using unat_small_u16 [of "1 + ?rc * 6"] rc(1) by simp
  have w: "rd32 ?p 4 = ssrc" unfolding p by (rule rd32_at) simp
  have "parse_blocks ?p 8 ?rc = rbs"
    using parse_blocks_bytes [OF fits, of "?h @ be32 ssrc" 8 "[]"] unfolding p by simp
  then have one: "parse_one PT_RR ?rc ?p = [ReceiverReport \<lparr>rr_ssrc = ssrc, rr_report_blocks = rbs\<rparr>]"
    by (simp add: parse_one_def parse_receiver_report_def opt_list_def len w pt_defs)
  show ?thesis using parse_compound_step [OF p rc(2) lw, of rest] one by simp
qed

lemma sdes_length: "(2 + n + 1 + 3) div 4 * 4 \<ge> n + 3" "4 dvd (4 + 4 + (2 + n + 1 + 3) div 4 * 4 :: nat)"
proof -
  show "(2 + n + 1 + 3) div 4 * 4 \<ge> n + 3" by linarith
  show "4 dvd (4 + 4 + (2 + n + 1 + 3) div 4 * 4 :: nat)" by presburger
qed

lemma parse_built_sdes:
  assumes "length cname \<le> 255" and "utf8_valid cname"
  shows "parse_rtcp_compound (build_sdes_cname ssrc cname @ rest) =
    SourceDescription [\<lparr>sc_ssrc = ssrc, sc_cname = Some cname\<rparr>] # parse_rtcp_compound rest"
proof -
  let ?n = "length cname"
  let ?pad = "(2 + ?n + 1 + 3) div 4 * 4"
  let ?lw = "(4 + 4 + ?pad) div 4 - 1"
  let ?h = "rtcp_header 2 False 1 PT_SDES (of_nat ?lw)"
  let ?p = "build_sdes_cname ssrc cname"
  let ?z = "replicate (?pad - 2 - ?n) (0 :: byte)"
  have mn: "min ?n 255 = ?n" using assms(1) by simp
  have p: "?p = ?h @ be32 ssrc @ [SDES_CNAME, of_nat ?n] @ cname @ ?z"
    using assms(1) unfolding build_sdes_cname_def Let_def mn by simp
  have pad: "?n + 3 \<le> ?pad" "4 dvd (8 + ?pad)" "?pad \<le> 261" using assms(1) sdes_length [of ?n] by auto
  have len: "length ?p = 8 + ?pad" unfolding p using pad(1) by simp
  have "?lw < 65536" using pad(3) by simp
  then have lw: "length ?p = (unat (of_nat ?lw :: u16) + 1) * 4"
    unfolding len unat_small_u16 [OF \<open>?lw < 65536\<close>] using pad(2) by fastforce
  have w: "rd32 ?p 4 = ssrc" unfolding p by (rule rd32_at) simp
  have i8: "?p ! 8 = SDES_CNAME" "?p ! 9 = of_nat ?n" unfolding p by (simp_all add: nth_append)
  have nn: "unat (of_nat ?n :: byte) = ?n" using assms(1) by (simp add: unat_of_nat)
  have body: "take ?n (drop 10 ?p) = cname" unfolding p by simp
  have z: "?p ! (10 + ?n) = 0" unfolding p using pad(1) by (simp add: nth_append)
  have items: "parse_sdes_items ?p 8 None = ((10 + ?n + 1 + 3) div 4 * 4, Some cname)"
  proof -
    have "parse_sdes_items ?p 8 None = parse_sdes_items ?p (10 + ?n) (Some cname)"
      using len pad(1) i8 nn body assms(2)
      by (subst parse_sdes_items.simps) (simp add: Let_def SDES_CNAME_def utf8_text_def)
    also have "\<dots> = ((10 + ?n + 1 + 3) div 4 * 4, Some cname)"
      using len pad(1) z by (subst parse_sdes_items.simps) simp
    finally show ?thesis .
  qed
  have one: "parse_one PT_SDES 1 ?p = [SourceDescription [\<lparr>sc_ssrc = ssrc, sc_cname = Some cname\<rparr>]]"
    using items len w by (simp add: parse_one_def parse_sdes_def opt_list_def pt_defs)
  have p1: "?p = rtcp_header 2 False (of_nat 1) PT_SDES (of_nat ?lw) @ be32 ssrc @ [SDES_CNAME, of_nat ?n] @ cname @ ?z"
    unfolding p by simp
  show ?thesis using parse_compound_step [OF p1 _ lw, of rest] one by simp
qed

lemma parse_sources_bytes:
  "length pre = off \<Longrightarrow> parse_sources (pre @ concat (map be32 ss) @ post) off (length ss)
     = (ss, off + 4 * length ss)"
proof (induction ss arbitrary: pre off)
  case (Cons s ss)
  have "parse_sources ((pre @ be32 s) @ concat (map be32 ss) @ post) (off + 4) (length ss)
      = (ss, off + 4 + 4 * length ss)"
    using Cons.prems by (intro Cons.IH) simp
  moreover have "rd32 (pre @ be32 s @ concat (map be32 ss) @ post) off = s"
    using Cons.prems by (intro rd32_at)
  ultimately show ?case using Cons.prems by simp
qed simp

lemma length_words [simp]: "length (concat (map be32 ss)) = 4 * length ss"
  by (induction ss) simp_all

lemma words_div: "4 dvd n \<Longrightarrow> 4 \<le> n \<Longrightarrow> n div 4 - 1 < 65536 \<Longrightarrow> n = (unat (of_nat (n div 4 - 1) :: u16) + 1) * 4"
proof -
  assume n: "4 dvd n" "4 \<le> n" "n div 4 - 1 < 65536"
  then obtain k where k: "n = 4 * k" by auto
  with n have "1 \<le> k" "k - 1 < 65536" by simp_all
  with k show ?thesis using unat_small_u16 [of "k - 1"] by simp
qed

lemma parse_built_bye:
  assumes "length ss \<le> 31" and "case r of None \<Rightarrow> True | Some t \<Rightarrow> length t \<le> 255 \<and> utf8_valid t"
  shows "parse_rtcp_compound (build_bye ss r @ rest) =
    Goodbye \<lparr>bye_sources = ss, bye_reason = r\<rparr> # parse_rtcp_compound rest"
proof -
  let ?n = "length ss"
  let ?rl = "case r of None \<Rightarrow> 0 | Some t \<Rightarrow> (1 + length t + 3) div 4 * 4"
  let ?total = "4 + ?n * 4 + ?rl"
  let ?tail = "case r of None \<Rightarrow> [] | Some t \<Rightarrow> [of_nat (length t)] @ t @ replicate (?rl - 1 - length t) 0"
  let ?h = "rtcp_header 2 False (of_nat ?n) PT_BYE (of_nat (?total div 4 - 1))"
  let ?p = "build_bye ss r"
  have p: "?p = ?h @ concat (map be32 ss) @ ?tail"
    using assms by (cases r) (simp_all add: build_bye_def Let_def min_def)
  have lt: "length ?tail = ?rl"
  proof (cases r)
    case (Some t)
    have "1 + length t \<le> (1 + length t + 3) div 4 * 4" by linarith
    with Some show ?thesis by simp
  qed simp
  have len: "length ?p = ?total" unfolding p using lt by simp
  have rl: "4 dvd ?rl \<and> ?rl \<le> 256"
  proof (cases r)
    case (Some t)
    then have "length t \<le> 255" using assms(2) by simp
    then have "(1 + length t + 3) div 4 \<le> 64" by linarith
    with Some show ?thesis by simp
  qed simp
  then have "4 dvd ?total" by (intro dvd_add) simp_all
  moreover have "?total div 4 - 1 < 65536" using rl assms(1) by linarith
  ultimately have lw: "length ?p = (unat (of_nat (?total div 4 - 1) :: u16) + 1) * 4"
    unfolding len by (intro words_div) simp_all
  have src: "parse_sources ?p 4 ?n = (ss, 4 + 4 * ?n)"
    unfolding p by (rule parse_sources_bytes) simp
  have "parse_bye ?p ?n = Some \<lparr>bye_sources = ss, bye_reason = r\<rparr>"
  proof (cases r)
    case None
    then show ?thesis using len src by (simp add: parse_bye_def Let_def)
  next
    case (Some t)
    have t: "length t \<le> 255" "utf8_valid t" using assms(2) Some by simp_all
    have at: "?p ! (4 + 4 * ?n) = of_nat (length t)" "take (length t) (drop (4 + 4 * ?n + 1) ?p) = t"
      unfolding p using Some by (simp_all add: nth_append)
    have nn: "unat (of_nat (length t) :: byte) = length t" using t(1) by (simp add: unat_of_nat)
    have "4 + 4 * ?n + 1 + length t \<le> length ?p" unfolding len using Some by simp
    then show ?thesis
      unfolding parse_bye_def src Let_def prod.case at(1) nn at(2) using t Some by (simp add: utf8_text_def)
  qed
  then have "parse_one PT_BYE ?n ?p = [Goodbye \<lparr>bye_sources = ss, bye_reason = r\<rparr>]"
    by (simp add: parse_one_def opt_list_def pt_defs)
  then show ?thesis using parse_compound_step [OF p _ lw, of rest] assms(1) by simp
qed

lemma metrics_parse_bytes: "metrics_parse (metrics_bytes m @ post) = Some m"
proof -
  obtain a1 a2 where a: "be16 (vm_burst_duration m) = [a1, a2]" "of_nat (be_nat [a1, a2]) = vm_burst_duration m"
    by (rule be16_bytes)
  obtain b1 b2 where b: "be16 (vm_gap_duration m) = [b1, b2]" "of_nat (be_nat [b1, b2]) = vm_gap_duration m"
    by (rule be16_bytes)
  obtain c1 c2 where c: "be16 (vm_round_trip_delay m) = [c1, c2]"
    "of_nat (be_nat [c1, c2]) = vm_round_trip_delay m" by (rule be16_bytes)
  obtain d1 d2 where d: "be16 (vm_end_system_delay m) = [d1, d2]"
    "of_nat (be_nat [d1, d2]) = vm_end_system_delay m" by (rule be16_bytes)
  obtain e1 e2 where e: "be16 (vm_jb_nominal m) = [e1, e2]" "of_nat (be_nat [e1, e2]) = vm_jb_nominal m"
    by (rule be16_bytes)
  obtain f1 f2 where f: "be16 (vm_jb_maximum m) = [f1, f2]" "of_nat (be_nat [f1, f2]) = vm_jb_maximum m"
    by (rule be16_bytes)
  obtain g1 g2 where g: "be16 (vm_jb_abs_max m) = [g1, g2]" "of_nat (be_nat [g1, g2]) = vm_jb_abs_max m"
    by (rule be16_bytes)
  show ?thesis
    unfolding metrics_bytes_def metrics_parse_def a b c d e f g
    using a(2) b(2) c(2) d(2) e(2) f(2) g(2) by (simp add: rd16_def)
qed

lemma length_metrics_bytes [simp]: "length (metrics_bytes m) = 28"
  by (simp add: metrics_bytes_def)

lemma parse_built_xr:
  "parse_rtcp_compound (build_xr_voip_metrics ssrc remote m @ rest) =
    ExtendedReport \<lparr>xr_ssrc = ssrc, xr_voip_metrics = Some \<lparr>vb_source_ssrc = remote, vb_metrics = m\<rparr>\<rparr>
    # parse_rtcp_compound rest"
proof -
  let ?h = "rtcp_header 2 False (of_nat 0) PT_XR 10"
  let ?p = "build_xr_voip_metrics ssrc remote m"
  have p: "?p = ?h @ be32 ssrc @ [VM_BLOCK_TYPE, 0] @ be16 8 @ be32 remote @ metrics_bytes m"
    by (simp add: build_xr_voip_metrics_def)
  have len: "length ?p = 44" unfolding p by simp
  have w: "rd32 ?p 4 = ssrc" unfolding p by (rule rd32_at) simp
  have bl: "rd16 ?p 10 = 8" using rd16_at [of "?h @ be32 ssrc @ [VM_BLOCK_TYPE, 0]" 10 8] unfolding p by simp
  have ty: "?p ! 8 = VM_BLOCK_TYPE" unfolding p by (simp add: nth_append)
  have body: "take 32 (drop 12 ?p) = be32 remote @ metrics_bytes m" unfolding p by simp
  have rem: "rd32 (be32 remote @ metrics_bytes m) 0 = remote"
    using rd32_at [of "[]" 0 remote "metrics_bytes m"] by simp
  have mp: "metrics_parse (metrics_bytes m) = Some m" using metrics_parse_bytes [of m "[]"] by simp
  have stop: "parse_xr_blocks ?p 44 v = v" for v by (subst parse_xr_blocks.simps) (simp add: len)
  have "parse_xr_blocks ?p 8 None = Some \<lparr>vb_source_ssrc = remote, vb_metrics = m\<rparr>"
    by (subst parse_xr_blocks.simps) (simp add: len bl ty body rem mp stop Let_def)
  then have one: "parse_one PT_XR 0 ?p = [ExtendedReport \<lparr>xr_ssrc = ssrc,
      xr_voip_metrics = Some \<lparr>vb_source_ssrc = remote, vb_metrics = m\<rparr>\<rparr>]"
    by (simp add: parse_one_def parse_xr_def opt_list_def pt_defs len w)
  have lw: "length ?p = (unat (10 :: u16) + 1) * 4" using len by simp
  show ?thesis using parse_compound_step [OF p _ lw, of rest] one by simp
qed

lemma parse_compound_Nil [simp]: "parse_rtcp_compound [] = []"
  by (subst parse_rtcp_compound.simps) simp

text \<open>The compound parser reads back everything the builders write: a compound SR or RR with its SDES, followed by an
  XR and a BYE, comes back as exactly those packets with all their fields, the signed 24-bit loss included.\<close>

theorem rtcp_compound_roundtrip:
  assumes "blocks_ok rbs" and "length cname \<le> 255" and "utf8_valid cname" and "length ss \<le> 31"
    and "case r of None \<Rightarrow> True | Some t \<Rightarrow> length t \<le> 255 \<and> utf8_valid t"
  shows "parse_rtcp_compound (build_compound_sr ssrc ntp rts pc oc rbs cname @ build_xr_voip_metrics ssrc remote m
      @ build_bye ss r)
    = [SenderReport \<lparr>sr_ssrc = ssrc, sr_ntp_timestamp = ntp, sr_rtp_timestamp = rts, sr_packet_count = pc,
         sr_octet_count = oc, sr_report_blocks = rbs\<rparr>,
       SourceDescription [\<lparr>sc_ssrc = ssrc, sc_cname = Some cname\<rparr>],
       ExtendedReport \<lparr>xr_ssrc = ssrc, xr_voip_metrics = Some \<lparr>vb_source_ssrc = remote, vb_metrics = m\<rparr>\<rparr>,
       Goodbye \<lparr>bye_sources = ss, bye_reason = r\<rparr>]
   \<and> parse_rtcp_compound (build_compound_rr ssrc rbs cname)
    = [ReceiverReport \<lparr>rr_ssrc = ssrc, rr_report_blocks = rbs\<rparr>,
       SourceDescription [\<lparr>sc_ssrc = ssrc, sc_cname = Some cname\<rparr>]]"
  using parse_built_sr [OF assms(1)] parse_built_rr [OF assms(1)] parse_built_sdes [OF assms(2,3), of ssrc "[]"]
    parse_built_sdes [OF assms(2,3)] parse_built_xr parse_built_bye [OF assms(4,5), of "[]"]
  by (simp add: build_compound_sr_def build_compound_rr_def)

end
