(* ===== verification/Rtp_Rtcp_Session_Props.thy ===== *)
theory Rtp_Rtcp_Session_Props
  imports Rtp_Rtcp_Session Rtp_Rtcp_Props
begin

text \<open>
  The statistics of an RTCP session: exact packet counts against the true, unbounded sequence
  numbers, the round-trip time measured between two sessions, and what a session reports.
\<close>

section \<open>Frames\<close>

lemma record_loss_event_frame [simp]:
  "rs_packets_received (record_loss_event b s) = rs_packets_received s"
  "rs_highest_seq (record_loss_event b s) = rs_highest_seq s"
  "rs_seq_cycles (record_loss_event b s) = rs_seq_cycles s"
  "rs_base_seq (record_loss_event b s) = rs_base_seq s"
  "rs_first_packet_received (record_loss_event b s) = rs_first_packet_received s"
  "rs_remote_ssrc (record_loss_event b s) = rs_remote_ssrc s"
  by (simp_all add: record_loss_event_def compute_burst_gap_density_def Let_def)

lemma record_losses_frame [simp]:
  "rs_packets_received ((record_loss_event b ^^ n) s) = rs_packets_received s"
  "rs_highest_seq ((record_loss_event b ^^ n) s) = rs_highest_seq s"
  "rs_seq_cycles ((record_loss_event b ^^ n) s) = rs_seq_cycles s"
  "rs_base_seq ((record_loss_event b ^^ n) s) = rs_base_seq s"
  "rs_first_packet_received ((record_loss_event b ^^ n) s) = rs_first_packet_received s"
  "rs_remote_ssrc ((record_loss_event b ^^ n) s) = rs_remote_ssrc s"
  by (induction n) simp_all

lemma note_losses_frame [simp]:
  "rs_packets_received (note_losses w p q s) = rs_packets_received s"
  "rs_highest_seq (note_losses w p q s) = rs_highest_seq s"
  "rs_seq_cycles (note_losses w p q s) = rs_seq_cycles s"
  "rs_base_seq (note_losses w p q s) = rs_base_seq s"
  "rs_first_packet_received (note_losses w p q s) = rs_first_packet_received s"
  "rs_remote_ssrc (note_losses w p q s) = rs_remote_ssrc s"
  by (simp_all add: note_losses_def Let_def)

lemma update_arrival_frame [simp]:
  "rs_packets_received (update_arrival now ts s) = rs_packets_received s"
  "rs_highest_seq (update_arrival now ts s) = rs_highest_seq s"
  "rs_seq_cycles (update_arrival now ts s) = rs_seq_cycles s"
  "rs_base_seq (update_arrival now ts s) = rs_base_seq s"
  "rs_first_packet_received (update_arrival now ts s) = rs_first_packet_received s"
  "rs_remote_ssrc (update_arrival now ts s) = rs_remote_ssrc s"
  "rs_expected_packets (update_arrival now ts s) = rs_expected_packets s"
  "rs_highest_ext_seq (update_arrival now ts s) = rs_highest_ext_seq s"
  by (simp_all add: update_arrival_def Let_def split: option.split)

section \<open>Packet counts\<close>

text \<open>The state after packets whose true sequence numbers start at \<open>x0\<close> and reach \<open>m\<close>: \<open>n\<close> of
  them have arrived.\<close>

definition tracks :: "nat \<Rightarrow> nat \<Rightarrow> nat \<Rightarrow> u32 \<Rightarrow> rtcp_session \<Rightarrow> bool" where
  "tracks x0 m n ssrc s \<longleftrightarrow> rs_first_packet_received s \<and> rs_remote_ssrc s = Some ssrc
     \<and> x0 \<le> m \<and> rs_highest_seq s = of_nat m \<and> rs_seq_cycles s = of_nat (m div 65536 - x0 div 65536)
     \<and> rs_base_seq s = of_nat (x0 mod 65536) \<and> rs_packets_received s = of_nat n"

text \<open>A sequence number near the highest one: less than 3000 ahead of it or at most 100 behind it.\<close>

definition near :: "nat \<Rightarrow> nat \<Rightarrow> bool" where
  "near m x \<longleftrightarrow> (if m \<le> x then x - m < 3000 else m - x \<le> 100)"

lemma udelta_ahead: "m \<le> x \<Longrightarrow> x - m < 65536 \<Longrightarrow> unat (of_nat x - of_nat m :: u16) = x - m"
  by (simp flip: of_nat_diff add: unat_of_nat)

lemma udelta_behind: "x < m \<Longrightarrow> m - x < 65536 \<Longrightarrow> unat (of_nat x - of_nat m :: u16) = 65536 - (m - x)"
proof -
  assume x: "x < m" "m - x < 65536"
  have "(of_nat 65536 :: u16) = 0" by (simp add: word_unat_eq_iff)
  then have e: "(of_nat (65536 - (m - x)) :: u16) = of_nat x - of_nat m"
    using x by (simp add: of_nat_diff)
  have "unat (of_nat (65536 - (m - x)) :: u16) = 65536 - (m - x)"
    by (rule unat_small_u16) (use x in simp)
  then show ?thesis unfolding e .
qed

lemma div_step:
  fixes m x :: nat
  assumes "m \<le> x" and "x - m < 3000"
  shows "x mod 65536 < m mod 65536 \<Longrightarrow> x div 65536 = Suc (m div 65536)"
    and "\<not> x mod 65536 < m mod 65536 \<Longrightarrow> x div 65536 = m div 65536"
proof -
  define a b r q where "a = x div 65536" and "b = m div 65536" and "r = x mod 65536" and "q = m mod 65536"
  have e: "x = 65536 * a + r" "m = 65536 * b + q" "r < 65536" "q < 65536"
    by (simp_all add: a_def b_def r_def q_def)
  have ba: "b \<le> a"
  proof (rule ccontr)
    assume "\<not> b \<le> a" then have "Suc a \<le> b" by simp
    with e assms(1) show False by linarith
  qed
  have ab: "a \<le> Suc b"
  proof (rule ccontr)
    assume "\<not> a \<le> Suc b" then have "Suc (Suc b) \<le> a" by simp
    with e assms show False by linarith
  qed
  have "a = Suc b" if "r < q"
  proof -
    have "a \<noteq> b" using e assms(1) that by auto
    with ba ab show ?thesis by simp
  qed
  moreover have "a = b" if "\<not> r < q"
  proof -
    have "a \<noteq> Suc b" using e assms that by auto
    with ba ab show ?thesis by simp
  qed
  ultimately show "x mod 65536 < m mod 65536 \<Longrightarrow> x div 65536 = Suc (m div 65536)"
    "\<not> x mod 65536 < m mod 65536 \<Longrightarrow> x div 65536 = m div 65536"
    by (simp_all add: a_def b_def r_def q_def)
qed

lemma track_seq_ahead:
  assumes t: "tracks x0 m n ssrc s" and x: "m \<le> x" "x - m < 3000"
  shows "tracks x0 x n ssrc (track_seq (of_nat x) s)"
proof -
  have m: "rs_first_packet_received s" "rs_highest_seq s = of_nat m" "x0 \<le> m"
    "rs_seq_cycles s = of_nat (m div 65536 - x0 div 65536)"
    using t by (simp_all add: tracks_def)
  have ud: "(of_nat x - of_nat m :: u16) < MAX_DROPOUT"
    using udelta_ahead [of m x] x by (simp add: word_less_nat_alt MAX_DROPOUT_def)
  have wrap: "((of_nat x :: u16) < of_nat m) \<Longrightarrow> x div 65536 = Suc (m div 65536)"
    and same: "\<not> (of_nat x :: u16) < of_nat m \<Longrightarrow> x div 65536 = m div 65536"
    using div_step [OF x] by (simp_all add: word_less_nat_alt unat_of_nat)
  have le: "x0 div 65536 \<le> m div 65536" using m(3) by (rule div_le_mono)
  have "rs_seq_cycles (track_seq (of_nat x) s) = of_nat (x div 65536 - x0 div 65536)"
  proof (cases "(of_nat x :: u16) < of_nat m")
    case True
    with wrap [OF True] le have "x div 65536 - x0 div 65536 = Suc (m div 65536 - x0 div 65536)"
      by (simp add: Suc_diff_le)
    with True m ud show ?thesis by (simp add: track_seq_def Let_def)
  next
    case False
    with same [OF False] m ud show ?thesis by (simp add: track_seq_def Let_def)
  qed
  then show ?thesis using t x ud by (simp add: tracks_def track_seq_def Let_def)
qed

lemma track_seq_behind:
  assumes t: "tracks x0 m n ssrc s" and x: "x < m" "m - x \<le> 100"
  shows "track_seq (of_nat x) s = s"
proof -
  have m: "rs_first_packet_received s" "rs_highest_seq s = of_nat m"
    using t by (simp_all add: tracks_def)
  have ud: "unat (of_nat x - of_nat m :: u16) = 65536 - (m - x)"
    using udelta_behind [of x m] x by simp
  have "\<not> (of_nat x - of_nat m :: u16) < MAX_DROPOUT" "\<not> (of_nat x - of_nat m :: u16) \<le> 0xFFFF - MAX_MISORDER"
    using x by (simp_all add: word_less_nat_alt word_le_nat_alt ud MAX_DROPOUT_def MAX_MISORDER_def)
  with m show ?thesis by (simp add: track_seq_def Let_def)
qed

lemma receive_tracks:
  assumes t: "tracks x0 m n ssrc s" and "near m x"
  shows "tracks x0 (max m x) (Suc n) ssrc (record_rtp_received now ssrc (of_nat x) ts s)"
proof -
  let ?s = "s\<lparr>rs_remote_ssrc := Some ssrc, rs_packets_received := rs_packets_received s + 1\<rparr>"
  have t1: "tracks x0 m (Suc n) ssrc ?s" using t by (simp add: tracks_def)
  have "tracks x0 (max m x) (Suc n) ssrc (track_seq (of_nat x) ?s)"
    using track_seq_ahead [OF t1] track_seq_behind [OF t1] t1 assms(2)
    by (auto simp: near_def max_def split: if_splits)
  then show ?thesis
    using t by (simp add: record_rtp_received_def Let_def tracks_def update_counts_def)
qed

text \<open>A stream: the true sequence numbers of the packets as they arrive, with the arrival times and the timestamps.\<close>

fun near_arrivals :: "nat \<Rightarrow> (nat \<times> nat \<times> u32) list \<Rightarrow> bool" where
  "near_arrivals m [] = True"
| "near_arrivals m ((now, x, ts) # ps) = (near m x \<and> near_arrivals (max m x) ps)"

abbreviation receive_stream :: "u32 \<Rightarrow> rtcp_session \<Rightarrow> (nat \<times> nat \<times> u32) list \<Rightarrow> rtcp_session" where
  "receive_stream ssrc \<equiv> foldl (\<lambda>s (now, x, ts). record_rtp_received now ssrc (of_nat x) ts s)"

definition highest_of :: "nat \<Rightarrow> (nat \<times> nat \<times> u32) list \<Rightarrow> nat" where
  "highest_of m ps = foldl (\<lambda>m (now, x, ts). max m x) m ps"

lemma receive_stream_tracks:
  "tracks x0 m n ssrc s \<Longrightarrow> near_arrivals m ps
    \<Longrightarrow> tracks x0 (highest_of m ps) (n + length ps) ssrc (receive_stream ssrc s ps)"
proof (induction m ps arbitrary: n s rule: near_arrivals.induct)
  case (2 m now x ts ps)
  from 2 have "tracks x0 (max m x) (Suc n) ssrc (record_rtp_received now ssrc (of_nat x) ts s)"
    by (intro receive_tracks) simp_all
  from "2.IH" [OF this] "2.prems"(2) show ?case by (simp add: highest_of_def)
qed (simp add: highest_of_def)

lemma shift16_or: "push_bit 16 w OR ucast (x :: u16) = push_bit 16 w + (ucast x :: u32)"
  by (rule disjunctive_add [symmetric]) (auto simp: bit_simps dest: bit_imp_le_length)

lemma ext_seq_value:
  assumes "x0 \<le> m" and "m - x0 < 4294901760"
  shows "unat (push_bit 16 (ucast (of_nat (m div 65536 - x0 div 65536) :: u64)) OR ucast (of_nat m :: u16) :: u32)
    = m - x0 div 65536 * 65536"
proof -
  let ?c = "m div 65536 - x0 div 65536"
  have le: "x0 div 65536 \<le> m div 65536" using assms(1) by (rule div_le_mono)
  have parts: "?c * 65536 + m mod 65536 = m - x0 div 65536 * 65536"
    using mult_le_mono1 [OF le, of 65536] div_mult_mod_eq [of m 65536] unfolding diff_mult_distrib by linarith
  have bound: "m - x0 div 65536 * 65536 < 4294967296"
    using assms div_mult_mod_eq [of x0 65536] mod_less_divisor [of 65536 x0] by linarith
  have "?c * 65536 < 4294967296" using parts bound by linarith
  then have c: "?c < 65536" by simp
  have "push_bit 16 (ucast (of_nat ?c :: u64)) OR ucast (of_nat m :: u16) =
      push_bit 16 (ucast (of_nat ?c :: u64)) + (ucast (of_nat m :: u16) :: u32)"
    by (rule shift16_or)
  moreover have "unat (push_bit 16 (ucast (of_nat ?c :: u64)) :: u32) = ?c * 65536"
    using c by (simp add: push_bit_eq_mult unat_word_ariths unat_of_nat unsigned_ucast_eq take_bit_eq_mod)
  moreover have "unat (ucast (of_nat m :: u16) :: u32) = m mod 65536"
    by (simp add: unat_ucast_16_32 unat_of_nat)
  ultimately show ?thesis using parts bound by (simp add: unat_word_ariths)
qed

lemma sint_small_diff:
  assumes "a < 2147483648" and "b < 2147483648"
  shows "sint (of_nat a - of_nat b :: u32) = int a - int b"
proof -
  have "(of_nat a - of_nat b :: u32) = word_of_int (int a - int b)" by simp
  then have "sint (of_nat a - of_nat b :: u32) = sint (word_of_int (int a - int b) :: u32)" by (rule arg_cong)
  also have "\<dots> = signed_take_bit 31 (int a - int b)"
    unfolding signed_of_int by simp
  also have "\<dots> = int a - int b" using assms by (simp add: signed_take_bit_int_eq_self)
  finally show ?thesis .
qed

lemma cumulative_exact:
  assumes "a < 2147483648" and "b < 2147483648"
  shows "sint (cumulative_lost_of (of_nat a) (of_nat b)) = min (max (int a - int b) (- 0x7FFFFF)) 0x7FFFFF"
  unfolding cumulative_lost_of_def sint_small_diff [OF assms]
  by (simp add: signed_of_int signed_take_bit_int_eq_self)

lemma counts_of_tracks:
  assumes t: "tracks x0 m n ssrc s" and s: "s = update_arrival now ts (update_counts s')" and "m - x0 < 2147483647"
  shows "unat (rs_highest_ext_seq s) = m - x0 div 65536 * 65536"
    and "rs_expected_packets s = of_nat (m - x0 + 1)"
proof -
  have x0: "x0 \<le> m" "m - x0 < 4294901760" using t assms(3) by (simp_all add: tracks_def)
  have f: "rs_seq_cycles s' = of_nat (m div 65536 - x0 div 65536)" "rs_highest_seq s' = of_nat m"
    "rs_base_seq s' = of_nat (x0 mod 65536)"
    using t by (simp_all add: s tracks_def update_counts_def Let_def)
  have hi: "rs_highest_ext_seq s = push_bit 16 (ucast (of_nat (m div 65536 - x0 div 65536) :: u64)) OR ucast (of_nat m :: u16)"
    by (simp add: s update_counts_def Let_def f)
  then show ext: "unat (rs_highest_ext_seq s) = m - x0 div 65536 * 65536"
    using ext_seq_value [OF x0] by simp
  have b: "unat (rs_base_seq s') = x0 mod 65536" by (simp add: f unat_of_nat)
  have le: "x0 div 65536 * 65536 \<le> x0" "x0 mod 65536 = x0 - x0 div 65536 * 65536"
    by (simp_all add: modulo_nat_def mult.commute)
  have "rs_base_seq s' \<le> rs_highest_ext_seq s" unfolding word_le_nat_alt ext b le(2) using x0(1) by (rule diff_le_mono)
  moreover have "rs_expected_packets s = sat_sub (rs_highest_ext_seq s) (rs_base_seq s') + 1"
    by (simp add: s update_counts_def Let_def)
  ultimately have e: "rs_expected_packets s = rs_highest_ext_seq s - rs_base_seq s' + 1" by (simp add: sat_sub_def)
  have "rs_highest_ext_seq s = of_nat (m - x0 div 65536 * 65536)" using ext by (simp flip: ext)
  moreover have "rs_base_seq s' = of_nat (x0 - x0 div 65536 * 65536)" using f(3) le(2) by simp
  ultimately have "rs_expected_packets s = of_nat ((m - x0 div 65536 * 65536) - (x0 - x0 div 65536 * 65536) + 1)"
    unfolding e using x0(1) le(1) by (simp add: of_nat_diff)
  then show "rs_expected_packets s = of_nat (m - x0 + 1)" using x0(1) le(1) by simp
qed

lemma received_form: "\<exists>s'. record_rtp_received now ssrc q ts s = update_arrival now ts (update_counts s')"
  by (auto simp: record_rtp_received_def Let_def)

lemma received_last:
  "\<exists>now' ts' s'. receive_stream ssrc (record_rtp_received now ssrc q ts s) ps = update_arrival now' ts' (update_counts s')"
proof (cases ps rule: rev_cases)
  case Nil
  then show ?thesis using received_form [of now ssrc q ts s] by auto
next
  case (snoc ys p)
  obtain a x b where "p = (a, x, b)" by (cases p)
  with snoc received_form [of a ssrc "of_nat x" b "receive_stream ssrc (record_rtp_received now ssrc q ts s) ys"]
  show ?thesis by auto
qed

lemma ucast_of_nat_16: "(ucast (of_nat n :: u16) :: u32) = of_nat (n mod 65536)"
proof -
  have "n mod 65536 < 65536" by simp
  then have "n mod 65536 < 4294967296" by linarith
  then show ?thesis by (simp add: word_unat_eq_iff unat_ucast_16_32 unat_of_nat)
qed

lemma first_tracks: "tracks x0 x0 1 ssrc (record_rtp_received now ssrc (of_nat x0) ts (session_with_clock_rate random start local cname rate))"
  by (simp add: tracks_def record_rtp_received_def session_with_clock_rate_def Let_def track_seq_def update_counts_def
      note_losses_def ucast_of_nat_16)

section \<open>The report of a stream\<close>

lemma receive_stream_frame:
  "rs_packets_sent (receive_stream ssrc s ps) = rs_packets_sent s
   \<and> rs_local_ssrc (receive_stream ssrc s ps) = rs_local_ssrc s \<and> rs_cname (receive_stream ssrc s ps) = rs_cname s"
proof -
  have loss: "rs_packets_sent (record_loss_event b s) = rs_packets_sent s
      \<and> rs_local_ssrc (record_loss_event b s) = rs_local_ssrc s \<and> rs_cname (record_loss_event b s) = rs_cname s" for b s
    by (simp add: record_loss_event_def compute_burst_gap_density_def Let_def)
  have losses: "rs_packets_sent ((record_loss_event b ^^ n) s) = rs_packets_sent s
      \<and> rs_local_ssrc ((record_loss_event b ^^ n) s) = rs_local_ssrc s
      \<and> rs_cname ((record_loss_event b ^^ n) s) = rs_cname s" for b n s
    by (induction n) (simp_all add: loss)
  have noted: "rs_packets_sent (note_losses w p q s) = rs_packets_sent s
      \<and> rs_local_ssrc (note_losses w p q s) = rs_local_ssrc s \<and> rs_cname (note_losses w p q s) = rs_cname s" for w p q s
    by (simp add: note_losses_def Let_def loss losses)
  have track: "rs_packets_sent (track_seq q s) = rs_packets_sent s
      \<and> rs_local_ssrc (track_seq q s) = rs_local_ssrc s \<and> rs_cname (track_seq q s) = rs_cname s" for q s
    by (simp add: track_seq_def Let_def)
  have arrival: "rs_packets_sent (update_arrival now ts s) = rs_packets_sent s
      \<and> rs_local_ssrc (update_arrival now ts s) = rs_local_ssrc s
      \<and> rs_cname (update_arrival now ts s) = rs_cname s" for now ts s
    by (simp add: update_arrival_def Let_def split: option.split)
  have one: "rs_packets_sent (record_rtp_received now ssrc q ts s) = rs_packets_sent s
      \<and> rs_local_ssrc (record_rtp_received now ssrc q ts s) = rs_local_ssrc s
      \<and> rs_cname (record_rtp_received now ssrc q ts s) = rs_cname s" for now q ts s
    by (simp add: record_rtp_received_def Let_def arrival noted track update_counts_def reset_receiver_def)
  show ?thesis
  proof (induction ps arbitrary: s)
    case (Cons p ps)
    obtain now x ts where "p = (now, x, ts)" by (cases p)
    with Cons one [of now "of_nat x" ts s] show ?case by simp
  qed simp
qed

lemma fits_24_cumulative: "fits_24 (cumulative_lost_of a b)"
proof -
  have "sint (cumulative_lost_of a b) = min (max (sint (a - b)) (- 0x7FFFFF)) 0x7FFFFF"
    unfolding cumulative_lost_of_def by (simp add: signed_of_int signed_take_bit_int_eq_self)
  then have "- 0x7FFFFF \<le> sint (cumulative_lost_of a b)" "sint (cumulative_lost_of a b) \<le> 0x7FFFFF" by simp_all
  then show ?thesis by (simp add: fits_24_def)
qed

lemma length_compound_rr:
  assumes "length rbs \<le> 1"
  shows "length (build_compound_rr ssrc rbs cname) \<le> 400"
proof -
  let ?n = "min (length cname) 255"
  have "?n \<le> 255" by simp
  then have "(2 + ?n + 1 + 3) div 4 * 4 \<le> 261" by linarith
  then show ?thesis using assms
    by (simp add: build_compound_rr_def build_receiver_report_def build_sdes_cname_def Let_def)
qed

lemma build_rtcp_receiver:
  assumes "rs_packets_sent s = 0" and "length cname \<le> 255" and "utf8_valid cname" and "rs_cname s = cname"
  shows "\<exists>s' out rest. build_rtcp random later ntp 1500 s = Ok (s', out)
    \<and> parse_rtcp_compound out
        = ReceiverReport \<lparr>rr_ssrc = rs_local_ssrc s, rr_report_blocks = build_report_blocks later s\<rparr> # rest"
proof -
  let ?rbs = "build_report_blocks later s"
  let ?c = "build_compound_rr (rs_local_ssrc s) ?rbs cname"
  have rbs: "length ?rbs \<le> 1" "blocks_ok ?rbs"
    by (simp_all add: build_report_blocks_def blocks_ok_def fits_24_cumulative split: option.split)
  have len: "length ?c \<le> 400" using rbs(1) by (rule length_compound_rr)
  have p: "\<exists>r. parse_rtcp_compound (?c @ rest)
      = ReceiverReport \<lparr>rr_ssrc = rs_local_ssrc s, rr_report_blocks = ?rbs\<rparr> # r" for rest
    using parse_built_rr [OF rbs(2)] by (simp add: build_compound_rr_def)
  define out where "out = (if rs_remote_ssrc s \<noteq> None then ?c @ build_xr s else ?c)"
  have b: "\<exists>s'. build_rtcp random later ntp 1500 s = Ok (s', out)"
    using assms(1,4) len by (simp add: build_rtcp_def Let_def out_def)
  have "\<exists>r. parse_rtcp_compound out = ReceiverReport \<lparr>rr_ssrc = rs_local_ssrc s, rr_report_blocks = ?rbs\<rparr> # r"
    using p [of "[]"] p [of "build_xr s"] by (simp add: out_def)
  with b show ?thesis by blast
qed




section \<open>The delay since the last sender report\<close>

definition dlsr_micros :: "u32 \<Rightarrow> nat" where
  "dlsr_micros w = unat (drop_bit 16 (ucast w * 1000000 :: u64))"

lemma dlsr_micros_value: "dlsr_micros w = unat w * 1000000 div 65536"
proof -
  have w: "unat w < 4294967296" using unsigned_less [of w, where ?'a = nat] by simp
  then have "unat w * 1000000 < 2 ^ 64" by simp
  then have "unat (ucast w * 1000000 :: u64) = unat w * 1000000"
    using w by (simp add: unat_word_ariths unsigned_ucast_eq take_bit_eq_mod)
  then show ?thesis unfolding dlsr_micros_def unat_drop_bit_eq by (simp only: drop_bit_eq_div) simp
qed

lemma shift16_or_nat:
  assumes "a \<le> 65535" and "f \<le> 65535"
  shows "unat (push_bit 16 (of_nat a) OR of_nat f :: u64) = a * 65536 + f"
proof -
  have bits: "n < 16" if "bit (of_nat f :: u64) n" for n
  proof (rule ccontr)
    assume n: "\<not> n < 16"
    have "(2::nat) ^ 16 \<le> 2 ^ n" using n by (intro power_increasing) simp_all
    with assms(2) have "f < 2 ^ n" by simp
    moreover have "bit f n" using that by (simp add: bit_of_nat_iff)
    ultimately show False by (simp add: bit_iff_odd)
  qed
  have "push_bit 16 (of_nat a :: u64) OR of_nat f = push_bit 16 (of_nat a) + of_nat f"
    by (rule disjunctive_add [symmetric]) (use bits in \<open>metis bit_push_bit_iff not_le\<close>)
  then show ?thesis using assms by (simp add: push_bit_eq_mult unat_word_ariths unat_of_nat)
qed

lemma unat_dlsr_of:
  assumes "d < 65536 * 1000000000"
  shows "unat (dlsr_of d) = d div 1000000000 * 65536 + d mod 1000000000 div 1000 * 65536 div 1000000"
proof -
  define a m f where "a = d div 1000000000" and "m = d mod 1000000000 div 1000" and "f = m * 65536 div 1000000"
  have a: "a \<le> 65535" unfolding a_def using assms by linarith
  have "m < 1000000" by (simp add: m_def less_mult_imp_div_less)
  then have f: "f \<le> 65535" unfolding f_def by linarith
  have "dlsr_of d = ucast (push_bit 16 (of_nat a) OR of_nat f :: u64)"
    unfolding dlsr_of_def Let_def a_def [symmetric] m_def [symmetric] f_def [symmetric]
    using a f by (simp add: min_absorb1)
  then have "unat (dlsr_of d) = (a * 65536 + f) mod 4294967296"
    by (simp add: unsigned_ucast_eq take_bit_eq_mod shift16_or_nat [OF a f])
  then show ?thesis using a f unfolding a_def m_def f_def by simp
qed

lemma dlsr_accurate:
  assumes "d < 65536 * 1000000000"
  shows "dlsr_micros (dlsr_of d) * 1000 \<le> d" and "d < dlsr_micros (dlsr_of d) * 1000 + 18000"
proof -
  define a m f where "a = d div 1000000000" and "m = d mod 1000000000 div 1000" and "f = m * 65536 div 1000000"
  have v: "dlsr_micros (dlsr_of d) = (a * 65536 + f) * 1000000 div 65536"
    unfolding dlsr_micros_value unat_dlsr_of [OF assms] by (simp add: a_def m_def f_def)
  have d: "a * 1000000000 + m * 1000 \<le> d" "d < a * 1000000000 + m * 1000 + 1000"
    using div_mult_mod_eq [of d 1000000000] div_mult_mod_eq [of "d mod 1000000000" 1000]
      mod_less_divisor [of 1000 "d mod 1000000000"] unfolding a_def m_def by linarith+
  have f: "f * 1000000 \<le> m * 65536" "m * 65536 < f * 1000000 + 1000000" unfolding f_def by linarith+
  define r where "r = (a * 65536 + f) * 1000000 div 65536"
  have r: "r * 65536 \<le> (a * 65536 + f) * 1000000" "(a * 65536 + f) * 1000000 < r * 65536 + 65536"
    unfolding r_def by linarith+
  show "dlsr_micros (dlsr_of d) * 1000 \<le> d" "d < dlsr_micros (dlsr_of d) * 1000 + 18000"
    unfolding v r_def [symmetric] using d f r by (simp_all add: distrib_right)
qed

text \<open>The round-trip time is measured to 18 microseconds: when the peer answers a sender report after a processing
  delay of d nanoseconds, the report block it builds makes the sender compute the time since it sent the report
  less that delay, the 16.16 fixed-point rounding of the delay adding less than 18 microseconds.\<close>

theorem rtt_measured:
  assumes "rs_last_sr_sent_at a = Some t0" and "rs_rtt a = None"
    and "rs_remote_ssrc b = Some (rs_local_ssrc a)" and "rs_last_sr_received_at b = Some tb"
    and "rs_last_sr_ntp_compact b \<noteq> 0"
    and "t0 + d \<le> t1" and "t1 - t0 < 30000000000"
  shows "case rs_rtt (fst (process_packet t1 ntp (a, col) (ReceiverReport
          \<lparr>rr_ssrc = rs_local_ssrc b, rr_report_blocks = build_report_blocks (tb + d) b\<rparr>))) of
      Some r \<Rightarrow> t1 - t0 - d \<le> r \<and> r < t1 - t0 - d + 18000
    | None \<Rightarrow> False"
proof -
  have dl: "dlsr_micros (dlsr_of d) * 1000 \<le> d" "d < dlsr_micros (dlsr_of d) * 1000 + 18000"
    by (rule dlsr_accurate; use assms(6,7) in linarith)+
  define x where "x = dlsr_micros (dlsr_of d) * 1000"
  obtain rb where b: "build_report_blocks (tb + d) b = [rb]" and
      rb: "rb_ssrc rb = rs_local_ssrc a" "rb_last_sr rb \<noteq> 0" "rb_delay_since_last_sr rb = dlsr_of d"
    using assms(3-5) by (simp add: build_report_blocks_def)
  have le: "x \<le> t1 - t0" using dl(1) assms(6) x_def by linarith
  have small: "(t1 - t0 - x) div 1000 < 30000000" using assms(7) by linarith
  have "rs_rtt (calculate_rtt t1 ntp rb a) = Some (t1 - t0 - x)"
    using le small assms(1,2) unfolding calculate_rtt_def rb(3) dlsr_micros_def [symmetric] Let_def x_def by simp
  then have "rs_rtt (fst (process_packet t1 ntp (a, col) (ReceiverReport
      \<lparr>rr_ssrc = rs_local_ssrc b, rr_report_blocks = [rb]\<rparr>))) = Some (t1 - t0 - x)"
    using rb(1,2) by (simp add: take_blocks_def)
  moreover have "t1 - t0 - d \<le> t1 - t0 - x" "t1 - t0 - x < t1 - t0 - d + 18000"
    using dl assms(6) unfolding x_def by linarith+
  ultimately show ?thesis unfolding b by simp
qed

section \<open>Gap density\<close>

lemma burst_scan_gap_lost: "bc_gap_lost (burst_scan ws b) = bc_gap_lost b"
  by (induction ws b rule: burst_scan.induct) (simp_all add: Let_def)

text \<open>The gap density a session reports is always 0: the loop over the loss window never counts a loss outside a
  burst, so a received stream with isolated losses is reported as having none in its gaps.\<close>

theorem gap_density_always_zero: "rs_gap_density (record_loss_event received s) = 0"
  by (simp add: record_loss_event_def compute_burst_gap_density_def Let_def burst_scan_gap_lost density_def)

section \<open>Witnesses\<close>

text \<open>Concrete packets, streams and exchanges for the theorems on RTCP.\<close>

lemma utf8_valid_ascii_a: "utf8_valid [97]"
  by (simp add: utf8_valid.simps [of "[97]"] utf8_step_def byte_at_def Let_def)

lemma rtcp_compound_roundtrip_witness:
  "parse_rtcp_compound (build_compound_sr 1 (ntp_now 0 0) 160 1 160
       [\<lparr>rb_ssrc = 2, rb_fraction_lost = 3, rb_cumulative_lost = - 1, rb_extended_highest_seq = 7, rb_jitter = 5,
         rb_last_sr = 9, rb_delay_since_last_sr = 11\<rparr>] [97]
     @ build_xr_voip_metrics 1 2 (xr_metrics (session_new 0 0 1 [97])) @ build_bye [1] (Some [97]))
    = [SenderReport \<lparr>sr_ssrc = 1, sr_ntp_timestamp = ntp_now 0 0, sr_rtp_timestamp = 160, sr_packet_count = 1,
         sr_octet_count = 160, sr_report_blocks = [\<lparr>rb_ssrc = 2, rb_fraction_lost = 3, rb_cumulative_lost = - 1,
           rb_extended_highest_seq = 7, rb_jitter = 5, rb_last_sr = 9, rb_delay_since_last_sr = 11\<rparr>]\<rparr>,
       SourceDescription [\<lparr>sc_ssrc = 1, sc_cname = Some [97]\<rparr>],
       ExtendedReport \<lparr>xr_ssrc = 1, xr_voip_metrics =
         Some \<lparr>vb_source_ssrc = 2, vb_metrics = xr_metrics (session_new 0 0 1 [97])\<rparr>\<rparr>,
       Goodbye \<lparr>bye_sources = [1], bye_reason = Some [97]\<rparr>]"
proof -
  have b: "blocks_ok [\<lparr>rb_ssrc = 2, rb_fraction_lost = 3, rb_cumulative_lost = - 1, rb_extended_highest_seq = 7,
      rb_jitter = 5, rb_last_sr = 9, rb_delay_since_last_sr = 11\<rparr>]"
    by (simp add: blocks_ok_def fits_24_def)
  show ?thesis
    by (rule rtcp_compound_roundtrip [THEN conjunct1, OF b]) (simp_all add: utf8_valid_ascii_a)
qed


text \<open>A sender report leaves at 100 ms, the peer holds it for half a second, the answer is back at 900 ms.\<close>

definition reporter :: rtcp_session where
  "reporter = (session_new 0 0 1 [97])\<lparr>rs_last_sr_sent_at := Some 100000000\<rparr>"

definition answerer :: rtcp_session where
  "answerer = (session_new 0 0 2 [97])\<lparr>rs_remote_ssrc := Some 1, rs_last_sr_received_at := Some 250000000,
     rs_last_sr_ntp_compact := 77\<rparr>"

lemma rtt_measured_witness:
  "case rs_rtt (fst (process_packet 900000000 (ntp_now 0 0) (reporter, False)
        (ReceiverReport \<lparr>rr_ssrc = rs_local_ssrc answerer,
          rr_report_blocks = build_report_blocks (250000000 + 500000000) answerer\<rparr>))) of
      Some r \<Rightarrow> 900000000 - 100000000 - 500000000 \<le> r \<and> r < 900000000 - 100000000 - 500000000 + 18000
    | None \<Rightarrow> False"
  by (rule rtt_measured) (simp_all add: reporter_def answerer_def session_new_def session_with_clock_rate_def Let_def)

end
