(* ===== verification/Rtp_G711.thy ===== *)
theory Rtp_G711
  imports Rtp_Strings
begin

text \<open>
  \<^verbatim>\<open>src/rtp/codec.rs\<close>: the codec types and the G.711 wrapper. The sample conversions are
  those of the \<^verbatim>\<open>audio-codec-algorithms\<close> crate, so they are arguments: the decoders map a
  byte to a 16-bit sample and the encoders a sample to a byte.
\<close>

datatype codec_type = Pcmu | Pcma

fun payload_type_of :: "codec_type \<Rightarrow> byte" where
  "payload_type_of Pcmu = 0"
| "payload_type_of Pcma = 8"

definition codec_sample_rate :: "codec_type \<Rightarrow> u32" where "codec_sample_rate c = 8000"

definition samples_per_frame :: "codec_type \<Rightarrow> u32 \<Rightarrow> nat" where
  "samples_per_frame c ptime_ms = unat (codec_sample_rate c * ptime_ms div 1000)"

definition codec_from_str :: "string \<Rightarrow> codec_type res" where
  "codec_from_str s =
     (let u = to_uppercase s
      in if u = ''PCMU'' \<or> u = ''ULAW'' \<or> u = ''G711U'' then Ok Pcmu
         else if u = ''PCMA'' \<or> u = ''ALAW'' \<or> u = ''G711A'' then Ok Pcma
         else Err (Codec (''Unsupported codec: '' @ s @ ''. Use PCMU or PCMA'')))"

fun sdp_name :: "codec_type \<Rightarrow> string" where
  "sdp_name Pcmu = ''PCMU''"
| "sdp_name Pcma = ''PCMA''"

type_synonym sample = "16 word"

record g711_crate =
  gc_encode_ulaw :: "sample \<Rightarrow> byte"
  gc_encode_alaw :: "sample \<Rightarrow> byte"
  gc_decode_ulaw :: "byte \<Rightarrow> sample"
  gc_decode_alaw :: "byte \<Rightarrow> sample"

fun g711_encode :: "g711_crate \<Rightarrow> codec_type \<Rightarrow> sample list \<Rightarrow> bytes" where
  "g711_encode k Pcmu samples = map (gc_encode_ulaw k) samples"
| "g711_encode k Pcma samples = map (gc_encode_alaw k) samples"

fun g711_decode :: "g711_crate \<Rightarrow> codec_type \<Rightarrow> bytes \<Rightarrow> sample list" where
  "g711_decode k Pcmu data = map (gc_decode_ulaw k) data"
| "g711_decode k Pcma data = map (gc_decode_alaw k) data"

text \<open>\<^verbatim>\<open>i16::abs\<close> wraps at the least value.\<close>

definition i16_abs :: "sample \<Rightarrow> sample" where "i16_abs w = (if sint w < 0 then - w else w)"

definition is_silence_frame :: "g711_crate \<Rightarrow> codec_type \<Rightarrow> bytes \<Rightarrow> bool" where
  "is_silence_frame k c data =
     (if data = [] then True
      else length (filter (\<lambda>s. sint (i16_abs s) \<le> 8) (g711_decode k c data)) * 100 \<ge> length data * 95)"

fun silence_byte :: "codec_type \<Rightarrow> byte" where
  "silence_byte Pcmu = 0xFF"
| "silence_byte Pcma = 0xD5"

end
