(* ===== verification/Rtp_Ip.thy ===== *)
theory Rtp_Ip
  imports Rtp_Strings
begin

text \<open>
  \<^verbatim>\<open>IpAddr\<close> of Rust's standard library as the crate uses it: the printed forms of
  \<^verbatim>\<open>Ipv4Addr\<close> and \<^verbatim>\<open>Ipv6Addr\<close> (RFC 5952, with the longest run of zero groups
  compressed and IPv4-mapped addresses in dotted form) and \<^verbatim>\<open>IpAddr::from_str\<close>, a
  backtracking parser over the text. A parser returns its value and the rest of the text.
\<close>

datatype ip_addr = Ip4 u32 | Ip6 u128

text \<open>The eight 16-bit groups of an IPv6 address.\<close>

definition segments :: "u128 \<Rightarrow> u16 list" where
  "segments a = map (\<lambda>i. of_nat (unat a div 65536 ^ i)) [7, 6, 5, 4, 3, 2, 1, 0]"

definition of_segments :: "u16 list \<Rightarrow> u128" where
  "of_segments gs = of_nat (foldl (\<lambda>v g. v * 65536 + unat g) 0 gs)"

fun is_ipv4 :: "ip_addr \<Rightarrow> bool" where
  "is_ipv4 (Ip4 _) = True"
| "is_ipv4 (Ip6 _) = False"

definition is_ipv6 :: "ip_addr \<Rightarrow> bool" where "is_ipv6 ip = (\<not> is_ipv4 ip)"

fun is_unspecified :: "ip_addr \<Rightarrow> bool" where
  "is_unspecified (Ip4 a) = (a = 0)"
| "is_unspecified (Ip6 a) = (a = 0)"

section \<open>Printing\<close>

fun join_with :: "string \<Rightarrow> string list \<Rightarrow> string" where
  "join_with sep [] = []"
| "join_with sep [x] = x"
| "join_with sep (x # y # ys) = x @ sep @ join_with sep (y # ys)"

definition octets :: "u32 \<Rightarrow> nat list" where
  "octets a = [unat a div 16777216, unat a div 65536 mod 256, unat a div 256 mod 256, unat a mod 256]"

definition show_ip4 :: "u32 \<Rightarrow> string" where
  "show_ip4 a = join_with ''.'' (map show_nat (octets a))"

definition hex_char :: "nat \<Rightarrow> char" where
  "hex_char n = (if n < 10 then digit_char n else char_of (87 + n))"

fun show_hex :: "nat \<Rightarrow> string" where
  "show_hex n = (if n < 16 then [hex_char n] else show_hex (n div 16) @ [hex_char (n mod 16)])"

declare show_hex.simps [simp del]

text \<open>The first of the longest runs of zero groups: its start and its length.\<close>

fun zero_run :: "u16 list \<Rightarrow> nat \<Rightarrow> nat \<times> nat \<Rightarrow> nat \<times> nat \<Rightarrow> nat \<times> nat" where
  "zero_run [] i longest current = longest"
| "zero_run (g # gs) i (ls, ll) (cs, cl) =
     (if g = 0 then
        (let cs' = (if cl = 0 then i else cs); cl' = cl + 1
         in zero_run gs (i + 1) (if cl' > ll then (cs', cl') else (ls, ll)) (cs', cl'))
      else zero_run gs (i + 1) (ls, ll) (0, 0))"

definition show_groups :: "u16 list \<Rightarrow> string" where
  "show_groups gs = join_with '':'' (map (\<lambda>g. show_hex (unat g)) gs)"

definition show_ip6 :: "u16 list \<Rightarrow> string" where
  "show_ip6 gs =
     (if take 6 gs = [0, 0, 0, 0, 0, 0xFFFF]
      then ''::ffff:'' @ show_ip4 (of_nat (unat (gs ! 6) * 65536 + unat (gs ! 7)))
      else
        (let (start, len) = zero_run gs 0 (0, 0) (0, 0)
         in if len > 1 then show_groups (take start gs) @ ''::'' @ show_groups (drop (start + len) gs)
            else show_groups gs))"

fun show_ip :: "ip_addr \<Rightarrow> string" where
  "show_ip (Ip4 a) = show_ip4 a"
| "show_ip (Ip6 a) = show_ip6 (segments a)"

section \<open>Parsing\<close>

definition is_hex :: "char \<Rightarrow> bool" where
  "is_hex c = (let n = (of_char c :: nat) in is_digit c \<or> (65 \<le> n \<and> n \<le> 70) \<or> (97 \<le> n \<and> n \<le> 102))"

definition hex_val :: "char \<Rightarrow> nat" where
  "hex_val c = (let n = (of_char c :: nat) in if n \<le> 57 then n - 48 else if n \<le> 70 then n - 55 else n - 87)"

definition hexs_val :: "string \<Rightarrow> nat" where "hexs_val s = foldl (\<lambda>a c. a * 16 + hex_val c) 0 s"

text \<open>\<^verbatim>\<open>read_number\<close> in radix 10 with at most 3 digits, no leading zero and a value of at most
  255, and in radix 16 with at most 4 digits.\<close>

definition read_octet :: "string \<Rightarrow> (nat \<times> string) option" where
  "read_octet s =
     (let ds = takeWhile is_digit s
      in if ds = [] \<or> length ds > 3 \<or> (hd ds = CHR ''0'' \<and> length ds > 1) \<or> digits_val ds > 255 then None
         else Some (digits_val ds, dropWhile is_digit s))"

definition read_group :: "string \<Rightarrow> (nat \<times> string) option" where
  "read_group s =
     (let ds = takeWhile is_hex s
      in if ds = [] \<or> length ds > 4 then None else Some (hexs_val ds, dropWhile is_hex s))"

definition read_char :: "char \<Rightarrow> string \<Rightarrow> string option" where
  "read_char c s = (case s of d # ds \<Rightarrow> if d = c then Some ds else None | [] \<Rightarrow> None)"

definition read_dot_octet :: "string \<Rightarrow> (nat \<times> string) option" where
  "read_dot_octet s = Option.bind (read_char (CHR ''.'') s) read_octet"

definition read_ip4 :: "string \<Rightarrow> (u32 \<times> string) option" where
  "read_ip4 s =
     Option.bind (read_octet s) (\<lambda>(a, s1).
     Option.bind (read_dot_octet s1) (\<lambda>(b, s2).
     Option.bind (read_dot_octet s2) (\<lambda>(c, s3).
     Option.bind (read_dot_octet s3) (\<lambda>(d, s4).
       Some (of_nat (a * 16777216 + b * 65536 + c * 256 + d), s4)))))"

text \<open>\<^verbatim>\<open>read_groups\<close>: the groups from index \<open>i\<close> on, up to \<open>lim\<close> of them; the flag says that the
  last two came from a dotted IPv4 address.\<close>

definition sep_before :: "nat \<Rightarrow> string \<Rightarrow> string option" where
  "sep_before i s = (if i > 0 then read_char (CHR '':'') s else Some s)"

fun read_groups :: "nat \<Rightarrow> nat \<Rightarrow> string \<Rightarrow> u16 list \<times> bool \<times> string" where
  "read_groups i 0 s = ([], False, s)"
| "read_groups i (Suc lim) s =
     (case (if lim > 0 then Option.bind (sep_before i s) read_ip4 else None) of
        Some (a, r) \<Rightarrow> ([of_nat (unat a div 65536), of_nat (unat a mod 65536)], True, r)
      | None \<Rightarrow>
          (case Option.bind (sep_before i s) read_group of
             Some (g, r) \<Rightarrow> (let (gs, v4, r') = read_groups (i + 1) lim r in (of_nat g # gs, v4, r'))
           | None \<Rightarrow> ([], False, s)))"

definition read_ip6 :: "string \<Rightarrow> (u16 list \<times> string) option" where
  "read_ip6 s =
     (let (head, head_v4, r) = read_groups 0 8 s
      in if length head = 8 then Some (head, r)
         else if head_v4 then None
         else
           Option.bind (read_char (CHR '':'') r) (\<lambda>r1.
           Option.bind (read_char (CHR '':'') r1) (\<lambda>r2.
             (let (tail, _, r3) = read_groups 0 (8 - (length head + 1)) r2
              in Some (head @ replicate (8 - length head - length tail) 0 @ tail, r3)))))"

definition parse_ip :: "string \<Rightarrow> ip_addr option" where
  "parse_ip s =
     (case (case read_ip4 s of
              Some (a, r) \<Rightarrow> Some (Ip4 a, r)
            | None \<Rightarrow> map_option (\<lambda>(gs, r). (Ip6 (of_segments gs), r)) (read_ip6 s)) of
        Some (ip, []) \<Rightarrow> Some ip
      | _ \<Rightarrow> None)"

section \<open>Round trip\<close>

lemma takeWhile_all: "list_all P xs \<Longrightarrow> \<not> (case r of [] \<Rightarrow> False | c # _ \<Rightarrow> P c) \<Longrightarrow> takeWhile P (xs @ r) = xs"
  by (induction xs) (auto split: list.splits)

lemma dropWhile_all: "list_all P xs \<Longrightarrow> \<not> (case r of [] \<Rightarrow> False | c # _ \<Rightarrow> P c) \<Longrightarrow> dropWhile P (xs @ r) = r"
  by (induction xs) (auto split: list.splits)

lemma show_nat_length: "n < 1000 \<Longrightarrow> length (show_nat n) \<le> 3"
  by (subst show_nat.simps, subst show_nat.simps, subst show_nat.simps) (auto simp: show_nat.simps)

lemma show_nat_leading: "hd (show_nat n) = CHR ''0'' \<Longrightarrow> length (show_nat n) = 1"
proof (induction n rule: show_nat.induct)
  case (1 n)
  show ?case
  proof (cases "n < 10")
    case False
    have e: "show_nat n = show_nat (n div 10) @ [digit_char (n mod 10)]" using False by (simp add: show_nat.simps [of n])
    have "hd (show_nat (n div 10)) = CHR ''0''" using "1.prems" unfolding e by simp
    then have l: "length (show_nat (n div 10)) = 1" using "1.IH" False by simp
    then have "show_nat (n div 10) = [CHR ''0'']"
      using \<open>hd (show_nat (n div 10)) = _\<close> by (cases "show_nat (n div 10)") auto
    then have "n div 10 = 0" using digits_val_show_nat [of "n div 10"] by (simp add: digits_val_def digit_val_def)
    with False show ?thesis by simp
  qed (simp add: show_nat.simps [of n])
qed

lemma read_octet_show:
  assumes "n \<le> 255" and "\<not> (case r of [] \<Rightarrow> False | c # _ \<Rightarrow> is_digit c)"
  shows "read_octet (show_nat n @ r) = Some (n, r)"
proof -
  have t: "takeWhile is_digit (show_nat n @ r) = show_nat n" "dropWhile is_digit (show_nat n @ r) = r"
    using takeWhile_all [OF show_nat_digits assms(2)] dropWhile_all [OF show_nat_digits assms(2)] by simp_all
  show ?thesis
    unfolding read_octet_def t Let_def using show_nat_length [of n] show_nat_leading [of n] assms(1)
    by (auto simp: digits_val_show_nat)
qed

lemma read_ip4_show:
  assumes "\<not> (case r of [] \<Rightarrow> False | c # _ \<Rightarrow> is_digit c)"
  shows "read_ip4 (show_ip4 a @ r) = Some (a, r)"
proof -
  have a: "unat a < 4294967296" by (rule unat32_less)
  define p q u v where d: "p = unat a div 16777216" "q = unat a div 65536 mod 256" "u = unat a div 256 mod 256"
    "v = unat a mod 256"
  have le: "p \<le> 255" "q \<le> 255" "u \<le> 255" "v \<le> 255"
    unfolding d using a by simp_all
  have e: "p * 16777216 + q * 65536 + u * 256 + v = unat a"
  proof -
    have h: "unat a div 65536 = unat a div 256 div 256" "unat a div 16777216 = unat a div 256 div 256 div 256"
      by (simp_all flip: div_mult2_eq)
    show ?thesis
      using div_mult_mod_eq [of "unat a" 256] div_mult_mod_eq [of "unat a div 256" 256]
        div_mult_mod_eq [of "unat a div 256 div 256" 256] unfolding d h by linarith
  qed
  have w: "(of_nat (p * 16777216 + q * 65536 + u * 256 + v) :: u32) = a" unfolding e by simp
  have dot: "\<not> is_digit (CHR ''.'')" by (simp add: is_digit_def)
  have s: "show_ip4 a @ r = show_nat p @ ''.'' @ show_nat q @ ''.'' @ show_nat u @ ''.'' @ show_nat v @ r"
    by (simp add: show_ip4_def octets_def d)
  show ?thesis
    unfolding s using le assms e dot
    by (simp add: read_ip4_def read_dot_octet_def read_char_def read_octet_show w del: of_nat_add of_nat_mult)
qed

lemma of_segments_segments: "of_segments (segments a) = a"
proof -
  let ?n = "unat a"
  define f where "f i = ?n div 65536 ^ i" for i
  have step: "f (Suc i) * 65536 + f i mod 65536 = f i" for i
  proof -
    have "f (Suc i) = f i div 65536" by (simp add: f_def mult.commute flip: div_mult2_eq)
    then show ?thesis by (simp add: div_mult_mod_eq)
  qed
  have u: "unat (of_nat (f i) :: u16) = f i mod 65536" for i by (simp add: unat_of_nat)
  have "?n < 65536 ^ 8" using unsigned_less [of a, where ?'a = nat] by simp
  then have top: "f 8 = 0" by (simp add: f_def)
  have st: "f 7 mod 65536 = f 7" "f 7 * 65536 + f 6 mod 65536 = f 6" "f 6 * 65536 + f 5 mod 65536 = f 5"
    "f 5 * 65536 + f 4 mod 65536 = f 4" "f 4 * 65536 + f 3 mod 65536 = f 3" "f 3 * 65536 + f 2 mod 65536 = f 2"
    using step [of 7] step [of 6] step [of 5] step [of 4] step [of 3] step [of 2] top by simp_all
  have st1: "f 2 * 65536 + f 1 mod 65536 = f 1" "f 1 * 65536 + f 0 mod 65536 = f 0"
    using step [of 1] step [of 0] by (simp_all add: numeral_2_eq_2)
  have "foldl (\<lambda>v g. v * 65536 + unat g) 0 (segments a) = f 0"
    unfolding segments_def f_def [symmetric] by (simp only: list.map foldl_Nil foldl_Cons u mult_0 add_0 st st1)
  then show ?thesis by (simp add: of_segments_def f_def)
qed

lemma parse_show_ip4: "parse_ip (show_ip4 a) = Some (Ip4 a)"
  using read_ip4_show [of "[]" a] by (simp add: parse_ip_def)


section \<open>IPv6\<close>

lemma hex_char_val: "n < 16 \<Longrightarrow> is_hex (hex_char n)" "n < 16 \<Longrightarrow> hex_val (hex_char n) = n"
  by (auto simp: is_hex_def hex_val_def hex_char_def is_digit_def digit_char_def Let_def)

lemma show_hex_hex: "list_all is_hex (show_hex n)"
proof (induction n rule: show_hex.induct)
  case (1 n)
  then show ?case by (cases "n < 16") (simp_all add: show_hex.simps [of n] hex_char_val)
qed

lemma show_hex_nonempty [simp]: "show_hex n \<noteq> []"
  by (subst show_hex.simps) simp

lemma hexs_val_show_hex: "hexs_val (show_hex n) = n"
proof (induction n rule: show_hex.induct)
  case (1 n)
  then show ?case by (cases "n < 16") (simp_all add: show_hex.simps [of n] hexs_val_def hex_char_val)
qed

lemma show_hex_length: "n < 16 ^ Suc k \<Longrightarrow> length (show_hex n) \<le> Suc k"
proof (induction k arbitrary: n)
  case 0
  then show ?case by (simp add: show_hex.simps [of n])
next
  case (Suc k)
  show ?case
  proof (cases "n < 16")
    case False
    have "n div 16 < 16 ^ Suc k" using Suc.prems by (simp add: less_mult_imp_div_less mult.commute)
    then show ?thesis using Suc.IH [of "n div 16"] False by (simp add: show_hex.simps [of n])
  qed (simp add: show_hex.simps [of n])
qed

lemma read_group_show:
  assumes "\<not> (case r of [] \<Rightarrow> False | c # _ \<Rightarrow> is_hex c)"
  shows "read_group (show_hex (unat (g :: u16)) @ r) = Some (unat g, r)"
proof -
  have t: "takeWhile is_hex (show_hex (unat g) @ r) = show_hex (unat g)" "dropWhile is_hex (show_hex (unat g) @ r) = r"
    using takeWhile_all [OF show_hex_hex assms] dropWhile_all [OF show_hex_hex assms] by simp_all
  have "length (show_hex (unat g)) \<le> Suc 3" by (rule show_hex_length) (use unat16_less [of g] in simp)
  then show ?thesis unfolding read_group_def t Let_def by (simp add: hexs_val_show_hex)
qed

text \<open>Text without a dot holds no IPv4 address.\<close>

definition no_dot :: "string \<Rightarrow> bool" where "no_dot s = list_all (\<lambda>c. c \<noteq> CHR ''.'') s"

lemma no_dot_simps [simp]: "no_dot []" "no_dot (c # s) \<longleftrightarrow> c \<noteq> CHR ''.'' \<and> no_dot s" "no_dot (a @ b) \<longleftrightarrow> no_dot a \<and> no_dot b"
  by (simp_all add: no_dot_def)

lemma read_ip4_no_dot:
  assumes "no_dot s"
  shows "read_ip4 s = None"
proof (cases "read_octet s")
  case (Some p)
  obtain a t where p: "p = (a, t)" by (cases p)
  have "t = dropWhile is_digit s" using Some p by (simp add: read_octet_def Let_def split: if_splits)
  then have "no_dot t" using assms unfolding no_dot_def list_all_iff by (metis set_dropWhileD)
  then have "read_dot_octet t = None" by (cases t) (simp_all add: read_dot_octet_def read_char_def)
  then show ?thesis using Some p by (simp add: read_ip4_def)
qed (simp add: read_ip4_def)

lemma no_dot_hex: "no_dot (show_hex n)"
proof -
  have "\<not> is_hex (CHR ''.'')" by (simp add: is_hex_def is_digit_def)
  with show_hex_hex [of n] show ?thesis by (auto simp: no_dot_def list_all_iff)
qed

lemma show_groups_simps:
  "show_groups [] = []" "show_groups [g] = show_hex (unat g)"
  "gs \<noteq> [] \<Longrightarrow> show_groups (g # gs) = show_hex (unat g) @ CHR '':'' # show_groups gs"
  by (simp_all add: show_groups_def) (cases gs; simp)

lemma no_dot_groups: "no_dot (show_groups gs)"
proof (induction gs)
  case (Cons g gs)
  then show ?case by (cases "gs = []") (simp_all add: show_groups_simps no_dot_hex)
qed (simp add: show_groups_simps)

text \<open>What follows the groups: nothing, or the double colon.\<close>

definition stops :: "string \<Rightarrow> bool" where
  "stops r \<longleftrightarrow> no_dot r \<and> (case r of [] \<Rightarrow> True | [c] \<Rightarrow> False | c # d # t \<Rightarrow> c = CHR '':'' \<and> d = CHR '':'')"

lemma read_groups_stops: "stops r \<Longrightarrow> read_groups i lim r = ([], False, r)"
proof -
  assume r: "stops r"
  have c: "\<not> is_hex (CHR '':'')" by (simp add: is_hex_def is_digit_def)
  have none: "Option.bind (sep_before i r) read_ip4 = None" "Option.bind (sep_before i r) read_group = None"
    using r c by (auto simp: stops_def sep_before_def read_char_def read_ip4_no_dot read_group_def split: list.splits)
  then show ?thesis by (cases lim) (simp_all)
qed

lemma read_groups_show:
  "length gs \<le> lim \<Longrightarrow> stops r \<Longrightarrow>
    read_groups i lim ((if i > 0 \<and> gs \<noteq> [] then '':'' else []) @ show_groups gs @ r) = (gs, False, r)"
proof (induction gs arbitrary: i lim)
  case Nil
  then show ?case by (simp add: show_groups_simps read_groups_stops)
next
  case (Cons g gs)
  then obtain l where l: "lim = Suc l" "length gs \<le> l" by (cases lim) auto
  define t where "t = (if gs \<noteq> [] then '':'' else []) @ show_groups gs @ r"
  have e: "show_groups (g # gs) @ r = show_hex (unat g) @ t" by (cases gs) (simp_all add: t_def show_groups_simps)
  have nd: "no_dot (show_hex (unat g) @ t)"
    using Cons.prems(2) by (simp add: t_def no_dot_hex no_dot_groups stops_def)
  have c: "\<not> is_hex (CHR '':'')" by (simp add: is_hex_def is_digit_def)
  have h: "\<not> (case t of [] \<Rightarrow> False | c # _ \<Rightarrow> is_hex c)"
    using Cons.prems(2) c by (cases gs) (auto simp: t_def stops_def show_groups_simps split: list.splits)
  have s: "sep_before i ((if i > 0 \<and> g # gs \<noteq> [] then '':'' else []) @ show_hex (unat g) @ t)
      = Some (show_hex (unat g) @ t)"
    by (simp add: sep_before_def read_char_def)
  have "read_groups (i + 1) l t = (gs, False, r)" using Cons.IH [OF l(2) Cons.prems(2), of "i + 1"] by (simp add: t_def)
  moreover have "(if l > 0 then Option.bind (Some (show_hex (unat g) @ t)) read_ip4 else None) = None"
    using read_ip4_no_dot [OF nd] by simp
  ultimately show ?case
    unfolding e l(1) read_groups.simps s using read_group_show [OF h] by (simp del: read_groups.simps)
qed

lemma zero_run_zeros:
  assumes "length pre = i" and "ls + ll \<le> i" and "\<And>k. k < ll \<Longrightarrow> (pre @ gs) ! (ls + k) = 0"
    and "cl > 0 \<Longrightarrow> cs + cl = i" and "\<And>k. k < cl \<Longrightarrow> (pre @ gs) ! (cs + k) = 0"
    and "zero_run gs i (ls, ll) (cs, cl) = (st, len)"
  shows "st + len \<le> length (pre @ gs) \<and> (\<forall>k < len. (pre @ gs) ! (st + k) = 0)"
  using assms
proof (induction gs arbitrary: pre i ls ll cs cl)
  case (Cons g gs)
  have app: "(pre @ [g]) @ gs = pre @ g # gs" by simp
  show ?case
  proof (cases "g = 0")
    case False
    then have "zero_run gs (i + 1) (ls, ll) (0, 0) = (st, len)" using Cons.prems(6) by simp
    from Cons.IH [of "pre @ [g]" "i + 1" ls ll 0 0, OF _ _ _ _ _ this] show ?thesis
      using Cons.prems unfolding app by simp
  next
    case True
    define cs' where "cs' = (if cl = 0 then i else cs)"
    have z: "(pre @ g # gs) ! (cs' + k) = 0" if "k < cl + 1" for k
    proof (cases "k < cl")
      case True then show ?thesis using Cons.prems(5) [of k] by (simp add: cs'_def)
    next
      case False
      then have "cs' + k = i" using that Cons.prems(4) by (auto simp: cs'_def)
      then show ?thesis using Cons.prems(1) True \<open>g = 0\<close> by (auto simp: nth_append)
    qed
    have e: "cs' + (cl + 1) = i + 1" using Cons.prems(4) by (auto simp: cs'_def)
    show ?thesis
    proof (cases "cl + 1 > ll")
      case t: True
      have "zero_run gs (i + 1) (cs', cl + 1) (cs', cl + 1) = (st, len)"
        using Cons.prems(6) True t by (simp add: cs'_def Let_def)
      from Cons.IH [of "pre @ [g]" "i + 1" cs' "cl + 1" "cl + 1" cs', OF _ _ _ _ _ this] show ?thesis
        using Cons.prems(1) z e unfolding app by simp
    next
      case f: False
      have "zero_run gs (i + 1) (ls, ll) (cs', cl + 1) = (st, len)"
        using Cons.prems(6) True f by (simp add: cs'_def Let_def)
      from Cons.IH [of "pre @ [g]" "i + 1" ls ll "cl + 1" cs', OF _ _ _ _ _ this] show ?thesis
        using Cons.prems z e unfolding app by simp
    qed
  qed
qed simp


lemma show_ip6_parts:
  assumes "length gs = 8" and "take 6 gs \<noteq> [0, 0, 0, 0, 0, 0xFFFF]"
  shows "show_ip6 gs = show_groups gs \<or>
    (\<exists>xs ys. show_ip6 gs = show_groups xs @ ''::'' @ show_groups ys \<and> length xs + length ys \<le> 6
       \<and> gs = xs @ replicate (8 - length xs - length ys) 0 @ ys)"
proof (cases "zero_run gs 0 (0, 0) (0, 0)")
  case (Pair st len)
  have z: "st + len \<le> 8" "\<forall>k < len. gs ! (st + k) = 0"
    using zero_run_zeros [of "[]" 0 0 0 gs 0 0 st len] Pair assms(1) by simp_all
  show ?thesis
  proof (cases "len > 1")
    case True
    let ?x = "take st gs" and ?y = "drop (st + len) gs"
    have "take len (drop st gs) = replicate len 0"
      by (rule nth_equalityI) (use z assms(1) in auto)
    moreover have "gs = ?x @ take len (drop st gs) @ ?y"
      by (metis append_take_drop_id drop_drop add.commute)
    moreover have "length ?x = st" "length ?y = 8 - (st + len)" using z(1) assms(1) by simp_all
    moreover have "8 - st - (8 - (st + len)) = len" using z(1) by simp
    ultimately have "gs = ?x @ replicate (8 - length ?x - length ?y) 0 @ ?y" "length ?x + length ?y \<le> 6"
      using True z(1) by simp_all
    moreover have "show_ip6 gs = show_groups ?x @ ''::'' @ show_groups ?y"
      using assms(2) Pair True by (simp add: show_ip6_def)
    ultimately show ?thesis by blast
  next
    case False
    then show ?thesis using assms(2) Pair by (simp add: show_ip6_def)
  qed
qed

lemma stops_simps: "stops []" "no_dot s \<Longrightarrow> stops (''::'' @ s)"
  by (simp_all add: stops_def)

lemma read_ip6_show:
  assumes "length gs = 8" and "take 6 gs \<noteq> [0, 0, 0, 0, 0, 0xFFFF]"
  shows "read_ip6 (show_ip6 gs) = Some (gs, []) \<and> no_dot (show_ip6 gs)"
  using show_ip6_parts [OF assms]
proof (elim disjE exE conjE)
  assume "show_ip6 gs = show_groups gs"
  then show ?thesis
    using read_groups_show [of gs 8 "[]" 0] assms(1) by (simp add: read_ip6_def stops_simps no_dot_groups)
next
  fix xs ys
  assume e: "show_ip6 gs = show_groups xs @ ''::'' @ show_groups ys" and l: "length xs + length ys \<le> 6"
    and gs: "gs = xs @ replicate (8 - length xs - length ys) 0 @ ys"
  have st: "stops (''::'' @ show_groups ys)" by (rule stops_simps) (rule no_dot_groups)
  have h: "read_groups 0 8 (show_groups xs @ CHR '':'' # CHR '':'' # show_groups ys)
      = (xs, False, CHR '':'' # CHR '':'' # show_groups ys)"
    using read_groups_show [OF _ st, of xs 8 0] l by simp
  have t: "read_groups 0 (7 - length xs) (show_groups ys) = (ys, False, [])"
    using read_groups_show [of ys "7 - length xs" "[]" 0] l by (simp add: stops_simps)
  show ?thesis
    unfolding e using l gs by (simp add: read_ip6_def h t read_char_def no_dot_groups)
qed

lemma read_ip6_mapped:
  assumes "length gs = 8" and "take 6 gs = [0, 0, 0, 0, 0, 0xFFFF]"
  shows "read_ip6 (show_ip6 gs) = Some (gs, []) \<and> read_ip4 (show_ip6 gs) = None"
proof -
  let ?n = "unat (gs ! 6) * 65536 + unat (gs ! 7)"
  let ?v = "of_nat ?n :: u32"
  have n: "?n < 4294967296" using unat16_less [of "gs ! 6"] unat16_less [of "gs ! 7"] by linarith
  have s: "show_ip6 gs = ''::ffff:'' @ show_ip4 ?v" using assms(2) by (simp add: show_ip6_def)
  have hex: "is_hex (CHR ''f'')" "\<not> is_hex (CHR '':'')" "\<not> is_digit (CHR ''f'')" "\<not> is_digit (CHR '':'')"
    by (simp_all add: is_hex_def is_digit_def)
  have none: "read_ip4 (show_ip6 gs) = None"
    unfolding s by (simp add: read_ip4_def read_octet_def hex)
  have v: "read_ip4 (show_ip4 ?v) = Some (?v, [])" using read_ip4_show [of "[]" ?v] by simp
  define x where "x = show_ip4 ?v"
  have g: "read_group (CHR '':'' # y) = None" "read_ip4 (CHR '':'' # y) = None" for y
    by (simp_all add: read_group_def read_ip4_def read_octet_def hex)
  have f: "read_ip4 (''ffff:'' @ y) = None" "read_group (''ffff:'' @ y) = Some (65535, CHR '':'' # y)" for y
    by (simp_all add: read_ip4_def read_octet_def read_group_def hex hexs_val_def hex_val_def)
  have h: "read_groups 0 8 (CHR '':'' # y) = ([], False, CHR '':'' # y)" for y
    using read_groups.simps(2) [of 0 7 "CHR '':'' # y"] g [of y] by (simp add: sep_before_def)
  have i: "read_groups 1 6 (CHR '':'' # x) = ([of_nat (unat ?v div 65536), of_nat (unat ?v mod 65536)], True, [])"
    using read_groups.simps(2) [of 1 5 "CHR '':'' # x"] v by (simp add: sep_before_def read_char_def x_def)
  have "unat ?v = ?n" using n by (simp only: unat_of_nat) simp
  then have w: "of_nat (unat ?v div 65536) = gs ! 6" "of_nat (unat ?v mod 65536) = gs ! 7"
    using unat16_less [of "gs ! 7"] by simp_all
  have t: "read_groups 0 7 (''ffff:'' @ x) = ([0xFFFF, gs ! 6, gs ! 7], True, [])"
    using read_groups.simps(2) [of 0 6 "''ffff:'' @ x"] f [of x] i unfolding w by (simp add: sep_before_def)
  have "gs = take 6 gs @ [gs ! 6, gs ! 7]"
    by (rule nth_equalityI) (use assms(1) in \<open>auto simp: nth_append less_Suc_eq numeral_eq_Suc\<close>)
  then have gs: "gs = replicate 5 0 @ [0xFFFF, gs ! 6, gs ! 7]" using assms(2) by (simp add: eval_nat_numeral)
  have "read_ip6 (show_ip6 gs) = Some (replicate 5 0 @ [0xFFFF, gs ! 6, gs ! 7], [])"
    unfolding s x_def [symmetric] using h [of "'':ffff:'' @ x"] t by (simp add: read_ip6_def read_char_def)
  with gs none show ?thesis by simp
qed

lemma parse_show_ip [string_simps]: "parse_ip (show_ip ip) = Some ip"
proof (cases ip)
  case (Ip4 a)
  then show ?thesis by (simp add: parse_show_ip4)
next
  case (Ip6 a)
  have l: "length (segments a) = 8" by (simp add: segments_def)
  have "read_ip4 (show_ip6 (segments a)) = None \<and> read_ip6 (show_ip6 (segments a)) = Some (segments a, [])"
    using read_ip6_show [OF l] read_ip6_mapped [OF l] read_ip4_no_dot by blast
  then show ?thesis using Ip6 by (simp add: parse_ip_def of_segments_segments)
qed

text \<open>A printed address is one word.\<close>

definition ip_char :: "char \<Rightarrow> bool" where
  "ip_char c \<longleftrightarrow> is_hex c \<or> c = CHR '':'' \<or> c = CHR ''.''"

lemma join_chars: "list_all (list_all P) xs \<Longrightarrow> list_all P sep \<Longrightarrow> list_all P (join_with sep xs)"
  by (induction sep xs rule: join_with.induct) simp_all

lemma digits_ip_chars: "list_all is_digit s \<Longrightarrow> list_all ip_char s" "list_all is_hex s \<Longrightarrow> list_all ip_char s"
  by (auto simp: list_all_iff ip_char_def is_hex_def Let_def)

lemma show_ip4_chars: "list_all ip_char (show_ip4 a)"
  unfolding show_ip4_def
  by (rule join_chars) (simp_all add: octets_def digits_ip_chars(1) show_nat_digits ip_char_def)

lemma show_groups_chars: "list_all ip_char (show_groups gs)"
  unfolding show_groups_def
  by (rule join_chars) (auto simp: list_all_iff ip_char_def dest: digits_ip_chars(2) [OF show_hex_hex, unfolded list_all_iff, rule_format])

lemma show_ip_chars: "list_all ip_char (show_ip ip)"
proof (cases ip)
  case (Ip6 a)
  have "is_hex (CHR ''f'')" by (simp add: is_hex_def)
  then show ?thesis using Ip6 show_ip4_chars show_groups_chars
    by (auto simp: show_ip6_def ip_char_def [of "CHR '':''"] ip_char_def [of "CHR ''f''"] split: prod.splits)
qed (simp add: show_ip4_chars)

lemma show_ip_nonempty: "show_ip ip \<noteq> []"
proof
  assume "show_ip ip = []"
  then have "parse_ip [] = Some ip" using parse_show_ip [of ip] by simp
  moreover have "read_groups 0 8 [] = ([], False, [])" by (rule read_groups_stops) (simp add: stops_def)
  ultimately show False by (simp add: parse_ip_def read_ip4_def read_octet_def read_ip6_def read_char_def)
qed

end
