(* ===== verification/Sip_Sdp.thy ===== *)
theory Sip_Sdp
  imports Rtp_G711 Rtp_Ip
begin

text \<open>
  \<^verbatim>\<open>src/sip/sdp.rs\<close>: session descriptions, their parser, the queries the SIP engine makes
  of a remote description, and the builder of offers and answers. A \<^verbatim>\<open>String\<close> is the list
  of its UTF-8 bytes; a slice of one panics when it does not start at a character. The random
  session identifier of a default origin is an argument.
\<close>

section \<open>Directions\<close>

datatype media_direction = SendRecv | SendOnly | RecvOnly | Inactive

definition direction_from_str :: "string \<Rightarrow> media_direction option" where
  "direction_from_str s =
     (let l = to_lowercase s
      in if l = ''sendrecv'' then Some SendRecv else if l = ''sendonly'' then Some SendOnly
         else if l = ''recvonly'' then Some RecvOnly else if l = ''inactive'' then Some Inactive else None)"

fun direction_held :: "media_direction \<Rightarrow> bool" where
  "direction_held SendOnly = True"
| "direction_held Inactive = True"
| "direction_held _ = False"

fun answer_direction :: "media_direction \<Rightarrow> media_direction" where
  "answer_direction SendRecv = SendRecv"
| "answer_direction SendOnly = RecvOnly"
| "answer_direction RecvOnly = SendOnly"
| "answer_direction Inactive = Inactive"

fun direction_str :: "media_direction \<Rightarrow> string" where
  "direction_str SendRecv = ''sendrecv''"
| "direction_str SendOnly = ''sendonly''"
| "direction_str RecvOnly = ''recvonly''"
| "direction_str Inactive = ''inactive''"

section \<open>Descriptions\<close>

record rtp_map_entry =
  rm_payload_type :: byte
  rm_encoding_name :: string
  rm_clock_rate :: u32
  rm_channels :: "byte option"

record media_description =
  md_media_type :: string
  md_port :: u16
  md_protocol :: string
  md_payload_types :: "byte list"
  md_connection :: "ip_addr option"
  md_rtpmap :: "rtp_map_entry list"
  md_fmtp :: "(byte \<times> string) list"
  md_attributes :: "string list"
  md_direction :: media_direction
  md_ptime :: "u32 option"

definition or_else :: "'a option \<Rightarrow> 'a option \<Rightarrow> 'a option" where
  "or_else a b = (case a of Some x \<Rightarrow> Some x | None \<Rightarrow> b)"

definition md_disabled :: "media_description \<Rightarrow> bool" where "md_disabled m = (md_port m = 0)"

definition md_held :: "ip_addr option \<Rightarrow> media_description \<Rightarrow> bool" where
  "md_held session_connection m =
     (if direction_held (md_direction m) then True
      else (case or_else (md_connection m) session_connection of
              Some ip \<Rightarrow> is_unspecified ip | None \<Rightarrow> False))"

definition md_has_media :: "media_description \<Rightarrow> bool" where
  "md_has_media m = (\<not> md_disabled m \<and> md_payload_types m \<noteq> [])"

record sdp_origin =
  so_username :: string
  so_session_id :: u64
  so_session_version :: u64
  so_net_type :: string
  so_addr_type :: string
  so_address :: string

definition origin_default :: "u64 \<Rightarrow> sdp_origin" where
  "origin_default random =
     \<lparr>so_username = ''-'', so_session_id = random mod 10000000000, so_session_version = 1,
      so_net_type = ''IN'', so_addr_type = ''IP4'', so_address = ''0.0.0.0''\<rparr>"

record sdp =
  sd_version :: byte
  sd_origin :: sdp_origin
  sd_session_name :: string
  sd_connection :: "ip_addr option"
  sd_media :: "media_description list"
  sd_attributes :: "string list"

section \<open>Parsing\<close>

definition parse_u8 :: "string \<Rightarrow> byte option" where
  "parse_u8 s = map_option of_nat (parse_uint 255 s)"

definition parse_u64 :: "string \<Rightarrow> u64 option" where
  "parse_u64 s = map_option of_nat (parse_uint 18446744073709551615 s)"

definition option_or :: "'a \<Rightarrow> 'a option \<Rightarrow> 'a" where
  "option_or d x = (case x of Some y \<Rightarrow> y | None \<Rightarrow> d)"

definition parse_origin :: "string \<Rightarrow> sdp_origin res" where
  "parse_origin value =
     (let parts = split_whitespace value
      in if length parts < 6 then Err (Sdp ''Invalid origin line'')
         else Ok \<lparr>so_username = parts ! 0, so_session_id = option_or 0 (parse_u64 (parts ! 1)),
                  so_session_version = option_or 1 (parse_u64 (parts ! 2)), so_net_type = parts ! 3,
                  so_addr_type = parts ! 4, so_address = parts ! 5\<rparr>)"

definition squote :: char where "squote = CHR 0x27"

definition parse_connection :: "string \<Rightarrow> ip_addr res" where
  "parse_connection value =
     (let parts = split_whitespace value
      in if length parts < 3 then Err (Sdp ''Invalid connection line'')
         else
           (case parse_ip (parts ! 2) of
              None \<Rightarrow> Err (Sdp (''Invalid IP address: '' @ parts ! 2))
            | Some addr \<Rightarrow>
                if parts ! 1 = ''IP4'' then
                  (if is_ipv4 addr then Ok addr
                   else Err (Sdp (''Address type is IP4 but address '' @ [squote] @ parts ! 2 @ [squote] @ '' is not IPv4'')))
                else if parts ! 1 = ''IP6'' then
                  (if is_ipv6 addr then Ok addr
                   else Err (Sdp (''Address type is IP6 but address '' @ [squote] @ parts ! 2 @ [squote] @ '' is not IPv6'')))
                else Err (Sdp (''Unknown address type '' @ [squote] @ parts ! 1 @ [squote]
                               @ '' in SDP connection line (expected IP4 or IP6)''))))"

definition parse_media_line :: "string \<Rightarrow> media_description res" where
  "parse_media_line value =
     (let parts = split_whitespace value
      in if length parts < 4 then Err (Sdp ''Invalid media line'')
         else
           (let port_str = hd (split_on (CHR ''/'') (parts ! 1))
            in case parse_u32 port_str of
                 None \<Rightarrow> Err (Sdp (''Invalid port number: '' @ port_str))
               | Some port \<Rightarrow>
                   if port > 65535
                   then Err (Sdp (''Port '' @ show_nat (unat port) @ '' out of range (0-65535)''))
                   else Ok \<lparr>md_media_type = parts ! 0, md_port = ucast port, md_protocol = parts ! 2,
                            md_payload_types = List.map_filter parse_u8 (drop 3 parts), md_connection = None,
                            md_rtpmap = [], md_fmtp = [], md_attributes = [], md_direction = SendRecv,
                            md_ptime = None\<rparr>))"

definition nth_opt :: "'a list \<Rightarrow> nat \<Rightarrow> 'a option" where
  "nth_opt xs i = (if i < length xs then Some (xs ! i) else None)"

definition parse_rtpmap :: "string \<Rightarrow> rtp_map_entry res" where
  "parse_rtpmap value =
     (let parts = split_whitespace value
      in if length parts < 2 then Err (Sdp ''Invalid rtpmap'')
         else
           (case parse_u8 (parts ! 0) of
              None \<Rightarrow> Err (Sdp ''Invalid payload type'')
            | Some pt \<Rightarrow>
                (let codec_parts = split_on (CHR ''/'') (parts ! 1);
                     clock = Option.bind (nth_opt codec_parts 1) parse_u32;
                     entry = (\<lambda>rate. \<lparr>rm_payload_type = pt, rm_encoding_name = hd codec_parts, rm_clock_rate = rate,
                                rm_channels = Option.bind (nth_opt codec_parts 2) parse_u8\<rparr>)
                 in case clock of
                      Some rate \<Rightarrow> Ok (entry rate)
                    | None \<Rightarrow>
                        if pt \<ge> 96 \<and> pt \<le> 127
                        then Err (Sdp (''Missing clock rate for dynamic payload type '' @ show_nat (unat pt)))
                        else Ok (entry 8000))))"

text \<open>\<^verbatim>\<open>str::lines\<close>: the text between line feeds, without the carriage return before one; a
  last empty line does not count.\<close>

definition strip_cr :: "string \<Rightarrow> string" where
  "strip_cr l = (if l \<noteq> [] \<and> last l = CHR 0x0D then butlast l else l)"

definition lines :: "string \<Rightarrow> string list" where
  "lines s =
     (let ls = split_on (CHR 0x0A) s
      in map strip_cr (butlast ls) @ (if last ls = [] then [] else [last ls]))"

record sdp_parser =
  sp_version :: byte
  sp_origin :: sdp_origin
  sp_session_name :: string
  sp_connection :: "ip_addr option"
  sp_media :: "media_description list"
  sp_session_attributes :: "string list"
  sp_current_media :: "media_description option"
  sp_media_has_direction :: "bool list"
  sp_current_has_direction :: bool
  sp_has_version :: bool
  sp_has_origin :: bool
  sp_has_session_name :: bool

definition sdp_parser_new :: "u64 \<Rightarrow> sdp_parser" where
  "sdp_parser_new random =
     \<lparr>sp_version = 0, sp_origin = origin_default random, sp_session_name = [], sp_connection = None,
      sp_media = [], sp_session_attributes = [], sp_current_media = None, sp_media_has_direction = [],
      sp_current_has_direction = False, sp_has_version = False, sp_has_origin = False,
      sp_has_session_name = False\<rparr>"

text \<open>A media attribute: the updated media and whether it was a direction.\<close>

definition media_attribute :: "string \<Rightarrow> media_description \<Rightarrow> media_description \<times> bool" where
  "media_attribute value m =
     (if starts_with ''rtpmap:'' value then
        ((case parse_rtpmap (drop 7 value) of
            Ok entry \<Rightarrow> m\<lparr>md_rtpmap := md_rtpmap m @ [entry]\<rparr> | _ \<Rightarrow> m), False)
      else if starts_with ''ptime:'' value then
        (m\<lparr>md_ptime := parse_u32 (trim (drop 6 value))\<rparr>, False)
      else if starts_with ''fmtp:'' value then
        (let m' = (case split_once (CHR '' '') (drop 5 value) of
                     Some (pt_str, params) \<Rightarrow>
                       (case parse_u8 pt_str of
                          Some pt \<Rightarrow> m\<lparr>md_fmtp := md_fmtp m @ [(pt, params)]\<rparr> | None \<Rightarrow> m)
                   | None \<Rightarrow> m)
         in (m'\<lparr>md_attributes := md_attributes m' @ [value]\<rparr>, False))
      else
        (case direction_from_str value of
           Some dir \<Rightarrow> (m\<lparr>md_direction := dir\<rparr>, True)
         | None \<Rightarrow> (m\<lparr>md_attributes := md_attributes m @ [value]\<rparr>, False)))"

text \<open>The media description in progress is kept when the next one starts, and at the end.\<close>

definition save_media :: "sdp_parser \<Rightarrow> sdp_parser" where
  "save_media p =
     (case sp_current_media p of
        Some m \<Rightarrow> p\<lparr>sp_media := sp_media p @ [m], sp_current_media := None,
                    sp_media_has_direction := sp_media_has_direction p @ [sp_current_has_direction p]\<rparr>
      | None \<Rightarrow> p)"

definition sdp_field :: "char \<Rightarrow> string \<Rightarrow> sdp_parser \<Rightarrow> sdp_parser res" where
  "sdp_field type_char value p =
     (if type_char = CHR ''v'' then
        Ok (p\<lparr>sp_version := option_or 0 (parse_u8 value), sp_has_version := True\<rparr>)
      else if type_char = CHR ''o'' then
        res_bind (parse_origin value) (\<lambda>o'. Ok (p\<lparr>sp_origin := o', sp_has_origin := True\<rparr>))
      else if type_char = CHR ''s'' then Ok (p\<lparr>sp_session_name := value, sp_has_session_name := True\<rparr>)
      else if type_char = CHR ''c'' then
        res_bind (parse_connection value) (\<lambda>addr.
          Ok (case sp_current_media p of
                Some m \<Rightarrow> p\<lparr>sp_current_media := Some (m\<lparr>md_connection := Some addr\<rparr>)\<rparr>
              | None \<Rightarrow> p\<lparr>sp_connection := Some addr\<rparr>))
      else if type_char = CHR ''m'' then
        res_bind (parse_media_line value) (\<lambda>m.
          Ok ((save_media p)\<lparr>sp_current_media := Some m, sp_current_has_direction := False\<rparr>))
      else if type_char = CHR ''a'' then
        Ok (case sp_current_media p of
              Some m \<Rightarrow>
                (let (m', is_dir) = media_attribute value m
                 in p\<lparr>sp_current_media := Some m', sp_current_has_direction := sp_current_has_direction p \<or> is_dir\<rparr>)
            | None \<Rightarrow> p\<lparr>sp_session_attributes := sp_session_attributes p @ [value]\<rparr>)
      else Ok p)"

text \<open>The bytes of the character that starts with a byte, and whether a byte continues one.\<close>

definition char_width :: "char \<Rightarrow> nat" where
  "char_width c = (let n = (of_char c :: nat) in if n < 128 then 1 else if n < 224 then 2 else if n < 240 then 3 else 4)"

definition is_cont :: "char \<Rightarrow> bool" where
  "is_cont c = (let n = (of_char c :: nat) in 128 \<le> n \<and> n < 192)"

text \<open>\<^verbatim>\<open>&line[2..]\<close>.\<close>

definition slice_from_2 :: "string \<Rightarrow> string res" where
  "slice_from_2 l = (if length l > 2 \<and> is_cont (l ! 2) then Panic else Ok (drop 2 l))"

definition sdp_line :: "string \<Rightarrow> sdp_parser \<Rightarrow> sdp_parser res" where
  "sdp_line raw p =
     (let l = trim raw
      in if l = [] then Ok p
         else if length l < 2 \<or> nth_opt l (char_width (hd l)) \<noteq> Some (CHR ''='') then Ok p
         else res_bind (slice_from_2 l) (\<lambda>value. sdp_field (hd l) value p))"

fun sdp_lines :: "string list \<Rightarrow> sdp_parser \<Rightarrow> sdp_parser res" where
  "sdp_lines [] p = Ok p"
| "sdp_lines (l # ls) p = res_bind (sdp_line l p) (sdp_lines ls)"

fun find_map :: "('a \<Rightarrow> 'b option) \<Rightarrow> 'a list \<Rightarrow> 'b option" where
  "find_map f [] = None"
| "find_map f (x # xs) = (case f x of Some y \<Rightarrow> Some y | None \<Rightarrow> find_map f xs)"

text \<open>The session-level direction applies to every media without one of its own.\<close>

definition propagate_direction :: "string list \<Rightarrow> bool list \<Rightarrow> media_description list \<Rightarrow> media_description list" where
  "propagate_direction attrs has_direction media =
     (case find_map direction_from_str attrs of
        Some dir \<Rightarrow> map (\<lambda>(i, m). if option_or False (nth_opt has_direction i) then m else m\<lparr>md_direction := dir\<rparr>)
                     (enumerate 0 media)
      | None \<Rightarrow> media)"

definition sdp_finish :: "sdp_parser \<Rightarrow> sdp res" where
  "sdp_finish p0 =
     (let p = save_media p0;
          media = propagate_direction (sp_session_attributes p) (sp_media_has_direction p) (sp_media p)
      in if \<not> sp_has_version p then Err (Sdp ''Missing mandatory SDP field: v= (version)'')
         else if \<not> sp_has_origin p then Err (Sdp ''Missing mandatory SDP field: o= (origin)'')
         else if \<not> sp_has_session_name p then Err (Sdp ''Missing mandatory SDP field: s= (session name)'')
         else Ok \<lparr>sd_version = sp_version p, sd_origin = sp_origin p, sd_session_name = sp_session_name p,
                  sd_connection = sp_connection p, sd_media = media, sd_attributes = sp_session_attributes p\<rparr>)"

definition sdp_parse :: "u64 \<Rightarrow> string \<Rightarrow> sdp res" where
  "sdp_parse random s = res_bind (sdp_lines (lines s) (sdp_parser_new random)) sdp_finish"

section \<open>Queries\<close>

definition sdp_audio :: "sdp \<Rightarrow> media_description option" where
  "sdp_audio d = List.find (\<lambda>m. md_media_type m = ''audio'') (sd_media d)"

definition sdp_ptime :: "sdp \<Rightarrow> u32 option" where "sdp_ptime d = Option.bind (sdp_audio d) md_ptime"

definition rtp_addr :: "sdp \<Rightarrow> (ip_addr \<times> u16) option" where
  "rtp_addr d =
     Option.bind (sdp_audio d) (\<lambda>a. Option.bind (or_else (md_connection a) (sd_connection d)) (\<lambda>ip.
       Some (ip, md_port a)))"

definition find_codec :: "byte \<Rightarrow> codec_type option" where
  "find_codec pt = (if pt = 0 then Some Pcmu else if pt = 8 then Some Pcma else None)"

definition preferred_codec :: "sdp \<Rightarrow> codec_type option" where
  "preferred_codec d = Option.bind (sdp_audio d) (\<lambda>a. find_map find_codec (md_payload_types a))"

definition te_attribute :: "string \<Rightarrow> byte option" where
  "te_attribute attr =
     (if contains_str ''telephone-event'' (to_lowercase attr) \<and> starts_with ''rtpmap:'' attr
      then (case split_whitespace (drop 7 attr) of pt # _ \<Rightarrow> parse_u8 pt | [] \<Rightarrow> None)
      else None)"

definition telephone_event_pt :: "sdp \<Rightarrow> byte option" where
  "telephone_event_pt d =
     Option.bind (sdp_audio d) (\<lambda>a.
       case find_map (\<lambda>e. if eq_ignore_case (rm_encoding_name e) ''telephone-event'' then Some (rm_payload_type e) else None)
              (md_rtpmap a) of
         Some pt \<Rightarrow> Some pt
       | None \<Rightarrow> find_map te_attribute (md_attributes a))"

definition supports_rfc2833 :: "sdp \<Rightarrow> bool" where "supports_rfc2833 d = (telephone_event_pt d \<noteq> None)"

definition telephone_event_fmtp :: "sdp \<Rightarrow> string option" where
  "telephone_event_fmtp d =
     Option.bind (sdp_audio d) (\<lambda>a. Option.bind (telephone_event_pt d) (\<lambda>te.
       map_option snd (List.find (\<lambda>(pt, _). pt = te) (md_fmtp a))))"

definition audio_direction :: "sdp \<Rightarrow> media_direction" where
  "audio_direction d = (case sdp_audio d of Some a \<Rightarrow> md_direction a | None \<Rightarrow> SendRecv)"

definition is_on_hold :: "sdp \<Rightarrow> bool" where
  "is_on_hold d =
     (case sdp_audio d of
        None \<Rightarrow> False
      | Some a \<Rightarrow>
          if md_disabled a then True
          else if md_held (sd_connection d) a then True
          else (case sd_connection d of
                  Some ip \<Rightarrow> is_unspecified ip \<and> md_connection a = None
                | None \<Rightarrow> False))"

definition negotiate_codec :: "codec_type list \<Rightarrow> sdp \<Rightarrow> codec_type option" where
  "negotiate_codec local_prefs d =
     Option.bind (sdp_audio d) (\<lambda>a. List.find (\<lambda>c. payload_type_of c \<in> set (md_payload_types a)) local_prefs)"

definition remote_codecs :: "sdp \<Rightarrow> codec_type list" where
  "remote_codecs d = (case sdp_audio d of Some a \<Rightarrow> List.map_filter find_codec (md_payload_types a) | None \<Rightarrow> [])"

definition offers_codec :: "codec_type \<Rightarrow> sdp \<Rightarrow> bool" where
  "offers_codec c d = (case sdp_audio d of Some a \<Rightarrow> payload_type_of c \<in> set (md_payload_types a) | None \<Rightarrow> False)"

section \<open>Building\<close>

record sdp_builder =
  sb_origin :: sdp_origin
  sb_session_name :: string
  sb_connection :: ip_addr
  sb_audio_port :: u16
  sb_codecs :: "codec_type list"
  sb_direction :: string
  sb_include_telephone_event :: bool
  sb_telephone_event_pt :: byte
  sb_protocol :: string
  sb_crypto :: "(string \<times> string) option"

definition addr_type_of :: "ip_addr \<Rightarrow> string" where
  "addr_type_of ip = (if is_ipv6 ip then ''IP6'' else ''IP4'')"

definition sdp_builder_new :: "u64 \<Rightarrow> ip_addr \<Rightarrow> u16 \<Rightarrow> sdp_builder" where
  "sdp_builder_new random ip port =
     \<lparr>sb_origin = (origin_default random)\<lparr>so_address := show_ip ip, so_addr_type := addr_type_of ip\<rparr>,
      sb_session_name = ''rtpsip'', sb_connection = ip, sb_audio_port = port, sb_codecs = [Pcmu, Pcma],
      sb_direction = ''sendrecv'', sb_include_telephone_event = True, sb_telephone_event_pt = 101,
      sb_protocol = ''RTP/AVP'', sb_crypto = None\<rparr>"

definition with_telephone_event :: "bool \<Rightarrow> sdp_builder \<Rightarrow> sdp_builder" where
  "with_telephone_event enabled b = b\<lparr>sb_include_telephone_event := enabled\<rparr>"

definition with_session_name :: "string \<Rightarrow> sdp_builder \<Rightarrow> sdp_builder" where
  "with_session_name name b = b\<lparr>sb_session_name := name\<rparr>"

definition with_codecs :: "codec_type list \<Rightarrow> sdp_builder \<Rightarrow> sdp_builder" where
  "with_codecs cs b = b\<lparr>sb_codecs := cs\<rparr>"

definition with_direction :: "string \<Rightarrow> sdp_builder \<Rightarrow> sdp_builder" where
  "with_direction dir b = b\<lparr>sb_direction := dir\<rparr>"

definition with_protocol :: "string \<Rightarrow> sdp_builder \<Rightarrow> sdp_builder" where
  "with_protocol proto b = b\<lparr>sb_protocol := proto\<rparr>"

definition with_crypto :: "string \<Rightarrow> string \<Rightarrow> sdp_builder \<Rightarrow> sdp_builder" where
  "with_crypto suite key b = b\<lparr>sb_crypto := Some (suite, key)\<rparr>"

definition select_telephone_event_pt :: "sdp_builder \<Rightarrow> sdp_builder" where
  "select_telephone_event_pt b =
     (case List.find (\<lambda>pt. pt \<notin> set (map payload_type_of (sb_codecs b))) (map of_nat [96..<128]) of
        Some pt \<Rightarrow> b\<lparr>sb_telephone_event_pt := pt\<rparr>
      | None \<Rightarrow> b)"

definition crlf :: string where "crlf = [CHR 0x0D, CHR 0x0A]"

definition show_u8 :: "byte \<Rightarrow> string" where "show_u8 b = show_nat (unat b)"

definition sdp_text_lines :: "sdp_builder \<Rightarrow> string list" where
  "sdp_text_lines b =
     (let te = show_u8 (sb_telephone_event_pt b);
          pts = map (\<lambda>c. show_u8 (payload_type_of c)) (sb_codecs b) @ (if sb_include_telephone_event b then [te] else [])
      in [''v=0'',
          ''o='' @ join_with '' '' [so_username (sb_origin b), show_nat (unat (so_session_id (sb_origin b))),
             show_nat (unat (so_session_version (sb_origin b))), so_net_type (sb_origin b),
             so_addr_type (sb_origin b), so_address (sb_origin b)],
          ''s='' @ sb_session_name b,
          ''c=IN '' @ addr_type_of (sb_connection b) @ '' '' @ show_ip (sb_connection b),
          ''t=0 0'',
          ''m=audio '' @ show_nat (unat (sb_audio_port b)) @ '' '' @ sb_protocol b @ '' '' @ join_with '' '' pts]
         @ (case sb_crypto b of
              Some (suite, key) \<Rightarrow> [''a=crypto:1 '' @ suite @ '' inline:'' @ key]
            | None \<Rightarrow> [])
         @ map (\<lambda>c. ''a=rtpmap:'' @ show_u8 (payload_type_of c) @ '' '' @ sdp_name c @ ''/8000'') (sb_codecs b)
         @ (if sb_include_telephone_event b
            then [''a=rtpmap:'' @ te @ '' telephone-event/8000'', ''a=fmtp:'' @ te @ '' 0-15''] else [])
         @ [''a=ptime:20'', ''a='' @ sb_direction b])"

definition sdp_build :: "sdp_builder \<Rightarrow> sdp_builder \<times> string" where
  "sdp_build b =
     (let b' = b\<lparr>sb_origin := (sb_origin b)\<lparr>so_session_version := so_session_version (sb_origin b) + 1\<rparr>\<rparr>
      in (b', concat (map (\<lambda>l. l @ crlf) (sdp_text_lines b'))))"

section \<open>The answer to an inbound offer\<close>

text \<open>What the SIP engine takes from the description of an INVITE (\<^verbatim>\<open>src/sip/engine.rs\<close>): the media
  destination, the telephone-event payload type, the direction and the packetization time. A
  description that does not parse changes nothing.\<close>

record remote_media =
  rd_destination :: "(ip_addr \<times> u16) option"
  rd_telephone_event_pt :: "byte option"
  rd_direction :: media_direction
  rd_ptime :: "u32 option"

definition take_offer :: "u64 \<Rightarrow> string option \<Rightarrow> remote_media" where
  "take_offer random remote_sdp =
     (let unknown = \<lparr>rd_destination = None, rd_telephone_event_pt = None, rd_direction = SendRecv, rd_ptime = None\<rparr>
      in case remote_sdp of
           None \<Rightarrow> unknown
         | Some sdp_str \<Rightarrow>
             (case sdp_parse random sdp_str of
                Ok d \<Rightarrow> \<lparr>rd_destination = (case rtp_addr d of Some (ip, port) \<Rightarrow> if port \<noteq> 0 then Some (ip, port) else None
                           | None \<Rightarrow> None),
                         rd_telephone_event_pt = telephone_event_pt d, rd_direction = audio_direction d,
                         rd_ptime = sdp_ptime d\<rparr>
              | _ \<Rightarrow> unknown))"

definition build_answer :: "u64 \<Rightarrow> ip_addr \<Rightarrow> u16 \<Rightarrow> media_direction \<Rightarrow> string" where
  "build_answer random ip port remote_direction =
     (let dir = answer_direction remote_direction;
          b = with_codecs [Pcmu, Pcma] (sdp_builder_new random ip port);
          b' = (if dir \<noteq> SendRecv then with_direction (direction_str dir) b else b)
      in snd (sdp_build b'))"

end
