(* ===== verification/Sip_Sdp_Props.thy ===== *)
theory Sip_Sdp_Props
  imports Sip_Sdp
begin

text \<open>
  A description that is built is read back field by field; the codec, telephone-event and hold
  state that two parties derive from each other's descriptions agree.
\<close>

section \<open>Lines\<close>

lemma split_on_lines:
  assumes "list_all (list_all (\<lambda>c. c \<noteq> CHR 0x0A)) ls"
  shows "split_on (CHR 0x0A) (concat (map (\<lambda>l. l @ crlf) ls)) = map (\<lambda>l. l @ [CHR 0x0D]) ls @ [[]]"
  using assms
proof (induction ls)
  case (Cons l ls)
  have "list_all (\<lambda>c. \<not> c = CHR 0x0A) (l @ [CHR 0x0D])" using Cons.prems by simp
  from split_by_append [OF this, of "CHR 0x0A" "concat (map (\<lambda>l. l @ crlf) ls)"] Cons
  show ?case by (simp add: split_on_def crlf_def)
qed (simp add: split_on_def)

lemma lines_crlf:
  assumes "list_all (list_all (\<lambda>c. c \<noteq> CHR 0x0A)) ls"
  shows "lines (concat (map (\<lambda>l. l @ crlf) ls)) = ls"
proof -
  have "map strip_cr (map (\<lambda>l. l @ [CHR 0x0D]) ls) = ls" by (induction ls) (simp_all add: strip_cr_def)
  then show ?thesis by (simp add: lines_def split_on_lines [OF assms])
qed

lemma sdp_lines_append: "sdp_lines (xs @ ys) p = res_bind (sdp_lines xs p) (sdp_lines ys)"
proof (induction xs arbitrary: p)
  case (Cons x xs)
  then show ?case by (cases "sdp_line x p") simp_all
qed simp

text \<open>Text that survives trimming at its end, and does not start inside a character.\<close>

definition value_ok :: "string \<Rightarrow> bool" where
  "value_ok v \<longleftrightarrow> list_all (\<lambda>c. c \<noteq> CHR 0x0A) v
     \<and> (case v of [] \<Rightarrow> True | c # cs \<Rightarrow> \<not> is_cont c \<and> \<not> is_ws (last v))"

definition token :: "string \<Rightarrow> bool" where
  "token s \<longleftrightarrow> s \<noteq> [] \<and> list_all (\<lambda>c. \<not> is_ws c) s"

lemma trim_ends: "\<not> is_ws c \<Longrightarrow> \<not> is_ws (last (c # v)) \<Longrightarrow> trim (c # v) = c # v"
proof -
  assume c: "\<not> is_ws c" "\<not> is_ws (last (c # v))"
  obtain ys y where e: "c # v = ys @ [y]" by (metis rev_exhaust list.distinct(1))
  with c(2) have "\<not> is_ws y" by simp
  moreover have "dropWhile is_ws (c # v) = c # v" using c(1) by simp
  ultimately show ?thesis unfolding trim_def by (simp add: e)
qed

lemma sdp_line_field:
  assumes "c \<in> set ''vosctma''" and "value_ok v"
  shows "sdp_line (c # CHR ''='' # v) p = sdp_field c v p"
proof -
  have c: "\<not> is_ws c" "char_width c = 1" using assms(1) by (auto simp: is_ws_def char_width_def)
  have "\<not> is_ws (CHR ''='')" by (simp add: is_ws_def)
  then have "\<not> is_ws (last (c # CHR ''='' # v))"
    using assms(2) by (cases v) (auto simp: value_ok_def)
  then have t: "trim (c # CHR ''='' # v) = c # CHR ''='' # v" using trim_ends [of c "CHR ''='' # v"] c(1) by simp
  have "slice_from_2 (c # CHR ''='' # v) = Ok v"
    using assms(2) by (cases v) (auto simp: slice_from_2_def value_ok_def)
  then show ?thesis by (simp add: sdp_line_def t nth_opt_def c(2))
qed

section \<open>Words\<close>

lemma split_by_ws_token: "token t \<Longrightarrow> split_by is_ws t = [t]"
  by (simp add: token_def split_by_no_sep)

lemma split_ws_one: "token t \<Longrightarrow> split_whitespace t = [t]"
  by (simp add: split_whitespace_def split_by_ws_token token_def)

lemma split_ws_step: "token t \<Longrightarrow> split_whitespace (t @ CHR '' '' # r) = t # split_whitespace r"
  using split_by_append [of is_ws t "CHR '' ''" r] by (simp add: split_whitespace_def token_def is_ws_def)

lemma split_ws_join: "list_all token ts \<Longrightarrow> ts \<noteq> [] \<Longrightarrow> split_whitespace (join_with '' '' ts) = ts"
  by (induction "'' ''" ts rule: join_with.induct) (auto simp: split_ws_one split_ws_step)

lemma token_show_nat [simp]: "token (show_nat n)"
  by (simp add: token_def show_nat_not_ws)

lemma token_literal: "s \<noteq> [] \<Longrightarrow> list_all (\<lambda>c. \<not> is_ws c) s \<Longrightarrow> token s"
  by (simp add: token_def)

lemma token_not_lf: "token s \<Longrightarrow> list_all (\<lambda>c. c \<noteq> CHR 0x0A) s"
  by (auto simp: token_def list_all_iff is_ws_def)

lemma token_last: "token s \<Longrightarrow> \<not> is_ws (last s)"
  by (simp add: token_def list_all_iff)

lemma parse_u64_show [string_simps]: "parse_u64 (show_nat (unat w)) = Some w"
  using unat64_less [of w] by (simp add: parse_u64_def parse_uint_show_nat)

lemma parse_u8_show [string_simps]: "parse_u8 (show_u8 w) = Some w"
  using unat_byte_less [of w] by (simp add: parse_u8_def show_u8_def parse_uint_show_nat)

lemma token_show_ip: "token (show_ip ip)"
proof -
  have "\<not> is_ws c" if "ip_char c" for c
    using that by (auto simp: ip_char_def is_hex_def is_digit_def is_ws_def Let_def)
  then show ?thesis using show_ip_chars [of ip] show_ip_nonempty [of ip] by (auto simp: token_def list_all_iff)
qed

lemma token_addr_type: "token (addr_type_of ip)"
  by (simp add: token_def addr_type_of_def is_ws_def)

lemma token_show_u8 [simp]: "token (show_u8 w)"
  by (simp add: show_u8_def)

section \<open>Fields\<close>

lemma parse_origin_show:
  assumes "token (so_username o')" and "token (so_net_type o')" and "token (so_addr_type o')" and "token (so_address o')"
  shows "parse_origin (join_with '' '' [so_username o', show_nat (unat (so_session_id o')),
    show_nat (unat (so_session_version o')), so_net_type o', so_addr_type o', so_address o']) = Ok o'"
proof -
  have "list_all token [so_username o', show_nat (unat (so_session_id o')), show_nat (unat (so_session_version o')),
      so_net_type o', so_addr_type o', so_address o']"
    using assms by simp
  from split_ws_join [OF this] show ?thesis
    unfolding parse_origin_def Let_def by (simp add: parse_u64_show option_or_def)
qed

lemma parse_connection_show: "parse_connection (''IN '' @ addr_type_of ip @ '' '' @ show_ip ip) = Ok ip"
proof -
  have "split_whitespace (''IN '' @ addr_type_of ip @ '' '' @ show_ip ip) = [''IN'', addr_type_of ip, show_ip ip]"
    using split_ws_join [of "[''IN'', addr_type_of ip, show_ip ip]"] token_addr_type [of ip] token_show_ip [of ip]
    by (simp add: token_def is_ws_def)
  then show ?thesis
    unfolding parse_connection_def Let_def by (simp add: parse_show_ip addr_type_of_def is_ipv6_def)
qed

lemma map_filter_show_u8: "List.map_filter parse_u8 (map show_u8 ws) = ws"
  by (induction ws) (simp_all add: map_filter_simps parse_u8_show)

definition new_media :: "u16 \<Rightarrow> string \<Rightarrow> byte list \<Rightarrow> media_description" where
  "new_media port proto pts =
     \<lparr>md_media_type = ''audio'', md_port = port, md_protocol = proto, md_payload_types = pts, md_connection = None,
      md_rtpmap = [], md_fmtp = [], md_attributes = [], md_direction = SendRecv, md_ptime = None\<rparr>"

lemma parse_media_show:
  assumes "token proto" and "pts \<noteq> []"
  shows "parse_media_line (''audio '' @ show_nat (unat port) @ '' '' @ proto @ '' '' @ join_with '' '' (map show_u8 pts))
    = Ok (new_media port proto pts)"
proof -
  have "list_all token (map show_u8 pts)" by (simp add: list_all_iff)
  then have "split_whitespace (join_with '' '' (''audio'' # show_nat (unat port) # proto # map show_u8 pts))
      = ''audio'' # show_nat (unat port) # proto # map show_u8 pts"
    using assms by (intro split_ws_join) (simp_all add: token_literal is_ws_def)
  moreover have "join_with '' '' (''audio'' # show_nat (unat port) # proto # map show_u8 pts)
      = ''audio '' @ show_nat (unat port) @ '' '' @ proto @ '' '' @ join_with '' '' (map show_u8 pts)"
    using assms(2) by (cases pts) simp_all
  ultimately have w: "split_whitespace (''audio '' @ show_nat (unat port) @ '' '' @ proto @ '' '' @ join_with '' '' (map show_u8 pts))
      = ''audio'' # show_nat (unat port) # proto # map show_u8 pts" by simp
  have "\<not> is_digit (CHR ''/'')" by (simp add: is_digit_def)
  then have "list_all (\<lambda>c. \<not> c = CHR ''/'') (show_nat (unat port))" by (intro digits_avoid show_nat_digits)
  then have h: "hd (split_on (CHR ''/'') (show_nat (unat port))) = show_nat (unat port)"
    by (simp add: split_on_def split_by_no_sep)
  have u: "unat (ucast port :: u32) = unat port" by (rule unat_ucast_16_32)
  have q: "parse_u32 (show_nat (unat port)) = Some (ucast port)" using parse_u32_show [of "ucast port"] by (simp add: u)
  have "\<not> (ucast port :: u32) > 65535" using unat16_less [of port] by (simp add: word_less_nat_alt u)
  moreover have "(ucast (ucast port :: u32) :: u16) = port" by (simp add: ucast_up_ucast_id is_up)
  moreover have "length pts > 0" using assms(2) by simp
  ultimately show ?thesis
    unfolding parse_media_line_def w Let_def by (simp add: h q map_filter_show_u8 new_media_def)
qed

section \<open>Attributes\<close>

definition media_attributes :: "string list \<Rightarrow> media_description \<times> bool \<Rightarrow> media_description \<times> bool" where
  "media_attributes vs md = foldl (\<lambda>(m, f) v. let (m', d) = media_attribute v m in (m', f \<or> d)) md vs"

lemma sdp_attribute_lines:
  "list_all value_ok vs \<Longrightarrow> sp_current_media p = Some m \<Longrightarrow>
    sdp_lines (map (\<lambda>v. ''a='' @ v) vs) p =
      Ok (p\<lparr>sp_current_media := Some (fst (media_attributes vs (m, sp_current_has_direction p))),
            sp_current_has_direction := snd (media_attributes vs (m, sp_current_has_direction p))\<rparr>)"
proof (induction vs arbitrary: p m)
  case Nil
  then show ?case by (simp add: media_attributes_def)
next
  case (Cons v vs)
  obtain m' d where a: "media_attribute v m = (m', d)" by fastforce
  let ?p = "p\<lparr>sp_current_media := Some m', sp_current_has_direction := sp_current_has_direction p \<or> d\<rparr>"
  have "sdp_line (''a='' @ v) p = sdp_field (CHR ''a'') v p"
    using sdp_line_field [of "CHR ''a''" v p] Cons.prems(1) by simp
  also have "\<dots> = Ok ?p" using Cons.prems(2) a by (simp add: sdp_field_def)
  finally have l: "sdp_line (''a='' @ v) p = Ok ?p" .
  have "media_attributes (v # vs) (m, sp_current_has_direction p) = media_attributes vs (m', sp_current_has_direction p \<or> d)"
    by (simp add: media_attributes_def a)
  with Cons.IH [of ?p m'] Cons.prems(1) l show ?case by simp
qed

definition rtpmap_entry :: "byte \<Rightarrow> string \<Rightarrow> rtp_map_entry" where
  "rtpmap_entry pt name = \<lparr>rm_payload_type = pt, rm_encoding_name = name, rm_clock_rate = 8000, rm_channels = None\<rparr>"

lemma parse_rtpmap_show:
  assumes "token name" and "list_all (\<lambda>c. c \<noteq> CHR ''/'') name"
  shows "parse_rtpmap (show_u8 pt @ '' '' @ name @ ''/8000'') = Ok (rtpmap_entry pt name)"
proof -
  have "token (name @ ''/8000'')" using assms(1) by (simp add: token_def is_ws_def)
  then have "list_all token [show_u8 pt, name @ ''/8000'']" by simp
  from split_ws_join [OF this] have w: "split_whitespace (show_u8 pt @ '' '' @ name @ ''/8000'') = [show_u8 pt, name @ ''/8000'']"
    by simp
  have c: "split_on (CHR ''/'') (name @ ''/8000'') = [name, ''8000'']"
    using split_by_append [of "\<lambda>c. c = CHR ''/''" name "CHR ''/''" "''8000''"] assms(2) by (simp add: split_on_def)
  have n: "parse_u32 ''8000'' = Some 8000"
    by (simp add: parse_u32_def parse_uint_def parse_digits_def is_digit_def digits_val_def digit_val_def)
  show ?thesis
    unfolding parse_rtpmap_def w Let_def by (simp add: parse_u8_show c nth_opt_def n rtpmap_entry_def)
qed

lemma media_attribute_rtpmap:
  assumes "token name" and "list_all (\<lambda>c. c \<noteq> CHR ''/'') name"
  shows "media_attribute (''rtpmap:'' @ show_u8 pt @ '' '' @ name @ ''/8000'') m
    = (m\<lparr>md_rtpmap := md_rtpmap m @ [rtpmap_entry pt name]\<rparr>, False)"
proof -
  have s: "starts_with ''rtpmap:'' (''rtpmap:'' @ x)" "drop 7 (''rtpmap:'' @ x) = x" for x :: string
    by (rule starts_with_append) simp
  show ?thesis by (simp only: media_attribute_def s if_True parse_rtpmap_show [OF assms] outcome.case)
qed

lemma media_attribute_fmtp:
  "media_attribute (''fmtp:'' @ show_u8 pt @ '' 0-15'') m
    = (m\<lparr>md_fmtp := md_fmtp m @ [(pt, ''0-15'')], md_attributes := md_attributes m @ [''fmtp:'' @ show_u8 pt @ '' 0-15'']\<rparr>, False)"
proof -
  have "list_all (\<lambda>c. c \<noteq> CHR '' '') (show_u8 pt)"
    using token_show_u8 [of pt] by (auto simp: token_def list_all_iff is_ws_def)
  then have "split_once (CHR '' '') (show_u8 pt @ '' 0-15'') = Some (show_u8 pt, ''0-15'')"
    using split_once_append [of "CHR '' ''" "show_u8 pt" "''0-15''"] by simp
  then show ?thesis by (simp add: media_attribute_def starts_with_def parse_u8_show)
qed

lemma media_attribute_ptime: "media_attribute ''ptime:20'' m = (m\<lparr>md_ptime := Some 20\<rparr>, False)"
proof -
  have "trim ''20'' = ''20''" by (rule trim_id) (simp add: is_ws_def)
  then show ?thesis
    by (simp add: media_attribute_def starts_with_def parse_u32_def parse_uint_def parse_digits_def is_digit_def
        digits_val_def digit_val_def)
qed

lemma media_attribute_direction: "media_attribute (direction_str d) m = (m\<lparr>md_direction := d\<rparr>, True)"
  by (cases d) (simp_all add: media_attribute_def starts_with_def direction_from_str_def to_lowercase_def to_lower_def)

lemma media_attribute_crypto:
  "media_attribute (''crypto:'' @ v) m = (m\<lparr>md_attributes := md_attributes m @ [''crypto:'' @ v]\<rparr>, False)"
  by (simp add: media_attribute_def starts_with_def direction_from_str_def to_lowercase_def to_lower_def)

section \<open>What a built description says\<close>

definition builder_ok :: "sdp_builder \<Rightarrow> media_direction \<Rightarrow> bool" where
  "builder_ok b dir \<longleftrightarrow>
     token (so_username (sb_origin b)) \<and> value_ok (so_username (sb_origin b)) \<and> token (so_net_type (sb_origin b))
     \<and> token (so_addr_type (sb_origin b)) \<and> token (so_address (sb_origin b))
     \<and> value_ok (sb_session_name b) \<and> token (sb_protocol b)
     \<and> (sb_codecs b \<noteq> [] \<or> sb_include_telephone_event b) \<and> sb_direction b = direction_str dir
     \<and> (case sb_crypto b of None \<Rightarrow> True | Some (suite, key) \<Rightarrow> token suite \<and> token key)"

definition pts_of :: "sdp_builder \<Rightarrow> byte list" where
  "pts_of b = map payload_type_of (sb_codecs b) @ (if sb_include_telephone_event b then [sb_telephone_event_pt b] else [])"

definition media_of :: "sdp_builder \<Rightarrow> media_direction \<Rightarrow> media_description" where
  "media_of b dir =
     (let te = sb_telephone_event_pt b; on = sb_include_telephone_event b
      in \<lparr>md_media_type = ''audio'', md_port = sb_audio_port b, md_protocol = sb_protocol b,
          md_payload_types = pts_of b, md_connection = None,
          md_rtpmap = map (\<lambda>c. rtpmap_entry (payload_type_of c) (sdp_name c)) (sb_codecs b)
            @ (if on then [rtpmap_entry te ''telephone-event''] else []),
          md_fmtp = (if on then [(te, ''0-15'')] else []),
          md_attributes = (case sb_crypto b of None \<Rightarrow> []
              | Some (suite, key) \<Rightarrow> [''crypto:1 '' @ suite @ '' inline:'' @ key])
            @ (if on then [''fmtp:'' @ show_u8 te @ '' 0-15''] else []),
          md_direction = dir, md_ptime = Some 20\<rparr>)"

definition sdp_of :: "sdp_builder \<Rightarrow> media_direction \<Rightarrow> sdp" where
  "sdp_of b dir =
     \<lparr>sd_version = 0, sd_origin = sb_origin b, sd_session_name = sb_session_name b,
      sd_connection = Some (sb_connection b), sd_media = [media_of b dir], sd_attributes = []\<rparr>"

definition rtpmap_value :: "byte \<Rightarrow> string \<Rightarrow> string" where
  "rtpmap_value pt name = ''rtpmap:'' @ show_u8 pt @ '' '' @ name @ ''/8000''"

definition fmtp_value :: "byte \<Rightarrow> string" where "fmtp_value pt = ''fmtp:'' @ show_u8 pt @ '' 0-15''"

definition crypto_value :: "string \<times> string \<Rightarrow> string" where
  "crypto_value sk = ''crypto:'' @ ''1 '' @ fst sk @ '' inline:'' @ snd sk"

definition te_name :: string where "te_name = ''telephone-event''"

definition attribute_values :: "sdp_builder \<Rightarrow> string list" where
  "attribute_values b =
     (case sb_crypto b of None \<Rightarrow> [] | Some sk \<Rightarrow> [crypto_value sk])
     @ map (\<lambda>c. rtpmap_value (payload_type_of c) (sdp_name c)) (sb_codecs b)
     @ (if sb_include_telephone_event b
        then [rtpmap_value (sb_telephone_event_pt b) te_name, fmtp_value (sb_telephone_event_pt b)] else [])
     @ [''ptime:20'', sb_direction b]"

definition head_values :: "sdp_builder \<Rightarrow> (char \<times> string) list" where
  "head_values b =
     [(CHR ''v'', ''0''),
      (CHR ''o'', join_with '' '' [so_username (sb_origin b), show_nat (unat (so_session_id (sb_origin b))),
         show_nat (unat (so_session_version (sb_origin b))), so_net_type (sb_origin b),
         so_addr_type (sb_origin b), so_address (sb_origin b)]),
      (CHR ''s'', sb_session_name b),
      (CHR ''c'', ''IN '' @ addr_type_of (sb_connection b) @ '' '' @ show_ip (sb_connection b)),
      (CHR ''t'', ''0 0''),
      (CHR ''m'', ''audio '' @ show_nat (unat (sb_audio_port b)) @ '' '' @ sb_protocol b @ '' ''
         @ join_with '' '' (map show_u8 (pts_of b)))]"

lemma sdp_text_lines_values:
  "sdp_text_lines b = map (\<lambda>(c, v). c # CHR ''='' # v) (head_values b) @ map (\<lambda>v. ''a='' @ v) (attribute_values b)"
  by (cases "sb_crypto b") (auto simp: sdp_text_lines_def head_values_def attribute_values_def pts_of_def Let_def comp_def
      rtpmap_value_def fmtp_value_def crypto_value_def te_name_def)

lemma value_okI:
  assumes "list_all (\<lambda>c. c \<noteq> CHR 0x0A) v" and "v \<noteq> [] \<Longrightarrow> \<not> is_cont (hd v)" and "v \<noteq> [] \<Longrightarrow> \<not> is_ws (last v)"
  shows "value_ok v"
  using assms by (cases v) (auto simp: value_ok_def)

lemma join_ends:
  "xs \<noteq> [] \<Longrightarrow> list_all token xs \<Longrightarrow> list_all (\<lambda>c. c \<noteq> CHR 0x0A) (join_with '' '' xs) \<and> join_with '' '' xs \<noteq> []
    \<and> \<not> is_ws (last (join_with '' '' xs))"
proof (induction "'' ''" xs rule: join_with.induct)
  case (2 x)
  then show ?case using token_not_lf [of x] token_last [of x] by (simp add: token_def)
next
  case (3 x y ys)
  then show ?case using token_not_lf [of x] by simp
qed simp

lemma head_values_ok:
  assumes "builder_ok b dir"
  shows "list_all (\<lambda>(c, v). c \<in> set ''vosctma'' \<and> value_ok v) (head_values b)"
proof -
  let ?o = "sb_origin b"
  let ?t = "[show_nat (unat (so_session_id ?o)), show_nat (unat (so_session_version ?o)), so_net_type ?o, so_addr_type ?o,
      so_address ?o]"
  have t: "list_all token ?t" using assms by (simp add: builder_ok_def)
  have u: "so_username ?o \<noteq> []" "\<not> is_cont (hd (so_username ?o))" "list_all (\<lambda>c. c \<noteq> CHR 0x0A) (so_username ?o)"
    using assms by (auto simp: builder_ok_def token_def value_ok_def split: list.splits)
  have o': "value_ok (join_with '' '' (so_username ?o # ?t))"
    by (rule value_okI) (use join_ends [OF _ t] u in auto)
  have cont: "\<not> is_cont (CHR ''0'')" "\<not> is_cont (CHR ''I'')" "\<not> is_cont (CHR ''a'')" "\<not> is_ws (CHR ''0'')"
    by (simp_all add: is_cont_def is_ws_def)
  have ip: "show_ip (sb_connection b) \<noteq> []" using token_show_ip [of "sb_connection b"] by (simp add: token_def)
  have c: "value_ok (''IN '' @ addr_type_of (sb_connection b) @ '' '' @ show_ip (sb_connection b))"
    by (rule value_okI) (use cont token_not_lf [OF token_addr_type] token_not_lf [OF token_show_ip]
        token_last [OF token_show_ip] ip in auto)
  have "pts_of b \<noteq> []" "list_all token (map show_u8 (pts_of b))"
    using assms by (auto simp: builder_ok_def pts_of_def list_all_iff)
  note j = join_ends [OF _ this(2)] this(1)
  have m: "value_ok (''audio '' @ show_nat (unat (sb_audio_port b)) @ '' '' @ sb_protocol b @ '' ''
      @ join_with '' '' (map show_u8 (pts_of b)))"
    by (rule value_okI) (use cont j assms token_not_lf in \<open>auto simp: builder_ok_def\<close>)
  have "value_ok ''0''" "value_ok ''0 0''" by (simp_all add: value_ok_def cont)
  then show ?thesis using assms o' c m by (simp add: head_values_def builder_ok_def)
qed

lemma sdp_name_text: "token (sdp_name c)" "list_all (\<lambda>x. x \<noteq> CHR ''/'') (sdp_name c)"
  by (cases c; simp add: token_def is_ws_def)+

lemma attribute_values_ok:
  assumes "builder_ok b dir"
  shows "list_all value_ok (attribute_values b)"
proof -
  have cont: "\<not> is_cont (CHR ''c'')" "\<not> is_cont (CHR ''r'')" "\<not> is_cont (CHR ''f'')" "\<not> is_cont (CHR ''p'')"
    "\<not> is_cont (CHR ''s'')" "\<not> is_cont (CHR ''i'')"
    by (simp_all add: is_cont_def)
  have ws: "\<not> is_ws (CHR ''0'')" "\<not> is_ws (CHR ''5'')" "\<not> is_ws (CHR ''v'')" "\<not> is_ws (CHR ''y'')" "\<not> is_ws (CHR ''e'')"
    by (simp_all add: is_ws_def)
  have map: "value_ok (rtpmap_value pt name)" if "token name" for pt name
    unfolding rtpmap_value_def by (rule value_okI) (use token_not_lf [OF that] token_not_lf [OF token_show_u8 [of pt]] cont ws in auto)
  have fmtp: "value_ok (fmtp_value pt)" for pt
    unfolding fmtp_value_def by (rule value_okI) (use token_not_lf [OF token_show_u8 [of pt]] cont ws in auto)
  have crypto: "value_ok (crypto_value (suite, key))" if "token suite" "token key" for suite key
  proof -
    have "key \<noteq> []" using that(2) by (simp add: token_def)
    then show ?thesis unfolding crypto_value_def
      by (intro value_okI) (use token_not_lf [OF that(1)] token_not_lf [OF that(2)] token_last [OF that(2)] cont in auto)
  qed
  have dir: "value_ok (direction_str dir)" by (cases dir) (simp_all add: value_ok_def cont ws)
  have ptime: "value_ok ''ptime:20''" by (simp add: value_ok_def cont ws)
  have te: "token te_name" by (simp add: token_def is_ws_def te_name_def)
  have cr: "list_all value_ok (case sb_crypto b of None \<Rightarrow> [] | Some sk \<Rightarrow> [crypto_value sk])"
    using assms crypto by (auto simp: builder_ok_def split: option.split)
  have cs: "list_all value_ok (map (\<lambda>c. rtpmap_value (payload_type_of c) (sdp_name c)) (sb_codecs b))"
    using map [OF sdp_name_text(1)] by (simp add: list_all_iff)
  have d: "sb_direction b = direction_str dir" using assms by (simp add: builder_ok_def)
  show ?thesis
    unfolding attribute_values_def list_all_append using cr cs map [OF te] fmtp ptime dir d by simp
qed

lemma media_attributes_Cons:
  "media_attributes (v # vs) (m, f) = media_attributes vs (fst (media_attribute v m), f \<or> snd (media_attribute v m))"
  by (simp add: media_attributes_def case_prod_beta Let_def)

lemma attributes_rtpmaps:
  "media_attributes (map (\<lambda>c. rtpmap_value (payload_type_of c) (sdp_name c)) cs @ vs) (m, f)
    = media_attributes vs (m\<lparr>md_rtpmap := md_rtpmap m @ map (\<lambda>c. rtpmap_entry (payload_type_of c) (sdp_name c)) cs\<rparr>, f)"
proof (induction cs arbitrary: m)
  case (Cons c cs)
  note r = media_attribute_rtpmap [OF sdp_name_text, folded rtpmap_value_def]
  show ?case by (simp add: media_attributes_Cons r Cons.IH)
qed simp

lemma media_attributes_built:
  assumes "builder_ok b dir"
  shows "media_attributes (attribute_values b) (new_media (sb_audio_port b) (sb_protocol b) (pts_of b), False)
    = (media_of b dir, True)"
proof -
  have te: "token te_name" "list_all (\<lambda>c. c \<noteq> CHR ''/'') te_name" by (simp_all add: token_def is_ws_def te_name_def)
  have d: "sb_direction b = direction_str dir" using assms by (simp add: builder_ok_def)
  note fmtp = media_attribute_fmtp [folded fmtp_value_def]
  note map = media_attribute_rtpmap [OF te, folded rtpmap_value_def]
  have crypto: "media_attribute (crypto_value sk) m = (m\<lparr>md_attributes := md_attributes m @ [crypto_value sk]\<rparr>, False)"
    for sk m unfolding crypto_value_def by (rule media_attribute_crypto)
  have nil: "media_attributes [] md = md" for md by (simp add: media_attributes_def)
  note steps = media_attributes_Cons attributes_rtpmaps fmtp map crypto media_attribute_ptime
    media_attribute_direction nil
  have lit: "''crypto:1 '' @ suite @ '' inline:'' @ key = crypto_value (suite, key)" for suite key
    by (simp add: crypto_value_def)
  have attrs: "md_attributes (media_of b dir) = (case sb_crypto b of None \<Rightarrow> [] | Some sk \<Rightarrow> [crypto_value sk])
      @ (if sb_include_telephone_event b then [fmtp_value (sb_telephone_event_pt b)] else [])"
    by (auto simp: media_of_def Let_def crypto_value_def fmtp_value_def split: option.split)
  have "media_attributes (attribute_values b) (new_media (sb_audio_port b) (sb_protocol b) (pts_of b), False)
      = ((media_of b dir)\<lparr>md_attributes := (case sb_crypto b of None \<Rightarrow> [] | Some sk \<Rightarrow> [crypto_value sk])
          @ (if sb_include_telephone_event b then [fmtp_value (sb_telephone_event_pt b)] else [])\<rparr>, True)"
    unfolding attribute_values_def d
    by (cases "sb_crypto b"; cases "sb_include_telephone_event b")
      (simp_all add: steps media_of_def new_media_def Let_def te_name_def [symmetric])
  then show ?thesis unfolding attrs [symmetric] by simp
qed

lemma sdp_build_snd: "snd (sdp_build b) = concat (map (\<lambda>l. l @ crlf) (sdp_text_lines (fst (sdp_build b))))"
  by (simp add: sdp_build_def Let_def)

fun sdp_fields :: "(char \<times> string) list \<Rightarrow> sdp_parser \<Rightarrow> sdp_parser res" where
  "sdp_fields [] p = Ok p"
| "sdp_fields ((c, v) # xs) p = res_bind (sdp_field c v p) (sdp_fields xs)"

lemma sdp_lines_fields:
  "list_all (\<lambda>(c, v). c \<in> set ''vosctma'' \<and> value_ok v) xs \<Longrightarrow>
    sdp_lines (map (\<lambda>(c, v). c # CHR ''='' # v) xs) p = sdp_fields xs p"
proof (induction xs arbitrary: p)
  case (Cons x xs)
  obtain c v where x: "x = (c, v)" by (cases x)
  have "sdp_line (c # CHR ''='' # v) p = sdp_field c v p" by (rule sdp_line_field) (use Cons.prems x in auto)
  moreover have "sdp_lines (map (\<lambda>(c, v). c # CHR ''='' # v) xs) = sdp_fields xs" using Cons by auto
  ultimately show ?case by (simp add: x)
qed simp

lemma parse_head:
  assumes "builder_ok b dir"
  shows "sdp_fields (head_values b) (sdp_parser_new random) =
    Ok ((sdp_parser_new random)\<lparr>sp_version := 0, sp_has_version := True, sp_origin := sb_origin b, sp_has_origin := True,
      sp_session_name := sb_session_name b, sp_has_session_name := True, sp_connection := Some (sb_connection b),
      sp_current_media := Some (new_media (sb_audio_port b) (sb_protocol b) (pts_of b)),
      sp_current_has_direction := False\<rparr>)"
proof -
  have tok: "token (so_username (sb_origin b))" "token (so_net_type (sb_origin b))" "token (so_addr_type (sb_origin b))"
    "token (so_address (sb_origin b))" "token (sb_protocol b)" "pts_of b \<noteq> []"
    using assms by (auto simp: builder_ok_def pts_of_def)
  have v0: "parse_u8 ''0'' = Some 0"
    by (simp add: parse_u8_def parse_uint_def parse_digits_def is_digit_def digits_val_def digit_val_def)
  define p where "p = sdp_parser_new random"
  have none: "sp_current_media p = None" by (simp add: p_def sdp_parser_new_def)
  note o' = parse_origin_show [OF tok(1-4)] and c = parse_connection_show [of "sb_connection b"]
    and m = parse_media_show [OF tok(5,6), of "sb_audio_port b"]
  note chars = char.inject simp_thms if_True if_False
  have v: "sdp_field (CHR ''v'') ''0'' q = Ok (q\<lparr>sp_version := 0, sp_has_version := True\<rparr>)" for q
    by (simp add: sdp_field_def v0 option_or_def)
  have o1: "sdp_field (CHR ''o'') x q = res_bind (parse_origin x) (\<lambda>o'. Ok (q\<lparr>sp_origin := o', sp_has_origin := True\<rparr>))" for x q
    by (simp add: sdp_field_def)
  have s1: "sdp_field (CHR ''s'') x q = Ok (q\<lparr>sp_session_name := x, sp_has_session_name := True\<rparr>)" for x q
    by (simp add: sdp_field_def)
  have c1: "sp_current_media q = None \<Longrightarrow>
      sdp_field (CHR ''c'') x q = res_bind (parse_connection x) (\<lambda>addr. Ok (q\<lparr>sp_connection := Some addr\<rparr>))" for x q
    by (simp add: sdp_field_def)
  have t1: "sdp_field (CHR ''t'') x q = Ok q" for x q by (simp add: sdp_field_def)
  have m1: "sp_current_media q = None \<Longrightarrow> sdp_field (CHR ''m'') x q
      = res_bind (parse_media_line x) (\<lambda>m. Ok (q\<lparr>sp_current_media := Some m, sp_current_has_direction := False\<rparr>))" for x q
    by (simp add: sdp_field_def save_media_def)
  define q where "q = p\<lparr>sp_version := 0, sp_has_version := True, sp_origin := sb_origin b, sp_has_origin := True,
      sp_session_name := sb_session_name b, sp_has_session_name := True\<rparr>"
  have "sp_current_media q = None" "sp_current_media (q\<lparr>sp_connection := Some (sb_connection b)\<rparr>) = None"
    by (simp_all add: q_def none)
  note q = c1 [OF this(1)] m1 [OF this(2)]
  show ?thesis
    unfolding head_values_def sdp_fields.simps p_def [symmetric] v o1 s1 o' res_bind.simps
    unfolding q_def [symmetric] q c res_bind.simps t1 m by simp
qed

lemma parse_text_lines:
  assumes "builder_ok b dir"
  shows "sdp_parse random (concat (map (\<lambda>l. l @ crlf) (sdp_text_lines b))) = Ok (sdp_of b dir)"
proof -
  note hv = head_values_ok [OF assms] and av = attribute_values_ok [OF assms]
  have lf: "list_all (list_all (\<lambda>c. c \<noteq> CHR 0x0A)) (sdp_text_lines b)"
  proof -
    have h: "list_all (\<lambda>c. c \<noteq> CHR 0x0A) (case x of (c, v) \<Rightarrow> c # CHR ''='' # v)"
      if "case x of (c, v) \<Rightarrow> c \<in> set ''vosctma'' \<and> value_ok v" for x :: "char \<times> string"
      using that by (auto simp: value_ok_def)
    have "list_all (list_all (\<lambda>c. c \<noteq> CHR 0x0A)) (map (\<lambda>(c, v). c # CHR ''='' # v) (head_values b))"
      unfolding list.pred_map comp_def by (rule list.pred_mono_strong [OF hv]) (rule h)
    moreover have "list_all (\<lambda>c. c \<noteq> CHR 0x0A) (''a='' @ v)" if "value_ok v" for v using that by (simp add: value_ok_def)
    then have "list_all (list_all (\<lambda>c. c \<noteq> CHR 0x0A)) (map (\<lambda>v. ''a='' @ v) (attribute_values b))"
      unfolding list.pred_map comp_def by (intro list.pred_mono_strong [OF av])
    ultimately show ?thesis unfolding sdp_text_lines_values list_all_append by blast
  qed
  let ?m = "new_media (sb_audio_port b) (sb_protocol b) (pts_of b)"
  let ?p = "(sdp_parser_new random)\<lparr>sp_version := 0, sp_has_version := True, sp_origin := sb_origin b, sp_has_origin := True,
      sp_session_name := sb_session_name b, sp_has_session_name := True, sp_connection := Some (sb_connection b),
      sp_current_media := Some ?m, sp_current_has_direction := False\<rparr>"
  have at: "sdp_lines (map (\<lambda>v. ''a='' @ v) (attribute_values b)) ?p
      = Ok (?p\<lparr>sp_current_media := Some (media_of b dir), sp_current_has_direction := True\<rparr>)"
    using sdp_attribute_lines [OF av, of ?p ?m] media_attributes_built [OF assms] by simp
  have "sdp_lines (sdp_text_lines b) (sdp_parser_new random)
      = Ok (?p\<lparr>sp_current_media := Some (media_of b dir), sp_current_has_direction := True\<rparr>)"
    unfolding sdp_text_lines_values sdp_lines_append sdp_lines_fields [OF hv] parse_head [OF assms] res_bind.simps
    by (rule at)
  then show ?thesis
    unfolding sdp_parse_def lines_crlf [OF lf]
    by (simp add: sdp_finish_def save_media_def sdp_parser_new_def propagate_direction_def sdp_of_def Let_def)
qed

lemma builder_ok_build: "builder_ok b dir \<Longrightarrow> builder_ok (fst (sdp_build b)) dir"
  by (simp add: builder_ok_def sdp_build_def Let_def)

lemma parse_build: "builder_ok b dir \<Longrightarrow> sdp_parse random (snd (sdp_build b)) = Ok (sdp_of (fst (sdp_build b)) dir)"
  unfolding sdp_build_snd by (rule parse_text_lines) (rule builder_ok_build)

section \<open>Properties\<close>


lemma find_map_rtpmap: "find_map (\<lambda>e. if eq_ignore_case (rm_encoding_name e) ''telephone-event''
    then Some (rm_payload_type e) else None) (map (\<lambda>c. rtpmap_entry (payload_type_of c) (sdp_name c)) cs @ es)
  = find_map (\<lambda>e. if eq_ignore_case (rm_encoding_name e) ''telephone-event'' then Some (rm_payload_type e) else None) es"
proof (induction cs)
  case (Cons c cs)
  then show ?case by (cases c) (simp_all add: rtpmap_entry_def eq_ignore_case_def to_lowercase_def)
qed simp

lemma te_attribute_other: "te_attribute (''crypto:1 '' @ v) = None" "te_attribute (''fmtp:'' @ v) = None"
  by (simp_all add: te_attribute_def starts_with_def)

lemma built_queries:
  shows "rtp_addr (sdp_of b dir) = Some (sb_connection b, sb_audio_port b)"
    and "audio_direction (sdp_of b dir) = dir" and "sdp_ptime (sdp_of b dir) = Some 20"
    and "telephone_event_pt (sdp_of b dir)
      = (if sb_include_telephone_event b then Some (sb_telephone_event_pt b) else None)"
    and "is_on_hold (sdp_of b dir)
      \<longleftrightarrow> sb_audio_port b = 0 \<or> dir = SendOnly \<or> dir = Inactive \<or> is_unspecified (sb_connection b)"
    and "negotiate_codec prefs (sdp_of b dir) = List.find (\<lambda>c. payload_type_of c \<in> set (pts_of b)) prefs"
proof -
  have a: "sdp_audio (sdp_of b dir) = Some (media_of b dir)"
    by (simp add: sdp_audio_def sdp_of_def media_of_def Let_def)
  have c: "sd_connection (sdp_of b dir) = Some (sb_connection b)" by (simp add: sdp_of_def)
  have m: "md_media_type (media_of b dir) = ''audio''" "md_port (media_of b dir) = sb_audio_port b"
    "md_connection (media_of b dir) = None" "md_direction (media_of b dir) = dir" "md_ptime (media_of b dir) = Some 20"
    "md_payload_types (media_of b dir) = pts_of b"
    by (simp_all add: media_of_def Let_def)
  show "rtp_addr (sdp_of b dir) = Some (sb_connection b, sb_audio_port b)" by (simp add: rtp_addr_def a c m or_else_def)
  show "audio_direction (sdp_of b dir) = dir" by (simp add: audio_direction_def a m)
  show "sdp_ptime (sdp_of b dir) = Some 20" by (simp add: sdp_ptime_def a m)
  show "negotiate_codec prefs (sdp_of b dir) = List.find (\<lambda>c. payload_type_of c \<in> set (pts_of b)) prefs"
    by (simp add: negotiate_codec_def a m)
  have held: "direction_held dir \<longleftrightarrow> dir = SendOnly \<or> dir = Inactive" by (cases dir) simp_all
  show "is_on_hold (sdp_of b dir)
      \<longleftrightarrow> sb_audio_port b = 0 \<or> dir = SendOnly \<or> dir = Inactive \<or> is_unspecified (sb_connection b)"
    by (auto simp: is_on_hold_def a c m md_disabled_def md_held_def or_else_def held)
  have e: "find_map te_attribute (md_attributes (media_of b dir)) = None"
    using te_attribute_other by (auto simp: media_of_def Let_def split: option.split)
  have t: "eq_ignore_case (rm_encoding_name (rtpmap_entry pt ''telephone-event'')) ''telephone-event''"
      "rm_payload_type (rtpmap_entry pt name) = pt" for pt name
    by (simp_all add: rtpmap_entry_def eq_ignore_case_def)
  have r: "find_map (\<lambda>e. if eq_ignore_case (rm_encoding_name e) ''telephone-event'' then Some (rm_payload_type e) else None)
      (md_rtpmap (media_of b dir)) = (if sb_include_telephone_event b then Some (sb_telephone_event_pt b) else None)"
    by (simp add: media_of_def Let_def find_map_rtpmap t)
  show "telephone_event_pt (sdp_of b dir)
      = (if sb_include_telephone_event b then Some (sb_telephone_event_pt b) else None)"
    unfolding telephone_event_pt_def a by (simp add: r e)
qed

lemma payload_in_pts:
  assumes "sb_telephone_event_pt b \<ge> 96"
  shows "payload_type_of c \<in> set (pts_of b) \<longleftrightarrow> c \<in> set (sb_codecs b)"
proof -
  have "payload_type_of c = payload_type_of x \<longleftrightarrow> c = x" for x by (cases x; cases c) simp_all
  moreover have "payload_type_of c \<noteq> sb_telephone_event_pt b" using assms by (cases c) (auto simp: word_le_nat_alt)
  ultimately show ?thesis by (simp add: pts_of_def image_iff)
qed

lemma token_literals: "token ''-''" "token ''IN''" "token ''RTP/AVP''" "value_ok ''-''" "value_ok ''rtpsip''"
  by (simp_all add: token_def value_ok_def is_ws_def is_cont_def)

lemma sdp_builder_new_ok: "builder_ok (with_direction (direction_str dir) (with_codecs cs (sdp_builder_new random ip port))) dir"
  by (simp add: builder_ok_def with_direction_def with_codecs_def sdp_builder_new_def origin_default_def token_literals
      token_addr_type token_show_ip)


section \<open>Panics\<close>

text \<open>A line that starts with a character of three or four bytes and has an equals sign next makes the parser slice
  inside the character.\<close>

lemma wide_character_panics:
  "sdp_parse random [CHR 0xE2, CHR 0x82, CHR 0xAC, CHR ''=''] = Panic"
proof -
  let ?l = "[CHR 0xE2, CHR 0x82, CHR 0xAC, CHR ''='']"
  have "lines ?l = [?l]" by (simp add: lines_def split_on_def)
  moreover have "trim ?l = ?l" by (rule trim_ends) (simp_all add: is_ws_def)
  moreover have "nth_opt ?l (char_width (hd ?l)) = Some (CHR ''='')" by (simp add: nth_opt_def char_width_def)
  moreover have "slice_from_2 ?l = Panic" by (simp add: slice_from_2_def is_cont_def)
  ultimately show ?thesis by (simp add: sdp_parse_def sdp_line_def)
qed

lemma sdp_field_no_panic: "sdp_field c v p \<noteq> Panic"
proof -
  have bind: "res_bind x f \<noteq> Panic" if "x \<noteq> Panic" "\<And>y. f y \<noteq> Panic" for x :: "'a res" and f :: "'a \<Rightarrow> 'b res"
    using that by (cases x) simp_all
  have "parse_origin v \<noteq> Panic" by (simp add: parse_origin_def Let_def)
  moreover have "parse_connection v \<noteq> Panic" by (simp add: parse_connection_def Let_def split: option.split)
  moreover have "parse_media_line v \<noteq> Panic" by (simp add: parse_media_line_def Let_def split: option.split)
  ultimately show ?thesis unfolding sdp_field_def
    by (cases "parse_origin v"; cases "parse_connection v"; cases "parse_media_line v") (auto split: if_splits)
qed

lemma ascii_lines:
  assumes "list_all (\<lambda>c. (of_char c :: nat) < 128) s" and "l \<in> set (lines s)"
  shows "list_all (\<lambda>c. (of_char c :: nat) < 128) l"
proof -
  have sp: "list_all (\<lambda>c. (of_char c :: nat) < 128) t" if "t \<in> set (split_by P s)" "list_all (\<lambda>c. (of_char c :: nat) < 128) s"
    for P t and s :: string
    using that by (induction s arbitrary: t) (auto split: if_splits list.splits)
  have "\<exists>t \<in> set (split_on (CHR 0x0A) s). l = t \<or> l = strip_cr t"
    using assms(2) unfolding lines_def Let_def
    by (auto split: if_splits dest: in_set_butlastD) (metis last_in_set split_by_nonempty split_on_def)
  then obtain t where t: "t \<in> set (split_on (CHR 0x0A) s)" "l = t \<or> l = strip_cr t" by blast
  have "list_all (\<lambda>c. (of_char c :: nat) < 128) t" using sp t(1) assms(1) by (auto simp: split_on_def)
  then show ?thesis using t(2) by (auto simp: strip_cr_def list_all_iff split: if_splits dest: in_set_butlastD)
qed

text \<open>Text in ASCII never does.\<close>

lemma ascii_never_panics:
  assumes "list_all (\<lambda>c. (of_char c :: nat) < 128) s"
  shows "sdp_parse random s \<noteq> Panic"
proof -
  have line: "sdp_line l p \<noteq> Panic" if "list_all (\<lambda>c. (of_char c :: nat) < 128) l" for l p
  proof -
    have "set (trim l) \<subseteq> set l" unfolding trim_def by (auto dest!: set_dropWhileD)
    then have "\<not> is_cont c" if "c \<in> set (trim l)" for c
      using that \<open>list_all _ l\<close> by (fastforce simp: list_all_iff is_cont_def)
    then have "slice_from_2 (trim l) \<noteq> Panic" by (auto simp: slice_from_2_def)
    then show ?thesis using sdp_field_no_panic by (cases "slice_from_2 (trim l)") (auto simp: sdp_line_def Let_def)
  qed
  have "sdp_lines ls p \<noteq> Panic" if "\<forall>l \<in> set ls. list_all (\<lambda>c. (of_char c :: nat) < 128) l" for ls p
    using that
  proof (induction ls arbitrary: p)
    case (Cons l ls)
    then show ?case using line [of l p] by (cases "sdp_line l p") auto
  qed simp
  moreover have "sdp_finish p \<noteq> Panic" for p by (simp add: sdp_finish_def Let_def)
  ultimately show ?thesis using ascii_lines [OF assms]
    by (cases "sdp_lines (lines s) (sdp_parser_new random)") (auto simp: sdp_parse_def)
qed

section \<open>Witnesses\<close>

text \<open>An offer on hold from the loopback address, and its answer over IPv6.\<close>

definition held_offer :: sdp_builder where
  "held_offer = with_direction (direction_str SendOnly) (with_codecs [Pcma] (sdp_builder_new 7 (Ip4 0x7F000001) 5004))"

lemma held_offer_ok: "builder_ok held_offer SendOnly"
  unfolding held_offer_def by (rule sdp_builder_new_ok)



end
