(* ===== verification/Nat_Turn.thy ===== *)
theory Nat_Turn
  imports Nat_Demux Rtp_Strings Rtp_Float
begin

text \<open>
  \<^verbatim>\<open>src/nat/turn/client.rs\<close>: the attributes and the message integrity of TURN requests, one
  request with its retransmissions, the client's operations and the refresh loop. A \<^verbatim>\<open>String\<close>
  sent on the wire is the list of its bytes; instants are nanoseconds. MD5, HMAC-SHA1 and CRC-32
  are those of third-party crates (\<open>turn_crypto\<close>), the random transaction identifiers are an
  argument, and the network is one: what each sending of a request meets (\<open>turn_net\<close>).
\<close>

record turn_crypto =
  tk_md5 :: "bytes \<Rightarrow> bytes"
  tk_hmac :: "bytes \<Rightarrow> bytes \<Rightarrow> bytes"
  tk_crc32 :: "bytes \<Rightarrow> u32"

section \<open>Constants\<close>

definition ALLOCATE_REQUEST :: u16 where "ALLOCATE_REQUEST = 0x0003"
definition REFRESH_REQUEST :: u16 where "REFRESH_REQUEST = 0x0004"
definition CREATE_PERMISSION_REQUEST :: u16 where "CREATE_PERMISSION_REQUEST = 0x0008"
definition CHANNEL_BIND_REQUEST :: u16 where "CHANNEL_BIND_REQUEST = 0x0009"
definition ATTR_CHANNEL_NUMBER :: u16 where "ATTR_CHANNEL_NUMBER = 0x000C"
definition ATTR_LIFETIME :: u16 where "ATTR_LIFETIME = 0x000D"
definition ATTR_XOR_PEER_ADDRESS :: u16 where "ATTR_XOR_PEER_ADDRESS = 0x0012"
definition ATTR_XOR_RELAYED_ADDRESS :: u16 where "ATTR_XOR_RELAYED_ADDRESS = 0x0016"
definition ATTR_REQUESTED_TRANSPORT :: u16 where "ATTR_REQUESTED_TRANSPORT = 0x0019"
definition ATTR_USERNAME :: u16 where "ATTR_USERNAME = 0x0006"
definition ATTR_REALM :: u16 where "ATTR_REALM = 0x0014"
definition ATTR_NONCE :: u16 where "ATTR_NONCE = 0x0015"
definition DEFAULT_LIFETIME :: u32 where "DEFAULT_LIFETIME = 600"
definition PERMISSION_LIFETIME :: u32 where "PERMISSION_LIFETIME = 300"
definition CHANNEL_BIND_LIFETIME :: u32 where "CHANNEL_BIND_LIFETIME = 600"
definition MAX_RETRIES :: nat where "MAX_RETRIES = 7"
definition INITIAL_RTO_MS :: nat where "INITIAL_RTO_MS = 500"
definition REFRESH_FRACTION :: rat where "REFRESH_FRACTION = f64_round (4/5)"

lemmas turn_attr_consts = ATTR_CHANNEL_NUMBER_def ATTR_LIFETIME_def ATTR_XOR_PEER_ADDRESS_def
  ATTR_XOR_RELAYED_ADDRESS_def ATTR_REQUESTED_TRANSPORT_def ATTR_USERNAME_def ATTR_REALM_def ATTR_NONCE_def
  ATTR_MESSAGE_INTEGRITY_def

section \<open>Attributes\<close>

definition encode_requested_transport :: "byte \<Rightarrow> bytes" where
  "encode_requested_transport protocol = [protocol, 0, 0, 0]"

definition encode_lifetime :: "u32 \<Rightarrow> bytes" where "encode_lifetime lifetime = be32 lifetime"

definition encode_channel_number :: "u16 \<Rightarrow> bytes" where
  "encode_channel_number channel = be16 channel @ [0, 0]"

definition encode_xor_address :: "sock_addr \<Rightarrow> bytes \<Rightarrow> bytes" where
  "encode_xor_address addr txn =
     (case addr of
        V4 ip port \<Rightarrow> [0, 1] @ be16 (port XOR cookie_port) @ xor_octets (be32 ip) (be32 MAGIC_COOKIE)
      | V6 ip port \<Rightarrow> [0, 2] @ be16 (port XOR cookie_port) @ xor_octets (v6_octets ip) (be32 MAGIC_COOKIE @ txn))"

definition decode_xor_address :: "bytes \<Rightarrow> bytes \<Rightarrow> sock_addr option" where
  "decode_xor_address d txn =
     (if length d < 4 then None
      else
        (let port = rd16 d 2 XOR cookie_port
         in if d ! 1 = 1 then
              (if length d < 8 then None
               else Some (V4 (of_nat (be_nat (xor_octets (take 4 (drop 4 d)) (be32 MAGIC_COOKIE)))) port))
            else if d ! 1 = 2 then
              (if length d < 20 then None
               else Some (V6 (of_nat (be_nat (xor_octets (take 16 (drop 4 d)) (be32 MAGIC_COOKIE @ txn)))) port))
            else None))"

section \<open>Requests\<close>

definition new_turn_message :: "bytes \<Rightarrow> u16 \<Rightarrow> stun_message" where
  "new_turn_message txn msg_type =
     \<lparr>sm_msg_type = msg_type, sm_transaction_id = txn, sm_attributes = []\<rparr>"

definition build_allocate_request :: "bytes \<Rightarrow> stun_message" where
  "build_allocate_request txn =
     add_attribute (new_turn_message txn ALLOCATE_REQUEST)
       (Unknown ATTR_REQUESTED_TRANSPORT (encode_requested_transport 17))"

definition build_create_permission_request :: "bytes \<Rightarrow> sock_addr \<Rightarrow> stun_message" where
  "build_create_permission_request txn peer =
     add_attribute (new_turn_message txn CREATE_PERMISSION_REQUEST)
       (Unknown ATTR_XOR_PEER_ADDRESS (encode_xor_address peer txn))"

definition build_channel_bind_request :: "bytes \<Rightarrow> sock_addr \<Rightarrow> u16 \<Rightarrow> stun_message" where
  "build_channel_bind_request txn peer channel_no =
     add_attribute
       (add_attribute (new_turn_message txn CHANNEL_BIND_REQUEST)
         (Unknown ATTR_CHANNEL_NUMBER (encode_channel_number channel_no)))
       (Unknown ATTR_XOR_PEER_ADDRESS (encode_xor_address peer txn))"

definition build_refresh_request :: "bytes \<Rightarrow> u32 \<Rightarrow> stun_message" where
  "build_refresh_request txn lifetime =
     add_attribute (new_turn_message txn REFRESH_REQUEST) (Unknown ATTR_LIFETIME (encode_lifetime lifetime))"

record turn_auth =
  ta_username :: bytes
  ta_password :: bytes
  ta_realm :: bytes
  ta_nonce :: "bytes option"

definition colon :: byte where "colon = 0x3A"

definition compute_key :: "turn_crypto \<Rightarrow> turn_auth \<Rightarrow> bytes" where
  "compute_key k a = tk_md5 k (ta_username a @ [colon] @ ta_realm a @ [colon] @ ta_password a)"

definition compute_message_integrity :: "turn_crypto \<Rightarrow> stun_message \<Rightarrow> bytes \<Rightarrow> bytes" where
  "compute_message_integrity k m key = tk_hmac k key (stun_header m (length (attr_bytes m) + 24) @ attr_bytes m)"

definition add_auth_attributes :: "turn_crypto \<Rightarrow> turn_auth \<Rightarrow> stun_message \<Rightarrow> stun_message" where
  "add_auth_attributes k a m =
     (let m1 = add_attribute m (Unknown ATTR_USERNAME (ta_username a));
          m2 = add_attribute m1 (Unknown ATTR_REALM (ta_realm a));
          m3 = (case ta_nonce a of Some nonce \<Rightarrow> add_attribute m2 (Unknown ATTR_NONCE nonce) | None \<Rightarrow> m2)
      in add_attribute m3 (Unknown ATTR_MESSAGE_INTEGRITY (compute_message_integrity k m3 (compute_key k a))))"

section \<open>Responses\<close>

definition unknown_attr :: "u16 \<Rightarrow> stun_attribute \<Rightarrow> bytes option" where
  "unknown_attr ty a = (case a of Unknown t d \<Rightarrow> if t = ty then Some d else None | _ \<Rightarrow> None)"

definition last_some :: "('a \<Rightarrow> 'b option) \<Rightarrow> 'a list \<Rightarrow> 'b option" where
  "last_some f xs = first_some f (rev xs)"

definition extract_auth_challenge :: "stun_message \<Rightarrow> (bytes \<times> bytes) res" where
  "extract_auth_challenge m =
     (let realm = map_option utf8_lossy (last_some (unknown_attr ATTR_REALM) (sm_attributes m));
          nonce = map_option utf8_lossy (last_some (unknown_attr ATTR_NONCE) (sm_attributes m))
      in case (realm, nonce) of
           (Some r, Some n) \<Rightarrow> Ok (r, n)
         | (None, _) \<Rightarrow> Err (Auth ''401 response missing REALM attribute'')
         | (Some _, None) \<Rightarrow> Err (Auth ''401 response missing NONCE attribute''))"

definition extract_nonce :: "stun_message \<Rightarrow> bytes option" where
  "extract_nonce m = map_option utf8_lossy (first_some (unknown_attr ATTR_NONCE) (sm_attributes m))"

definition find_xor_relayed_address :: "stun_message \<Rightarrow> sock_addr option" where
  "find_xor_relayed_address m =
     (case first_some (unknown_attr ATTR_XOR_RELAYED_ADDRESS) (sm_attributes m) of
        Some d \<Rightarrow> decode_xor_address d (sm_transaction_id m)
      | None \<Rightarrow> None)"

definition parse_lifetime :: "stun_message \<Rightarrow> u32 option" where
  "parse_lifetime m =
     first_some (\<lambda>a. case unknown_attr ATTR_LIFETIME a of
         Some d \<Rightarrow> if length d \<ge> 4 then Some (rd32 d 0) else None | None \<Rightarrow> None) (sm_attributes m)"

record turn_allocation =
  al_relayed_addr :: sock_addr
  al_mapped_addr :: sock_addr
  al_lifetime :: u32

definition lifetime_or_default :: "stun_message \<Rightarrow> u32" where
  "lifetime_or_default m = (case parse_lifetime m of Some l \<Rightarrow> l | None \<Rightarrow> DEFAULT_LIFETIME)"

definition parse_allocate_success :: "stun_message \<Rightarrow> turn_allocation res" where
  "parse_allocate_success m =
     (case find_xor_relayed_address m of
        None \<Rightarrow> Err (Sip ''Allocate response missing XOR-RELAYED-ADDRESS'')
      | Some relayed \<Rightarrow>
          (case (case xor_mapped_address m of Some a \<Rightarrow> Some a | None \<Rightarrow> mapped_address m) of
             None \<Rightarrow> Err (Sip ''Allocate response missing XOR-MAPPED-ADDRESS'')
           | Some mapped \<Rightarrow>
               Ok \<lparr>al_relayed_addr = relayed, al_mapped_addr = mapped, al_lifetime = lifetime_or_default m\<rparr>))"

definition turn_error_description :: "u16 \<Rightarrow> string" where
  "turn_error_description code =
     (if code = 400 then ''Bad Request''
      else if code = 401 then ''Unauthorized''
      else if code = 403 then ''Forbidden (credentials valid but operation not permitted)''
      else if code = 420 then ''Unknown Attribute''
      else if code = 437 then ''Allocation Mismatch (5-tuple already has an allocation)''
      else if code = 438 then ''Stale Nonce''
      else if code = 441 then ''Wrong Credentials''
      else if code = 442 then ''Unsupported Transport Protocol (server does not support requested transport)''
      else if code = 486 then ''Allocation Quota Reached (too many allocations for this user)''
      else if code = 508 then ''Insufficient Capacity (server is overloaded)''
      else ''Unknown error'')"

section \<open>Response integrity\<close>

text \<open>The offset of the MESSAGE-INTEGRITY attribute in the received bytes.\<close>

function find_integrity :: "bytes \<Rightarrow> nat \<Rightarrow> nat \<Rightarrow> nat option" where
  "find_integrity d stop off =
     (if off + 4 \<le> stop then
        (if rd16 d off = ATTR_MESSAGE_INTEGRITY then Some off
         else find_integrity d stop (off + (4 + pad4 (unat (rd16 d (off + 2))))))
      else None)"
  by pat_completeness auto
termination by (relation "measure (\<lambda>(d, stop, off). Suc stop - off)") auto

declare find_integrity.simps [simp del]

definition verify_response_integrity ::
  "turn_crypto \<Rightarrow> bytes \<Rightarrow> stun_message \<Rightarrow> bytes option \<Rightarrow> (string, unit) outcome" where
  "verify_response_integrity k raw response key =
     (case first_some (unknown_attr ATTR_MESSAGE_INTEGRITY) (sm_attributes response) of
        None \<Rightarrow> Ok ()
      | Some mi \<Rightarrow>
          if length mi \<noteq> 20
          then Err (''MESSAGE-INTEGRITY has invalid length '' @ show_nat (length mi) @ '' (expected 20)'')
          else
            (let msg_len = unat (rd16 raw 2); stop = HEADER_SIZE + msg_len
             in if stop > length raw
                then Err (''STUN message length '' @ show_nat msg_len @ '' exceeds buffer size '' @ show_nat (length raw))
                else
                  (case find_integrity raw stop HEADER_SIZE of
                     None \<Rightarrow> Err ''MESSAGE-INTEGRITY found in parsed attributes but not in raw bytes''
                   | Some off \<Rightarrow>
                       (let len_bytes = be16 (of_nat (off - HEADER_SIZE + 24));
                            buf = (take off raw)[2 := len_bytes ! 0, 3 := len_bytes ! 1]
                        in case key of
                             Some ky \<Rightarrow>
                               if tk_hmac k ky buf \<noteq> mi
                               then Err ''MESSAGE-INTEGRITY HMAC-SHA1 mismatch: response may be tampered or credentials differ''
                               else Ok ()
                           | None \<Rightarrow> Err ''MESSAGE-INTEGRITY present but no key for verification''))))"

section \<open>One request\<close>

text \<open>What arrives while an attempt waits: a datagram with its source, or an error of the socket.
  The receive buffer holds 1500 bytes.\<close>

datatype arrival = Datagram bytes sock_addr | RecvError string

fun await_response ::
  "turn_crypto \<Rightarrow> sock_addr \<Rightarrow> bytes \<Rightarrow> bytes option \<Rightarrow> arrival list \<Rightarrow> stun_message res option" where
  "await_response k server txn key [] = None"
| "await_response k server txn key (RecvError e # _) = Some (Err (Io e))"
| "await_response k server txn key (Datagram data from # rest) =
     (if from \<noteq> server then await_response k server txn key rest
      else
        (let raw = take 1500 data
         in case unmarshal (tk_crc32 k) raw of
              Ok response \<Rightarrow>
                if sm_transaction_id response = txn then
                  (case verify_response_integrity k raw response key of
                     Ok _ \<Rightarrow> Some (Ok response)
                   | _ \<Rightarrow> await_response k server txn key rest)
                else await_response k server txn key rest
            | _ \<Rightarrow> await_response k server txn key rest))"

text \<open>An attempt of a request: whether the sending fails, and what arrives before its deadline.\<close>

type_synonym turn_net = "nat \<Rightarrow> string option \<times> arrival list"

definition attempt_timeout_ms :: "nat \<Rightarrow> nat" where
  "attempt_timeout_ms attempt =
     (let rto = INITIAL_RTO_MS * 2 ^ attempt
      in if attempt < MAX_RETRIES then rto else min rto (INITIAL_RTO_MS * 16))"

text \<open>The request goes out again at each attempt; the outcome is the datagrams sent to the server and the
  result.\<close>

fun send_attempts ::
  "turn_crypto \<Rightarrow> sock_addr \<Rightarrow> bytes \<Rightarrow> bytes \<Rightarrow> bytes option \<Rightarrow> turn_net \<Rightarrow> nat \<Rightarrow> nat \<Rightarrow> bytes list \<times> stun_message res" where
  "send_attempts k server data txn key net attempt 0 =
     ([], Err (Timeout ''TURN transaction timed out after max retries''))"
| "send_attempts k server data txn key net attempt (Suc left) =
     (case fst (net attempt) of
        Some e \<Rightarrow> ([], Err (Io e))
      | None \<Rightarrow>
          (case await_response k server txn key (snd (net attempt)) of
             Some r \<Rightarrow> ([data], r)
           | None \<Rightarrow>
               (let (sent, r) = send_attempts k server data txn key net (attempt + 1) left in (data # sent, r))))"

definition send_request ::
  "turn_crypto \<Rightarrow> sock_addr \<Rightarrow> stun_message \<Rightarrow> bytes option \<Rightarrow> turn_net \<Rightarrow> bytes list \<times> stun_message res" where
  "send_request k server request key net =
     send_attempts k server (marshal (tk_crc32 k) request) (sm_transaction_id request) key net 0 (MAX_RETRIES + 1)"

end
