(* ===== verification/Nat_Turn_Client.thy ===== *)
theory Nat_Turn_Client
  imports Nat_Turn
begin

text \<open>
  \<^verbatim>\<open>TurnClient\<close> of \<^verbatim>\<open>src/nat/turn/client.rs\<close>: its operations and one iteration of its
  background refresh loop. The transaction identifier and the network of the \<open>i\<close>-th request of an
  operation are \<open>txn i\<close> and \<open>nets i\<close>. The code's operations and its loop interleave where they wait
  for the network; here an operation, and each half of an iteration, runs to its end.
\<close>

datatype turn_state = TurnInit | TurnAllocating | TurnAllocated | TurnChannelBound | TurnExpired

fun show_turn_state :: "turn_state \<Rightarrow> string" where
  "show_turn_state TurnInit = ''Init''"
| "show_turn_state TurnAllocating = ''Allocating''"
| "show_turn_state TurnAllocated = ''Allocated''"
| "show_turn_state TurnChannelBound = ''ChannelBound''"
| "show_turn_state TurnExpired = ''Expired''"

record tracked_permission =
  tp_peer_addr :: sock_addr
  tp_created :: nat

record tracked_binding =
  tb_peer_addr :: sock_addr
  tb_channel :: u16
  tb_created :: nat

record turn_client =
  tc_server :: sock_addr
  tc_auth :: turn_auth
  tc_state :: turn_state
  tc_allocation :: "turn_allocation option"
  tc_loop_running :: bool
  tc_permissions :: "tracked_permission list"
  tc_channel_bindings :: "tracked_binding list"

definition turn_client_new :: "sock_addr \<Rightarrow> bytes \<Rightarrow> bytes \<Rightarrow> bytes \<Rightarrow> turn_client" where
  "turn_client_new server username password realm =
     \<lparr>tc_server = server,
      tc_auth = \<lparr>ta_username = username, ta_password = password, ta_realm = realm, ta_nonce = None\<rparr>,
      tc_state = TurnInit, tc_allocation = None, tc_loop_running = False, tc_permissions = [],
      tc_channel_bindings = []\<rparr>"

definition is_allocated :: "turn_client \<Rightarrow> bool" where
  "is_allocated c = (tc_state c = TurnAllocated \<or> tc_state c = TurnChannelBound)"

definition turn_send :: "turn_crypto \<Rightarrow> turn_client \<Rightarrow> stun_message \<Rightarrow> turn_net \<Rightarrow> stun_message res" where
  "turn_send k c request net =
     snd (send_request k (tc_server c) request (Some (compute_key k (tc_auth c))) net)"

definition turn_send_auth :: "turn_crypto \<Rightarrow> turn_client \<Rightarrow> stun_message \<Rightarrow> turn_net \<Rightarrow> stun_message res" where
  "turn_send_auth k c request net = turn_send k c (add_auth_attributes k (tc_auth c) request) net"

definition code_of :: "stun_message \<Rightarrow> u16" where
  "code_of m = (case stun_error_code m of Some c \<Rightarrow> c | None \<Rightarrow> 0)"

definition show_code :: "u16 \<Rightarrow> string" where "show_code c = show_nat (unat c)"

definition set_nonce :: "bytes \<Rightarrow> turn_client \<Rightarrow> turn_client" where
  "set_nonce n c = c\<lparr>tc_auth := (tc_auth c)\<lparr>ta_nonce := Some n\<rparr>\<rparr>"

definition ensure_allocated :: "turn_client \<Rightarrow> unit res" where
  "ensure_allocated c =
     (if is_allocated c then Ok ()
      else Err (InvalidState (''TURN client is in state '' @ [CHR 0x27] @ show_turn_state (tc_state c) @ [CHR 0x27]
             @ '', expected Allocated or ChannelBound'')))"

section \<open>Allocation\<close>

definition finish_allocate :: "turn_client \<Rightarrow> stun_message \<Rightarrow> turn_client \<times> turn_allocation res" where
  "finish_allocate c response =
     (case parse_allocate_success response of
        Ok alloc \<Rightarrow> (c\<lparr>tc_allocation := Some alloc, tc_state := TurnAllocated\<rparr>, Ok alloc)
      | Err e \<Rightarrow> (c, Err e)
      | Panic \<Rightarrow> (c, Panic))"

definition back_to_init :: "turn_client \<Rightarrow> turn_client" where "back_to_init c = c\<lparr>tc_state := TurnInit\<rparr>"

definition allocate_stale :: "turn_crypto \<Rightarrow> (nat \<Rightarrow> bytes) \<Rightarrow> (nat \<Rightarrow> turn_net) \<Rightarrow> turn_client \<Rightarrow> stun_message
    \<Rightarrow> turn_client \<times> turn_allocation res" where
  "allocate_stale k txn nets c auth_response =
     (case extract_nonce auth_response of
        None \<Rightarrow> (back_to_init c, Err (Auth ''TURN Allocate 438 Stale Nonce but no NONCE in response''))
      | Some new_nonce \<Rightarrow>
          (let c' = set_nonce new_nonce c
           in case turn_send_auth k c' (build_allocate_request (txn 2)) (nets 2) of
                Err e \<Rightarrow> (back_to_init c', Err e)
              | Panic \<Rightarrow> (c', Panic)
              | Ok retry \<Rightarrow>
                  if is_error retry
                  then (back_to_init c', Err (Auth (''TURN Allocate failed with error '' @ show_code (code_of retry)
                          @ '' after stale nonce retry'')))
                  else finish_allocate c' retry))"

definition allocate_authenticated :: "turn_crypto \<Rightarrow> (nat \<Rightarrow> bytes) \<Rightarrow> (nat \<Rightarrow> turn_net) \<Rightarrow> turn_client
    \<Rightarrow> turn_client \<times> turn_allocation res" where
  "allocate_authenticated k txn nets c =
     (case turn_send_auth k c (build_allocate_request (txn 1)) (nets 1) of
        Err e \<Rightarrow> (back_to_init c, Err e)
      | Panic \<Rightarrow> (c, Panic)
      | Ok auth_response \<Rightarrow>
          if is_error auth_response then
            (let code = code_of auth_response
             in if code = 438 then allocate_stale k txn nets c auth_response
                else (back_to_init c, Err (Auth (''TURN Allocate failed with error '' @ show_code code @ '': ''
                        @ turn_error_description code))))
          else finish_allocate c auth_response)"

definition turn_allocate :: "turn_crypto \<Rightarrow> (nat \<Rightarrow> bytes) \<Rightarrow> (nat \<Rightarrow> turn_net) \<Rightarrow> turn_client
    \<Rightarrow> turn_client \<times> turn_allocation res" where
  "turn_allocate k txn nets c =
     (if is_allocated c then (c, Err (InvalidState ''already allocated; refresh or deallocate first''))
      else
        (let c1 = c\<lparr>tc_state := TurnAllocating\<rparr>
         in case turn_send k c1 (build_allocate_request (txn 0)) (nets 0) of
              Err e \<Rightarrow> (back_to_init c1, Err e)
            | Panic \<Rightarrow> (c1, Panic)
            | Ok response \<Rightarrow>
                if is_error response then
                  (if stun_error_code response = Some 401 then
                     (case extract_auth_challenge response of
                        Err e \<Rightarrow> (c1, Err e)
                      | Panic \<Rightarrow> (c1, Panic)
                      | Ok (realm, nonce) \<Rightarrow>
                          allocate_authenticated k txn nets
                            (c1\<lparr>tc_auth := (tc_auth c1)\<lparr>ta_realm := realm, ta_nonce := Some nonce\<rparr>\<rparr>))
                   else (back_to_init c1, Err (Sip (''TURN Allocate failed with error '' @ show_code (code_of response)
                           @ '': '' @ turn_error_description (code_of response)))))
                else finish_allocate c1 response))"

section \<open>Permissions and channels\<close>

fun track_permission :: "sock_addr \<Rightarrow> nat \<Rightarrow> tracked_permission list \<Rightarrow> tracked_permission list" where
  "track_permission peer now [] = [\<lparr>tp_peer_addr = peer, tp_created = now\<rparr>]"
| "track_permission peer now (p # ps) =
     (if tp_peer_addr p = peer then p\<lparr>tp_created := now\<rparr> # ps else p # track_permission peer now ps)"

definition create_permission :: "turn_crypto \<Rightarrow> (nat \<Rightarrow> bytes) \<Rightarrow> (nat \<Rightarrow> turn_net) \<Rightarrow> nat \<Rightarrow> sock_addr \<Rightarrow> turn_client
    \<Rightarrow> turn_client \<times> unit res" where
  "create_permission k txn nets now peer c =
     (case ensure_allocated c of
        Ok _ \<Rightarrow>
          (case turn_send_auth k c (build_create_permission_request (txn 0) peer) (nets 0) of
             Err e \<Rightarrow> (c, Err e)
           | Panic \<Rightarrow> (c, Panic)
           | Ok response \<Rightarrow>
               if is_error response
               then (c, Err (Sip (''TURN CreatePermission failed with error '' @ show_code (code_of response) @ '': ''
                       @ turn_error_description (code_of response))))
               else (c\<lparr>tc_permissions := track_permission peer now (tc_permissions c)\<rparr>, Ok ()))
      | r \<Rightarrow> (c, r))"

fun track_binding :: "sock_addr \<Rightarrow> u16 \<Rightarrow> nat \<Rightarrow> tracked_binding list \<Rightarrow> tracked_binding list" where
  "track_binding peer ch now [] = [\<lparr>tb_peer_addr = peer, tb_channel = ch, tb_created = now\<rparr>]"
| "track_binding peer ch now (b # bs) =
     (if tb_channel b = ch then b\<lparr>tb_peer_addr := peer, tb_created := now\<rparr> # bs else b # track_binding peer ch now bs)"

definition hex_upper :: "nat \<Rightarrow> char" where
  "hex_upper n = (if n < 10 then digit_char n else char_of (55 + n))"

definition show_hex4 :: "u16 \<Rightarrow> string" where
  "show_hex4 w = map (\<lambda>i. hex_upper (unat w div 16 ^ i mod 16)) [3, 2, 1, 0]"

definition channel_bind :: "turn_crypto \<Rightarrow> (nat \<Rightarrow> bytes) \<Rightarrow> (nat \<Rightarrow> turn_net) \<Rightarrow> nat \<Rightarrow> sock_addr \<Rightarrow> u16 \<Rightarrow> turn_client
    \<Rightarrow> turn_client \<times> unit res" where
  "channel_bind k txn nets now peer ch c =
     (case ensure_allocated c of
        Ok _ \<Rightarrow>
          if \<not> is_valid_channel ch
          then (c, Err (Config (''invalid TURN channel number 0x'' @ show_hex4 ch @ '' (must be 0x4000-0x7FFE)'')))
          else
            (case turn_send_auth k c (build_channel_bind_request (txn 0) peer ch) (nets 0) of
               Err e \<Rightarrow> (c, Err e)
             | Panic \<Rightarrow> (c, Panic)
             | Ok response \<Rightarrow>
                 if is_error response
                 then (c, Err (Sip (''TURN ChannelBind failed with error '' @ show_code (code_of response) @ '': ''
                         @ turn_error_description (code_of response))))
                 else (c\<lparr>tc_state := TurnChannelBound,
                         tc_channel_bindings := track_binding peer ch now (tc_channel_bindings c)\<rparr>, Ok ()))
      | r \<Rightarrow> (c, r))"

section \<open>Refresh and release\<close>

definition set_lifetime :: "u32 \<Rightarrow> turn_client \<Rightarrow> turn_client" where
  "set_lifetime l c = c\<lparr>tc_allocation := map_option (\<lambda>a. a\<lparr>al_lifetime := l\<rparr>) (tc_allocation c)\<rparr>"

definition current_lifetime :: "turn_client \<Rightarrow> u32" where
  "current_lifetime c = (case tc_allocation c of Some a \<Rightarrow> al_lifetime a | None \<Rightarrow> DEFAULT_LIFETIME)"

definition turn_refresh :: "turn_crypto \<Rightarrow> (nat \<Rightarrow> bytes) \<Rightarrow> (nat \<Rightarrow> turn_net) \<Rightarrow> turn_client \<Rightarrow> turn_client \<times> u32 res" where
  "turn_refresh k txn nets c =
     (case ensure_allocated c of
        Ok _ \<Rightarrow>
          (let lifetime = current_lifetime c
           in case turn_send_auth k c (build_refresh_request (txn 0) lifetime) (nets 0) of
                Err e \<Rightarrow> (c, Err e)
              | Panic \<Rightarrow> (c, Panic)
              | Ok response \<Rightarrow>
                  if is_error response then
                    (if code_of response = 438 then
                       (case extract_nonce response of
                          None \<Rightarrow> (c, Err (Sip ''TURN Refresh 438 Stale Nonce but no NONCE in response''))
                        | Some new_nonce \<Rightarrow>
                            (let c' = set_nonce new_nonce c
                             in case turn_send_auth k c' (build_refresh_request (txn 1) lifetime) (nets 1) of
                                  Err e \<Rightarrow> (c', Err e)
                                | Panic \<Rightarrow> (c', Panic)
                                | Ok retry \<Rightarrow>
                                    if is_error retry
                                    then (c', Err (Sip (''TURN Refresh failed with error '' @ show_code (code_of retry)
                                            @ '' after stale nonce retry'')))
                                    else (set_lifetime (lifetime_or_default retry) c', Ok (lifetime_or_default retry))))
                     else (c, Err (Sip (''TURN Refresh failed with error '' @ show_code (code_of response)))))
                  else (set_lifetime (lifetime_or_default response) c, Ok (lifetime_or_default response)))
      | Err e \<Rightarrow> (c, Err e)
      | Panic \<Rightarrow> (c, Panic))"

definition stop_refresh_loop :: "turn_client \<Rightarrow> turn_client" where
  "stop_refresh_loop c = c\<lparr>tc_loop_running := False\<rparr>"

definition turn_deallocate :: "turn_crypto \<Rightarrow> (nat \<Rightarrow> bytes) \<Rightarrow> (nat \<Rightarrow> turn_net) \<Rightarrow> turn_client \<Rightarrow> turn_client \<times> unit res" where
  "turn_deallocate k txn nets c =
     (case ensure_allocated c of
        Ok _ \<Rightarrow>
          (let c' = stop_refresh_loop c
           in case turn_send_auth k c' (build_refresh_request (txn 0) 0) (nets 0) of
                Err e \<Rightarrow> (c', Err e)
              | Panic \<Rightarrow> (c', Panic)
              | Ok response \<Rightarrow>
                  if is_error response
                  then (c', Err (Sip (''TURN Deallocate (Refresh lifetime=0) failed with error ''
                          @ show_code (code_of response))))
                  else (c'\<lparr>tc_allocation := None, tc_state := TurnExpired\<rparr>, Ok ()))
      | r \<Rightarrow> (c, r))"

section \<open>The refresh loop\<close>

text \<open>An iteration counts its requests, each of which takes some time (\<open>took i\<close>), and knows the instant of
  the next refresh of the allocation.\<close>

record turn_loop =
  tl_client :: turn_client
  tl_auth :: turn_auth
  tl_now :: nat
  tl_next_alloc_refresh :: nat
  tl_requests :: nat
  tl_running :: bool

definition SECOND :: nat where "SECOND = 1000000000"

definition refresh_secs :: "u32 \<Rightarrow> nat" where
  "refresh_secs lifetime = nat \<lfloor>f64_mul (f64_of_int (int (unat lifetime))) REFRESH_FRACTION\<rfloor>"

definition refresh_delay :: "u32 \<Rightarrow> nat" where
  "refresh_delay lifetime = max (refresh_secs lifetime) 1 * SECOND"

definition loop_send :: "turn_crypto \<Rightarrow> (nat \<Rightarrow> turn_net) \<Rightarrow> (nat \<Rightarrow> nat) \<Rightarrow> turn_auth \<Rightarrow> stun_message \<Rightarrow> turn_loop
    \<Rightarrow> turn_loop \<times> stun_message res" where
  "loop_send k nets took auth request l =
     (l\<lparr>tl_now := tl_now l + took (tl_requests l), tl_requests := tl_requests l + 1\<rparr>,
      snd (send_request k (tc_server (tl_client l)) (add_auth_attributes k auth request) (Some (compute_key k auth))
             (nets (tl_requests l))))"

text \<open>A request of the loop under the credentials read at the start of the iteration, sent once more with
  the new nonce when the server finds the nonce stale. The value is the response of a success.\<close>

definition loop_exchange :: "turn_crypto \<Rightarrow> (nat \<Rightarrow> bytes) \<Rightarrow> (nat \<Rightarrow> turn_net) \<Rightarrow> (nat \<Rightarrow> nat) \<Rightarrow> turn_auth
    \<Rightarrow> (bytes \<Rightarrow> stun_message) \<Rightarrow> turn_loop \<Rightarrow> turn_loop \<times> stun_message option" where
  "loop_exchange k txn nets took auth build l =
     (case loop_send k nets took auth (build (txn (tl_requests l))) l of
        (l1, Ok response) \<Rightarrow>
          if is_success response then (l1, Some response)
          else if code_of response = 438 then
            (case extract_nonce response of
               None \<Rightarrow> (l1, None)
             | Some new_nonce \<Rightarrow>
                 (let l2 = l1\<lparr>tl_client := set_nonce new_nonce (tl_client l1)\<rparr>
                  in case loop_send k nets took (auth\<lparr>ta_nonce := Some new_nonce\<rparr>) (build (txn (tl_requests l2))) l2 of
                       (l3, Ok retry) \<Rightarrow> (l3, if is_success retry then Some retry else None)
                     | (l3, _) \<Rightarrow> (l3, None)))
          else (l1, None)
      | (l1, _) \<Rightarrow> (l1, None))"

definition loop_refresh_allocation :: "turn_crypto \<Rightarrow> (nat \<Rightarrow> bytes) \<Rightarrow> (nat \<Rightarrow> turn_net) \<Rightarrow> (nat \<Rightarrow> nat) \<Rightarrow> turn_auth
    \<Rightarrow> turn_loop \<Rightarrow> turn_loop" where
  "loop_refresh_allocation k txn nets took auth l =
     (let lifetime = current_lifetime (tl_client l)
      in case loop_exchange k txn nets took auth (\<lambda>t. build_refresh_request t lifetime) l of
           (l1, Some response) \<Rightarrow>
             (let new_lifetime = lifetime_or_default response
              in l1\<lparr>tl_client := set_lifetime new_lifetime (tl_client l1),
                    tl_next_alloc_refresh := tl_now l1 + refresh_delay new_lifetime\<rparr>)
         | (l1, None) \<Rightarrow> l1\<lparr>tl_client := (tl_client l1)\<lparr>tc_state := TurnExpired\<rparr>, tl_running := False\<rparr>)"

fun touch_permission :: "sock_addr \<Rightarrow> nat \<Rightarrow> tracked_permission list \<Rightarrow> tracked_permission list" where
  "touch_permission peer now [] = []"
| "touch_permission peer now (p # ps) =
     (if tp_peer_addr p = peer then p\<lparr>tp_created := now\<rparr> # ps else p # touch_permission peer now ps)"

definition loop_refresh_permission :: "turn_crypto \<Rightarrow> (nat \<Rightarrow> bytes) \<Rightarrow> (nat \<Rightarrow> turn_net) \<Rightarrow> (nat \<Rightarrow> nat) \<Rightarrow> turn_auth
    \<Rightarrow> sock_addr \<Rightarrow> turn_loop \<Rightarrow> turn_loop" where
  "loop_refresh_permission k txn nets took auth peer l =
     (case loop_exchange k txn nets took auth (\<lambda>t. build_create_permission_request t peer) l of
        (l1, Some _) \<Rightarrow>
          l1\<lparr>tl_client := (tl_client l1)\<lparr>tc_permissions := touch_permission peer (tl_now l1) (tc_permissions (tl_client l1))\<rparr>\<rparr>
      | (l1, None) \<Rightarrow> l1)"

fun touch_binding :: "u16 \<Rightarrow> nat \<Rightarrow> tracked_binding list \<Rightarrow> tracked_binding list" where
  "touch_binding ch now [] = []"
| "touch_binding ch now (b # bs) =
     (if tb_channel b = ch then b\<lparr>tb_created := now\<rparr> # bs else b # touch_binding ch now bs)"

definition loop_refresh_binding :: "turn_crypto \<Rightarrow> (nat \<Rightarrow> bytes) \<Rightarrow> (nat \<Rightarrow> turn_net) \<Rightarrow> (nat \<Rightarrow> nat) \<Rightarrow> turn_auth
    \<Rightarrow> sock_addr \<times> u16 \<Rightarrow> turn_loop \<Rightarrow> turn_loop" where
  "loop_refresh_binding k txn nets took auth pb l =
     (case loop_exchange k txn nets took auth (\<lambda>t. build_channel_bind_request t (fst pb) (snd pb)) l of
        (l1, Some _) \<Rightarrow>
          l1\<lparr>tl_client := (tl_client l1)\<lparr>tc_channel_bindings :=
                touch_binding (snd pb) (tl_now l1) (tc_channel_bindings (tl_client l1))\<rparr>\<rparr>
      | (l1, None) \<Rightarrow> l1)"

definition permissions_due :: "nat \<Rightarrow> tracked_permission list \<Rightarrow> sock_addr list" where
  "permissions_due now ps =
     map tp_peer_addr (filter (\<lambda>p. now - tp_created p \<ge> refresh_secs PERMISSION_LIFETIME * SECOND) ps)"

definition bindings_due :: "nat \<Rightarrow> tracked_binding list \<Rightarrow> (sock_addr \<times> u16) list" where
  "bindings_due now bs =
     map (\<lambda>b. (tb_peer_addr b, tb_channel b))
       (filter (\<lambda>b. now - tb_created b \<ge> refresh_secs CHANNEL_BIND_LIFETIME * SECOND) bs)"

definition loop_refresh_tracked :: "turn_crypto \<Rightarrow> (nat \<Rightarrow> bytes) \<Rightarrow> (nat \<Rightarrow> turn_net) \<Rightarrow> (nat \<Rightarrow> nat) \<Rightarrow> turn_auth
    \<Rightarrow> turn_loop \<Rightarrow> turn_loop" where
  "loop_refresh_tracked k txn nets took auth l =
     (let l1 = foldl (\<lambda>l peer. loop_refresh_permission k txn nets took auth peer l) l
                 (permissions_due (tl_now l) (tc_permissions (tl_client l)))
      in foldl (\<lambda>l pb. loop_refresh_binding k txn nets took auth pb l) l1
           (bindings_due (tl_now l1) (tc_channel_bindings (tl_client l1))))"

text \<open>An iteration reads the credentials and goes to sleep, for \<open>late\<close> longer than asked for; the client's
  operations may run meanwhile. What it does when it wakes rests on the credentials it read before.\<close>

definition loop_sleep :: "nat \<Rightarrow> turn_loop \<Rightarrow> turn_loop" where
  "loop_sleep late l =
     (case tc_allocation (tl_client l) of
        None \<Rightarrow> l\<lparr>tl_running := False\<rparr>
      | Some a \<Rightarrow>
          (let next = (if tl_next_alloc_refresh l \<le> tl_now l then tl_now l + refresh_delay (al_lifetime a)
                       else tl_next_alloc_refresh l)
           in l\<lparr>tl_auth := tc_auth (tl_client l), tl_next_alloc_refresh := next,
                tl_now := tl_now l + min (30 * SECOND) (next - tl_now l) + late\<rparr>))"

definition loop_wake :: "turn_crypto \<Rightarrow> (nat \<Rightarrow> bytes) \<Rightarrow> (nat \<Rightarrow> turn_net) \<Rightarrow> (nat \<Rightarrow> nat) \<Rightarrow> turn_loop \<Rightarrow> turn_loop" where
  "loop_wake k txn nets took l =
     (if \<not> is_allocated (tl_client l) then l\<lparr>tl_running := False\<rparr>
      else
        (let l1 = (if tl_now l \<ge> tl_next_alloc_refresh l
                   then loop_refresh_allocation k txn nets took (tl_auth l) l else l)
         in if \<not> tl_running l1 then l1 else loop_refresh_tracked k txn nets took (tl_auth l) l1))"

definition loop_start :: "nat \<Rightarrow> turn_client \<Rightarrow> turn_loop" where
  "loop_start now c =
     \<lparr>tl_client = c\<lparr>tc_loop_running := True\<rparr>, tl_auth = tc_auth c, tl_now = now, tl_next_alloc_refresh = now,
      tl_requests = 0, tl_running = True\<rparr>"

section \<open>The client and its loop\<close>

text \<open>The operations of the client, and the two halves of an iteration of the loop. A loop that has been stopped or has
  come to its end does not go on.\<close>

datatype turn_op =
    DoAllocate
  | DoPermission sock_addr
  | DoBind sock_addr u16
  | DoRefresh
  | DoDeallocate
  | DoStop
  | LoopSleep nat
  | LoopWake "nat \<Rightarrow> nat"

definition on_client :: "(turn_client \<Rightarrow> turn_client \<times> 'a) \<Rightarrow> turn_loop \<Rightarrow> turn_loop" where
  "on_client f l = l\<lparr>tl_client := fst (f (tl_client l))\<rparr>"

definition loop_alive :: "turn_loop \<Rightarrow> bool" where
  "loop_alive l = (tl_running l \<and> tc_loop_running (tl_client l))"

fun turn_do :: "turn_crypto \<Rightarrow> (nat \<Rightarrow> bytes) \<Rightarrow> (nat \<Rightarrow> turn_net) \<Rightarrow> turn_op \<Rightarrow> turn_loop \<Rightarrow> turn_loop" where
  "turn_do k txn nets DoAllocate l = on_client (turn_allocate k txn nets) l"
| "turn_do k txn nets (DoPermission peer) l = on_client (create_permission k txn nets (tl_now l) peer) l"
| "turn_do k txn nets (DoBind peer ch) l = on_client (channel_bind k txn nets (tl_now l) peer ch) l"
| "turn_do k txn nets DoRefresh l = on_client (turn_refresh k txn nets) l"
| "turn_do k txn nets DoDeallocate l = on_client (turn_deallocate k txn nets) l"
| "turn_do k txn nets DoStop l = on_client (\<lambda>c. (stop_refresh_loop c, ())) l"
| "turn_do k txn nets (LoopSleep late) l = (if loop_alive l then loop_sleep late l else l)"
| "turn_do k txn nets (LoopWake took) l = (if loop_alive l then loop_wake k txn nets took l else l)"

text \<open>Every operation of a run has transaction identifiers and a network of its own.\<close>

fun turn_run :: "turn_crypto \<Rightarrow> (turn_op \<times> (nat \<Rightarrow> bytes) \<times> (nat \<Rightarrow> turn_net)) list \<Rightarrow> turn_loop \<Rightarrow> turn_loop" where
  "turn_run k [] l = l"
| "turn_run k ((op, txn, nets) # ops) l = turn_run k ops (turn_do k txn nets op l)"

end
