(* ===== verification/Nat_Turn_Props.thy ===== *)
theory Nat_Turn_Props
  imports Nat_Turn_Client
begin

text \<open>
  TURN requests verify under the check the client applies to responses; a response is only
  accepted from the server, for the request, and under its integrity; what the client tracks stays
  well formed over any operations; and when the refresh loop runs late.
\<close>

section \<open>Message integrity\<close>

lemma first_some_append: "first_some f (xs @ ys) = (case first_some f xs of Some y \<Rightarrow> Some y | None \<Rightarrow> first_some f ys)"
  by (induction xs) (simp_all split: option.split)

lemma find_integrity_skip:
  assumes "length v < 65536" and "ty \<noteq> ATTR_MESSAGE_INTEGRITY" and "length pre + 4 + pad4 (length v) \<le> stop"
  shows "find_integrity (pre @ padded ty v @ post) stop (length pre)
    = find_integrity (pre @ padded ty v @ post) stop (length (pre @ padded ty v))"
proof -
  let ?d = "pre @ padded ty v @ post"
  have ty: "rd16 ?d (length pre) = ty" unfolding padded_def by (simp add: rd16_at)
  have "rd16 ((pre @ be16 ty) @ be16 (of_nat (length v)) @ v @ replicate (pad4 (length v) - length v) 0 @ post)
      (length pre + 2) = of_nat (length v)"
    by (rule rd16_at) simp
  then have len: "unat (rd16 ?d (length pre + 2)) = length v" using assms(1) by (simp add: padded_def unat_of_nat)
  show ?thesis
    apply (subst find_integrity.simps)
    apply (simp only: ty len)
    using assms(2,3) by (simp add: add.assoc)
qed

lemma find_integrity_attrs:
  assumes "list_all attr_wf as" and "length txn = 12" and "first_some (unknown_attr ATTR_MESSAGE_INTEGRITY) as = None"
    and "length pre + length (concat (map (\<lambda>a. attr_encode a txn) as)) \<le> stop"
  shows "find_integrity (pre @ concat (map (\<lambda>a. attr_encode a txn) as) @ post) stop (length pre)
    = find_integrity (pre @ concat (map (\<lambda>a. attr_encode a txn) as) @ post) stop
        (length (pre @ concat (map (\<lambda>a. attr_encode a txn) as)))"
  using assms
proof (induction as arbitrary: pre)
  case (Cons a as)
  obtain ty v where t: "attr_encode a txn = padded ty v" "length v < 65536" "attr_decode ty v txn = Some a"
    using attr_tlv [of a txn] Cons.prems(1,2) by auto
  have none: "unknown_attr ATTR_MESSAGE_INTEGRITY a = None" "first_some (unknown_attr ATTR_MESSAGE_INTEGRITY) as = None"
    using Cons.prems(3) by (simp_all split: option.splits)
  have "ty \<noteq> ATTR_MESSAGE_INTEGRITY"
  proof
    assume "ty = ATTR_MESSAGE_INTEGRITY"
    then have "a = Unknown ATTR_MESSAGE_INTEGRITY v"
      using t(3) by (simp add: attr_decode_def attr_consts ATTR_MESSAGE_INTEGRITY_def)
    with none(1) show False by (simp add: unknown_attr_def)
  qed
  note skip = find_integrity_skip [OF t(2) this, of pre stop "concat (map (\<lambda>a. attr_encode a txn) as) @ post"]
  have "length pre + 4 + pad4 (length v) \<le> stop" using Cons.prems(4) t(1) by simp
  from skip [OF this] Cons.IH [of "pre @ padded ty v"] Cons.prems none(2) t(1) show ?case
    by (simp add: add.assoc)
qed simp

lemma patch_header: "length (sm_transaction_id m) = 12 \<Longrightarrow>
  (stun_header m a @ xs)[2 := be16 (of_nat b) ! 0, 3 := be16 (of_nat b) ! 1] = stun_header m b @ xs"
  unfolding stun_header_def be16_list by (simp add: patch_length)

lemma integrity_verifies:
  assumes "stun_wf m'" and m': "m' = add_attribute m (Unknown ATTR_MESSAGE_INTEGRITY (compute_message_integrity k m key))"
    and "length (compute_message_integrity k m key) = 20"
    and "first_some (unknown_attr ATTR_MESSAGE_INTEGRITY) (sm_attributes m) = None"
  shows "verify_response_integrity k (marshal crc32 m') m' (Some key) = Ok ()"
proof -
  let ?mac = "compute_message_integrity k m key"
  let ?txn = "sm_transaction_id m" let ?n = "length (attr_bytes m)"
  have txn: "length ?txn = 12" and wf: "list_all attr_wf (sm_attributes m)" and small: "length (attr_bytes m') < 65528"
    using assms(1) by (simp_all add: stun_wf_def m' add_attribute_def)
  have ab: "attr_bytes m' = attr_bytes m @ padded ATTR_MESSAGE_INTEGRITY ?mac"
    by (simp add: m' add_attribute_def attr_bytes_def)
  have ln: "length (attr_bytes m') = ?n + 24" using assms(3) by (simp add: ab pad4_def)
  let ?h = "stun_header m' (?n + 32)"
  have lh: "length ?h = 20" using txn by (simp add: stun_header_def m' add_attribute_def)
  obtain fp where raw: "marshal crc32 m' = ?h @ attr_bytes m @ padded ATTR_MESSAGE_INTEGRITY ?mac @ fp" and lfp: "length fp = 8"
    by (simp add: marshal_def Let_def ln [unfolded ab] ab fingerprint_tlv_def assms(3) pad4_def add.commute)
  let ?raw = "?h @ attr_bytes m @ padded ATTR_MESSAGE_INTEGRITY ?mac @ fp"
  have mi: "first_some (unknown_attr ATTR_MESSAGE_INTEGRITY) (sm_attributes m') = Some ?mac"
    using assms(4) by (simp add: m' add_attribute_def first_some_append unknown_attr_def)
  have r2: "rd16 ?raw 2 = of_nat (?n + 32)"
    unfolding stun_header_def append_assoc by (rule rd16_at) simp
  have len: "unat (of_nat (?n + 32) :: u16) = ?n + 32" using small ln by (simp only: unat_of_nat) simp
  have "find_integrity ?raw (20 + (?n + 32)) (length ?h) = find_integrity ?raw (20 + (?n + 32)) (length (?h @ attr_bytes m))"
    using find_integrity_attrs [OF wf txn assms(4), of ?h "20 + (?n + 32)" "padded ATTR_MESSAGE_INTEGRITY ?mac @ fp"] lh
    by (simp add: attr_bytes_def)
  moreover have "rd16 ?raw (length (?h @ attr_bytes m)) = ATTR_MESSAGE_INTEGRITY"
    using rd16_at [of "?h @ attr_bytes m" "length (?h @ attr_bytes m)" ATTR_MESSAGE_INTEGRITY
        "be16 (of_nat (length ?mac)) @ ?mac @ replicate (pad4 (length ?mac) - length ?mac) 0 @ fp"]
    by (simp add: padded_def)
  ultimately have off: "find_integrity ?raw (20 + (?n + 32)) 20 = Some (20 + ?n)"
    unfolding lh by (subst (asm) (2) find_integrity.simps) (simp add: lh)
  have t: "take (20 + ?n) ?raw = ?h @ attr_bytes m" using lh by simp
  have buf: "(take (20 + ?n) ?raw)[2 := be16 (of_nat (?n + 24)) ! 0, 3 := be16 (of_nat (?n + 24)) ! 1]
      = stun_header m' (?n + 24) @ attr_bytes m"
    unfolding t by (rule patch_header) (simp add: m' add_attribute_def txn)
  have "stun_header m' (?n + 24) = stun_header m (?n + 24)" by (simp add: stun_header_def m' add_attribute_def)
  then have mac: "tk_hmac k key (stun_header m' (?n + 24) @ attr_bytes m) = ?mac"
    by (simp add: compute_message_integrity_def)
  have big: "\<not> 20 + (?n + 32) > length ?raw" using lh lfp assms(3) by (simp add: pad4_def)
  have minus: "20 + ?n - 20 + 24 = ?n + 24" by simp
  show ?thesis
    unfolding raw verify_response_integrity_def mi option.case Let_def r2 len HEADER_SIZE_def off minus buf mac
    using assms(3) big by simp
qed

section \<open>Authenticated requests\<close>

definition auth_size :: "turn_auth \<Rightarrow> nat" where
  "auth_size a = length (ta_username a) + length (ta_realm a) + (case ta_nonce a of Some n \<Rightarrow> length n | None \<Rightarrow> 0)"

lemma pad4_le: "pad4 n \<le> n + 3"
  unfolding pad4_def by linarith

lemma add_unknown_wf:
  assumes "stun_wf m" and "ty \<notin> set known_types" and "length v < 65536" and "length (attr_bytes m) + length v + 7 < 65528"
  shows "stun_wf (add_attribute m (Unknown ty v))"
    and "length (attr_bytes (add_attribute m (Unknown ty v))) \<le> length (attr_bytes m) + length v + 7"
  using assms pad4_le [of "length v"] by (simp_all add: stun_wf_def add_attribute_def attr_bytes_def)

lemma no_integrity_add:
  "first_some (unknown_attr ATTR_MESSAGE_INTEGRITY) (sm_attributes m) = None \<Longrightarrow> ty \<noteq> ATTR_MESSAGE_INTEGRITY
    \<Longrightarrow> first_some (unknown_attr ATTR_MESSAGE_INTEGRITY) (sm_attributes (add_attribute m (Unknown ty v))) = None"
  by (simp add: add_attribute_def first_some_append unknown_attr_def)

lemma turn_types:
  "ATTR_USERNAME \<notin> set known_types" "ATTR_REALM \<notin> set known_types" "ATTR_NONCE \<notin> set known_types"
  "ATTR_CHANNEL_NUMBER \<notin> set known_types" "ATTR_LIFETIME \<notin> set known_types"
  "ATTR_XOR_PEER_ADDRESS \<notin> set known_types" "ATTR_REQUESTED_TRANSPORT \<notin> set known_types"
  "ATTR_MESSAGE_INTEGRITY \<notin> set known_types"
  by (simp_all add: known_types_def attr_consts turn_attr_consts)

lemma turn_types_other:
  "ATTR_USERNAME \<noteq> ATTR_MESSAGE_INTEGRITY" "ATTR_REALM \<noteq> ATTR_MESSAGE_INTEGRITY"
  "ATTR_NONCE \<noteq> ATTR_MESSAGE_INTEGRITY" "ATTR_CHANNEL_NUMBER \<noteq> ATTR_MESSAGE_INTEGRITY"
  "ATTR_LIFETIME \<noteq> ATTR_MESSAGE_INTEGRITY" "ATTR_XOR_PEER_ADDRESS \<noteq> ATTR_MESSAGE_INTEGRITY"
  "ATTR_REQUESTED_TRANSPORT \<noteq> ATTR_MESSAGE_INTEGRITY"
  by (simp_all add: turn_attr_consts)

lemma encode_xor_length: "length txn = 12 \<Longrightarrow> length (encode_xor_address peer txn) \<le> 20"
  by (cases peer) (simp_all add: encode_xor_address_def)

lemma turn_requests_wf:
  assumes "length txn = 12"
    and "m \<in> {build_allocate_request txn, build_refresh_request txn lifetime, build_create_permission_request txn peer,
      build_channel_bind_request txn peer ch}"
  shows "stun_wf m" and "length (attr_bytes m) \<le> 60"
    and "first_some (unknown_attr ATTR_MESSAGE_INTEGRITY) (sm_attributes m) = None"
proof -
  have new: "stun_wf (new_turn_message txn ty)" "attr_bytes (new_turn_message txn ty) = []" if "ty < 0x4000" for ty
    using assms(1) that by (simp_all add: stun_wf_def new_turn_message_def attr_bytes_def)
  note d = build_allocate_request_def build_refresh_request_def build_create_permission_request_def
    build_channel_bind_request_def
  have small: "length (encode_xor_address peer txn) \<le> 20" "pad4 (length (encode_xor_address peer txn)) \<le> 23"
    using encode_xor_length [OF assms(1), of peer] pad4_le [of "length (encode_xor_address peer txn)"] by simp_all
  show "stun_wf m" "length (attr_bytes m) \<le> 60"
    using assms small turn_types
    by (auto simp: d stun_wf_def new_turn_message_def add_attribute_def attr_bytes_def ALLOCATE_REQUEST_def
        REFRESH_REQUEST_def CREATE_PERMISSION_REQUEST_def CHANNEL_BIND_REQUEST_def encode_requested_transport_def
        encode_lifetime_def encode_channel_number_def pad4_def)
  show "first_some (unknown_attr ATTR_MESSAGE_INTEGRITY) (sm_attributes m) = None"
    using assms(2) turn_types_other
    by (auto simp: d new_turn_message_def add_attribute_def unknown_attr_def)
qed

lemma add_auth_verifies:
  assumes "stun_wf m" and "first_some (unknown_attr ATTR_MESSAGE_INTEGRITY) (sm_attributes m) = None"
    and "length (attr_bytes m) \<le> 60" and "auth_size a < 65000" and "\<And>key b. length (tk_hmac k key b) = 20"
  shows "stun_wf (add_auth_attributes k a m)
    \<and> verify_response_integrity k (marshal crc32 (add_auth_attributes k a m)) (add_auth_attributes k a m)
        (Some (compute_key k a)) = Ok ()"
proof -
  let ?m1 = "add_attribute m (Unknown ATTR_USERNAME (ta_username a))"
  let ?m2 = "add_attribute ?m1 (Unknown ATTR_REALM (ta_realm a))"
  define m3 where "m3 = (case ta_nonce a of Some nonce \<Rightarrow> add_attribute ?m2 (Unknown ATTR_NONCE nonce) | None \<Rightarrow> ?m2)"
  define n where "n = (case ta_nonce a of Some n \<Rightarrow> length n | None \<Rightarrow> 0)"
  have size: "length (ta_username a) + length (ta_realm a) + n < 65000" using assms(4) by (simp add: auth_size_def n_def)
  have w1: "stun_wf ?m1" "length (attr_bytes ?m1) \<le> 67 + length (ta_username a)"
    using add_unknown_wf [OF assms(1) turn_types(1), of "ta_username a"] size assms(3) by simp_all
  have w2: "stun_wf ?m2" "length (attr_bytes ?m2) \<le> 74 + length (ta_username a) + length (ta_realm a)"
    using add_unknown_wf [OF w1(1) turn_types(2), of "ta_realm a"] size w1(2) by simp_all
  have w3: "stun_wf m3 \<and> length (attr_bytes m3) \<le> 81 + length (ta_username a) + length (ta_realm a) + n"
  proof (cases "ta_nonce a")
    case None
    then show ?thesis using w2 by (simp add: m3_def)
  next
    case (Some nonce)
    then show ?thesis
      using add_unknown_wf [OF w2(1) turn_types(3), of nonce] size w2(2) by (simp add: m3_def n_def)
  qed
  have "first_some (unknown_attr ATTR_MESSAGE_INTEGRITY) (sm_attributes ?m2) = None"
    by (intro no_integrity_add assms(2) turn_types_other)
  then have mi: "first_some (unknown_attr ATTR_MESSAGE_INTEGRITY) (sm_attributes m3) = None"
    using no_integrity_add turn_types_other(3) by (simp add: m3_def split: option.split)
  have e: "add_auth_attributes k a m = add_attribute m3 (Unknown ATTR_MESSAGE_INTEGRITY
      (compute_message_integrity k m3 (compute_key k a)))"
    by (simp add: add_auth_attributes_def m3_def Let_def split: option.split)
  have l: "length (compute_message_integrity k m3 (compute_key k a)) = 20"
    using assms(5) by (simp add: compute_message_integrity_def)
  have wf: "stun_wf (add_auth_attributes k a m)"
    unfolding e by (rule add_unknown_wf) (use w3 size l turn_types(8) in simp_all)
  show ?thesis using wf integrity_verifies [OF wf e l mi] by blast
qed

text \<open>Every authenticated request verifies: with the key of the long-term credentials, the check the client applies to
  responses accepts the bytes of any request it sends, for every MAC of twenty bytes, and the request is read back
  with its MESSAGE-INTEGRITY as its last attribute.\<close>

theorem authenticated_request_verifies:
  assumes "length txn = 12" and "auth_size a < 65000" and "\<And>key b. length (tk_hmac k key b) = 20"
    and "m \<in> {build_allocate_request txn, build_refresh_request txn lifetime, build_create_permission_request txn peer,
      build_channel_bind_request txn peer ch}"
  shows "case unmarshal (tk_crc32 k) (marshal (tk_crc32 k) (add_auth_attributes k a m)) of
      Ok r \<Rightarrow> r = add_auth_attributes k a m \<and> sm_transaction_id r = txn
        \<and> (\<exists>mac. last (sm_attributes r) = Unknown ATTR_MESSAGE_INTEGRITY mac)
        \<and> verify_response_integrity k (marshal (tk_crc32 k) r) r (Some (compute_key k a)) = Ok ()
    | _ \<Rightarrow> False"
proof -
  have v: "stun_wf (add_auth_attributes k a m)"
    "verify_response_integrity k (marshal (tk_crc32 k) (add_auth_attributes k a m)) (add_auth_attributes k a m)
        (Some (compute_key k a)) = Ok ()"
    using add_auth_verifies [OF turn_requests_wf(1) [OF assms(1,4)] turn_requests_wf(3) [OF assms(1,4)]
        turn_requests_wf(2) [OF assms(1,4)] assms(2,3)] by blast+
  have t: "sm_transaction_id (add_auth_attributes k a m) = txn"
    using assms(4) by (auto simp: add_auth_attributes_def add_attribute_def Let_def build_allocate_request_def
        build_refresh_request_def build_create_permission_request_def build_channel_bind_request_def new_turn_message_def
        split: option.split)
  have l: "\<exists>mac. last (sm_attributes (add_auth_attributes k a m)) = Unknown ATTR_MESSAGE_INTEGRITY mac"
    by (simp add: add_auth_attributes_def add_attribute_def Let_def split: option.split)
  show ?thesis unfolding unmarshal_marshal [OF v(1)] using v(2) t l by simp
qed

section \<open>Responses\<close>

definition accepted_response :: "turn_crypto \<Rightarrow> sock_addr \<Rightarrow> bytes \<Rightarrow> bytes option \<Rightarrow> arrival list \<Rightarrow> stun_message \<Rightarrow> bool" where
  "accepted_response k server txn key arrivals m \<longleftrightarrow>
     (\<exists>d. Datagram d server \<in> set arrivals \<and> unmarshal (tk_crc32 k) (take 1500 d) = Ok m \<and> sm_transaction_id m = txn
        \<and> verify_response_integrity k (take 1500 d) m key = Ok ())"

lemma accepted_response_more:
  "accepted_response k server txn key rest m \<Longrightarrow> accepted_response k server txn key (a # rest) m"
  by (auto simp: accepted_response_def)

lemma await_response_result:
  "case await_response k server txn key arrivals of
     Some (Ok m) \<Rightarrow> accepted_response k server txn key arrivals m
   | Some (Err e) \<Rightarrow> \<exists>s. e = Io s
   | Some Panic \<Rightarrow> False
   | None \<Rightarrow> True"
proof (induction arrivals)
  case (Cons a rest)
  show ?case
  proof (cases "await_response k server txn key (a # rest) = await_response k server txn key rest")
    case True
    then show ?thesis using Cons by (auto split: option.split outcome.split intro: accepted_response_more)
  next
    case False
    then show ?thesis
      by (cases a) (auto simp: Let_def accepted_response_def split: if_splits outcome.splits)
  qed
qed simp

lemma send_attempts_sent:
  "set (fst (send_attempts k server data txn key net i n)) \<subseteq> {data}
    \<and> length (fst (send_attempts k server data txn key net i n)) \<le> n"
proof (induction n arbitrary: i)
  case (Suc n)
  show ?case using Suc [of "i + 1"]
    by (auto split: option.split prod.split)
qed simp

lemma send_attempts_result:
  "case snd (send_attempts k server data txn key net i n) of
     Ok m \<Rightarrow> \<exists>j<n. fst (net (i + j)) = None \<and> accepted_response k server txn key (snd (net (i + j))) m
   | Err e \<Rightarrow> (\<exists>s. e = Io s)
       \<or> e = Timeout ''TURN transaction timed out after max retries''
         \<and> length (fst (send_attempts k server data txn key net i n)) = n
   | Panic \<Rightarrow> False"
proof (induction n arbitrary: i)
  case (Suc n)
  show ?case
  proof (cases "fst (net i)")
    case None
    show ?thesis
    proof (cases "await_response k server txn key (snd (net i))")
      case (Some r)
      then show ?thesis
        using None await_response_result [of k server txn key "snd (net i)"]
        by (cases r) (auto intro: exI [of _ 0])
    next
      case none: None
      obtain sent r where a: "send_attempts k server data txn key net (i + 1) n = (sent, r)" by fastforce
      have e: "send_attempts k server data txn key net i (Suc n) = (data # sent, r)" using None none a by simp
      show ?thesis using Suc [of "i + 1"] unfolding e a
        by (cases r) (auto simp: intro: exI [of _ "Suc _"])
    qed
  qed simp
qed simp


end
