(* ===== verification/Nat_Turn_Track.thy ===== *)
theory Nat_Turn_Track
  imports Nat_Turn_Client Nat_Turn_Props
begin

text \<open>
  What the TURN client keeps: its allocation, permissions and channel bindings over any interleaving of
  its operations with the refresh loop, and the iteration of the loop that finds its refresh overdue.
\<close>

section \<open>The tracked lists\<close>

lemma track_permission_peers:
  "map tp_peer_addr (track_permission peer now ps)
    = map tp_peer_addr ps @ (if peer \<in> tp_peer_addr ` set ps then [] else [peer])"
  by (induction ps) auto

lemma touch_permission_peers [simp]: "map tp_peer_addr (touch_permission peer now ps) = map tp_peer_addr ps"
  by (induction ps) auto

lemma track_binding_channels:
  "map tb_channel (track_binding peer ch now bs)
    = map tb_channel bs @ (if ch \<in> tb_channel ` set bs then [] else [ch])"
  by (induction bs) auto

lemma touch_binding_channels [simp]: "map tb_channel (touch_binding ch now bs) = map tb_channel bs"
  by (induction bs) auto

section \<open>The invariant\<close>

definition turn_ok :: "turn_client \<Rightarrow> bool" where
  "turn_ok c \<longleftrightarrow>
     (is_allocated c \<longrightarrow> tc_allocation c \<noteq> None) \<and> (tc_state c = TurnChannelBound \<longrightarrow> tc_channel_bindings c \<noteq> [])
     \<and> distinct (map tp_peer_addr (tc_permissions c)) \<and> distinct (map tb_channel (tc_channel_bindings c))
     \<and> list_all is_valid_channel (map tb_channel (tc_channel_bindings c))"

definition same_account :: "turn_client \<Rightarrow> turn_client \<Rightarrow> bool" where
  "same_account c d \<longleftrightarrow> tc_server d = tc_server c \<and> ta_username (tc_auth d) = ta_username (tc_auth c)
     \<and> ta_password (tc_auth d) = ta_password (tc_auth c)"

definition good_step :: "turn_client \<Rightarrow> turn_client \<Rightarrow> bool" where
  "good_step c d \<longleftrightarrow> same_account c d \<and> (turn_ok c \<longrightarrow> turn_ok d)"

lemma good_step_refl [simp, intro]: "good_step c c"
  by (simp add: good_step_def same_account_def)

lemma good_step_trans: "good_step c d \<Longrightarrow> good_step d e \<Longrightarrow> good_step c e"
  by (auto simp: good_step_def same_account_def)

lemmas turn_ok_defs = good_step_def same_account_def turn_ok_def is_allocated_def

lemma good_set_nonce: "good_step c (set_nonce n c)"
  by (auto simp: turn_ok_defs set_nonce_def)

lemma good_set_lifetime: "good_step c (set_lifetime n c)"
  by (auto simp: turn_ok_defs set_lifetime_def)

lemma good_challenge: "good_step c (c\<lparr>tc_auth := (tc_auth c)\<lparr>ta_realm := r, ta_nonce := n\<rparr>\<rparr>)"
  by (auto simp: turn_ok_defs)

lemma good_back_to_init: "good_step c (back_to_init c)"
  by (auto simp: turn_ok_defs back_to_init_def)

lemma good_state: "s \<notin> {TurnAllocated, TurnChannelBound} \<Longrightarrow> good_step c (c\<lparr>tc_state := s\<rparr>)"
  by (auto simp: turn_ok_defs)

lemma good_finish_allocate: "good_step c (fst (finish_allocate c m))"
  by (auto simp: turn_ok_defs finish_allocate_def split: outcome.split)

lemmas good_intros = good_set_nonce good_set_lifetime good_challenge good_back_to_init good_finish_allocate
  good_step_refl

lemma good_allocate_stale: "good_step c (fst (allocate_stale k txn nets c m))"
  by (auto simp: allocate_stale_def Let_def split: option.split outcome.split
      intro: good_intros good_step_trans [OF good_set_nonce])

lemma good_allocate_authenticated: "good_step c (fst (allocate_authenticated k txn nets c))"
  by (auto simp: allocate_authenticated_def Let_def split: outcome.split
      intro: good_intros good_allocate_stale)

lemma good_allocate: "good_step c (fst (turn_allocate k txn nets c))"
proof -
  have a: "good_step c (c\<lparr>tc_state := TurnAllocating\<rparr>)" by (rule good_state) simp
  have b: "good_step c (fst (allocate_authenticated k txn nets
      (c\<lparr>tc_state := TurnAllocating, tc_auth := (tc_auth c)\<lparr>ta_realm := r, ta_nonce := n\<rparr>\<rparr>)))" for r n
    using good_step_trans [OF good_step_trans [OF a good_challenge] good_allocate_authenticated] by simp
  show ?thesis
    by (auto simp: turn_allocate_def Let_def split: outcome.split
        intro: a b good_step_trans [OF a] good_back_to_init good_finish_allocate)
qed

lemma good_permissions:
  "good_step c (c\<lparr>tc_permissions := track_permission peer now (tc_permissions c)\<rparr>)"
  "good_step c (c\<lparr>tc_permissions := touch_permission peer now (tc_permissions c)\<rparr>)"
  by (auto simp: turn_ok_defs track_permission_peers)

lemma good_create_permission: "good_step c (fst (create_permission k txn nets now peer c))"
  by (auto simp: create_permission_def split: outcome.split intro: good_permissions)

lemma good_bindings:
  "is_valid_channel ch \<Longrightarrow> is_allocated c \<Longrightarrow> good_step c (c\<lparr>tc_state := TurnChannelBound,
     tc_channel_bindings := track_binding peer ch now (tc_channel_bindings c)\<rparr>)"
  "good_step c (c\<lparr>tc_channel_bindings := touch_binding ch now (tc_channel_bindings c)\<rparr>)"
proof -
  have "track_binding peer ch now bs \<noteq> []" for bs by (cases bs) auto
  then show "is_valid_channel ch \<Longrightarrow> is_allocated c \<Longrightarrow> good_step c (c\<lparr>tc_state := TurnChannelBound,
     tc_channel_bindings := track_binding peer ch now (tc_channel_bindings c)\<rparr>)"
    by (auto simp: turn_ok_defs track_binding_channels)
  have "(touch_binding ch now bs = []) = (bs = [])" for bs by (cases bs) auto
  then show "good_step c (c\<lparr>tc_channel_bindings := touch_binding ch now (tc_channel_bindings c)\<rparr>)"
    by (auto simp: turn_ok_defs)
qed

lemma ensure_allocated_ok: "ensure_allocated c = Ok u \<Longrightarrow> is_allocated c"
  by (simp add: ensure_allocated_def split: if_splits)

lemma good_channel_bind: "good_step c (fst (channel_bind k txn nets now peer ch c))"
  by (auto simp: channel_bind_def split: outcome.split intro: good_bindings(1) dest: ensure_allocated_ok)

lemma good_refresh: "good_step c (fst (turn_refresh k txn nets c))"
  by (auto simp: turn_refresh_def Let_def split: outcome.split option.split
      intro: good_intros good_step_trans [OF good_set_nonce])

lemma good_stop: "good_step c (stop_refresh_loop c)"
  by (auto simp: turn_ok_defs stop_refresh_loop_def)

lemma good_deallocate: "good_step c (fst (turn_deallocate k txn nets c))"
proof -
  have "good_step c (c\<lparr>tc_loop_running := False, tc_allocation := None, tc_state := TurnExpired\<rparr>)"
    by (auto simp: turn_ok_defs)
  then show ?thesis using good_stop [of c]
    by (auto simp: turn_deallocate_def Let_def stop_refresh_loop_def split: outcome.split)
qed

section \<open>The loop\<close>

definition good_loop :: "turn_loop \<Rightarrow> turn_loop \<Rightarrow> bool" where
  "good_loop l l' \<longleftrightarrow> good_step (tl_client l) (tl_client l')"

lemma good_loop_refl [simp, intro]: "good_loop l l"
  by (simp add: good_loop_def)

lemma good_loop_trans: "good_loop l l' \<Longrightarrow> good_loop l' l'' \<Longrightarrow> good_loop l l''"
  by (auto simp: good_loop_def intro: good_step_trans)

lemma loop_send_client: "tl_client (fst (loop_send k nets took auth request l)) = tl_client l"
  by (simp add: loop_send_def)

lemma good_loop_exchange: "good_loop l (fst (loop_exchange k txn nets took auth build l))"
proof -
  have [simp]: "tl_client l' = tl_client m" if "loop_send k nets took a r m = (l', x)" for a r m l' x
    using loop_send_client [of k nets took a r m] that by simp
  show ?thesis
    by (auto simp: loop_exchange_def good_loop_def Let_def split: prod.split outcome.split option.split
        intro: good_set_nonce)
qed

lemma exchange_then:
  assumes "loop_exchange k txn nets took auth build l = (l1, r)" and "good_step (tl_client l1) c"
    and "tl_client l2 = c"
  shows "good_loop l l2"
  using assms good_loop_exchange [of l k txn nets took auth build] by (auto simp: good_loop_def intro: good_step_trans)

lemma good_loop_refresh_allocation: "good_loop l (loop_refresh_allocation k txn nets took auth l)"
  by (auto simp: loop_refresh_allocation_def Let_def split: prod.split option.split
      intro: exchange_then good_set_lifetime good_state)

lemma good_loop_refresh_permission: "good_loop l (loop_refresh_permission k txn nets took auth peer l)"
  by (auto simp: loop_refresh_permission_def split: prod.split option.split
      intro: exchange_then good_permissions(2))

lemma good_loop_refresh_binding: "good_loop l (loop_refresh_binding k txn nets took auth pb l)"
  by (auto simp: loop_refresh_binding_def split: prod.split option.split
      intro: exchange_then good_bindings(2))

lemma good_loop_foldl: "(\<And>l x. good_loop l (f l x)) \<Longrightarrow> good_loop l (foldl f l xs)"
  by (induction xs arbitrary: l) (auto intro: good_loop_trans)

lemma good_loop_refresh_tracked: "good_loop l (loop_refresh_tracked k txn nets took auth l)"
  unfolding loop_refresh_tracked_def Let_def
  by (rule good_loop_trans; rule good_loop_foldl; rule good_loop_refresh_permission good_loop_refresh_binding)

lemma good_loop_sleep: "good_loop l (loop_sleep late l)"
  by (auto simp: loop_sleep_def good_loop_def Let_def split: option.split)

lemma good_loop_wake: "good_loop l (loop_wake k txn nets took l)"
proof -
  have "good_loop l (l\<lparr>tl_running := False\<rparr>)" by (simp add: good_loop_def)
  then show ?thesis
    by (auto simp: loop_wake_def Let_def
        intro: good_loop_refresh_allocation good_loop_refresh_tracked
          good_loop_trans [OF good_loop_refresh_allocation good_loop_refresh_tracked])
qed

lemma good_turn_do: "good_loop l (turn_do k txn nets op l)"
  by (cases op) (auto simp: good_loop_def on_client_def good_allocate good_create_permission good_channel_bind
      good_refresh good_deallocate good_stop
      intro: good_loop_sleep [unfolded good_loop_def] good_loop_wake [unfolded good_loop_def])

lemma good_turn_run: "good_loop l (turn_run k ops l)"
  by (induction k ops l rule: turn_run.induct) (auto intro: good_loop_trans good_turn_do)


section \<open>The refresh of the allocation\<close>

lemma turn_bit_len:
  "bit_len 4 = 3" "bit_len 5 = 3" "bit_len 300 = 9" "bit_len 240 = 8" "bit_len 600 = 10" "bit_len 480 = 9"
  "bit_len (Suc 0) = 1"
  by (simp_all add: bit_len.simps)

lemma refresh_fraction: "REFRESH_FRACTION = 7205759403792794 / 2 ^ 53"
proof -
  have "quotient_of (4 / 5) = (4, 5)" by code_simp
  then have "exponent (4 / 5) = -1" by (simp add: exponent_def turn_bit_len)
  then show ?thesis
    unfolding REFRESH_FRACTION_def by (subst f64_round_near [where k = 53 and n = 7205759403792794]) simp_all
qed

lemma refresh_secs_600: "refresh_secs 600 = 480"
proof -
  have "f64_of_int 600 = 600"
    unfolding f64_of_int_def
    by (subst f64_round_near [where k = 43 and n = "600 * 2 ^ 43"])
      (simp_all add: exponent_def turn_bit_len quotient_of_number power_int_def)
  moreover have "exponent (600 * REFRESH_FRACTION) = 8"
  proof -
    have e: "600 * REFRESH_FRACTION = 270215977642229775 / 562949953421312" by (simp add: refresh_fraction)
    have "quotient_of (270215977642229775 / 562949953421312) = (270215977642229775, 562949953421312)" by code_simp
    moreover have "bit_len 270215977642229775 = 58" "bit_len 562949953421312 = 50" by (simp_all add: bit_len.simps)
    ultimately show ?thesis unfolding e by (simp add: exponent_def)
  qed
  then have "f64_mul 600 REFRESH_FRACTION = 480"
    unfolding f64_mul_def 
    by (subst f64_round_near [where k = 44 and n = "480 * 2 ^ 44"]) (simp_all add: refresh_fraction)
  ultimately show ?thesis by (simp add: refresh_secs_def)
qed
lemma exchange_keeps:
  "tl_next_alloc_refresh (fst (loop_exchange k txn nets took auth build l)) = tl_next_alloc_refresh l
    \<and> tc_allocation (tl_client (fst (loop_exchange k txn nets took auth build l))) = tc_allocation (tl_client l)
    \<and> tl_now l \<le> tl_now (fst (loop_exchange k txn nets took auth build l))"
  by (auto simp: loop_exchange_def loop_send_def set_nonce_def Let_def split: outcome.split option.split)

definition same_refresh :: "turn_loop \<Rightarrow> turn_loop \<Rightarrow> bool" where
  "same_refresh l l' \<longleftrightarrow> tl_next_alloc_refresh l' = tl_next_alloc_refresh l
     \<and> tc_allocation (tl_client l') = tc_allocation (tl_client l) \<and> tl_now l \<le> tl_now l'"

lemma same_refresh_trans: "same_refresh l l' \<Longrightarrow> same_refresh l' l'' \<Longrightarrow> same_refresh l l''"
  by (simp add: same_refresh_def)

lemma same_refresh_foldl: "(\<And>l x. same_refresh l (f l x)) \<Longrightarrow> same_refresh l (foldl f l xs)"
proof (induction xs arbitrary: l)
  case (Cons x xs)
  from Cons.prems [of l x] Cons.IH [OF Cons.prems, of "f l x"] show ?case by (simp add: same_refresh_def)
qed (simp add: same_refresh_def)

lemma tracked_keeps_refresh: "same_refresh l (loop_refresh_tracked k txn nets took auth l)"
proof -
  have p: "same_refresh l (loop_refresh_permission k txn nets took auth x l)" for l x
    using exchange_keeps [of k txn nets took auth _ l]
    by (auto simp: loop_refresh_permission_def same_refresh_def split: prod.split option.split
        dest!: arg_cong [where f = fst])
  have b: "same_refresh l (loop_refresh_binding k txn nets took auth x l)" for l x
    using exchange_keeps [of k txn nets took auth _ l]
    by (auto simp: loop_refresh_binding_def same_refresh_def split: prod.split option.split
        dest!: arg_cong [where f = fst])
  show ?thesis
    unfolding loop_refresh_tracked_def Let_def
    by (rule same_refresh_trans; rule same_refresh_foldl; rule p b)
qed

text \<open>An overdue refresh is postponed: when an iteration starts at or after the instant its allocation was to be
  refreshed, because the requests of the iteration before took that long, it sends no refresh and moves the instant a
  whole delay ahead, beyond the ten minutes the server keeps the allocation.\<close>

theorem overdue_refresh_postponed:
  assumes "loop_alive l" and "is_allocated (tl_client l)" and "tc_allocation (tl_client l) = Some a" and "al_lifetime a = 600"
    and "tl_next_alloc_refresh l = granted + 480 * SECOND" and "tl_next_alloc_refresh l \<le> tl_now l" and "late < 450 * SECOND"
  shows "let l' = turn_run k [(LoopSleep late, txn, nets), (LoopWake took, txn, nets)] l
    in tc_allocation (tl_client l') = Some a \<and> tl_next_alloc_refresh l' = tl_now l + 480 * SECOND
      \<and> tl_next_alloc_refresh l' \<ge> granted + 960 * SECOND"
proof -
  let ?next = "tl_now l + 480 * SECOND"
  let ?l1 = "l\<lparr>tl_auth := tc_auth (tl_client l), tl_next_alloc_refresh := ?next, tl_now := tl_now l + 30 * SECOND + late\<rparr>"
  have d: "refresh_delay 600 = 480 * SECOND" by (simp add: refresh_delay_def refresh_secs_600)
  have "min (30 * SECOND) (480 * SECOND) = 30 * SECOND" by simp
  then have s: "loop_sleep late l = ?l1"
    using assms(3,4,6) by (simp add: loop_sleep_def d)
  have early: "\<not> tl_now ?l1 \<ge> tl_next_alloc_refresh ?l1" using assms(7) by simp
  have alive: "loop_alive ?l1" "tl_running ?l1" "is_allocated (tl_client ?l1)" using assms(1,2) by (simp_all add: loop_alive_def)
  have w: "loop_wake k txn nets took ?l1 = loop_refresh_tracked k txn nets took (tl_auth ?l1) ?l1"
    unfolding loop_wake_def Let_def if_not_P [OF early] using alive by simp
  have "same_refresh ?l1 (loop_refresh_tracked k txn nets took (tl_auth ?l1) ?l1)" by (rule tracked_keeps_refresh)
  then have "tc_allocation (tl_client (loop_wake k txn nets took ?l1)) = Some a"
    "tl_next_alloc_refresh (loop_wake k txn nets took ?l1) = ?next"
    unfolding w same_refresh_def using assms(3) by simp_all
  then show ?thesis
    using assms(1,5,6) alive(1) by (simp add: s Let_def)
qed

section \<open>Witnesses\<close>

text \<open>The properties of the TURN client at concrete inputs.\<close>

definition wit_crypto :: turn_crypto where
  "wit_crypto = \<lparr>tk_md5 = (\<lambda>d. take 16 (d @ replicate 16 0)), tk_hmac = (\<lambda>ky d. replicate 20 (of_nat (length d))),
     tk_crc32 = (\<lambda>d. of_nat (length d))\<rparr>"

definition wit_auth :: turn_auth where
  "wit_auth = \<lparr>ta_username = [0x75], ta_password = [0x70], ta_realm = [0x72], ta_nonce = Some [0x6E, 0x31]\<rparr>"

theorem authenticated_request_verifies_witness:
  "case unmarshal (tk_crc32 wit_crypto) (marshal (tk_crc32 wit_crypto)
      (add_auth_attributes wit_crypto wit_auth (build_refresh_request (replicate 12 7) 600))) of
      Ok r \<Rightarrow> r = add_auth_attributes wit_crypto wit_auth (build_refresh_request (replicate 12 7) 600)
        \<and> sm_transaction_id r = replicate 12 7
        \<and> (\<exists>mac. last (sm_attributes r) = Unknown ATTR_MESSAGE_INTEGRITY mac)
        \<and> verify_response_integrity wit_crypto (marshal (tk_crc32 wit_crypto) r) r
            (Some (compute_key wit_crypto wit_auth)) = Ok ()
    | _ \<Rightarrow> False"
  by (rule authenticated_request_verifies [where lifetime = 600 and peer = "V4 0 0" and ch = 0])
    (simp_all add: auth_size_def wit_auth_def wit_crypto_def)

definition wit_allocation :: turn_allocation where
  "wit_allocation = \<lparr>al_relayed_addr = V4 0x0A000001 50000, al_mapped_addr = V4 0x0A000002 40000, al_lifetime = 600\<rparr>"

definition wit_loop :: turn_loop where
  "wit_loop = (loop_start (481 * SECOND)
      ((turn_client_new (V4 0x0A000003 3478) [0x75] [0x70] [0x72])\<lparr>tc_state := TurnAllocated, tc_allocation := Some wit_allocation\<rparr>))
      \<lparr>tl_next_alloc_refresh := 0 + 480 * SECOND\<rparr>"

theorem overdue_refresh_postponed_witness:
  "let l' = turn_run wit_crypto [(LoopSleep 0, \<lambda>_. replicate 12 7, \<lambda>_ _. (None, [])),
       (LoopWake (\<lambda>_. 0), \<lambda>_. replicate 12 7, \<lambda>_ _. (None, []))] wit_loop
    in tc_allocation (tl_client l') = Some wit_allocation \<and> tl_next_alloc_refresh l' = tl_now wit_loop + 480 * SECOND
      \<and> tl_next_alloc_refresh l' \<ge> 0 + 960 * SECOND"
  by (rule overdue_refresh_postponed)
    (simp_all add: wit_loop_def wit_allocation_def loop_start_def turn_client_new_def loop_alive_def is_allocated_def
      SECOND_def)

end
