(* ===== verification/Rtp_Plc.thy ===== *)
theory Rtp_Plc
  imports Rtp_G711 Rtp_Float
begin

text \<open>
  \<^verbatim>\<open>src/rtp/plc.rs\<close>: the packet loss concealer. Its \<^verbatim>\<open>f32\<close> values are rationals rounded to 24
  significant bits after each operation, its \<^verbatim>\<open>f64\<close> values those of \<open>Rtp_Float\<close>. The standard
  library leaves the precision of \<^verbatim>\<open>cos\<close> open, so the cosine of an \<^verbatim>\<open>f32\<close> is an argument
  (\<open>cosf\<close>); the square root is the correctly rounded one.
\<close>

section \<open>Single precision and the square root\<close>

definition f32_round :: "rat \<Rightarrow> rat" where
  "f32_round x = (if x = 0 then 0
     else let q = 2 powi (max (exponent \<bar>x\<bar>) (- 126) - 23) in of_int (round_half_even (x / q)) * q)"

definition f32_add :: "rat \<Rightarrow> rat \<Rightarrow> rat" where "f32_add x y = f32_round (x + y)"
definition f32_sub :: "rat \<Rightarrow> rat \<Rightarrow> rat" where "f32_sub x y = f32_round (x - y)"
definition f32_mul :: "rat \<Rightarrow> rat \<Rightarrow> rat" where "f32_mul x y = f32_round (x * y)"
definition f32_div :: "rat \<Rightarrow> rat \<Rightarrow> rat" where "f32_div x y = f32_round (x / y)"
definition f32_of_nat :: "nat \<Rightarrow> rat" where "f32_of_nat n = f32_round (of_nat n)"
definition f32_of_i16 :: "sample \<Rightarrow> rat" where "f32_of_i16 s = of_int (sint s)"

section \<open>Constants\<close>

definition HISTORY_LEN :: nat where "HISTORY_LEN = 390"
definition PITCH_MIN :: nat where "PITCH_MIN = 20"
definition PITCH_MAX :: nat where "PITCH_MAX = 160"
definition OLA_WINDOW :: nat where "OLA_WINDOW = 16"
definition DECAY_PER_FRAME :: rat where "DECAY_PER_FRAME = f32_round (96/100)"
definition MAX_CONCEAL_MS :: rat where "MAX_CONCEAL_MS = 60"
definition PLC_SAMPLE_RATE :: rat where "PLC_SAMPLE_RATE = 8000"
definition F32_PI :: rat where "F32_PI = 13176795 / 4194304"

lemmas plc_consts = HISTORY_LEN_def PITCH_MIN_def PITCH_MAX_def OLA_WINDOW_def

section \<open>State\<close>

record plc =
  plc_history :: "sample list"
  plc_history_pos :: nat
  plc_history_valid :: nat
  plc_pitch_period :: nat
  plc_overlap_buf :: "sample list"
  plc_conceal_count :: nat
  plc_gain :: rat
  plc_samples_per_packet :: nat
  plc_max_conceal_frames :: nat
  plc_sample_rate :: rat

definition default_pitch :: "nat \<Rightarrow> nat" where "default_pitch spp = max (min spp PITCH_MAX) PITCH_MIN"

definition max_frames :: "nat \<Rightarrow> rat \<Rightarrow> nat" where
  "max_frames spp sr =
     (if spp > 0
      then max (nat \<lceil>f32_div MAX_CONCEAL_MS (f32_mul (f32_div (f32_of_nat spp) sr) 1000)\<rceil>) 1 else 3)"

definition plc_with_sample_rate :: "nat \<Rightarrow> u32 \<Rightarrow> plc" where
  "plc_with_sample_rate spp rate =
     (let sr = (if rate > 0 then f32_of_nat (unat rate) else PLC_SAMPLE_RATE)
      in \<lparr>plc_history = replicate HISTORY_LEN 0, plc_history_pos = 0, plc_history_valid = 0,
          plc_pitch_period = default_pitch spp, plc_overlap_buf = [], plc_conceal_count = 0, plc_gain = 1,
          plc_samples_per_packet = spp, plc_max_conceal_frames = max_frames spp sr, plc_sample_rate = sr\<rparr>)"

definition plc_new :: "nat \<Rightarrow> plc" where "plc_new spp = plc_with_sample_rate spp 8000"

definition plc_reset :: "plc \<Rightarrow> plc" where
  "plc_reset p = p\<lparr>plc_history := replicate (length (plc_history p)) 0, plc_history_pos := 0, plc_history_valid := 0,
     plc_pitch_period := default_pitch (plc_samples_per_packet p), plc_overlap_buf := [], plc_conceal_count := 0,
     plc_gain := 1\<rparr>"

section \<open>History\<close>

definition push_sample :: "plc \<Rightarrow> sample \<Rightarrow> plc" where
  "push_sample p s = p\<lparr>plc_history := (plc_history p)[plc_history_pos p := s],
     plc_history_pos := (plc_history_pos p + 1) mod HISTORY_LEN,
     plc_history_valid := (if plc_history_valid p < HISTORY_LEN then plc_history_valid p + 1 else plc_history_valid p)\<rparr>"

definition append_history :: "sample list \<Rightarrow> plc \<Rightarrow> plc" where
  "append_history xs p = foldl push_sample p xs"

definition read_history_tail :: "plc \<Rightarrow> nat \<Rightarrow> sample list" where
  "read_history_tail p wanted =
     (let cnt = min wanted (plc_history_valid p);
          start = (if plc_history_pos p \<ge> cnt then plc_history_pos p - cnt else HISTORY_LEN - (cnt - plc_history_pos p))
      in map (\<lambda>i. plc_history p ! ((start + i) mod HISTORY_LEN)) [0..<cnt])"

section \<open>Blending\<close>

text \<open>\<^verbatim>\<open>f32::round\<close> rounds halves away from zero.\<close>

definition round_away :: "rat \<Rightarrow> int" where
  "round_away v = (if v \<ge> 0 then \<lfloor>v + 1 / 2\<rfloor> else \<lceil>v - 1 / 2\<rceil>)"

definition clamp_i16 :: "rat \<Rightarrow> sample" where
  "clamp_i16 v = word_of_int (max (- 32768) (min 32767 (round_away v)))"

definition hann_weight :: "(rat \<Rightarrow> rat) \<Rightarrow> nat \<Rightarrow> nat \<Rightarrow> rat" where
  "hann_weight cosf i len =
     (if len \<le> 1 then 1
      else f32_mul (1 / 2) (f32_sub 1 (cosf (f32_div (f32_mul F32_PI (f32_of_nat i)) (f32_of_nat (max (len - 1) 1))))))"

definition blend :: "rat \<Rightarrow> sample \<Rightarrow> sample \<Rightarrow> sample" where
  "blend w old new =
     clamp_i16 (f32_add (f32_mul (f32_of_i16 old) (f32_sub 1 w)) (f32_mul (f32_of_i16 new) w))"

definition build_ola_period :: "(rat \<Rightarrow> rat) \<Rightarrow> sample list \<Rightarrow> sample list \<Rightarrow> nat \<Rightarrow> sample list" where
  "build_ola_period cosf prev cur ola_len =
     (let ola = min (min ola_len (length cur)) (length prev); off = length prev - ola
      in map (\<lambda>i. blend (hann_weight cosf i ola) (prev ! (off + i)) (cur ! i)) [0..<ola] @ drop ola cur)"

definition apply_crossfade :: "(rat \<Rightarrow> rat) \<Rightarrow> sample list \<Rightarrow> sample list \<Rightarrow> nat \<Rightarrow> sample list" where
  "apply_crossfade cosf old frame len =
     (let n = min (min len (length old)) (length frame)
      in map (\<lambda>i. blend (hann_weight cosf i n) (old ! i) (frame ! i)) [0..<n] @ drop n frame)"

section \<open>Pitch\<close>

definition f64_sum :: "rat list \<Rightarrow> rat" where "f64_sum xs = foldl f64_add 0 xs"

definition f64_product :: "sample \<Rightarrow> sample \<Rightarrow> rat" where
  "f64_product a b = f64_mul (of_int (sint a)) (of_int (sint b))"

record pitch_search =
  ps_best_period :: nat
  ps_best_corr :: rat
  ps_found_strong :: bool

definition pitch_lag :: "sample list \<Rightarrow> nat \<Rightarrow> pitch_search \<Rightarrow> nat \<Rightarrow> pitch_search" where
  "pitch_lag buf window_start s lag =
     (let ref_start = window_start - lag
      in if ref_start + lag > length buf then s
         else
           (let win = map (\<lambda>i. buf ! (window_start + i)) [0..<lag]; ref = map (\<lambda>i. buf ! (ref_start + i)) [0..<lag];
                cross = f64_sum (map2 f64_product win ref);
                energy_ref = f64_sum (map2 f64_product ref ref);
                energy_win = f64_sum (map2 f64_product win win)
            in if energy_ref < 1 \<or> energy_win < 1 then s
               else
                 (let norm = f64_div cross (f64_mul (f64_sqrt energy_win) (f64_sqrt energy_ref))
                  in if \<not> ps_found_strong s then
                       (let s1 = (if norm > ps_best_corr s then s\<lparr>ps_best_corr := norm, ps_best_period := lag\<rparr> else s)
                        in if ps_best_corr s1 \<ge> 1 / 2 then s1\<lparr>ps_found_strong := True\<rparr> else s1)
                     else if norm > f64_mul (ps_best_corr s) (f64_round (105 / 100))
                     then s\<lparr>ps_best_corr := norm, ps_best_period := lag\<rparr>
                     else s)))"

definition detect_pitch :: "plc \<Rightarrow> nat" where
  "detect_pitch p =
     (let analysis_len = PITCH_MAX * 2
      in if plc_history_valid p < analysis_len then default_pitch (plc_samples_per_packet p)
         else
           (let buf = read_history_tail p analysis_len; window_start = length buf - PITCH_MAX;
                window = drop window_start buf
            in if f64_sum (map2 f64_product window window) < 1 then default_pitch (plc_samples_per_packet p)
               else
                 (let s = foldl (pitch_lag buf window_start)
                        \<lparr>ps_best_period = PITCH_MIN, ps_best_corr = -1, ps_found_strong = False\<rparr> [PITCH_MIN..<PITCH_MAX + 1]
                  in if ps_best_corr s < 1 / 2 then default_pitch (plc_samples_per_packet p) else ps_best_period s)))"

section \<open>Concealment\<close>

definition tile_sample :: "(rat \<Rightarrow> rat) \<Rightarrow> sample list \<Rightarrow> rat \<Rightarrow> nat \<Rightarrow> sample" where
  "tile_sample cosf template gain i =
     (let tlen = length template; ola = min OLA_WINDOW tlen; pos = i mod tlen;
          s = f32_mul (f32_of_i16 (template ! pos)) gain
      in if pos < ola \<and> i \<ge> tlen then
           (let w = hann_weight cosf pos ola;
                prev_s = f32_mul (f32_of_i16 (template ! (tlen - ola + pos))) gain
            in clamp_i16 (f32_add (f32_mul prev_s (f32_sub 1 w)) (f32_mul s w)))
         else clamp_i16 s)"

definition generate_pitch_repeat :: "(rat \<Rightarrow> rat) \<Rightarrow> plc \<Rightarrow> nat \<Rightarrow> rat \<Rightarrow> sample list" where
  "generate_pitch_repeat cosf p n gain =
     (let period = plc_pitch_period p
      in if period = 0 \<or> plc_history_valid p = 0 then replicate n 0
         else
           (let tail = read_history_tail p (min (period * 2) (plc_history_valid p));
                last_period = (if length tail \<ge> period then drop (length tail - period) tail else tail);
                prev_period = (if length tail \<ge> period * 2
                               then take period (drop (length tail - period * 2) tail) else last_period);
                template = (if prev_period = last_period then last_period
                            else build_ola_period cosf prev_period last_period OLA_WINDOW)
            in if length template = 0 then replicate n 0 else map (tile_sample cosf template gain) [0..<n]))"

definition plc_update :: "(rat \<Rightarrow> rat) \<Rightarrow> sample list \<Rightarrow> plc \<Rightarrow> plc" where
  "plc_update cosf samples p =
     (if samples = [] then p
      else
        (let written = (if plc_conceal_count p > 0 \<and> plc_overlap_buf p \<noteq> []
                        then apply_crossfade cosf (plc_overlap_buf p) samples
                               (min (min (length (plc_overlap_buf p)) (length samples)) OLA_WINDOW)
                        else samples);
             p1 = (if plc_conceal_count p > 0
                   then p\<lparr>plc_overlap_buf := generate_pitch_repeat cosf p OLA_WINDOW (plc_gain p)\<rparr> else p);
             p2 = append_history written p1;
             p3 = (if plc_conceal_count p2 = 0
                   then p2\<lparr>plc_overlap_buf := drop (length written - min OLA_WINDOW (length written)) written\<rparr> else p2);
             p4 = p3\<lparr>plc_conceal_count := 0, plc_gain := 1\<rparr>
         in p4\<lparr>plc_pitch_period := detect_pitch p4\<rparr>))"

definition conceal_n :: "(rat \<Rightarrow> rat) \<Rightarrow> nat \<Rightarrow> plc \<Rightarrow> plc \<times> sample list" where
  "conceal_n cosf n p =
     (if n = 0 then (p, [])
      else
        (let p1 = p\<lparr>plc_conceal_count := plc_conceal_count p + 1\<rparr>
         in if plc_conceal_count p1 > plc_max_conceal_frames p1 then (p1\<lparr>plc_gain := 0\<rparr>, replicate n 0)
            else
              (let p2 = p1\<lparr>plc_gain := f32_mul (plc_gain p1) DECAY_PER_FRAME\<rparr>;
                   frame = generate_pitch_repeat cosf p2 n (plc_gain p2);
                   fade = plc_conceal_count p2 = 1 \<and> plc_overlap_buf p2 \<noteq> [];
                   frame' = (if fade then apply_crossfade cosf (plc_overlap_buf p2) frame
                               (min (min (length (plc_overlap_buf p2)) n) OLA_WINDOW) else frame);
                   p3 = (if fade then p2\<lparr>plc_overlap_buf := []\<rparr> else p2)
               in (append_history frame' p3, frame'))))"

definition plc_conceal :: "(rat \<Rightarrow> rat) \<Rightarrow> plc \<Rightarrow> plc \<times> sample list" where
  "plc_conceal cosf p = conceal_n cosf (plc_samples_per_packet p) p"

end
