(* ===== verification/Rtp_Ports.thy ===== *)
theory Rtp_Ports
  imports Rtp_Prelude
begin

text \<open>
  The RTP port pool of \<^verbatim>\<open>src/rtp/engine.rs\<close>. The pool is
  the set of ports in use, a global of the program; the random offset is an argument.
\<close>

section \<open>Ports\<close>

definition first_even_port :: "u16 \<Rightarrow> u16" where
  "first_even_port start = (if start mod 2 \<noteq> 0 then sat_add start 1 else start)"

definition port_range_size :: "u16 \<Rightarrow> u16 \<Rightarrow> nat" where
  "port_range_size start last_port = max (unat ((last_port - start) div 2 + 1)) 1"

definition port_at :: "u16 \<Rightarrow> nat \<Rightarrow> u16" where
  "port_at start idx = start + of_nat idx * 2"

text \<open>The scan from the random offset, around the range.\<close>

definition scan_ports :: "u16 \<Rightarrow> nat \<Rightarrow> nat \<Rightarrow> u16 list" where
  "scan_ports start cnt offset = map (\<lambda>i. port_at start ((offset + i) mod cnt)) [0..<cnt]"

definition allocate_rtp_port :: "nat \<Rightarrow> u16 \<Rightarrow> u16 \<Rightarrow> u16 set \<Rightarrow> u16 set \<times> u16 option" where
  "allocate_rtp_port random start last_port pool =
     (if last_port \<le> start then (pool, None)
      else
        (let start' = first_even_port start
         in if start' \<ge> last_port then (pool, None)
            else
              (let cnt = port_range_size start' last_port
               in case find (\<lambda>p. p \<notin> pool) (scan_ports start' cnt (random mod cnt)) of
                    Some p \<Rightarrow> (insert p pool, Some p)
                  | None \<Rightarrow> (pool, None))))"

definition release_rtp_port :: "u16 \<Rightarrow> u16 set \<Rightarrow> u16 set" where
  "release_rtp_port p pool = pool - {p}"

lemma scan_ports_set: "0 < cnt \<Longrightarrow> set (scan_ports start cnt offset) = port_at start ` {..<cnt}"
proof -
  assume pos: "0 < cnt"
  have "(\<lambda>i. (offset + i) mod cnt) ` {..<cnt} = {..<cnt}"
  proof
    show "{..<cnt} \<subseteq> (\<lambda>i. (offset + i) mod cnt) ` {..<cnt}"
    proof
      fix j assume "j \<in> {..<cnt}"
      then have j: "j < cnt" by simp
      let ?i = "(j + (cnt - offset mod cnt)) mod cnt"
      have "(offset + ?i) mod cnt = (offset mod cnt + (j + (cnt - offset mod cnt))) mod cnt"
        by (metis mod_add_left_eq mod_add_right_eq)
      also have "offset mod cnt + (j + (cnt - offset mod cnt)) = j + cnt"
        using mod_less_divisor [OF pos, of offset] by linarith
      finally have "(offset + ?i) mod cnt = j" using j by simp
      moreover have "?i < cnt" using pos by simp
      ultimately show "j \<in> (\<lambda>i. (offset + i) mod cnt) ` {..<cnt}" by (metis imageI lessThan_iff)
    qed
  qed (use pos in auto)
  then show ?thesis unfolding scan_ports_def set_map set_upt atLeast0LessThan
    by (metis (no_types, lifting) image_cong image_image)
qed

lemma find_scan:
  "case find (\<lambda>p. p \<notin> pool) xs of Some p \<Rightarrow> p \<in> set xs \<and> p \<notin> pool | None \<Rightarrow> set xs \<subseteq> pool"
  by (induction xs) (auto split: option.split)

lemma odd_word: "(w mod 2 \<noteq> 0) = odd (unat (w :: u16))"
  by (metis even_iff_mod_2_eq_zero bit_0 bit_unsigned_iff possible_bit_0)

lemma first_even:
  assumes "start < last_port"
  shows "unat (first_even_port start) = (if odd (unat start) then unat start + 1 else unat start)"
proof -
  have "unat start + 1 < 2 ^ 16"
    using assms unsigned_less [of last_port, where ?'a = nat] by (simp add: word_less_nat_alt)
  then have "unat (start + 1) = unat start + 1" by (simp add: unat_word_ariths)
  then show ?thesis
    unfolding first_even_port_def odd_word by (auto simp: sat_add_def word_less_nat_alt)
qed

text \<open>The ports the scan looks at are the even ones of the range.\<close>

lemma port_at_range:
  assumes "even (unat start)" and "start < last_port"
  shows "port_at start ` {..<port_range_size start last_port} = {p. even (unat p) \<and> start \<le> p \<and> p \<le> last_port}"
proof -
  have d: "unat (last_port - start) = unat last_port - unat start"
    using assms(2) by (simp add: unat_sub word_less_nat_alt word_le_nat_alt)
  have lt: "unat last_port < 65536" using unsigned_less [of last_port, where ?'a = nat] by simp
  have "unat ((last_port - start) div 2 + 1) = (unat last_port - unat start) div 2 + 1"
    using lt by (simp add: unat_word_ariths unat_div d)
  then have cnt: "port_range_size start last_port = (unat last_port - unat start) div 2 + 1"
    by (simp add: port_range_size_def)
  have at: "unat (port_at start i) = unat start + i * 2" if "i < port_range_size start last_port" for i
  proof -
    have "unat start + i * 2 < 65536" using that lt assms(2) by (simp add: cnt word_less_nat_alt)
    then show ?thesis by (simp add: port_at_def unat_word_ariths unat_of_nat)
  qed
  show ?thesis
  proof (intro set_eqI iffI)
    fix p assume "p \<in> port_at start ` {..<port_range_size start last_port}"
    then obtain i where i: "i < port_range_size start last_port" "p = port_at start i" by auto
    from at [OF i(1)] i assms show "p \<in> {p. even (unat p) \<and> start \<le> p \<and> p \<le> last_port}"
      by (auto simp: word_le_nat_alt word_less_nat_alt cnt)
  next
    fix p assume "p \<in> {p. even (unat p) \<and> start \<le> p \<and> p \<le> last_port}"
    then have p: "even (unat p)" "unat start \<le> unat p" "unat p \<le> unat last_port" by (simp_all add: word_le_nat_alt)
    define i where "i = (unat p - unat start) div 2"
    have i: "i < port_range_size start last_port" "unat start + i * 2 = unat p"
      using p assms(1) by (auto simp: i_def cnt)
    with at have "p = port_at start i" by (simp add: word_unat_eq_iff)
    with i show "p \<in> port_at start ` {..<port_range_size start last_port}" by blast
  qed
qed

text \<open>Port allocation is sound and complete: a port handed out is even, within the range and was free, and is in use
  from then on; when none is handed out, the pool is unchanged and every even port of the range is in use, unless the
  range holds no more than one port after its first even one.\<close>

theorem port_allocation_exact:
  "case allocate_rtp_port random start last_port pool of
     (pool', Some p) \<Rightarrow> even (unat p) \<and> start \<le> p \<and> p \<le> last_port \<and> p \<notin> pool \<and> pool' = insert p pool
   | (pool', None) \<Rightarrow> pool' = pool
       \<and> ({p. even (unat p) \<and> start \<le> p \<and> p \<le> last_port} \<subseteq> pool \<or> last_port \<le> start
          \<or> odd (unat start) \<and> unat last_port = unat start + 1)"
proof (cases "last_port \<le> start \<or> first_even_port start \<ge> last_port")
  case True
  then show ?thesis using first_even [of start last_port]
    by (auto simp: allocate_rtp_port_def Let_def word_le_nat_alt word_less_nat_alt not_le split: if_splits)
next
  case False
  then have lt: "start < last_port" and lt': "first_even_port start < last_port" by (simp_all add: not_le)
  let ?s = "first_even_port start" and ?n = "port_range_size (first_even_port start) last_port"
  have s: "even (unat ?s)" and same: "{p. even (unat p) \<and> ?s \<le> p \<and> p \<le> last_port} = {p. even (unat p) \<and> start \<le> p \<and> p \<le> last_port}"
    using first_even [OF lt] by (auto simp: word_le_nat_alt Suc_le_eq order_le_less)
  have "0 < ?n" by (simp add: port_range_size_def)
  then have set: "set (scan_ports ?s ?n (random mod ?n)) = {p. even (unat p) \<and> start \<le> p \<and> p \<le> last_port}"
    by (simp add: scan_ports_set port_at_range [OF s lt'] same)
  show ?thesis
    using find_scan [where pool = pool and xs = "scan_ports ?s ?n (random mod ?n)"] False
    unfolding set by (auto simp: allocate_rtp_port_def Let_def split: option.split)
qed

end
