(* ===== verification/Rtp_Normalizer.thy ===== *)
theory Rtp_Normalizer
  imports Rtp_Prelude
begin

text \<open>
  \<^verbatim>\<open>TimestampNormalizer\<close> of \<^verbatim>\<open>src/rtp/engine.rs\<close>, which maps the timestamps of the
  remote stream to a continuous local timebase, and its reference: the timestamps that a stream
  without jumps would have. The offset is an \<^verbatim>\<open>i64\<close>; the sums and differences the code forms
  of it and of 32-bit values stay within its range.
\<close>

record ts_normalizer =
  tn_local_base_ts :: u32
  tn_remote_base_ts :: "u32 option"
  tn_ts_offset :: int
  tn_last_remote_ts :: "u32 option"
  tn_sample_rate :: u32
  tn_ptime_ms :: u32

definition normalizer_with_ptime :: "u32 \<Rightarrow> u32 \<Rightarrow> ts_normalizer" where
  "normalizer_with_ptime rate ptime =
     \<lparr>tn_local_base_ts = 0, tn_remote_base_ts = None, tn_ts_offset = 0, tn_last_remote_ts = None,
      tn_sample_rate = rate, tn_ptime_ms = ptime\<rparr>"

definition normalizer_new :: "u32 \<Rightarrow> ts_normalizer" where
  "normalizer_new rate = normalizer_with_ptime rate 20"

definition normalizer_spp :: "ts_normalizer \<Rightarrow> u32" where
  "normalizer_spp n = tn_sample_rate n * tn_ptime_ms n div 1000"

definition normalizer_set_ptime :: "u32 \<Rightarrow> ts_normalizer \<Rightarrow> ts_normalizer" where
  "normalizer_set_ptime ptime n = n\<lparr>tn_ptime_ms := ptime\<rparr>"

definition shifted_ts :: "ts_normalizer \<Rightarrow> u32 \<Rightarrow> u32" where
  "shifted_ts n ts = word_of_int (uint ts + tn_ts_offset n)"

definition ts_discontinuity :: "ts_normalizer \<Rightarrow> u32 \<Rightarrow> u32 \<Rightarrow> bool" where
  "ts_discontinuity n prev remote_ts =
     (let max_delta = tn_sample_rate n * 5; fwd = remote_ts - prev; bwd = prev - remote_ts
      in if bwd < max_delta \<and> bwd < fwd then True else fwd > max_delta)"

definition normalize :: "u32 \<Rightarrow> ts_normalizer \<Rightarrow> ts_normalizer \<times> u32 \<times> bool" where
  "normalize remote_ts n =
     (case tn_remote_base_ts n of
        None \<Rightarrow>
          (let n1 = n\<lparr>tn_remote_base_ts := Some remote_ts, tn_ts_offset := uint (tn_local_base_ts n) - uint remote_ts,
                     tn_last_remote_ts := Some remote_ts\<rparr>
           in (n1, shifted_ts n1 remote_ts, False))
      | Some _ \<Rightarrow>
          (let (n1, jump) =
             (case tn_last_remote_ts n of
                Some prev \<Rightarrow>
                  if ts_discontinuity n prev remote_ts then
                    (let base = shifted_ts n prev + normalizer_spp n
                     in (n\<lparr>tn_local_base_ts := base, tn_ts_offset := uint base - uint remote_ts,
                           tn_remote_base_ts := Some remote_ts\<rparr>, True))
                  else (n, False)
              | None \<Rightarrow> (n, False));
               n2 = n1\<lparr>tn_last_remote_ts := Some remote_ts\<rparr>
           in (n2, shifted_ts n2 remote_ts, jump)))"

definition normalizer_reset :: "ts_normalizer \<Rightarrow> ts_normalizer" where
  "normalizer_reset n =
     n\<lparr>tn_remote_base_ts := None, tn_ts_offset := 0, tn_last_remote_ts := None, tn_local_base_ts := 0\<rparr>"

fun normalize_all :: "ts_normalizer \<Rightarrow> u32 list \<Rightarrow> (u32 \<times> bool) list" where
  "normalize_all n [] = []"
| "normalize_all n (ts # tss) = (let (n', out) = normalize ts n in out # normalize_all n' tss)"

section \<open>The reference\<close>

text \<open>A timestamp that does not run forwards by at most five seconds is a jump, and takes the place one packet after the
  previous one; any other keeps its distance from the last.\<close>

definition ts_jump :: "u32 \<Rightarrow> u32 \<Rightarrow> u32 \<Rightarrow> bool" where
  "ts_jump rate prev ts \<longleftrightarrow> ts - prev > rate * 5 \<or> prev - ts < rate * 5 \<and> prev - ts < ts - prev"

fun reference_timestamps :: "u32 \<Rightarrow> u32 \<Rightarrow> u32 \<Rightarrow> u32 \<Rightarrow> u32 list \<Rightarrow> (u32 \<times> bool) list" where
  "reference_timestamps rate spp prev out [] = []"
| "reference_timestamps rate spp prev out (ts # tss) =
     (let jump = ts_jump rate prev ts; out' = (if jump then out + spp else out + (ts - prev))
      in (out', jump) # reference_timestamps rate spp ts out' tss)"

lemma shift_exact: "word_of_int (uint ts + (uint base - uint ts)) = (base :: u32)"
  by simp

lemma shift_word: "word_of_int (uint ts + off) = (ts + word_of_int off :: u32)"
  by simp

lemma normalize_next:
  assumes "tn_remote_base_ts n \<noteq> None" and "tn_last_remote_ts n = Some prev"
  shows "\<exists>n'. normalize ts n = (n', if ts_jump (tn_sample_rate n) prev ts then shifted_ts n prev + normalizer_spp n
        else shifted_ts n prev + (ts - prev), ts_jump (tn_sample_rate n) prev ts)
    \<and> tn_remote_base_ts n' \<noteq> None \<and> tn_last_remote_ts n' = Some ts \<and> tn_sample_rate n' = tn_sample_rate n
    \<and> tn_ptime_ms n' = tn_ptime_ms n
    \<and> shifted_ts n' ts = (if ts_jump (tn_sample_rate n) prev ts then shifted_ts n prev + normalizer_spp n
        else shifted_ts n prev + (ts - prev))"
proof -
  have j: "ts_discontinuity n prev ts = ts_jump (tn_sample_rate n) prev ts"
    by (auto simp: ts_discontinuity_def ts_jump_def Let_def)
  show ?thesis
    using assms by (auto simp: normalize_def j shifted_ts_def Let_def)
qed

lemma normalize_all_from:
  "tn_remote_base_ts n \<noteq> None \<Longrightarrow> tn_last_remote_ts n = Some prev \<Longrightarrow>
    normalize_all n tss = reference_timestamps (tn_sample_rate n) (normalizer_spp n) prev (shifted_ts n prev) tss"
proof (induction tss arbitrary: n prev)
  case (Cons ts tss)
  from normalize_next [OF Cons.prems, of ts] obtain n' where n': "normalize ts n = (n',
      if ts_jump (tn_sample_rate n) prev ts then shifted_ts n prev + normalizer_spp n
        else shifted_ts n prev + (ts - prev), ts_jump (tn_sample_rate n) prev ts)"
    "tn_remote_base_ts n' \<noteq> None" "tn_last_remote_ts n' = Some ts" "tn_sample_rate n' = tn_sample_rate n"
    "tn_ptime_ms n' = tn_ptime_ms n"
    "shifted_ts n' ts = (if ts_jump (tn_sample_rate n) prev ts then shifted_ts n prev + normalizer_spp n
        else shifted_ts n prev + (ts - prev))"
    by blast
  have "normalizer_spp n' = normalizer_spp n" by (simp add: normalizer_spp_def n')
  with Cons.IH [OF n'(2,3)] n'(4,6) show ?case by (simp add: n'(1) Let_def)
qed simp

text \<open>The normalizer computes the reference: on every stream of remote timestamps its outputs start at zero, keep the
  distances of the stream, and continue one packet after the last output where the stream jumps, modulo the 32 bits.\<close>

theorem normalizer_matches_reference:
  "normalize_all (normalizer_with_ptime rate ptime) tss
    = (case tss of [] \<Rightarrow> [] | ts # tss' \<Rightarrow> (0, False) # reference_timestamps rate (rate * ptime div 1000) ts 0 tss')"
proof (cases tss)
  case (Cons ts tss')
  obtain n' where n': "normalize ts (normalizer_with_ptime rate ptime) = (n', 0, False)" "tn_remote_base_ts n' \<noteq> None"
    "tn_last_remote_ts n' = Some ts" "tn_sample_rate n' = rate" "tn_ptime_ms n' = ptime" "shifted_ts n' ts = 0"
    by (simp add: normalize_def normalizer_with_ptime_def shifted_ts_def Let_def)
  have "normalizer_spp n' = rate * ptime div 1000" by (simp add: normalizer_spp_def n')
  with normalize_all_from [OF n'(2,3), of tss'] n'(4,6) show ?thesis by (simp add: Cons n'(1))
qed simp

end
