(* ===== verification/Rtp_Engine.thy ===== *)
theory Rtp_Engine
  imports Srtp Rtp_Jitter Rtp_Dtmf Rtp_Rtcp_Session Nat_Symmetric_Rtp Rtp_Plc Rtp_Ports Rtp_Normalizer Rtp_Strings
begin

text \<open>
  \<^verbatim>\<open>src/rtp/engine.rs\<close>: the engine that ties the components of a media stream together. Its
  background tasks are here as the steps they repeat: \<open>on_datagram\<close> and \<open>playout_tick\<close> of the
  receive task, \<open>rtcp_tick\<close> and \<open>silence_tick\<close>. A step takes its locks one by one; here it runs
  to its end, at the instant it is given. The crates the engine calls are the fields of
  \<open>rtp_crates\<close>, random choices are arguments, a channel is the list of what it holds, and the
  socket is the list of the datagrams handed to it; whether a sending fails (\<open>io\<close>) is an
  argument. After a panic the state of the operation that panicked is not followed.
\<close>

record rtp_crates =
  rk_aes :: "bytes \<Rightarrow> bytes \<Rightarrow> bytes"
  rk_hmac :: "bytes \<Rightarrow> bytes \<Rightarrow> bytes"
  rk_unmarshal :: "bytes \<Rightarrow> (string, rtp_packet) outcome"
  rk_marshal :: "rtp_packet \<Rightarrow> (string, bytes) outcome"
  rk_g711 :: g711_crate
  rk_cos :: "rat \<Rightarrow> rat"

section \<open>Constants and packet classes\<close>

definition CN_PAYLOAD_TYPE :: byte where "CN_PAYLOAD_TYPE = 13"
definition CN_PACING_PTIMES :: u32 where "CN_PACING_PTIMES = 60"
definition CN_DEFAULT_NOISE_LEVEL :: byte where "CN_DEFAULT_NOISE_LEVEL = 65"
definition RTCP_PT_MIN :: byte where "RTCP_PT_MIN = 200"
definition RTCP_PT_MAX_RANGE :: byte where "RTCP_PT_MAX_RANGE = 211"

definition is_rtcp_packet :: "bytes \<Rightarrow> bool" where
  "is_rtcp_packet d =
     (if length d < 4 then False
      else
        (let pt_byte = d ! 1
         in if pt_byte < RTCP_PT_MIN \<or> pt_byte > RTCP_PT_MAX_RANGE then False
            else length d \<ge> (unat (rd16 d 2) + 1) * 4))"

section \<open>State\<close>

record rtp_engine_config =
  ec_codec :: codec_type
  ec_ssrc :: "u32 option"
  ec_jitter_config :: jitter_config
  ec_recv_buffer_size :: nat
  ec_dtmf_buffer_size :: nat
  ec_enable_dtmf :: bool
  ec_dtmf_payload_type :: byte
  ec_media_timeout_ms :: u64
  ec_rtcp_mux :: bool
  ec_recv_codec :: "codec_type option"
  ec_ptime_ms :: u32
  ec_send_silence_when_idle :: bool
  ec_hold_media_timeout_ms :: u64
  ec_audio_payload_type :: "byte option"
  ec_flush_jb_on_dtmf :: bool

definition engine_config_default :: rtp_engine_config where
  "engine_config_default =
     \<lparr>ec_codec = Pcmu, ec_ssrc = None, ec_jitter_config = jitter_config_default, ec_recv_buffer_size = 100,
      ec_dtmf_buffer_size = 32, ec_enable_dtmf = True, ec_dtmf_payload_type = TELEPHONE_EVENT_PT,
      ec_media_timeout_ms = 30000, ec_rtcp_mux = False, ec_recv_codec = None, ec_ptime_ms = 20,
      ec_send_silence_when_idle = False, ec_hold_media_timeout_ms = 1800000, ec_audio_payload_type = None,
      ec_flush_jb_on_dtmf = False\<rparr>"

record rtp_engine =
  re_local_addr :: sock_addr
  re_remote_addr :: "sock_addr option"
  re_recv_codec :: codec_type
  re_packet_builder :: packet_builder
  re_ssrc :: u32
  re_running :: bool
  re_jitter_buffer :: jitter_buffer
  re_plc :: plc
  re_config :: rtp_engine_config
  re_recv_queue :: "sample list list"
  re_dtmf_sender :: dtmf_sender
  re_dtmf_detector :: dtmf_detector
  re_dtmf_queue :: "detected_dtmf list"
  re_last_rtp_received :: "nat option"
  re_timeouts :: nat
  re_last_cn_timestamp :: "nat option"
  re_rtcp_mux :: bool
  re_remote_ssrc :: "u32 option"
  re_force_marker :: bool
  re_ptime_ms :: u32
  re_timestamp_normalizer :: ts_normalizer
  re_last_audio_sent :: "nat option"
  re_allocated_port :: "u16 option"
  re_last_cn_level :: "byte option"
  re_in_cn_silence :: bool
  re_audio_pt_mismatch_warned :: bool
  re_timeout_fired :: bool
  re_is_on_hold :: bool
  re_recv_drop_count :: u64
  re_last_playout_tick :: "nat option"
  re_symmetric_rtp :: "symmetric_rtp option"
  re_srtp_send :: "srtp_context option"
  re_srtp_recv :: "srtp_context option"
  re_rtcp_session :: rtcp_session
  re_sent :: "(bytes \<times> sock_addr) list"

text \<open>The random values a new engine draws.\<close>

record engine_random =
  er_ssrc :: u32
  er_sequence :: u16
  er_timestamp :: u32
  er_rtcp :: rat

definition rtpsip_cname :: "u32 \<Rightarrow> bytes" where
  "rtpsip_cname ssrc = map (\<lambda>c. of_nat (of_char c)) (''rtpsip-'' @ show_nat (unat ssrc))"

definition engine_new :: "engine_random \<Rightarrow> nat \<Rightarrow> sock_addr \<Rightarrow> rtp_engine_config \<Rightarrow> rtp_engine res" where
  "engine_new rnd now actual_addr cfg =
     (if ec_recv_buffer_size cfg = 0 \<or> ec_dtmf_buffer_size cfg = 0 then Panic
      else
        (let ssrc = (case ec_ssrc cfg of Some s \<Rightarrow> s | None \<Rightarrow> er_ssrc rnd)
         in Ok \<lparr>re_local_addr = actual_addr, re_remote_addr = None,
                re_recv_codec = (case ec_recv_codec cfg of Some c \<Rightarrow> c | None \<Rightarrow> ec_codec cfg),
                re_packet_builder = builder_new (er_sequence rnd) (er_timestamp rnd) (payload_type_of (ec_codec cfg)) ssrc,
                re_ssrc = ssrc, re_running = False, re_jitter_buffer = jb_with_config (ec_jitter_config cfg),
                re_plc = plc_new (samples_per_frame (ec_codec cfg) (ec_ptime_ms cfg)), re_config = cfg,
                re_recv_queue = [], re_dtmf_sender = sender_with_payload_type ssrc (ec_dtmf_payload_type cfg),
                re_dtmf_detector = detector_with_payload_type (ec_dtmf_payload_type cfg), re_dtmf_queue = [],
                re_last_rtp_received = None, re_timeouts = 0, re_last_cn_timestamp = None,
                re_rtcp_mux = ec_rtcp_mux cfg, re_remote_ssrc = None, re_force_marker = True,
                re_ptime_ms = ec_ptime_ms cfg,
                re_timestamp_normalizer = normalizer_with_ptime (codec_sample_rate (ec_codec cfg)) (ec_ptime_ms cfg),
                re_last_audio_sent = None, re_allocated_port = None, re_last_cn_level = None, re_in_cn_silence = False,
                re_audio_pt_mismatch_warned = False, re_timeout_fired = False, re_is_on_hold = False,
                re_recv_drop_count = 0, re_last_playout_tick = None, re_symmetric_rtp = Some (symmetric_new 3),
                re_srtp_send = None, re_srtp_recv = None,
                re_rtcp_session = session_new (er_rtcp rnd) now ssrc (rtpsip_cname ssrc), re_sent = []\<rparr>))"

section \<open>Settings and queries\<close>

definition set_remote :: "sock_addr \<Rightarrow> rtp_engine \<Rightarrow> rtp_engine" where
  "set_remote a e = e\<lparr>re_remote_addr := Some a\<rparr>"

definition set_rtp_bug_flags :: "rtp_bug_flags \<Rightarrow> rtp_engine \<Rightarrow> rtp_engine" where
  "set_rtp_bug_flags f e = e\<lparr>re_dtmf_sender := sender_set_rtp_bugs (re_dtmf_sender e) f,
     re_dtmf_detector := detector_set_rtp_bugs (re_dtmf_detector e) f\<rparr>"

definition effective_media_timeout :: "rtp_engine \<Rightarrow> nat" where
  "effective_media_timeout e =
     unat (if re_is_on_hold e then ec_hold_media_timeout_ms (re_config e) else ec_media_timeout_ms (re_config e)) * 1000000"

definition is_media_timed_out :: "nat \<Rightarrow> rtp_engine \<Rightarrow> bool" where
  "is_media_timed_out now e =
     (case re_last_rtp_received e of Some t \<Rightarrow> now - t \<ge> effective_media_timeout e | None \<Rightarrow> False)"

definition cn_amplitude :: "rtp_engine \<Rightarrow> u16" where
  "cn_amplitude e = (case re_last_cn_level e of Some level \<Rightarrow> sat_sub 127 (ucast level) * 2 | None \<Rightarrow> 0)"

definition enable_rtcp_mux :: "bool \<Rightarrow> rtp_engine \<Rightarrow> rtp_engine" where
  "enable_rtcp_mux b e = e\<lparr>re_rtcp_mux := b\<rparr>"

definition set_recv_codec :: "codec_type \<Rightarrow> rtp_engine \<Rightarrow> rtp_engine" where
  "set_recv_codec c e = e\<lparr>re_recv_codec := c\<rparr>"

definition engine_set_ptime :: "u32 \<Rightarrow> rtp_engine \<Rightarrow> rtp_engine" where
  "engine_set_ptime ptime e = e\<lparr>re_ptime_ms := ptime,
     re_timestamp_normalizer := normalizer_set_ptime ptime (re_timestamp_normalizer e)\<rparr>"

definition engine_samples_per_packet :: "rtp_engine \<Rightarrow> u32" where
  "engine_samples_per_packet e = codec_sample_rate (ec_codec (re_config e)) * re_ptime_ms e div 1000"

definition set_hold_state :: "bool \<Rightarrow> rtp_engine \<Rightarrow> rtp_engine" where
  "set_hold_state b e = e\<lparr>re_is_on_hold := b\<rparr>"

definition reset_stream_state :: "rtp_engine \<Rightarrow> rtp_engine" where
  "reset_stream_state e = e\<lparr>re_jitter_buffer := jb_reset (re_jitter_buffer e),
     re_dtmf_detector := detector_reset (re_dtmf_detector e), re_plc := plc_reset (re_plc e),
     re_timestamp_normalizer := normalizer_reset (re_timestamp_normalizer e), re_audio_pt_mismatch_warned := False\<rparr>"

definition request_marker :: "rtp_engine \<Rightarrow> rtp_engine" where "request_marker e = e\<lparr>re_force_marker := True\<rparr>"

definition set_srtp :: "srtp_context \<Rightarrow> srtp_context \<Rightarrow> rtp_engine \<Rightarrow> rtp_engine" where
  "set_srtp snd_ctx recv_ctx e = e\<lparr>re_srtp_send := Some snd_ctx, re_srtp_recv := Some recv_ctx\<rparr>"

definition engine_start :: "rtp_engine \<Rightarrow> rtp_engine \<times> unit res" where
  "engine_start e = (if re_running e then (e, Err AlreadyStarted) else (e\<lparr>re_running := True\<rparr>, Ok ()))"

definition set_allocated_port :: "u16 \<Rightarrow> rtp_engine \<Rightarrow> rtp_engine" where
  "set_allocated_port p e = e\<lparr>re_allocated_port := Some p\<rparr>"

definition reset_jitter_buffer :: "rtp_engine \<Rightarrow> rtp_engine" where
  "reset_jitter_buffer e = e\<lparr>re_jitter_buffer := jb_reset (re_jitter_buffer e), re_plc := plc_reset (re_plc e)\<rparr>"

definition reset_dtmf_detector :: "rtp_engine \<Rightarrow> rtp_engine" where
  "reset_dtmf_detector e = e\<lparr>re_dtmf_detector := detector_reset (re_dtmf_detector e)\<rparr>"

section \<open>Channels\<close>

definition queue_audio :: "sample list \<Rightarrow> rtp_engine \<Rightarrow> rtp_engine" where
  "queue_audio samples e =
     (if length (re_recv_queue e) < ec_recv_buffer_size (re_config e)
      then e\<lparr>re_recv_queue := re_recv_queue e @ [samples]\<rparr>
      else e\<lparr>re_recv_drop_count := re_recv_drop_count e + 1\<rparr>)"

definition queue_dtmf :: "detected_dtmf \<Rightarrow> rtp_engine \<Rightarrow> rtp_engine" where
  "queue_dtmf d e =
     (if length (re_dtmf_queue e) < ec_dtmf_buffer_size (re_config e)
      then e\<lparr>re_dtmf_queue := re_dtmf_queue e @ [d]\<rparr> else e)"

definition recv_audio_try :: "rtp_engine \<Rightarrow> rtp_engine \<times> sample list option res" where
  "recv_audio_try e =
     (case re_recv_queue e of [] \<Rightarrow> (e, Ok None) | x # xs \<Rightarrow> (e\<lparr>re_recv_queue := xs\<rparr>, Ok (Some x)))"

text \<open>When the channel is empty, the blocking calls return what is queued before the timeout.\<close>

definition recv_audio_blocking :: "sample list option \<Rightarrow> rtp_engine \<Rightarrow> rtp_engine \<times> sample list option res" where
  "recv_audio_blocking arriving e = (case re_recv_queue e of [] \<Rightarrow> (e, Ok arriving) | _ # _ \<Rightarrow> recv_audio_try e)"

definition recv_dtmf_try :: "rtp_engine \<Rightarrow> rtp_engine \<times> detected_dtmf option res" where
  "recv_dtmf_try e =
     (case re_dtmf_queue e of [] \<Rightarrow> (e, Ok None) | x # xs \<Rightarrow> (e\<lparr>re_dtmf_queue := xs\<rparr>, Ok (Some x)))"

definition recv_dtmf_blocking :: "detected_dtmf option \<Rightarrow> rtp_engine \<Rightarrow> rtp_engine \<times> detected_dtmf option res" where
  "recv_dtmf_blocking arriving e = (case re_dtmf_queue e of [] \<Rightarrow> (e, Ok arriving) | _ # _ \<Rightarrow> recv_dtmf_try e)"

end
