(* ===== verification/Rtp_Engine_Recv.thy ===== *)
theory Rtp_Engine_Recv
  imports Rtp_Engine
begin

text \<open>
  The receive task of \<^verbatim>\<open>RtpEngine::start\<close>: what it does with a datagram, and at a playout tick
  when none has arrived.
\<close>

section \<open>Draining the jitter buffer\<close>

lemma bt_remove_less: "bt_get t k \<noteq> None \<Longrightarrow> length (bt_remove k t) < length t"
  by (auto simp: bt_get_def bt_remove_def map_of_eq_None_iff image_iff intro!: length_filter_less)

lemma bt_remove_le: "length (bt_remove k t) \<le> length t"
  by (simp add: bt_remove_def)

lemma skip_overfull_le: "length (jb_packets (skip_overfull b)) \<le> length (jb_packets b)"
  by (simp add: skip_overfull_def Let_def bt_remove_le sync_size_def add_lost_def bump_dropped_def stats_upd_def split: option.split)

lemma drift_skip_le: "length (jb_packets (drift_skip b)) \<le> length (jb_packets b)"
  by (simp add: drift_skip_def Let_def bt_remove_le sync_size_def bump_dropped_def stats_upd_def split: option.split)

lemma drift_check_le: "drift_check b = Ok b' \<Longrightarrow> length (jb_packets b') \<le> length (jb_packets b)"
  using drift_skip_le [of "b\<lparr>jb_drift_high_count := 0, jb_drift_low_count := 0\<rparr>"]
  by (auto simp: drift_check_def Let_def split: if_splits intro: order_trans [OF drift_skip_le])

lemma adapt_delay_packets: "adapt_delay b = Ok b' \<Longrightarrow> jb_packets b' = jb_packets b"
  by (auto simp: adapt_delay_def Let_def stats_upd_def split: if_splits)

lemma play_target_less:
  assumes "play_target k bp b = Ok (b', r)" and "bt_get (jb_packets b) k \<noteq> None"
  shows "length (jb_packets b') < length (jb_packets b)"
proof -
  let ?b1 = "(sync_size (b\<lparr>jb_packets := bt_remove k (jb_packets b), jb_last_played := Some k\<rparr>))\<lparr>jb_consecutive_miss := 0\<rparr>"
  obtain b2 where b2: "(if jb_pop_count ?b1 \<ge> 250 then adapt_delay (?b1\<lparr>jb_pop_count := 0\<rparr>) else Ok ?b1) = Ok b2"
    "drift_check b2 = Ok b'"
    using assms(1) by (auto simp: play_target_def Let_def)
  have "jb_packets b2 = jb_packets ?b1"
    using b2(1) adapt_delay_packets [of "?b1\<lparr>jb_pop_count := 0\<rparr>" b2] by (auto split: if_splits)
  then have "length (jb_packets b2) < length (jb_packets b)"
    using bt_remove_less [OF assms(2)] by (simp add: sync_size_def stats_upd_def)
  with drift_check_le [OF b2(2)] show ?thesis by simp
qed

lemma catch_up_less: "catch_up t b = (b', Some p) \<Longrightarrow> length (jb_packets b') < length (jb_packets b)"
  by (auto simp: catch_up_def Let_def sync_size_def add_lost_def stats_upd_def bt_remove_less
      split: if_splits option.splits)

lemma miss_target_less: "miss_target t b = (b', Some p) \<Longrightarrow> length (jb_packets b') < length (jb_packets b)"
  by (auto simp: miss_target_def Let_def add_lost_def stats_upd_def split: if_splits dest!: catch_up_less)

lemma jb_pop_less:
  assumes "jb_pop b = Ok (b', Some p)"
  shows "length (jb_packets b') < length (jb_packets b)"
proof -
  define b1 where "b1 = skip_overfull (b\<lparr>jb_playout_started := True, jb_pop_count := jb_pop_count b + 1,
      jb_drift_check_count := jb_drift_check_count b + 1\<rparr>)"
  have le: "length (jb_packets b1) \<le> length (jb_packets b)"
    unfolding b1_def by (rule order_trans [OF skip_overfull_le]) simp
  have "length (jb_packets b') < length (jb_packets b1)"
    using assms by (auto simp: jb_pop_def b1_def [symmetric] Let_def split: if_splits option.splits
        intro: play_target_less miss_target_less)
  with le show ?thesis by simp
qed

text \<open>\<^verbatim>\<open>while let Some(jb_packet) = jb.pop()\<close>. A buffer that gives a packet has one less afterwards, so
  the loop ends.\<close>

function drain :: "jitter_buffer \<Rightarrow> (jitter_buffer \<times> rtp_packet list) res" where
  "drain b =
     (case jb_pop b of
        Ok (b', Some p) \<Rightarrow> res_bind (drain b') (\<lambda>(b'', ps). Ok (b'', p # ps))
      | Ok (b', None) \<Rightarrow> Ok (b', [])
      | Err e \<Rightarrow> Err e
      | Panic \<Rightarrow> Panic)"
  by pat_completeness auto
termination by (relation "measure (\<lambda>b. length (jb_packets b))") (auto dest: jb_pop_less)

declare drain.simps [simp del]

section \<open>A packet\<close>

definition strip_padding :: "rtp_packet \<Rightarrow> rtp_packet option" where
  "strip_padding p =
     (if h_padding (pkt_header p) \<and> pkt_payload p \<noteq> [] then
        (let pad_len = unat (last (pkt_payload p))
         in if pad_len = 0 \<or> pad_len > length (pkt_payload p) then None
            else Some (p\<lparr>pkt_payload := take (length (pkt_payload p) - pad_len) (pkt_payload p)\<rparr>))
      else Some p)"

text \<open>A packet that has passed the checks: the media timeout is rearmed, a change of the SSRC resets the stream, and
  RTCP counts it.\<close>

definition note_received :: "nat \<Rightarrow> rtp_packet \<Rightarrow> rtp_engine \<Rightarrow> rtp_engine" where
  "note_received now p e =
     (let h = pkt_header p;
          e1 = e\<lparr>re_last_rtp_received := Some now, re_timeout_fired := False\<rparr>;
          e2 = (case re_remote_ssrc e1 of
                  Some prev \<Rightarrow> if h_ssrc h \<noteq> prev then reset_stream_state (e1\<lparr>re_remote_ssrc := Some (h_ssrc h)\<rparr>) else e1
                | None \<Rightarrow> e1\<lparr>re_remote_ssrc := Some (h_ssrc h)\<rparr>)
      in e2\<lparr>re_rtcp_session := record_rtp_received now (h_ssrc h) (h_sequence_number h) (h_timestamp h) (re_rtcp_session e2)\<rparr>)"

definition on_dtmf :: "nat \<Rightarrow> rtp_packet \<Rightarrow> rtp_engine \<Rightarrow> rtp_engine" where
  "on_dtmf now p e =
     (let h = pkt_header p;
          (d, detected) = process_rtp now (h_payload_type h) (h_sequence_number h) (h_timestamp h) (pkt_payload p)
                            (re_dtmf_detector e);
          e1 = e\<lparr>re_dtmf_detector := d\<rparr>
      in case detected of
           None \<Rightarrow> e1
         | Some r \<Rightarrow> queue_dtmf r (if ec_flush_jb_on_dtmf (re_config e1)
                                    then e1\<lparr>re_jitter_buffer := jb_reset (re_jitter_buffer e1)\<rparr> else e1))"

definition conceal_frame :: "rtp_crates \<Rightarrow> rtp_engine \<Rightarrow> rtp_engine" where
  "conceal_frame k e = (let (p, audio) = plc_conceal (rk_cos k) (re_plc e) in queue_audio audio (e\<lparr>re_plc := p\<rparr>))"

definition on_comfort_noise :: "rtp_crates \<Rightarrow> rtp_packet \<Rightarrow> rtp_engine \<Rightarrow> rtp_engine" where
  "on_comfort_noise k p e =
     conceal_frame k (case pkt_payload p of level # _ \<Rightarrow> e\<lparr>re_last_cn_level := Some level\<rparr> | [] \<Rightarrow> e)"

definition play_packet :: "rtp_crates \<Rightarrow> rtp_engine \<Rightarrow> rtp_packet \<Rightarrow> rtp_engine" where
  "play_packet k e p =
     (let samples = g711_decode (rk_g711 k) (re_recv_codec e) (pkt_payload p)
      in queue_audio samples (e\<lparr>re_plc := plc_update (rk_cos k) samples (re_plc e)\<rparr>))"

text \<open>The buffer before the packet is pushed: a large gap resets it, a marker restarts its initial buffering.\<close>

definition prepare_buffer :: "rtp_header \<Rightarrow> jitter_buffer \<Rightarrow> jitter_buffer" where
  "prepare_buffer h b =
     (let b1 = (case jb_last_played b of
                  Some last_seq \<Rightarrow>
                    (let fwd_gap = h_sequence_number h - last_seq
                     in if fwd_gap > 3000 \<and> fwd_gap < 60000 then jb_reset b else b)
                | None \<Rightarrow> b)
      in if h_marker h then reset_initial_buffering b1 else b1)"

definition on_audio :: "rtp_crates \<Rightarrow> nat \<Rightarrow> rtp_packet \<Rightarrow> rtp_engine \<Rightarrow> rtp_engine res" where
  "on_audio k now p e =
     (let (n, ts, jump) = normalize (h_timestamp (pkt_header p)) (re_timestamp_normalizer e);
          p1 = p\<lparr>pkt_header := (pkt_header p)\<lparr>h_timestamp := ts\<rparr>\<rparr>;
          e1 = e\<lparr>re_timestamp_normalizer := n,
                 re_jitter_buffer := (if jump then jb_reset (re_jitter_buffer e) else re_jitter_buffer e)\<rparr>;
          b = prepare_buffer (pkt_header p1) (re_jitter_buffer e1);
          e2 = e1\<lparr>re_jitter_buffer := b\<rparr>
      in if contains_seq b (h_sequence_number (pkt_header p1)) then Ok e2
         else
           res_bind (jb_push now p1 b) (\<lambda>b1. res_bind (drain b1) (\<lambda>(b2, popped).
             let e3 = e2\<lparr>re_jitter_buffer := b2\<rparr>
             in if popped \<noteq> [] then Ok (foldl (play_packet k) e3 popped)
                else if jb_is_ready b2 then Ok (conceal_frame k e3)
                else Ok e3)))"

definition on_media :: "rtp_crates \<Rightarrow> nat \<Rightarrow> rtp_packet \<Rightarrow> rtp_engine \<Rightarrow> rtp_engine res" where
  "on_media k now p e =
     (let pt = h_payload_type (pkt_header p)
      in if ec_enable_dtmf (re_config e) \<and> pt = ec_dtmf_payload_type (re_config e) then Ok (on_dtmf now p e)
         else if (case ec_audio_payload_type (re_config e) of
                    Some expected \<Rightarrow> pt \<noteq> expected \<and> pt \<noteq> CN_PAYLOAD_TYPE | None \<Rightarrow> False)
         then Ok (e\<lparr>re_audio_pt_mismatch_warned := True\<rparr>)
         else if pt = CN_PAYLOAD_TYPE then Ok (on_comfort_noise k p e)
         else on_audio k now p e)"

definition on_packet :: "rtp_crates \<Rightarrow> nat \<Rightarrow> rtp_packet \<Rightarrow> rtp_engine \<Rightarrow> rtp_engine res" where
  "on_packet k now p e =
     (if h_version (pkt_header p) \<noteq> 2 then Ok e
      else case strip_padding p of
             None \<Rightarrow> Ok e
           | Some p1 \<Rightarrow>
               if h_ssrc (pkt_header p1) = re_ssrc e then Ok e
               else on_media k now p1 (note_received now p1 e))"

section \<open>A datagram\<close>

definition learn_source :: "nat \<Rightarrow> sock_addr \<Rightarrow> rtp_engine \<Rightarrow> rtp_engine" where
  "learn_source now src e =
     (case re_symmetric_rtp e of
        None \<Rightarrow> e
      | Some s \<Rightarrow>
          (let (s1, changed) = process_incoming src now s;
               e1 = e\<lparr>re_symmetric_rtp := Some s1\<rparr>
           in if changed then
                (case effective_remote s1 of Some learned \<Rightarrow> e1\<lparr>re_remote_addr := Some learned\<rparr> | None \<Rightarrow> e1)
              else e1))"

definition foreign_source :: "sock_addr \<Rightarrow> rtp_engine \<Rightarrow> bool" where
  "foreign_source src e = (case re_remote_addr e of Some expected \<Rightarrow> src \<noteq> expected | None \<Rightarrow> False)"

definition on_rtcp :: "rtp_crates \<Rightarrow> nat \<Rightarrow> ntp_timestamp \<Rightarrow> bytes \<Rightarrow> rtp_engine \<Rightarrow> rtp_engine res" where
  "on_rtcp k now ntp d e =
     (case re_srtp_recv e of
        None \<Rightarrow> Ok (e\<lparr>re_rtcp_session := fst (process_incoming_rtcp now ntp d (re_rtcp_session e))\<rparr>)
      | Some c \<Rightarrow>
          (case unprotect_rtcp (rk_aes k) (rk_hmac k) c d of
             (c1, Ok decrypted) \<Rightarrow>
               Ok (e\<lparr>re_srtp_recv := Some c1,
                     re_rtcp_session := fst (process_incoming_rtcp now ntp decrypted (re_rtcp_session e))\<rparr>)
           | (c1, Err _) \<Rightarrow> Ok (e\<lparr>re_srtp_recv := Some c1\<rparr>)
           | (c1, Panic) \<Rightarrow> Panic))"

definition parse_and_go :: "rtp_crates \<Rightarrow> nat \<Rightarrow> bytes \<Rightarrow> rtp_engine \<Rightarrow> rtp_engine res" where
  "parse_and_go k now d e =
     (case parse_rtp_packet (rk_unmarshal k) d of
        Ok p \<Rightarrow> on_packet k now p e
      | Err _ \<Rightarrow> Ok e
      | Panic \<Rightarrow> Panic)"

definition on_rtp :: "rtp_crates \<Rightarrow> nat \<Rightarrow> bytes \<Rightarrow> rtp_engine \<Rightarrow> rtp_engine res" where
  "on_rtp k now d e =
     (case re_srtp_recv e of
        None \<Rightarrow> parse_and_go k now d e
      | Some c \<Rightarrow>
          (case unprotect_rtp (rk_aes k) (rk_hmac k) c d of
             (c1, Ok decrypted) \<Rightarrow> parse_and_go k now decrypted (e\<lparr>re_srtp_recv := Some c1\<rparr>)
           | (c1, Err _) \<Rightarrow> Ok (e\<lparr>re_srtp_recv := Some c1\<rparr>)
           | (c1, Panic) \<Rightarrow> Panic))"

text \<open>The receive buffer holds 8192 bytes. A panic ends the receive task.\<close>

definition on_datagram :: "rtp_crates \<Rightarrow> nat \<Rightarrow> ntp_timestamp \<Rightarrow> sock_addr \<Rightarrow> bytes \<Rightarrow> rtp_engine \<Rightarrow> rtp_engine res" where
  "on_datagram k now ntp src datagram e =
     (let d = take 8192 datagram
      in if length d < 12 then Ok e
         else
           (let e1 = learn_source now src e
            in if foreign_source src e1 then Ok e1
               else if re_rtcp_mux e1 \<and> is_rtcp_packet d then on_rtcp k now ntp d e1
               else on_rtp k now d e1))"

section \<open>The playout tick\<close>

definition tick_ms :: "rtp_engine \<Rightarrow> nat" where "tick_ms e = unat (max (re_ptime_ms e) 20)"

definition tick_due :: "nat \<Rightarrow> rtp_engine \<Rightarrow> bool" where
  "tick_due now e =
     (case re_last_playout_tick e of
        Some t \<Rightarrow> now - t \<ge> tick_ms e * 1000000
      | None \<Rightarrow> jb_is_ready (re_jitter_buffer e))"

definition playout :: "rtp_crates \<Rightarrow> nat \<Rightarrow> rtp_engine \<Rightarrow> rtp_engine res" where
  "playout k now e =
     (if tick_due now e then
        (case jb_pop (re_jitter_buffer e) of
           Ok (b, popped) \<Rightarrow>
             (let e1 = e\<lparr>re_last_playout_tick := Some now, re_jitter_buffer := b\<rparr>
              in case popped of
                   Some p \<Rightarrow> Ok (play_packet k e1 p)
                 | None \<Rightarrow> if jb_is_ready b then Ok (conceal_frame k e1) else Ok e1)
         | Err x \<Rightarrow> Err x
         | Panic \<Rightarrow> Panic)
      else Ok e)"

definition check_media_timeout :: "nat \<Rightarrow> rtp_engine \<Rightarrow> rtp_engine" where
  "check_media_timeout now e =
     (case re_last_rtp_received e of
        Some t \<Rightarrow>
          if now - t \<ge> effective_media_timeout e then
            (if re_timeout_fired e then e else e\<lparr>re_timeout_fired := True, re_timeouts := re_timeouts e + 1\<rparr>)
          else e
      | None \<Rightarrow> e)"

definition playout_tick :: "rtp_crates \<Rightarrow> nat \<Rightarrow> rtp_engine \<Rightarrow> rtp_engine res" where
  "playout_tick k now e = res_bind (playout k now e) (\<lambda>e1. Ok (check_media_timeout now e1))"

end
