(* ===== verification/Rtp_Engine_Send.thy ===== *)
theory Rtp_Engine_Send
  imports Rtp_Engine
begin

text \<open>
  What \<^verbatim>\<open>RtpEngine\<close> sends: audio, comfort noise, DTMF, silence, RTCP reports and the BYE
  when it stops. The sending of a datagram fails with the error \<open>io\<close> gives for its position in
  the operation.
\<close>

type_synonym io_errors = "nat \<Rightarrow> string option"

section \<open>Protecting and sending\<close>

definition protect_out :: "rtp_crates \<Rightarrow> bytes \<Rightarrow> rtp_engine \<Rightarrow> rtp_engine \<times> bytes res" where
  "protect_out k d e =
     (case re_srtp_send e of
        None \<Rightarrow> (e, Ok d)
      | Some c \<Rightarrow> (let (c1, r) = protect_rtp (rk_aes k) (rk_hmac k) c d in (e\<lparr>re_srtp_send := Some c1\<rparr>, r)))"

definition protect_out_rtcp :: "rtp_crates \<Rightarrow> bytes \<Rightarrow> rtp_engine \<Rightarrow> rtp_engine \<times> bytes res" where
  "protect_out_rtcp k d e =
     (case re_srtp_send e of
        None \<Rightarrow> (e, Ok d)
      | Some c \<Rightarrow> (let (c1, r) = protect_rtcp (rk_aes k) (rk_hmac k) c d in (e\<lparr>re_srtp_send := Some c1\<rparr>, r)))"

definition socket_send :: "string option \<Rightarrow> sock_addr \<Rightarrow> bytes \<Rightarrow> rtp_engine \<Rightarrow> rtp_engine \<times> unit res" where
  "socket_send io remote d e =
     (case io of Some x \<Rightarrow> (e, Err (Io x)) | None \<Rightarrow> (e\<lparr>re_sent := re_sent e @ [(d, remote)]\<rparr>, Ok ()))"

text \<open>A serialized RTP packet on its way: protected when SRTP is configured, then handed to the socket.\<close>

definition send_rtp_bytes :: "rtp_crates \<Rightarrow> string option \<Rightarrow> sock_addr \<Rightarrow> bytes \<Rightarrow> rtp_engine \<Rightarrow> rtp_engine \<times> unit res" where
  "send_rtp_bytes k io remote d e =
     (case protect_out k d e of
        (e1, Ok d1) \<Rightarrow> socket_send io remote d1 e1
      | (e1, Err x) \<Rightarrow> (e1, Err x)
      | (e1, Panic) \<Rightarrow> (e1, Panic))"

definition send_rtp_packet :: "rtp_crates \<Rightarrow> string option \<Rightarrow> sock_addr \<Rightarrow> rtp_packet \<Rightarrow> rtp_engine \<Rightarrow> rtp_engine \<times> unit res" where
  "send_rtp_packet k io remote p e =
     (case serialize_rtp_packet (rk_marshal k) p of
        Ok d \<Rightarrow> send_rtp_bytes k io remote d e
      | Err x \<Rightarrow> (e, Err x)
      | Panic \<Rightarrow> (e, Panic))"

section \<open>Audio\<close>

text \<open>\<^verbatim>\<open>send_audio\<close> is \<^verbatim>\<open>send_audio_with_marker\<close> without a marker of its own:
  \<^verbatim>\<open>build\<close> is \<^verbatim>\<open>build_with_marker\<close> with \<^verbatim>\<open>false\<close>.\<close>

definition send_audio_with_marker :: "rtp_crates \<Rightarrow> nat \<Rightarrow> string option \<Rightarrow> sample list \<Rightarrow> bool \<Rightarrow> rtp_engine
    \<Rightarrow> rtp_engine \<times> unit res" where
  "send_audio_with_marker k now io samples marker e =
     (case re_remote_addr e of
        None \<Rightarrow> (e, Err NotConnected)
      | Some remote \<Rightarrow>
          (let effective_marker = (marker \<or> re_force_marker e \<or> re_in_cn_silence e);
               e1 = e\<lparr>re_force_marker := False, re_in_cn_silence := False\<rparr>;
               encoded = g711_encode (rk_g711 k) (ec_codec (re_config e1)) samples
           in case build_with_marker (re_packet_builder e1) encoded (of_nat (length samples)) effective_marker of
                Panic \<Rightarrow> (e1, Panic)
              | Err x \<Rightarrow> (e1, Err x)
              | Ok (pb, packet) \<Rightarrow>
                  (case send_rtp_packet k io remote packet (e1\<lparr>re_packet_builder := pb\<rparr>) of
                     (e2, Ok _) \<Rightarrow>
                       (e2\<lparr>re_rtcp_session := record_rtp_sent (of_nat (length (pkt_payload packet)))
                              (h_timestamp (pkt_header packet)) (re_rtcp_session e2),
                           re_last_audio_sent := Some now\<rparr>, Ok ())
                   | (e2, Err x) \<Rightarrow> (e2, Err x)
                   | (e2, Panic) \<Rightarrow> (e2, Panic))))"

definition send_audio :: "rtp_crates \<Rightarrow> nat \<Rightarrow> string option \<Rightarrow> sample list \<Rightarrow> rtp_engine \<Rightarrow> rtp_engine \<times> unit res" where
  "send_audio k now io samples e = send_audio_with_marker k now io samples False e"

section \<open>Comfort noise\<close>

definition cn_paced :: "nat \<Rightarrow> rtp_engine \<Rightarrow> bool" where
  "cn_paced now e =
     (case re_last_cn_timestamp e of
        Some t \<Rightarrow> (now - t) div 1000000 < unat CN_PACING_PTIMES * unat (re_ptime_ms e) | None \<Rightarrow> False)"

definition cn_packet :: "rtp_engine \<Rightarrow> packet_builder \<times> rtp_packet" where
  "cn_packet e =
     (let (pb, seq) = next_sequence (re_packet_builder e);
          dbov = (case re_last_cn_level e of Some level \<Rightarrow> level | None \<Rightarrow> CN_DEFAULT_NOISE_LEVEL)
      in (pb, \<lparr>pkt_header = \<lparr>h_version = 2, h_padding = False, h_extension = False, h_marker = \<not> re_in_cn_silence e,
                 h_payload_type = CN_PAYLOAD_TYPE, h_sequence_number = seq, h_timestamp = pb_timestamp pb,
                 h_ssrc = pb_ssrc pb, h_csrc = [], h_extension_profile = 0, h_extensions = [],
                 h_extensions_padding = 0\<rparr>, pkt_payload = [dbov, 0]\<rparr>))"

definition send_comfort_noise :: "rtp_crates \<Rightarrow> nat \<Rightarrow> string option \<Rightarrow> rtp_engine \<Rightarrow> rtp_engine \<times> bool res" where
  "send_comfort_noise k now io e =
     (case re_remote_addr e of
        None \<Rightarrow> (e, Err NotConnected)
      | Some remote \<Rightarrow>
          if cn_paced now e then (e, Ok False)
          else
            (let (pb, packet) = cn_packet e
             in case send_rtp_packet k io remote packet (e\<lparr>re_packet_builder := pb\<rparr>) of
                  (e1, Ok _) \<Rightarrow> (e1\<lparr>re_last_cn_timestamp := Some now, re_in_cn_silence := True\<rparr>, Ok True)
                | (e1, Err x) \<Rightarrow> (e1, Err x)
                | (e1, Panic) \<Rightarrow> (e1, Panic)))"

section \<open>DTMF\<close>

text \<open>The packets of a digit are generated, and their sequence numbers reserved, before the first is sent.\<close>

definition begin_dtmf :: "char \<Rightarrow> u32 \<Rightarrow> rtp_engine \<Rightarrow> rtp_engine \<times> dtmf_packet list res" where
  "begin_dtmf digit duration_ms e =
     (case generate_digit (re_dtmf_sender e) digit duration_ms (re_ptime_ms e) (pb_sequence (re_packet_builder e))
             (pb_timestamp (re_packet_builder e)) of
        Ok (s, seq, packets) \<Rightarrow>
          (e\<lparr>re_dtmf_sender := s, re_packet_builder := set_sequence (re_packet_builder e) seq\<rparr>, Ok packets)
      | Err x \<Rightarrow> (e, Err x)
      | Panic \<Rightarrow> (e, Panic))"

fun send_dtmf_packets :: "rtp_crates \<Rightarrow> io_errors \<Rightarrow> sock_addr \<Rightarrow> nat \<Rightarrow> dtmf_packet list \<Rightarrow> rtp_engine \<Rightarrow> rtp_engine \<times> unit res" where
  "send_dtmf_packets k io remote i [] e = (e, Ok ())"
| "send_dtmf_packets k io remote i (p # ps) e =
     (case send_rtp_bytes k (io i) remote (to_rtp_bytes p) e of
        (e1, Ok _) \<Rightarrow> send_dtmf_packets k io remote (i + 1) ps e1
      | (e1, r) \<Rightarrow> (e1, r))"

definition engine_send_dtmf :: "rtp_crates \<Rightarrow> io_errors \<Rightarrow> char \<Rightarrow> u32 \<Rightarrow> rtp_engine \<Rightarrow> rtp_engine \<times> unit res" where
  "engine_send_dtmf k io digit duration_ms e =
     (case re_remote_addr e of
        None \<Rightarrow> (e, Err NotConnected)
      | Some remote \<Rightarrow>
          (case begin_dtmf digit duration_ms e of
             (e1, Ok packets) \<Rightarrow> send_dtmf_packets k io remote 0 packets e1
           | (e1, Err x) \<Rightarrow> (e1, Err x)
           | (e1, Panic) \<Rightarrow> (e1, Panic)))"

fun engine_send_dtmf_string :: "rtp_crates \<Rightarrow> (nat \<Rightarrow> io_errors) \<Rightarrow> string \<Rightarrow> u32 \<Rightarrow> rtp_engine \<Rightarrow> rtp_engine \<times> unit res" where
  "engine_send_dtmf_string k ios [] duration_ms e = (e, Ok ())"
| "engine_send_dtmf_string k ios (d # ds) duration_ms e =
     (case engine_send_dtmf k (ios 0) d duration_ms e of
        (e1, Ok _) \<Rightarrow> engine_send_dtmf_string k (\<lambda>i. ios (i + 1)) ds duration_ms e1
      | (e1, r) \<Rightarrow> (e1, r))"

section \<open>Background tasks\<close>

text \<open>The silence task, after it has slept for the packet time \<open>ptime_ms\<close> it read before.\<close>

definition silence_tick :: "rtp_crates \<Rightarrow> nat \<Rightarrow> string option \<Rightarrow> u32 \<Rightarrow> rtp_engine \<Rightarrow> rtp_engine" where
  "silence_tick k now io ptime_ms e =
     (let samples_per_pkt = unat (codec_sample_rate (ec_codec (re_config e)) * ptime_ms div 1000);
          should_send = (case re_last_audio_sent e of Some t \<Rightarrow> now - t > unat ptime_ms * 1000000 | None \<Rightarrow> True)
      in if should_send \<and> \<not> re_is_on_hold e \<and> re_remote_addr e \<noteq> None
         then fst (send_audio k now io (replicate samples_per_pkt 0) e) else e)"

text \<open>The RTCP task, after each second of sleep. The buffer has 512 bytes.\<close>

definition rtcp_tick :: "rtp_crates \<Rightarrow> rat \<Rightarrow> nat \<Rightarrow> ntp_timestamp \<Rightarrow> string option \<Rightarrow> rtp_engine \<Rightarrow> rtp_engine res" where
  "rtcp_tick k random now ntp io e =
     (if \<not> should_send_rtcp now (re_rtcp_session e) then Ok e
      else case build_rtcp random now ntp 512 (re_rtcp_session e) of
        Err x \<Rightarrow> Err x
      | Panic \<Rightarrow> Panic
      | Ok (s, d) \<Rightarrow>
          (let e1 = e\<lparr>re_rtcp_session := s\<rparr>
           in if d = [] then Ok e1
              else case re_remote_addr e1 of
                None \<Rightarrow> Ok e1
              | Some remote \<Rightarrow>
                  (case protect_out_rtcp k d e1 of
                     (e2, Ok d1) \<Rightarrow> Ok (fst (socket_send io remote d1 e2))
                   | (e2, Err _) \<Rightarrow> Ok e2
                   | (e2, Panic) \<Rightarrow> Panic)))"

section \<open>Stopping\<close>

definition session_ended :: bytes where
  "session_ended = map (\<lambda>c. of_nat (of_char c)) ''session ended''"

definition release_port :: "u16 set \<times> rtp_engine \<Rightarrow> u16 set \<times> rtp_engine" where
  "release_port pe =
     (let (pool, e) = pe
      in case re_allocated_port e of
           Some p \<Rightarrow> (release_rtp_port p pool, e\<lparr>re_allocated_port := None\<rparr>) | None \<Rightarrow> (pool, e))"

definition halt :: "u16 set \<Rightarrow> rtp_engine \<Rightarrow> u16 set \<times> rtp_engine" where
  "halt pool e = release_port (pool, e\<lparr>re_running := False\<rparr>)"

text \<open>The BYE is built in a buffer of 128 bytes, and is not sent unprotected when SRTP is configured.\<close>

definition engine_stop :: "rtp_crates \<Rightarrow> string option \<Rightarrow> u16 set \<Rightarrow> rtp_engine \<Rightarrow> (u16 set \<times> rtp_engine) res" where
  "engine_stop k io pool e =
     (let bye = session_build_bye (Some session_ended) (re_rtcp_session e)
      in if length bye > 128 then Panic
         else if bye = [] then Ok (halt pool e)
         else case re_remote_addr e of
           None \<Rightarrow> Ok (halt pool e)
         | Some remote \<Rightarrow>
             (case protect_out_rtcp k bye e of
                (e1, Ok d) \<Rightarrow> Ok (halt pool (fst (socket_send io remote d e1)))
              | (e1, Err _) \<Rightarrow> Ok (halt pool e1)
              | (e1, Panic) \<Rightarrow> Panic))"

definition engine_drop :: "u16 set \<Rightarrow> rtp_engine \<Rightarrow> u16 set \<times> rtp_engine" where
  "engine_drop pool e = halt pool e"

end
