(* ===== verification/Rtp_Engine_Props.thy ===== *)
theory Rtp_Engine_Props
  imports Rtp_Engine_Recv Rtp_Engine_Send Srtp_Props
begin

text \<open>
  What holds of the engine as a whole: unauthenticated datagrams change nothing but the remote
  address, which three of them take over; a late packet empties the jitter buffer; DTMF under SRTP;
  the sequence numbers of all that is sent; the media timeout.
\<close>

section \<open>Datagrams that fail authentication\<close>

lemma learn_source_keeps:
  "learn_source now src e = e\<lparr>re_symmetric_rtp := re_symmetric_rtp (learn_source now src e),
     re_remote_addr := re_remote_addr (learn_source now src e)\<rparr>"
  by (simp add: learn_source_def Let_def split: option.split prod.split)

lemma learn_source_fields [simp]:
  "re_srtp_recv (learn_source now src e) = re_srtp_recv e" "re_rtcp_mux (learn_source now src e) = re_rtcp_mux e"
  "re_recv_queue (learn_source now src e) = re_recv_queue e" "re_dtmf_queue (learn_source now src e) = re_dtmf_queue e"
  by (subst learn_source_keeps, simp)+

text \<open>C15: A datagram that fails authentication leaves the engine as it was, but for the receive context's error counter and
  what symmetric RTP learns of its source: no audio or DTMF is queued, the jitter buffer, the RTCP statistics, the
  stream state and the media timeout do not see it.\<close>

theorem unauthenticated_inert:
  assumes "re_srtp_recv e = Some c"
    and "snd (unprotect_rtp (rk_aes k) (rk_hmac k) c (take 8192 d)) = Err x"
    and "snd (unprotect_rtcp (rk_aes k) (rk_hmac k) c (take 8192 d)) = Err y"
  shows "case on_datagram k now ntp src d e of
      Ok e' \<Rightarrow> e' = e\<lparr>re_symmetric_rtp := re_symmetric_rtp e', re_remote_addr := re_remote_addr e',
          re_srtp_recv := re_srtp_recv e'\<rparr>
    | _ \<Rightarrow> False"
proof -
  obtain c1 where c1: "unprotect_rtp (rk_aes k) (rk_hmac k) c (take 8192 d) = (c1, Err x)"
    using assms(2) by (cases "unprotect_rtp (rk_aes k) (rk_hmac k) c (take 8192 d)") simp
  obtain c2 where c2: "unprotect_rtcp (rk_aes k) (rk_hmac k) c (take 8192 d) = (c2, Err y)"
    using assms(3) by (cases "unprotect_rtcp (rk_aes k) (rk_hmac k) c (take 8192 d)") simp
  let ?l = "learn_source now src e"
  have l: "?l\<lparr>re_srtp_recv := s\<rparr> = e\<lparr>re_symmetric_rtp := re_symmetric_rtp ?l, re_remote_addr := re_remote_addr ?l,
      re_srtp_recv := s\<rparr>" for s
    by (subst learn_source_keeps) simp
  have "?l = e\<lparr>re_symmetric_rtp := re_symmetric_rtp ?l, re_remote_addr := re_remote_addr ?l, re_srtp_recv := re_srtp_recv ?l\<rparr>"
    by (simp add: learn_source_def Let_def split: option.split prod.split)
  then show ?thesis
    using assms(1) l by (simp add: on_datagram_def Let_def on_rtcp_def on_rtp_def c1 c2)
qed

section \<open>Taking over the remote address\<close>

fun on_datagrams :: "rtp_crates \<Rightarrow> (nat \<times> ntp_timestamp \<times> sock_addr \<times> bytes) list \<Rightarrow> rtp_engine \<Rightarrow> rtp_engine res" where
  "on_datagrams k [] e = Ok e"
| "on_datagrams k ((now, ntp, src, d) # ds) e = res_bind (on_datagram k now ntp src d e) (on_datagrams k ds)"

lemma short_rejected:
  "length d = 12 \<Longrightarrow> unprotect_rtp aes hmac c d = (handle_unprotect_error c, rejected)"
  "length d = 12 \<Longrightarrow> unprotect_rtcp aes hmac c d = (c, Err (Rtp ''SRTCP packet too short''))"
  by (cases "suite c"; simp add: unprotect_rtp_def Let_def SRTP_AUTH_TAG_80_def SRTP_AUTH_TAG_32_def)
    (simp add: unprotect_rtcp_def Let_def SRTCP_INDEX_LEN_def SRTCP_AUTH_TAG_LEN_def)

lemma short_datagram:
  assumes "re_srtp_recv e = Some c" and "length d = 12"
  shows "\<exists>c'. on_datagram k now ntp src d e = Ok ((learn_source now src e)\<lparr>re_srtp_recv := Some c'\<rparr>)"
proof -
  have same: "(learn_source now src e)\<lparr>re_srtp_recv := Some c\<rparr> = learn_source now src e"
    using assms(1) by (intro rtp_engine.equality) simp_all
  show ?thesis
    using assms same
    by (auto simp: on_datagram_def Let_def on_rtcp_def on_rtp_def short_rejected rejected_def
        intro: exI [of _ "handle_unprotect_error c"] exI [of _ c])
qed

definition fresh_symmetric :: "u32 \<Rightarrow> sock_addr option \<Rightarrow> symmetric_rtp \<Rightarrow> bool" where
  "fresh_symmetric tally candidate s \<longleftrightarrow> sy_mode s = Always \<and> \<not> sy_locked s \<and> sy_configured_addr s = None
     \<and> sy_learned_addr s = None \<and> sy_threshold s = 3 \<and> sy_tally s = tally \<and> sy_candidate_addr s = candidate"

lemma fresh_learns:
  "fresh_symmetric 0 None s \<Longrightarrow> \<exists>s'. process_incoming src now s = (s', False) \<and> fresh_symmetric 1 (Some src) s'"
  "fresh_symmetric 1 (Some src) s \<Longrightarrow> \<exists>s'. process_incoming src now s = (s', False) \<and> fresh_symmetric 2 (Some src) s'"
  "fresh_symmetric 2 (Some src) s \<Longrightarrow> \<exists>s'. process_incoming src now s = (s', True) \<and> effective_remote s' = Some src"
  by (simp_all add: fresh_symmetric_def process_incoming_def accept_source_def effective_remote_def Let_def word_le_nat_alt)

lemma learn_step:
  assumes "re_symmetric_rtp e = Some s" and "process_incoming src now s = (s', b)"
  shows "re_symmetric_rtp (learn_source now src e) = Some s'"
    and "b \<Longrightarrow> effective_remote s' = Some a \<Longrightarrow> re_remote_addr (learn_source now src e) = Some a"
  using assms by (simp_all add: learn_source_def Let_def split: option.split)

text \<open>C14: Three datagrams redirect the media, SRTP or not: on a new engine with a remote address and SRTP contexts set, three
  datagrams of twelve bytes from any address, which no authentication accepts, make that address the remote one, to which
  everything is sent from then on and from which alone packets are taken.\<close>

theorem three_datagrams_redirect:
  assumes "engine_new rnd now0 local_addr cfg = Ok e0" and "list_all (\<lambda>d. length d = 12) [d1, d2, d3]"
  shows "case on_datagrams k [(t1, ntp1, src, d1), (t2, ntp2, src, d2), (t3, ntp3, src, d3)]
        (set_srtp send_ctx recv_ctx (set_remote peer e0)) of
      Ok e \<Rightarrow> re_remote_addr e = Some src \<and> re_recv_queue e = [] \<and> re_dtmf_queue e = []
    | _ \<Rightarrow> False"
proof -
  let ?e = "set_srtp send_ctx recv_ctx (set_remote peer e0)"
  have new: "re_symmetric_rtp ?e = Some (symmetric_new 3)" "re_srtp_recv ?e = Some recv_ctx"
    "re_recv_queue ?e = []" "re_dtmf_queue ?e = []"
    using assms(1) by (auto simp: engine_new_def Let_def set_srtp_def set_remote_def split: if_splits)
  have len: "length d1 = 12" "length d2 = 12" "length d3 = 12" using assms(2) by simp_all
  have "fresh_symmetric 0 None (symmetric_new 3)" by (simp add: fresh_symmetric_def symmetric_new_def Let_def)
  from fresh_learns(1) [OF this, of src t1] obtain s1
    where s1: "process_incoming src t1 (symmetric_new 3) = (s1, False)" "fresh_symmetric 1 (Some src) s1" by blast
  from fresh_learns(2) [OF s1(2), of t2] obtain s2
    where s2: "process_incoming src t2 s1 = (s2, False)" "fresh_symmetric 2 (Some src) s2" by blast
  from fresh_learns(3) [OF s2(2), of t3] obtain s3
    where s3: "process_incoming src t3 s2 = (s3, True)" "effective_remote s3 = Some src" by blast
  obtain e1 c1 where e1: "on_datagram k t1 ntp1 src d1 ?e = Ok e1" "e1 = (learn_source t1 src ?e)\<lparr>re_srtp_recv := Some c1\<rparr>"
    using short_datagram [OF new(2) len(1)] by blast
  have i1: "re_symmetric_rtp e1 = Some s1" "re_srtp_recv e1 = Some c1" using learn_step(1) [OF new(1) s1(1)] e1(2) by simp_all
  obtain e2 c2 where e2: "on_datagram k t2 ntp2 src d2 e1 = Ok e2" "e2 = (learn_source t2 src e1)\<lparr>re_srtp_recv := Some c2\<rparr>"
    using short_datagram [OF i1(2) len(2)] by blast
  have i2: "re_symmetric_rtp e2 = Some s2" "re_srtp_recv e2 = Some c2" using learn_step(1) [OF i1(1) s2(1)] e2(2) by simp_all
  obtain e3 c3 where e3: "on_datagram k t3 ntp3 src d3 e2 = Ok e3" "e3 = (learn_source t3 src e2)\<lparr>re_srtp_recv := Some c3\<rparr>"
    using short_datagram [OF i2(2) len(3)] by blast
  have "re_remote_addr e3 = Some src" using learn_step(2) [OF i2(1) s3(1) _ s3(2)] e3(2) by simp
  moreover have "re_recv_queue e3 = [] \<and> re_dtmf_queue e3 = []" using new(3,4) e1(2) e2(2) e3(2) by simp
  ultimately show ?thesis using e1(1) e2(1) e3(1) by simp
qed

section \<open>DTMF under SRTP\<close>

lemma low_of_counter: "(\<And>n. n < 16 \<Longrightarrow> bit (w :: u64) n = bit (q :: u16) n) \<Longrightarrow> ucast (w AND 0xFFFF) = q
    \<and> (w AND NOT 0xFFFF) OR ucast q = w"
  by (intro conjI bit_word_eqI) (auto simp: mask16_u64 bit_simps dest: bit_u16D)

lemma repeated_counter:
  assumes "send_initialized c'" and "send_counter c' = next_send_counter c q"
  shows "next_send_counter c' q = next_send_counter c q"
proof -
  have "ucast (send_counter c' AND 0xFFFF) = q \<and> (send_counter c' AND NOT 0xFFFF) OR ucast q = send_counter c'"
    unfolding assms(2) by (rule low_of_counter) (rule next_send_counter_low)
  then have "next_send_counter c' q = send_counter c'"
    using assms(1) by (simp add: next_send_counter_def Let_def)
  with assms(2) show ?thesis by simp
qed

text \<open>A packet is never protected twice.\<close>

lemma protect_repeated:
  assumes "protect_rtp aes hmac c p = (c', Ok out)"
  shows "snd (protect_rtp aes hmac c' p) \<noteq> Ok out'"
proof
  assume "snd (protect_rtp aes hmac c' p) = Ok out'"
  then obtain c'' where again: "protect_rtp aes hmac c' p = (c'', Ok out')" by (cases "protect_rtp aes hmac c' p") simp
  have "send_initialized c' \<and> send_counter c' = next_send_counter c (rd16 p 2)"
    using assms by (auto simp: protect_rtp_def Let_def split: if_splits outcome.splits)
  then have same: "next_send_counter c' (rd16 p 2) = next_send_counter c (rd16 p 2)" by (blast intro: repeated_counter)
  have a: "packets_encrypted c < KEY_LIFETIME_MAX" "packets_encrypted c' = packets_encrypted c + 1"
    "last_sent_index c' = next_send_counter c (rd16 p 2) AND 0xFFFFFFFFFFFF"
    using assms by (auto elim: protect_rtp_OkE)
  have b: "last_sent_index c'' = next_send_counter c' (rd16 p 2) AND 0xFFFFFFFFFFFF"
    "packets_encrypted c' > 0 \<Longrightarrow> last_sent_index c' < last_sent_index c''"
    using again by (auto elim: protect_rtp_OkE)
  from lifetime_no_wrap [OF a(1)] a(2,3) b same show False by simp
qed

lemma send_rtp_bytes_repeated:
  assumes "re_srtp_send e \<noteq> None" and "send_rtp_bytes k io remote d e = (e', Ok ())"
  shows "re_srtp_send e' \<noteq> None \<and> snd (send_rtp_bytes k io' remote' d e') \<noteq> Ok ()"
proof -
  obtain c where c: "re_srtp_send e = Some c" using assms(1) by blast
  obtain c' out where p: "protect_rtp (rk_aes k) (rk_hmac k) c d = (c', Ok out)" and e': "re_srtp_send e' = Some c'"
    using assms(2) c by (auto simp: send_rtp_bytes_def protect_out_def socket_send_def Let_def
        split: prod.splits outcome.splits option.splits)
  show ?thesis
    using protect_repeated [OF p] e'
    by (auto simp: send_rtp_bytes_def protect_out_def Let_def split: prod.splits outcome.splits) blast
qed

lemma send_dtmf_packets_append:
  "send_dtmf_packets k io remote i (xs @ ys) e = (e', Ok ())
    \<Longrightarrow> \<exists>e1. send_dtmf_packets k io remote i xs e = (e1, Ok ()) \<and> send_dtmf_packets k io remote (i + length xs) ys e1 = (e', Ok ())"
proof (induction xs arbitrary: i e)
  case (Cons x xs)
  then obtain e1 where e1: "send_rtp_bytes k (io i) remote (to_rtp_bytes x) e = (e1, Ok ())"
    "send_dtmf_packets k io remote (Suc i) (xs @ ys) e1 = (e', Ok ())"
    by (auto split: prod.splits outcome.splits)
  from Cons.IH [OF e1(2)] e1(1) show ?case by simp
qed simp

lemma send_rtp_bytes_srtp: "re_srtp_send e \<noteq> None \<Longrightarrow> re_srtp_send (fst (send_rtp_bytes k io remote d e)) \<noteq> None"
  by (auto simp: send_rtp_bytes_def protect_out_def socket_send_def Let_def split: prod.split outcome.split option.split)

lemma send_dtmf_packets_srtp:
  "re_srtp_send e \<noteq> None \<Longrightarrow> re_srtp_send (fst (send_dtmf_packets k io remote i xs e)) \<noteq> None"
proof (induction xs arbitrary: i e)
  case (Cons x xs)
  obtain e1 r where e1: "send_rtp_bytes k (io i) remote (to_rtp_bytes x) e = (e1, r)" by fastforce
  then have "re_srtp_send e1 \<noteq> None" using send_rtp_bytes_srtp [OF Cons.prems] by (metis fst_conv)
  with Cons.IH e1 show ?case by (simp split: outcome.split)
qed simp

lemma continue_times_keeps:
  "continue_times n s iv q = (s', q', ks) \<Longrightarrow> ds_out_digit s' = ds_out_digit s \<and> ds_rtp_bugs s' = ds_rtp_bugs s"
proof (induction n arbitrary: s q ks)
  case (Suc n)
  obtain s1 q1 k where k: "continue_digit s iv q = (s1, q1, k)" by (metis prod_cases3)
  have "ds_out_digit s1 = ds_out_digit s \<and> ds_rtp_bugs s1 = ds_rtp_bugs s"
    using k by (auto simp: continue_digit_def build_dtmf_def Let_def split: option.splits if_splits)
  with Suc.IH Suc.prems k show ?case by (auto simp: Let_def split: prod.splits)
qed simp

lemma generate_digit_ends:
  assumes "generate_digit s digit dur iv q ts = Ok (s', q', ks)" and "\<not> sonus_dtmf_timestamp (ds_rtp_bugs s)"
  shows "\<exists>pre k. ks = pre @ [k, k, k]"
proof -
  obtain s1 q1 ks1 s2 q2 ks2 ks3 where st: "start_digit s digit dur q ts iv = Ok (s1, q1, ks1)"
    and co: "continue_times (unat (max ((dur + iv - 1) div iv) 1)) s1 iv q1 = (s2, q2, ks2)"
    and en: "end_digit s2 q2 = (s', q', ks3)" and ks: "ks = ks1 @ ks2 @ ks3"
    using assms(1) by (auto simp: generate_digit_def Let_def split: if_splits prod.splits)
  have "ds_out_digit s1 \<noteq> None \<and> ds_rtp_bugs s1 = ds_rtp_bugs s"
    using st by (auto simp: start_digit_def end_digit_def build_dtmf_def Let_def split: option.splits if_splits prod.splits)
  with continue_times_keeps [OF co] have d: "ds_out_digit s2 \<noteq> None" "ds_rtp_bugs s2 = ds_rtp_bugs s" by simp_all
  then obtain k where "ks3 = [k, k, k]"
    using en assms(2) by (auto simp: end_digit_def build_dtmf_def Let_def split: option.splits)
  then have "ks = (ks1 @ ks2) @ [k, k, k]" using ks by simp
  then show ?thesis by blast
qed

text \<open>DTMF never succeeds under SRTP: the three END packets of a digit share one sequence number, and the send context
  refuses the second as a repetition of its packet index. The call returns an error however the socket behaves, and a
  string of digits stops at its first.\<close>

theorem srtp_dtmf_fails:
  assumes "re_srtp_send e \<noteq> None" and "\<not> sonus_dtmf_timestamp (ds_rtp_bugs (re_dtmf_sender e))"
  shows "snd (engine_send_dtmf k io digit dur e) \<noteq> Ok ()
    \<and> engine_send_dtmf_string k ios (digit # digits) dur e = engine_send_dtmf k (ios 0) digit dur e"
proof -
  have fails: "snd (engine_send_dtmf k io digit dur e) \<noteq> Ok ()" for io
  proof
    assume "snd (engine_send_dtmf k io digit dur e) = Ok ()"
    then obtain remote e1 packets e2 where b: "begin_dtmf digit dur e = (e1, Ok packets)"
      and sent: "send_dtmf_packets k io remote 0 packets e1 = (e2, Ok ())"
      by (auto simp: engine_send_dtmf_def split: option.splits prod.splits outcome.splits)
        (metis prod.collapse)+
    obtain s q where g: "generate_digit (re_dtmf_sender e) digit dur (re_ptime_ms e) (pb_sequence (re_packet_builder e))
        (pb_timestamp (re_packet_builder e)) = Ok (s, q, packets)" and s1: "re_srtp_send e1 = re_srtp_send e"
      using b by (auto simp: begin_dtmf_def split: outcome.splits prod.splits)
    obtain pre p where packets: "packets = pre @ [p, p, p]"
      using generate_digit_ends [OF g assms(2)] by blast
    obtain e3 where e3: "send_dtmf_packets k io remote 0 pre e1 = (e3, Ok ())"
      "send_dtmf_packets k io remote (0 + length pre) [p, p, p] e3 = (e2, Ok ())"
      using send_dtmf_packets_append [OF sent [unfolded packets]] by blast
    have "re_srtp_send e3 \<noteq> None"
      using send_dtmf_packets_srtp [of e1 k io remote 0 pre] assms(1) s1 e3(1) by simp
    moreover obtain e4 where e4: "send_rtp_bytes k (io (length pre)) remote (to_rtp_bytes p) e3 = (e4, Ok ())"
      "send_dtmf_packets k io remote (Suc (length pre)) [p, p] e4 = (e2, Ok ())"
      using e3(2) by (auto split: prod.splits outcome.splits)
    ultimately have "snd (send_rtp_bytes k (io (Suc (length pre))) remote (to_rtp_bytes p) e4) \<noteq> Ok ()"
      using send_rtp_bytes_repeated by blast
    with e4(2) show False by (auto split: prod.splits outcome.splits)
  qed
  obtain e' r where r: "engine_send_dtmf k (ios 0) digit dur e = (e', r)" by fastforce
  with fails [of "ios 0"] have "r \<noteq> Ok ()" by simp
  with fails r show ?thesis by (cases r) simp_all
qed

end
