(* ===== verification/Rtp_Engine_Stream.thy ===== *)
theory Rtp_Engine_Stream
  imports Rtp_Engine_Recv Rtp_Engine_Send
begin

text \<open>
  The received and the sent stream of the engine: what a late packet does to the jitter buffer, when
  the media timeout is announced, and the sequence numbers of the packets sent.
\<close>

section \<open>Late packets\<close>

lemma skip_overfull_sub: "set (jb_packets (skip_overfull b)) \<subseteq> set (jb_packets b)"
  by (auto simp: skip_overfull_def Let_def bt_remove_def sync_size_def bump_dropped_def stats_upd_def split: option.split)

lemma drift_skip_sub: "set (jb_packets (drift_skip b)) \<subseteq> set (jb_packets b)"
  by (auto simp: drift_skip_def Let_def bt_remove_def sync_size_def bump_dropped_def stats_upd_def split: option.split)

lemma drift_check_sub: "drift_check b = Ok b' \<Longrightarrow> set (jb_packets b') \<subseteq> set (jb_packets b)"
  using drift_skip_sub [of "b\<lparr>jb_drift_high_count := 0, jb_drift_low_count := 0\<rparr>"]
  by (auto simp: drift_check_def Let_def split: if_splits dest!: subsetD [OF drift_skip_sub])

lemma play_target_sub:
  assumes "play_target k bp b = Ok (b', r)"
  shows "set (jb_packets b') \<subseteq> set (jb_packets b)"
proof -
  let ?b1 = "(sync_size (b\<lparr>jb_packets := bt_remove k (jb_packets b), jb_last_played := Some k\<rparr>))\<lparr>jb_consecutive_miss := 0\<rparr>"
  obtain b2 where b2: "(if jb_pop_count ?b1 \<ge> 250 then adapt_delay (?b1\<lparr>jb_pop_count := 0\<rparr>) else Ok ?b1) = Ok b2"
    "drift_check b2 = Ok b'"
    using assms by (auto simp: play_target_def Let_def)
  have "jb_packets b2 = jb_packets ?b1"
    using b2(1) adapt_delay_packets [of "?b1\<lparr>jb_pop_count := 0\<rparr>" b2] by (auto split: if_splits)
  then have "set (jb_packets b2) \<subseteq> set (jb_packets b)" by (auto simp: sync_size_def stats_upd_def bt_remove_def)
  with drift_check_sub [OF b2(2)] show ?thesis by blast
qed

lemma miss_target_sub: "miss_target t b = (b', r) \<Longrightarrow> set (jb_packets b') \<subseteq> set (jb_packets b)"
  by (auto simp: miss_target_def catch_up_def Let_def add_lost_def stats_upd_def sync_size_def bt_remove_def
      split: if_splits option.splits)

lemma jb_pop_sub:
  assumes "jb_pop b = Ok (b', r)"
  shows "set (jb_packets b') \<subseteq> set (jb_packets b)"
proof -
  define b1 where "b1 = skip_overfull (b\<lparr>jb_playout_started := True, jb_pop_count := jb_pop_count b + 1,
      jb_drift_check_count := jb_drift_check_count b + 1\<rparr>)"
  have "set (jb_packets b1) \<subseteq> set (jb_packets b)"
    unfolding b1_def by (rule order_trans [OF skip_overfull_sub]) simp
  moreover have "set (jb_packets b') \<subseteq> set (jb_packets b1) \<or> b' = b"
    using assms by (auto simp: jb_pop_def b1_def [symmetric] Let_def split: if_splits option.splits
        dest: play_target_sub miss_target_sub)
  ultimately show ?thesis by auto
qed

lemma drain_bounds:
  "drain b = Ok (b', ps) \<Longrightarrow> set (jb_packets b') \<subseteq> set (jb_packets b) \<and> length ps \<le> length (jb_packets b)"
proof (induction b arbitrary: b' ps rule: drain.induct)
  case (1 b)
  from 1(2) have "(case jb_pop b of Ok (b', Some p) \<Rightarrow> res_bind (drain b') (\<lambda>(b'', ps). Ok (b'', p # ps))
      | Ok (b', None) \<Rightarrow> Ok (b', []) | Err e \<Rightarrow> Err e | Panic \<Rightarrow> Panic) = Ok (b', ps)" by (subst (asm) drain.simps)
  then consider (over) "jb_pop b = Ok (b', None)" "ps = []"
    | (more) b1 p qs where "jb_pop b = Ok (b1, Some p)" "drain b1 = Ok (b', qs)" "ps = p # qs"
    by (auto split: outcome.splits option.splits)
  then show ?case
  proof cases
    case over
    then show ?thesis using jb_pop_sub by auto
  next
    case more
    have "set (jb_packets b') \<subseteq> set (jb_packets b1) \<and> length qs \<le> length (jb_packets b1)"
      by (rule "1.IH" [OF more(1) _ _ more(2)]) simp_all
    with jb_pop_sub [OF more(1)] jb_pop_less [OF more(1)] more(3) show ?thesis by auto
  qed
qed

lemma evict_excess_sub: "set (jb_packets (evict_excess b)) \<subseteq> set (jb_packets b)
    \<and> length (jb_packets (evict_excess b)) \<le> length (jb_packets b)"
proof (induction b rule: evict_excess.induct)
  case (1 b)
  then show ?case
    by (subst evict_excess.simps, subst (2) evict_excess.simps)
      (auto simp: bump_dropped_def stats_upd_def bt_remove_def split: option.splits
        intro: order_trans [OF _ length_filter_le])
qed

lemma note_missing_packets: "jb_packets (foldl note_missing b seqs) = jb_packets b"
  by (induction seqs arbitrary: b) (simp_all add: note_missing_def bump_nacks_def stats_upd_def)

lemma push_empty:
  assumes "jb_packets b = []" and "jb_push now p b = Ok b'"
  shows "fst ` set (jb_packets b') \<subseteq> {h_sequence_number (pkt_header p)} \<and> length (jb_packets b') \<le> 1"
proof -
  let ?seq = "h_sequence_number (pkt_header p)"
  have one: "fst ` set (jb_packets c) \<subseteq> {?seq} \<and> length (jb_packets c) \<le> 1"
    if "jb_packets d = []" "check_initial (sync_size (evict_excess (store_packet now p d))) = Ok c" for c d
  proof -
    have s: "jb_packets (store_packet now p d) = [(?seq, \<lparr>bp_packet = p, bp_arrival_time = now\<rparr>)]"
      using that(1) by (simp add: store_packet_def)
    have "jb_packets c = jb_packets (evict_excess (store_packet now p d))"
      using that(2) by (auto simp: check_initial_def sync_size_def stats_upd_def split: if_splits)
    with evict_excess_sub [of "store_packet now p d"] s show ?thesis by auto
  qed
  have u: "jb_packets c = []" if "update_jitter now ts d = Ok c" "jb_packets d = []" for c d ts
    using that by (auto simp: update_jitter_def Let_def stats_upd_def split: option.splits if_splits)
  have n: "jb_packets (note_gap q (count_reordered q d)) = []" if "jb_packets d = []" for q d
    using that by (auto simp: note_gap_def count_reordered_def note_missing_packets bump_reordered_def
        bump_recovered_def stats_upd_def Let_def split: option.split)
  have a: "jb_packets (advance_next q d) = jb_packets d" for q d by (simp add: advance_next_def)
  have r: "jb_packets (bump_received b) = []" "jb_packets (bump_dropped (bump_received b)) = []"
    using assms(1) by (simp_all add: bump_received_def bump_dropped_def stats_upd_def)
  consider "b' = bump_dropped (bump_received b)" | "b' = restart_with now p (bump_received b)"
    | c where "update_jitter now (h_timestamp (pkt_header p)) (bump_received b) = Ok c" "enqueue now p c = Ok b'"
    using assms(2) by (auto simp: jb_push_def Let_def split: if_splits)
  then show ?thesis
  proof cases
    case 2
    then show ?thesis
      by (simp add: restart_with_def Let_def sync_size_def stats_upd_def store_packet_def jb_reset_def bump_received_def)
  next
    case (3 c)
    let ?c = "note_gap ?seq (count_reordered ?seq c)"
    have e: "jb_packets ?c = []" by (rule n) (rule u [OF 3(1) r(1)])
    have "enqueue now p c = check_initial (sync_size (evict_excess (store_packet now p (advance_next ?seq ?c))))"
      by (simp add: enqueue_def Let_def e bt_get_def)
    with 3(2) one [of "advance_next ?seq ?c" b'] a e show ?thesis by simp
  qed (use r in simp)
qed

lemma prepare_empty: "jb_packets b = [] \<Longrightarrow> jb_packets (prepare_buffer h b) = []"
  by (auto simp: prepare_buffer_def jb_reset_def reset_initial_buffering_def stats_upd_def Let_def split: option.split)

lemma queue_audio_grows: "length (re_recv_queue (queue_audio s e)) \<le> length (re_recv_queue e) + 1"
  by (simp add: queue_audio_def)

lemma play_packet_grows: "length (re_recv_queue (play_packet k e p)) \<le> length (re_recv_queue e) + 1"
  unfolding play_packet_def Let_def by (rule order_trans [OF queue_audio_grows]) simp

lemma play_packet_buffer [simp]: "re_jitter_buffer (play_packet k e p) = re_jitter_buffer e"
  by (simp add: play_packet_def queue_audio_def Let_def)

lemma conceal_frame_buffer [simp]: "re_jitter_buffer (conceal_frame k e) = re_jitter_buffer e"
  by (simp add: conceal_frame_def queue_audio_def split: prod.split)

lemma conceal_frame_grows: "length (re_recv_queue (conceal_frame k e)) \<le> length (re_recv_queue e) + 1"
  unfolding conceal_frame_def by (auto split: prod.split intro: order_trans [OF queue_audio_grows])

text \<open>A late packet empties the jitter buffer: audio whose timestamp is behind that of the last packet by less than five
  seconds, as any packet has that the network has reordered, counts as a discontinuity; everything buffered is thrown
  away, and after it the buffer holds nothing but, at most, the late packet itself.\<close>

theorem late_packet_empties_buffer:
  assumes "tn_remote_base_ts (re_timestamp_normalizer e) \<noteq> None"
    and "tn_last_remote_ts (re_timestamp_normalizer e) = Some newest"
    and "tn_sample_rate (re_timestamp_normalizer e) = 8000"
    and "h_timestamp (pkt_header p) = newest - behind" and "0 < behind" and "behind < 40000"
    and "on_audio k now p e = Ok e'"
  shows "fst ` set (jb_packets (re_jitter_buffer e')) \<subseteq> {h_sequence_number (pkt_header p)}
    \<and> length (re_recv_queue e') \<le> length (re_recv_queue e) + 1"
proof -
  let ?n = "re_timestamp_normalizer e" and ?ts = "h_timestamp (pkt_header p)"
  have d: "newest - ?ts = behind" "?ts - newest = - behind" using assms(4) by simp_all
  have "behind < - behind"
    using assms(5,6) by (auto simp: word_less_def uint_word_ariths zmod_zminus1_eq_if)
  then have "ts_discontinuity ?n newest ?ts"
    using assms(3,6) by (simp add: ts_discontinuity_def d Let_def)
  then obtain n ts where n: "normalize ?ts ?n = (n, ts, True)"
    using assms(1,2) by (auto simp: normalize_def Let_def)
  let ?p = "p\<lparr>pkt_header := (pkt_header p)\<lparr>h_timestamp := ts\<rparr>\<rparr>"
  let ?b = "prepare_buffer (pkt_header ?p) (jb_reset (re_jitter_buffer e))"
  have b: "jb_packets ?b = []" by (rule prepare_empty) (simp add: jb_reset_def)
  then have "\<not> contains_seq ?b (h_sequence_number (pkt_header ?p))" by (simp add: contains_seq_def bt_get_def)
  then obtain b1 b2 ps where b1: "jb_push now ?p ?b = Ok b1" and b2: "drain b1 = Ok (b2, ps)"
    and e': "(if ps \<noteq> [] then Ok (foldl (play_packet k) (e\<lparr>re_timestamp_normalizer := n, re_jitter_buffer := b2\<rparr>) ps)
        else if jb_is_ready b2 then Ok (conceal_frame k (e\<lparr>re_timestamp_normalizer := n, re_jitter_buffer := b2\<rparr>))
        else Ok (e\<lparr>re_timestamp_normalizer := n, re_jitter_buffer := b2\<rparr>)) = (Ok e' :: rtp_engine res)"
    using assms(7) by (auto simp: on_audio_def n Let_def)
  have k: "fst ` set (jb_packets b1) \<subseteq> {h_sequence_number (pkt_header p)}" "length (jb_packets b1) \<le> 1"
    using push_empty [OF b b1] by simp_all
  have "length ps \<le> 1" using drain_bounds [OF b2] k(2) by simp
  then consider "ps = []" | q where "ps = [q]" by (cases ps) auto
  then have "re_jitter_buffer e' = b2 \<and> length (re_recv_queue e') \<le> length (re_recv_queue e) + 1"
  proof cases
    case 1
    then show ?thesis using e' [symmetric] conceal_frame_grows [of k "e\<lparr>re_timestamp_normalizer := n, re_jitter_buffer := b2\<rparr>"] by (simp split: if_splits)
  next
    case (2 q)
    then show ?thesis using e' [symmetric] play_packet_grows [of k "e\<lparr>re_timestamp_normalizer := n, re_jitter_buffer := b2\<rparr>" q] by simp
  qed
  moreover have "fst ` set (jb_packets b2) \<subseteq> {h_sequence_number (pkt_header p)}"
    using drain_bounds [OF b2] k(1) by auto
  ultimately show ?thesis by simp
qed

section \<open>The media timeout\<close>

lemma playout_timeout_fields:
  "playout k now e = Ok e' \<Longrightarrow> re_last_rtp_received e' = re_last_rtp_received e \<and> re_timeout_fired e' = re_timeout_fired e
    \<and> re_timeouts e' = re_timeouts e \<and> effective_media_timeout e' = effective_media_timeout e"
  by (auto simp: playout_def play_packet_def conceal_frame_def queue_audio_def effective_media_timeout_def Let_def
      split: if_splits outcome.splits prod.splits option.splits)

fun playout_ticks :: "rtp_crates \<Rightarrow> nat list \<Rightarrow> rtp_engine \<Rightarrow> rtp_engine res" where
  "playout_ticks k [] e = Ok e"
| "playout_ticks k (now # nows) e = res_bind (playout_tick k now e) (playout_ticks k nows)"

text \<open>The timeout is announced once per silence: over any ticks without a packet between them, exactly one announcement
  is made if one of them finds the last packet as old as the timeout of the current hold state and none was made before,
  and otherwise none.\<close>

theorem media_timeout_once:
  assumes "playout_ticks k nows e = Ok e'" and "re_last_rtp_received e = Some received"
  shows "re_timeouts e' = re_timeouts e
    + (if \<not> re_timeout_fired e \<and> list_ex (\<lambda>now. now - received \<ge> effective_media_timeout e) nows then 1 else 0)"
  using assms
proof (induction nows arbitrary: e)
  case (Cons now nows)
  then obtain e1 where e1: "playout k now e = Ok e1" "playout_ticks k nows (check_media_timeout now e1) = Ok e'"
    by (auto simp: playout_tick_def)
  note f = playout_timeout_fields [OF e1(1)]
  have "effective_media_timeout (check_media_timeout now e1) = effective_media_timeout e1"
    "re_last_rtp_received (check_media_timeout now e1) = re_last_rtp_received e1"
    by (simp_all add: check_media_timeout_def effective_media_timeout_def split: option.split)
  with Cons.IH [OF e1(2)] f Cons.prems(2) show ?case
    by (auto simp: check_media_timeout_def)
qed simp

end
