(* ===== verification/Rtp_Engine_Sequence.thy ===== *)
theory Rtp_Engine_Sequence
  imports Rtp_Engine_Send Srtp_Props
begin

text \<open>
  One sequence space: audio, comfort noise and DTMF draw their sequence numbers from the packet
  builder, and what the engine sends carries them in order.
\<close>

section \<open>Runs of sequence numbers\<close>

text \<open>The numbers from \<open>q\<close> up to but without \<open>q'\<close>, each once or several times in a row.\<close>

definition seq_run :: "u16 \<Rightarrow> u16 list \<Rightarrow> u16 \<Rightarrow> bool" where
  "seq_run q xs q' \<longleftrightarrow> (\<exists>n. remdups_adj xs = map (\<lambda>i. q + of_nat i) [0..<n] \<and> q' = q + of_nat n)"

lemma seq_run_Nil [simp]: "seq_run q [] q"
  unfolding seq_run_def by (rule exI [of _ 0]) simp

lemma seq_run_one: "seq_run q [q] (q + 1)"
  unfolding seq_run_def by (rule exI [of _ 1]) simp

lemma seq_run_three: "seq_run q [q, q, q] (q + 1)"
  unfolding seq_run_def by (rule exI [of _ 1]) simp

lemma seq_run_append:
  assumes "seq_run q xs q'" and "seq_run q' ys q''"
  shows "seq_run q (xs @ ys) q''"
proof -
  obtain n where n: "remdups_adj xs = map (\<lambda>i. q + of_nat i) [0..<n]" "q' = q + of_nat n"
    using assms(1) by (auto simp: seq_run_def)
  obtain m where m: "remdups_adj ys = map (\<lambda>i. q' + of_nat i) [0..<m]" "q'' = q' + of_nat m"
    using assms(2) by (auto simp: seq_run_def)
  have "xs = [] \<or> ys = [] \<or> last xs \<noteq> hd ys"
  proof (rule ccontr)
    assume "\<not> ?thesis"
    then have ne: "xs \<noteq> []" "ys \<noteq> []" "last xs = hd ys" by simp_all
    have nm: "n > 0" "m > 0" using n(1) m(1) ne(1,2) by (auto intro!: gr0I)
    have "last (remdups_adj xs) = q + of_nat (n - 1)" "hd (remdups_adj ys) = q'"
      unfolding n(1) m(1) using nm by (simp_all add: last_map hd_map)
    then have "last xs = q + of_nat (n - 1)" "hd ys = q'" by simp_all
    moreover have "q' = q + of_nat (n - 1) + 1" unfolding n(2) using nm(1) by (cases n) simp_all
    ultimately show False using ne(3) by simp
  qed
  then have "remdups_adj (xs @ ys) = remdups_adj xs @ remdups_adj ys" by (rule remdups_adj_append')
  also have "\<dots> = map (\<lambda>i. q + of_nat i) [0..<n + m]"
  proof -
    have "map (\<lambda>i. q' + of_nat i) [0..<m] = map (\<lambda>i. q + of_nat i) [n..<n + m]"
      by (rule nth_equalityI) (simp_all add: n(2))
    then show ?thesis unfolding n(1) m(1) using upt_add_eq_append [of 0 n m] by (simp only: map_append [symmetric] le0 add_0)
  qed
  finally show ?thesis using n(2) m(2) by (auto simp: seq_run_def intro!: exI [of _ "n + m"])
qed

section \<open>The packets of a digit\<close>

lemma build_dtmf_run: "build_dtmf s p m q = (s', q', k) \<Longrightarrow> q' = q + 1 \<and> dk_sequence k = q"
  by (auto simp: build_dtmf_def Let_def)

lemma end_digit_run: "end_digit s q = (s', q', ks) \<Longrightarrow> seq_run q (map dk_sequence ks) q'"
proof -
  assume e: "end_digit s q = (s', q', ks)"
  have three: "seq_run q [q, q + 1, q + 2] (q + 3)"
    using seq_run_append [OF seq_run_one seq_run_append [OF seq_run_one seq_run_one], of q]
    by (simp add: add.assoc)
  show ?thesis using e three
    by (auto simp: end_digit_def Let_def seq_run_three add.assoc split: option.splits if_splits prod.splits dest!: build_dtmf_run)
qed

lemma continue_times_run: "continue_times n s iv q = (s', q', ks) \<Longrightarrow> seq_run q (map dk_sequence ks) q'"
proof (induction n arbitrary: s q ks)
  case (Suc n)
  obtain s1 q1 k where k: "continue_digit s iv q = (s1, q1, k)" by (metis prod_cases3)
  obtain ks2 where r: "continue_times n s1 iv q1 = (s', q', ks2)" "ks = (case k of None \<Rightarrow> [] | Some p \<Rightarrow> [p]) @ ks2"
    using Suc.prems k by (auto simp: Let_def split: prod.splits)
  have "seq_run q (map dk_sequence (case k of None \<Rightarrow> [] | Some p \<Rightarrow> [p])) q1"
    using k by (auto simp: continue_digit_def Let_def seq_run_one split: option.splits if_splits prod.splits dest!: build_dtmf_run)
  from seq_run_append [OF this Suc.IH [OF r(1)]] r(2) show ?case by simp
qed simp

lemma generate_digit_run:
  assumes "generate_digit s d dur iv q ts = Ok (s', q', ks)"
  shows "seq_run q (map dk_sequence ks) q'"
proof -
  obtain s1 q1 ks1 s2 q2 ks2 ks3 where st: "start_digit s d dur q ts iv = Ok (s1, q1, ks1)"
    and co: "continue_times (unat (max ((dur + iv - 1) div iv) 1)) s1 iv q1 = (s2, q2, ks2)"
    and en: "end_digit s2 q2 = (s', q', ks3)" and ks: "ks = ks1 @ ks2 @ ks3"
    using assms(1) by (auto simp: generate_digit_def Let_def split: if_splits prod.splits)
  have "seq_run q (map dk_sequence ks1) q1"
  proof -
    obtain s0 q0 pre where pre: "(if ds_out_digit s \<noteq> None then end_digit s q else (s, q, [])) = (s0, q0, pre)"
      by (metis prod_cases3)
    have "seq_run q (map dk_sequence pre) q0" using pre end_digit_run by (auto split: if_splits)
    moreover have "\<exists>k. ks1 = pre @ [k] \<and> dk_sequence k = q0 \<and> q1 = q0 + 1"
      using st pre by (auto simp: start_digit_def Let_def split: option.splits prod.splits dest!: build_dtmf_run)
    ultimately show ?thesis using seq_run_append [OF _ seq_run_one] by auto
  qed
  from seq_run_append [OF this seq_run_append [OF continue_times_run [OF co] end_digit_run [OF en]]] ks
  show ?thesis by simp
qed

lemma to_rtp_bytes_seq: "rd16 (to_rtp_bytes p) 2 = dk_sequence p"
proof -
  have "unat (dk_sequence p) div 256 = unat (drop_bit 8 (dk_sequence p))"
    by (simp add: drop_bit_eq_div unat_div)
  then have "(ucast (drop_bit 8 (dk_sequence p)) :: byte) = of_nat (unat (dk_sequence p) div 256)"
    by (simp only:) simp
  moreover have "(ucast (dk_sequence p AND 0xFF) :: byte) = of_nat (unat (dk_sequence p))"
  proof -
    have m: "dk_sequence p AND 0xFF = dk_sequence p AND mask 8" by (simp add: mask_eq_exp_minus_1)
    have "(ucast (dk_sequence p AND 0xFF) :: byte) = ucast (dk_sequence p)"
      unfolding m by (rule bit_word_eqI) (auto simp: bit_simps)
    then show ?thesis by simp
  qed
  ultimately have "to_rtp_bytes p ! 2 = be16 (dk_sequence p) ! 0" "to_rtp_bytes p ! 3 = be16 (dk_sequence p) ! 1"
    by (simp_all add: to_rtp_bytes_def be16_list)
  then have "rd16 (to_rtp_bytes p) 2 = rd16 (be16 (dk_sequence p)) 0" by (simp add: rd16_def)
  then show ?thesis using rd16_at [of "[]" 0 "dk_sequence p" "[]"] by simp
qed

section \<open>What is sent\<close>

definition sent_seqs :: "rtp_engine \<Rightarrow> u16 list" where
  "sent_seqs e = map (\<lambda>(d, _). rd16 d 2) (re_sent e)"

lemma protect_seq: "protect_rtp aes hmac c d = (c', Ok out) \<Longrightarrow> rd16 out 2 = rd16 d 2"
proof -
  assume p: "protect_rtp aes hmac c d = (c', Ok out)"
  then obtain h payload where h: "rtp_header_len d = Ok h" and out: "\<exists>rest. out = take h d @ rest"
    by (auto elim!: protect_rtp_OkE)
  then obtain rest where "out = take h d @ rest" by blast
  then have "take h out = take h d" using rtp_header_len_ok [OF h] by simp
  from header_fields_cong(1) [OF this] rtp_header_len_ok [OF h] show ?thesis by simp
qed

lemma send_rtp_bytes_seq:
  assumes "send_rtp_bytes k io remote d e = (e', Ok ())"
  shows "sent_seqs e' = sent_seqs e @ [rd16 d 2] \<and> re_packet_builder e' = re_packet_builder e"
  using assms protect_seq
  by (auto simp: send_rtp_bytes_def protect_out_def socket_send_def sent_seqs_def Let_def
      split: prod.splits outcome.splits option.splits)

section \<open>Sequences of operations\<close>

datatype send_op = OpAudio "sample list" bool | OpNoise | OpDigit char u32

text \<open>An operation and whether it succeeds; a sequence of operations that all do.\<close>

fun send_do :: "rtp_crates \<Rightarrow> nat \<Rightarrow> io_errors \<Rightarrow> send_op \<Rightarrow> rtp_engine \<Rightarrow> rtp_engine \<times> bool" where
  "send_do k now io (OpAudio samples marker) e =
     (let (e', r) = send_audio_with_marker k now (io 0) samples marker e in (e', is_ok r))"
| "send_do k now io OpNoise e = (let (e', r) = send_comfort_noise k now (io 0) e in (e', is_ok r))"
| "send_do k now io (OpDigit digit dur) e = (let (e', r) = engine_send_dtmf k io digit dur e in (e', is_ok r))"

fun send_all :: "rtp_crates \<Rightarrow> (nat \<times> io_errors \<times> send_op) list \<Rightarrow> rtp_engine \<Rightarrow> rtp_engine option" where
  "send_all k [] e = Some e"
| "send_all k ((now, io, op) # ops) e =
     (let (e', fine) = send_do k now io op e in if fine then send_all k ops e' else None)"

definition in_sequence :: "rtp_engine \<Rightarrow> rtp_engine \<Rightarrow> bool" where
  "in_sequence e e' \<longleftrightarrow> (\<exists>new. sent_seqs e' = sent_seqs e @ new
     \<and> seq_run (pb_sequence (re_packet_builder e)) new (pb_sequence (re_packet_builder e')))"

lemma in_sequence_trans: "in_sequence e e' \<Longrightarrow> in_sequence e' e'' \<Longrightarrow> in_sequence e e''"
  unfolding in_sequence_def using seq_run_append by fastforce

lemma send_rtp_packet_seq:
  assumes "\<And>p d. rk_marshal k p = Ok d \<Longrightarrow> rd16 d 2 = h_sequence_number (pkt_header p)"
    and "send_rtp_packet k io remote p e = (e', Ok ())"
  shows "sent_seqs e' = sent_seqs e @ [h_sequence_number (pkt_header p)] \<and> re_packet_builder e' = re_packet_builder e"
  using assms(2) by (auto simp: send_rtp_packet_def serialize_rtp_packet_def split: outcome.splits
      dest!: send_rtp_bytes_seq assms(1))

lemma send_audio_seq:
  assumes "\<And>p d. rk_marshal k p = Ok d \<Longrightarrow> rd16 d 2 = h_sequence_number (pkt_header p)"
    and "send_audio_with_marker k now io samples marker e = (e', Ok ())"
  shows "in_sequence e e'"
proof -
  let ?e1 = "e\<lparr>re_force_marker := False, re_in_cn_silence := False\<rparr>"
  obtain remote pb p e2 where b: "build_with_marker (re_packet_builder ?e1) (g711_encode (rk_g711 k) (ec_codec (re_config ?e1)) samples)
      (of_nat (length samples)) (marker \<or> re_force_marker e \<or> re_in_cn_silence e) = Ok (pb, p)"
    and s: "send_rtp_packet k io remote p (?e1\<lparr>re_packet_builder := pb\<rparr>) = (e2, Ok ())"
    and e': "sent_seqs e' = sent_seqs e2" "re_packet_builder e' = re_packet_builder e2"
    using assms(2) by (auto simp: send_audio_with_marker_def sent_seqs_def Let_def split: option.splits outcome.splits prod.splits)
  have "pb_sequence pb = pb_sequence (re_packet_builder e) + 1 \<and> h_sequence_number (pkt_header p) = pb_sequence (re_packet_builder e)"
    using b by (auto simp: build_with_marker_def Let_def split: if_splits)
  with send_rtp_packet_seq [OF assms(1) s] e' show ?thesis
    by (auto simp: in_sequence_def sent_seqs_def intro!: seq_run_one)
qed

lemma send_noise_seq:
  assumes "\<And>p d. rk_marshal k p = Ok d \<Longrightarrow> rd16 d 2 = h_sequence_number (pkt_header p)"
    and "send_comfort_noise k now io e = (e', Ok b)"
  shows "in_sequence e e'"
proof (cases "b")
  case False
  then have "e' = e" using assms(2)
    by (auto simp: send_comfort_noise_def Let_def split: option.splits if_splits outcome.splits prod.splits)
  then show ?thesis by (auto simp: in_sequence_def)
next
  case True
  obtain pb p where c: "cn_packet e = (pb, p)" by fastforce
  obtain remote e2 where s: "send_rtp_packet k io remote p (e\<lparr>re_packet_builder := pb\<rparr>) = (e2, Ok ())"
    and e': "sent_seqs e' = sent_seqs e2" "re_packet_builder e' = re_packet_builder e2"
    using assms(2) True c by (auto simp: send_comfort_noise_def sent_seqs_def split: option.splits if_splits outcome.splits prod.splits)
  have "pb_sequence pb = pb_sequence (re_packet_builder e) + 1 \<and> h_sequence_number (pkt_header p) = pb_sequence (re_packet_builder e)"
    using c by (auto simp: cn_packet_def next_sequence_def Let_def)
  with send_rtp_packet_seq [OF assms(1) s] e' show ?thesis
    by (auto simp: in_sequence_def sent_seqs_def intro!: seq_run_one)
qed

lemma send_dtmf_packets_seq:
  "send_dtmf_packets k io remote i ps e = (e', Ok ())
    \<Longrightarrow> sent_seqs e' = sent_seqs e @ map dk_sequence ps \<and> re_packet_builder e' = re_packet_builder e"
proof (induction ps arbitrary: i e)
  case (Cons p ps)
  then obtain e1 where e1: "send_rtp_bytes k (io i) remote (to_rtp_bytes p) e = (e1, Ok ())"
    "send_dtmf_packets k io remote (i + 1) ps e1 = (e', Ok ())"
    by (auto split: prod.splits outcome.splits)
  from send_rtp_bytes_seq [OF e1(1)] Cons.IH [OF e1(2)] show ?case by (simp add: to_rtp_bytes_seq)
qed simp

lemma engine_send_dtmf_seq:
  assumes "engine_send_dtmf k io digit dur e = (e', Ok ())"
  shows "in_sequence e e'"
proof -
  obtain remote e1 ps where b: "begin_dtmf digit dur e = (e1, Ok ps)" and s: "send_dtmf_packets k io remote 0 ps e1 = (e', Ok ())"
    using assms by (auto simp: engine_send_dtmf_def split: option.splits prod.splits outcome.splits)
  obtain q snd_state where g: "generate_digit (re_dtmf_sender e) digit dur (re_ptime_ms e) (pb_sequence (re_packet_builder e))
      (pb_timestamp (re_packet_builder e)) = Ok (snd_state, q, ps)"
    and e1: "pb_sequence (re_packet_builder e1) = q" "sent_seqs e1 = sent_seqs e"
    using b by (auto simp: begin_dtmf_def set_sequence_def sent_seqs_def split: outcome.splits prod.splits)
  from generate_digit_run [OF g] send_dtmf_packets_seq [OF s] e1 show ?thesis by (auto simp: in_sequence_def)
qed


end
