(* ===== verification/Rtp_Engine_Witness.thy ===== *)
theory Rtp_Engine_Witness
  imports Rtp_Engine_Props Rtp_Engine_Stream Rtp_Engine_Sequence Srtp_Witness Rtp_Jitter_Props
begin

text \<open>
  The properties of the engine applied to a new engine with the default settings, over crates that
  are simple functions: no datagram parses, and a packet is serialized as two bytes of zero, its
  sequence number and its payload.
\<close>

definition demo_marshal :: "rtp_packet \<Rightarrow> (string, bytes) outcome" where
  "demo_marshal p = Ok ([0, 0] @ be16 (h_sequence_number (pkt_header p)) @ pkt_payload p)"

definition demo_g711 :: g711_crate where
  "demo_g711 = \<lparr>gc_encode_ulaw = (\<lambda>_. 0), gc_encode_alaw = (\<lambda>_. 0), gc_decode_ulaw = (\<lambda>_. 0), gc_decode_alaw = (\<lambda>_. 0)\<rparr>"

definition demo_crates :: rtp_crates where
  "demo_crates = \<lparr>rk_aes = demo_aes, rk_hmac = demo_mac, rk_unmarshal = (\<lambda>_. Err ''short''), rk_marshal = demo_marshal,
     rk_g711 = demo_g711, rk_cos = (\<lambda>_. 1)\<rparr>"

definition demo_random :: engine_random where
  "demo_random = \<lparr>er_ssrc = 7, er_sequence = 65535, er_timestamp = 1000, er_rtcp = 1\<rparr>"

definition home :: sock_addr where "home = V4 1 4000"
definition peer_addr :: sock_addr where "peer_addr = V4 2 5000"
definition stranger :: sock_addr where "stranger = V4 3 6000"

definition demo_engine :: rtp_engine where
  "demo_engine = (case engine_new demo_random 0 home engine_config_default of Ok e \<Rightarrow> e)"

lemma demo_engine_new: "engine_new demo_random 0 home engine_config_default = Ok demo_engine"
  by (simp add: demo_engine_def engine_new_def engine_config_default_def Let_def)

lemma demo_engine_fields:
  "re_config demo_engine = engine_config_default" "re_remote_addr demo_engine = None"
  "re_jitter_buffer demo_engine = jb_with_config jitter_config_default" "re_timeout_fired demo_engine = False"
  "re_timeouts demo_engine = 0" "re_is_on_hold demo_engine = False" "re_last_playout_tick demo_engine = None"
  "re_force_marker demo_engine" "re_in_cn_silence demo_engine = False" "re_last_cn_timestamp demo_engine = None"
  "re_srtp_send demo_engine = None" "re_recv_queue demo_engine = []" "re_sent demo_engine = []"
  "re_packet_builder demo_engine = builder_new 65535 1000 0 7" "re_ptime_ms demo_engine = 20"
  "re_dtmf_sender demo_engine = sender_with_payload_type 7 TELEPHONE_EVENT_PT"
  by (simp_all add: demo_engine_def engine_new_def engine_config_default_def demo_random_def Let_def)

definition twelve :: "byte \<Rightarrow> bytes" where "twelve b = replicate 12 b"

theorem unauthenticated_inert_witness:
  "case on_datagram demo_crates 5 (ntp_now 0 0) stranger (twelve 128) (set_srtp demo_ctx demo_ctx demo_engine) of
      Ok e' \<Rightarrow> e' = (set_srtp demo_ctx demo_ctx demo_engine)\<lparr>re_symmetric_rtp := re_symmetric_rtp e',
          re_remote_addr := re_remote_addr e', re_srtp_recv := re_srtp_recv e'\<rparr>
    | _ \<Rightarrow> False"
  by (rule unauthenticated_inert [where c = demo_ctx])
    (simp_all add: set_srtp_def twelve_def short_rejected rejected_def)

theorem three_datagrams_redirect_witness:
  "case on_datagrams demo_crates [(1, ntp_now 0 1, stranger, twelve 0), (2, ntp_now 0 2, stranger, twelve 1),
          (3, ntp_now 0 3, stranger, twelve 2)]
        (set_srtp demo_ctx demo_ctx (set_remote peer_addr demo_engine)) of
      Ok e \<Rightarrow> re_remote_addr e = Some stranger \<and> re_recv_queue e = [] \<and> re_dtmf_queue e = []
    | _ \<Rightarrow> False"
  by (rule three_datagrams_redirect [OF demo_engine_new]) (simp add: twelve_def)

definition secured :: rtp_engine where
  "secured = set_srtp demo_ctx demo_ctx (set_remote peer_addr demo_engine)"

theorem srtp_dtmf_fails_witness:
  "snd (engine_send_dtmf demo_crates (\<lambda>_. None) (CHR ''5'') 100 secured) \<noteq> Ok ()
    \<and> engine_send_dtmf_string demo_crates (\<lambda>_ _. None) ''5123'' 100 secured
      = engine_send_dtmf demo_crates ((\<lambda>_ _. None) (0 :: nat)) (CHR ''5'') 100 secured"
  by (rule srtp_dtmf_fails [where io = "\<lambda>_. None" and ios = "\<lambda>_ _. None"])
    (simp_all add: secured_def set_srtp_def set_remote_def demo_engine_fields sender_with_payload_type_def sender_new_def no_bugs_def)

text \<open>A running engine that has had a packet with the timestamp 1000, and a packet 160 samples behind it.\<close>

definition playing :: rtp_engine where
  "playing = demo_engine\<lparr>re_timestamp_normalizer := fst (normalize 1000 (normalizer_new 8000))\<rparr>"

definition behind_packet :: rtp_packet where
  "behind_packet = \<lparr>pkt_header = \<lparr>h_version = 2, h_padding = False, h_extension = False,
     h_marker = False, h_payload_type = 0, h_sequence_number = 9, h_timestamp = 840, h_ssrc = 8,
     h_csrc = [], h_extension_profile = 0, h_extensions = [], h_extensions_padding = 0\<rparr>,
     pkt_payload = [1, 2]\<rparr>"

definition emptied :: jitter_buffer where "emptied = jb_reset (jb_with_config jitter_config_default)"

lemma emptied_push: "\<exists>b. jb_push 50 (behind_packet\<lparr>pkt_header := (pkt_header behind_packet)\<lparr>h_timestamp := ts\<rparr>\<rparr>) emptied = Ok b
    \<and> \<not> jb_is_ready b"
  by (simp add: jb_is_ready_def emptied_def jb_reset_def behind_packet_def jitter_config_default_def stats_upd_def sync_size_def jb_eval)

lemma drain_waiting: "\<not> jb_is_ready b \<Longrightarrow> drain b = Ok (b, [])"
  by (subst drain.simps) (simp add: jb_pop_def jb_is_ready_def)

lemma behind_accepted: "\<exists>e. on_audio demo_crates 50 behind_packet playing = Ok e"
proof -
  obtain n ts where n: "normalize 840 (fst (normalize 1000 (normalizer_new 8000))) = (n, ts, True)"
    by (simp add: normalizer_new_def normalizer_with_ptime_def normalize_def ts_discontinuity_def Let_def)
  obtain b where b: "jb_push 50 (behind_packet\<lparr>pkt_header := (pkt_header behind_packet)\<lparr>h_timestamp := ts\<rparr>\<rparr>) emptied = Ok b"
    "\<not> jb_is_ready b" using emptied_push by blast
  have h: "h_timestamp (pkt_header behind_packet) = 840" "\<not> h_marker (pkt_header behind_packet)" by (simp_all add: behind_packet_def)
  have p: "prepare_buffer (pkt_header behind_packet\<lparr>h_timestamp := ts\<rparr>) emptied = emptied" "\<not> contains_seq emptied q" for q
    using h(2) by (simp_all add: prepare_buffer_def emptied_def jb_reset_def contains_seq_def bt_get_def)
  show ?thesis
    by (simp add: on_audio_def playing_def demo_engine_fields h(1) n emptied_def [symmetric] p b drain_waiting Let_def)
qed

theorem late_packet_empties_buffer_witness:
  "case on_audio demo_crates 50 behind_packet playing of
      Ok e' \<Rightarrow> fst ` set (jb_packets (re_jitter_buffer e')) \<subseteq> {h_sequence_number (pkt_header behind_packet)}
        \<and> length (re_recv_queue e') \<le> length (re_recv_queue playing) + 1
    | _ \<Rightarrow> False"
proof -
  obtain e' where e': "on_audio demo_crates 50 behind_packet playing = Ok e'" using behind_accepted by blast
  have "fst ` set (jb_packets (re_jitter_buffer e')) \<subseteq> {h_sequence_number (pkt_header behind_packet)}
      \<and> length (re_recv_queue e') \<le> length (re_recv_queue playing) + 1"
    by (rule late_packet_empties_buffer [OF _ _ _ _ _ _ e', where newest = 1000 and behind = 160])
      (simp_all add: playing_def behind_packet_def normalizer_new_def normalizer_with_ptime_def normalize_def Let_def)
  with e' show ?thesis by simp
qed

lemma demo_marshal_seq: "demo_marshal p = Ok d \<Longrightarrow> rd16 d 2 = h_sequence_number (pkt_header p)"
proof -
  assume "demo_marshal p = Ok d"
  then have "d = [0, 0] @ be16 (h_sequence_number (pkt_header p)) @ pkt_payload p" by (simp add: demo_marshal_def)
  then show ?thesis using rd16_at [of "[0, 0]" 2 "h_sequence_number (pkt_header p)" "pkt_payload p"] by simp
qed


theorem media_timeout_once_witness:
  "case playout_ticks demo_crates [10000000000, 30000000000, 30020000000] (demo_engine\<lparr>re_last_rtp_received := Some 0\<rparr>) of
      Ok e' \<Rightarrow> re_timeouts e' = 1 | _ \<Rightarrow> False"
proof -
  let ?e = "demo_engine\<lparr>re_last_rtp_received := Some 0\<rparr>"
  let ?e1 = "?e\<lparr>re_timeout_fired := True, re_timeouts := 1\<rparr>"
  have quiet: "jb_is_ready (jb_with_config c) = False" for c by (simp add: jb_is_ready_def jb_with_config_def)
  have limit: "effective_media_timeout ?e = 30000000000" "effective_media_timeout ?e1 = 30000000000"
    by (simp_all add: effective_media_timeout_def demo_engine_fields engine_config_default_def)
  have run: "playout_ticks demo_crates [10000000000, 30000000000, 30020000000] ?e = Ok ?e1"
    using limit by (simp add: playout_tick_def playout_def tick_due_def demo_engine_fields quiet check_media_timeout_def)
  have "re_timeouts ?e1 = re_timeouts ?e + (if \<not> re_timeout_fired ?e
      \<and> list_ex (\<lambda>now. now - 0 \<ge> effective_media_timeout ?e) [10000000000, 30000000000, 30020000000] then 1 else 0)"
    by (rule media_timeout_once [OF run]) simp
  then show ?thesis by (simp only: run) simp
qed

end
