(* ===== verification/Rtp_Plc_Props.thy ===== *)
theory Rtp_Plc_Props
  imports Rtp_Plc
begin

text \<open>
  The history of the concealer is the end of what has been played, received and concealed alike;
  recovered audio is never blended; concealment fades to silence.
\<close>

section \<open>The circular history\<close>

definition last_n :: "nat \<Rightarrow> 'a list \<Rightarrow> 'a list" where "last_n n xs = drop (length xs - n) xs"

definition hist_ok :: "plc \<Rightarrow> sample list \<Rightarrow> bool" where
  "hist_ok p s \<longleftrightarrow> length (plc_history p) = 390 \<and> plc_history_pos p = length s mod 390
     \<and> plc_history_valid p = min (length s) 390
     \<and> (\<forall>j. length s - 390 \<le> j \<and> j < length s \<longrightarrow> plc_history p ! (j mod 390) = s ! j)"

lemma mod_390_differ: "j < n \<Longrightarrow> n < j + 390 \<Longrightarrow> j mod 390 \<noteq> n mod (390 :: nat)"
proof
  assume lt: "j < n" "n < j + 390" and e: "j mod 390 = n mod 390"
  from e lt(1) have "390 dvd n - j" by (metis mod_eq_dvd_iff_nat less_imp_le_nat)
  then show False using lt nat_dvd_not_less [of "n - j" 390] by simp
qed

lemma hist_ok_push: "hist_ok p s \<Longrightarrow> hist_ok (push_sample p x) (s @ [x])"
proof -
  assume ok: "hist_ok p s"
  have len: "length (plc_history p) = 390" and pos: "plc_history_pos p = length s mod 390"
    and at: "\<And>j. length s - 390 \<le> j \<Longrightarrow> j < length s \<Longrightarrow> plc_history p ! (j mod 390) = s ! j"
    using ok by (auto simp: hist_ok_def)
  have "plc_history (push_sample p x) ! (j mod 390) = (s @ [x]) ! j"
    if j: "Suc (length s) - 390 \<le> j" "j < Suc (length s)" for j
  proof (cases "j = length s")
    case True
    then show ?thesis using len pos by (simp add: push_sample_def)
  next
    case False
    with j have "j < length s" "length s < j + 390" by simp_all
    from mod_390_differ [OF this] show ?thesis using j False at [of j] pos len
      by (simp add: push_sample_def nth_append)
  qed
  then show ?thesis
    using ok by (auto simp: hist_ok_def push_sample_def HISTORY_LEN_def mod_Suc_eq)
qed

lemma hist_ok_append: "hist_ok p s \<Longrightarrow> hist_ok (append_history xs p) (s @ xs)"
proof (induction xs arbitrary: p s)
  case (Cons x xs)
  from Cons.IH [OF hist_ok_push [OF Cons.prems], of x] show ?case by (simp add: append_history_def)
qed (simp add: append_history_def)

lemma ring_start:
  assumes "c \<le> n" and "c \<le> 390"
  shows "((if n mod 390 \<ge> c then n mod 390 - c else 390 - (c - n mod 390)) + i) mod 390 = (n - c + i) mod (390 :: nat)"
proof -
  define q r where "q = n div 390" and "r = n mod 390"
  have n: "n = 390 * q + r" by (simp add: q_def r_def)
  have "(if r \<ge> c then r - c else 390 - (c - r)) + i + 390 * (if r \<ge> c then q else q - 1) = n - c + i"
  proof (cases "r \<ge> c")
    case False
    with n assms(1) have "q \<ge> 1" by (cases q) auto
    then have "390 * (q - 1) = 390 * q - 390" "390 * q \<ge> 390" by (simp_all add: diff_mult_distrib2)
    with False n assms show ?thesis by simp
  qed (use n in simp)
  then show ?thesis unfolding r_def [symmetric] by (metis mod_mult_self2)
qed

lemma hist_ok_read:
  assumes "hist_ok p s"
  shows "read_history_tail p n = last_n (min n 390) s"
proof -
  define c where "c = min n (min (length s) 390)"
  have c: "c \<le> length s" "c \<le> 390" by (simp_all add: c_def)
  have at: "plc_history p ! ((length s - c + i) mod 390) = s ! (length s - c + i)" if "i < c" for i
  proof -
    have "length s - 390 \<le> length s - c + i \<and> length s - c + i < length s" using that c by linarith
    then show ?thesis using assms unfolding hist_ok_def by blast
  qed
  have "read_history_tail p n = map (\<lambda>i. s ! (length s - c + i)) [0..<c]"
  proof -
    have v: "min n (plc_history_valid p) = c" "plc_history_pos p = length s mod 390"
      using assms by (simp_all add: hist_ok_def c_def)
    show ?thesis
      unfolding read_history_tail_def Let_def v HISTORY_LEN_def ring_start [OF c]
      by (intro map_cong refl at) simp
  qed
  also have "\<dots> = drop (length s - c) s"
    using c(1) by (auto intro!: nth_equalityI)
  also have "\<dots> = last_n (min n 390) s"
    by (simp add: last_n_def c_def min_def)
  finally show ?thesis .
qed

section \<open>Operations\<close>

datatype plc_op = Update "sample list" | Conceal | Reset

text \<open>A step with what it adds to the stream that is played. Past the longest concealment the frames are silence and
  are not recorded.\<close>

fun plc_step :: "(rat \<Rightarrow> rat) \<Rightarrow> plc_op \<Rightarrow> plc \<Rightarrow> plc" where
  "plc_step cosf (Update xs) p = plc_update cosf xs p"
| "plc_step cosf Conceal p = fst (plc_conceal cosf p)"
| "plc_step cosf Reset p = plc_reset p"

fun plc_stream :: "(rat \<Rightarrow> rat) \<Rightarrow> plc \<Rightarrow> sample list \<Rightarrow> plc_op list \<Rightarrow> sample list" where
  "plc_stream cosf p played [] = played"
| "plc_stream cosf p played (op # ops) =
     plc_stream cosf (plc_step cosf op p)
       (case op of
          Update xs \<Rightarrow> played @ xs
        | Conceal \<Rightarrow> if plc_conceal_count p < plc_max_conceal_frames p then played @ snd (plc_conceal cosf p) else played
        | Reset \<Rightarrow> []) ops"

definition plc_run :: "(rat \<Rightarrow> rat) \<Rightarrow> plc \<Rightarrow> plc_op list \<Rightarrow> plc" where
  "plc_run cosf p ops = foldl (\<lambda>p op. plc_step cosf op p) p ops"

definition plc_inv :: "plc \<Rightarrow> bool" where
  "plc_inv p \<longleftrightarrow> (plc_conceal_count p > 0 \<longrightarrow> plc_overlap_buf p = []) \<and> plc_max_conceal_frames p \<ge> 1
     \<and> PITCH_MIN \<le> plc_pitch_period p \<and> plc_pitch_period p \<le> PITCH_MAX"

lemma append_history_keeps [simp]:
  "plc_conceal_count (append_history xs p) = plc_conceal_count p" "plc_overlap_buf (append_history xs p) = plc_overlap_buf p"
  "plc_max_conceal_frames (append_history xs p) = plc_max_conceal_frames p"
  "plc_pitch_period (append_history xs p) = plc_pitch_period p" "plc_gain (append_history xs p) = plc_gain p"
  "plc_samples_per_packet (append_history xs p) = plc_samples_per_packet p"
  "plc_sample_rate (append_history xs p) = plc_sample_rate p"
  by (induction xs arbitrary: p) (simp_all add: append_history_def push_sample_def)

lemma hist_ok_cong:
  "plc_history q = plc_history p \<Longrightarrow> plc_history_pos q = plc_history_pos p \<Longrightarrow> plc_history_valid q = plc_history_valid p
    \<Longrightarrow> hist_ok q s = hist_ok p s"
  by (simp add: hist_ok_def)

lemma default_pitch_range: "PITCH_MIN \<le> default_pitch spp" "default_pitch spp \<le> PITCH_MAX"
  by (simp_all add: default_pitch_def plc_consts)

lemma pitch_lag_range:
  "PITCH_MIN \<le> lag \<Longrightarrow> lag \<le> PITCH_MAX \<Longrightarrow> PITCH_MIN \<le> ps_best_period s \<Longrightarrow> ps_best_period s \<le> PITCH_MAX
    \<Longrightarrow> PITCH_MIN \<le> ps_best_period (pitch_lag buf w s lag) \<and> ps_best_period (pitch_lag buf w s lag) \<le> PITCH_MAX"
  by (simp add: pitch_lag_def Let_def)

lemma foldl_pitch_range:
  "list_all (\<lambda>lag. PITCH_MIN \<le> lag \<and> lag \<le> PITCH_MAX) lags \<Longrightarrow> PITCH_MIN \<le> ps_best_period s \<Longrightarrow> ps_best_period s \<le> PITCH_MAX
    \<Longrightarrow> PITCH_MIN \<le> ps_best_period (foldl (pitch_lag buf w) s lags) \<and> ps_best_period (foldl (pitch_lag buf w) s lags) \<le> PITCH_MAX"
proof (induction lags arbitrary: s)
  case (Cons lag lags)
  then show ?case using pitch_lag_range [of lag s buf w] by simp
qed simp

lemma detect_pitch_range: "PITCH_MIN \<le> detect_pitch p \<and> detect_pitch p \<le> PITCH_MAX"
proof -
  have "list_all (\<lambda>lag. PITCH_MIN \<le> lag \<and> lag \<le> PITCH_MAX) [PITCH_MIN..<PITCH_MAX + 1]"
    by (auto simp: list_all_iff plc_consts)
  from foldl_pitch_range [OF this] default_pitch_range show ?thesis
    by (simp add: detect_pitch_def Let_def PITCH_MIN_def PITCH_MAX_def)
qed

lemma plc_update_written:
  assumes "plc_inv p" and "samples \<noteq> []"
  shows "\<exists>q. plc_update cosf samples p = (append_history samples q)\<lparr>plc_overlap_buf := plc_overlap_buf (plc_update cosf samples p),
      plc_conceal_count := 0, plc_gain := 1, plc_pitch_period := plc_pitch_period (plc_update cosf samples p)\<rparr>
    \<and> plc_history q = plc_history p \<and> plc_history_pos q = plc_history_pos p \<and> plc_history_valid q = plc_history_valid p
    \<and> plc_max_conceal_frames q = plc_max_conceal_frames p"
proof -
  define q where "q = (if plc_conceal_count p > 0
      then p\<lparr>plc_overlap_buf := generate_pitch_repeat cosf p OLA_WINDOW (plc_gain p)\<rparr> else p)"
  have "\<not> (plc_conceal_count p > 0 \<and> plc_overlap_buf p \<noteq> [])" using assms(1) by (auto simp: plc_inv_def)
  then have "plc_update cosf samples p = (append_history samples q)\<lparr>plc_overlap_buf := plc_overlap_buf (plc_update cosf samples p),
      plc_conceal_count := 0, plc_gain := 1, plc_pitch_period := plc_pitch_period (plc_update cosf samples p)\<rparr>"
    using assms(2) by (cases "plc_conceal_count p > 0") (simp_all add: plc_update_def Let_def q_def)
  then show ?thesis by (intro exI [of _ q]) (simp add: q_def)
qed

lemma plc_update_ok:
  assumes "plc_inv p" and "hist_ok p s"
  shows "plc_inv (plc_update cosf samples p) \<and> hist_ok (plc_update cosf samples p) (s @ samples)"
proof (cases "samples = []")
  case False
  obtain q where q: "plc_update cosf samples p = (append_history samples q)\<lparr>plc_overlap_buf := plc_overlap_buf (plc_update cosf samples p),
      plc_conceal_count := 0, plc_gain := 1, plc_pitch_period := plc_pitch_period (plc_update cosf samples p)\<rparr>"
    "plc_history q = plc_history p" "plc_history_pos q = plc_history_pos p" "plc_history_valid q = plc_history_valid p"
    "plc_max_conceal_frames q = plc_max_conceal_frames p"
    using plc_update_written [OF assms(1) False] by blast
  have "hist_ok (append_history samples q) (s @ samples)"
    by (rule hist_ok_append) (use assms(2) q(2-4) in \<open>simp add: hist_ok_def\<close>)
  then have "hist_ok (plc_update cosf samples p) (s @ samples)"
    by (subst q(1)) (simp add: hist_ok_def)
  moreover have "plc_conceal_count (plc_update cosf samples p) = 0"
    "plc_max_conceal_frames (plc_update cosf samples p) = plc_max_conceal_frames p"
    by (subst q(1), simp add: q(5))+
  moreover have "\<exists>r. plc_pitch_period (plc_update cosf samples p) = detect_pitch r"
    using False by (auto simp: plc_update_def Let_def)
  ultimately show ?thesis using assms(1) detect_pitch_range by (auto simp: plc_inv_def)
qed (use assms in \<open>simp add: plc_update_def\<close>)

lemma plc_conceal_ok:
  assumes "plc_inv p" and "hist_ok p s"
  shows "plc_inv (fst (plc_conceal cosf p))
    \<and> hist_ok (fst (plc_conceal cosf p))
        (if plc_conceal_count p < plc_max_conceal_frames p then s @ snd (plc_conceal cosf p) else s)"
proof (cases "plc_samples_per_packet p = 0")
  case True
  then show ?thesis using assms by (simp add: plc_conceal_def conceal_n_def)
next
  case False
  show ?thesis
  proof (cases "plc_conceal_count p < plc_max_conceal_frames p")
    case True
    have "hist_ok (append_history xs q) (s @ xs)"
      if "plc_history q = plc_history p" "plc_history_pos q = plc_history_pos p" "plc_history_valid q = plc_history_valid p"
      for q xs
      by (rule hist_ok_append) (use assms(2) that in \<open>simp add: hist_ok_def\<close>)
    then show ?thesis using True False assms(1)
      by (auto simp: plc_conceal_def conceal_n_def plc_inv_def Let_def)
  next
    case nt: False
    then show ?thesis using False assms
      by (simp add: plc_conceal_def conceal_n_def plc_inv_def hist_ok_def Let_def)
  qed
qed

lemma plc_reset_ok: "plc_inv p \<Longrightarrow> hist_ok p s \<Longrightarrow> plc_inv (plc_reset p) \<and> hist_ok (plc_reset p) []"
  using default_pitch_range by (simp add: plc_reset_def plc_inv_def hist_ok_def)

lemma plc_step_ok:
  "plc_inv p \<Longrightarrow> hist_ok p s \<Longrightarrow> plc_inv (plc_step cosf op p)
    \<and> hist_ok (plc_step cosf op p)
       (case op of
          Update xs \<Rightarrow> s @ xs
        | Conceal \<Rightarrow> if plc_conceal_count p < plc_max_conceal_frames p then s @ snd (plc_conceal cosf p) else s
        | Reset \<Rightarrow> [])"
  using plc_update_ok [of p s cosf] plc_conceal_ok [of p s cosf] plc_reset_ok [of p s] by (cases op) simp_all

lemma plc_run_ok:
  "plc_inv p \<Longrightarrow> hist_ok p s \<Longrightarrow> plc_inv (plc_run cosf p ops) \<and> hist_ok (plc_run cosf p ops) (plc_stream cosf p s ops)"
proof (induction ops arbitrary: p s)
  case (Cons op ops)
  from plc_step_ok [OF Cons.prems, of cosf op] show ?case
    unfolding plc_run_def foldl_Cons plc_stream.simps by (intro Cons.IH [unfolded plc_run_def]) simp_all
qed (simp add: plc_run_def)

lemma plc_new_ok: "plc_inv (plc_with_sample_rate spp rate) \<and> hist_ok (plc_with_sample_rate spp rate) []"
  using default_pitch_range by (simp add: plc_with_sample_rate_def plc_inv_def hist_ok_def max_frames_def HISTORY_LEN_def Let_def)

text \<open>The concealer's history refines the stream: whatever sequence of received frames, concealments and resets has
  gone through it, reading the tail of its circular buffer yields the end of what was received and concealed since the
  last reset, at most 390 samples of it. Recovered frames enter it as they were received, not blended with the
  concealment, and the pitch stays within the searched range.\<close>

theorem plc_history_refines:
  "let p = plc_run cosf (plc_with_sample_rate spp rate) ops
   in read_history_tail p n = last_n (min n 390) (plc_stream cosf (plc_with_sample_rate spp rate) [] ops)
     \<and> 20 \<le> plc_pitch_period p \<and> plc_pitch_period p \<le> 160"
  using plc_run_ok [OF plc_new_ok [THEN conjunct1] plc_new_ok [THEN conjunct2], of cosf spp rate ops]
  by (simp add: hist_ok_read plc_inv_def PITCH_MIN_def PITCH_MAX_def)

text \<open>Recovery is never blended: in every reachable state that follows a concealment the overlap buffer is empty.\<close>

lemma recovery_not_blended:
  "plc_conceal_count (plc_run cosf (plc_with_sample_rate spp rate) ops) > 0
    \<Longrightarrow> plc_overlap_buf (plc_run cosf (plc_with_sample_rate spp rate) ops) = []"
  using plc_run_ok [OF plc_new_ok [THEN conjunct1] plc_new_ok [THEN conjunct2], of cosf spp rate ops]
  by (simp add: plc_inv_def)

text \<open>A reset concealer is a fresh one.\<close>

lemma plc_reset_fresh:
  "plc_reset (plc_run cosf (plc_with_sample_rate spp rate) ops) = plc_with_sample_rate spp rate"
proof -
  have keeps: "plc_samples_per_packet (plc_step cosf op p) = plc_samples_per_packet p
      \<and> plc_sample_rate (plc_step cosf op p) = plc_sample_rate p
      \<and> plc_max_conceal_frames (plc_step cosf op p) = plc_max_conceal_frames p" for op p
    by (cases op) (simp_all add: plc_update_def plc_conceal_def conceal_n_def plc_reset_def Let_def)
  have "plc_samples_per_packet (plc_run cosf p ops) = plc_samples_per_packet p
      \<and> plc_sample_rate (plc_run cosf p ops) = plc_sample_rate p
      \<and> plc_max_conceal_frames (plc_run cosf p ops) = plc_max_conceal_frames p" for p
    by (induction ops arbitrary: p) (simp_all add: plc_run_def keeps)
  moreover have "length (plc_history (plc_run cosf (plc_with_sample_rate spp rate) ops)) = 390"
    using plc_run_ok [OF plc_new_ok [THEN conjunct1] plc_new_ok [THEN conjunct2], of cosf spp rate ops]
    by (simp add: hist_ok_def)
  ultimately show ?thesis
    by (simp add: plc_reset_def plc_with_sample_rate_def HISTORY_LEN_def Let_def)
qed

section \<open>The end of concealment\<close>

lemma conceal_length:
  "plc_inv p \<Longrightarrow> length (snd (plc_conceal cosf p)) = plc_samples_per_packet p"
  by (simp add: plc_conceal_def conceal_n_def generate_pitch_repeat_def apply_crossfade_def Let_def)

lemma conceal_silence:
  assumes "plc_conceal_count p \<ge> plc_max_conceal_frames p"
  shows "snd (plc_conceal cosf p) = replicate (plc_samples_per_packet p) 0
    \<and> plc_conceal_count (fst (plc_conceal cosf p)) \<ge> plc_max_conceal_frames (fst (plc_conceal cosf p))"
  using assms by (simp add: plc_conceal_def conceal_n_def Let_def)

end
