(* ===== verification/Nat_Addr.thy ===== *)
theory Nat_Addr
  imports Nat_Stun Rtp_Ip
begin

text \<open>
  \<^verbatim>\<open>SocketAddr\<close> of Rust's standard library as the crate uses it: its parts, its family and its
  printed form. The flow information and the scope of an IPv6 socket address are left out.
\<close>

fun sock_port :: "sock_addr \<Rightarrow> u16" where
  "sock_port (V4 a p) = p"
| "sock_port (V6 a p) = p"

fun sock_ip :: "sock_addr \<Rightarrow> ip_addr" where
  "sock_ip (V4 a p) = Ip4 a"
| "sock_ip (V6 a p) = Ip6 a"

definition show_sock :: "sock_addr \<Rightarrow> string" where
  "show_sock a = (case a of V4 ip p \<Rightarrow> show_ip (Ip4 ip) | V6 ip p \<Rightarrow> ''['' @ show_ip (Ip6 ip) @ '']'')
     @ '':'' @ show_nat (unat (sock_port a))"

fun addr_is_ipv6 :: "sock_addr \<Rightarrow> bool" where
  "addr_is_ipv6 (V4 _ _) = False"
| "addr_is_ipv6 (V6 _ _) = True"

text \<open>The unspecified address of a family, which a fresh socket is bound to.\<close>

definition any_addr :: "bool \<Rightarrow> string" where
  "any_addr ipv6 = (if ipv6 then ''[::]:0'' else ''0.0.0.0:0'')"

section \<open>Parsing\<close>

text \<open>A decimal number of any length that fits below \<open>mx\<close>, its first zeros allowed, after a given
  character.\<close>

definition read_decimal :: "char \<Rightarrow> nat \<Rightarrow> string \<Rightarrow> (nat \<times> string) option" where
  "read_decimal c mx s = Option.bind (read_char c s) (\<lambda>r.
     let ds = takeWhile is_digit r
     in if ds = [] \<or> digits_val ds > mx then None else Some (digits_val ds, dropWhile is_digit r))"

definition read_sock4 :: "string \<Rightarrow> (sock_addr \<times> string) option" where
  "read_sock4 s = Option.bind (read_ip4 s) (\<lambda>(a, r).
     map_option (\<lambda>(p, r'). (V4 a (of_nat p), r')) (read_decimal (CHR '':'') 65535 r))"

definition read_sock6 :: "string \<Rightarrow> (sock_addr \<times> string) option" where
  "read_sock6 s =
     Option.bind (read_char (CHR ''['') s) (\<lambda>r1.
     Option.bind (read_ip6 r1) (\<lambda>(gs, r2).
     let r3 = (case read_decimal (CHR ''%'') 4294967295 r2 of Some (scope, r) \<Rightarrow> r | None \<Rightarrow> r2)
     in Option.bind (read_char (CHR '']'') r3) (\<lambda>r4.
        map_option (\<lambda>(p, r'). (V6 (of_segments gs) (of_nat p), r')) (read_decimal (CHR '':'') 65535 r4))))"

definition parse_sock :: "string \<Rightarrow> sock_addr option" where
  "parse_sock s =
     (case (case read_sock4 s of Some a \<Rightarrow> Some a | None \<Rightarrow> read_sock6 s) of
        Some (a, []) \<Rightarrow> Some a
      | _ \<Rightarrow> None)"

end
