(* ===== verification/Sip_Call.thy ===== *)
theory Sip_Call
  imports Sip_Sdp Sip_Session_Timer Session_Manager Rtp_Engine Nat_Addr
begin

text \<open>
  The call sessions of \<^verbatim>\<open>src/sip/engine.rs\<close>: their state, what a provisional response and a
  remote description change, and the bodies of INFO and NOTIFY requests. A dialog of the SIP crate is
  known by its identifier, the three strings the code reads. The states of a call are those of
  \<^verbatim>\<open>session/state.rs\<close>.
\<close>

section \<open>Modes, events and registration states\<close>

datatype dtmf_mode = Auto | Rfc2833 | Info

datatype early_media_state = NoEarlyMedia | Ringing180 | EarlyMedia183 | Ringing180After183

datatype sip_direction = Inbound | Outbound

datatype sip_event =
    EvIncoming string string string
  | EvRinging string
  | EvEarlyMedia string "string option"
  | EvAnswered string
  | EvAudioReady string
  | EvDtmfReceived string char u32
  | EvReInvite string "string option"
  | EvHangup string string
  | EvError string string
  | EvTransferInitiated string string
  | EvTransferProgress string u16 string bool
  | EvTransferFailed string string
  | EvReferReceived string string
  | EvCancelled string
  | EvRedirected string "string list"
  | EvMediaTimeout string
  | EvRegistrationChanged string "string option"
  | EvGatewayHealth string bool

datatype registration_state = Unregistered | Registering | Registered | RegistrationFailed string | Unregistering

section \<open>Call sessions\<close>

record dialog_id =
  di_call_id :: string
  di_from_tag :: string
  di_to_tag :: string

record sip_call =
  cl_call_id :: string
  cl_state :: call_state
  cl_direction :: sip_direction
  cl_provider_id :: string
  cl_rtp_engine :: "rtp_engine option"
  cl_client_dialog :: "dialog_id option"
  cl_server_dialog :: "dialog_id option"
  cl_local_sdp :: "string option"
  cl_remote_sdp :: "string option"
  cl_local_uri :: "string option"
  cl_remote_uri :: "string option"
  cl_remote_addr :: "sock_addr option"
  cl_cseq :: u32
  cl_local_contact :: "string option"
  cl_dtmf_mode :: dtmf_mode
  cl_remote_telephone_event_pt :: "byte option"
  cl_early_media_state :: early_media_state
  cl_remote_media_direction :: media_direction
  cl_local_hold :: bool
  cl_remote_hold :: bool
  cl_remote_user_agent :: "string option"
  cl_rtp_bug_flags :: rtp_bug_flags
  cl_session_timer :: "session_timer option"
  cl_refer_pending :: bool
  cl_refer_target :: "string option"
  cl_reinvite_pending :: bool
  cl_remote_contact :: "string option"
  cl_sdp_session_version :: u64
  cl_negotiated_codec :: "codec_type option"
  cl_cancel_pending :: bool
  cl_route_set :: "string list"
  cl_cancel_tx :: bool

definition next_cseq :: "sip_call \<Rightarrow> sip_call \<times> u32" where
  "next_cseq c = (let n = cl_cseq c + 1 in (c\<lparr>cl_cseq := n\<rparr>, n))"

definition effective_dtmf_mode :: "sip_call \<Rightarrow> dtmf_mode" where
  "effective_dtmf_mode c =
     (case cl_dtmf_mode c of
        Auto \<Rightarrow> if cl_remote_telephone_event_pt c \<noteq> None then Rfc2833 else Info
      | mode \<Rightarrow> mode)"

definition update_dtmf_from_sdp :: "sdp \<Rightarrow> sip_call \<Rightarrow> sip_call" where
  "update_dtmf_from_sdp d c = c\<lparr>cl_remote_telephone_event_pt := telephone_event_pt d\<rparr>"

definition update_from_remote_sdp :: "sdp \<Rightarrow> sip_call \<Rightarrow> sip_call" where
  "update_from_remote_sdp d c0 =
     (let c1 = (update_dtmf_from_sdp d c0)\<lparr>cl_remote_media_direction := audio_direction d, cl_remote_hold := is_on_hold d\<rparr>;
          c = (case sdp_ptime d of
                 Some ptime \<Rightarrow> c1\<lparr>cl_rtp_engine := map_option (engine_set_ptime ptime) (cl_rtp_engine c1)\<rparr>
               | None \<Rightarrow> c1)
      in if cl_remote_hold c \<and> cl_state c = Active then c\<lparr>cl_state := Hold\<rparr>
         else if \<not> cl_remote_hold c \<and> \<not> cl_local_hold c \<and> cl_state c = Hold then c\<lparr>cl_state := Active\<rparr>
         else c)"

definition process_180_ringing :: "sip_call \<Rightarrow> sip_call" where
  "process_180_ringing c =
     (case cl_early_media_state c of
        NoEarlyMedia \<Rightarrow> c\<lparr>cl_early_media_state := Ringing180, cl_state := Ringing\<rparr>
      | EarlyMedia183 \<Rightarrow> c\<lparr>cl_early_media_state := Ringing180After183\<rparr>
      | _ \<Rightarrow> c)"

definition process_183_session_progress :: "bool \<Rightarrow> sip_call \<Rightarrow> sip_call" where
  "process_183_session_progress has_sdp c =
     (if has_sdp then c\<lparr>cl_early_media_state := EarlyMedia183, cl_state := EarlyMedia\<rparr>
      else if cl_early_media_state c = NoEarlyMedia
      then c\<lparr>cl_early_media_state := Ringing180, cl_state := Ringing\<rparr> else c)"

definition has_remote_media :: "sip_call \<Rightarrow> bool" where
  "has_remote_media c = (cl_early_media_state c \<in> {EarlyMedia183, Ringing180After183} \<or> cl_state c \<in> {Active, EarlyMedia})"

definition call_on_hold :: "sip_call \<Rightarrow> bool" where "call_on_hold c = (cl_local_hold c \<or> cl_remote_hold c)"

section \<open>The media of a description\<close>

fun to_sock :: "ip_addr \<times> u16 \<Rightarrow> sock_addr" where
  "to_sock (Ip4 a, p) = V4 a p"
| "to_sock (Ip6 a, p) = V6 a p"

text \<open>A stream with port 0 is disabled and leaves the remote address alone.\<close>

definition apply_media_target :: "sdp \<Rightarrow> sip_call \<Rightarrow> sip_call" where
  "apply_media_target d c =
     (case rtp_addr d of
        Some (ip, port) \<Rightarrow>
          if port \<noteq> 0 then c\<lparr>cl_rtp_engine := map_option (set_remote (to_sock (ip, port))) (cl_rtp_engine c)\<rparr> else c
      | None \<Rightarrow> c)"

text \<open>\<^verbatim>\<open>std::str::from_utf8\<close> of a body, empty bodies left out.\<close>

definition body_text :: "string \<Rightarrow> string option" where
  "body_text body = (if body \<noteq> [] \<and> utf8_valid (map (\<lambda>c. of_nat (of_char c)) body) then Some body else None)"

section \<open>INFO and NOTIFY bodies\<close>

definition is_dtmf_char :: "char \<Rightarrow> bool" where
  "is_dtmf_char c = (is_digit c \<or> c \<in> {CHR ''*'', CHR ''#''} \<or> to_upper c \<in> {CHR ''A'', CHR ''B'', CHR ''C'', CHR ''D''})"

definition clamp_duration :: "u32 \<Rightarrow> u32" where "clamp_duration d = min (max d 100) 5000"

definition relay_line :: "string \<Rightarrow> char option \<times> u32 \<Rightarrow> char option \<times> u32" where
  "relay_line raw st =
     (let (digit, dur) = st; l = trim raw; lower = to_lowercase l
      in if starts_with ''signal'' lower then
           (case split_once (CHR ''='') l of
              Some (_, v) \<Rightarrow>
                (case trim v of
                   c # _ \<Rightarrow> if is_dtmf_char c then (Some (to_upper c), dur) else (digit, dur)
                 | [] \<Rightarrow> (digit, dur))
            | None \<Rightarrow> (digit, dur))
         else if starts_with ''duration'' lower then
           (case split_once (CHR ''='') l of
              Some (_, v) \<Rightarrow> (case parse_u32 (trim v) of Some d \<Rightarrow> (digit, clamp_duration d) | None \<Rightarrow> (digit, dur))
            | None \<Rightarrow> (digit, dur))
         else (digit, dur))"

definition parse_dtmf_relay :: "string \<Rightarrow> (char \<times> u32) option" where
  "parse_dtmf_relay raw =
     (let body = trim raw
      in case body of
           [c] \<Rightarrow> if is_dtmf_char c then Some (to_upper c, 250) else None
         | _ \<Rightarrow> (let (digit, dur) = fold relay_line (lines body) (None, 250) in map_option (\<lambda>c. (c, dur)) digit))"

definition parse_sipfrag_status :: "string \<Rightarrow> (u16 \<times> string) option" where
  "parse_sipfrag_status body =
     (case lines body of
        [] \<Rightarrow> None
      | l # _ \<Rightarrow>
          (let line = trim l
           in if \<not> starts_with ''SIP/2.0 '' line then None
              else
                (let rest = drop 8 line;
                     (code, reason) = (case split_once (CHR '' '') rest of Some (a, b) \<Rightarrow> (a, b) | None \<Rightarrow> (rest, []))
                 in map_option (\<lambda>n. (of_nat n, reason)) (parse_uint 65535 code))))"

end
