(* ===== verification/Sip_Engine.thy ===== *)
theory Sip_Engine
  imports Sip_Call
begin

text \<open>
  The state of the SIP engine of \<^verbatim>\<open>src/sip/engine.rs\<close> and what does not concern a single call:
  its configuration, the providers, the rate limit, the RTP ports, the health of the gateways and the
  registration states. The SIP stack is the crate \<^verbatim>\<open>rsipstack\<close>: what its calls return and the requests it
  hands over are arguments, what is handed to it is recorded in \<open>se_sent\<close>. Broadcast events are the
  list \<open>se_events\<close>. A hash map is a map; where the code iterates over one, the order of its keys
  is an argument.
\<close>

section \<open>Messages\<close>

text \<open>The headers the engine reads and writes, by their text.\<close>

datatype sip_header =
    HVia string
  | HMaxForwards string
  | HRoute string
  | HRecordRoute string
  | HFrom string
  | HTo string
  | HCallId string
  | HCSeq string
  | HContact string
  | HContentType string
  | HContentLength string
  | HSupported string
  | HRequire string
  | HUserAgent string
  | HOther string string

fun user_agent_value :: "sip_header \<Rightarrow> string option" where
  "user_agent_value (HUserAgent v) = Some v"
| "user_agent_value _ = None"

fun record_route_value :: "sip_header \<Rightarrow> string option" where
  "record_route_value (HRecordRoute v) = Some v"
| "record_route_value _ = None"

fun contact_value :: "sip_header \<Rightarrow> string option" where
  "contact_value (HContact v) = Some v"
| "contact_value _ = None"

fun require_value :: "sip_header \<Rightarrow> string option" where
  "require_value (HRequire v) = Some v"
| "require_value _ = None"

fun content_type_value :: "sip_header \<Rightarrow> string option" where
  "content_type_value (HContentType v) = Some v"
| "content_type_value _ = None"

fun other_value :: "string \<Rightarrow> sip_header \<Rightarrow> string option" where
  "other_value name (HOther n v) = (if eq_ignore_case n name then Some v else None)"
| "other_value name _ = None"

definition header_values :: "(sip_header \<Rightarrow> string option) \<Rightarrow> sip_header list \<Rightarrow> string list" where
  "header_values f hs = List.map_filter f hs"

text \<open>The URI of a Contact header: what stands in angle brackets, or what precedes the parameters.\<close>

definition contact_uri :: "string \<Rightarrow> string" where
  "contact_uri s =
     (let trimmed = trim s
      in case trimmed of
           [] \<Rightarrow> []
         | c # cs \<Rightarrow>
             (case (if c = CHR ''<'' then split_once (CHR ''>'') cs else None) of
                Some (uri, _) \<Rightarrow> uri
              | None \<Rightarrow> hd (split_on (CHR '';'') trimmed)))"

text \<open>What the engine hands to a dialog of the SIP stack.\<close>

datatype dialog_request =
    SendRinging "sip_header list"
  | SendOk "sip_header list" "string option"
  | SendReject u16
  | SendBye
  | SendCancel
  | SendInfo "sip_header list" string
  | SendReinvite "sip_header list" "string option"

section \<open>Configuration and state\<close>

datatype transport = Udp | Tcp | Tls

record provider_credentials =
  pc_id :: string
  pc_sip_server :: string
  pc_sip_port :: u16
  pc_username :: string
  pc_password :: string
  pc_realm :: "string option"
  pc_register :: bool

record sip_config =
  sc_local_addr :: sock_addr
  sc_user_agent :: string
  sc_rtp_port_start :: u16
  sc_rtp_port_end :: u16
  sc_enable_100rel :: bool
  sc_options_keepalive_interval_secs :: u64
  sc_contact_nat_rewrite :: bool
  sc_max_calls :: nat
  sc_max_requests_per_second :: u32
  sc_auto_redirect :: bool
  sc_timer_t1_ms :: "u32 option"
  sc_timer_t2_ms :: "u32 option"
  sc_timer_t1x64_ms :: "u32 option"
  sc_enable_session_timers :: bool
  sc_transport :: transport
  sc_tls_verify :: bool
  sc_tls_ca_cert :: "string option"

definition sip_config_default :: sip_config where
  "sip_config_default =
     \<lparr>sc_local_addr = V4 0 5060, sc_user_agent = ''rtpsip/0.1'', sc_rtp_port_start = 10000, sc_rtp_port_end = 20000,
      sc_enable_100rel = False, sc_options_keepalive_interval_secs = 0, sc_contact_nat_rewrite = False,
      sc_max_calls = 0, sc_max_requests_per_second = 0, sc_auto_redirect = False, sc_timer_t1_ms = None,
      sc_timer_t2_ms = None, sc_timer_t1x64_ms = None, sc_enable_session_timers = False, sc_transport = Udp,
      sc_tls_verify = True, sc_tls_ca_cert = None\<rparr>"

definition set_100rel_enabled :: "bool \<Rightarrow> sip_config \<Rightarrow> sip_config" where
  "set_100rel_enabled b c = c\<lparr>sc_enable_100rel := b\<rparr>"

text \<open>A refresh task by its interval in seconds; its handle outlives it.\<close>

record refresh_task =
  rf_interval :: nat
  rf_running :: bool

record sip_engine =
  se_providers :: "string \<rightharpoonup> provider_credentials"
  se_registrations :: "string set"
  se_calls :: "string \<rightharpoonup> sip_call"
  se_events :: "sip_event list"
  se_config :: sip_config
  se_next_rtp_port :: u16
  se_listening :: bool
  se_registration_states :: "string \<rightharpoonup> registration_state"
  se_registration_expiries :: "string \<rightharpoonup> u32"
  se_gateway_health :: "string \<rightharpoonup> bool"
  se_request_timestamps :: "nat list"
  se_refresh_handles :: "string \<rightharpoonup> refresh_task"
  se_allocated_ports :: "u16 set"
  se_port_pool :: "u16 set"
  se_sent :: "(dialog_id \<times> dialog_request) list"

definition sip_engine_new :: "sip_config \<Rightarrow> sip_engine" where
  "sip_engine_new cfg =
     \<lparr>se_providers = Map.empty, se_registrations = {}, se_calls = Map.empty, se_events = [], se_config = cfg,
      se_next_rtp_port = sc_rtp_port_start cfg, se_listening = False,
      se_registration_states = Map.empty,
      se_registration_expiries = Map.empty, se_gateway_health = Map.empty, se_request_timestamps = [],
      se_refresh_handles = Map.empty, se_allocated_ports = {}, se_port_pool = {}, se_sent = []\<rparr>"

definition emit_event :: "sip_event \<Rightarrow> sip_engine \<Rightarrow> sip_engine" where
  "emit_event ev e = e\<lparr>se_events := se_events e @ [ev]\<rparr>"

definition hand_over :: "dialog_id \<Rightarrow> dialog_request \<Rightarrow> sip_engine \<Rightarrow> sip_engine" where
  "hand_over d r e = e\<lparr>se_sent := se_sent e @ [(d, r)]\<rparr>"

text \<open>A session is shared: an update reaches the engine as long as its call is in the map.\<close>

definition upd_call :: "string \<Rightarrow> (sip_call \<Rightarrow> sip_call) \<Rightarrow> sip_engine \<Rightarrow> sip_engine" where
  "upd_call cid f e =
     (case se_calls e cid of Some c \<Rightarrow> e\<lparr>se_calls := (se_calls e)(cid \<mapsto> f c)\<rparr> | None \<Rightarrow> e)"

definition call_not_found :: "string \<Rightarrow> rtpsip_error" where
  "call_not_found cid = Session (''Call not found: '' @ cid)"

section \<open>Providers and gateways\<close>

definition add_provider :: "provider_credentials \<Rightarrow> sip_engine \<Rightarrow> sip_engine" where
  "add_provider p e = e\<lparr>se_providers := (se_providers e)(pc_id p \<mapsto> p)\<rparr>"

definition remove_provider :: "string \<Rightarrow> sip_engine \<Rightarrow> sip_engine" where
  "remove_provider pid e =
     e\<lparr>se_providers := (se_providers e)(pid := None), se_registrations := se_registrations e - {pid}\<rparr>"

definition nat_rewritten_contact :: "sip_engine \<Rightarrow> string \<Rightarrow> string" where
  "nat_rewritten_contact e user = ''sip:'' @ user @ ''@'' @ show_sock (sc_local_addr (se_config e))"

fun transport_str :: "transport \<Rightarrow> string" where
  "transport_str Udp = ''UDP''"
| "transport_str Tcp = ''TCP''"
| "transport_str Tls = ''TLS''"

definition gateway_name :: "provider_credentials \<Rightarrow> string" where
  "gateway_name p = pc_sip_server p @ '':'' @ show_nat (unat (pc_sip_port p))"

text \<open>The headers of an OPTIONS ping; the branch, the tag and the Call-ID are random identifiers.\<close>

definition options_headers :: "string \<Rightarrow> string \<Rightarrow> string \<Rightarrow> sip_engine \<Rightarrow> string \<Rightarrow> sip_header list" where
  "options_headers branch_id tag_id call_id e server =
     (let addr = show_sock (sc_local_addr (se_config e))
      in [HVia (''SIP/2.0/'' @ transport_str (sc_transport (se_config e)) @ '' '' @ addr @ '';branch=z9hG4bK'' @ branch_id),
          HMaxForwards ''70'', HFrom (''<sip:keepalive@'' @ addr @ ''>;tag='' @ tag_id), HTo (''<sip:'' @ server @ ''>''),
          HCallId call_id, HCSeq ''1 OPTIONS'', HUserAgent (sc_user_agent (se_config e)), HContentLength ''0''])"

text \<open>A gateway is healthy when the ping is answered with a 2xx response; the answer of a ping is \<open>None\<close> when
  the name does not resolve, the socket fails or five seconds pass.\<close>

definition ping_healthy :: "string option \<Rightarrow> bool" where
  "ping_healthy answer = (case answer of Some response \<Rightarrow> starts_with ''SIP/2.0 2'' response | None \<Rightarrow> False)"

definition note_health :: "string \<Rightarrow> bool \<Rightarrow> sip_engine \<Rightarrow> sip_engine" where
  "note_health server healthy e =
     (let e1 = e\<lparr>se_gateway_health := (se_gateway_health e)(server \<mapsto> healthy)\<rparr>
      in if se_gateway_health e server \<noteq> Some healthy then emit_event (EvGatewayHealth server healthy) e1 else e1)"

definition send_options_keepalive :: "string list \<Rightarrow> (string \<Rightarrow> string option) \<Rightarrow> sip_engine \<Rightarrow> sip_engine" where
  "send_options_keepalive order answers e =
     fold (\<lambda>p. note_health (gateway_name p) (ping_healthy (answers (gateway_name p))))
       (List.map_filter (se_providers e) order) e"

section \<open>Registration states\<close>

fun scan_states :: "registration_state list \<Rightarrow> bool \<Rightarrow> string option \<Rightarrow> registration_state" where
  "scan_states [] has_registering first_failure =
     (if has_registering then Registering
      else (case first_failure of Some msg \<Rightarrow> RegistrationFailed msg | None \<Rightarrow> Unregistered))"
| "scan_states (s # ss) has_registering first_failure =
     (case s of
        Registered \<Rightarrow> Registered
      | Registering \<Rightarrow> scan_states ss True first_failure
      | RegistrationFailed msg \<Rightarrow> scan_states ss has_registering (if first_failure = None then Some msg else first_failure)
      | _ \<Rightarrow> scan_states ss has_registering first_failure)"

definition engine_registration_state :: "string list \<Rightarrow> sip_engine \<Rightarrow> registration_state" where
  "engine_registration_state order e = scan_states (List.map_filter (se_registration_states e) order) False None"

definition provider_registration_state :: "string \<Rightarrow> sip_engine \<Rightarrow> registration_state" where
  "provider_registration_state pid e = (case se_registration_states e pid of Some s \<Rightarrow> s | None \<Rightarrow> Unregistered)"

definition registration_state_str :: "sip_engine \<Rightarrow> string" where
  "registration_state_str e =
     (if se_providers e = Map.empty then ''no_providers''
      else if se_registrations e = {} then ''unregistered'' else ''registered'')"

section \<open>The rate limit\<close>

definition one_second :: nat where "one_second = 1000000000"

definition check_rate_limit :: "nat \<Rightarrow> sip_engine \<Rightarrow> sip_engine \<times> bool" where
  "check_rate_limit now e =
     (if sc_max_requests_per_second (se_config e) = 0 then (e, True)
      else
        (let recent = filter (\<lambda>t. now - t < one_second) (se_request_timestamps e)
         in if length recent \<ge> unat (sc_max_requests_per_second (se_config e))
            then (e\<lparr>se_request_timestamps := recent\<rparr>, False)
            else (e\<lparr>se_request_timestamps := recent @ [now]\<rparr>, True)))"

section \<open>RTP ports\<close>

definition round_up_even :: "u16 \<Rightarrow> u16" where "round_up_even p = (if p mod 2 \<noteq> 0 then p + 1 else p)"

text \<open>The loop over the ports; \<open>None\<close> when it does not end. The flag says that the range is exhausted.\<close>

partial_function (option) scan_sip_ports ::
    "u16 \<Rightarrow> u16 \<Rightarrow> u16 set \<Rightarrow> u16 \<Rightarrow> bool \<Rightarrow> u16 \<Rightarrow> (u16 \<times> bool) option" where
  "scan_sip_ports range_start range_end used initial wrapped port =
     (let p = (if port \<ge> range_end then range_start else port);
          w = (wrapped \<or> port \<ge> range_end)
      in if w \<and> p \<ge> initial then Some (p, True)
         else if p \<notin> used then Some (p, False)
         else scan_sip_ports range_start range_end used initial w (p + 2))"

declare scan_sip_ports.simps [code]

definition sip_allocate_rtp_port :: "sip_engine \<Rightarrow> (sip_engine \<times> u16) option" where
  "sip_allocate_rtp_port e =
     (let range_start = round_up_even (sc_rtp_port_start (se_config e));
          range_end = sc_rtp_port_end (se_config e);
          first = round_up_even (se_next_rtp_port e)
      in case scan_sip_ports range_start range_end (se_allocated_ports e) first False first of
           None \<Rightarrow> None
         | Some (port, _) \<Rightarrow>
             (let following = port + 2
              in Some (e\<lparr>se_allocated_ports := insert port (se_allocated_ports e),
                         se_next_rtp_port := (if following \<ge> range_end then range_start else following)\<rparr>, port)))"

definition sip_release_rtp_port :: "u16 \<Rightarrow> sip_engine \<Rightarrow> sip_engine" where
  "sip_release_rtp_port p e = e\<lparr>se_allocated_ports := se_allocated_ports e - {p}\<rparr>"

section \<open>Stopping\<close>

text \<open>The shutdown signal ends the listener and every refresh task.\<close>

definition engine_shut_down :: "sip_engine \<Rightarrow> sip_engine" where
  "engine_shut_down e =
     e\<lparr>se_listening := False,
       se_refresh_handles := map_option (\<lambda>t. t\<lparr>rf_running := False\<rparr>) \<circ> se_refresh_handles e\<rparr>"

end
