(* ===== verification/Sip_Engine_Inbound.thy ===== *)
theory Sip_Engine_Inbound
  imports Sip_Engine Rtp_Engine_Send
begin

text \<open>
  The SIP engine and the requests it receives: an INVITE, from its checks to the ringing session, and the
  events of a dialog that the task of a call takes from its channel. The uri check and the RTP crates
  are the fields of \<open>sip_crates\<close>; identifiers, random values, the instant, the result of
  binding the RTP socket and the dialog the SIP stack creates are arguments.
\<close>

record sip_crates =
  sk_rtp :: rtp_crates
  sk_uri_error :: "string \<Rightarrow> string option"

text \<open>What a new call takes from outside.\<close>

record call_env =
  en_call_id :: string
  en_bind :: "(string, sock_addr) outcome"
  en_engine :: engine_random
  en_local_sdp :: u64
  en_remote_sdp :: u64
  en_now :: nat

record sip_message =
  ms_status :: u16
  ms_headers :: "sip_header list"
  ms_body :: string

record sip_invite =
  iv_call_id :: "string option"
  iv_from_uri :: "string option"
  iv_to_uri :: "string option"
  iv_max_forwards :: "string option"
  iv_headers :: "sip_header list"
  iv_body :: string

section \<open>RTP engines of calls\<close>

definition open_rtp :: "call_env \<Rightarrow> rtp_engine res" where
  "open_rtp env =
     (case en_bind env of
        Err x \<Rightarrow> Err (Io x)
      | Panic \<Rightarrow> Panic
      | Ok actual \<Rightarrow> engine_new (en_engine env) (en_now env) actual (engine_config_default\<lparr>ec_codec := Pcmu\<rparr>))"

definition stop_rtp :: "sip_crates \<Rightarrow> string option \<Rightarrow> string \<Rightarrow> sip_engine \<Rightarrow> sip_engine res" where
  "stop_rtp k io cid e =
     (case Option.bind (se_calls e cid) cl_rtp_engine of
        None \<Rightarrow> Ok e
      | Some r \<Rightarrow>
          (case engine_stop (sk_rtp k) io (se_port_pool e) r of
             Ok (pool, r') \<Rightarrow> Ok ((upd_call cid (\<lambda>c. c\<lparr>cl_rtp_engine := Some r'\<rparr>) e)\<lparr>se_port_pool := pool\<rparr>)
           | Err x \<Rightarrow> Err x
           | Panic \<Rightarrow> Panic))"

definition call_port :: "string \<Rightarrow> sip_engine \<Rightarrow> u16 option" where
  "call_port cid e = map_option (\<lambda>r. sock_port (re_local_addr r)) (Option.bind (se_calls e cid) cl_rtp_engine)"

definition release_call_port :: "u16 option \<Rightarrow> sip_engine \<Rightarrow> sip_engine" where
  "release_call_port port e = (case port of Some p \<Rightarrow> sip_release_rtp_port p e | None \<Rightarrow> e)"

definition remove_call :: "string \<Rightarrow> sip_engine \<Rightarrow> sip_engine" where
  "remove_call cid e = e\<lparr>se_calls := (se_calls e)(cid := None)\<rparr>"

definition device_of :: "string \<Rightarrow> sip_call \<Rightarrow> sip_call" where
  "device_of ua c =
     (let flags = detect_from_user_agent ua
      in c\<lparr>cl_rtp_engine := (if has_workarounds flags then map_option (set_rtp_bug_flags flags) (cl_rtp_engine c)
                              else cl_rtp_engine c),
           cl_remote_user_agent := Some ua, cl_rtp_bug_flags := flags\<rparr>)"

text \<open>The User-Agent of a response, when none is known yet; its Contact.\<close>

definition note_device :: "sip_header list \<Rightarrow> sip_call \<Rightarrow> sip_call" where
  "note_device hs c =
     (if cl_remote_user_agent c = None
      then (case header_values user_agent_value hs of ua # _ \<Rightarrow> device_of ua c | [] \<Rightarrow> c) else c)"

definition note_contact :: "sip_header list \<Rightarrow> sip_call \<Rightarrow> sip_call" where
  "note_contact hs c =
     (case header_values contact_value hs of s # _ \<Rightarrow> c\<lparr>cl_remote_contact := Some (contact_uri s)\<rparr> | [] \<Rightarrow> c)"

definition session_expires_header :: "sip_header list \<Rightarrow> string option" where
  "session_expires_header hs = (case header_values (other_value ''Session-Expires'') hs of v # _ \<Rightarrow> Some v | [] \<Rightarrow> None)"

section \<open>An INVITE: its checks\<close>

definition duplicate_invite :: "sip_invite \<Rightarrow> sip_engine \<Rightarrow> bool" where
  "duplicate_invite iv e =
     (case iv_call_id iv of
        None \<Rightarrow> False
      | Some sip_cid \<Rightarrow>
          \<exists>c \<in> ran (se_calls e). cl_direction c = Inbound
            \<and> map_option (\<lambda>d. trim (di_call_id d)) (cl_server_dialog c) = Some (trim sip_cid))"

definition supported_options :: "sip_engine \<Rightarrow> string list" where
  "supported_options e = [''timer''] @ (if sc_enable_100rel (se_config e) then [''100rel''] else [])"

definition unsupported_options :: "sip_invite \<Rightarrow> sip_engine \<Rightarrow> string list" where
  "unsupported_options iv e =
     filter (\<lambda>opt. opt \<notin> set (supported_options e))
       (concat (map (\<lambda>h. map (\<lambda>s. to_lowercase (trim s)) (split_on (CHR '','') h))
          (header_values require_value (iv_headers iv))))"

definition interval_too_small :: "sip_invite \<Rightarrow> bool" where
  "interval_too_small iv =
     (case session_expires_header (iv_headers iv) of
        None \<Rightarrow> False
      | Some v \<Rightarrow>
          (case parse_session_expires v False of
             Some (offered, _) \<Rightarrow> offered < tc_min_se timer_config_default | None \<Rightarrow> False))"

definition no_hops_left :: "sip_invite \<Rightarrow> bool" where
  "no_hops_left iv = (case iv_max_forwards iv of Some v \<Rightarrow> parse_u32 (trim v) = Some 0 | None \<Rightarrow> False)"

definition at_max_calls :: "sip_engine \<Rightarrow> bool" where
  "at_max_calls e = (sc_max_calls (se_config e) > 0 \<and> card (dom (se_calls e)) \<ge> sc_max_calls (se_config e))"

text \<open>The status with which an INVITE is refused.\<close>

definition admit_invite :: "nat \<Rightarrow> sip_invite \<Rightarrow> sip_engine \<Rightarrow> sip_engine \<times> u16 option" where
  "admit_invite now iv e =
     (let (e1, within_limit) = check_rate_limit now e
      in if \<not> within_limit then (e1, Some 503)
         else if at_max_calls e1 then (e1, Some 503)
         else if unsupported_options iv e1 \<noteq> [] then (e1, Some 420)
         else if interval_too_small iv then (e1, Some 422)
         else if no_hops_left iv then (e1, Some 483)
         else (e1, None))"

section \<open>An INVITE: the session\<close>

definition invite_device :: "sip_invite \<Rightarrow> string option" where
  "invite_device iv = (case header_values user_agent_value (iv_headers iv) of ua # _ \<Rightarrow> Some ua | [] \<Rightarrow> None)"

definition device_flags :: "string option \<Rightarrow> rtp_bug_flags" where
  "device_flags ua = (case ua of Some s \<Rightarrow> detect_from_user_agent s | None \<Rightarrow> no_bugs)"

definition rtp_for_offer :: "rtp_bug_flags \<Rightarrow> remote_media \<Rightarrow> rtp_engine \<Rightarrow> rtp_engine" where
  "rtp_for_offer flags offer r =
     (let r1 = (if has_workarounds flags then set_rtp_bug_flags flags r else r);
          r2 = (case rd_destination offer of Some dest \<Rightarrow> set_remote (to_sock dest) r1 | None \<Rightarrow> r1)
      in (case rd_ptime offer of Some ptime \<Rightarrow> engine_set_ptime ptime r2 | None \<Rightarrow> r2))"

definition inbound_timer :: "nat \<Rightarrow> sip_invite \<Rightarrow> session_timer option" where
  "inbound_timer now iv =
     map_option (\<lambda>header. fst (process_response now (Some header) False (timer_new now timer_config_default)))
       (session_expires_header (iv_headers iv))"

definition inbound_session :: "call_env \<Rightarrow> sip_invite \<Rightarrow> dialog_id \<Rightarrow> remote_media \<Rightarrow> rtp_engine option \<Rightarrow> sip_engine \<Rightarrow> sip_call" where
  "inbound_session env iv d offer rtp e =
     \<lparr>cl_call_id = en_call_id env, cl_state = Trying, cl_direction = Inbound, cl_provider_id = ''inbound'',
      cl_rtp_engine = rtp, cl_client_dialog = None, cl_server_dialog = Some d,
      cl_local_sdp = map_option (\<lambda>r. build_answer (en_local_sdp env) (sock_ip (re_local_addr r))
                                   (sock_port (re_local_addr r)) (rd_direction offer)) rtp,
      cl_remote_sdp = body_text (iv_body iv),
      cl_local_uri = Some (option_or ''unknown'' (iv_to_uri iv)),
      cl_remote_uri = Some (option_or ''unknown'' (iv_from_uri iv)),
      cl_remote_addr = None, cl_cseq = 1, cl_local_contact = Some (nat_rewritten_contact e ''rtpsip''),
      cl_dtmf_mode = Auto, cl_remote_telephone_event_pt = rd_telephone_event_pt offer,
      cl_early_media_state = NoEarlyMedia, cl_remote_media_direction = rd_direction offer,
      cl_local_hold = False, cl_remote_hold = False, cl_remote_user_agent = invite_device iv,
      cl_rtp_bug_flags = device_flags (invite_device iv), cl_session_timer = inbound_timer (en_now env) iv,
      cl_refer_pending = False, cl_refer_target = None, cl_reinvite_pending = False, cl_remote_contact = None,
      cl_sdp_session_version = 1, cl_negotiated_codec = None, cl_cancel_pending = False,
      cl_route_set = header_values record_route_value (iv_headers iv), cl_cancel_tx = False\<rparr>"

definition ring_call :: "call_env \<Rightarrow> sip_invite \<Rightarrow> dialog_id \<Rightarrow> sip_call \<Rightarrow> sip_engine \<Rightarrow> sip_engine" where
  "ring_call env iv d c e =
     (let e1 = e\<lparr>se_calls := (se_calls e)(en_call_id env \<mapsto> c)\<rparr>;
          e2 = hand_over d (SendRinging [HContact (''<'' @ nat_rewritten_contact e1 ''rtpsip'' @ ''>''), HSupported ''timer'']) e1;
          e3 = upd_call (en_call_id env) (\<lambda>c. c\<lparr>cl_state := Ringing\<rparr>) e2
      in emit_event (EvIncoming (en_call_id env) (option_or ''unknown'' (iv_from_uri iv)) (option_or ''unknown'' (iv_to_uri iv))) e3)"

text \<open>What becomes of an admitted INVITE, once its port is allocated: the engine and the final response, if one
  is sent. The parser of descriptions can panic, which ends the listener.\<close>

definition set_up_invite :: "call_env \<Rightarrow> (string, dialog_id) outcome \<Rightarrow> sip_invite \<Rightarrow> u16 \<Rightarrow> sip_engine
    \<Rightarrow> (sip_engine \<times> u16 list) res" where
  "set_up_invite env dialog iv port e =
     (let remote_sdp = body_text (iv_body iv);
          (rtp, e1) = (case open_rtp env of Ok r \<Rightarrow> (Some r, e) | _ \<Rightarrow> (None, sip_release_rtp_port port e))
      in if open_rtp env = Panic then Panic
         else if rtp = None \<and> remote_sdp \<noteq> None then Ok (e1, [500])
         else if (case remote_sdp of Some t \<Rightarrow> sdp_parse (en_remote_sdp env) t = Panic | None \<Rightarrow> False) then Panic
         else
           (let offer = take_offer (en_remote_sdp env) remote_sdp;
                rtp1 = map_option (rtp_for_offer (device_flags (invite_device iv)) offer) rtp
            in case dialog of
                 Err _ \<Rightarrow> Ok (e1, [])
               | Panic \<Rightarrow> Panic
               | Ok d \<Rightarrow> Ok (ring_call env iv d (inbound_session env iv d offer rtp1 e1) e1, [])))"

text \<open>The whole of it, with the statuses replied through the transaction; \<open>None\<close> when the search for a port does
  not end.\<close>

definition handle_incoming_invite :: "call_env \<Rightarrow> (string, dialog_id) outcome \<Rightarrow> sip_invite \<Rightarrow> sip_engine
    \<Rightarrow> (sip_engine \<times> u16 list) res option" where
  "handle_incoming_invite env dialog iv e =
     (if duplicate_invite iv e then Some (Ok (e, [100]))
      else
        (let (e1, refused) = admit_invite (en_now env) iv e
         in case refused of
              Some status \<Rightarrow> Some (Ok (e1, [100, status]))
            | None \<Rightarrow>
                (case sip_allocate_rtp_port e1 of
                   None \<Rightarrow> None
                 | Some (e2, port) \<Rightarrow>
                     Some (res_bind (set_up_invite env dialog iv port e2) (\<lambda>(e3, replies). Ok (e3, 100 # replies))))))"

section \<open>Requests outside a dialog\<close>

definition refer_target :: "sip_header list \<Rightarrow> string option" where
  "refer_target hs =
     (case header_values (other_value ''Refer-To'') hs of
        [] \<Rightarrow> None
      | v # _ \<Rightarrow>
          (let uri = trim v
           in Some (if uri \<noteq> [] \<and> hd uri = CHR ''<'' \<and> tl uri \<noteq> [] \<and> last (tl uri) = CHR ''>''
                    then butlast (tl uri) else uri)))"

definition call_of_dialog :: "string list \<Rightarrow> string option \<Rightarrow> sip_engine \<Rightarrow> string" where
  "call_of_dialog order sip_call_id e =
     option_or ''unknown''
       (Option.bind sip_call_id (\<lambda>cid.
          List.find (\<lambda>k. case se_calls e k of
                      Some c \<Rightarrow> map_option (\<lambda>d. trim (di_call_id d)) (or_else (cl_client_dialog c) (cl_server_dialog c))
                                  = Some (trim cid)
                    | None \<Rightarrow> False) order))"

datatype sip_transaction =
    InviteTransaction sip_invite call_env "(string, dialog_id) outcome"
  | OptionsTransaction
  | ReferTransaction "string option" "sip_header list"
  | OtherTransaction

text \<open>One transaction taken by the listener. A panic ends it: no later transaction is taken; what the engine did in
  that transaction before the panic is not followed.\<close>

definition on_transaction :: "string list \<Rightarrow> sip_transaction \<Rightarrow> sip_engine \<Rightarrow> (sip_engine \<times> u16 list) option" where
  "on_transaction order tr e =
     (if \<not> se_listening e then Some (e, [])
      else case tr of
        InviteTransaction iv env dialog \<Rightarrow>
          (case handle_incoming_invite env dialog iv e of
             None \<Rightarrow> None
           | Some (Ok (e1, replies)) \<Rightarrow> Some (e1, replies)
           | Some _ \<Rightarrow> Some (e\<lparr>se_listening := False\<rparr>, [100]))
      | OptionsTransaction \<Rightarrow> Some (e, [200])
      | ReferTransaction sip_call_id hs \<Rightarrow>
          (case refer_target hs of
             Some uri \<Rightarrow> Some (emit_event (EvReferReceived (call_of_dialog order sip_call_id e) uri) e, [202])
           | None \<Rightarrow> Some (e, [400]))
      | OtherTransaction \<Rightarrow> Some (e, [405]))"

definition start_listening :: "string option \<Rightarrow> sip_engine \<Rightarrow> sip_engine \<times> unit res" where
  "start_listening failure e =
     (case failure of
        Some x \<Rightarrow> (e, Err (Sip (''Failed to get incoming transactions: '' @ x)))
      | None \<Rightarrow> (e\<lparr>se_listening := True\<rparr>, Ok ()))"

end
