(* ===== verification/Sip_Engine_Dialog.thy ===== *)
theory Sip_Engine_Dialog
  imports Sip_Engine_Inbound
begin

text \<open>
  The events of a dialog, which the task of a call takes from its channel one by one until the dialog has
  terminated: a re-INVITE, an INFO, a provisional response, a NOTIFY and the end.
\<close>

datatype dialog_event =
    DUpdated sip_message
  | DInfo sip_message
  | DEarly sip_message
  | DNotify sip_message
  | DTerminated string
  | DOptions sip_message
  | DOther

text \<open>What a step takes from outside: the crates, the error of sending the RTCP BYE, the instant and the random
  number of the parser.\<close>

record step_env =
  sn_crates :: sip_crates
  sn_bye_error :: "string option"
  sn_now :: nat
  sn_random :: u64

section \<open>Re-INVITE\<close>

definition take_reinvite :: "sdp \<Rightarrow> sip_call \<Rightarrow> sip_call" where
  "take_reinvite d c =
     (let c1 = apply_media_target d c;
          c2 = (case negotiate_codec [Pcmu, Pcma] d of
                  Some new_codec \<Rightarrow>
                    if cl_negotiated_codec c1 \<noteq> Some new_codec then c1\<lparr>cl_negotiated_codec := Some new_codec\<rparr> else c1
                | None \<Rightarrow> c1)
      in update_from_remote_sdp d c2)"

definition refresh_call_timer :: "nat \<Rightarrow> sip_call \<Rightarrow> sip_call" where
  "refresh_call_timer now c = c\<lparr>cl_session_timer := map_option (timer_refresh now) (cl_session_timer c)\<rparr>"

definition on_updated :: "step_env \<Rightarrow> string \<Rightarrow> sip_message \<Rightarrow> sip_engine \<Rightarrow> sip_engine res" where
  "on_updated env cid m e =
     (let sdp_str = body_text (ms_body m);
          finish = (\<lambda>e1. Ok (emit_event (EvReInvite cid sdp_str) (upd_call cid (refresh_call_timer (sn_now env)) e1)))
      in case sdp_str of
           None \<Rightarrow> finish e
         | Some t \<Rightarrow>
             (case se_calls e cid of
                None \<Rightarrow> finish e
              | Some _ \<Rightarrow>
                  (let e1 = upd_call cid (\<lambda>c. c\<lparr>cl_remote_sdp := Some t\<rparr>) e
                   in case sdp_parse (sn_random env) t of
                        Ok d \<Rightarrow> finish (upd_call cid (take_reinvite d) e1)
                      | Err _ \<Rightarrow> finish e1
                      | Panic \<Rightarrow> Panic)))"

section \<open>INFO and NOTIFY\<close>

definition on_info :: "string \<Rightarrow> sip_message \<Rightarrow> sip_engine \<Rightarrow> sip_engine" where
  "on_info cid m e =
     (if list_ex (\<lambda>v. contains_str ''dtmf'' (to_lowercase v)) (header_values content_type_value (ms_headers m)) then
        (case Option.bind (body_text (ms_body m)) parse_dtmf_relay of
           Some (digit, dur) \<Rightarrow> emit_event (EvDtmfReceived cid digit dur) e
         | None \<Rightarrow> e)
      else e)"

definition header_starts :: "string \<Rightarrow> string \<Rightarrow> sip_header list \<Rightarrow> bool" where
  "header_starts name prefix hs = list_ex (\<lambda>v. starts_with prefix (trim v)) (header_values (other_value name) hs)"

definition on_notify :: "string \<Rightarrow> sip_message \<Rightarrow> sip_engine \<Rightarrow> sip_engine" where
  "on_notify cid m e =
     (if header_starts ''Event'' ''refer'' (ms_headers m) then
        (let (status, reason) = option_or (100, ''Trying'') (parse_sipfrag_status (option_or [] (body_text (ms_body m))));
             terminated = header_starts ''Subscription-State'' ''terminated'' (ms_headers m);
             completed = (terminated \<and> status \<ge> 200 \<and> status < 300);
             e1 = emit_event (EvTransferProgress cid status reason completed) e
         in if terminated then upd_call cid (\<lambda>c. c\<lparr>cl_refer_pending := False\<rparr>) e1 else e1)
      else e)"

section \<open>Provisional responses\<close>

definition early_sdp :: "step_env \<Rightarrow> string option \<Rightarrow> sip_call \<Rightarrow> sip_call res" where
  "early_sdp env sdp_str c =
     (case sdp_str of
        None \<Rightarrow> Ok c
      | Some t \<Rightarrow>
          (case sdp_parse (sn_random env) t of
             Ok d \<Rightarrow> Ok (update_from_remote_sdp d (apply_media_target d c))
           | Err _ \<Rightarrow> Ok c
           | Panic \<Rightarrow> Panic))"

text \<open>The call after a provisional response, and whether early media or ringing is to be announced.\<close>

definition early_status :: "u16 \<Rightarrow> bool \<Rightarrow> sip_call \<Rightarrow> sip_call \<times> bool \<times> bool" where
  "early_status status has_sdp c =
     (if status = 183 then (process_183_session_progress has_sdp c, has_sdp, False)
      else if status = 180 then
        (let c1 = process_180_ringing c in (c1, False, cl_early_media_state c1 \<notin> {EarlyMedia183, Ringing180After183}))
      else (c, False, False))"

definition on_early :: "step_env \<Rightarrow> string \<Rightarrow> sip_message \<Rightarrow> sip_engine \<Rightarrow> sip_engine res" where
  "on_early env cid m e =
     (let sdp_str = body_text (ms_body m)
      in case se_calls e cid of
           None \<Rightarrow> Ok e
         | Some c \<Rightarrow>
             (case early_sdp env sdp_str (note_contact (ms_headers m) (note_device (ms_headers m) c)) of
                Ok c1 \<Rightarrow>
                  (let (c2, media, ringing) = early_status (ms_status m) (sdp_str \<noteq> None) c1;
                       e1 = upd_call cid (\<lambda>_. c2) e
                   in Ok (if media then emit_event (EvEarlyMedia cid sdp_str) e1
                          else if ringing then emit_event (EvRinging cid) e1 else e1))
              | Err x \<Rightarrow> Err x
              | Panic \<Rightarrow> Panic))"

section \<open>The end of a dialog\<close>

definition stop_call_timer :: "sip_call \<Rightarrow> sip_call" where
  "stop_call_timer c = c\<lparr>cl_session_timer := map_option timer_stop (cl_session_timer c)\<rparr>"

definition on_terminated :: "step_env \<Rightarrow> string \<Rightarrow> string \<Rightarrow> sip_engine \<Rightarrow> sip_engine res" where
  "on_terminated env cid reason e =
     (let port = call_port cid e
      in res_bind (stop_rtp (sn_crates env) (sn_bye_error env) cid (upd_call cid stop_call_timer e)) (\<lambda>e1.
           Ok (remove_call cid (emit_event (EvHangup cid reason) (release_call_port port e1)))))"

section \<open>The tasks\<close>

definition inbound_dialog_event :: "step_env \<Rightarrow> string \<Rightarrow> dialog_event \<Rightarrow> sip_engine \<Rightarrow> sip_engine res" where
  "inbound_dialog_event env cid ev e =
     (case ev of
        DUpdated m \<Rightarrow> on_updated env cid m e
      | DInfo m \<Rightarrow> Ok (on_info cid m e)
      | DNotify m \<Rightarrow> Ok (on_notify cid m e)
      | DTerminated reason \<Rightarrow> on_terminated env cid reason e
      | _ \<Rightarrow> Ok e)"

definition outbound_dialog_event :: "step_env \<Rightarrow> string \<Rightarrow> dialog_event \<Rightarrow> sip_engine \<Rightarrow> sip_engine res" where
  "outbound_dialog_event env cid ev e =
     (case ev of
        DUpdated m \<Rightarrow> on_updated env cid m e
      | DInfo m \<Rightarrow> Ok (on_info cid m e)
      | DEarly m \<Rightarrow> on_early env cid m e
      | DNotify m \<Rightarrow> Ok (on_notify cid m e)
      | DTerminated reason \<Rightarrow> on_terminated env cid reason e
      | _ \<Rightarrow> Ok e)"

end
