(* ===== verification/Sip_Engine_Calls.thy ===== *)
theory Sip_Engine_Calls
  imports Sip_Engine_Dialog
begin

text \<open>
  Answering and rejecting an inbound call, making an outbound one, and ending a call by BYE, CANCEL or
  rejection. \<^verbatim>\<open>call\<close> starts a task that waits for the INVITE; \<open>invite_done\<close> is what the task does
  with its result and \<open>invite_cancelled\<close> what it does when the cancel signal comes first.
\<close>

fun state_debug :: "call_state \<Rightarrow> string" where
  "state_debug Initializing = ''Initializing''"
| "state_debug Trying = ''Trying''"
| "state_debug Calling = ''Calling''"
| "state_debug Ringing = ''Ringing''"
| "state_debug EarlyMedia = ''EarlyMedia''"
| "state_debug Answered = ''Answered''"
| "state_debug Active = ''Active''"
| "state_debug Hold = ''Hold''"
| "state_debug Terminating = ''Terminating''"
| "state_debug Terminated = ''Terminated''"
| "state_debug Ended = ''Ended''"
| "state_debug Failed = ''Failed''"

text \<open>\<^verbatim>\<open>Display\<close> of an error.\<close>

fun error_text :: "rtpsip_error \<Rightarrow> string" where
  "error_text (Io s) = ''IO error: '' @ s"
| "error_text (Rtp s) = ''RTP error: '' @ s"
| "error_text (Sip s) = ''SIP error: '' @ s"
| "error_text (Sdp s) = ''SDP error: '' @ s"
| "error_text (Codec s) = ''Codec error: '' @ s"
| "error_text (Session s) = ''Session error: '' @ s"
| "error_text (Provider s) = ''Provider error: '' @ s"
| "error_text (Config s) = ''Configuration error: '' @ s"
| "error_text (Auth s) = ''Authentication error: '' @ s"
| "error_text (Parse s) = ''Parse error: '' @ s"
| "error_text (Timeout s) = ''Timeout: '' @ s"
| "error_text ChannelClosed = ''Channel closed''"
| "error_text NotConnected = ''Not connected''"
| "error_text AlreadyStarted = ''Already started''"
| "error_text NotStarted = ''Not started''"
| "error_text (InvalidState s) = ''Invalid state: '' @ s"

definition no_dialog :: rtpsip_error where "no_dialog = Session ''Dialog not established for this call''"

section \<open>Answering\<close>

definition answer_headers :: "sip_engine \<Rightarrow> string option \<Rightarrow> sip_header list" where
  "answer_headers e body =
     [HContact (''<'' @ nat_rewritten_contact e ''rtpsip'' @ ''>'')] @
     (if body \<noteq> None then [HContentType ''application/sdp''] else []) @
     [HSupported ''timer'', HOther ''Allow'' ''INVITE,ACK,BYE,CANCEL,OPTIONS,INFO,REFER,NOTIFY'']"

definition answer_call :: "nat \<Rightarrow> string option \<Rightarrow> string \<Rightarrow> sip_engine \<Rightarrow> sip_engine \<times> unit res" where
  "answer_call now accept_error cid e =
     (case se_calls e cid of
        None \<Rightarrow> (e, Err (call_not_found cid))
      | Some c \<Rightarrow>
          if cl_direction c \<noteq> Inbound then (e, Err (Session ''Cannot answer outbound call''))
          else if cl_state c \<noteq> Ringing
          then (e, Err (Session (''Cannot answer call in state '' @ state_debug (cl_state c))))
          else (case cl_server_dialog c of
            None \<Rightarrow> (e, Err (Session ''No server dialog for inbound call''))
          | Some d \<Rightarrow>
              (let e1 = upd_call cid (\<lambda>c. c\<lparr>cl_state := Active\<rparr>) e
               in case accept_error of
                    Some x \<Rightarrow> (e1, Err (Sip (''Failed to send 200 OK: '' @ x)))
                  | None \<Rightarrow>
                      (let e2 = hand_over d (SendOk (answer_headers e1 (cl_local_sdp c)) (cl_local_sdp c)) e1;
                           e3 = upd_call cid (refresh_call_timer now) e2
                       in (emit_event (EvAudioReady cid) (emit_event (EvAnswered cid) e3), Ok ())))))"

section \<open>Rejecting\<close>

definition reject_call :: "step_env \<Rightarrow> string option \<Rightarrow> u16 \<Rightarrow> string \<Rightarrow> sip_engine \<Rightarrow> sip_engine \<times> unit res" where
  "reject_call env reject_error status cid e =
     (if status < 300 \<or> status > 699
      then (e, Err (Sip (''reject status code must be 300-699, got '' @ show_nat (unat status))))
      else case se_calls e cid of
        None \<Rightarrow> (e, Err (call_not_found cid))
      | Some c \<Rightarrow>
          if cl_direction c \<noteq> Inbound then (e, Err (Session ''Cannot reject outbound call''))
          else
            (let port = call_port cid e
             in case stop_rtp (sn_crates env) (sn_bye_error env) cid e of
                  Err x \<Rightarrow> (e, Err x)
                | Panic \<Rightarrow> (e, Panic)
                | Ok e1 \<Rightarrow>
                    (let e2 = upd_call cid (\<lambda>c. c\<lparr>cl_state := Ended\<rparr>) e1
                     in case cl_server_dialog c of
                          None \<Rightarrow> (e2, Err (Session ''No server dialog for inbound call''))
                        | Some d \<Rightarrow>
                            (case reject_error of
                               Some x \<Rightarrow> (e2, Err (Sip (''Failed to send rejection: '' @ x)))
                             | None \<Rightarrow>
                                 (let e3 = release_call_port port (hand_over d (SendReject status) e2)
                                  in (emit_event (EvHangup cid (''Rejected with '' @ show_nat (unat status))) (remove_call cid e3),
                                      Ok ()))))))"

section \<open>Calling\<close>

text \<open>What is handed to \<^verbatim>\<open>do_invite\<close>.\<close>

record invite_option =
  io_callee :: string
  io_caller :: string
  io_contact :: string
  io_username :: string
  io_password :: string
  io_realm :: "string option"
  io_offer :: string
  io_support_prack :: bool
  io_headers :: "sip_header list"

definition build_offer :: "u64 \<Rightarrow> rtp_engine \<Rightarrow> string \<Rightarrow> string" where
  "build_offer random r direction =
     snd (sdp_build (with_direction direction
       (with_codecs [Pcmu, Pcma] (sdp_builder_new random (sock_ip (re_local_addr r)) (sock_port (re_local_addr r))))))"

definition call_offer :: "u64 \<Rightarrow> rtp_engine \<Rightarrow> string" where
  "call_offer random r =
     snd (sdp_build (with_codecs [Pcmu, Pcma] (sdp_builder_new random (sock_ip (re_local_addr r)) (sock_port (re_local_addr r)))))"

definition timer_headers :: "nat \<Rightarrow> sip_engine \<Rightarrow> sip_header list" where
  "timer_headers now e =
     (if sc_enable_session_timers (se_config e) then
        (let t = timer_new now timer_config_default
         in [HOther ''Session-Expires'' (build_session_expires_header t True), HOther ''Min-SE'' (build_min_se_header t),
             HSupported ''timer''])
      else [])"

definition outbound_session :: "call_env \<Rightarrow> (string \<Rightarrow> sock_addr option) \<Rightarrow> provider_credentials \<Rightarrow> string \<Rightarrow> string
    \<Rightarrow> string \<Rightarrow> rtp_engine \<Rightarrow> string \<Rightarrow> sip_engine \<Rightarrow> sip_call" where
  "outbound_session env parse_addr p pid callee caller r sdp e =
     \<lparr>cl_call_id = en_call_id env, cl_state = Trying, cl_direction = Outbound, cl_provider_id = pid,
      cl_rtp_engine = Some r, cl_client_dialog = None, cl_server_dialog = None, cl_local_sdp = Some sdp,
      cl_remote_sdp = None, cl_local_uri = Some caller, cl_remote_uri = Some callee,
      cl_remote_addr = parse_addr (gateway_name p), cl_cseq = 1,
      cl_local_contact = Some (nat_rewritten_contact e (pc_username p)), cl_dtmf_mode = Auto,
      cl_remote_telephone_event_pt = None, cl_early_media_state = NoEarlyMedia,
      cl_remote_media_direction = SendRecv, cl_local_hold = False, cl_remote_hold = False,
      cl_remote_user_agent = None, cl_rtp_bug_flags = no_bugs, cl_session_timer = None,
      cl_refer_pending = False, cl_refer_target = None, cl_reinvite_pending = False, cl_remote_contact = None,
      cl_sdp_session_version = 1, cl_negotiated_codec = None, cl_cancel_pending = False, cl_route_set = [],
      cl_cancel_tx = True\<rparr>"

text \<open>\<^verbatim>\<open>call\<close> once the port is allocated: everything that fails now leaves the port allocated. Returned are the
  identifier of the call and what its task hands to \<^verbatim>\<open>do_invite\<close>.\<close>

definition place_call :: "sip_crates \<Rightarrow> call_env \<Rightarrow> (string \<Rightarrow> sock_addr option) \<Rightarrow> provider_credentials \<Rightarrow> string \<Rightarrow> string
    \<Rightarrow> string \<Rightarrow> sip_engine \<Rightarrow> sip_engine \<times> (string \<times> invite_option) res" where
  "place_call k env parse_addr p pid callee caller e =
     (case open_rtp env of
        Err x \<Rightarrow> (e, Err (Rtp (error_text x)))
      | Panic \<Rightarrow> (e, Panic)
      | Ok r \<Rightarrow>
          (let sdp = call_offer (en_local_sdp env) r;
               contact = ''sip:'' @ pc_username p @ ''@'' @ show_sock (sc_local_addr (se_config e))
           in case sk_uri_error k callee of
                Some x \<Rightarrow> (e, Err (Sip (''Invalid callee URI: '' @ x)))
              | None \<Rightarrow>
                  (case sk_uri_error k caller of
                     Some x \<Rightarrow> (e, Err (Sip (''Invalid caller URI: '' @ x)))
                   | None \<Rightarrow>
                       (case sk_uri_error k contact of
                          Some x \<Rightarrow> (e, Err (Sip (''Invalid contact URI: '' @ x)))
                        | None \<Rightarrow>
                            (e\<lparr>se_calls := (se_calls e)(en_call_id env \<mapsto> outbound_session env parse_addr p pid callee caller r sdp e)\<rparr>,
                             Ok (en_call_id env,
                               \<lparr>io_callee = callee, io_caller = caller, io_contact = contact, io_username = pc_username p,
                                io_password = pc_password p, io_realm = pc_realm p, io_offer = sdp,
                                io_support_prack = sc_enable_100rel (se_config e),
                                io_headers = timer_headers (en_now env) e\<rparr>))))))"

definition make_call :: "sip_crates \<Rightarrow> call_env \<Rightarrow> (string \<Rightarrow> sock_addr option) \<Rightarrow> string \<Rightarrow> string \<Rightarrow> string \<Rightarrow> sip_engine
    \<Rightarrow> (sip_engine \<times> (string \<times> invite_option) res) option" where
  "make_call k env parse_addr callee caller pid e =
     (case se_providers e pid of
        None \<Rightarrow> Some (e, Err (Provider (''Unknown provider: '' @ pid)))
      | Some p \<Rightarrow>
          (case sip_allocate_rtp_port e of
             None \<Rightarrow> None
           | Some (e1, _) \<Rightarrow> Some (place_call k env parse_addr p pid callee caller e1)))"

section \<open>The result of the INVITE\<close>

text \<open>Stop the RTP engine, release its port and forget the call.\<close>

definition drop_call :: "step_env \<Rightarrow> string \<Rightarrow> sip_engine \<Rightarrow> sip_engine res" where
  "drop_call env cid e =
     (let port = call_port cid e
      in res_bind (stop_rtp (sn_crates env) (sn_bye_error env) cid e) (\<lambda>e1.
           Ok (remove_call cid (release_call_port port e1))))"

definition invite_cancelled :: "step_env \<Rightarrow> string \<Rightarrow> sip_engine \<Rightarrow> sip_engine res" where
  "invite_cancelled env cid e = res_bind (drop_call env cid e) (\<lambda>e1. Ok (emit_event (EvCancelled cid) e1))"

definition invite_failed :: "step_env \<Rightarrow> string \<Rightarrow> string \<Rightarrow> sip_engine \<Rightarrow> sip_engine res" where
  "invite_failed env failure cid e = drop_call env cid (emit_event (EvError cid failure) e)"

definition remote_min_se :: "sip_message \<Rightarrow> u32 option" where
  "remote_min_se m = find_map (\<lambda>h. Option.bind (other_value ''Min-SE'' h) parse_min_se) (ms_headers m)"

definition too_small_error :: "nat \<Rightarrow> u32 \<Rightarrow> string" where
  "too_small_error now min_se =
     (let r = snd (handle_422_response min_se (timer_new now timer_config_default))
      in ''422 Session Interval Too Small: retry with Session-Expires='' @ show_nat (unat (h4_session_expires r))
         @ '', Min-SE='' @ show_nat (unat (h4_min_se r)))"

definition answered_timer :: "nat \<Rightarrow> sip_message \<Rightarrow> bool \<Rightarrow> sip_call \<Rightarrow> sip_call" where
  "answered_timer now m timers c =
     (let header = session_expires_header (ms_headers m)
      in if header \<noteq> None \<or> timers
         then c\<lparr>cl_session_timer := Some (fst (process_response now header True (timer_new now timer_config_default)))\<rparr>
         else c)"

definition response_routes :: "sip_message \<Rightarrow> sip_call \<Rightarrow> sip_call" where
  "response_routes m c =
     (let rr = header_values record_route_value (ms_headers m)
      in if rr \<noteq> [] then c\<lparr>cl_route_set := rev rr\<rparr> else c)"

text \<open>A final response with a description makes the call active.\<close>

definition answered_call :: "step_env \<Rightarrow> dialog_id \<Rightarrow> sip_message \<Rightarrow> string \<Rightarrow> bool \<Rightarrow> sip_call \<Rightarrow> sip_call res" where
  "answered_call env d m body timers c =
     (let c1 = c\<lparr>cl_remote_sdp := Some body, cl_state := Active, cl_client_dialog := Some d,
                 cl_early_media_state := NoEarlyMedia\<rparr>;
          c2 = response_routes m (note_contact (ms_headers m) (note_device (ms_headers m) c1))
      in res_bind (early_sdp env (Some body) c2) (\<lambda>c3. Ok (answered_timer (sn_now env) m timers c3)))"

definition take_response :: "step_env \<Rightarrow> dialog_id \<Rightarrow> sip_message option \<Rightarrow> string \<Rightarrow> sip_engine \<Rightarrow> sip_engine res" where
  "take_response env d response cid e =
     (case response of
        None \<Rightarrow> Ok e
      | Some m \<Rightarrow>
          (case body_text (ms_body m) of
             None \<Rightarrow> Ok e
           | Some body \<Rightarrow>
               (case se_calls e cid of
                  None \<Rightarrow> Ok e
                | Some c \<Rightarrow>
                    res_bind (answered_call env d m body (sc_enable_session_timers (se_config e)) c)
                      (\<lambda>c1. Ok (upd_call cid (\<lambda>_. c1) e)))))"

definition cancel_pending :: "string \<Rightarrow> sip_engine \<Rightarrow> bool" where
  "cancel_pending cid e = (case se_calls e cid of Some c \<Rightarrow> cl_cancel_pending c | None \<Rightarrow> False)"

text \<open>A 200 OK that arrives after a CANCEL is answered with a BYE.\<close>

definition end_cancelled :: "step_env \<Rightarrow> string option \<Rightarrow> dialog_id \<Rightarrow> string \<Rightarrow> sip_engine \<Rightarrow> sip_engine res" where
  "end_cancelled env bye_error d cid e =
     (let e1 = (if bye_error = None then hand_over d SendBye e else e)
      in res_bind (stop_rtp (sn_crates env) (sn_bye_error env) cid e1) (\<lambda>e2.
           Ok (upd_call cid (\<lambda>c. c\<lparr>cl_state := Ended\<rparr>) e2)))"

datatype invite_result = InviteOk dialog_id "sip_message option" | InviteErr string

definition final_min_se :: "sip_message option \<Rightarrow> sip_engine \<Rightarrow> u32 option" where
  "final_min_se response e =
     (case response of
        Some m \<Rightarrow> if ms_status m = 422 \<and> sc_enable_session_timers (se_config e) then remote_min_se m else None
      | None \<Rightarrow> None)"

definition redirect_targets :: "sip_message option \<Rightarrow> string list option" where
  "redirect_targets response =
     (case response of
        Some m \<Rightarrow> if ms_status m \<ge> 300 \<and> ms_status m < 400
                  then Some (map contact_uri (header_values contact_value (ms_headers m))) else None
      | None \<Rightarrow> None)"

definition invite_done :: "step_env \<Rightarrow> string option \<Rightarrow> invite_result \<Rightarrow> string \<Rightarrow> sip_engine \<Rightarrow> sip_engine res" where
  "invite_done env bye_error result cid e =
     (case result of
        InviteErr failure \<Rightarrow> invite_failed env failure cid e
      | InviteOk d response \<Rightarrow>
          (case final_min_se response e of
             Some min_se \<Rightarrow> drop_call env cid (emit_event (EvError cid (too_small_error (sn_now env) min_se)) e)
           | None \<Rightarrow>
               (case redirect_targets response of
                  Some targets \<Rightarrow> drop_call env cid (emit_event (EvRedirected cid targets) e)
                | None \<Rightarrow>
                    res_bind (take_response env d response cid e) (\<lambda>e1.
                      if cancel_pending cid e1 then end_cancelled env bye_error d cid e1
                      else Ok (emit_event (EvAudioReady cid) (emit_event (EvAnswered cid) e1))))))"

section \<open>CANCEL\<close>

definition clear_holds :: "sip_call \<Rightarrow> sip_call" where
  "clear_holds c = c\<lparr>cl_state := Ended, cl_local_hold := False, cl_remote_hold := False\<rparr>"

definition pre_answer :: "call_state \<Rightarrow> bool" where "pre_answer s = (s \<in> {Trying, Ringing, EarlyMedia})"

definition finish_cancel :: "step_env \<Rightarrow> string \<Rightarrow> sip_engine \<Rightarrow> sip_engine \<times> unit res" where
  "finish_cancel env cid e =
     (case stop_rtp (sn_crates env) (sn_bye_error env) cid (upd_call cid clear_holds e) of
        Ok e1 \<Rightarrow> (emit_event (EvCancelled cid) (release_call_port (call_port cid e) e1), Ok ())
      | Err x \<Rightarrow> (e, Err x)
      | Panic \<Rightarrow> (e, Panic))"

text \<open>The sender of the cancel signal is taken out of the session whatever the state of the call. The task of the INVITE
  sees the signal when the sender has been used.\<close>

definition cancel_call :: "step_env \<Rightarrow> string option \<Rightarrow> string \<Rightarrow> sip_engine \<Rightarrow> sip_engine \<times> unit res" where
  "cancel_call env cancel_error cid e0 =
     (case se_calls e0 cid of
        None \<Rightarrow> (e0, Err (call_not_found cid))
      | Some c \<Rightarrow>
          (let e = upd_call cid (\<lambda>c. c\<lparr>cl_cancel_tx := False\<rparr>) e0
           in if pre_answer (cl_state c) then
                (let e1 = upd_call cid (\<lambda>c. c\<lparr>cl_cancel_pending := True\<rparr>) e
                 in case cl_client_dialog c of
                      Some d \<Rightarrow>
                        (case cancel_error of
                           Some x \<Rightarrow> (e1, Err (Sip (''Failed to send CANCEL: '' @ x)))
                         | None \<Rightarrow> finish_cancel env cid (hand_over d SendCancel e1))
                    | None \<Rightarrow> finish_cancel env cid e1)
              else if cl_state c = Active then (e, Err (InvalidState ''Use hangup() for active calls''))
              else (e, Err (InvalidState (''Cannot cancel call in state '' @ state_debug (cl_state c))))))"

section \<open>Hanging up\<close>

definition send_bye :: "string option \<Rightarrow> sip_call \<Rightarrow> sip_engine \<Rightarrow> sip_engine" where
  "send_bye bye_error c e =
     (case or_else (cl_client_dialog c) (cl_server_dialog c) of
        Some d \<Rightarrow> if bye_error = None then hand_over d SendBye e else e
      | None \<Rightarrow> e)"

definition hang_up :: "step_env \<Rightarrow> string option \<Rightarrow> string \<Rightarrow> sip_engine \<Rightarrow> sip_engine \<times> unit res" where
  "hang_up env send_error cid e =
     (case se_calls e cid of
        None \<Rightarrow> (e, Err (call_not_found cid))
      | Some c \<Rightarrow>
          if cl_state c = Ended then (e, Ok ())
          else if pre_answer (cl_state c) then
            (if cl_direction c = Inbound then reject_call env send_error 487 cid e else cancel_call env send_error cid e)
          else
            (case stop_rtp (sn_crates env) (sn_bye_error env) cid e of
               Err x \<Rightarrow> (e, Err x)
             | Panic \<Rightarrow> (e, Panic)
             | Ok e1 \<Rightarrow> (send_bye send_error c (upd_call cid clear_holds e1), Ok ())))"

end
