(* ===== verification/Sip_Engine_Media.thy ===== *)
theory Sip_Engine_Media
  imports Sip_Engine_Calls
begin

text \<open>
  Requests within a call: DTMF by INFO or in the RTP stream, re-INVITE with its retries, hold and resume, the
  refreshes of the session timer and REFER. The re-INVITE is a wait in between: \<open>reinvite_begin\<close>
  and \<open>hold_offer\<close> are what happens before it, \<open>reinvite_end\<close> and \<open>hold_confirm\<close> after it.
\<close>

section \<open>DTMF\<close>

definition valid_pause :: "char \<Rightarrow> bool" where "valid_pause c = (c = CHR ''w'' \<or> c = CHR ''W'')"

definition call_dialog :: "sip_call \<Rightarrow> dialog_id option" where
  "call_dialog c = or_else (cl_client_dialog c) (cl_server_dialog c)"

definition not_active :: "string \<Rightarrow> sip_call \<Rightarrow> rtpsip_error" where
  "not_active cid c =
     Session (''Cannot send DTMF: call '' @ cid @ '' is not active (state: '' @ state_debug (cl_state c) @ '')'')"

definition dtmf_info_body :: "char \<Rightarrow> u32 \<Rightarrow> string" where
  "dtmf_info_body digit dur =
     ''Signal= '' @ [to_upper digit] @ crlf @ ''Duration= '' @ show_nat (unat (clamp_duration dur)) @ crlf"

definition send_dtmf_info :: "string option \<Rightarrow> string \<Rightarrow> char \<Rightarrow> u32 \<Rightarrow> sip_engine \<Rightarrow> sip_engine \<times> unit res" where
  "send_dtmf_info info_error cid digit dur e =
     (if valid_pause digit then (e, Ok ())
      else if \<not> is_dtmf_char digit then (e, Err (Sip (''Invalid DTMF digit: '' @ [digit])))
      else case se_calls e cid of
        None \<Rightarrow> (e, Err (call_not_found cid))
      | Some c \<Rightarrow>
          if cl_state c \<noteq> Active then (e, Err (not_active cid c))
          else (case call_dialog c of
            None \<Rightarrow> (e, Err no_dialog)
          | Some d \<Rightarrow>
              (case info_error of
                 Some x \<Rightarrow> (e, Err (Sip (''Failed to send DTMF INFO: '' @ x)))
               | None \<Rightarrow> (hand_over d (SendInfo [HContentType ''application/dtmf-relay''] (dtmf_info_body digit dur)) e,
                          Ok ()))))"

fun send_infos :: "(nat \<Rightarrow> string option) \<Rightarrow> string \<Rightarrow> string \<Rightarrow> u32 \<Rightarrow> sip_engine \<Rightarrow> sip_engine \<times> unit res" where
  "send_infos errors cid [] dur e = (e, Ok ())"
| "send_infos errors cid (d # ds) dur e =
     (case send_dtmf_info (errors 0) cid d dur e of
        (e1, Ok _) \<Rightarrow> send_infos (\<lambda>i. errors (i + 1)) cid ds dur e1
      | (e1, r) \<Rightarrow> (e1, r))"

definition send_dtmf_digits :: "sip_crates \<Rightarrow> (nat \<Rightarrow> io_errors) \<Rightarrow> (nat \<Rightarrow> string option) \<Rightarrow> string \<Rightarrow> string \<Rightarrow> u32
    \<Rightarrow> sip_engine \<Rightarrow> sip_engine \<times> unit res" where
  "send_dtmf_digits k ios errors cid digits dur e =
     (case se_calls e cid of
        None \<Rightarrow> (e, Err (call_not_found cid))
      | Some c \<Rightarrow>
          if cl_state c \<noteq> Active then (e, Err (not_active cid c))
          else (case effective_dtmf_mode c of
            Rfc2833 \<Rightarrow>
              (case cl_rtp_engine c of
                 None \<Rightarrow> (e, Err (Session ''RTP not established for this call''))
               | Some r \<Rightarrow>
                   (let (r1, res) = engine_send_dtmf_string (sk_rtp k) ios digits dur r
                    in (upd_call cid (\<lambda>c. c\<lparr>cl_rtp_engine := Some r1\<rparr>) e, res)))
          | _ \<Rightarrow> send_infos errors cid digits dur e))"

definition get_dtmf_mode :: "string \<Rightarrow> sip_engine \<Rightarrow> dtmf_mode res" where
  "get_dtmf_mode cid e =
     (case se_calls e cid of None \<Rightarrow> Err (call_not_found cid) | Some c \<Rightarrow> Ok (effective_dtmf_mode c))"

definition set_dtmf_mode :: "string \<Rightarrow> dtmf_mode \<Rightarrow> sip_engine \<Rightarrow> sip_engine \<times> unit res" where
  "set_dtmf_mode cid mode e =
     (case se_calls e cid of
        None \<Rightarrow> (e, Err (call_not_found cid))
      | Some _ \<Rightarrow> (upd_call cid (\<lambda>c. c\<lparr>cl_dtmf_mode := mode\<rparr>) e, Ok ()))"

definition take_dtmf :: "(rtp_engine \<Rightarrow> rtp_engine \<times> detected_dtmf option res) \<Rightarrow> string \<Rightarrow> sip_engine
    \<Rightarrow> sip_engine \<times> (char \<times> u32) option res" where
  "take_dtmf recv cid e =
     (case se_calls e cid of
        None \<Rightarrow> (e, Err (call_not_found cid))
      | Some c \<Rightarrow>
          (case cl_rtp_engine c of
             None \<Rightarrow> (e, Ok None)
           | Some r \<Rightarrow>
               (case recv r of
                  (r1, Ok (Some d)) \<Rightarrow>
                    (upd_call cid (\<lambda>c. c\<lparr>cl_rtp_engine := Some r1\<rparr>) e, Ok (Some (de_digit d, de_duration_ms d)))
                | (r1, _) \<Rightarrow> (upd_call cid (\<lambda>c. c\<lparr>cl_rtp_engine := Some r1\<rparr>) e, Ok None))))"

definition sip_recv_dtmf :: "string \<Rightarrow> sip_engine \<Rightarrow> sip_engine \<times> (char \<times> u32) option res" where
  "sip_recv_dtmf = take_dtmf recv_dtmf_try"

definition sip_recv_dtmf_blocking :: "detected_dtmf option \<Rightarrow> string \<Rightarrow> sip_engine \<Rightarrow> sip_engine \<times> (char \<times> u32) option res" where
  "sip_recv_dtmf_blocking arriving = take_dtmf (recv_dtmf_blocking arriving)"

section \<open>Re-INVITE\<close>

definition reinvite_allowed :: "call_state \<Rightarrow> bool" where "reinvite_allowed s = (s \<in> {Active, Hold})"

text \<open>Up to the request: the pending flag and the version of the description.\<close>

definition reinvite_begin :: "string \<Rightarrow> string option \<Rightarrow> sip_engine \<Rightarrow> sip_engine \<times> dialog_id res" where
  "reinvite_begin cid sdp e =
     (case se_calls e cid of
        None \<Rightarrow> (e, Err (call_not_found cid))
      | Some c \<Rightarrow>
          if \<not> reinvite_allowed (cl_state c)
          then (e, Err (InvalidState (''Cannot send re-INVITE in '' @ state_debug (cl_state c)
                          @ '' state (requires Active or Hold)'')))
          else
            (let e1 = upd_call cid (\<lambda>c. c\<lparr>cl_reinvite_pending := True,
                        cl_sdp_session_version := cl_sdp_session_version c + 1\<rparr>) e
             in case call_dialog c of
                  None \<Rightarrow> (upd_call cid (\<lambda>c. c\<lparr>cl_reinvite_pending := False\<rparr>) e1, Err no_dialog)
                | Some d \<Rightarrow>
                    (hand_over d (SendReinvite (if sdp \<noteq> None then [HContentType ''application/sdp''] else []) sdp) e1, Ok d)))"

definition reinvite_end :: "string \<Rightarrow> sip_engine \<Rightarrow> sip_engine" where
  "reinvite_end cid e = upd_call cid (\<lambda>c. c\<lparr>cl_reinvite_pending := False\<rparr>) e"

text \<open>The crate's answer is an error or a response; the response is not looked at.\<close>

definition reinvite_result :: "(string, sip_message option) outcome \<Rightarrow> unit res" where
  "reinvite_result reply =
     (case reply of
        Ok _ \<Rightarrow> Ok ()
      | Err x \<Rightarrow> Err (Sip (''Failed to send re-INVITE: '' @ x))
      | Panic \<Rightarrow> Panic)"

definition send_reinvite_internal :: "(string, sip_message option) outcome \<Rightarrow> string \<Rightarrow> string option \<Rightarrow> sip_engine
    \<Rightarrow> sip_engine \<times> unit res" where
  "send_reinvite_internal reply cid sdp e =
     (case reinvite_begin cid sdp e of
        (e1, Ok _) \<Rightarrow> (reinvite_end cid e1, reinvite_result reply)
      | (e1, Err x) \<Rightarrow> (e1, Err x)
      | (e1, Panic) \<Rightarrow> (e1, Panic))"

definition is_glare :: "rtpsip_error \<Rightarrow> bool" where
  "is_glare x =
     (let err_str = to_lowercase (error_text x) in contains_str ''491'' err_str \<or> contains_str ''request pending'' err_str)"

text \<open>The attempts, with the reply each of them gets; \<open>retries\<close> is how many may still follow.\<close>

fun reinvite_attempts :: "nat \<Rightarrow> (nat \<Rightarrow> (string, sip_message option) outcome) \<Rightarrow> string \<Rightarrow> string option \<Rightarrow> sip_engine
    \<Rightarrow> sip_engine \<times> unit res" where
  "reinvite_attempts 0 replies cid sdp e = send_reinvite_internal (replies 0) cid sdp e"
| "reinvite_attempts (Suc n) replies cid sdp e =
     (case send_reinvite_internal (replies 0) cid sdp e of
        (e1, Err x) \<Rightarrow> if is_glare x then reinvite_attempts n (\<lambda>i. replies (i + 1)) cid sdp e1 else (e1, Err x)
      | (e1, r) \<Rightarrow> (e1, r))"

definition send_reinvite_with_retry :: "(nat \<Rightarrow> (string, sip_message option) outcome) \<Rightarrow> string \<Rightarrow> string option \<Rightarrow> u32
    \<Rightarrow> sip_engine \<Rightarrow> sip_engine \<times> unit res" where
  "send_reinvite_with_retry replies cid sdp max_retries e =
     (case se_calls e cid of
        None \<Rightarrow> (e, Err (call_not_found cid))
      | Some _ \<Rightarrow> reinvite_attempts (unat max_retries) replies cid sdp e)"

definition send_reinvite :: "(nat \<Rightarrow> (string, sip_message option) outcome) \<Rightarrow> string \<Rightarrow> string option \<Rightarrow> sip_engine
    \<Rightarrow> sip_engine \<times> unit res" where
  "send_reinvite replies cid sdp e = send_reinvite_with_retry replies cid sdp 3 e"

text \<open>The wait before a retry, in milliseconds.\<close>

definition retry_delay_ms :: "sip_call \<Rightarrow> u64 \<Rightarrow> u64" where
  "retry_delay_ms c random = (if cl_direction c = Outbound then 2100 + random mod 1900 else random mod 2000)"

section \<open>Hold and resume\<close>

text \<open>The description to offer; \<open>None\<close> when the call is held already, or is not held.\<close>

definition hold_offer :: "u64 \<Rightarrow> string \<Rightarrow> sip_engine \<Rightarrow> string option res" where
  "hold_offer random cid e =
     (case se_calls e cid of
        None \<Rightarrow> Err (call_not_found cid)
      | Some c \<Rightarrow>
          if cl_local_hold c then Ok None
          else (case cl_rtp_engine c of
            None \<Rightarrow> Err (Session ''RTP not established for this call'')
          | Some r \<Rightarrow> Ok (Some (build_offer random r (if cl_remote_hold c then ''inactive'' else ''sendonly'')))))"

definition unhold_offer :: "u64 \<Rightarrow> string \<Rightarrow> sip_engine \<Rightarrow> string option res" where
  "unhold_offer random cid e =
     (case se_calls e cid of
        None \<Rightarrow> Err (call_not_found cid)
      | Some c \<Rightarrow>
          if \<not> cl_local_hold c then Ok None
          else (case cl_rtp_engine c of
            None \<Rightarrow> Err (Session ''RTP not established for this call'')
          | Some r \<Rightarrow> Ok (Some (build_offer random r ''sendrecv''))))"

definition hold_confirm :: "string \<Rightarrow> sip_engine \<Rightarrow> sip_engine" where
  "hold_confirm cid = upd_call cid (\<lambda>c. c\<lparr>cl_local_hold := True, cl_state := Hold\<rparr>)"

definition unhold_confirm :: "string \<Rightarrow> sip_engine \<Rightarrow> sip_engine" where
  "unhold_confirm cid = upd_call cid (\<lambda>c. if cl_remote_hold c then c\<lparr>cl_local_hold := False\<rparr>
     else c\<lparr>cl_local_hold := False, cl_state := Active\<rparr>)"

definition offer_and_confirm :: "string option res \<Rightarrow> (string \<Rightarrow> sip_engine \<Rightarrow> sip_engine)
    \<Rightarrow> (nat \<Rightarrow> (string, sip_message option) outcome) \<Rightarrow> string \<Rightarrow> sip_engine \<Rightarrow> sip_engine \<times> unit res" where
  "offer_and_confirm offer confirm replies cid e =
     (case offer of
        Err x \<Rightarrow> (e, Err x)
      | Panic \<Rightarrow> (e, Panic)
      | Ok None \<Rightarrow> (e, Ok ())
      | Ok (Some sdp) \<Rightarrow>
          (case send_reinvite replies cid (Some sdp) e of
             (e1, Ok _) \<Rightarrow> (confirm cid e1, Ok ())
           | (e1, r) \<Rightarrow> (e1, r)))"

definition hold_call :: "u64 \<Rightarrow> (nat \<Rightarrow> (string, sip_message option) outcome) \<Rightarrow> string \<Rightarrow> sip_engine \<Rightarrow> sip_engine \<times> unit res" where
  "hold_call random replies cid e = offer_and_confirm (hold_offer random cid e) hold_confirm replies cid e"

definition unhold_call :: "u64 \<Rightarrow> (nat \<Rightarrow> (string, sip_message option) outcome) \<Rightarrow> string \<Rightarrow> sip_engine \<Rightarrow> sip_engine \<times> unit res" where
  "unhold_call random replies cid e = offer_and_confirm (unhold_offer random cid e) unhold_confirm replies cid e"

definition is_call_on_hold :: "string \<Rightarrow> sip_engine \<Rightarrow> bool res" where
  "is_call_on_hold cid e =
     (case se_calls e cid of None \<Rightarrow> Err (call_not_found cid) | Some c \<Rightarrow> Ok (call_on_hold c))"

definition get_hold_state :: "string \<Rightarrow> sip_engine \<Rightarrow> (bool \<times> bool) res" where
  "get_hold_state cid e =
     (case se_calls e cid of None \<Rightarrow> Err (call_not_found cid) | Some c \<Rightarrow> Ok (cl_local_hold c, cl_remote_hold c))"

section \<open>The monitor of the session timer\<close>

datatype timer_action = StopMonitoring | SessionExpired | RefreshSession | KeepWaiting

definition monitor_action :: "nat \<Rightarrow> string \<Rightarrow> sip_engine \<Rightarrow> timer_action" where
  "monitor_action now cid e =
     (case se_calls e cid of
        None \<Rightarrow> StopMonitoring
      | Some c \<Rightarrow>
          if cl_state c = Ended then StopMonitoring
          else (case cl_session_timer c of
            None \<Rightarrow> StopMonitoring
          | Some t \<Rightarrow>
              if is_expired now t then SessionExpired
              else if needs_refresh now t then RefreshSession else KeepWaiting))"

text \<open>What the monitor does after each sleep of five seconds, and whether it goes on.\<close>

definition monitor_tick :: "step_env \<Rightarrow> string option \<Rightarrow> (nat \<Rightarrow> (string, sip_message option) outcome) \<Rightarrow> string \<Rightarrow> sip_engine
    \<Rightarrow> sip_engine \<times> bool" where
  "monitor_tick env send_error replies cid e =
     (case monitor_action (sn_now env) cid e of
        StopMonitoring \<Rightarrow> (e, False)
      | SessionExpired \<Rightarrow> (fst (hang_up env send_error cid e), False)
      | RefreshSession \<Rightarrow>
          (case send_reinvite replies cid None e of
             (e1, Ok _) \<Rightarrow> (upd_call cid (refresh_call_timer (sn_now env)) e1, True)
           | (e1, _) \<Rightarrow> (e1, True))
      | KeepWaiting \<Rightarrow> (e, True))"

section \<open>REFER\<close>

record refer_request =
  rq_uri :: string
  rq_headers :: "sip_header list"

definition target_host :: "string \<Rightarrow> string" where
  "target_host uri =
     (let without_scheme = (if starts_with ''sips:'' uri then drop 5 uri else if starts_with ''sip:'' uri then drop 4 uri else uri);
          host = (case split_once (CHR ''@'') without_scheme of Some (_, h) \<Rightarrow> h | None \<Rightarrow> without_scheme)
      in hd (split_on (CHR '';'') host))"

text \<open>\<open>route host\<close> is the local address of a socket connected to the host, if the host is an address and the
  connection is possible.\<close>

definition refer_via_addr :: "(string \<Rightarrow> ip_addr option) \<Rightarrow> string \<Rightarrow> sip_engine \<Rightarrow> sock_addr" where
  "refer_via_addr route uri e =
     (let local_addr = sc_local_addr (se_config e)
      in if is_unspecified (sock_ip local_addr)
         then (case route (target_host uri) of Some ip \<Rightarrow> to_sock (ip, sock_port local_addr) | None \<Rightarrow> local_addr)
         else local_addr)"

definition refer_to_value :: "string \<Rightarrow> string" where
  "refer_to_value target = (if starts_with ''<'' target then target else ''<'' @ target @ ''>'')"

definition refer_headers :: "(string \<Rightarrow> ip_addr option) \<Rightarrow> string \<Rightarrow> dialog_id \<Rightarrow> bool \<Rightarrow> u32 \<Rightarrow> string \<Rightarrow> string \<Rightarrow> sip_call
    \<Rightarrow> sip_engine \<Rightarrow> sip_header list" where
  "refer_headers route branch_id d is_client cseq uri target c e =
     (let local_uri = option_or [] (cl_local_uri c);
          (local_tag, remote_tag) = (if is_client then (di_from_tag d, di_to_tag d) else (di_to_tag d, di_from_tag d))
      in [HVia (''SIP/2.0/'' @ transport_str (sc_transport (se_config e)) @ '' '' @ show_sock (refer_via_addr route uri e)
                @ '';branch=z9hG4bK'' @ branch_id), HMaxForwards ''70''] @
         map HRoute (cl_route_set c) @
         [HFrom (''<'' @ local_uri @ ''>;tag='' @ local_tag),
          HTo (''<'' @ option_or [] (cl_remote_uri c) @ ''>;tag='' @ remote_tag),
          HCallId (di_call_id d), HCSeq (show_nat (unat cseq) @ '' REFER''),
          HContact (''<'' @ option_or [] (cl_local_contact c) @ ''>''), HOther ''Refer-To'' (refer_to_value target),
          HOther ''Referred-By'' (''<'' @ local_uri @ ''>''), HUserAgent (sc_user_agent (se_config e)), HContentLength ''0''])"

text \<open>What becomes of the transaction of the request.\<close>

datatype refer_reply = NoKey string | NotSent string | FinalStatus u16 | NoFinal | ReplyTimeout string

definition refer_outcome :: "string \<Rightarrow> refer_reply \<Rightarrow> unit res" where
  "refer_outcome cid reply =
     (case reply of
        NoKey x \<Rightarrow> Err (Sip (''Failed to create transaction key for REFER: '' @ x))
      | NotSent x \<Rightarrow> Err (Sip (''Failed to send REFER: '' @ x))
      | FinalStatus status \<Rightarrow>
          if status \<ge> 200 \<and> status < 300 then Ok ()
          else Err (Sip (''REFER rejected with status '' @ show_nat (unat status)))
      | NoFinal \<Rightarrow> Err (Sip (''REFER transaction ended without final response for call '' @ cid))
      | ReplyTimeout x \<Rightarrow> Err (Sip (''REFER response timeout for call '' @ cid @ '': '' @ x)))"

definition refer_accepted :: "string \<Rightarrow> string \<Rightarrow> sip_engine \<Rightarrow> sip_engine" where
  "refer_accepted cid target e =
     emit_event (EvTransferInitiated cid target)
       (upd_call cid (\<lambda>c. c\<lparr>cl_refer_pending := True, cl_refer_target := Some target\<rparr>) e)"

text \<open>Returned with the result is the request, once it is built.\<close>

definition send_refer :: "sip_crates \<Rightarrow> (string \<Rightarrow> ip_addr option) \<Rightarrow> string \<Rightarrow> refer_reply \<Rightarrow> string \<Rightarrow> string \<Rightarrow> sip_engine
    \<Rightarrow> sip_engine \<times> refer_request option \<times> unit res" where
  "send_refer k route branch_id reply cid target e =
     (case se_calls e cid of
        None \<Rightarrow> (e, None, Err (call_not_found cid))
      | Some c \<Rightarrow>
          if \<not> reinvite_allowed (cl_state c)
          then (e, None, Err (InvalidState (''Cannot send REFER in '' @ state_debug (cl_state c)
                                @ '' state (requires Active or Hold)'')))
          else (case call_dialog c of
            None \<Rightarrow> (e, None, Err no_dialog)
          | Some d \<Rightarrow>
              (let (c1, cseq) = next_cseq c;
                   e1 = upd_call cid (\<lambda>_. c1) e;
                   uri = option_or (option_or [] (cl_remote_uri c)) (cl_remote_contact c)
               in case sk_uri_error k uri of
                    Some x \<Rightarrow> (e1, None, Err (Sip (''Invalid remote URI: '' @ x)))
                  | None \<Rightarrow>
                      (let request = \<lparr>rq_uri = uri, rq_headers = refer_headers route branch_id d (cl_client_dialog c \<noteq> None)
                                        cseq uri target c1 e1\<rparr>
                       in case refer_outcome cid reply of
                            Ok _ \<Rightarrow> (refer_accepted cid target e1, Some request, Ok ())
                          | r \<Rightarrow> (e1, Some request, r)))))"

definition blind_transfer :: "sip_crates \<Rightarrow> (string \<Rightarrow> ip_addr option) \<Rightarrow> string \<Rightarrow> refer_reply \<Rightarrow> string \<Rightarrow> string \<Rightarrow> sip_engine
    \<Rightarrow> sip_engine \<times> refer_request option \<times> unit res" where
  "blind_transfer = send_refer"

end
