(* ===== verification/Sip_Engine_Runs.thy ===== *)
theory Sip_Engine_Runs
  imports Sip_Engine_Media
begin

text \<open>
  Runs of the SIP engine: what its operations, the steps of its tasks and the events of its dialogs do to it
  one after the other, and what holds of every call in whatever state a run reaches.
\<close>

section \<open>Operations\<close>

datatype sip_op =
    AddProvider provider_credentials
  | RemoveProvider string
  | InviteArrives call_env "(string, dialog_id) outcome" sip_invite
  | MakeCall sip_crates call_env "string \<Rightarrow> sock_addr option" string string string
  | InviteResult step_env "string option" invite_result string
  | InviteAborted step_env string
  | DialogStep step_env string dialog_event
  | AnswerCall nat "string option" string
  | RejectCall step_env "string option" u16 string
  | CancelCall step_env "string option" string
  | HangUp step_env "string option" string
  | SendDigits sip_crates "nat \<Rightarrow> io_errors" "nat \<Rightarrow> string option" string string u32
  | SetMode string dtmf_mode
  | ReadDtmf string
  | Reinvite "nat \<Rightarrow> (string, sip_message option) outcome" string "string option"
  | HoldCall u64 "nat \<Rightarrow> (string, sip_message option) outcome" string
  | UnholdCall u64 "nat \<Rightarrow> (string, sip_message option) outcome" string
  | MonitorTick step_env "string option" "nat \<Rightarrow> (string, sip_message option) outcome" string
  | ReferCall sip_crates "string \<Rightarrow> ip_addr option" string refer_reply string string

fun settled :: "'s \<times> 'a res \<Rightarrow> 's option" where
  "settled (s, Panic) = None"
| "settled (s, _) = Some s"

fun returned :: "'a res \<Rightarrow> 'a option" where
  "returned (Ok x) = Some x"
| "returned _ = None"

definition outgoing :: "string \<Rightarrow> sip_engine \<Rightarrow> bool" where
  "outgoing cid e = (case se_calls e cid of Some c \<Rightarrow> cl_direction c = Outbound | None \<Rightarrow> True)"

text \<open>An operation; \<open>None\<close> when it does not return or panics. The task of an INVITE belongs to an outbound call, and a
  dialog to the call it was created for.\<close>

fun sip_do :: "sip_op \<Rightarrow> sip_engine \<Rightarrow> sip_engine option" where
  "sip_do (AddProvider p) e = Some (add_provider p e)"
| "sip_do (RemoveProvider pid) e = Some (remove_provider pid e)"
| "sip_do (InviteArrives env d iv) e =
     (case handle_incoming_invite env d iv e of Some r \<Rightarrow> map_option fst (returned r) | None \<Rightarrow> None)"
| "sip_do (MakeCall k env pa callee caller pid) e =
     (case make_call k env pa callee caller pid e of Some r \<Rightarrow> settled r | None \<Rightarrow> None)"
| "sip_do (InviteResult env err result cid) e =
     (if outgoing cid e then returned (invite_done env err result cid e) else None)"
| "sip_do (InviteAborted env cid) e = (if outgoing cid e then returned (invite_cancelled env cid e) else None)"
| "sip_do (DialogStep env cid ev) e =
     returned (if outgoing cid e then outbound_dialog_event env cid ev e else inbound_dialog_event env cid ev e)"
| "sip_do (AnswerCall now err cid) e = settled (answer_call now err cid e)"
| "sip_do (RejectCall env err status cid) e = settled (reject_call env err status cid e)"
| "sip_do (CancelCall env err cid) e = settled (cancel_call env err cid e)"
| "sip_do (HangUp env err cid) e = settled (hang_up env err cid e)"
| "sip_do (SendDigits k ios errs cid digits dur) e = settled (send_dtmf_digits k ios errs cid digits dur e)"
| "sip_do (SetMode cid mode) e = settled (set_dtmf_mode cid mode e)"
| "sip_do (ReadDtmf cid) e = settled (sip_recv_dtmf cid e)"
| "sip_do (Reinvite replies cid sdp) e = settled (send_reinvite replies cid sdp e)"
| "sip_do (HoldCall random replies cid) e = settled (hold_call random replies cid e)"
| "sip_do (UnholdCall random replies cid) e = settled (unhold_call random replies cid e)"
| "sip_do (MonitorTick env err replies cid) e = Some (fst (monitor_tick env err replies cid e))"
| "sip_do (ReferCall k route branch reply cid target) e =
     (case send_refer k route branch reply cid target e of (e', _, r) \<Rightarrow> settled (e', r))"

fun sip_run :: "sip_op list \<Rightarrow> sip_engine \<Rightarrow> sip_engine option" where
  "sip_run [] e = Some e"
| "sip_run (op # ops) e = (case sip_do op e of Some e' \<Rightarrow> sip_run ops e' | None \<Rightarrow> None)"

section \<open>A property of all calls\<close>

definition calls_all :: "(sip_call \<Rightarrow> bool) \<Rightarrow> sip_engine \<Rightarrow> bool" where
  "calls_all P e \<longleftrightarrow> (\<forall>cid c. se_calls e cid = Some c \<longrightarrow> P c)"

lemma calls_allD: "calls_all P e \<Longrightarrow> se_calls e cid = Some c \<Longrightarrow> P c"
  by (simp add: calls_all_def)

lemma calls_all_frame [simp]:
  "calls_all P (emit_event ev e) = calls_all P e" "calls_all P (hand_over d r e) = calls_all P e"
  "calls_all P (sip_release_rtp_port p e) = calls_all P e" "calls_all P (release_call_port q e) = calls_all P e"
  "calls_all P (e\<lparr>se_port_pool := pool\<rparr>) = calls_all P e"
  "calls_all P (add_provider p' e) = calls_all P e" "calls_all P (remove_provider pid e) = calls_all P e"
  by (simp_all add: calls_all_def emit_event_def add_provider_def remove_provider_def hand_over_def sip_release_rtp_port_def release_call_port_def
      split: option.split)

lemma calls_all_upd:
  "calls_all P e \<Longrightarrow> (\<And>c. se_calls e cid = Some c \<Longrightarrow> P c \<Longrightarrow> P (f c)) \<Longrightarrow> calls_all P (upd_call cid f e)"
  by (auto simp: calls_all_def upd_call_def split: option.split)

lemma calls_all_remove: "calls_all P e \<Longrightarrow> calls_all P (remove_call cid e)"
  by (auto simp: calls_all_def remove_call_def)

text \<open>What the code keeps of a call: it is in one of six states; held when some side holds it; an inbound call has its
  server dialog and an outbound one none; an active or held one has a dialog.\<close>

definition call_wf :: "sip_call \<Rightarrow> bool" where
  "call_wf c \<longleftrightarrow> cl_state c \<in> {Trying, Ringing, EarlyMedia, Active, Hold, Ended}
     \<and> (cl_state c = Hold \<longrightarrow> call_on_hold c)
     \<and> (cl_direction c = Inbound \<longrightarrow> cl_server_dialog c \<noteq> None \<and> cl_client_dialog c = None)
     \<and> (cl_direction c = Outbound \<longrightarrow> cl_server_dialog c = None)
     \<and> (cl_state c \<in> {Active, Hold} \<longrightarrow> call_dialog c \<noteq> None)"

lemma call_wf_frame [simp]:
  "call_wf (c\<lparr>cl_rtp_engine := r\<rparr>) = call_wf c" "call_wf (c\<lparr>cl_session_timer := t\<rparr>) = call_wf c"
  "call_wf (c\<lparr>cl_remote_sdp := s\<rparr>) = call_wf c" "call_wf (c\<lparr>cl_refer_pending := b\<rparr>) = call_wf c"
  "call_wf (c\<lparr>cl_refer_target := s\<rparr>) = call_wf c"
  "call_wf (c\<lparr>cl_reinvite_pending := b\<rparr>) = call_wf c" "call_wf (c\<lparr>cl_sdp_session_version := v\<rparr>) = call_wf c"
  "call_wf (c\<lparr>cl_cancel_pending := b\<rparr>) = call_wf c" "call_wf (c\<lparr>cl_cancel_tx := b\<rparr>) = call_wf c"
  "call_wf (c\<lparr>cl_dtmf_mode := m\<rparr>) = call_wf c" "call_wf (c\<lparr>cl_negotiated_codec := k\<rparr>) = call_wf c"
  "call_wf (c\<lparr>cl_remote_user_agent := ua\<rparr>) = call_wf c" "call_wf (c\<lparr>cl_rtp_bug_flags := fl\<rparr>) = call_wf c"
  "call_wf (c\<lparr>cl_remote_contact := s\<rparr>) = call_wf c" "call_wf (c\<lparr>cl_route_set := rs\<rparr>) = call_wf c"
  "call_wf (c\<lparr>cl_cseq := n\<rparr>) = call_wf c" "call_wf (c\<lparr>cl_early_media_state := em\<rparr>) = call_wf c"
  "call_wf (c\<lparr>cl_remote_telephone_event_pt := pt\<rparr>) = call_wf c"
  "call_wf (c\<lparr>cl_remote_media_direction := md\<rparr>) = call_wf c"
  by (simp_all add: call_wf_def call_on_hold_def call_dialog_def)

lemma call_wf_state:
  "call_wf c \<Longrightarrow> s \<in> {Trying, Ringing, EarlyMedia, Ended} \<Longrightarrow> call_wf (c\<lparr>cl_state := s\<rparr>)"
  "call_wf c \<Longrightarrow> call_dialog c \<noteq> None \<Longrightarrow> call_wf (c\<lparr>cl_state := Active\<rparr>)"
  by (auto simp: call_wf_def call_on_hold_def call_dialog_def)

lemma update_remote_wf: "call_wf c \<Longrightarrow> call_wf (update_from_remote_sdp d c)"
  by (auto simp: update_from_remote_sdp_def update_dtmf_from_sdp_def call_wf_def call_on_hold_def call_dialog_def Let_def
      split: option.split)

lemma apply_media_wf [simp]: "call_wf (apply_media_target d c) = call_wf c"
  by (simp add: apply_media_target_def split: option.split)

lemma take_reinvite_wf: "call_wf c \<Longrightarrow> call_wf (take_reinvite d c)"
  unfolding take_reinvite_def Let_def by (intro update_remote_wf) (simp split: option.split)

lemma note_wf [simp]: "call_wf (note_device hs c) = call_wf c" "call_wf (note_contact hs c) = call_wf c"
  by (simp_all add: note_device_def device_of_def note_contact_def Let_def split: list.split)

lemma early_sdp_wf: "early_sdp env s c = Ok c' \<Longrightarrow> call_wf c \<Longrightarrow> call_wf c'"
  by (auto simp: early_sdp_def update_remote_wf split: option.splits outcome.splits)

lemma early_status_wf: "early_status st b c = (c', r) \<Longrightarrow> call_wf c \<Longrightarrow> call_wf c'"
  by (auto simp: early_status_def process_183_session_progress_def process_180_ringing_def Let_def call_wf_state
      split: if_splits early_media_state.splits)

section \<open>Preservation\<close>

abbreviation calls_wf :: "sip_engine \<Rightarrow> bool" where "calls_wf \<equiv> calls_all call_wf"

lemma stop_rtp_wf: "stop_rtp k io cid e = Ok e' \<Longrightarrow> calls_wf e \<Longrightarrow> calls_wf e'"
  by (auto simp: stop_rtp_def split: option.splits outcome.splits intro!: calls_all_upd)

lemma drop_call_wf: "drop_call env cid e = Ok e' \<Longrightarrow> calls_wf e \<Longrightarrow> calls_wf e'"
  by (auto simp: drop_call_def Let_def intro!: calls_all_remove dest: stop_rtp_wf)

lemma on_updated_wf: "on_updated env cid m e = Ok e' \<Longrightarrow> calls_wf e \<Longrightarrow> calls_wf e'"
  by (auto simp: on_updated_def refresh_call_timer_def Let_def split: option.splits outcome.splits
      intro!: calls_all_upd take_reinvite_wf)

lemma early_wf:
  "early_sdp env s (note_contact hs (note_device hs c)) = Ok c1 \<Longrightarrow> early_status st b c1 = (c2, r) \<Longrightarrow> call_wf c \<Longrightarrow> call_wf c2"
  by (rule early_status_wf, assumption, rule early_sdp_wf, assumption) simp

lemma on_early_wf:
  assumes "on_early env cid m e = Ok e'" and "calls_wf e"
  shows "calls_wf e'"
proof (cases "se_calls e cid")
  case None
  then show ?thesis using assms by (simp add: on_early_def Let_def)
next
  case (Some c)
  obtain c1 where c1: "early_sdp env (body_text (ms_body m)) (note_contact (ms_headers m) (note_device (ms_headers m) c)) = Ok c1"
    using assms(1) Some by (auto simp: on_early_def Let_def split: outcome.splits)
  obtain c2 media ringing where c2: "early_status (ms_status m) (body_text (ms_body m) \<noteq> None) c1 = (c2, media, ringing)"
    by (metis prod_cases3)
  have "call_wf c2" using early_wf [OF c1 c2] calls_allD [OF assms(2) Some] by simp
  then have "calls_wf (upd_call cid (\<lambda>_. c2) e)" using assms(2) by (auto intro: calls_all_upd)
  then show ?thesis using assms(1) Some c1 c2 by (auto simp: on_early_def Let_def split: if_splits)
qed

lemma on_terminated_wf:
  assumes "on_terminated env cid reason e = Ok e'" and "calls_wf e"
  shows "calls_wf e'"
proof -
  obtain e1 where e1: "stop_rtp (sn_crates env) (sn_bye_error env) cid (upd_call cid stop_call_timer e) = Ok e1"
    and e': "e' = remove_call cid (emit_event (EvHangup cid reason) (release_call_port (call_port cid e) e1))"
    using assms(1) by (auto simp: on_terminated_def Let_def)
  have "calls_wf (upd_call cid stop_call_timer e)" using assms(2) by (auto simp: stop_call_timer_def intro: calls_all_upd)
  from stop_rtp_wf [OF e1 this] e' show ?thesis by (simp add: calls_all_remove)
qed

lemma on_notify_wf: "calls_wf e \<Longrightarrow> calls_wf (on_notify cid m e)"
  by (auto simp: on_notify_def Let_def split: prod.split intro!: calls_all_upd)

lemma on_info_wf: "calls_wf (on_info cid m e) = calls_wf e"
  by (simp add: on_info_def split: option.split)

lemma dialog_event_wf:
  "outbound_dialog_event env cid ev e = Ok e' \<Longrightarrow> calls_wf e \<Longrightarrow> calls_wf e'"
  "inbound_dialog_event env cid ev e = Ok e' \<Longrightarrow> calls_wf e \<Longrightarrow> calls_wf e'"
  by (auto simp: outbound_dialog_event_def inbound_dialog_event_def on_info_wf split: dialog_event.splits
      intro: on_updated_wf on_early_wf on_terminated_wf on_notify_wf)

lemma answered_call_wf:
  assumes "answered_call env d m body timers c = Ok c'" and "call_wf c" and "cl_direction c = Outbound"
  shows "call_wf c'"
proof -
  let ?c1 = "c\<lparr>cl_remote_sdp := Some body, cl_state := Active, cl_client_dialog := Some d, cl_early_media_state := NoEarlyMedia\<rparr>"
  have "call_wf ?c1" using assms(2,3) by (simp add: call_wf_def call_dialog_def or_else_def)
  then have "call_wf (response_routes m (note_contact (ms_headers m) (note_device (ms_headers m) ?c1)))"
    by (simp add: response_routes_def Let_def)
  then show ?thesis using assms(1)
    by (auto simp: answered_call_def answered_timer_def Let_def dest: early_sdp_wf)
qed

lemma invite_done_wf:
  assumes "invite_done env err result cid e = Ok e'" and "calls_wf e" and "outgoing cid e"
  shows "calls_wf e'"
proof -
  have taken: "calls_wf e1" if taken_ok: "take_response env d response cid e = Ok e1" for d response e1
  proof (cases "e1 = e")
    case False
    then obtain m body c c1 where c: "se_calls e cid = Some c" "e1 = upd_call cid (\<lambda>_. c1) e"
      "answered_call env d m body (sc_enable_session_timers (se_config e)) c = Ok c1"
      using taken_ok by (auto simp: take_response_def split: option.splits)
    have "call_wf c1"
      using answered_call_wf [OF c(3) calls_allD [OF assms(2) c(1)]] assms(3) c(1) by (simp add: outgoing_def)
    then show ?thesis unfolding c(2) using assms(2) by (auto intro: calls_all_upd)
  qed (use assms(2) in simp)
  have ended: "calls_wf e2" if ended_ok: "end_cancelled env err d cid e1 = Ok e2" "calls_wf e1" for d e1 e2
  proof -
    obtain e3 where "stop_rtp (sn_crates env) (sn_bye_error env) cid (if err = None then hand_over d SendBye e1 else e1) = Ok e3"
      and e2: "e2 = upd_call cid (\<lambda>c. c\<lparr>cl_state := Ended\<rparr>) e3"
      using ended_ok(1) by (auto simp: end_cancelled_def Let_def)
    then have "calls_wf e3" using stop_rtp_wf ended_ok(2) by (cases "err = None") (auto split: if_splits)
    then show ?thesis unfolding e2 by (auto intro: calls_all_upd call_wf_state)
  qed
  show ?thesis
    using assms(1,2) taken ended
    by (auto simp: invite_done_def invite_failed_def split: invite_result.splits option.splits if_splits
        dest: drop_call_wf)
qed

lemma answer_call_wf:
  assumes "calls_wf e"
  shows "calls_wf (fst (answer_call now err cid e))"
proof -
  have "calls_wf (upd_call cid (\<lambda>c. c\<lparr>cl_state := Active\<rparr>) e)" if "se_calls e cid = Some c" "cl_direction c = Inbound" for c
    using assms that by (auto intro!: calls_all_upd call_wf_state simp: call_wf_def call_dialog_def or_else_def)
  then show ?thesis using assms
    by (auto simp: answer_call_def refresh_call_timer_def Let_def split: option.splits intro!: calls_all_upd)
qed

lemma reject_call_wf: "calls_wf e \<Longrightarrow> calls_wf (fst (reject_call env err status cid e))"
  by (auto simp: reject_call_def Let_def split: option.splits outcome.splits
      intro!: calls_all_remove calls_all_upd call_wf_state dest: stop_rtp_wf)

lemma clear_holds_wf: "call_wf c \<Longrightarrow> call_wf (clear_holds c)"
  by (auto simp: clear_holds_def call_wf_def call_dialog_def)

lemma finish_cancel_wf: "calls_wf e \<Longrightarrow> calls_wf (fst (finish_cancel env cid e))"
proof -
  assume wf: "calls_wf e"
  have "calls_wf (upd_call cid clear_holds e)" using wf by (auto intro: calls_all_upd clear_holds_wf)
  with wf stop_rtp_wf show ?thesis by (auto simp: finish_cancel_def split: outcome.split)
qed

lemma cancel_call_wf:
  assumes "calls_wf e"
  shows "calls_wf (fst (cancel_call env err cid e))"
proof -
  let ?e = "upd_call cid (\<lambda>c. c\<lparr>cl_cancel_tx := False\<rparr>) e"
  let ?e1 = "upd_call cid (\<lambda>c. c\<lparr>cl_cancel_pending := True\<rparr>) ?e"
  have e: "calls_wf ?e" using assms by (auto intro: calls_all_upd)
  then have e1: "calls_wf ?e1" by (auto intro: calls_all_upd)
  then have "calls_wf (fst (finish_cancel env cid ?e1))" "calls_wf (fst (finish_cancel env cid (hand_over d SendCancel ?e1)))" for d
    by (simp_all add: finish_cancel_wf)
  with assms e e1 show ?thesis by (simp add: cancel_call_def Let_def split: option.split)
qed

lemma hang_up_wf:
  assumes "calls_wf e"
  shows "calls_wf (fst (hang_up env err cid e))"
proof -
  have b: "calls_wf (send_bye err c e1) = calls_wf e1" for c e1 by (simp add: send_bye_def split: option.split)
  have "calls_wf (upd_call cid clear_holds e1)" if "stop_rtp (sn_crates env) (sn_bye_error env) cid e = Ok e1" for e1
    using stop_rtp_wf [OF that assms] by (auto intro: calls_all_upd clear_holds_wf)
  with assms show ?thesis
    by (auto simp: hang_up_def b reject_call_wf cancel_call_wf split: option.split outcome.split)
qed

lemma calls_all_insert: "calls_all P e \<Longrightarrow> P c \<Longrightarrow> calls_all P (e\<lparr>se_calls := (se_calls e)(cid \<mapsto> c)\<rparr>)"
  by (auto simp: calls_all_def)

lemma rate_limit_calls: "se_calls (fst (check_rate_limit now e)) = se_calls e"
  by (simp add: check_rate_limit_def Let_def)

lemma admit_calls: "admit_invite now iv e = (e', r) \<Longrightarrow> se_calls e' = se_calls e"
  using rate_limit_calls [of now e] by (auto simp: admit_invite_def split: prod.splits if_splits)

lemma allocate_calls: "sip_allocate_rtp_port e = Some (e', p) \<Longrightarrow> se_calls e' = se_calls e"
  by (auto simp: sip_allocate_rtp_port_def Let_def split: option.splits)

lemma calls_all_cong: "se_calls e' = se_calls e \<Longrightarrow> calls_all P e' = calls_all P e"
  by (simp add: calls_all_def)

lemma ring_call_wf: "calls_wf e \<Longrightarrow> call_wf c \<Longrightarrow> calls_wf (ring_call env iv d c e)"
  unfolding ring_call_def Let_def
  by (simp, rule calls_all_upd) (auto intro: calls_all_insert call_wf_state)

lemma inbound_session_wf: "call_wf (inbound_session env iv d offer r e)"
  by (simp add: inbound_session_def call_wf_def)

lemma set_up_invite_wf: "set_up_invite env dialog iv port e = Ok (e', rs) \<Longrightarrow> calls_wf e \<Longrightarrow> calls_wf e'"
  by (auto simp: set_up_invite_def Let_def ring_call_wf inbound_session_wf split: outcome.splits if_splits prod.splits option.splits)

lemma incoming_invite_wf:
  assumes "handle_incoming_invite env dialog iv e = Some (Ok (e', rs))" and "calls_wf e"
  shows "calls_wf e'"
proof (cases "duplicate_invite iv e")
  case True
  then show ?thesis using assms by (simp add: handle_incoming_invite_def)
next
  case False
  obtain e1 r where a: "admit_invite (en_now env) iv e = (e1, r)" by fastforce
  have wf1: "calls_wf e1" using assms(2) calls_all_cong [OF admit_calls [OF a]] by simp
  show ?thesis
  proof (cases r)
    case (Some st)
    then show ?thesis using assms False a wf1 by (simp add: handle_incoming_invite_def)
  next
    case None
    then obtain e2 port rs' where e2: "sip_allocate_rtp_port e1 = Some (e2, port)"
      and s: "set_up_invite env dialog iv port e2 = Ok (e', rs')"
      using assms(1) False a by (auto simp: handle_incoming_invite_def split: option.splits)
    have "calls_wf e2" using wf1 calls_all_cong [OF allocate_calls [OF e2]] by simp
    from set_up_invite_wf [OF s this] show ?thesis .
  qed
qed

lemma outbound_session_wf: "call_wf (outbound_session env pa p pid callee caller r sdp e)"
  by (simp add: outbound_session_def call_wf_def)

lemma make_call_wf:
  assumes "make_call k env pa callee caller pid e = Some (e', r)" and "calls_wf e"
  shows "calls_wf e'"
proof (cases "se_providers e pid")
  case None
  then show ?thesis using assms by (simp add: make_call_def)
next
  case (Some p)
  obtain e1 port where e1: "sip_allocate_rtp_port e = Some (e1, port)"
    and pc: "place_call k env pa p pid callee caller e1 = (e', r)"
    using assms(1) Some by (auto simp: make_call_def split: option.splits)
  have "calls_wf e1" using assms(2) calls_all_cong [OF allocate_calls [OF e1]] by simp
  with pc show ?thesis
    by (auto simp: place_call_def Let_def split: outcome.splits option.splits
        intro!: calls_all_insert outbound_session_wf)
qed

section \<open>Requests within a call\<close>

lemma upd_frame_wf: "(\<And>c. call_wf (f c) = call_wf c) \<Longrightarrow> calls_wf e \<Longrightarrow> calls_wf (upd_call cid f e)"
  by (auto intro: calls_all_upd)

lemma send_dtmf_info_wf: "calls_wf (fst (send_dtmf_info err cid d dur e)) = calls_wf e"
  by (simp add: send_dtmf_info_def split: option.split)

lemma send_infos_wf: "calls_wf (fst (send_infos errs cid ds dur e)) = calls_wf e"
proof (induction ds arbitrary: errs e)
  case (Cons d ds)
  obtain e1 r where e1: "send_dtmf_info (errs 0) cid d dur e = (e1, r)" by fastforce
  then have "calls_wf e1 = calls_wf e" using send_dtmf_info_wf [of "errs 0" cid d dur e] by simp
  with Cons.IH e1 show ?case by (simp split: outcome.split)
qed simp

lemma send_digits_wf: "calls_wf e \<Longrightarrow> calls_wf (fst (send_dtmf_digits k ios errs cid ds dur e))"
  by (auto simp: send_dtmf_digits_def Let_def send_infos_wf split: option.split dtmf_mode.split prod.split
      intro!: upd_frame_wf)

lemma take_dtmf_wf: "calls_wf e \<Longrightarrow> calls_wf (fst (take_dtmf recv cid e))"
  by (auto simp: take_dtmf_def split: option.split prod.split outcome.split intro!: upd_frame_wf)

lemma reinvite_internal_wf: "calls_wf e \<Longrightarrow> calls_wf (fst (send_reinvite_internal reply cid sdp e))"
  by (auto simp: send_reinvite_internal_def reinvite_begin_def reinvite_end_def Let_def split: option.split
      intro!: upd_frame_wf)

text \<open>A re-INVITE leaves the call where it was, but for its version and its pending flag.\<close>

definition reinvite_frame :: "string \<Rightarrow> sip_engine \<Rightarrow> sip_engine \<Rightarrow> bool" where
  "reinvite_frame cid e e' \<longleftrightarrow> (\<forall>c'. se_calls e' cid = Some c' \<longrightarrow> (\<exists>c v b. se_calls e cid = Some c
     \<and> c' = c\<lparr>cl_sdp_session_version := v, cl_reinvite_pending := b\<rparr>))"

lemma reinvite_frame_refl: "reinvite_frame cid e e"
  unfolding reinvite_frame_def
proof (intro allI impI)
  fix c assume "se_calls e cid = Some c"
  moreover have "c = c\<lparr>cl_sdp_session_version := cl_sdp_session_version c, cl_reinvite_pending := cl_reinvite_pending c\<rparr>" by simp
  ultimately show "\<exists>c0 v b. se_calls e cid = Some c0 \<and> c = c0\<lparr>cl_sdp_session_version := v, cl_reinvite_pending := b\<rparr>" by blast
qed

lemma reinvite_frame_trans: "reinvite_frame cid e e' \<Longrightarrow> reinvite_frame cid e' e'' \<Longrightarrow> reinvite_frame cid e e''"
  unfolding reinvite_frame_def by fastforce

lemma reinvite_frame_upd:
  "(\<And>c. \<exists>v b. f c = c\<lparr>cl_sdp_session_version := v, cl_reinvite_pending := b\<rparr>) \<Longrightarrow> reinvite_frame cid e (upd_call cid f e)"
  by (auto simp: reinvite_frame_def upd_call_def split: option.split)

lemma reinvite_frame_hand_over [simp]: "reinvite_frame cid e (hand_over d q e') = reinvite_frame cid e e'"
  by (simp add: reinvite_frame_def hand_over_def)

lemma reinvite_frame_end: "reinvite_frame cid e (upd_call cid (\<lambda>c. c\<lparr>cl_reinvite_pending := False\<rparr>) e)"
proof (rule reinvite_frame_upd)
  fix c show "\<exists>v b. c\<lparr>cl_reinvite_pending := False\<rparr> = c\<lparr>cl_sdp_session_version := v, cl_reinvite_pending := b\<rparr>"
    by (intro exI [of _ "cl_sdp_session_version c"] exI [of _ False]) simp
qed

lemma reinvite_frame_begin:
  assumes "reinvite_begin cid sdp e = (e', r)"
  shows "reinvite_frame cid e e'"
proof -
  let ?begun = "upd_call cid (\<lambda>c. c\<lparr>cl_reinvite_pending := True, cl_sdp_session_version := cl_sdp_session_version c + 1\<rparr>) e"
  have begun: "reinvite_frame cid e ?begun"
  proof (rule reinvite_frame_upd)
    fix c show "\<exists>v b. c\<lparr>cl_reinvite_pending := True, cl_sdp_session_version := cl_sdp_session_version c + 1\<rparr>
        = c\<lparr>cl_sdp_session_version := v, cl_reinvite_pending := b\<rparr>"
      by (intro exI [of _ "cl_sdp_session_version c + 1"] exI [of _ True]) simp
  qed
  from reinvite_frame_trans [OF begun reinvite_frame_end] begun reinvite_frame_refl [of cid e] assms
  show ?thesis by (auto simp: reinvite_begin_def Let_def split: option.splits if_splits)
qed

lemma reinvite_internal_frame:
  assumes "send_reinvite_internal reply cid sdp e = (e', r)"
  shows "reinvite_frame cid e e'"
proof -
  obtain e1 d where b: "reinvite_begin cid sdp e = (e1, d)" by fastforce
  note f = reinvite_frame_begin [OF b]
  from assms b f reinvite_frame_trans [OF f reinvite_frame_end] show ?thesis
    by (auto simp: send_reinvite_internal_def reinvite_end_def split: outcome.splits)
qed

lemma reinvite_internal_ok:
  "send_reinvite_internal reply cid sdp e = (e', Ok ()) \<Longrightarrow>
    \<exists>c. se_calls e cid = Some c \<and> reinvite_allowed (cl_state c) \<and> call_dialog c \<noteq> None"
  by (auto simp: send_reinvite_internal_def reinvite_begin_def Let_def split: option.splits if_splits)

lemma reinvite_attempts_wf: "calls_wf e \<Longrightarrow> calls_wf (fst (reinvite_attempts n replies cid sdp e))"
proof (induction n arbitrary: replies e)
  case 0
  then show ?case by (simp add: reinvite_internal_wf)
next
  case (Suc n)
  obtain e1 r where e1: "send_reinvite_internal (replies 0) cid sdp e = (e1, r)" by fastforce
  then have "calls_wf e1" using reinvite_internal_wf [OF Suc.prems, of "replies 0" cid sdp] by simp
  with Suc.IH e1 show ?case by (simp split: outcome.split)
qed

lemma reinvite_attempts_frame:
  "reinvite_attempts n replies cid sdp e = (e', r) \<Longrightarrow> reinvite_frame cid e e'
    \<and> (r = Ok () \<longrightarrow> (\<exists>c. se_calls e cid = Some c \<and> reinvite_allowed (cl_state c) \<and> call_dialog c \<noteq> None))"
proof (induction n arbitrary: replies e)
  case 0
  then show ?case using reinvite_internal_frame [of "replies 0" cid sdp e e' r] reinvite_internal_ok [of "replies 0" cid sdp e e']
    by auto
next
  case (Suc n)
  obtain e1 r1 where e1: "send_reinvite_internal (replies 0) cid sdp e = (e1, r1)" by fastforce
  note f = reinvite_internal_frame [OF e1]
  show ?case
  proof (cases "\<exists>x. r1 = Err x \<and> is_glare x")
    case True
    then have again: "reinvite_attempts n (\<lambda>i. replies (i + 1)) cid sdp e1 = (e', r)" using Suc.prems e1 by auto
    note ih = Suc.IH [OF again]
    have "\<exists>c. se_calls e cid = Some c \<and> reinvite_allowed (cl_state c) \<and> call_dialog c \<noteq> None" if "r = Ok ()"
    proof -
      obtain c1 where c1: "se_calls e1 cid = Some c1" "reinvite_allowed (cl_state c1)" "call_dialog c1 \<noteq> None" using ih \<open>r = Ok ()\<close> by blast
      then obtain c v b where "se_calls e cid = Some c" "c1 = c\<lparr>cl_sdp_session_version := v, cl_reinvite_pending := b\<rparr>"
        using f by (auto simp: reinvite_frame_def)
      with c1 show ?thesis by (simp add: call_dialog_def)
    qed
    with ih reinvite_frame_trans [OF f] show ?thesis by blast
  next
    case False
    then have "e' = e1 \<and> r = r1" using Suc.prems e1 by (auto split: outcome.splits)
    with f e1 reinvite_internal_ok [of "replies 0" cid sdp e e1] show ?thesis by auto
  qed
qed

lemma send_reinvite_wf: "calls_wf e \<Longrightarrow> calls_wf (fst (send_reinvite replies cid sdp e))"
  by (simp add: send_reinvite_def send_reinvite_with_retry_def reinvite_attempts_wf split: option.split)

lemma send_reinvite_frame:
  "send_reinvite replies cid sdp e = (e', Ok ()) \<Longrightarrow> se_calls e' cid = Some c' \<Longrightarrow> call_dialog c' \<noteq> None"
proof -
  assume r: "send_reinvite replies cid sdp e = (e', Ok ())" and c': "se_calls e' cid = Some c'"
  then have a: "reinvite_attempts (unat (3 :: u32)) replies cid sdp e = (e', Ok ())"
    by (simp add: send_reinvite_def send_reinvite_with_retry_def split: option.splits)
  from reinvite_attempts_frame [OF a] c' show "call_dialog c' \<noteq> None"
    by (auto simp: reinvite_frame_def call_dialog_def)
qed

lemma offer_and_confirm_wf:
  assumes "calls_wf e" and "\<And>c. call_wf c \<Longrightarrow> call_dialog c \<noteq> None \<Longrightarrow> call_wf (f c)"
  shows "calls_wf (fst (offer_and_confirm offer (\<lambda>cid. upd_call cid f) replies cid e))"
proof -
  have "calls_wf (upd_call cid f e1)" if "send_reinvite replies cid sdp e = (e1, Ok ())" for sdp e1
    using send_reinvite_wf [OF assms(1), of replies cid sdp] send_reinvite_frame [OF that] assms(2) that
    by (auto intro!: calls_all_upd)
  moreover have "calls_wf e1" if "send_reinvite replies cid sdp e = (e1, r)" for sdp e1 r
    using send_reinvite_wf [OF assms(1), of replies cid sdp] that by simp
  ultimately show ?thesis using assms(1)
    by (auto simp: offer_and_confirm_def split: outcome.split option.split prod.split)
qed

lemma hold_wf:
  assumes "calls_wf e"
  shows "calls_wf (fst (hold_call random replies cid e))" "calls_wf (fst (unhold_call random replies cid e))"
proof -
  have h: "hold_confirm = (\<lambda>cid. upd_call cid (\<lambda>c. c\<lparr>cl_local_hold := True, cl_state := Hold\<rparr>))"
    "unhold_confirm = (\<lambda>cid. upd_call cid (\<lambda>c. if cl_remote_hold c then c\<lparr>cl_local_hold := False\<rparr>
       else c\<lparr>cl_local_hold := False, cl_state := Active\<rparr>))"
    by (simp_all add: fun_eq_iff hold_confirm_def unhold_confirm_def)
  show "calls_wf (fst (hold_call random replies cid e))"
    unfolding hold_call_def h by (rule offer_and_confirm_wf [OF assms]) (auto simp: call_wf_def call_on_hold_def call_dialog_def)
  show "calls_wf (fst (unhold_call random replies cid e))"
    unfolding unhold_call_def h by (rule offer_and_confirm_wf [OF assms]) (auto simp: call_wf_def call_on_hold_def call_dialog_def)
qed

lemma monitor_tick_wf:
  assumes "calls_wf e"
  shows "calls_wf (fst (monitor_tick env err replies cid e))"
proof -
  obtain e1 r where e1: "send_reinvite replies cid None e = (e1, r)" by fastforce
  then have "calls_wf e1" using send_reinvite_wf [OF assms, of replies cid None] by simp
  then show ?thesis using assms e1 hang_up_wf [OF assms]
    by (auto simp: monitor_tick_def refresh_call_timer_def split: timer_action.split outcome.split intro!: upd_frame_wf)
qed

lemma refer_accepted_wf: "calls_wf e \<Longrightarrow> calls_wf (refer_accepted cid target e)"
  unfolding refer_accepted_def by (simp, rule upd_frame_wf) simp_all

lemma send_refer_wf:
  assumes "calls_wf e"
  shows "calls_wf (fst (send_refer k route branch reply cid target e))"
proof (cases "se_calls e cid")
  case None
  then show ?thesis using assms by (simp add: send_refer_def)
next
  case (Some c)
  obtain c1 cseq where n: "next_cseq c = (c1, cseq)" by fastforce
  have "call_wf c1" using n calls_allD [OF assms Some] by (auto simp: next_cseq_def Let_def)
  then have e1: "calls_wf (upd_call cid (\<lambda>_. c1) e)" using assms by (auto intro!: calls_all_upd)
  show ?thesis using Some n assms e1 refer_accepted_wf [OF e1]
    by (simp add: send_refer_def Let_def split: option.split outcome.split)
qed

section \<open>Every reachable state\<close>

lemma settled_Some: "settled r = Some e' \<Longrightarrow> e' = fst r"
  by (cases r rule: settled.cases) auto

lemma settled_fst: "settled r = Some e' \<Longrightarrow> P (fst r) \<Longrightarrow> P e'"
  by (auto dest: settled_Some)

lemma returned_Some: "returned r = Some x \<longleftrightarrow> r = Ok x"
  by (cases r) auto

lemma sip_do_wf: "sip_do op e = Some e' \<Longrightarrow> calls_wf e \<Longrightarrow> calls_wf e'"
proof (cases op)
  case (InviteArrives env d iv)
  assume a: "sip_do op e = Some e'" "calls_wf e"
  then obtain rs where "handle_incoming_invite env d iv e = Some (Ok (e', rs))"
    using InviteArrives by (auto simp: returned_Some split: option.splits)
  with a(2) show ?thesis by (rule incoming_invite_wf [rotated])
next
  case (MakeCall k env pa callee caller pid)
  assume a: "sip_do op e = Some e'" "calls_wf e"
  then obtain r where "make_call k env pa callee caller pid e = Some (e', r)"
    using MakeCall by (auto split: option.splits dest!: settled_Some)
  with a(2) show ?thesis by (rule make_call_wf [rotated])
next
  case (ReferCall k route branch reply cid target)
  assume a: "sip_do op e = Some e'" "calls_wf e"
  have "e' = fst (send_refer k route branch reply cid target e)"
    using a(1) ReferCall by (auto split: prod.splits dest!: settled_Some)
  then show ?thesis using send_refer_wf [OF a(2)] by simp
next
  case (InviteResult env err result cid)
  assume a: "sip_do op e = Some e'" "calls_wf e"
  then have "invite_done env err result cid e = Ok e'" "outgoing cid e"
    using InviteResult by (simp_all add: returned_Some split: if_splits)
  from invite_done_wf [OF this(1) a(2) this(2)] show ?thesis .
next
  case (InviteAborted env cid)
  assume a: "sip_do op e = Some e'" "calls_wf e"
  then have "invite_cancelled env cid e = Ok e'" using InviteAborted by (simp add: returned_Some split: if_splits)
  with a(2) show ?thesis by (auto simp: invite_cancelled_def dest: drop_call_wf)
next
  case (DialogStep env cid ev)
  assume a: "sip_do op e = Some e'" "calls_wf e"
  then have "outbound_dialog_event env cid ev e = Ok e' \<or> inbound_dialog_event env cid ev e = Ok e'"
    using DialogStep by (simp add: returned_Some split: if_splits)
  with a(2) dialog_event_wf show ?thesis by blast
next
  case (SetMode cid mode)
  assume a: "sip_do op e = Some e'" "calls_wf e"
  have "calls_wf (fst (set_dtmf_mode cid mode e))" using a(2) by (auto simp: set_dtmf_mode_def split: option.split intro!: upd_frame_wf)
  then show ?thesis using a(1) SetMode by (auto dest!: settled_Some)
next
  case (ReadDtmf cid)
  assume a: "sip_do op e = Some e'" "calls_wf e"
  then show ?thesis using ReadDtmf take_dtmf_wf [OF a(2)] by (auto simp: sip_recv_dtmf_def dest!: settled_Some)
next
  case (MonitorTick env err replies cid)
  assume "sip_do op e = Some e'" "calls_wf e"
  then show ?thesis using MonitorTick monitor_tick_wf by auto
next
  case (AddProvider p)
  assume "sip_do op e = Some e'" "calls_wf e"
  then show ?thesis using AddProvider by auto
next
  case (RemoveProvider pid)
  assume "sip_do op e = Some e'" "calls_wf e"
  then show ?thesis using RemoveProvider by auto
qed (simp_all add: answer_call_wf reject_call_wf cancel_call_wf hang_up_wf send_digits_wf send_reinvite_wf hold_wf settled_fst)

lemma sip_run_wf: "sip_run ops e = Some e' \<Longrightarrow> calls_wf e \<Longrightarrow> calls_wf e'"
  by (induction ops arbitrary: e) (auto split: option.splits dest: sip_do_wf)

lemma new_calls_wf: "calls_wf (sip_engine_new cfg)"
  by (simp add: calls_all_def sip_engine_new_def)

text \<open>C5: Every call of every state the engine reaches is well formed: its state is one of six, it is held only when a side
  holds it, an inbound call has a server dialog and no client dialog, an outbound one no server dialog, and an active or
  held call has a dialog.\<close>

theorem calls_well_formed:
  assumes "sip_run ops (sip_engine_new cfg) = Some e" and "se_calls e cid = Some c"
  shows "cl_state c \<in> {Trying, Ringing, EarlyMedia, Active, Hold, Ended}
    \<and> (if cl_state c = Hold then cl_local_hold c \<or> cl_remote_hold c else True)
    \<and> (case cl_direction c of Inbound \<Rightarrow> cl_server_dialog c \<noteq> None \<and> cl_client_dialog c = None
         | Outbound \<Rightarrow> cl_server_dialog c = None)
    \<and> (if cl_state c \<in> {Active, Hold} then cl_client_dialog c \<noteq> None \<or> cl_server_dialog c \<noteq> None else True)"
proof -
  have wf: "call_wf c" using calls_allD [OF sip_run_wf [OF assms(1) new_calls_wf] assms(2)] .
  then show ?thesis
    by (cases "cl_direction c") (auto simp: call_wf_def call_on_hold_def call_dialog_def or_else_def split: option.splits)
qed

lemma stop_rtp_sent: "stop_rtp k io cid e = Ok e' \<Longrightarrow> se_sent e' = se_sent e \<and> se_events e' = se_events e"
  by (auto simp: stop_rtp_def upd_call_def split: option.splits outcome.splits)

text \<open>C6: Hanging up an established call sends a BYE: in every state the engine reaches, when hanging up an active or held call
  returns, exactly one request has been handed to a dialog of the call, a BYE, and the call has ended and is not
  held.\<close>

theorem established_call_ends_with_bye:
  assumes "sip_run ops (sip_engine_new cfg) = Some e" and "se_calls e cid = Some c" and "cl_state c = Active \<or> cl_state c = Hold"
    and "hang_up env None cid e = (e', Ok ())"
  shows "(\<exists>d. se_sent e' = se_sent e @ [(d, SendBye)] \<and> (cl_client_dialog c = Some d \<or> cl_server_dialog c = Some d))
    \<and> (\<exists>c'. se_calls e' cid = Some c' \<and> cl_state c' = Ended \<and> \<not> call_on_hold c')"
proof -
  have wf: "call_wf c" using calls_allD [OF sip_run_wf [OF assms(1) new_calls_wf] assms(2)] .
  obtain e1 where e1: "stop_rtp (sn_crates env) (sn_bye_error env) cid e = Ok e1"
    and e': "e' = send_bye None c (upd_call cid clear_holds e1)"
    using assms(2-4) by (auto simp: hang_up_def pre_answer_def split: if_splits outcome.splits)
  obtain d where d: "call_dialog c = Some d" using wf assms(3) by (auto simp: call_wf_def)
  have sent: "se_sent (upd_call cid clear_holds e1) = se_sent e" using stop_rtp_sent [OF e1] by (simp add: upd_call_def split: option.split)
  have bye: "\<exists>d. se_sent e' = se_sent e @ [(d, SendBye)] \<and> (cl_client_dialog c = Some d \<or> cl_server_dialog c = Some d)"
    using d sent by (intro exI [of _ d])
      (auto simp: e' send_bye_def call_dialog_def or_else_def hand_over_def split: option.splits)
  have "\<exists>c1. se_calls e1 cid = Some c1" using e1 assms(2)
    by (auto simp: stop_rtp_def upd_call_def split: option.splits outcome.splits)
  then have "\<exists>c'. se_calls e' cid = Some c' \<and> cl_state c' = Ended \<and> \<not> call_on_hold c'"
    by (auto simp: e' send_bye_def hand_over_def upd_call_def clear_holds_def call_on_hold_def split: option.split)
  with bye show ?thesis by blast
qed

end
