(* ===== verification/Sip_Engine_Ports.thy ===== *)
theory Sip_Engine_Ports
  imports Sip_Engine
begin

text \<open>
  The search for an RTP port of the SIP engine: it ends, and what it finds.
\<close>

section \<open>Even ports\<close>

definition even_port :: "u16 \<Rightarrow> bool" where "even_port p \<longleftrightarrow> even (unat p)"

lemma unat_plus16: "unat (p + q :: u16) = (unat p + unat q) mod 65536"
  by (simp add: unat_word_ariths(1))

lemma even_mod16: "even (n mod 65536 :: nat) \<longleftrightarrow> even n"
  by (rule dvd_mod_iff) simp

lemma even_round_up [simp]: "even_port (round_up_even p)"
proof -
  have "unat (p mod 2) = unat p mod 2" by (simp add: unat_mod)
  then have "p mod 2 \<noteq> 0 \<longleftrightarrow> odd (unat p)" by (metis odd_iff_mod_2_eq_one unat_eq_zero even_iff_mod_2_eq_zero)
  then show ?thesis by (auto simp: round_up_even_def even_port_def unat_plus16 even_mod16)
qed

lemma round_up_id: "even_port p \<Longrightarrow> round_up_even p = p"
proof -
  assume "even_port p"
  moreover have "unat (p mod 2) = unat p mod 2" by (simp add: unat_mod)
  ultimately have "p mod 2 = 0" by (metis even_iff_mod_2_eq_zero even_port_def unat_eq_zero)
  then show ?thesis by (simp add: round_up_even_def)
qed

lemma next_even:
  assumes "even_port p" and "p < e" and "e \<noteq> 65535"
  shows "unat (p + 2) = unat p + 2" and "even_port (p + 2)"
proof -
  have top: "unat (65535 :: u16) = 65535" by simp
  have "unat e \<noteq> unat (65535 :: u16)" using assms(3) by (simp only: word_unat_eq_iff [symmetric] not_False_eq_True)
  then have "unat e \<noteq> 65535" by (simp only: top not_False_eq_True)
  then have "unat p < 65534" using assms(2) unat16_less [of e] by (simp add: word_less_nat_alt)
  then show "unat (p + 2) = unat p + 2" by (simp add: unat_plus16)
  with assms(1) show "even_port (p + 2)" by (simp add: even_port_def)
qed

section \<open>The search\<close>

lemma scan_unfold:
  "scan_sip_ports s e used f w p =
     (let p' = (if p \<ge> e then s else p); w' = (w \<or> p \<ge> e)
      in if w' \<and> p' \<ge> f then Some (p', True)
         else if p' \<notin> used then Some (p', False)
         else scan_sip_ports s e used f w' (p' + 2))"
  by (rule scan_sip_ports.simps)

lemma scan_wrapped:
  assumes "even_port f" and "e \<noteq> 65535" and "f < e \<or> f = s"
  shows "even_port p \<Longrightarrow> s \<le> p \<Longrightarrow> p \<le> f \<Longrightarrow>
    \<exists>q x. scan_sip_ports s e used f True p = Some (q, x) \<and>
      (if \<exists>r. even_port r \<and> p \<le> r \<and> r < f \<and> r \<notin> used
       then \<not> x \<and> even_port q \<and> p \<le> q \<and> q < f \<and> q \<notin> used else x \<and> q = f)"
proof (induction "unat f - unat p" arbitrary: p rule: less_induct)
  case less
  show ?case
  proof (cases "p = f")
    case True
    have "(if e \<le> f then s else f) = f" using assms(3) by (metis not_le)
    then have "scan_sip_ports s e used f True f = Some (f, True)" by (subst scan_unfold) (simp add: Let_def)
    then show ?thesis unfolding True by (intro exI [of _ f] exI [of _ True]) auto
  next
    case False
    with less.prems have pf: "p < f" by simp
    have "f \<noteq> s" using pf less.prems(2) by auto
    with assms(3) pf have pe: "p < e" by auto
    have nle: "\<not> f \<le> p" "\<not> e \<le> p" using pf pe by simp_all
    have step: "scan_sip_ports s e used f True p =
        (if p \<notin> used then Some (p, False) else scan_sip_ports s e used f True (p + 2))"
      using nle by (subst scan_unfold) (simp add: Let_def)
    show ?thesis
    proof (cases "p \<in> used")
      case False
      with step pf less.prems(1) show ?thesis by auto
    next
      case True
      note n = next_even [OF less.prems(1) pe assms(2)]
      have "unat p + 2 \<le> unat f"
        using pf less.prems(1) assms(1) by (auto simp: word_less_nat_alt even_port_def elim!: evenE)
      then have bounds: "s \<le> p + 2" "p + 2 \<le> f" using n(1) less.prems(2) by (simp_all add: word_le_nat_alt)
      have smaller: "unat f - unat (p + 2) < unat f - unat p"
        using n(1) \<open>unat p + 2 \<le> unat f\<close> by simp
      obtain q x where q: "scan_sip_ports s e used f True (p + 2) = Some (q, x)"
        "if \<exists>r. even_port r \<and> p + 2 \<le> r \<and> r < f \<and> r \<notin> used
         then \<not> x \<and> even_port q \<and> p + 2 \<le> q \<and> q < f \<and> q \<notin> used else x \<and> q = f"
        using less.hyps [OF smaller n(2) bounds] by blast
      have above: "p + 2 \<le> r" if "even_port r" "p \<le> r" "r \<notin> used" for r
      proof -
        have "r \<noteq> p" using that(3) True by auto
        then have "unat p < unat r" using that(2) by (simp add: word_le_nat_alt word_unat_eq_iff)
        then have "unat p + 2 \<le> unat r" using that(1) less.prems(1) by (auto simp: even_port_def elim!: evenE)
        then show ?thesis using n(1) by (simp add: word_le_nat_alt)
      qed
      have below: "p \<le> r" if "p + 2 \<le> r" for r using that n(1) by (simp add: word_le_nat_alt)
      have same: "(\<exists>r. even_port r \<and> p + 2 \<le> r \<and> r < f \<and> r \<notin> used) \<longleftrightarrow> (\<exists>r. even_port r \<and> p \<le> r \<and> r < f \<and> r \<notin> used)"
        using above below by blast
      from step True q same below show ?thesis by auto
    qed
  qed
qed

lemma even_above:
  assumes "unat (p + 2) = unat p + 2" and "even_port p" and "even_port r" and "p \<le> r" and "r \<noteq> p"
  shows "p + 2 \<le> r"
proof -
  have "unat p < unat r" using assms(4,5) by (simp add: word_le_nat_alt word_unat_eq_iff)
  then have "unat p + 2 \<le> unat r" using assms(2,3) by (auto simp: even_port_def elim!: evenE)
  then show ?thesis using assms(1) by (simp add: word_le_nat_alt)
qed

lemma scan_from:
  assumes "even_port f" and "e \<noteq> 65535" and "f < e \<or> f = s" and "even_port s" and "s \<le> f"
  shows "even_port p \<Longrightarrow>
    \<exists>q x. scan_sip_ports s e used f False p = Some (q, x) \<and>
      (if \<exists>r. even_port r \<and> (p \<le> r \<and> r < e \<or> s \<le> r \<and> r < f) \<and> r \<notin> used
       then \<not> x \<and> even_port q \<and> (p \<le> q \<and> q < e \<or> s \<le> q \<and> q < f) \<and> q \<notin> used else x \<and> q = f)"
proof (induction "unat e - unat p" arbitrary: p rule: less_induct)
  case less
  show ?case
  proof (cases "e \<le> p")
    case True
    then have same: "scan_sip_ports s e used f False p = scan_sip_ports s e used f True s"
      by (subst (1 2) scan_unfold) (simp add: Let_def)
    have none: "(p \<le> r \<and> r < e \<or> s \<le> r \<and> r < f) = (s \<le> r \<and> r < f)" for r using True by auto
    from scan_wrapped [OF assms(1-4) order_refl assms(5), of used] show ?thesis unfolding same none conj_assoc .
  next
    case False
    then have pe: "p < e" by simp
    have step: "scan_sip_ports s e used f False p =
        (if p \<notin> used then Some (p, False) else scan_sip_ports s e used f False (p + 2))"
      using False by (subst scan_unfold) (simp add: Let_def)
    show ?thesis
    proof (cases "p \<in> used")
      case False
      with step pe less.prems show ?thesis by auto
    next
      case True
      note n = next_even [OF less.prems pe assms(2)]
      have smaller: "unat e - unat (p + 2) < unat e - unat p" using n(1) pe by (simp add: word_less_nat_alt)
      obtain q x where q: "scan_sip_ports s e used f False (p + 2) = Some (q, x)"
        "if \<exists>r. even_port r \<and> (p + 2 \<le> r \<and> r < e \<or> s \<le> r \<and> r < f) \<and> r \<notin> used
         then \<not> x \<and> even_port q \<and> (p + 2 \<le> q \<and> q < e \<or> s \<le> q \<and> q < f) \<and> q \<notin> used else x \<and> q = f"
        using less.hyps [OF smaller n(2)] by blast
      have above: "p + 2 \<le> r" if "even_port r" "p \<le> r" "r \<notin> used" for r
        using even_above [OF n(1) less.prems that(1,2)] that(3) True by blast
      have below: "p \<le> r" if "p + 2 \<le> r" for r using that n(1) by (simp add: word_le_nat_alt)
      have same: "(\<exists>r. even_port r \<and> (p + 2 \<le> r \<and> r < e \<or> s \<le> r \<and> r < f) \<and> r \<notin> used)
          \<longleftrightarrow> (\<exists>r. even_port r \<and> (p \<le> r \<and> r < e \<or> s \<le> r \<and> r < f) \<and> r \<notin> used)"
        using above below by blast
      have p: "scan_sip_ports s e used f False p = Some (q, x)" using step True q(1) by simp
      show ?thesis
      proof (cases "\<exists>r. even_port r \<and> (p \<le> r \<and> r < e \<or> s \<le> r \<and> r < f) \<and> r \<notin> used")
        case free: True
        then have "\<not> x \<and> even_port q \<and> (p + 2 \<le> q \<and> q < e \<or> s \<le> q \<and> q < f) \<and> q \<notin> used" using q(2) same by simp
        with p below show ?thesis unfolding if_P [OF free] by blast
      next
        case full: False
        then have "x \<and> q = f" using q(2) same by (simp only: if_False)
        with p show ?thesis unfolding if_not_P [OF full] by blast
      qed
    qed
  qed
qed

section \<open>Allocation\<close>

text \<open>The ports of the configured range, and the position of the search within it.\<close>

definition rtp_range :: "sip_engine \<Rightarrow> u16 set" where
  "rtp_range e = {p. even_port p \<and> round_up_even (sc_rtp_port_start (se_config e)) \<le> p \<and> p < sc_rtp_port_end (se_config e)}"

definition ports_wf :: "sip_engine \<Rightarrow> bool" where
  "ports_wf e \<longleftrightarrow> round_up_even (se_next_rtp_port e) \<in> rtp_range e \<and> sc_rtp_port_end (se_config e) \<noteq> 65535"

lemma allocate_exact:
  assumes "ports_wf e"
  shows "\<exists>e' p. sip_allocate_rtp_port e = Some (e', p) \<and> ports_wf e' \<and> se_config e' = se_config e
    \<and> se_allocated_ports e' = insert p (se_allocated_ports e) \<and> se_calls e' = se_calls e \<and> p \<in> rtp_range e
    \<and> (p \<notin> se_allocated_ports e \<longleftrightarrow> \<not> rtp_range e \<subseteq> se_allocated_ports e)"
proof -
  let ?s = "round_up_even (sc_rtp_port_start (se_config e))" and ?e = "sc_rtp_port_end (se_config e)"
  let ?f = "round_up_even (se_next_rtp_port e)" and ?used = "se_allocated_ports e"
  have f: "even_port ?f" "?s \<le> ?f" "?f < ?e" "?e \<noteq> 65535" using assms by (simp_all add: ports_wf_def rtp_range_def)
  obtain q x where q: "scan_sip_ports ?s ?e ?used ?f False ?f = Some (q, x)"
    "if \<exists>r. even_port r \<and> (?f \<le> r \<and> r < ?e \<or> ?s \<le> r \<and> r < ?f) \<and> r \<notin> ?used
     then \<not> x \<and> even_port q \<and> (?f \<le> q \<and> q < ?e \<or> ?s \<le> q \<and> q < ?f) \<and> q \<notin> ?used else x \<and> q = ?f"
    using scan_from [OF f(1) f(4) disjI1 [OF f(3)] even_round_up f(2) f(1), of ?used] by blast
  have range: "r \<in> rtp_range e \<longleftrightarrow> even_port r \<and> (?f \<le> r \<and> r < ?e \<or> ?s \<le> r \<and> r < ?f)" for r
    using f(2,3) by (auto simp: rtp_range_def)
  have exact: "q \<in> rtp_range e" "q \<notin> ?used \<longleftrightarrow> \<not> rtp_range e \<subseteq> ?used"
  proof -
    show "q \<in> rtp_range e" using q(2) f by (auto simp: range split: if_splits)
    then show "q \<notin> ?used \<longleftrightarrow> \<not> rtp_range e \<subseteq> ?used"
      using q(2) range by (cases "\<exists>r. r \<in> rtp_range e \<and> r \<notin> ?used") (auto split: if_splits)
  qed
  let ?next = "if q + 2 \<ge> ?e then ?s else q + 2"
  let ?e' = "e\<lparr>se_allocated_ports := insert q ?used, se_next_rtp_port := ?next\<rparr>"
  have a: "sip_allocate_rtp_port e = Some (?e', q)" by (simp add: sip_allocate_rtp_port_def q(1) Let_def)
  have qe: "even_port q" "q < ?e" "?s \<le> q" using exact(1) by (simp_all add: rtp_range_def)
  note n = next_even [OF qe(1,2) f(4)]
  have "even_port ?next \<and> ?s \<le> ?next \<and> ?next < ?e"
    using n qe f by (auto simp: word_le_nat_alt word_less_nat_alt not_le)
  then have "round_up_even ?next = ?next" "?next \<in> rtp_range e" by (simp_all add: round_up_id rtp_range_def)
  then have "ports_wf ?e'" using f(4) by (simp add: ports_wf_def rtp_range_def)
  with a exact show ?thesis by simp
qed

section \<open>Runs\<close>

datatype port_op = TakePort | GivePort u16

text \<open>A run of allocations and releases; \<open>None\<close> when an allocation does not end.\<close>

fun port_run :: "port_op list \<Rightarrow> sip_engine \<Rightarrow> sip_engine option" where
  "port_run [] e = Some e"
| "port_run (TakePort # ops) e = (case sip_allocate_rtp_port e of None \<Rightarrow> None | Some (e', _) \<Rightarrow> port_run ops e')"
| "port_run (GivePort p # ops) e = port_run ops (sip_release_rtp_port p e)"

lemma release_wf [simp]: "ports_wf (sip_release_rtp_port p e) = ports_wf e" "se_config (sip_release_rtp_port p e) = se_config e"
  by (simp_all add: ports_wf_def rtp_range_def sip_release_rtp_port_def)

lemma port_run_wf: "ports_wf e \<Longrightarrow> \<exists>e'. port_run ops e = Some e' \<and> ports_wf e' \<and> se_config e' = se_config e"
proof (induction ops arbitrary: e)
  case (Cons x ops)
  show ?case
  proof (cases x)
    case TakePort
    obtain e' p where e': "sip_allocate_rtp_port e = Some (e', p)" "ports_wf e'" "se_config e' = se_config e"
      using allocate_exact [OF Cons.prems] by blast
    with Cons.IH [OF e'(2)] TakePort show ?thesis by auto
  next
    case (GivePort p)
    have "ports_wf (sip_release_rtp_port p e)" using Cons.prems by simp
    from Cons.IH [OF this] GivePort show ?thesis by simp
  qed
qed simp

lemma new_ports_wf:
  "round_up_even (sc_rtp_port_start cfg) < sc_rtp_port_end cfg \<Longrightarrow> sc_rtp_port_end cfg \<noteq> 65535 \<Longrightarrow> ports_wf (sip_engine_new cfg)"
  by (simp add: ports_wf_def rtp_range_def sip_engine_new_def)

text \<open>C35: The search for a port always ends: whatever was allocated and released before, in any order, on an engine whose range
  holds an even port and ends below 65535, each of the allocations returns.\<close>

theorem port_search_ends:
  assumes "round_up_even (sc_rtp_port_start cfg) < sc_rtp_port_end cfg" and "sc_rtp_port_end cfg \<noteq> 65535"
  shows "port_run ops (sip_engine_new cfg) \<noteq> None"
  using port_run_wf [OF new_ports_wf [OF assms]] by blast

text \<open>What it finds: after any allocations and releases, the port is an even one of the range, and it was free exactly
  when one of the range was; when all are taken, one that is in use is handed out again and no error is
  reported.\<close>

theorem port_search_exact:
  assumes "round_up_even (sc_rtp_port_start cfg) < sc_rtp_port_end cfg" and "sc_rtp_port_end cfg \<noteq> 65535"
    and "port_run ops (sip_engine_new cfg) = Some e"
  shows "case sip_allocate_rtp_port e of
      Some (e', p) \<Rightarrow> even_port p \<and> round_up_even (sc_rtp_port_start cfg) \<le> p \<and> p < sc_rtp_port_end cfg
        \<and> (p \<notin> se_allocated_ports e \<longleftrightarrow> \<not> rtp_range e \<subseteq> se_allocated_ports e)
        \<and> se_allocated_ports e' = insert p (se_allocated_ports e)
    | None \<Rightarrow> False"
proof -
  have wf: "ports_wf e" "se_config e = cfg"
    using port_run_wf [OF new_ports_wf [OF assms(1,2)], of ops] assms(3) by (auto simp: sip_engine_new_def)
  obtain e' p where "sip_allocate_rtp_port e = Some (e', p)" "p \<in> rtp_range e"
    "se_allocated_ports e' = insert p (se_allocated_ports e)"
    "p \<notin> se_allocated_ports e \<longleftrightarrow> \<not> rtp_range e \<subseteq> se_allocated_ports e"
    using allocate_exact [OF wf(1)] by blast
  then show ?thesis using wf(2) by (simp add: rtp_range_def)
qed

end
