(* ===== verification/Sip_Engine_Props.thy ===== *)
theory Sip_Engine_Props
  imports Sip_Engine_Runs Sip_Engine_Ports Sip_Sdp_Props
begin

text \<open>
  How calls begin and end: a ringing response taken after the answer, a final response without a description,
  what becomes of the RTP port of a call, a hold whose re-INVITE overlaps with hanging up, and the rate limit.
\<close>

section \<open>What an answer leaves\<close>

lemmas call_updates = note_device_def note_contact_def device_of_def response_routes_def answered_timer_def
  update_from_remote_sdp_def update_dtmf_from_sdp_def apply_media_target_def Let_def

lemma note_fields [simp]:
  "cl_client_dialog (note_device hs c) = cl_client_dialog c" "cl_early_media_state (note_device hs c) = cl_early_media_state c"
  "cl_cancel_pending (note_device hs c) = cl_cancel_pending c" "cl_direction (note_device hs c) = cl_direction c"
  "cl_state (note_device hs c) = cl_state c"
  "cl_client_dialog (note_contact hs c) = cl_client_dialog c" "cl_early_media_state (note_contact hs c) = cl_early_media_state c"
  "cl_cancel_pending (note_contact hs c) = cl_cancel_pending c" "cl_direction (note_contact hs c) = cl_direction c"
  "cl_state (note_contact hs c) = cl_state c"
  by (simp_all add: call_updates split: list.split)

lemma early_sdp_fields:
  assumes "early_sdp env s c = Ok c'"
  shows "cl_client_dialog c' = cl_client_dialog c" "cl_early_media_state c' = cl_early_media_state c"
    "cl_cancel_pending c' = cl_cancel_pending c" "cl_direction c' = cl_direction c"
    "cl_state c \<in> {Active, Hold} \<Longrightarrow> cl_state c' \<in> {Active, Hold}"
    "cl_state c \<notin> {Active, Hold} \<Longrightarrow> cl_state c' = cl_state c"
  using assms by (auto simp: early_sdp_def call_updates split: option.splits outcome.splits prod.splits if_splits)

lemma answered_call_fields:
  assumes "answered_call env d m body timers c = Ok c'"
  shows "cl_client_dialog c' = Some d" "cl_early_media_state c' = NoEarlyMedia"
    "cl_cancel_pending c' = cl_cancel_pending c" "cl_direction c' = cl_direction c" "cl_state c' \<in> {Active, Hold}"
proof -
  let ?c1 = "c\<lparr>cl_remote_sdp := Some body, cl_state := Active, cl_client_dialog := Some d, cl_early_media_state := NoEarlyMedia\<rparr>"
  obtain c3 where c3: "early_sdp env (Some body) (response_routes m (note_contact (ms_headers m) (note_device (ms_headers m) ?c1))) = Ok c3"
    and c': "c' = answered_timer (sn_now env) m timers c3"
    using assms by (auto simp: answered_call_def Let_def)
  have r: "cl_client_dialog (response_routes m c) = cl_client_dialog c" "cl_early_media_state (response_routes m c) = cl_early_media_state c"
    "cl_cancel_pending (response_routes m c) = cl_cancel_pending c" "cl_direction (response_routes m c) = cl_direction c"
    "cl_state (response_routes m c) = cl_state c" for c by (simp_all add: response_routes_def Let_def)
  have t: "cl_client_dialog c' = cl_client_dialog c3" "cl_early_media_state c' = cl_early_media_state c3"
    "cl_cancel_pending c' = cl_cancel_pending c3" "cl_direction c' = cl_direction c3" "cl_state c' = cl_state c3"
    by (simp_all add: c' answered_timer_def Let_def)
  note f = early_sdp_fields [OF c3]
  show "cl_client_dialog c' = Some d" "cl_early_media_state c' = NoEarlyMedia"
    "cl_cancel_pending c' = cl_cancel_pending c" "cl_direction c' = cl_direction c" "cl_state c' \<in> {Active, Hold}"
    using f by (simp_all add: t r)
qed

lemma answered_outcome:
  assumes "invite_done env err (InviteOk d (Some m)) cid e = Ok e'" and "se_calls e cid = Some c" and "\<not> cl_cancel_pending c"
    and "ms_status m = 200" and "body_text (ms_body m) = Some body"
  shows "\<exists>c'. answered_call env d m body (sc_enable_session_timers (se_config e)) c = Ok c' \<and> se_calls e' cid = Some c'
    \<and> se_sent e' = se_sent e \<and> e' = emit_event (EvAudioReady cid) (emit_event (EvAnswered cid) (upd_call cid (\<lambda>_. c') e))"
proof -
  have none: "final_min_se (Some m) e = None" "redirect_targets (Some m) = None"
    using assms(4) by (simp_all add: final_min_se_def redirect_targets_def word_le_nat_alt)
  obtain c' where c': "answered_call env d m body (sc_enable_session_timers (se_config e)) c = Ok c'"
    using assms none by (auto simp: invite_done_def take_response_def)
  have "\<not> cancel_pending cid (upd_call cid (\<lambda>_. c') e)"
    using answered_call_fields(3) [OF c'] assms(2,3) by (simp add: cancel_pending_def upd_call_def)
  with assms none c' show ?thesis
    by (simp add: invite_done_def take_response_def) (auto simp: emit_event_def upd_call_def)
qed

section \<open>A ringing response after the answer\<close>

lemma late_ringing:
  assumes "se_calls e cid = Some c" and "cl_early_media_state c = NoEarlyMedia" and "ms_status m = 180" and "ms_body m = []"
    and "outbound_dialog_event env cid (DEarly m) e = Ok e'"
  shows "\<exists>c'. se_calls e' cid = Some c' \<and> cl_state c' = Ringing \<and> cl_client_dialog c' = cl_client_dialog c
    \<and> cl_direction c' = cl_direction c \<and> se_sent e' = se_sent e"
proof -
  let ?c1 = "note_contact (ms_headers m) (note_device (ms_headers m) c)"
  have e': "e' = emit_event (EvRinging cid) (upd_call cid (\<lambda>_. process_180_ringing ?c1) e)"
    using assms by (simp add: outbound_dialog_event_def on_early_def early_sdp_def early_status_def body_text_def process_180_ringing_def)
  then show ?thesis using assms(1,2) by (simp add: process_180_ringing_def upd_call_def emit_event_def)
qed

lemma finish_cancel_sent: "finish_cancel env cid e = (e', r) \<Longrightarrow> se_sent e' = se_sent e"
proof -
  assume f: "finish_cancel env cid e = (e', r)"
  have u: "se_sent (upd_call cid g e) = se_sent e" for g by (simp add: upd_call_def split: option.split)
  have "se_sent (release_call_port p x) = se_sent x" for p x
    by (simp add: release_call_port_def sip_release_rtp_port_def split: option.split)
  with f u show ?thesis
    by (auto simp: finish_cancel_def emit_event_def split: outcome.splits dest!: stop_rtp_sent)
qed

text \<open>C7: A ringing response taken after the answer undoes it: the call the 200 OK made active is ringing again, so hanging
  it up sends a CANCEL on the established dialog and no BYE.\<close>

theorem late_ringing_undoes_answer:
  assumes "invite_done env err (InviteOk d (Some m)) cid e = Ok e1" and "se_calls e cid = Some c"
    and "cl_direction c = Outbound" and "\<not> cl_cancel_pending c" and "ms_status m = 200" and "body_text (ms_body m) = Some body"
    and "ms_status ringing = 180" and "ms_body ringing = []" and "outbound_dialog_event env cid (DEarly ringing) e1 = Ok e2"
    and "hang_up env None cid e2 = (e3, Ok ())"
  shows "map_option cl_state (se_calls e1 cid) \<in> {Some Active, Some Hold} \<and> map_option cl_state (se_calls e2 cid) = Some Ringing
    \<and> se_sent e3 = se_sent e @ [(d, SendCancel)]"
proof -
  obtain c1 where c1: "answered_call env d m body (sc_enable_session_timers (se_config e)) c = Ok c1"
    "se_calls e1 cid = Some c1" "se_sent e1 = se_sent e"
    using answered_outcome [OF assms(1,2,4,5,6)] by blast
  note f = answered_call_fields [OF c1(1)]
  obtain c2 where c2: "se_calls e2 cid = Some c2" "cl_state c2 = Ringing" "cl_client_dialog c2 = Some d" "cl_direction c2 = Outbound"
    "se_sent e2 = se_sent e"
    using late_ringing [OF c1(2) f(2) assms(7-9)] f(1,4) assms(3) c1(3) by auto
  have "cancel_call env None cid e2 = (e3, Ok ())" using assms(10) c2 by (simp add: hang_up_def pre_answer_def)
  moreover have u: "se_sent (upd_call cid g x) = se_sent x" for g x by (simp add: upd_call_def split: option.split)
  ultimately have "se_sent e3 = se_sent e @ [(d, SendCancel)]"
    using c2 by (auto simp: cancel_call_def pre_answer_def Let_def hand_over_def dest!: finish_cancel_sent)
  then show ?thesis using c1(2) f(5) c2 by auto
qed

section \<open>A final response without a description\<close>

text \<open>C8: A final response without a description is announced as an answer, whatever its status, 422 and redirections apart: the
  events say answered and audio ready, while the call keeps its state and gets no dialog. Hanging up then sends
  nothing to the peer and announces a cancellation.\<close>

theorem unanswered_announced:
  assumes "se_calls e cid = Some c" and "cl_direction c = Outbound" and "pre_answer (cl_state c)" and "cl_client_dialog c = None"
    and "\<not> cl_cancel_pending c" and "body_text (ms_body m) = None" and "ms_status m \<noteq> 422" and "ms_status m < 300 \<or> 400 \<le> ms_status m"
    and "invite_done env err (InviteOk d (Some m)) cid e = Ok e1" and "hang_up env None cid e1 = (e2, Ok ())"
  shows "se_events e1 = se_events e @ [EvAnswered cid, EvAudioReady cid] \<and> se_calls e1 cid = Some c
    \<and> se_sent e2 = se_sent e \<and> se_events e2 = se_events e1 @ [EvCancelled cid]"
proof -
  have none: "final_min_se (Some m) e = None" "redirect_targets (Some m) = None"
    using assms(7,8) by (auto simp: final_min_se_def redirect_targets_def)
  have e1: "e1 = emit_event (EvAudioReady cid) (emit_event (EvAnswered cid) e)"
    using assms none by (auto simp: invite_done_def take_response_def cancel_pending_def)
  have c: "se_calls e1 cid = Some c" using assms(1) by (simp add: e1 emit_event_def)
  let ?e = "upd_call cid (\<lambda>c. c\<lparr>cl_cancel_pending := True\<rparr>) (upd_call cid (\<lambda>c. c\<lparr>cl_cancel_tx := False\<rparr>) e1)"
  have fc: "finish_cancel env cid ?e = (e2, Ok ())"
    using assms(2-4,10) c by (auto simp: hang_up_def cancel_call_def pre_answer_def Let_def split: if_splits)
  have u: "se_sent (upd_call cid g x) = se_sent x" "se_events (upd_call cid g x) = se_events x" for g x
    by (simp_all add: upd_call_def split: option.split)
  have rel: "se_events (release_call_port q x) = se_events x" for q x
    by (simp add: release_call_port_def sip_release_rtp_port_def split: option.split)
  have "se_events e2 = se_events ?e @ [EvCancelled cid]"
    using fc by (auto simp: finish_cancel_def emit_event_def rel u split: outcome.splits dest!: stop_rtp_sent)
  then show ?thesis using finish_cancel_sent [OF fc] c by (simp add: u) (simp add: e1 emit_event_def)
qed

section \<open>The port of a call\<close>

lemma stop_rtp_frame:
  assumes "stop_rtp k io cid e = Ok e'"
  shows "se_allocated_ports e' = se_allocated_ports e" "call_port cid' e' = call_port cid' e" "se_config e' = se_config e"
    "se_providers e' = se_providers e"
proof -
  have same: "re_local_addr r' = re_local_addr r" if "engine_stop kr io pool r = Ok (pool', r')" for kr pool r pool' r'
  proof -
    have h: "halt pool0 x = (pool1, r1) \<Longrightarrow> re_local_addr r1 = re_local_addr x" for pool0 pool1 r1 x
      by (auto simp: halt_def release_port_def split: option.splits)
    have s: "re_local_addr (fst (socket_send io a d x)) = re_local_addr x" for a d x by (simp add: socket_send_def split: option.split)
    have p: "protect_out_rtcp kr d r = (x, y) \<Longrightarrow> re_local_addr x = re_local_addr r" for d x y
      by (auto simp: protect_out_rtcp_def Let_def split: option.splits prod.splits)
    show ?thesis using that
      by (auto simp: engine_stop_def Let_def s split: if_splits option.splits outcome.splits prod.splits dest!: h p)
  qed
  show "se_allocated_ports e' = se_allocated_ports e" "call_port cid' e' = call_port cid' e" "se_config e' = se_config e"
    "se_providers e' = se_providers e"
    using assms same by (auto simp: stop_rtp_def upd_call_def call_port_def split: option.splits outcome.splits)
qed

lemma upd_call_frame:
  "(\<And>c. cl_rtp_engine (f c) = cl_rtp_engine c) \<Longrightarrow> call_port cid' (upd_call cid f e) = call_port cid' e"
  "se_allocated_ports (upd_call cid f e) = se_allocated_ports e" "se_providers (upd_call cid f e) = se_providers e"
  by (auto simp: upd_call_def call_port_def split: option.split)

lemma release_call_frame:
  "se_allocated_ports (release_call_port q e) = se_allocated_ports e - set_option q"
  "call_port cid (release_call_port q e) = call_port cid e" "se_calls (release_call_port q e) = se_calls e"
  by (simp_all add: release_call_port_def sip_release_rtp_port_def call_port_def split: option.split)

lemma cancelled_ports:
  assumes "cancel_call env None cid e = (e', Ok ())"
  shows "call_port cid' e' = call_port cid' e" "se_allocated_ports e' = se_allocated_ports e - set_option (call_port cid e)"
proof -
  let ?e = "upd_call cid (\<lambda>c. c\<lparr>cl_cancel_pending := True\<rparr>) (upd_call cid (\<lambda>c. c\<lparr>cl_cancel_tx := False\<rparr>) e)"
  have h: "call_port q (hand_over d r x) = call_port q x" "se_allocated_ports (hand_over d r x) = se_allocated_ports x" for q d r x
    by (simp_all add: hand_over_def call_port_def)
  obtain x where x: "finish_cancel env cid x = (e', Ok ())" and xs: "\<And>q. call_port q x = call_port q e"
    "se_allocated_ports x = se_allocated_ports e"
  proof (cases "\<exists>d. finish_cancel env cid (hand_over d SendCancel ?e) = (e', Ok ())")
    case True
    then obtain d where "finish_cancel env cid (hand_over d SendCancel ?e) = (e', Ok ())" by blast
    then show ?thesis by (rule that) (simp_all add: h upd_call_frame)
  next
    case False
    then have "finish_cancel env cid ?e = (e', Ok ())"
      using assms by (auto simp: cancel_call_def Let_def split: option.splits if_splits)
    then show ?thesis by (rule that) (simp_all add: upd_call_frame)
  qed
  obtain x1 where x1: "stop_rtp (sn_crates env) (sn_bye_error env) cid (upd_call cid clear_holds x) = Ok x1"
    and e': "e' = emit_event (EvCancelled cid) (release_call_port (call_port cid x) x1)"
    using x by (auto simp: finish_cancel_def split: outcome.splits)
  note f = stop_rtp_frame [OF x1]
  show "call_port cid' e' = call_port cid' e" "se_allocated_ports e' = se_allocated_ports e - set_option (call_port cid e)"
    using f(1) f(2) [of cid'] xs release_call_frame
    by (simp_all add: e' emit_event_def upd_call_frame clear_holds_def) (simp_all add: call_port_def)
qed

lemma placed_port:
  assumes "place_call k env pa p pid callee caller e = (e', Ok (cid, opt))" and "en_bind env = Ok addr"
  shows "cid = en_call_id env" "call_port cid e' = Some (sock_port addr)" "se_allocated_ports e' = se_allocated_ports e"
    "cid' \<noteq> cid \<Longrightarrow> se_calls e' cid' = se_calls e cid'"
  using assms
  by (auto simp: place_call_def open_rtp_def engine_new_def outbound_session_def call_port_def Let_def
      split: outcome.splits option.splits if_splits)

lemma dropped_ports:
  assumes "invite_cancelled env cid e = Ok e'"
  shows "se_allocated_ports e' = se_allocated_ports e - set_option (call_port cid e)"
    "cid' \<noteq> cid \<Longrightarrow> call_port cid' e' = call_port cid' e"
proof -
  obtain e1 where e1: "stop_rtp (sn_crates env) (sn_bye_error env) cid e = Ok e1"
    and e': "e' = emit_event (EvCancelled cid) (remove_call cid (release_call_port (call_port cid e) e1))"
    using assms by (auto simp: invite_cancelled_def drop_call_def Let_def)
  note f = stop_rtp_frame [OF e1]
  show "se_allocated_ports e' = se_allocated_ports e - set_option (call_port cid e)"
    by (simp add: e' emit_event_def remove_call_def release_call_frame f)
  show "cid' \<noteq> cid \<Longrightarrow> call_port cid' e' = call_port cid' e"
    using f(2) [of cid'] by (simp add: e' emit_event_def remove_call_def call_port_def release_call_frame)
qed


text \<open>A call that fails leaks its port. When the provider is known and making a call reports an error, all it has done is to
  allocate a port, which stays allocated.\<close>

theorem failed_call_leaks_port:
  assumes "make_call k env pa callee caller pid e = Some (e', Err x)" and "se_providers e pid = Some p"
  shows "case sip_allocate_rtp_port e of
      Some (e1, port) \<Rightarrow> e' = e1 \<and> port \<in> se_allocated_ports e' \<and> se_calls e' = se_calls e | None \<Rightarrow> False"
proof -
  obtain e1 port where e1: "sip_allocate_rtp_port e = Some (e1, port)"
    and pc: "place_call k env pa p pid callee caller e1 = (e', Err x)"
    using assms by (auto simp: make_call_def split: option.splits)
  have "e' = e1" using pc by (auto simp: place_call_def Let_def split: outcome.splits option.splits)
  moreover have "port \<in> se_allocated_ports e1" using e1 by (auto simp: sip_allocate_rtp_port_def Let_def split: option.splits)
  ultimately show ?thesis using e1 allocate_calls [OF e1] by simp
qed

section \<open>A hold that overlaps with hanging up\<close>

lemma hung_up_active:
  assumes "se_calls e cid = Some c" and "cl_state c \<in> {Active, Hold}" and "call_dialog c = Some d"
    and "hang_up env None cid e = (e', Ok ())"
  shows "\<exists>c'. se_calls e' cid = Some c' \<and> cl_state c' = Ended \<and> call_dialog c' = Some d \<and> se_sent e' = se_sent e @ [(d, SendBye)]"
proof -
  obtain e1 where e1: "stop_rtp (sn_crates env) (sn_bye_error env) cid e = Ok e1"
    and e': "e' = send_bye None c (upd_call cid clear_holds e1)"
    using assms(1,2,4) by (auto simp: hang_up_def pre_answer_def split: if_splits outcome.splits)
  have "\<exists>c1. se_calls e1 cid = Some c1 \<and> call_dialog c1 = call_dialog c" using e1 assms(1)
    by (auto simp: stop_rtp_def upd_call_def call_dialog_def split: option.splits outcome.splits)
  then obtain c1 where c1: "se_calls e1 cid = Some c1" "call_dialog c1 = Some d" using assms(3) by auto
  have "e' = hand_over d SendBye (upd_call cid clear_holds e1)"
    using assms(3) by (simp add: e' send_bye_def call_dialog_def)
  then show ?thesis using c1 stop_rtp_sent [OF e1]
    by (simp add: hand_over_def upd_call_def clear_holds_def call_dialog_def)
qed

lemma begun_reinvite:
  assumes "se_calls e cid = Some c" and "reinvite_begin cid sdp e = (e', Ok d)"
  shows "\<exists>c'. se_calls e' cid = Some c' \<and> cl_state c' = cl_state c \<and> call_dialog c' = Some d"
  using assms by (auto simp: reinvite_begin_def Let_def hand_over_def upd_call_def call_dialog_def split: option.splits if_splits)

text \<open>A hold revives an ended call. When a call is hung up while the re-INVITE of a hold is under way, the hold marks the
  ended call as held once the re-INVITE returns, and hanging up again sends a second BYE on its dialog.\<close>

theorem hold_revives_ended_call:
  assumes "se_calls e cid = Some c" and "cl_state c = Active" and "reinvite_begin cid sdp e = (e1, Ok d)"
    and "hang_up env None cid e1 = (e2, Ok ())" and "hang_up env2 None cid (hold_confirm cid (reinvite_end cid e2)) = (e3, Ok ())"
  shows "map_option cl_state (se_calls e2 cid) = Some Ended
    \<and> map_option cl_state (se_calls (hold_confirm cid (reinvite_end cid e2)) cid) = Some Hold
    \<and> se_sent e3 = se_sent e1 @ [(d, SendBye), (d, SendBye)]"
proof -
  obtain c1 where c1: "se_calls e1 cid = Some c1" "cl_state c1 = Active" "call_dialog c1 = Some d"
    using begun_reinvite [OF assms(1,3)] assms(2) by auto
  obtain c2 where c2: "se_calls e2 cid = Some c2" "cl_state c2 = Ended" "call_dialog c2 = Some d"
    "se_sent e2 = se_sent e1 @ [(d, SendBye)]"
    using hung_up_active [OF c1(1) _ c1(3) assms(4)] c1(2) by auto
  let ?e = "hold_confirm cid (reinvite_end cid e2)"
  let ?c = "c2\<lparr>cl_reinvite_pending := False, cl_local_hold := True, cl_state := Hold\<rparr>"
  have c: "se_calls ?e cid = Some ?c" "se_sent ?e = se_sent e2"
    using c2(1) by (simp_all add: hold_confirm_def reinvite_end_def upd_call_def)
  have d: "call_dialog ?c = Some d" using c2(3) by (simp add: call_dialog_def)
  have "se_sent e3 = se_sent ?e @ [(d, SendBye)]" using hung_up_active [OF c(1) _ d assms(5)] by auto
  then show ?thesis using c c2 by simp
qed

section \<open>The rate limit\<close>

text \<open>The answers to requests that arrive at the given instants.\<close>

fun rate_run :: "nat list \<Rightarrow> sip_engine \<Rightarrow> bool list" where
  "rate_run [] e = []"
| "rate_run (t # ts) e = (let (e', b) = check_rate_limit t e in b # rate_run ts e')"

definition admitted_between :: "nat \<Rightarrow> nat list \<Rightarrow> bool list \<Rightarrow> nat" where
  "admitted_between s ts bs = length (filter (\<lambda>(t, b). b \<and> s \<le> t \<and> t < s + one_second) (zip ts bs))"

text \<open>What the timestamps of the engine are after the requests before: sorted, and every request that was admitted in the last
  second is among them.\<close>

lemma rate_step:
  assumes "sc_max_requests_per_second (se_config e) \<noteq> 0" and "check_rate_limit t e = (e', b)"
  shows "se_config e' = se_config e"
    "se_request_timestamps e' = filter (\<lambda>x. t - x < one_second) (se_request_timestamps e) @ (if b then [t] else [])"
    "b \<longleftrightarrow> length (filter (\<lambda>x. t - x < one_second) (se_request_timestamps e)) < unat (sc_max_requests_per_second (se_config e))"
  using assms by (auto simp: check_rate_limit_def Let_def split: if_splits)

definition in_second :: "nat \<Rightarrow> nat \<Rightarrow> bool" where "in_second s t \<longleftrightarrow> s \<le> t \<and> t < s + one_second"

lemma admitted_Cons:
  "admitted_between s (t # ts) (b # bs) = (if b \<and> in_second s t then 1 else 0) + admitted_between s ts bs"
  by (simp add: admitted_between_def in_second_def)

lemma admitted_late: "s + one_second \<le> t \<Longrightarrow> sorted (t # ts) \<Longrightarrow> admitted_between s ts bs = 0"
  by (force simp: admitted_between_def filter_empty_conv dest: set_zip_leftD)

lemma recent_in_second: "in_second s t \<Longrightarrow> \<forall>x \<in> set xs. x \<le> t \<Longrightarrow>
  filter (in_second s) (filter (\<lambda>x. t - x < one_second) xs) = filter (in_second s) xs"
  by (auto simp: in_second_def intro!: filter_cong)

lemma recent_fewer: "length (filter (in_second s) (filter P xs)) \<le> length (filter (in_second s) xs)"
  by (induction xs) simp_all

lemma rate_run_bound:
  assumes "sc_max_requests_per_second (se_config e) \<noteq> 0" and "sorted (se_request_timestamps e @ ts)"
    and "length (filter (in_second s) (se_request_timestamps e)) \<le> unat (sc_max_requests_per_second (se_config e))"
  shows "length (filter (in_second s) (se_request_timestamps e)) + admitted_between s ts (rate_run ts e)
    \<le> unat (sc_max_requests_per_second (se_config e))"
  using assms
proof (induction ts arbitrary: e)
  case (Cons t ts)
  let ?xs = "se_request_timestamps e" and ?n = "unat (sc_max_requests_per_second (se_config e))"
  let ?recent = "filter (\<lambda>x. t - x < one_second) ?xs"
  obtain e' b where c: "check_rate_limit t e = (e', b)" by fastforce
  note st = rate_step [OF Cons.prems(1) c]
  have le: "\<forall>x \<in> set ?xs. x \<le> t" and ts: "sorted (t # ts)" using Cons.prems(2) by (auto simp: sorted_append)
  have sorted': "sorted (se_request_timestamps e' @ ts)"
    using Cons.prems(2) by (auto simp: st(2) sorted_append sorted_wrt_filter)
  have some: "length (filter (in_second s) (se_request_timestamps e')) \<le> ?n"
  proof (cases "b \<and> in_second s t")
    case True
    have "length (filter (in_second s) ?recent) \<le> length ?recent" by (rule length_filter_le)
    also have "\<dots> < ?n" using True st(3) by blast
    finally show ?thesis using True by (simp add: st(2))
  next
    case False
    then have "length (filter (in_second s) (se_request_timestamps e')) = length (filter (in_second s) ?recent)"
      by (simp add: st(2))
    then show ?thesis using recent_fewer [of s "\<lambda>x. t - x < one_second" ?xs] Cons.prems(3) by linarith
  qed
  have ih: "length (filter (in_second s) (se_request_timestamps e')) + admitted_between s ts (rate_run ts e') \<le> ?n"
    using Cons.IH [of e'] Cons.prems(1) st(1) sorted' some by simp
  have split: "admitted_between s (t # ts) (rate_run (t # ts) e)
      = (if b \<and> in_second s t then 1 else 0) + admitted_between s ts (rate_run ts e')"
    by (simp add: c admitted_Cons)
  consider "in_second s t" | "t < s" | "s + one_second \<le> t" unfolding in_second_def by linarith
  then show ?case
  proof cases
    case 1
    have "filter (in_second s) (se_request_timestamps e') = filter (in_second s) ?xs @ (if b then [t] else [])"
      unfolding st(2) filter_append recent_in_second [OF 1 le] using 1 by simp
    with ih split 1 show ?thesis by (cases b) simp_all
  next
    case 2
    then have "filter (in_second s) ?xs = []" using le by (force simp: filter_empty_conv in_second_def)
    moreover have "\<not> in_second s t" using 2 by (simp add: in_second_def)
    ultimately show ?thesis using ih split by simp
  next
    case 3
    then have "\<not> in_second s t" by (simp add: in_second_def)
    then show ?thesis using split admitted_late [OF 3 ts, of "rate_run ts e'"] Cons.prems(3) by simp
  qed
qed (simp add: admitted_between_def)

text \<open>C36: The rate limit bounds the load: of requests that arrive in order, at most the configured number is admitted in
  any one second.\<close>

theorem admitted_rate_bounded:
  assumes "sc_max_requests_per_second cfg \<noteq> 0" and "sorted ts"
  shows "admitted_between s ts (rate_run ts (sip_engine_new cfg)) \<le> unat (sc_max_requests_per_second cfg)"
  using rate_run_bound [of "sip_engine_new cfg" ts s] assms by (simp add: sip_engine_new_def)

section \<open>The listener\<close>

text \<open>One INVITE can end the listener: when an INVITE with this four-byte description is admitted and its port and socket are
  there, the parser panics, and the engine takes no further transaction.\<close>

theorem wide_character_stops_listener:
  assumes "se_listening e" and "\<not> duplicate_invite iv e" and "admit_invite (en_now env) iv e = (e1, None)"
    and "sip_allocate_rtp_port e1 = Some (e2, port)" and "en_bind env = Ok addr"
    and "iv_body iv = [CHR 0xE2, CHR 0x82, CHR 0xAC, CHR ''='']"
  shows "\<exists>e3 replies. on_transaction order (InviteTransaction iv env dialog) e = Some (e3, replies) \<and> \<not> se_listening e3
    \<and> on_transaction order' later e3 = Some (e3, [])"
proof -
  have body: "body_text (iv_body iv) = Some (iv_body iv)"
    unfolding assms(6) by (simp add: body_text_def) code_simp
  have "open_rtp env \<noteq> Panic" "\<exists>r. open_rtp env = Ok r" using assms(5)
    by (simp_all add: open_rtp_def engine_new_def engine_config_default_def Let_def)
  then have "set_up_invite env dialog iv port e2 = Panic"
    using body wide_character_panics [of "en_remote_sdp env"] by (auto simp: set_up_invite_def assms(6) Let_def)
  then have "handle_incoming_invite env dialog iv e = Some Panic"
    using assms(2-4) by (simp add: handle_incoming_invite_def)
  then show ?thesis using assms(1) by (simp add: on_transaction_def)
qed

end
