(* ===== verification/Sip_Engine_Peer.thy ===== *)
theory Sip_Engine_Peer
  imports Sip_Engine_Runs Sip_Sdp_Props
begin

text \<open>
  What an engine sends within a call and what the engine of the peer makes of it: a digit sent by INFO, and a
  call put on hold and resumed by re-INVITE.
\<close>

section \<open>Descriptions are ASCII\<close>

abbreviation ascii :: "string \<Rightarrow> bool" where "ascii s \<equiv> list_all (\<lambda>c. of_char c < (128 :: nat)) s"

lemma ascii_body_text: "ascii s \<Longrightarrow> s \<noteq> [] \<Longrightarrow> body_text s = Some s"
proof -
  assume a: "ascii s" and n: "s \<noteq> []"
  from a have "list_all (\<lambda>b. b < 0x80) (map (\<lambda>x. of_nat (of_char x) :: byte) s)"
    by (auto simp: list_all_iff word_less_nat_alt unat_of_nat)
  from utf8_valid_ascii [OF this] n show ?thesis by (simp add: body_text_def)
qed

lemma ascii_show_nat [simp]: "ascii (show_nat n)"
  using show_nat_digits [of n] by (auto simp: list_all_iff is_digit_def Let_def)

lemma ascii_show_hex [simp]: "ascii (show_hex n)"
  using show_hex_hex [of n] by (auto simp: list_all_iff is_hex_def is_digit_def Let_def)

lemma ascii_join: "ascii d \<Longrightarrow> list_all ascii ss \<Longrightarrow> ascii (join_with d ss)"
  by (induction d ss rule: join_with.induct) auto

lemma ascii_show_ip [simp]: "ascii (show_ip ip)"
proof -
  have four: "ascii (show_ip4 a)" for a unfolding show_ip4_def octets_def by (rule ascii_join) simp_all
  have groups: "ascii (show_groups gs)" for gs unfolding show_groups_def by (rule ascii_join) (simp_all add: list.pred_map list.pred_True o_def)
  show ?thesis by (cases ip) (simp_all add: four show_ip6_def groups Let_def split: prod.split)
qed

lemma offer_text: "body_text (build_offer random r (direction_str dir)) = Some (build_offer random r (direction_str dir))"
proof (rule ascii_body_text)
  have t: "ascii (show_u8 w)" "ascii (addr_type_of ip)" for w ip by (simp_all add: show_u8_def addr_type_of_def)
  have n: "ascii (sdp_name c)" for c by (cases c) simp_all
  have d: "ascii (direction_str dir)" by (cases dir) simp_all
  have "list_all ascii (sdp_text_lines (fst (sdp_build (with_direction (direction_str dir)
      (with_codecs [Pcmu, Pcma] (sdp_builder_new random (sock_ip (re_local_addr r)) (sock_port (re_local_addr r))))))))"
    by (simp add: sdp_text_lines_def sdp_build_def with_direction_def with_codecs_def sdp_builder_new_def origin_default_def
        ascii_join t n d Let_def)
  then show "ascii (build_offer random r (direction_str dir))"
    unfolding build_offer_def sdp_build_snd by (auto simp: list_all_iff crlf_def)
  show "build_offer random r (direction_str dir) \<noteq> []" unfolding build_offer_def sdp_build_snd by (simp add: crlf_def sdp_text_lines_def Let_def)
qed

section \<open>A digit by INFO\<close>

lemma lines_two:
  assumes "list_all (\<lambda>c. c \<noteq> CHR 0x0A) a" and "list_all (\<lambda>c. c \<noteq> CHR 0x0A) b" and "b \<noteq> []"
  shows "lines (a @ crlf @ b) = [a, b]"
proof -
  have "split_on (CHR 0x0A) ((a @ [CHR 0x0D]) @ CHR 0x0A # b) = (a @ [CHR 0x0D]) # split_on (CHR 0x0A) b"
    unfolding split_on_def by (rule split_by_append) (use assms(1) in \<open>simp_all\<close>)
  also have "split_on (CHR 0x0A) b = [b]" unfolding split_on_def by (rule split_by_no_sep) (use assms(2) in simp)
  finally have "split_on (CHR 0x0A) (a @ crlf @ b) = [a @ [CHR 0x0D], b]" by (simp add: crlf_def)
  then show ?thesis using assms(3) by (simp add: lines_def strip_cr_def)
qed

lemma trim_crlf:
  assumes "\<not> is_ws c" and "\<not> is_ws (last (c # v))"
  shows "trim ((c # v) @ crlf) = c # v"
proof -
  obtain ys y where e: "c # v = ys @ [y]" by (metis rev_exhaust list.distinct(1))
  with assms(2) have "\<not> is_ws y" by simp
  moreover have "dropWhile is_ws ((c # v) @ crlf) = (c # v) @ crlf" using assms(1) by simp
  moreover have "is_ws (CHR 0x0A)" "is_ws (CHR 0x0D)" by (simp_all add: is_ws_def)
  ultimately show ?thesis unfolding trim_def by (simp add: e crlf_def)
qed

lemma relay_digit_cases:
  assumes "is_dtmf_char c"
  obtains "to_upper c = c" and "is_digit c" | "to_upper c \<in> {CHR ''*'', CHR ''#'', CHR ''A'', CHR ''B'', CHR ''C'', CHR ''D''}"
proof -
  have "to_upper c = c" if "is_digit c" using that by (simp add: to_upper_def is_digit_def Let_def)
  moreover have "to_upper (CHR ''*'') = CHR ''*''" "to_upper (CHR ''#'') = CHR ''#''" by (simp_all add: to_upper_def)
  ultimately show thesis using assms that by (auto simp: is_dtmf_char_def)
qed

lemma relay_digit_facts:
  assumes "is_dtmf_char c"
  shows "is_dtmf_char (to_upper c)" "\<not> is_ws (to_upper c)" "to_upper c \<noteq> CHR 0x0A" "to_upper (to_upper c) = to_upper c"
    "of_char (to_upper c) < (128 :: nat)"
proof -
  have "is_dtmf_char (to_upper c) \<and> \<not> is_ws (to_upper c) \<and> to_upper c \<noteq> CHR 0x0A \<and> to_upper (to_upper c) = to_upper c
      \<and> of_char (to_upper c) < (128 :: nat)"
    using assms
  proof (cases rule: relay_digit_cases)
    case 1
    then have n: "48 \<le> (of_char c :: nat)" "(of_char c :: nat) \<le> 57" by (simp_all add: is_digit_def Let_def)
    then have "c \<noteq> CHR 0x0A" by auto
    with 1 n show ?thesis by (simp add: is_dtmf_char_def is_ws_def Let_def)
  next
    case 2
    then show ?thesis by (auto simp: is_dtmf_char_def is_ws_def to_upper_def)
  qed
  then show "is_dtmf_char (to_upper c)" "\<not> is_ws (to_upper c)" "to_upper c \<noteq> CHR 0x0A" "to_upper (to_upper c) = to_upper c"
    "of_char (to_upper c) < (128 :: nat)"
    by blast+
qed

lemma lower_names: "to_lowercase ''Signal= '' = ''signal= ''" "to_lowercase ''Duration= '' = ''duration= ''"
  by code_simp+

lemma lower_append: "to_lowercase (a @ b) = to_lowercase a @ to_lowercase b" by (simp add: to_lowercase_def)

lemma relay_signal:
  assumes "is_dtmf_char c"
  shows "relay_line (''Signal= '' @ [to_upper c]) st = (Some (to_upper c), snd st)"
proof -
  note f = relay_digit_facts [OF assms]
  have t: "trim (''Signal= '' @ [to_upper c]) = ''Signal= '' @ [to_upper c]"
    using trim_ends [of "CHR ''S''" "''ignal= '' @ [to_upper c]"] f(2) by (simp add: is_ws_def)
  have v: "trim ('' '' @ [to_upper c]) = [to_upper c]" using f(2) by (simp add: trim_def is_ws_def)
  have l: "starts_with ''signal'' (to_lowercase (''Signal= '' @ [to_upper c]))"
    unfolding lower_append lower_names by (simp add: starts_with_def)
  have s: "split_once (CHR ''='') (''Signal= '' @ [to_upper c]) = Some (''Signal'', '' '' @ [to_upper c])" by simp
  show ?thesis unfolding relay_line_def Let_def t using l s v f by (simp split: prod.split)
qed

lemma clamp_again: "clamp_duration (clamp_duration d) = clamp_duration d"
  by (simp add: clamp_duration_def min_def max_def word_le_nat_alt)

lemma relay_duration: "relay_line (''Duration= '' @ show_nat (unat (clamp_duration d))) st = (fst st, clamp_duration d)"
proof -
  let ?n = "show_nat (unat (clamp_duration d))"
  have n: "list_all (\<lambda>c. \<not> is_ws c) ?n" "?n \<noteq> []" by (rule show_nat_not_ws) simp
  have last: "\<not> is_ws (last ?n)" using n by (metis last_in_set list_all_iff)
  have t: "trim (''Duration= '' @ ?n) = ''Duration= '' @ ?n"
    using trim_ends [of "CHR ''D''" "''uration= '' @ ?n"] last n(2) by (simp add: is_ws_def)
  have "trim (CHR '' '' # ?n) = trim ?n" by (simp add: trim_def is_ws_def)
  then have v: "trim ('' '' @ ?n) = ?n" using trim_id [OF n(1)] by simp
  have l: "starts_with ''duration'' (to_lowercase (''Duration= '' @ ?n))"
    "\<not> starts_with ''signal'' (to_lowercase (''Duration= '' @ ?n))"
    unfolding lower_append lower_names by (simp_all add: starts_with_def)
  have s: "split_once (CHR ''='') (''Duration= '' @ ?n) = Some (''Duration'', '' '' @ ?n)" by simp
  show ?thesis unfolding relay_line_def Let_def t using l s v parse_u32_show [of "clamp_duration d"]
    by (simp add: clamp_again split: prod.split)
qed

lemma relay_roundtrip:
  assumes "is_dtmf_char c"
  shows "parse_dtmf_relay (dtmf_info_body c d) = Some (to_upper c, clamp_duration d)"
proof -
  let ?n = "show_nat (unat (clamp_duration d))"
  let ?a = "''Signal= '' @ [to_upper c]" and ?b = "''Duration= '' @ ?n"
  have n: "list_all (\<lambda>c. \<not> is_ws c) ?n" "?n \<noteq> []" by (rule show_nat_not_ws) simp
  have last: "\<not> is_ws (last ?n)" using n by (metis last_in_set list_all_iff)
  have "is_ws (CHR 0x0A)" by (simp add: is_ws_def)
  then have lf: "list_all (\<lambda>c. c \<noteq> CHR 0x0A) ?n" using n(1) by (auto simp: list_all_iff)
  have body: "dtmf_info_body c d = (?a @ crlf @ ?b) @ crlf" by (simp add: dtmf_info_body_def)
  have "trim ((CHR ''S'' # ''ignal= '' @ [to_upper c] @ crlf @ ?b) @ crlf) = CHR ''S'' # ''ignal= '' @ [to_upper c] @ crlf @ ?b"
    by (rule trim_crlf) (use last n(2) in \<open>simp_all add: is_ws_def\<close>)
  then have t: "trim (dtmf_info_body c d) = ?a @ crlf @ ?b" by (simp add: body)
  have ls: "lines (?a @ crlf @ ?b) = [?a, ?b]" by (rule lines_two) (use relay_digit_facts(3) [OF assms] lf in simp_all)
  have "fold relay_line [?a, ?b] (None, 250) = (Some (to_upper c), clamp_duration d)"
    unfolding fold_Cons fold_Nil o_def id_def relay_signal [OF assms] relay_duration by simp
  moreover have "parse_dtmf_relay (dtmf_info_body c d)
      = (let (digit, dur) = fold relay_line (lines (?a @ crlf @ ?b)) (None, 250) in map_option (\<lambda>c. (c, dur)) digit)"
    unfolding parse_dtmf_relay_def t Let_def by simp
  ultimately show ?thesis unfolding ls by simp
qed

lemma relay_body_text:
  assumes "is_dtmf_char c"
  shows "body_text (dtmf_info_body c d) = Some (dtmf_info_body c d)"
proof -
  have "ascii (dtmf_info_body c d)"
    unfolding dtmf_info_body_def crlf_def using relay_digit_facts(5) [OF assms] by simp
  then show ?thesis by (rule ascii_body_text) (simp add: dtmf_info_body_def)
qed

text \<open>C10: A digit sent by INFO reaches the peer: unless it is a pause, the sender hands its dialog one INFO, and the engine that
  receives it reports exactly that digit, in upper case, with the duration clamped to 100 to 5000 ms.\<close>

theorem dtmf_info_reaches_peer:
  assumes "send_dtmf_info None cid digit dur e = (e', Ok ())" and "\<not> valid_pause digit"
  shows "\<exists>d hs body. se_sent e' = se_sent e @ [(d, SendInfo hs body)]
    \<and> on_info peer_cid \<lparr>ms_status = status, ms_headers = hs, ms_body = body\<rparr> peer
      = emit_event (EvDtmfReceived peer_cid (to_upper digit) (clamp_duration dur)) peer"
proof -
  obtain d where digit: "is_dtmf_char digit"
    and e': "e' = hand_over d (SendInfo [HContentType ''application/dtmf-relay''] (dtmf_info_body digit dur)) e"
    using assms by (auto simp: send_dtmf_info_def split: if_splits option.splits)
  have ct: "list_ex (\<lambda>v. contains_str ''dtmf'' (to_lowercase v)) (header_values content_type_value [HContentType ''application/dtmf-relay''])"
    by code_simp
  have "on_info peer_cid \<lparr>ms_status = status, ms_headers = [HContentType ''application/dtmf-relay''],
      ms_body = dtmf_info_body digit dur\<rparr> peer = emit_event (EvDtmfReceived peer_cid (to_upper digit) (clamp_duration dur)) peer"
    unfolding on_info_def using ct by (simp add: relay_body_text [OF digit] relay_roundtrip [OF digit])
  then show ?thesis by (intro exI [of _ d] exI) (simp add: e' hand_over_def)
qed

section \<open>Hold and resume\<close>

lemma offer_directions:
  "sdp_parse rnd (build_offer random r (direction_str dir)) = Ok (sdp_of (fst (sdp_build (with_direction (direction_str dir)
     (with_codecs [Pcmu, Pcma] (sdp_builder_new random (sock_ip (re_local_addr r)) (sock_port (re_local_addr r))))))) dir)"
  unfolding build_offer_def by (rule parse_build) (rule sdp_builder_new_ok)

lemma offer_held:
  assumes "sock_port (re_local_addr r) \<noteq> 0" and "\<not> is_unspecified (sock_ip (re_local_addr r))"
    and "sdp_parse rnd (build_offer random r (direction_str dir)) = Ok d"
  shows "is_on_hold d \<longleftrightarrow> dir = SendOnly \<or> dir = Inactive"
  using assms(3) unfolding offer_directions using assms(1,2)
  by (auto simp: built_queries(5) sdp_build_def with_direction_def with_codecs_def sdp_builder_new_def Let_def)

lemma take_reinvite_hold:
  "cl_local_hold (take_reinvite d c) = cl_local_hold c" "cl_remote_hold (take_reinvite d c) = is_on_hold d"
  "cl_state (take_reinvite d c) = (if is_on_hold d \<and> cl_state c = Active then Hold
     else if \<not> is_on_hold d \<and> \<not> cl_local_hold c \<and> cl_state c = Hold then Active else cl_state c)"
proof -
  let ?c = "apply_media_target d c"
  have f: "cl_local_hold ?c = cl_local_hold c" "cl_state ?c = cl_state c"
    by (simp_all add: apply_media_target_def split: option.split)
  show "cl_local_hold (take_reinvite d c) = cl_local_hold c" "cl_remote_hold (take_reinvite d c) = is_on_hold d"
    "cl_state (take_reinvite d c) = (if is_on_hold d \<and> cl_state c = Active then Hold
       else if \<not> is_on_hold d \<and> \<not> cl_local_hold c \<and> cl_state c = Hold then Active else cl_state c)"
    unfolding take_reinvite_def update_from_remote_sdp_def update_dtmf_from_sdp_def Let_def using f
    by (simp_all split: option.split)
qed

lemma updated_call:
  assumes "se_calls p pid = Some c" and "body_text (ms_body m) = Some t" and "sdp_parse (sn_random env) t = Ok d"
    and "on_updated env pid m p = Ok p'"
  shows "\<exists>c'. se_calls p' pid = Some c' \<and> cl_local_hold c' = cl_local_hold c \<and> cl_remote_hold c' = is_on_hold d
    \<and> cl_state c' = (if is_on_hold d \<and> cl_state c = Active then Hold
        else if \<not> is_on_hold d \<and> \<not> cl_local_hold c \<and> cl_state c = Hold then Active else cl_state c)"
proof -
  have "se_calls p' pid = Some (refresh_call_timer (sn_now env) (take_reinvite d (c\<lparr>cl_remote_sdp := Some t\<rparr>)))"
    using assms by (auto simp: on_updated_def Let_def upd_call_def emit_event_def)
  then show ?thesis by (simp add: refresh_call_timer_def take_reinvite_hold)
qed

definition reinvite_with :: "string option \<Rightarrow> dialog_request" where
  "reinvite_with sdp = SendReinvite (if sdp \<noteq> None then [HContentType ''application/sdp''] else []) sdp"

lemma reinvite_internal_sent:
  assumes "send_reinvite_internal reply cid sdp e = (e', r)"
  shows "\<exists>xs. se_sent e' = se_sent e @ xs \<and> (r = Ok () \<longrightarrow> (\<exists>d. xs = [(d, reinvite_with sdp)]))"
    and "se_calls e' cid = None \<longleftrightarrow> se_calls e cid = None"
  using assms
  by (auto simp: send_reinvite_internal_def reinvite_begin_def reinvite_end_def reinvite_with_def Let_def upd_call_def hand_over_def
      split: option.splits if_splits)

lemma reinvite_attempts_sent:
  "reinvite_attempts n replies cid sdp e = (e', Ok ()) \<Longrightarrow> (\<exists>d xs. se_sent e' = se_sent e @ xs @ [(d, reinvite_with sdp)])
    \<and> (se_calls e' cid = None \<longleftrightarrow> se_calls e cid = None)"
proof (induction n arbitrary: replies e)
  case 0
  then have "send_reinvite_internal (replies 0) cid sdp e = (e', Ok ())" by simp
  from reinvite_internal_sent [OF this] show ?case by (metis append_Nil)
next
  case (Suc n)
  obtain e1 r where e1: "send_reinvite_internal (replies 0) cid sdp e = (e1, r)" by fastforce
  obtain xs where xs: "se_sent e1 = se_sent e @ xs" "r = Ok () \<longrightarrow> (\<exists>d. xs = [(d, reinvite_with sdp)])"
    using reinvite_internal_sent(1) [OF e1] by (elim exE conjE)
  note dom = reinvite_internal_sent(2) [OF e1]
  show ?case
  proof (cases r)
    case (Err x)
    then have again: "reinvite_attempts n (\<lambda>i. replies (i + 1)) cid sdp e1 = (e', Ok ())"
      using Suc.prems e1 by (simp split: if_splits)
    from Suc.IH [OF again] obtain d ys where "se_sent e' = se_sent e @ (xs @ ys) @ [(d, reinvite_with sdp)]"
      "se_calls e' cid = None \<longleftrightarrow> se_calls e cid = None" using xs(1) dom by auto
    then show ?thesis by (intro conjI exI)
  next
    case (Ok u)
    then have "e' = e1" using Suc.prems e1 by simp
    moreover obtain d where "xs = [(d, reinvite_with sdp)]" using xs(2) Ok by auto
    ultimately have "se_sent e' = se_sent e @ [] @ [(d, reinvite_with sdp)]" using xs(1) by simp
    then have "\<exists>d xs. se_sent e' = se_sent e @ xs @ [(d, reinvite_with sdp)]" by (intro exI)
    then show ?thesis using dom \<open>e' = e1\<close> by simp
  qed (use Suc.prems e1 in simp)
qed

text \<open>A re-INVITE that succeeds leaves the call as it was, but for its version and its pending flag.\<close>

lemma reinvite_succeeded:
  assumes "send_reinvite replies cid sdp e = (e', Ok ())" and "se_calls e cid = Some c"
  shows "(\<exists>v b. se_calls e' cid = Some (c\<lparr>cl_sdp_session_version := v, cl_reinvite_pending := b\<rparr>))
    \<and> (\<exists>d. (d, reinvite_with sdp) \<in> set (se_sent e'))"
proof -
  have a: "reinvite_attempts (unat (3 :: u32)) replies cid sdp e = (e', Ok ())"
    using assms by (simp add: send_reinvite_def send_reinvite_with_retry_def)
  note s = reinvite_attempts_sent [OF a]
  obtain c' where c': "se_calls e' cid = Some c'" using s assms(2) by fastforce
  have "reinvite_frame cid e e'" using reinvite_attempts_frame [OF a] by blast
  then obtain v b where "c' = c\<lparr>cl_sdp_session_version := v, cl_reinvite_pending := b\<rparr>"
    using c' assms(2) by (auto simp: reinvite_frame_def)
  with c' have "\<exists>v b. se_calls e' cid = Some (c\<lparr>cl_sdp_session_version := v, cl_reinvite_pending := b\<rparr>)" by blast
  moreover have "\<exists>d. (d, reinvite_with sdp) \<in> set (se_sent e')" using s by auto
  ultimately show ?thesis ..
qed

lemma held_call:
  assumes "hold_call random replies cid e = (e', Ok ())" and "se_calls e cid = Some c" and "\<not> call_on_hold c" and "cl_rtp_engine c = Some r"
  shows "\<exists>c'. se_calls e' cid = Some c' \<and> cl_local_hold c' \<and> \<not> cl_remote_hold c' \<and> cl_state c' = Hold \<and> cl_rtp_engine c' = Some r
    \<and> (\<exists>d. (d, reinvite_with (Some (build_offer random r (direction_str SendOnly)))) \<in> set (se_sent e'))"
proof -
  have nh: "\<not> cl_local_hold c" "\<not> cl_remote_hold c" using assms(3) by (simp_all add: call_on_hold_def)
  obtain e1 where e1: "send_reinvite replies cid (Some (build_offer random r ''sendonly'')) e = (e1, Ok ())"
    and e': "e' = hold_confirm cid e1"
    using assms(1,2,4) nh by (auto simp: hold_call_def offer_and_confirm_def hold_offer_def split: prod.splits outcome.splits)
  obtain v b d where "se_calls e1 cid = Some (c\<lparr>cl_sdp_session_version := v, cl_reinvite_pending := b\<rparr>)"
    "(d, reinvite_with (Some (build_offer random r (direction_str SendOnly)))) \<in> set (se_sent e1)"
    using reinvite_succeeded [OF e1 assms(2)] by auto
  then show ?thesis using nh assms(4) by (auto simp: e' hold_confirm_def upd_call_def)
qed

lemma resumed_call:
  assumes "unhold_call random replies cid e = (e', Ok ())" and "se_calls e cid = Some c" and "cl_local_hold c" "\<not> cl_remote_hold c"
    and "cl_rtp_engine c = Some r"
  shows "\<exists>c'. se_calls e' cid = Some c' \<and> \<not> call_on_hold c' \<and> cl_state c' = Active
    \<and> (\<exists>d. (d, reinvite_with (Some (build_offer random r (direction_str SendRecv)))) \<in> set (se_sent e'))"
proof -
  obtain e1 where e1: "send_reinvite replies cid (Some (build_offer random r ''sendrecv'')) e = (e1, Ok ())"
    and e': "e' = unhold_confirm cid e1"
    using assms by (auto simp: unhold_call_def offer_and_confirm_def unhold_offer_def split: prod.splits outcome.splits)
  obtain v b d where "se_calls e1 cid = Some (c\<lparr>cl_sdp_session_version := v, cl_reinvite_pending := b\<rparr>)"
    "(d, reinvite_with (Some (build_offer random r (direction_str SendRecv)))) \<in> set (se_sent e1)"
    using reinvite_succeeded [OF e1 assms(2)] by auto
  then show ?thesis using assms(4) by (auto simp: e' unhold_confirm_def upd_call_def call_on_hold_def)
qed


end
