(* ===== verification/Sip_Engine_Register.thy ===== *)
theory Sip_Engine_Register
  imports Sip_Engine_Calls
begin

text \<open>
  Registration with the providers: registering, with the retry after 423 (Interval Too Brief), the refresh task
  and unregistering. The replies of the SIP stack are arguments; \<open>rr_expires\<close> is the expiry the
  registration object has after a reply.
\<close>

datatype reg_reply =
    RegReply (rr_status: u16) (rr_display: string) (rr_min_expires: "u32 option") (rr_expires: u32)
  | RegError string

definition set_registration :: "string \<Rightarrow> registration_state \<Rightarrow> sip_engine \<Rightarrow> sip_engine" where
  "set_registration pid s e = e\<lparr>se_registration_states := (se_registration_states e)(pid \<mapsto> s)\<rparr>"

definition registration_failed :: "string \<Rightarrow> string \<Rightarrow> sip_engine \<Rightarrow> sip_engine" where
  "registration_failed pid msg e =
     emit_event (EvRegistrationChanged ''failed'' (Some msg)) (set_registration pid (RegistrationFailed msg) e)"

definition unknown_provider :: "string \<Rightarrow> rtpsip_error" where
  "unknown_provider pid = Provider (''Unknown provider: '' @ pid)"

definition invalid_registrar :: "string \<Rightarrow> rtpsip_error" where
  "invalid_registrar x = Sip (''Invalid registrar URI: '' @ x)"

definition registrar_uri :: "provider_credentials \<Rightarrow> string" where "registrar_uri p = ''sip:'' @ pc_sip_server p"

section \<open>Registering\<close>

definition spawn_refresh_task :: "string \<Rightarrow> u32 \<Rightarrow> sip_engine \<Rightarrow> sip_engine" where
  "spawn_refresh_task pid expiry e =
     (if expiry > 0
      then e\<lparr>se_refresh_handles := (se_refresh_handles e)(pid \<mapsto> \<lparr>rf_interval = unat expiry div 2, rf_running = True\<rparr>)\<rparr>
      else e)"

definition registered :: "string \<Rightarrow> u32 \<Rightarrow> sip_engine \<Rightarrow> sip_engine" where
  "registered pid expiry e =
     (let e1 = set_registration pid Registered (e\<lparr>se_registration_expiries := (se_registration_expiries e)(pid \<mapsto> expiry)\<rparr>);
          e2 = e1\<lparr>se_registrations := insert pid (se_registrations e1)\<rparr>
      in spawn_refresh_task pid expiry (emit_event (EvRegistrationChanged ''registered'' None) e2))"

definition fail_with :: "string \<Rightarrow> string \<Rightarrow> sip_engine \<Rightarrow> sip_engine \<times> unit res" where
  "fail_with pid msg e = (registration_failed pid msg e, Err (Sip msg))"

definition too_brief :: "string" where
  "too_brief = ''423 Interval Too Brief without Min-Expires header''"

definition register_retry :: "string \<Rightarrow> reg_reply \<Rightarrow> sip_engine \<Rightarrow> sip_engine \<times> unit res" where
  "register_retry pid retry e =
     (case retry of
        RegReply status display min_expires expires \<Rightarrow>
          if status = 200 then (registered pid expires e, Ok ())
          else fail_with pid (''Registration retry after 423 failed with status: '' @ display) e
      | RegError x \<Rightarrow> fail_with pid (''Registration retry after 423 failed: '' @ x) e)"

definition register_reply :: "string \<Rightarrow> reg_reply \<Rightarrow> reg_reply \<Rightarrow> sip_engine \<Rightarrow> sip_engine \<times> unit res" where
  "register_reply pid reply retry e =
     (case reply of
        RegReply status display min_expires expires \<Rightarrow>
          if status = 423 then
            (case min_expires of
               Some _ \<Rightarrow> register_retry pid retry e
             | None \<Rightarrow> fail_with pid (''Registration failed: '' @ too_brief) e)
          else if status \<noteq> 200 then fail_with pid (''Registration failed with status: '' @ display) e
          else (registered pid expires e, Ok ())
      | RegError x \<Rightarrow> fail_with pid (''Registration failed: '' @ x) e)"

definition register_begin :: "string \<Rightarrow> sip_engine \<Rightarrow> sip_engine" where
  "register_begin pid e =
     emit_event (EvRegistrationChanged ''registering'' None)
       (set_registration pid Registering (e\<lparr>se_refresh_handles := (se_refresh_handles e)(pid := None)\<rparr>))"

definition register_provider :: "sip_crates \<Rightarrow> reg_reply \<Rightarrow> reg_reply \<Rightarrow> string \<Rightarrow> sip_engine \<Rightarrow> sip_engine \<times> unit res" where
  "register_provider k reply retry pid e =
     (case se_providers e pid of
        None \<Rightarrow> (e, Err (unknown_provider pid))
      | Some p \<Rightarrow>
          if \<not> pc_register p then (e, Ok ())
          else
            (let e1 = register_begin pid e
             in case sk_uri_error k (registrar_uri p) of
                  Some x \<Rightarrow> (e1, Err (invalid_registrar x))
                | None \<Rightarrow> register_reply pid reply retry e1))"

section \<open>The refresh task\<close>

definition end_refresh_task :: "string \<Rightarrow> sip_engine \<Rightarrow> sip_engine" where
  "end_refresh_task pid e =
     e\<lparr>se_refresh_handles := (se_refresh_handles e)(pid := map_option (\<lambda>t. t\<lparr>rf_running := False\<rparr>) (se_refresh_handles e pid))\<rparr>"

definition set_refresh_interval :: "string \<Rightarrow> nat \<Rightarrow> sip_engine \<Rightarrow> sip_engine" where
  "set_refresh_interval pid n e =
     e\<lparr>se_refresh_handles := (se_refresh_handles e)(pid := map_option (\<lambda>t. t\<lparr>rf_interval := n\<rparr>) (se_refresh_handles e pid))\<rparr>"

definition backoff :: "nat \<Rightarrow> nat" where "backoff current = min (max current 5 * 2) 60"

definition back_off :: "string \<Rightarrow> sip_engine \<Rightarrow> sip_engine" where
  "back_off pid e =
     (case se_refresh_handles e pid of
        Some t \<Rightarrow> set_refresh_interval pid (backoff (rf_interval t)) e | None \<Rightarrow> e)"

definition refresh_retry :: "string \<Rightarrow> string \<Rightarrow> reg_reply \<Rightarrow> sip_engine \<Rightarrow> sip_engine" where
  "refresh_retry cause pid retry e =
     (case retry of
        RegReply status display min_expires expires \<Rightarrow>
          if status = 200 then set_registration pid Registered e
          else end_refresh_task pid
                 (registration_failed pid (''Registration refresh retry after '' @ cause @ '' failed with status: '' @ display) e)
      | RegError x \<Rightarrow>
          end_refresh_task pid (registration_failed pid (''Registration refresh retry after '' @ cause @ '' failed: '' @ x) e))"

definition refresh_reply :: "string \<Rightarrow> reg_reply \<Rightarrow> reg_reply \<Rightarrow> sip_engine \<Rightarrow> sip_engine" where
  "refresh_reply pid reply retry e =
     (case reply of
        RegError x \<Rightarrow> back_off pid e
      | RegReply status display min_expires expires \<Rightarrow>
          if status = 423 then
            (case min_expires of
               Some _ \<Rightarrow> refresh_retry ''423'' pid retry e
             | None \<Rightarrow> end_refresh_task pid (registration_failed pid (''Registration refresh failed: '' @ too_brief) e))
          else if status = 200 then
            (if expires > 0
             then set_refresh_interval pid (unat expires div 2)
                    (e\<lparr>se_registration_expiries := (se_registration_expiries e)(pid \<mapsto> expires)\<rparr>)
             else set_registration pid Registered e)
          else if status = 401 \<or> status = 407 then refresh_retry ''auth challenge'' pid retry e
          else if status \<ge> 500 \<and> status < 600 then back_off pid e
          else end_refresh_task pid (registration_failed pid (''Registration refresh failed with status: '' @ display) e))"

text \<open>What the task of a provider does when it has slept for its interval.\<close>

definition refresh_tick :: "sip_crates \<Rightarrow> reg_reply \<Rightarrow> reg_reply \<Rightarrow> string \<Rightarrow> sip_engine \<Rightarrow> sip_engine" where
  "refresh_tick k reply retry pid e =
     (case se_refresh_handles e pid of
        None \<Rightarrow> e
      | Some t \<Rightarrow>
          if \<not> rf_running t then e
          else if pid \<notin> se_registrations e then end_refresh_task pid e
          else (case se_providers e pid of
            None \<Rightarrow> end_refresh_task pid e
          | Some p \<Rightarrow>
              if sk_uri_error k (registrar_uri p) \<noteq> None then end_refresh_task pid e
              else refresh_reply pid reply retry e))"

section \<open>Unregistering\<close>

definition unregister_provider :: "sip_crates \<Rightarrow> reg_reply \<Rightarrow> string \<Rightarrow> sip_engine \<Rightarrow> sip_engine \<times> unit res" where
  "unregister_provider k reply pid e =
     (let e1 = set_registration pid Unregistering e
      in if pid \<notin> se_registrations e1 then (e1, Err (Provider (''No registration for provider: '' @ pid)))
         else case se_providers e1 pid of
           None \<Rightarrow> (e1, Err (unknown_provider pid))
         | Some p \<Rightarrow>
             (case sk_uri_error k (registrar_uri p) of
                Some x \<Rightarrow> (e1, Err (invalid_registrar x))
              | None \<Rightarrow>
                  (case reply of
                     RegError x \<Rightarrow> (e1, Err (Sip (''Unregistration failed: '' @ x)))
                   | RegReply status display min_expires expires \<Rightarrow>
                       (let e2 = set_registration pid Unregistered (e1\<lparr>se_registrations := se_registrations e1 - {pid}\<rparr>);
                            e3 = e2\<lparr>se_registration_expiries := (se_registration_expiries e2)(pid := None),
                                    se_refresh_handles := (se_refresh_handles e2)(pid := None)\<rparr>
                        in (emit_event (EvRegistrationChanged ''unregistered'' None) e3, Ok ())))))"

section \<open>Refreshes that fail\<close>

text \<open>
  The refresh task of a registration under failures that the code takes for transient: what it does to the interval
  and what it tells the application.
\<close>

fun transient :: "reg_reply \<Rightarrow> bool" where
  "transient (RegError x) = True"
| "transient (RegReply status display min_expires expires) = (status \<ge> 500 \<and> status < 600)"

fun refresh_run :: "sip_crates \<Rightarrow> (reg_reply \<times> reg_reply) list \<Rightarrow> string \<Rightarrow> sip_engine \<Rightarrow> sip_engine" where
  "refresh_run k [] pid e = e"
| "refresh_run k ((reply, retry) # rs) pid e = refresh_run k rs pid (refresh_tick k reply retry pid e)"

text \<open>A provider that is registered, with its refresh task, if there is one, running.\<close>

definition keeps_refreshing :: "sip_crates \<Rightarrow> string \<Rightarrow> sip_engine \<Rightarrow> bool" where
  "keeps_refreshing k pid e \<longleftrightarrow> provider_registration_state pid e = Registered \<and> pid \<in> se_registrations e
     \<and> (case se_providers e pid of Some p \<Rightarrow> sk_uri_error k (registrar_uri p) = None | None \<Rightarrow> False)
     \<and> (case se_refresh_handles e pid of Some t \<Rightarrow> rf_running t | None \<Rightarrow> True)"

definition refresh_wait :: "string \<Rightarrow> sip_engine \<Rightarrow> nat option" where
  "refresh_wait pid e = map_option rf_interval (se_refresh_handles e pid)"

lemma backoff_bounds: "10 \<le> backoff n" "backoff n \<le> 60"
  by (simp_all add: backoff_def)

lemma back_off_effect:
  "refresh_wait pid (back_off pid e) = map_option backoff (refresh_wait pid e)"
  "keeps_refreshing k pid (back_off pid e) = keeps_refreshing k pid e" "se_events (back_off pid e) = se_events e"
  by (auto simp: back_off_def set_refresh_interval_def refresh_wait_def keeps_refreshing_def provider_registration_state_def
      split: option.split)

lemma transient_reply: "transient reply \<Longrightarrow> refresh_reply pid reply retry e = back_off pid e"
  by (cases reply) (auto simp: refresh_reply_def word_le_nat_alt word_less_nat_alt)

lemma transient_tick:
  assumes "keeps_refreshing k pid e" and "transient reply"
  shows "keeps_refreshing k pid (refresh_tick k reply retry pid e)" "se_events (refresh_tick k reply retry pid e) = se_events e"
    "refresh_wait pid (refresh_tick k reply retry pid e) = map_option backoff (refresh_wait pid e)"
proof -
  have "refresh_tick k reply retry pid e = (if se_refresh_handles e pid = None then e else back_off pid e)"
    using assms by (auto simp: refresh_tick_def transient_reply keeps_refreshing_def split: option.splits)
  then show "keeps_refreshing k pid (refresh_tick k reply retry pid e)" "se_events (refresh_tick k reply retry pid e) = se_events e"
    "refresh_wait pid (refresh_tick k reply retry pid e) = map_option backoff (refresh_wait pid e)"
    using assms(1) back_off_effect [where pid = pid and e = e] by (simp_all add: refresh_wait_def)
qed

lemma transient_run:
  "keeps_refreshing k pid e \<Longrightarrow> list_all (\<lambda>(reply, _). transient reply) rs \<Longrightarrow> keeps_refreshing k pid (refresh_run k rs pid e)
    \<and> se_events (refresh_run k rs pid e) = se_events e
    \<and> refresh_wait pid (refresh_run k rs pid e) = map_option (backoff ^^ length rs) (refresh_wait pid e)"
proof (induction rs arbitrary: e)
  case (Cons r rs)
  obtain reply retry where r: "r = (reply, retry)" by fastforce
  with Cons.prems have t: "transient reply" and rs: "list_all (\<lambda>(reply, _). transient reply) rs" by auto
  note tick = transient_tick [OF Cons.prems(1) t, of retry]
  from Cons.IH [OF tick(1) rs] show ?case
    by (simp add: r tick option.map_comp o_def funpow_swap1)
qed (simp add: option.map_id0)

lemma registered_keeps:
  assumes "register_provider k reply retry pid e = (e', Ok ())" and "se_providers e pid = Some p" and "pc_register p"
  shows "keeps_refreshing k pid e'"
proof -
  have uri: "sk_uri_error k (registrar_uri p) = None" and r: "register_reply pid reply retry (register_begin pid e) = (e', Ok ())"
    using assms by (auto simp: register_provider_def Let_def split: option.splits)
  have begun: "se_providers (register_begin pid e) pid = Some p" "se_refresh_handles (register_begin pid e) pid = None"
    using assms(2) by (simp_all add: register_begin_def emit_event_def set_registration_def)
  have "\<exists>expiry. e' = registered pid expiry (register_begin pid e)"
    using r by (auto simp: register_reply_def register_retry_def fail_with_def split: reg_reply.splits if_splits option.splits)
  then obtain expiry where "e' = registered pid expiry (register_begin pid e)" ..
  then show ?thesis using uri begun
    by (auto simp: registered_def keeps_refreshing_def provider_registration_state_def set_registration_def emit_event_def
        spawn_refresh_task_def Let_def)
qed

text \<open>C37: Failed refreshes are never reported: however often the refreshes of a registration fail by a transport error or a 5xx
  response, the provider still counts as registered and no event is sent, long after the registration has run
  out; the task keeps trying every 10 to 60 seconds.\<close>

theorem failed_refreshes_unreported:
  assumes "register_provider k reply retry pid e = (e1, Ok ())" and "se_providers e pid = Some p" and "pc_register p"
    and "list_all (\<lambda>(reply, _). transient reply) rs" and "rs \<noteq> []"
  shows "provider_registration_state pid (refresh_run k rs pid e1) = Registered
    \<and> se_events (refresh_run k rs pid e1) = se_events e1
    \<and> (case se_refresh_handles (refresh_run k rs pid e1) pid of
         Some t \<Rightarrow> rf_running t \<and> 10 \<le> rf_interval t \<and> rf_interval t \<le> 60 | None \<Rightarrow> True)"
proof -
  note run = transient_run [OF registered_keeps [OF assms(1-3)] assms(4)]
  obtain n where n: "length rs = Suc n" using assms(5) by (cases rs) auto
  have "10 \<le> (backoff ^^ length rs) i \<and> (backoff ^^ length rs) i \<le> 60" for i by (simp add: n backoff_bounds)
  moreover have "\<exists>i. rf_interval t = (backoff ^^ length rs) i" if "se_refresh_handles (refresh_run k rs pid e1) pid = Some t" for t
    using run that by (cases "refresh_wait pid e1") (auto simp: refresh_wait_def)
  ultimately have "10 \<le> rf_interval t \<and> rf_interval t \<le> 60"
    if "se_refresh_handles (refresh_run k rs pid e1) pid = Some t" for t using that by metis
  with run show ?thesis by (auto simp: keeps_refreshing_def split: option.splits)
qed

end
