(* ===== verification/Sip_Engine_Witness.thy ===== *)
theory Sip_Engine_Witness
  imports Sip_Engine_Props Sip_Engine_Peer Sip_Engine_Register Rtp_Engine_Witness
begin

text \<open>
  The properties of the SIP engine applied to a small engine: one outbound call without media, or with the RTP
  engine of the RTP witnesses, over crates that accept every URI.
\<close>

definition demo_sip_crates :: sip_crates where
  "demo_sip_crates = \<lparr>sk_rtp = demo_crates, sk_uri_error = (\<lambda>_. None)\<rparr>"

definition demo_step :: step_env where
  "demo_step = \<lparr>sn_crates = demo_sip_crates, sn_bye_error = None, sn_now = 0, sn_random = 0\<rparr>"

definition demo_dialog :: dialog_id where
  "demo_dialog = \<lparr>di_call_id = ''c1'', di_from_tag = ''f'', di_to_tag = ''t''\<rparr>"

definition demo_sip_call :: sip_call where
  "demo_sip_call =
     \<lparr>cl_call_id = ''a'', cl_state = Trying, cl_direction = Outbound, cl_provider_id = ''p'', cl_rtp_engine = None,
      cl_client_dialog = None, cl_server_dialog = None, cl_local_sdp = None, cl_remote_sdp = None, cl_local_uri = None,
      cl_remote_uri = None, cl_remote_addr = None, cl_cseq = 1, cl_local_contact = None, cl_dtmf_mode = Auto,
      cl_remote_telephone_event_pt = None, cl_early_media_state = NoEarlyMedia, cl_remote_media_direction = SendRecv,
      cl_local_hold = False, cl_remote_hold = False, cl_remote_user_agent = None, cl_rtp_bug_flags = no_bugs,
      cl_session_timer = None, cl_refer_pending = False, cl_refer_target = None, cl_reinvite_pending = False,
      cl_remote_contact = None, cl_sdp_session_version = 1, cl_negotiated_codec = None, cl_cancel_pending = False,
      cl_route_set = [], cl_cancel_tx = True\<rparr>"

definition demo_sip_config :: sip_config where
  "demo_sip_config = sip_config_default\<lparr>sc_rtp_port_start := 10000, sc_rtp_port_end := 10002\<rparr>"

definition engine_with :: "sip_call \<Rightarrow> sip_engine" where
  "engine_with c = (sip_engine_new demo_sip_config)\<lparr>se_calls := [''a'' \<mapsto> c], se_listening := True\<rparr>"

lemma engine_with_fields [simp]:
  "se_calls (engine_with c) = [''a'' \<mapsto> c]" "se_sent (engine_with c) = []" "se_events (engine_with c) = []"
  "se_config (engine_with c) = demo_sip_config" "se_allocated_ports (engine_with c) = {}" "se_listening (engine_with c)"
  "se_providers (engine_with c) = Map.empty" "se_next_rtp_port (engine_with c) = 10000" "se_request_timestamps (engine_with c) = []"
  by (simp_all add: engine_with_def sip_engine_new_def demo_sip_config_def)

lemma demo_sip_config_fields [simp]:
  "sc_enable_session_timers demo_sip_config = False" "sc_max_calls demo_sip_config = 0" "sc_max_requests_per_second demo_sip_config = 0"
  "sc_rtp_port_start demo_sip_config = 10000" "sc_rtp_port_end demo_sip_config = 10002"
  by (simp_all add: demo_sip_config_def sip_config_default_def)

lemma demo_sip_call_fields [simp]:
  "cl_rtp_engine demo_sip_call = None" "cl_client_dialog demo_sip_call = None" "cl_server_dialog demo_sip_call = None"
  "cl_state demo_sip_call = Trying" "cl_direction demo_sip_call = Outbound" "\<not> cl_cancel_pending demo_sip_call"
  "\<not> cl_local_hold demo_sip_call" "\<not> cl_remote_hold demo_sip_call" "cl_early_media_state demo_sip_call = NoEarlyMedia"
  by (simp_all add: demo_sip_call_def)

definition plain_message :: "u16 \<Rightarrow> string \<Rightarrow> sip_message" where
  "plain_message status body = \<lparr>ms_status = status, ms_headers = [], ms_body = body\<rparr>"

lemma plain_message_fields [simp]:
  "ms_status (plain_message s b) = s" "ms_headers (plain_message s b) = []" "ms_body (plain_message s b) = b"
  by (simp_all add: plain_message_def)

lemma note_nothing [simp]: "note_device [] c = c" "note_contact [] c = c"
  by (simp_all add: note_device_def note_contact_def header_values_def map_filter_simps)

lemma stop_nothing: "Option.bind (se_calls e cid) cl_rtp_engine = None \<Longrightarrow> stop_rtp k io cid e = Ok e"
  by (simp add: stop_rtp_def)

section \<open>Runs\<close>

text \<open>An outbound call, its answer and its end.\<close>

definition odd_sdp :: string where "odd_sdp = ''v=x''"

lemma odd_text: "body_text odd_sdp = Some odd_sdp"
  unfolding odd_sdp_def by code_simp

lemma odd_parse: "\<exists>x. sdp_parse random odd_sdp = Err x"
proof -
  have "case sdp_parse random odd_sdp of Err x \<Rightarrow> True | _ \<Rightarrow> False" unfolding odd_sdp_def by code_simp
  then show ?thesis by (simp split: outcome.splits)
qed

text \<open>The call after its answer.\<close>

definition talking :: sip_call where
  "talking = demo_sip_call\<lparr>cl_remote_sdp := Some odd_sdp, cl_state := Active, cl_client_dialog := Some demo_dialog\<rparr>"

lemma talking_fields [simp]:
  "cl_rtp_engine talking = None" "cl_client_dialog talking = Some demo_dialog" "cl_state talking = Active"
  "cl_direction talking = Outbound" "\<not> cl_cancel_pending talking" "\<not> call_on_hold talking"
  "cl_early_media_state talking = NoEarlyMedia"
  by (simp_all add: talking_def call_on_hold_def)

lemma answered_demo: "answered_call demo_step demo_dialog (plain_message s odd_sdp) odd_sdp False demo_sip_call = Ok talking"
proof -
  have e: "early_sdp demo_step (Some odd_sdp) c = Ok c" for c using odd_parse [of "sn_random demo_step"] by (auto simp: early_sdp_def)
  have "demo_sip_call\<lparr>cl_early_media_state := NoEarlyMedia\<rparr> = demo_sip_call" by (simp add: demo_sip_call_def)
  then show ?thesis
    by (simp add: answered_call_def e response_routes_def answered_timer_def session_expires_header_def header_values_def
        map_filter_simps talking_def Let_def)
qed

definition answered_demo_engine :: sip_engine where
  "answered_demo_engine = emit_event (EvAudioReady ''a'') (emit_event (EvAnswered ''a'') (engine_with talking))"

lemma engine_with_again: "upd_call ''a'' (\<lambda>_. c') (engine_with c) = engine_with c'"
  by (simp add: upd_call_def) (simp add: engine_with_def)

lemma invite_demo:
  "invite_done demo_step None (InviteOk demo_dialog (Some (plain_message 200 odd_sdp))) ''a'' (engine_with demo_sip_call) = Ok answered_demo_engine"
  by (simp add: invite_done_def final_min_se_def redirect_targets_def take_response_def odd_text answered_demo engine_with_again
      cancel_pending_def answered_demo_engine_def)

lemma ringing_demo:
  "outbound_dialog_event demo_step ''a'' (DEarly (plain_message 180 [])) answered_demo_engine
   = Ok (emit_event (EvRinging ''a'') (answered_demo_engine\<lparr>se_calls := [''a'' \<mapsto> process_180_ringing talking]\<rparr>))"
proof -
  have n: "early_sdp demo_step None c = Ok c" for c by (simp add: early_sdp_def)
  show ?thesis
    by (simp add: outbound_dialog_event_def on_early_def n early_status_def body_text_def answered_demo_engine_def
        process_180_ringing_def upd_call_def emit_event_def Let_def)
qed

lemma hang_up_result:
  assumes "se_calls e cid = Some c" and "cl_rtp_engine c = None" and "cl_direction c = Outbound" and "cl_state c \<noteq> Ended"
  shows "snd (hang_up env None cid e) = Ok ()"
proof -
  have u: "Option.bind (se_calls (upd_call cid f x) cid) cl_rtp_engine = None"
    if "Option.bind (se_calls x cid) cl_rtp_engine = None" "\<And>c. cl_rtp_engine (f c) = cl_rtp_engine c" for f x
    using that by (auto simp: upd_call_def split: option.split)
  have h: "Option.bind (se_calls (hand_over d r x) cid) cl_rtp_engine = Option.bind (se_calls x cid) cl_rtp_engine" for d r x
    by (simp add: hand_over_def)
  have b: "Option.bind (se_calls e cid) cl_rtp_engine = None" using assms(1,2) by simp
  let ?x = "upd_call cid (\<lambda>c. c\<lparr>cl_cancel_pending := True\<rparr>) (upd_call cid (\<lambda>c. c\<lparr>cl_cancel_tx := False\<rparr>) e)"
  have x: "Option.bind (se_calls ?x cid) cl_rtp_engine = None" by (rule u, rule u, rule b) simp_all
  have fc: "snd (finish_cancel env cid y) = Ok ()" if "Option.bind (se_calls y cid) cl_rtp_engine = None" for y
    using u [OF that, of clear_holds] by (simp add: finish_cancel_def clear_holds_def stop_nothing)
  show ?thesis using assms fc [OF x] fc [of "hand_over d SendCancel ?x" for d] x h b
    by (auto simp: hang_up_def cancel_call_def Let_def stop_nothing split: option.split)
qed

theorem late_ringing_undoes_answer_witness:
  "\<exists>(e2 :: sip_engine) (e3 :: sip_engine). map_option cl_state (se_calls answered_demo_engine ''a'') \<in> {Some Active, Some Hold}
    \<and> map_option cl_state (se_calls e2 ''a'') = Some Ringing \<and> se_sent e3 = se_sent (engine_with demo_sip_call) @ [(demo_dialog, SendCancel)]"
proof -
  let ?e2 = "emit_event (EvRinging ''a'') (answered_demo_engine\<lparr>se_calls := [''a'' \<mapsto> process_180_ringing talking]\<rparr>)"
  obtain e3 where e3: "hang_up demo_step None ''a'' ?e2 = (e3, Ok ())"
    using hang_up_result [of ?e2 "''a''" "process_180_ringing talking" demo_step]
    by (cases "hang_up demo_step None ''a'' ?e2") (auto simp: emit_event_def process_180_ringing_def)
  have "map_option cl_state (se_calls answered_demo_engine ''a'') \<in> {Some Active, Some Hold}
    \<and> map_option cl_state (se_calls ?e2 ''a'') = Some Ringing \<and> se_sent e3 = se_sent (engine_with demo_sip_call) @ [(demo_dialog, SendCancel)]"
    by (rule late_ringing_undoes_answer [OF invite_demo _ _ _ _ _ _ _ ringing_demo e3, of demo_sip_call odd_sdp])
      (simp_all add: odd_text)
  then show ?thesis by blast
qed

theorem unanswered_announced_witness:
  "\<exists>(e1 :: sip_engine) (e2 :: sip_engine). se_events e1 = [EvAnswered ''a'', EvAudioReady ''a''] \<and> se_calls e1 ''a'' = Some demo_sip_call
    \<and> se_sent e2 = [] \<and> se_events e2 = se_events e1 @ [EvCancelled ''a'']"
proof -
  let ?e1 = "emit_event (EvAudioReady ''a'') (emit_event (EvAnswered ''a'') (engine_with demo_sip_call))"
  have e1: "invite_done demo_step None (InviteOk demo_dialog (Some (plain_message 486 []))) ''a'' (engine_with demo_sip_call) = Ok ?e1"
    by (simp add: invite_done_def final_min_se_def redirect_targets_def take_response_def body_text_def cancel_pending_def word_le_nat_alt)
  obtain e2 where e2: "hang_up demo_step None ''a'' ?e1 = (e2, Ok ())"
    using hang_up_result [of ?e1 "''a''" demo_sip_call demo_step]
    by (cases "hang_up demo_step None ''a'' ?e1") (auto simp: emit_event_def)
  have "se_events ?e1 = se_events (engine_with demo_sip_call) @ [EvAnswered ''a'', EvAudioReady ''a''] \<and> se_calls ?e1 ''a'' = Some demo_sip_call
    \<and> se_sent e2 = se_sent (engine_with demo_sip_call) \<and> se_events e2 = se_events ?e1 @ [EvCancelled ''a'']"
    by (rule unanswered_announced [OF _ _ _ _ _ _ _ _ e1 e2])
      (simp_all add: pre_answer_def body_text_def word_le_nat_alt word_less_nat_alt)
  then have "se_events ?e1 = [EvAnswered ''a'', EvAudioReady ''a''] \<and> se_calls ?e1 ''a'' = Some demo_sip_call
    \<and> se_sent e2 = [] \<and> se_events e2 = se_events ?e1 @ [EvCancelled ''a'']" by simp
  then show ?thesis by blast
qed

section \<open>Ports\<close>

definition with_media :: sip_call where
  "with_media = demo_sip_call\<lparr>cl_rtp_engine := Some (demo_engine\<lparr>re_local_addr := V4 1 10000\<rparr>)\<rparr>"

text \<open>The engine with a provider, its call having taken the only port of the range.\<close>

definition demo_provider :: provider_credentials where
  "demo_provider = \<lparr>pc_id = ''p'', pc_sip_server = ''s'', pc_sip_port = 5060, pc_username = ''u'', pc_password = ''w'',
     pc_realm = None, pc_register = False\<rparr>"

definition one_port_engine :: sip_engine where
  "one_port_engine = (engine_with with_media)\<lparr>se_allocated_ports := {10000}, se_providers := [''p'' \<mapsto> demo_provider]\<rparr>"

definition demo_env :: call_env where
  "demo_env = \<lparr>en_call_id = ''b'', en_bind = Ok (V4 1 10000), en_engine = demo_random, en_local_sdp = 0, en_remote_sdp = 0, en_now = 0\<rparr>"

lemma stop_silent: "re_remote_addr r = None \<Longrightarrow> engine_stop k io pool r = Ok (halt pool r)"
proof -
  assume r: "re_remote_addr r = None"
  have "length (session_build_bye (Some session_ended) s) \<le> 128" for s
    by (simp add: session_build_bye_def build_bye_def session_ended_def rtcp_header_def be16_def)
  then show ?thesis using r by (simp add: engine_stop_def Let_def not_less)
qed

lemma halt_silent: "re_remote_addr (snd (halt pool r)) = re_remote_addr r"
  by (simp add: halt_def release_port_def split: option.split)

text \<open>The call, whatever became of its RTP engine, as long as that has no remote address.\<close>

definition silent_call :: "string \<Rightarrow> sip_engine \<Rightarrow> bool" where
  "silent_call cid e \<longleftrightarrow> (case Option.bind (se_calls e cid) cl_rtp_engine of Some r \<Rightarrow> re_remote_addr r = None | None \<Rightarrow> False)"

lemma stop_silent_call:
  assumes "silent_call cid e"
  shows "\<exists>e'. stop_rtp k io cid e = Ok e' \<and> silent_call cid e'"
proof -
  obtain c r where c: "se_calls e cid = Some c" "cl_rtp_engine c = Some r" "re_remote_addr r = None"
    using assms by (auto simp: silent_call_def split: option.splits bind_splits)
  obtain pool r' where h: "halt (se_port_pool e) r = (pool, r')" by fastforce
  then have "re_remote_addr r' = None" using halt_silent [of "se_port_pool e" r] c(3) by simp
  then show ?thesis using c h by (simp add: stop_rtp_def stop_silent silent_call_def upd_call_def)
qed

lemma with_media_fields [simp]:
  "cl_rtp_engine with_media = Some (demo_engine\<lparr>re_local_addr := V4 1 10000\<rparr>)" "cl_state with_media = Trying"
  "cl_client_dialog with_media = None"
  by (simp_all add: with_media_def)

definition cancelling :: sip_engine where
  "cancelling = one_port_engine\<lparr>se_calls := [''a'' \<mapsto> with_media\<lparr>cl_cancel_tx := False, cl_cancel_pending := True\<rparr>]\<rparr>"

lemma cancelling_fields [simp]:
  "se_calls cancelling = [''a'' \<mapsto> with_media\<lparr>cl_cancel_tx := False, cl_cancel_pending := True\<rparr>]"
  "se_allocated_ports cancelling = {10000}" "se_providers cancelling = [''p'' \<mapsto> demo_provider]" "se_config cancelling = demo_sip_config"
  "se_next_rtp_port cancelling = 10000"
  by (simp_all add: cancelling_def one_port_engine_def)

lemma cancelling_reached:
  "upd_call ''a'' (\<lambda>c. c\<lparr>cl_cancel_pending := True\<rparr>) (upd_call ''a'' (\<lambda>c. c\<lparr>cl_cancel_tx := False\<rparr>) one_port_engine) = cancelling"
  by (simp add: one_port_engine_def upd_call_def cancelling_def)

lemma silent_frame [simp]:
  "silent_call cid (emit_event ev e) = silent_call cid e" "silent_call cid (sip_release_rtp_port p e) = silent_call cid e"
  by (simp_all add: silent_call_def emit_event_def sip_release_rtp_port_def)

lemma cancel_one_port:
  "\<exists>e1. cancel_call demo_step None ''a'' one_port_engine = (e1, Ok ()) \<and> silent_call ''a'' e1
    \<and> se_providers e1 = [''p'' \<mapsto> demo_provider] \<and> se_config e1 = demo_sip_config \<and> se_next_rtp_port e1 = 10000 \<and> se_allocated_ports e1 = {}"
proof -
  let ?y = "upd_call ''a'' clear_holds cancelling"
  have y: "silent_call ''a'' ?y" "se_allocated_ports ?y = {10000}" "se_providers ?y = [''p'' \<mapsto> demo_provider]"
    "se_config ?y = demo_sip_config" "se_next_rtp_port ?y = 10000"
    by (simp_all add: silent_call_def upd_call_def clear_holds_def demo_engine_fields)
  obtain r where r: "stop_rtp demo_sip_crates None ''a'' ?y = Ok r" "silent_call ''a'' r"
    using stop_silent_call [OF y(1)] by blast
  note f = stop_rtp_frame [OF r(1)]
  have n: "se_next_rtp_port r = 10000" using r(1) y(5)
    by (auto simp: stop_rtp_def upd_call_def split: option.splits outcome.splits)
  have port: "call_port ''a'' cancelling = Some 10000" by (simp add: call_port_def)
  let ?e1 = "emit_event (EvCancelled ''a'') (sip_release_rtp_port 10000 r)"
  have "finish_cancel demo_step ''a'' cancelling = (?e1, Ok ())"
    unfolding finish_cancel_def port using r(1) by (simp add: demo_step_def release_call_port_def)
  moreover have "cancel_call demo_step None ''a'' one_port_engine = finish_cancel demo_step ''a'' cancelling"
    unfolding cancel_call_def cancelling_reached Let_def by (simp add: one_port_engine_def pre_answer_def)
  ultimately have "cancel_call demo_step None ''a'' one_port_engine = (?e1, Ok ())" by simp
  moreover have "silent_call ''a'' ?e1" using r(2) by simp
  moreover have "se_providers ?e1 = [''p'' \<mapsto> demo_provider]" "se_config ?e1 = demo_sip_config" "se_next_rtp_port ?e1 = 10000"
    "se_allocated_ports ?e1 = {}"
    using f y n by (simp_all add: emit_event_def sip_release_rtp_port_def)
  ultimately show ?thesis by blast
qed

lemma only_port:
  assumes "se_config e = demo_sip_config" and "se_next_rtp_port e = 10000" and "se_allocated_ports e = {}"
  shows "sip_allocate_rtp_port e = Some (e\<lparr>se_allocated_ports := {10000}, se_next_rtp_port := 10000\<rparr>, 10000)"
proof -
  have "scan_sip_ports 10000 10002 {} 10000 False 10000 = Some (10000, False)"
    by (subst scan_unfold) (simp add: Let_def)
  then show ?thesis using assms by (simp add: sip_allocate_rtp_port_def round_up_even_def Let_def)
qed


text \<open>The same call where the URI of the callee is refused.\<close>

definition strict_crates :: sip_crates where "strict_crates = demo_sip_crates\<lparr>sk_uri_error := (\<lambda>_. Some ''bad'')\<rparr>"

definition idle_engine :: sip_engine where
  "idle_engine = (sip_engine_new demo_sip_config)\<lparr>se_providers := [''p'' \<mapsto> demo_provider]\<rparr>"

theorem failed_call_leaks_port_witness:
  "\<exists>e'. make_call strict_crates demo_env (\<lambda>_. None) ''x'' ''y'' ''p'' idle_engine = Some (e', Err (Sip (''Invalid callee URI: '' @ ''bad'')))
    \<and> (case sip_allocate_rtp_port idle_engine of
        Some (e1, port) \<Rightarrow> e' = e1 \<and> port \<in> se_allocated_ports e' \<and> se_calls e' = se_calls idle_engine | None \<Rightarrow> False)"
proof -
  have i: "se_config idle_engine = demo_sip_config" "se_next_rtp_port idle_engine = 10000" "se_allocated_ports idle_engine = {}"
    "se_providers idle_engine ''p'' = Some demo_provider"
    by (simp_all add: idle_engine_def sip_engine_new_def)
  let ?a = "idle_engine\<lparr>se_allocated_ports := {10000}, se_next_rtp_port := 10000\<rparr>"
  have "\<exists>r. open_rtp demo_env = Ok r"
    by (simp add: open_rtp_def engine_new_def engine_config_default_def demo_env_def Let_def)
  then have m: "make_call strict_crates demo_env (\<lambda>_. None) ''x'' ''y'' ''p'' idle_engine
      = Some (?a, Err (Sip (''Invalid callee URI: '' @ ''bad'')))"
    by (auto simp: make_call_def i(4) only_port [OF i(1-3)] place_call_def strict_crates_def Let_def)
  from m failed_call_leaks_port [OF m i(4)] show ?thesis by blast
qed

section \<open>A call that is answered\<close>

definition answered_ops :: "sip_op list" where
  "answered_ops = [AddProvider demo_provider, MakeCall demo_sip_crates demo_env (\<lambda>_. None) ''x'' ''y'' ''p'',
     InviteResult demo_step None (InviteOk demo_dialog (Some (plain_message 200 odd_sdp))) ''b'']"

lemma answered_silent:
  "\<exists>c'. answered_call demo_step d (plain_message s odd_sdp) odd_sdp False c = Ok c' \<and> cl_rtp_engine c' = cl_rtp_engine c"
proof -
  have e: "early_sdp demo_step (Some odd_sdp) c = Ok c" for c using odd_parse [of "sn_random demo_step"] by (auto simp: early_sdp_def)
  show ?thesis
    by (simp add: answered_call_def e response_routes_def answered_timer_def session_expires_header_def header_values_def
        map_filter_simps Let_def)
qed

lemma answered_run:
  "\<exists>e c. sip_run answered_ops (sip_engine_new demo_sip_config) = Some e \<and> se_calls e ''b'' = Some c \<and> (cl_state c = Active \<or> cl_state c = Hold)
    \<and> silent_call ''b'' e"
proof -
  let ?i = "add_provider demo_provider (sip_engine_new demo_sip_config)"
  have i: "se_config ?i = demo_sip_config" "se_next_rtp_port ?i = 10000" "se_allocated_ports ?i = {}" "se_providers ?i ''p'' = Some demo_provider"
    by (simp_all add: add_provider_def demo_provider_def sip_engine_new_def)
  let ?a = "?i\<lparr>se_allocated_ports := {10000}, se_next_rtp_port := 10000\<rparr>"
  obtain r where r: "open_rtp demo_env = Ok r" "re_remote_addr r = None"
    by (simp add: open_rtp_def engine_new_def engine_config_default_def demo_env_def Let_def)
  obtain e2 opt where mc: "make_call demo_sip_crates demo_env (\<lambda>_. None) ''x'' ''y'' ''p'' ?i = Some (e2, Ok (''b'', opt))"
    and c: "\<exists>c. se_calls e2 ''b'' = Some c \<and> cl_rtp_engine c = Some r \<and> cl_direction c = Outbound \<and> \<not> cl_cancel_pending c"
    and cfg: "se_config e2 = demo_sip_config"
    using r i(1) by (simp add: make_call_def i(4) only_port [OF i(1-3)] place_call_def demo_sip_crates_def outbound_session_def Let_def)
      (simp add: demo_env_def)
  from c obtain c where c: "se_calls e2 ''b'' = Some c" "cl_rtp_engine c = Some r" "cl_direction c = Outbound" "\<not> cl_cancel_pending c"
    by blast
  obtain c' where c': "answered_call demo_step demo_dialog (plain_message 200 odd_sdp) odd_sdp False c = Ok c'" "cl_rtp_engine c' = Some r"
    using answered_silent [of demo_dialog 200 c] c(2) by auto
  note f = answered_call_fields [OF c'(1)]
  let ?e = "emit_event (EvAudioReady ''b'') (emit_event (EvAnswered ''b'') (upd_call ''b'' (\<lambda>_. c') e2))"
  have "invite_done demo_step None (InviteOk demo_dialog (Some (plain_message 200 odd_sdp))) ''b'' e2 = Ok ?e"
    using c c' f(3) cfg
    by (simp add: invite_done_def final_min_se_def redirect_targets_def take_response_def odd_text cancel_pending_def upd_call_def)
  moreover have "outgoing ''b'' e2" using c by (simp add: outgoing_def)
  ultimately have "sip_run answered_ops (sip_engine_new demo_sip_config) = Some ?e"
    using mc by (simp add: answered_ops_def)
  moreover have "se_calls ?e ''b'' = Some c'" using c by (simp add: upd_call_def emit_event_def)
  moreover have "silent_call ''b'' ?e" using c' r(2) c by (simp add: silent_call_def upd_call_def emit_event_def)
  ultimately show ?thesis using f(5) by blast
qed

theorem calls_well_formed_witness:
  "\<exists>e c. sip_run answered_ops (sip_engine_new demo_sip_config) = Some e \<and> se_calls e ''b'' = Some c
    \<and> cl_state c \<in> {Trying, Ringing, EarlyMedia, Active, Hold, Ended}
    \<and> (if cl_state c = Hold then cl_local_hold c \<or> cl_remote_hold c else True)
    \<and> (case cl_direction c of Inbound \<Rightarrow> cl_server_dialog c \<noteq> None \<and> cl_client_dialog c = None
         | Outbound \<Rightarrow> cl_server_dialog c = None)
    \<and> (if cl_state c \<in> {Active, Hold} then cl_client_dialog c \<noteq> None \<or> cl_server_dialog c \<noteq> None else True)"
proof -
  obtain e c where e: "sip_run answered_ops (sip_engine_new demo_sip_config) = Some e" "se_calls e ''b'' = Some c" using answered_run by blast
  from calls_well_formed [OF e] e show ?thesis by blast
qed

theorem established_call_ends_with_bye_witness:
  "\<exists>e' d c'. se_sent (e' :: sip_engine) \<noteq> [] \<and> last (se_sent e') = (d, SendBye) \<and> se_calls e' ''b'' = Some c' \<and> cl_state c' = Ended"
proof -
  obtain e c where e: "sip_run answered_ops (sip_engine_new demo_sip_config) = Some e" "se_calls e ''b'' = Some c"
    "cl_state c = Active \<or> cl_state c = Hold" "silent_call ''b'' e"
    using answered_run by blast
  obtain e1 where e1: "stop_rtp (sn_crates demo_step) (sn_bye_error demo_step) ''b'' e = Ok e1" using stop_silent_call [OF e(4)] by blast
  then obtain e' where h: "hang_up demo_step None ''b'' e = (e', Ok ())"
    using e(2,3) by (auto simp: hang_up_def pre_answer_def)
  from established_call_ends_with_bye [OF e(1-3) h] obtain d c' where
    "se_sent e' = se_sent e @ [(d, SendBye)]" "se_calls e' ''b'' = Some c'" "cl_state c' = Ended" by blast
  then show ?thesis by (intro exI [of _ e'] exI [of _ d] exI [of _ c']) simp
qed

section \<open>A hold that overlaps with hanging up, and the rate limit\<close>

theorem hold_revives_ended_call_witness:
  "\<exists>e1 e2 e3. map_option cl_state (se_calls (e2 :: sip_engine) ''a'') = Some Ended
    \<and> map_option cl_state (se_calls (hold_confirm ''a'' (reinvite_end ''a'' e2)) ''a'') = Some Hold
    \<and> se_sent (e3 :: sip_engine) = se_sent (e1 :: sip_engine) @ [(demo_dialog, SendBye), (demo_dialog, SendBye)]"
proof -
  obtain e1 where e1: "reinvite_begin ''a'' None (engine_with talking) = (e1, Ok demo_dialog)"
    and ex: "\<exists>c. se_calls e1 ''a'' = Some c \<and> cl_rtp_engine c = None \<and> cl_direction c = Outbound \<and> cl_state c = Active"
    by (simp add: reinvite_begin_def reinvite_allowed_def call_dialog_def or_else_def Let_def hand_over_def upd_call_def)
  then obtain c where c: "se_calls e1 ''a'' = Some c" "cl_rtp_engine c = None" "cl_direction c = Outbound" "cl_state c = Active" by blast
  obtain e2 where h: "hang_up demo_step None ''a'' e1 = (e2, Ok ())"
    using hang_up_result [of e1 "''a''" c demo_step] c by (cases "hang_up demo_step None ''a'' e1") auto
  then have "e2 = send_bye None c (upd_call ''a'' clear_holds e1)"
    using c by (simp add: hang_up_def pre_answer_def stop_nothing)
  then have c2: "se_calls e2 ''a'' = Some (clear_holds c)"
    using c by (simp add: send_bye_def hand_over_def upd_call_def split: option.split)
  let ?e = "hold_confirm ''a'' (reinvite_end ''a'' e2)"
  have "se_calls ?e ''a'' = Some ((clear_holds c)\<lparr>cl_reinvite_pending := False, cl_local_hold := True, cl_state := Hold\<rparr>)"
    using c2 by (simp add: hold_confirm_def reinvite_end_def upd_call_def)
  from hang_up_result [OF this, of demo_step] c
  obtain e3 where h2: "hang_up demo_step None ''a'' ?e = (e3, Ok ())"
    by (cases "hang_up demo_step None ''a'' ?e") (auto simp: clear_holds_def)
  have "se_calls (engine_with talking) ''a'' = Some talking" "cl_state talking = Active" by simp_all
  from hold_revives_ended_call [OF this e1 h h2] show ?thesis by blast
qed

text \<open>Three requests within a second, where two a second are allowed.\<close>

theorem admitted_rate_bounded_witness:
  "admitted_between 0 [0, 5, 7] (rate_run [0, 5, 7] (sip_engine_new (sip_config_default\<lparr>sc_max_requests_per_second := 2\<rparr>)))
    \<le> unat (sc_max_requests_per_second (sip_config_default\<lparr>sc_max_requests_per_second := 2\<rparr>))"
  by (rule admitted_rate_bounded) (simp_all add: sip_config_default_def)

section \<open>The listener\<close>

definition bad_invite :: sip_invite where
  "bad_invite = \<lparr>iv_call_id = Some ''i'', iv_from_uri = None, iv_to_uri = None, iv_max_forwards = None, iv_headers = [],
     iv_body = [CHR 0xE2, CHR 0x82, CHR 0xAC, CHR ''='']\<rparr>"

theorem wide_character_stops_listener_witness:
  "\<exists>e3 replies. on_transaction [] (InviteTransaction bad_invite demo_env (Ok demo_dialog)) (engine_with demo_sip_call) = Some (e3, replies)
    \<and> \<not> se_listening e3 \<and> on_transaction [] OptionsTransaction e3 = Some (e3, [])"
proof -
  have d: "\<not> duplicate_invite bad_invite (engine_with demo_sip_call)"
    by (simp add: duplicate_invite_def bad_invite_def ran_def)
  have a: "admit_invite (en_now demo_env) bad_invite (engine_with demo_sip_call) = (engine_with demo_sip_call, None)"
    by (simp add: admit_invite_def check_rate_limit_def at_max_calls_def unsupported_options_def interval_too_small_def
        session_expires_header_def no_hops_left_def bad_invite_def header_values_def map_filter_simps)
  have p: "sip_allocate_rtp_port (engine_with demo_sip_call)
      = Some ((engine_with demo_sip_call)\<lparr>se_allocated_ports := {10000}, se_next_rtp_port := 10000\<rparr>, 10000)"
    by (rule only_port) simp_all
  show ?thesis
    by (rule wide_character_stops_listener [OF _ d a p, where addr = "V4 1 10000"]) (simp_all add: demo_env_def bad_invite_def)
qed

section \<open>The peer\<close>

theorem dtmf_info_reaches_peer_witness:
  "\<exists>d hs body. se_sent (hand_over demo_dialog (SendInfo [HContentType ''application/dtmf-relay''] (dtmf_info_body (CHR ''a'') 90)) (engine_with talking))
      = [] @ [(d, SendInfo hs body)]
    \<and> on_info ''x'' \<lparr>ms_status = 0, ms_headers = hs, ms_body = body\<rparr> (engine_with demo_sip_call)
      = emit_event (EvDtmfReceived ''x'' (to_upper (CHR ''a'')) (clamp_duration 90)) (engine_with demo_sip_call)"
proof -
  have v: "is_dtmf_char (CHR ''a'')" "\<not> valid_pause (CHR ''a'')" by code_simp+
  have s: "send_dtmf_info None ''a'' (CHR ''a'') 90 (engine_with talking)
      = (hand_over demo_dialog (SendInfo [HContentType ''application/dtmf-relay''] (dtmf_info_body (CHR ''a'') 90)) (engine_with talking), Ok ())"
    using v by (simp add: send_dtmf_info_def call_dialog_def or_else_def)
  from dtmf_info_reaches_peer [OF s v(2), of "''x''" 0 "engine_with demo_sip_call"] show ?thesis by simp
qed

definition holder :: sip_call where
  "holder = talking\<lparr>cl_rtp_engine := Some demo_engine\<rparr>"

lemma holder_fields [simp]:
  "cl_state holder = Active" "cl_rtp_engine holder = Some demo_engine" "cl_client_dialog holder = Some demo_dialog"
  "\<not> cl_local_hold holder" "\<not> cl_remote_hold holder"
  by (simp_all add: holder_def talking_def)

lemma demo_engine_addr: "re_local_addr demo_engine = V4 1 4000"
  by (simp add: demo_engine_def engine_new_def engine_config_default_def home_def Let_def)

lemma reinvite_accepted:
  assumes "se_calls e cid = Some c" and "cl_state c \<in> {Active, Hold}" and "call_dialog c = Some d"
  shows "\<exists>e'. send_reinvite (\<lambda>_. Ok None) cid sdp e = (e', Ok ())"
proof -
  have "\<exists>e'. send_reinvite_internal (Ok None) cid sdp e = (e', Ok ())" using assms
    by (simp add: send_reinvite_internal_def reinvite_begin_def reinvite_allowed_def reinvite_result_def Let_def)
  then obtain e' where "send_reinvite_internal (Ok None) cid sdp e = (e', Ok ())" by blast
  then have "reinvite_attempts (Suc n) (\<lambda>_. Ok None) cid sdp e = (e', Ok ())" for n by simp
  then have "reinvite_attempts 3 (\<lambda>_. Ok None) cid sdp e = (e', Ok ())" by (metis eval_nat_numeral(3))
  then show ?thesis using assms(1) by (simp add: send_reinvite_def send_reinvite_with_retry_def)
qed


section \<open>The port search\<close>

theorem port_search_ends_witness: "port_run [TakePort, TakePort, GivePort 10000] (sip_engine_new demo_sip_config) \<noteq> None"
  by (rule port_search_ends) (simp_all add: round_up_even_def)

text \<open>The only port of the range is taken, and is handed out again.\<close>

definition exhausted_engine :: sip_engine where
  "exhausted_engine = (sip_engine_new demo_sip_config)\<lparr>se_allocated_ports := {10000}, se_next_rtp_port := 10000\<rparr>"

theorem port_search_exact_witness:
  "case sip_allocate_rtp_port exhausted_engine of
      Some (e', p) \<Rightarrow> even_port p \<and> round_up_even (sc_rtp_port_start demo_sip_config) \<le> p \<and> p < sc_rtp_port_end demo_sip_config
        \<and> (p \<notin> se_allocated_ports exhausted_engine \<longleftrightarrow> \<not> rtp_range exhausted_engine \<subseteq> se_allocated_ports exhausted_engine)
        \<and> se_allocated_ports e' = insert p (se_allocated_ports exhausted_engine)
    | None \<Rightarrow> False"
proof (rule port_search_exact [where ops = "[TakePort]"])
  have "sip_allocate_rtp_port (sip_engine_new demo_sip_config) = Some (exhausted_engine, 10000)"
    unfolding exhausted_engine_def by (rule only_port) (simp_all add: sip_engine_new_def)
  then show "port_run [TakePort] (sip_engine_new demo_sip_config) = Some exhausted_engine" by simp
qed (simp_all add: round_up_even_def)

section \<open>Registration\<close>

text \<open>A provider whose registrar answers once, and then fails three times.\<close>

definition registrar :: provider_credentials where
  "registrar = \<lparr>pc_id = ''p'', pc_sip_server = ''s'', pc_sip_port = 5060, pc_username = ''u'', pc_password = ''w'',
     pc_realm = None, pc_register = True\<rparr>"

theorem failed_refreshes_unreported_witness:
  "\<exists>e1 rs. length rs = 3 \<and> provider_registration_state ''p'' (refresh_run demo_sip_crates rs ''p'' e1) = Registered
    \<and> se_events (refresh_run demo_sip_crates rs ''p'' e1) = se_events e1"
proof -
  let ?e = "add_provider registrar (sip_engine_new sip_config_default)"
  let ?ok = "RegReply 200 ''200 OK'' None 3600" and ?down = "RegReply 503 ''503'' None 3600"
  obtain e1 where e1: "register_provider demo_sip_crates ?ok ?ok ''p'' ?e = (e1, Ok ())"
    by (simp add: register_provider_def add_provider_def registrar_def demo_sip_crates_def register_reply_def Let_def)
  have p: "se_providers ?e ''p'' = Some registrar" "pc_register registrar"
    by (simp_all add: add_provider_def registrar_def)
  let ?rs = "[(?down, ?ok), (RegError ''timeout'', ?ok), (?down, ?ok)]"
  have "provider_registration_state ''p'' (refresh_run demo_sip_crates ?rs ''p'' e1) = Registered
    \<and> se_events (refresh_run demo_sip_crates ?rs ''p'' e1) = se_events e1
    \<and> (case se_refresh_handles (refresh_run demo_sip_crates ?rs ''p'' e1) ''p'' of
         Some t \<Rightarrow> rf_running t \<and> 10 \<le> rf_interval t \<and> rf_interval t \<le> 60 | None \<Rightarrow> True)"
    by (rule failed_refreshes_unreported [OF e1 p]) (simp_all add: word_le_nat_alt word_less_nat_alt)
  then show ?thesis by (intro exI [of _ e1] exI [of _ ?rs]) simp
qed

end
