(* ===== verification/Nat_Client.thy ===== *)
theory Nat_Client
  imports Nat_Transaction Nat_Stun_Props Nat_Addr
begin

text \<open>
  \<^verbatim>\<open>src/nat/stun/client.rs\<close>: one STUN transaction driven over a UDP socket. What the
  socket does is an argument: whether the first sending succeeds, and the list of what each wait of
  the loop meets. A wait that reaches its deadline is polled \<open>late\<close> nanoseconds after it (a
  timer never fires early). A run returns the datagrams sent, those offered to the caller's
  buffer, and the result, \<open>None\<close> while the loop still waits at the end of the list.
\<close>

datatype client_event =
    Received bytes sock_addr
  | ReceiveFails string
  | Deadline nat "string option"

type_synonym client_net = "string option \<times> client_event list"
type_synonym 'a client_run = "bytes list \<times> (bytes \<times> sock_addr) list \<times> 'a res option"

definition RECV_BUF :: nat where "RECV_BUF = 1500"

definition txn_result :: "stun_transaction \<Rightarrow> stun_message res" where
  "txn_result t = (case tx_response t of
     Some m \<Rightarrow> Ok m
   | None \<Rightarrow> Err (Timeout ''STUN transaction did not complete''))"

definition also_sent :: "bytes \<Rightarrow> 'a client_run \<Rightarrow> 'a client_run" where
  "also_sent b r = (b # fst r, snd r)"

definition also_offered :: "bool \<Rightarrow> bytes \<Rightarrow> sock_addr \<Rightarrow> 'a client_run \<Rightarrow> 'a client_run" where
  "also_offered buffered d src r =
     (fst r, (if buffered then (d, src) # fst (snd r) else fst (snd r)), snd (snd r))"

fun transact :: "(bytes \<Rightarrow> u32) \<Rightarrow> sock_addr \<Rightarrow> bool \<Rightarrow> bool \<Rightarrow> stun_transaction \<Rightarrow> client_event list
    \<Rightarrow> stun_message client_run" where
  "transact crc32 server buffered skip_source t [] =
     ([], [], if next_deadline t = None then Some (txn_result t) else None)"
| "transact crc32 server buffered skip_source t (e # es) =
     (case next_deadline t of
        None \<Rightarrow> ([], [], Some (txn_result t))
      | Some deadline \<Rightarrow>
          (case e of
             Received datagram src \<Rightarrow>
               (let d = take RECV_BUF datagram
                in if \<not> skip_source \<and> src \<noteq> server
                   then also_offered buffered d src (transact crc32 server buffered skip_source t es)
                   else if \<not> is_stun d
                   then also_offered buffered d src (transact crc32 server buffered skip_source t es)
                   else
                     (case unmarshal crc32 d of
                        Ok response \<Rightarrow>
                          (let (t', consumed) = receive_response t response
                           in if consumed then ([], [], Some (txn_result t'))
                              else transact crc32 server buffered skip_source t' es)
                      | _ \<Rightarrow> transact crc32 server buffered skip_source t es))
           | ReceiveFails m \<Rightarrow> ([], [], Some (Err (Io m)))
           | Deadline late failure \<Rightarrow>
               (case txn_poll t (deadline + late) of
                  (t', Retransmit b) \<Rightarrow>
                    (case failure of
                       Some m \<Rightarrow> ([], [], Some (Err (Io m)))
                     | None \<Rightarrow> also_sent b (transact crc32 server buffered skip_source t' es))
                | (t', PollTimedOut) \<Rightarrow> ([], [], Some (Err (Timeout ''STUN transaction timed out'')))
                | (t', _) \<Rightarrow> transact crc32 server buffered skip_source t' es)))"

definition execute_transaction :: "(bytes \<Rightarrow> u32) \<Rightarrow> nat \<Rightarrow> sock_addr \<Rightarrow> stun_message \<Rightarrow> bool \<Rightarrow> bool
    \<Rightarrow> client_net \<Rightarrow> stun_message client_run" where
  "execute_transaction crc32 now server request buffered skip_source net =
     (let t = transaction_new crc32 request now
      in case fst net of
           Some m \<Rightarrow> ([], [], Some (Err (Io m)))
         | None \<Rightarrow> also_sent (tx_request_bytes t)
                     (transact crc32 server buffered skip_source t (snd net)))"

definition map_run :: "('a res \<Rightarrow> 'b res) \<Rightarrow> 'a client_run \<Rightarrow> 'b client_run" where
  "map_run f r = (fst r, fst (snd r), map_option f (snd (snd r)))"

definition mapped_result :: "stun_message res \<Rightarrow> sock_addr res" where
  "mapped_result r = res_bind r (\<lambda>m. case reflexive_address m of
     Some a \<Rightarrow> Ok a
   | None \<Rightarrow> Err (Sip ''STUN response missing mapped address''))"

definition binding_request_full :: "(bytes \<Rightarrow> u32) \<Rightarrow> nat \<Rightarrow> bytes \<Rightarrow> sock_addr \<Rightarrow> client_net \<Rightarrow> stun_message client_run" where
  "binding_request_full crc32 now random_id server net =
     execute_transaction crc32 now server (new_binding_request random_id) False False net"

definition binding_request_on :: "(bytes \<Rightarrow> u32) \<Rightarrow> nat \<Rightarrow> bytes \<Rightarrow> sock_addr \<Rightarrow> client_net \<Rightarrow> sock_addr client_run" where
  "binding_request_on crc32 now random_id server net =
     map_run mapped_result
       (execute_transaction crc32 now server (new_binding_request random_id) False False net)"

definition binding_request_with_change :: "(bytes \<Rightarrow> u32) \<Rightarrow> nat \<Rightarrow> bytes \<Rightarrow> sock_addr \<Rightarrow> bool \<Rightarrow> bool
    \<Rightarrow> client_net \<Rightarrow> stun_message client_run" where
  "binding_request_with_change crc32 now random_id server change_ip change_port net =
     (let request = add_attribute (new_binding_request random_id) (ChangeRequest change_ip change_port);
          skip_source = change_ip \<or> change_port
      in execute_transaction crc32 now server request False skip_source net)"

definition binding_request_shared :: "(bytes \<Rightarrow> u32) \<Rightarrow> nat \<Rightarrow> bytes \<Rightarrow> sock_addr \<Rightarrow> bool \<Rightarrow> client_net
    \<Rightarrow> sock_addr client_run" where
  "binding_request_shared crc32 now random_id server non_stun_buffer net =
     map_run mapped_result
       (execute_transaction crc32 now server (new_binding_request random_id) non_stun_buffer False net)"

text \<open>Binding a fresh socket is an argument, a function of the address given.\<close>

definition stun_binding_request :: "(bytes \<Rightarrow> u32) \<Rightarrow> (string \<Rightarrow> string option) \<Rightarrow> nat \<Rightarrow> bytes \<Rightarrow> sock_addr
    \<Rightarrow> client_net \<Rightarrow> sock_addr client_run" where
  "stun_binding_request crc32 bind_fails now random_id server net =
     (case bind_fails (any_addr (addr_is_ipv6 server)) of
        Some m \<Rightarrow> ([], [], Some (Err (Io m)))
      | None \<Rightarrow> binding_request_on crc32 now random_id server net)"

definition send_keepalive :: "(bytes \<Rightarrow> u32) \<Rightarrow> bytes \<Rightarrow> string option \<Rightarrow> bytes list \<times> unit res" where
  "send_keepalive crc32 random_id failure =
     (case failure of
        Some m \<Rightarrow> ([], Err (Io m))
      | None \<Rightarrow> ([marshal crc32 (new_binding_indication random_id)], Ok ()))"

section \<open>One transaction\<close>

lemma run_parts [simp]:
  "snd (snd (also_sent b r)) = snd (snd r)" "fst (also_sent b r) = b # fst r"
  "snd (snd (also_offered o' d a r)) = snd (snd r)" "fst (also_offered o' d a r) = fst r"
  "snd (snd (map_run f q)) = map_option f (snd (snd q))"
  by (simp_all add: also_sent_def also_offered_def map_run_def)

text \<open>What the transaction of a loop keeps while it waits.\<close>

definition txn_live :: "stun_message \<Rightarrow> bytes \<Rightarrow> stun_transaction \<Rightarrow> bool" where
  "txn_live request b t = (tx_state t = Waiting \<and> tx_id t = sm_transaction_id request
     \<and> tx_request_bytes t = b \<and> tx_retransmit_count t \<le> MAX_RETRANSMITS \<and> tx_response t = None)"

lemma txn_live_new [simp]:
  "txn_live request (marshal crc32 request) (transaction_new crc32 request now)"
  by (simp add: txn_live_def transaction_new_def)

lemma live_deadline [simp]: "txn_live q b t \<Longrightarrow> next_deadline t = Some (tx_retransmit_at t)"
  by (simp add: txn_live_def next_deadline_def)

lemma live_poll:
  assumes "txn_live q b t"
  shows "txn_poll t (tx_retransmit_at t + late) =
    (if tx_retransmit_count t \<ge> MAX_RETRANSMITS then (t\<lparr>tx_state := TimedOut\<rparr>, PollTimedOut)
     else (t\<lparr>tx_retransmit_count := tx_retransmit_count t + 1, tx_rto := tx_rto t * 2,
             tx_retransmit_at := tx_retransmit_at t + late + tx_rto t * 2\<rparr>, Retransmit b))"
  using assms by (simp add: txn_live_def txn_poll_def Let_def)

lemma live_retransmit:
  assumes "txn_live q b t" and "tx_retransmit_count t < MAX_RETRANSMITS"
  shows "txn_live q b (t\<lparr>tx_retransmit_count := tx_retransmit_count t + 1, tx_rto := x,
    tx_retransmit_at := y\<rparr>)"
  using assms by (simp add: txn_live_def)

lemma live_response:
  assumes "txn_live q b t"
  shows "receive_response t m =
    (if sm_transaction_id m = sm_transaction_id q
     then (t\<lparr>tx_state := Completed, tx_response := Some m\<rparr>, True) else (t, False))"
  using assms by (simp add: txn_live_def receive_response_def)

definition answers :: "(bytes \<Rightarrow> u32) \<Rightarrow> sock_addr \<Rightarrow> bool \<Rightarrow> stun_message \<Rightarrow> stun_message \<Rightarrow> client_event \<Rightarrow> bool" where
  "answers crc32 server skip_source q m e = (case e of
     Received d src \<Rightarrow> (skip_source \<or> src = server) \<and> is_stun (take RECV_BUF d)
       \<and> unmarshal crc32 (take RECV_BUF d) = Ok m \<and> sm_transaction_id m = sm_transaction_id q
   | _ \<Rightarrow> False)"

text \<open>One step of the loop on a live transaction.\<close>

lemma transact_received:
  assumes "txn_live q b t"
  shows "transact crc32 server buffered skip t (Received d src # es) =
    (if \<exists>m. answers crc32 server skip q m (Received d src)
     then ([], [], Some (Ok (THE m. unmarshal crc32 (take RECV_BUF d) = Ok m)))
     else if (skip \<or> src = server) \<and> is_stun (take RECV_BUF d) then transact crc32 server buffered skip t es
     else also_offered buffered (take RECV_BUF d) src (transact crc32 server buffered skip t es))"
  using assms
  by (cases "unmarshal crc32 (take RECV_BUF d)")
     (auto simp: answers_def Let_def live_response txn_result_def)

lemma transact_deadline:
  assumes "txn_live q b t"
  shows "transact crc32 server buffered skip t (Deadline late failure # es) =
    (if tx_retransmit_count t \<ge> MAX_RETRANSMITS
     then ([], [], Some (Err (Timeout ''STUN transaction timed out'')))
     else case failure of
       Some m \<Rightarrow> ([], [], Some (Err (Io m)))
     | None \<Rightarrow> also_sent b (transact crc32 server buffered skip
         (t\<lparr>tx_retransmit_count := tx_retransmit_count t + 1, tx_rto := tx_rto t * 2,
            tx_retransmit_at := tx_retransmit_at t + late + tx_rto t * 2\<rparr>) es))"
  using assms by (auto simp: live_poll split: option.split)

lemma transact_fails:
  "txn_live q b t \<Longrightarrow> transact crc32 server buffered skip t (ReceiveFails m # es) = ([], [], Some (Err (Io m)))"
  by simp

lemma transact_waiting:
  "txn_live q b t \<Longrightarrow> transact crc32 server buffered skip t [] = ([], [], None)"
  by simp

declare transact.simps [simp del]

fun deadlines :: "client_event list \<Rightarrow> nat" where
  "deadlines [] = 0"
| "deadlines (Deadline _ _ # es) = Suc (deadlines es)"
| "deadlines (e # es) = deadlines es"

lemma transact_facts:
  assumes "txn_live q b t"
  shows "(snd (snd (transact crc32 server buffered skip t es)) = Some (Ok m)
      \<longrightarrow> (\<exists>e \<in> set es. answers crc32 server skip q m e))
    \<and> (MAX_RETRANSMITS < tx_retransmit_count t + deadlines es
      \<longrightarrow> snd (snd (transact crc32 server buffered skip t es)) \<noteq> None)
    \<and> set (fst (transact crc32 server buffered skip t es)) \<subseteq> {b}
    \<and> tx_retransmit_count t + length (fst (transact crc32 server buffered skip t es)) \<le> MAX_RETRANSMITS"
  using assms
proof (induction es arbitrary: t)
  case Nil
  then show ?case by (simp add: transact_waiting) (simp add: txn_live_def)
next
  case (Cons e es)
  have le: "tx_retransmit_count t \<le> MAX_RETRANSMITS" using Cons.prems by (simp add: txn_live_def)
  show ?case
  proof (cases e)
    case (Received d src)
    show ?thesis
    proof (cases "\<exists>m'. answers crc32 server skip q m' e")
      case True
      then obtain m' where m': "answers crc32 server skip q m' (Received d src)" using Received by auto
      then have u: "unmarshal crc32 (take RECV_BUF d) = Ok m'" by (simp add: answers_def)
      have "transact crc32 server buffered skip t (e # es) = ([], [], Some (Ok m'))"
        using True u by (simp add: Received transact_received [OF Cons.prems])
      with m' le show ?thesis by (auto simp: Received)
    next
      case False
      then show ?thesis
        using Cons.IH [OF Cons.prems] by (auto simp: Received transact_received [OF Cons.prems])
    qed
  next
    case (ReceiveFails x)
    then show ?thesis using le by (simp add: transact_fails [OF Cons.prems])
  next
    case (Deadline late failure)
    show ?thesis
    proof (cases "tx_retransmit_count t < MAX_RETRANSMITS \<and> failure = None")
      case True
      then show ?thesis
        using Cons.IH [OF live_retransmit [OF Cons.prems, where x = "tx_rto t * 2"
            and y = "tx_retransmit_at t + late + tx_rto t * 2"]]
        by (auto simp: Deadline transact_deadline [OF Cons.prems])
    next
      case False
      then show ?thesis using le
        by (auto simp: Deadline transact_deadline [OF Cons.prems] split: option.split)
    qed
  qed
qed

lemmas client_run_defs = execute_transaction_def binding_request_full_def binding_request_on_def
  binding_request_with_change_def binding_request_shared_def Let_def

lemma execute_facts:
  "(snd (snd (execute_transaction crc32 now server q buffered skip net)) = Some (Ok m)
      \<longrightarrow> (\<exists>e \<in> set (snd net). answers crc32 server skip q m e))
    \<and> (8 \<le> deadlines (snd net) \<longrightarrow> snd (snd (execute_transaction crc32 now server q buffered skip net)) \<noteq> None)
    \<and> set (fst (execute_transaction crc32 now server q buffered skip net)) \<subseteq> {marshal crc32 q}
    \<and> length (fst (execute_transaction crc32 now server q buffered skip net)) \<le> 8"
proof (cases "fst net")
  case None
  have "tx_retransmit_count (transaction_new crc32 q now) = 0"
    "tx_request_bytes (transaction_new crc32 q now) = marshal crc32 q"
    by (simp_all add: transaction_new_def)
  with transact_facts [OF txn_live_new [of q crc32 now], of crc32 server buffered skip "snd net" m]
  show ?thesis by (simp add: None execute_transaction_def Let_def MAX_RETRANSMITS_def)
qed (simp add: execute_transaction_def Let_def)

text \<open>The answer of a transaction, when a wait brings the first one.\<close>

lemma execute_answered:
  assumes "answers crc32 server skip q m e"
  shows "snd (snd (execute_transaction crc32 now server q buffered skip (None, e # es))) = Some (Ok m)"
proof -
  obtain d src where e: "e = Received d src" and u: "unmarshal crc32 (take RECV_BUF d) = Ok m"
    using assms by (cases e) (auto simp: answers_def)
  show ?thesis
    using assms u
    by (auto simp: execute_transaction_def e Let_def transact_received [OF txn_live_new])
qed

text \<open>The waits of a transaction nobody answers.\<close>

definition no_answer :: "client_event list" where
  "no_answer = replicate (Suc MAX_RETRANSMITS) (Deadline 0 None)"

lemma transact_unanswered:
  assumes "txn_live q b t" and "n + tx_retransmit_count t = MAX_RETRANSMITS"
  shows "snd (snd (transact crc32 server buffered skip t (replicate (Suc n) (Deadline 0 None))))
    = Some (Err (Timeout ''STUN transaction timed out''))"
  using assms
proof (induction n arbitrary: t)
  case 0
  then show ?case by (simp add: transact_deadline [OF 0(1)])
next
  case (Suc n)
  then have lt: "tx_retransmit_count t < MAX_RETRANSMITS" by simp
  show ?case
    using Suc.IH [OF live_retransmit [OF Suc.prems(1) lt, where x = "tx_rto t * 2"
        and y = "tx_retransmit_at t + 0 + tx_rto t * 2"]]
      Suc.prems lt
    by (simp add: transact_deadline [OF Suc.prems(1)])
qed

lemma execute_unanswered:
  "snd (snd (execute_transaction crc32 now server q buffered skip (None, no_answer)))
   = Some (Err (Timeout ''STUN transaction timed out''))"
  using transact_unanswered [OF txn_live_new, of MAX_RETRANSMITS]
  by (simp add: execute_transaction_def no_answer_def transaction_new_def)


end
