(* ===== verification/Nat_Pool.thy ===== *)
theory Nat_Pool
  imports Nat_Client Rtp_Float "HOL-Library.Product_Lexorder"
begin

text \<open>
  \<^verbatim>\<open>src/nat/stun/pool.rs\<close>: several STUN servers with their health, tried in the order of their
  health and speed. The network of an attempt is an argument (\<open>pool_attempt\<close>): when it starts, how
  long it takes, and what its socket meets within the half second an attempt may take. Instants and
  durations are nanoseconds.
\<close>

definition ATTEMPT_TIMEOUT :: nat where "ATTEMPT_TIMEOUT = 500000000"
definition UNHEALTHY_THRESHOLD :: u32 where "UNHEALTHY_THRESHOLD = 3"
definition PROBE_INTERVAL :: nat where "PROBE_INTERVAL = 30000000000"

record server_health =
  sh_addr :: sock_addr
  sh_failure_count :: u32
  sh_last_success :: "nat option"
  sh_avg_response_us :: "u64 option"
  sh_last_probe :: "nat option"

definition health_new :: "sock_addr \<Rightarrow> server_health" where
  "health_new addr = \<lparr>sh_addr = addr, sh_failure_count = 0, sh_last_success = None,
     sh_avg_response_us = None, sh_last_probe = None\<rparr>"

definition is_healthy :: "server_health \<Rightarrow> bool" where
  "is_healthy s = (sh_failure_count s < UNHEALTHY_THRESHOLD)"

definition health_success :: "nat \<Rightarrow> nat \<Rightarrow> server_health \<Rightarrow> server_health" where
  "health_success now response_time s =
     (let rtt_us = of_nat (response_time div 1000)
      in s\<lparr>sh_failure_count := 0, sh_last_success := Some now, sh_last_probe := Some now,
           sh_avg_response_us := Some (case sh_avg_response_us s of
             Some prev \<Rightarrow> (prev * 7 + rtt_us) div 8 | None \<Rightarrow> rtt_us)\<rparr>)"

definition health_failure :: "nat \<Rightarrow> server_health \<Rightarrow> server_health" where
  "health_failure now s =
     s\<lparr>sh_failure_count := sat_add (sh_failure_count s) 1, sh_last_probe := Some now\<rparr>"

definition should_probe :: "nat \<Rightarrow> server_health \<Rightarrow> bool" where
  "should_probe now s =
     (if is_healthy s then False
      else case sh_last_probe s of Some probed \<Rightarrow> now - probed \<ge> PROBE_INTERVAL | None \<Rightarrow> True)"

definition health_key :: "server_health \<Rightarrow> byte \<times> u64" where
  "health_key s = (if is_healthy s then 0 else 1, case sh_avg_response_us s of Some r \<Rightarrow> r | None \<Rightarrow> - 1)"

type_synonym server_pool = "server_health list"

definition pool_new :: "sock_addr list \<Rightarrow> server_pool res" where
  "pool_new servers = (if servers = [] then Panic else Ok (map health_new servers))"

definition servers_by_priority :: "server_pool \<Rightarrow> sock_addr list" where
  "servers_by_priority p = map sh_addr (sort_key health_key p)"

text \<open>\<^verbatim>\<open>min_by_key\<close> returns the first of the smallest elements.\<close>

fun min_by_key :: "('a \<Rightarrow> 'k :: linorder) \<Rightarrow> 'a list \<Rightarrow> 'a option" where
  "min_by_key f [] = None"
| "min_by_key f (x # xs) = (case min_by_key f xs of
     None \<Rightarrow> Some x | Some y \<Rightarrow> if f y < f x then Some y else Some x)"

definition best_server :: "server_pool \<Rightarrow> sock_addr option" where
  "best_server p = map_option sh_addr (min_by_key health_key (filter is_healthy p))"

text \<open>A change goes to the first entry of an address.\<close>

fun with_server :: "sock_addr \<Rightarrow> (server_health \<Rightarrow> server_health) \<Rightarrow> server_pool \<Rightarrow> server_pool" where
  "with_server a f [] = []"
| "with_server a f (s # ss) = (if sh_addr s = a then f s # ss else s # with_server a f ss)"

definition record_success :: "nat \<Rightarrow> sock_addr \<Rightarrow> nat \<Rightarrow> server_pool \<Rightarrow> server_pool" where
  "record_success now a response_time = with_server a (health_success now response_time)"

definition record_failure :: "nat \<Rightarrow> sock_addr \<Rightarrow> server_pool \<Rightarrow> server_pool" where
  "record_failure now a = with_server a (health_failure now)"

record pool_attempt =
  pa_start :: nat
  pa_elapsed :: nat
  pa_random_id :: bytes
  pa_net :: client_net

definition server_timed_out :: "sock_addr \<Rightarrow> rtpsip_error" where
  "server_timed_out a = Timeout (''STUN server '' @ show_sock a @ '' timed out'')"

text \<open>The request to one server under the timeout of an attempt.\<close>

definition attempt_result :: "(bytes \<Rightarrow> u32) \<Rightarrow> sock_addr \<Rightarrow> pool_attempt \<Rightarrow> sock_addr res option" where
  "attempt_result crc32 a pa =
     (if ATTEMPT_TIMEOUT \<le> pa_elapsed pa then None
      else snd (snd (binding_request_on crc32 (pa_start pa) (pa_random_id pa) a (pa_net pa))))"

fun try_servers :: "(bytes \<Rightarrow> u32) \<Rightarrow> bool \<Rightarrow> (sock_addr \<Rightarrow> pool_attempt) \<Rightarrow> sock_addr list
    \<Rightarrow> rtpsip_error option \<Rightarrow> server_pool \<Rightarrow> server_pool \<times> sock_addr res" where
  "try_servers crc32 ipv6 net [] last_err p =
     (p, Err (case last_err of Some e \<Rightarrow> e
              | None \<Rightarrow> Timeout ''All STUN servers failed or unreachable''))"
| "try_servers crc32 ipv6 net (a # as) last_err p =
     (if addr_is_ipv6 a \<noteq> ipv6 then try_servers crc32 ipv6 net as last_err p
      else
        (let now = pa_start (net a) + pa_elapsed (net a)
         in case attempt_result crc32 a (net a) of
              Some (Ok reflexive) \<Rightarrow> (record_success now a (pa_elapsed (net a)) p, Ok reflexive)
            | Some (Err e) \<Rightarrow> try_servers crc32 ipv6 net as (Some e) (record_failure now a p)
            | Some Panic \<Rightarrow> (p, Panic)
            | None \<Rightarrow> try_servers crc32 ipv6 net as (Some (server_timed_out a)) (record_failure now a p)))"

definition pool_request_on :: "(bytes \<Rightarrow> u32) \<Rightarrow> sock_addr option \<Rightarrow> (sock_addr \<Rightarrow> pool_attempt)
    \<Rightarrow> server_pool \<Rightarrow> server_pool \<times> sock_addr res" where
  "pool_request_on crc32 local_addr net p =
     (let ordered = servers_by_priority p
      in if ordered = [] then (p, Err (Config ''No STUN servers in pool''))
         else try_servers crc32 (case local_addr of Some a \<Rightarrow> addr_is_ipv6 a | None \<Rightarrow> False) net ordered None p)"

text \<open>Binding a socket to an address gives the local address of the socket or fails.\<close>

definition pool_bind_addr :: "server_pool \<Rightarrow> string" where
  "pool_bind_addr p = any_addr (case best_server p of Some a \<Rightarrow> addr_is_ipv6 a | None \<Rightarrow> False)"

definition pool_request :: "(bytes \<Rightarrow> u32) \<Rightarrow> (string \<Rightarrow> string + sock_addr option) \<Rightarrow> (sock_addr \<Rightarrow> pool_attempt)
    \<Rightarrow> server_pool \<Rightarrow> server_pool \<times> sock_addr res" where
  "pool_request crc32 bind_to net p =
     (case bind_to (pool_bind_addr p) of
        Inl m \<Rightarrow> (p, Err (Io m))
      | Inr local_addr \<Rightarrow> pool_request_on crc32 local_addr net p)"

definition probe_result :: "(bytes \<Rightarrow> u32) \<Rightarrow> (string \<Rightarrow> string option) \<Rightarrow> sock_addr \<Rightarrow> pool_attempt
    \<Rightarrow> sock_addr res option" where
  "probe_result crc32 bind_fails a pa =
     (if ATTEMPT_TIMEOUT \<le> pa_elapsed pa then None
      else snd (snd (stun_binding_request crc32 bind_fails (pa_start pa) (pa_random_id pa) a (pa_net pa))))"

fun probe_servers :: "(bytes \<Rightarrow> u32) \<Rightarrow> (string \<Rightarrow> string option) \<Rightarrow> (sock_addr \<Rightarrow> pool_attempt)
    \<Rightarrow> sock_addr list \<Rightarrow> server_pool \<Rightarrow> server_pool" where
  "probe_servers crc32 bind_fails net [] p = p"
| "probe_servers crc32 bind_fails net (a # as) p =
     (let now = pa_start (net a) + pa_elapsed (net a)
      in probe_servers crc32 bind_fails net as
           (case probe_result crc32 bind_fails a (net a) of
              Some (Ok _) \<Rightarrow> record_success now a (pa_elapsed (net a)) p
            | _ \<Rightarrow> record_failure now a p))"

definition probe_unhealthy :: "(bytes \<Rightarrow> u32) \<Rightarrow> (string \<Rightarrow> string option) \<Rightarrow> nat \<Rightarrow> (sock_addr \<Rightarrow> pool_attempt)
    \<Rightarrow> server_pool \<Rightarrow> server_pool" where
  "probe_unhealthy crc32 bind_fails now net p =
     probe_servers crc32 bind_fails net (map sh_addr (filter (should_probe now) p)) p"

text \<open>The probe task: one entry for each tick of the interval after the first, until its handle is
  dropped.\<close>

fun probe_task :: "(bytes \<Rightarrow> u32) \<Rightarrow> (string \<Rightarrow> string option) \<Rightarrow> (nat \<times> (sock_addr \<Rightarrow> pool_attempt)) option list
    \<Rightarrow> server_pool \<Rightarrow> server_pool" where
  "probe_task crc32 bind_fails [] p = p"
| "probe_task crc32 bind_fails (None # ticks) p = p"
| "probe_task crc32 bind_fails (Some (now, net) # ticks) p =
     probe_task crc32 bind_fails ticks (probe_unhealthy crc32 bind_fails now net p)"

record server_stats =
  ss_addr :: sock_addr
  ss_healthy :: bool
  ss_failure_count :: u32
  ss_avg_response_ms :: "rat option"

definition pool_stats :: "server_pool \<Rightarrow> server_stats list" where
  "pool_stats p = map (\<lambda>s. \<lparr>ss_addr = sh_addr s, ss_healthy = is_healthy s,
     ss_failure_count = sh_failure_count s,
     ss_avg_response_ms = map_option (\<lambda>us. f64_div (f64_of_int (uint us)) 1000) (sh_avg_response_us s)\<rparr>) p"

end
