(* ===== verification/Nat_Detect.thy ===== *)
theory Nat_Detect
  imports Nat_Client Nat_Demux
begin

text \<open>
  \<^verbatim>\<open>src/nat/detect.rs\<close> and \<^verbatim>\<open>src/nat/hole_punch.rs\<close>: the four tests that classify a NAT, and
  the packets that open a pinhole. The socket (bound, and its local address) and what it meets in
  each test are arguments; \<open>None\<close> is a detection that still waits for the network.
\<close>

section \<open>Detection\<close>

definition detect_bind_addr :: "sock_addr \<Rightarrow> string" where
  "detect_bind_addr primary_server = any_addr (addr_is_ipv6 primary_server)"

definition same_endpoint :: "sock_addr \<Rightarrow> sock_addr \<Rightarrow> bool" where
  "same_endpoint a b = (sock_ip a = sock_ip b \<and> sock_port a = sock_port b)"

text \<open>Test IV: only the port of the server changes.\<close>

definition detect_test4 :: "(bytes \<Rightarrow> u32) \<Rightarrow> (nat \<Rightarrow> nat) \<Rightarrow> (nat \<Rightarrow> bytes) \<Rightarrow> sock_addr \<Rightarrow> (nat \<Rightarrow> client_net)
    \<Rightarrow> sock_addr \<Rightarrow> (nat_type \<times> sock_addr) res option" where
  "detect_test4 crc32 clock ids server nets reflexive =
     (case snd (snd (binding_request_with_change crc32 (clock 3) (ids 3) server False True (nets 3))) of
        None \<Rightarrow> None
      | Some (Ok response) \<Rightarrow> Some (Ok (RestrictedCone, reflexive))
      | Some (Err e) \<Rightarrow> Some (Ok (PortRestrictedCone, reflexive))
      | Some Panic \<Rightarrow> Some Panic)"

text \<open>Test III: the alternate server of the first response.\<close>

definition detect_test3 :: "(bytes \<Rightarrow> u32) \<Rightarrow> (nat \<Rightarrow> nat) \<Rightarrow> (nat \<Rightarrow> bytes) \<Rightarrow> sock_addr \<Rightarrow> (nat \<Rightarrow> client_net)
    \<Rightarrow> sock_addr \<Rightarrow> sock_addr option \<Rightarrow> (nat_type \<times> sock_addr) res option" where
  "detect_test3 crc32 clock ids server nets reflexive changed =
     (case changed of
        None \<Rightarrow> detect_test4 crc32 clock ids server nets reflexive
      | Some changed_addr \<Rightarrow>
          (case snd (snd (binding_request_on crc32 (clock 2) (ids 2) changed_addr (nets 2))) of
             None \<Rightarrow> None
           | Some (Ok test3_reflexive) \<Rightarrow>
               if test3_reflexive \<noteq> reflexive then Some (Ok (Symmetric, reflexive))
               else detect_test4 crc32 clock ids server nets reflexive
           | Some (Err e) \<Rightarrow> detect_test4 crc32 clock ids server nets reflexive
           | Some Panic \<Rightarrow> Some Panic))"

text \<open>Test II: the address and the port of the server change.\<close>

definition detect_test2 :: "(bytes \<Rightarrow> u32) \<Rightarrow> (nat \<Rightarrow> nat) \<Rightarrow> (nat \<Rightarrow> bytes) \<Rightarrow> sock_addr \<Rightarrow> (nat \<Rightarrow> client_net)
    \<Rightarrow> sock_addr \<Rightarrow> sock_addr option \<Rightarrow> (nat_type \<times> sock_addr) res option" where
  "detect_test2 crc32 clock ids server nets reflexive changed =
     (case snd (snd (binding_request_with_change crc32 (clock 1) (ids 1) server True True (nets 1))) of
        None \<Rightarrow> None
      | Some (Ok response) \<Rightarrow> Some (Ok (FullCone, reflexive))
      | Some (Err e) \<Rightarrow> detect_test3 crc32 clock ids server nets reflexive changed
      | Some Panic \<Rightarrow> Some Panic)"

definition detect_nat :: "(bytes \<Rightarrow> u32) \<Rightarrow> (nat \<Rightarrow> nat) \<Rightarrow> (nat \<Rightarrow> bytes) \<Rightarrow> (string \<Rightarrow> sock_addr res) \<Rightarrow> sock_addr
    \<Rightarrow> (nat \<Rightarrow> client_net) \<Rightarrow> (nat_type \<times> sock_addr) res option" where
  "detect_nat crc32 clock ids bind_to server nets =
     (case bind_to (detect_bind_addr server) of
        Err e \<Rightarrow> Some (Err e)
      | Panic \<Rightarrow> Some Panic
      | Ok local_addr \<Rightarrow>
          (case snd (snd (binding_request_full crc32 (clock 0) (ids 0) server (nets 0))) of
             None \<Rightarrow> None
           | Some (Err e) \<Rightarrow> Some (Ok (Unknown_Nat, local_addr))
           | Some Panic \<Rightarrow> Some Panic
           | Some (Ok response) \<Rightarrow>
               (case reflexive_address response of
                  None \<Rightarrow> Some (Ok (Unknown_Nat, local_addr))
                | Some reflexive \<Rightarrow>
                    if same_endpoint reflexive local_addr then Some (Ok (Open_Nat, reflexive))
                    else detect_test2 crc32 clock ids server nets reflexive (changed_address response))))"

definition quick_reflexive :: "(bytes \<Rightarrow> u32) \<Rightarrow> (string \<Rightarrow> string option) \<Rightarrow> nat \<Rightarrow> bytes \<Rightarrow> sock_addr \<Rightarrow> client_net
    \<Rightarrow> sock_addr res option" where
  "quick_reflexive crc32 bind_fails now random_id server net =
     snd (snd (stun_binding_request crc32 bind_fails now random_id server net))"

lemma same_endpoint_iff [simp]: "same_endpoint a b \<longleftrightarrow> a = b"
  by (cases a; cases b) (auto simp: same_endpoint_def)

section \<open>Hole punching\<close>

definition DEFAULT_HOLE_PUNCH_COUNT :: nat where "DEFAULT_HOLE_PUNCH_COUNT = 3"
definition DEFAULT_HOLE_PUNCH_INTERVAL :: nat where "DEFAULT_HOLE_PUNCH_INTERVAL = 20000000"

datatype punch_action = PunchSend sock_addr bytes | PunchSleep nat

text \<open>The loop from packet \<open>i\<close> on, with \<open>left\<close> packets to send.\<close>

fun punch_from :: "(bytes \<Rightarrow> u32) \<Rightarrow> (nat \<Rightarrow> bytes) \<Rightarrow> (nat \<Rightarrow> string option) \<Rightarrow> sock_addr \<Rightarrow> nat \<Rightarrow> nat \<Rightarrow> nat
    \<Rightarrow> punch_action list \<times> unit res" where
  "punch_from crc32 ids fails target interval i 0 = ([], Ok ())"
| "punch_from crc32 ids fails target interval i (Suc left) =
     (case fails i of
        Some m \<Rightarrow> ([], Err (Io m))
      | None \<Rightarrow>
          (let send = PunchSend target (marshal crc32 (new_binding_request (ids i)));
               pause = (if left > 0 then [PunchSleep interval] else []);
               (actions, r) = punch_from crc32 ids fails target interval (i + 1) left
           in (send # pause @ actions, r)))"

definition punch :: "(bytes \<Rightarrow> u32) \<Rightarrow> (nat \<Rightarrow> bytes) \<Rightarrow> (nat \<Rightarrow> string option) \<Rightarrow> sock_addr \<Rightarrow> nat \<Rightarrow> nat
    \<Rightarrow> punch_action list \<times> unit res" where
  "punch crc32 ids fails target count interval = punch_from crc32 ids fails target interval 0 count"

end
