(* ===== verification/Nat_Keepalive.thy ===== *)
theory Nat_Keepalive
  imports Nat_Client Rtp_Float
begin

text \<open>
  \<^verbatim>\<open>src/nat/keepalive.rs\<close>: the periodic STUN request that keeps a NAT binding alive, with an
  interval that adapts to rebindings. The background task is the two steps its loop repeats: the
  wait it chooses, and what it does after the wait. Durations are nanoseconds; \<^verbatim>\<open>Duration\<close>'s
  conversions to and from \<^verbatim>\<open>f64\<close> are those of the standard library, below the 2 ^ 64 seconds at
  which they panic.
\<close>

definition nanos :: "nat \<Rightarrow> nat" where "nanos seconds = seconds * 1000000000"

definition mul_f64 :: "nat \<Rightarrow> rat \<Rightarrow> nat" where
  "mul_f64 d x = from_secs_f64 (f64_mul x (as_secs_f64 d))"

definition DEFAULT_KEEPALIVE_MIN_SECS :: nat where "DEFAULT_KEEPALIVE_MIN_SECS = 15"
definition DEFAULT_KEEPALIVE_MAX_SECS :: nat where "DEFAULT_KEEPALIVE_MAX_SECS = 25"
definition ADAPTIVE_MIN_INTERVAL_SECS :: nat where "ADAPTIVE_MIN_INTERVAL_SECS = 5"
definition STABLE_THRESHOLD :: nat where "STABLE_THRESHOLD = 10"

record nat_keepalive =
  ka_stun_server :: sock_addr
  ka_min_interval :: nat
  ka_max_interval :: nat
  ka_running :: bool
  ka_effective_min :: nat
  ka_rebind_occurred :: bool
  ka_stable_since_rebind :: nat
  ka_task_handle :: bool

text \<open>The local variables of the task.\<close>

record keepalive_task =
  kt_last_reflexive :: "sock_addr option"
  kt_stable_count :: nat

definition keepalive_new :: "sock_addr \<Rightarrow> nat \<Rightarrow> nat \<Rightarrow> nat_keepalive" where
  "keepalive_new stun_server min_interval max_interval =
     \<lparr>ka_stun_server = stun_server, ka_min_interval = min_interval, ka_max_interval = max_interval,
      ka_running = False, ka_effective_min = min_interval, ka_rebind_occurred = False,
      ka_stable_since_rebind = 0, ka_task_handle = False\<rparr>"

definition keepalive_start :: "nat_keepalive \<Rightarrow> nat_keepalive \<times> keepalive_task" where
  "keepalive_start k =
     (k\<lparr>ka_running := True, ka_task_handle := True\<rparr>, \<lparr>kt_last_reflexive = None, kt_stable_count = 0\<rparr>)"

definition keepalive_stop :: "nat_keepalive \<Rightarrow> nat_keepalive" where
  "keepalive_stop k = k\<lparr>ka_running := False\<rparr>"

definition keepalive_drop :: "nat_keepalive \<Rightarrow> nat_keepalive" where
  "keepalive_drop k = (keepalive_stop k)\<lparr>ka_task_handle := False\<rparr>"

definition halved_interval :: "nat \<Rightarrow> nat" where
  "halved_interval eff = max (eff div 2) (nanos ADAPTIVE_MIN_INTERVAL_SECS)"

definition grown_interval :: "nat_keepalive \<Rightarrow> nat" where
  "grown_interval k = min (mul_f64 (ka_effective_min k) (5 / 4)) (ka_max_interval k)"

definition notify_rebinding :: "nat_keepalive \<Rightarrow> nat_keepalive" where
  "notify_rebinding k =
     k\<lparr>ka_effective_min := halved_interval (ka_effective_min k), ka_rebind_occurred := True,
       ka_stable_since_rebind := 0\<rparr>"

definition notify_stable :: "nat_keepalive \<Rightarrow> nat_keepalive" where
  "notify_stable k =
     (if \<not> ka_rebind_occurred k then k
      else
        (let count = ka_stable_since_rebind k + 1
         in if count \<ge> STABLE_THRESHOLD
            then k\<lparr>ka_effective_min := grown_interval k, ka_stable_since_rebind := 0\<rparr>
            else k\<lparr>ka_stable_since_rebind := count\<rparr>))"

text \<open>The head of the loop: how long the task sleeps, unless it has been stopped.\<close>

definition keepalive_wait :: "nat_keepalive \<Rightarrow> rat \<Rightarrow> nat option" where
  "keepalive_wait k random =
     (if \<not> ka_running k then None
      else
        (let min_secs = as_secs_f64 (ka_effective_min k); max_secs = as_secs_f64 (ka_max_interval k)
         in Some (from_secs_f64 (f64_add min_secs (f64_mul random (max (f64_sub max_secs min_secs) 0))))))"

text \<open>What the task does with a reflexive address; the address it reports on the channel.\<close>

definition saw_rebinding :: "nat_keepalive \<Rightarrow> keepalive_task \<Rightarrow> nat_keepalive \<times> keepalive_task" where
  "saw_rebinding k t =
     (k\<lparr>ka_effective_min := halved_interval (ka_effective_min k), ka_stable_since_rebind := 0,
        ka_rebind_occurred := True\<rparr>,
      t\<lparr>kt_stable_count := 0\<rparr>)"

definition saw_stability :: "nat_keepalive \<Rightarrow> keepalive_task \<Rightarrow> nat_keepalive \<times> keepalive_task" where
  "saw_stability k t =
     (if \<not> ka_rebind_occurred k then (k, t)
      else
        (let stable_count = kt_stable_count t + 1
         in if stable_count \<ge> STABLE_THRESHOLD
            then (k\<lparr>ka_effective_min := grown_interval k, ka_stable_since_rebind := 0\<rparr>, t\<lparr>kt_stable_count := 0\<rparr>)
            else (k\<lparr>ka_stable_since_rebind := stable_count\<rparr>, t\<lparr>kt_stable_count := stable_count\<rparr>)))"

definition saw_address :: "sock_addr \<Rightarrow> nat_keepalive \<Rightarrow> keepalive_task
    \<Rightarrow> (nat_keepalive \<times> keepalive_task) \<times> sock_addr option" where
  "saw_address reflexive k t =
     (let (kt, report) = (case kt_last_reflexive t of
            None \<Rightarrow> ((k, t), None)
          | Some prev \<Rightarrow> if prev \<noteq> reflexive then (saw_rebinding k t, Some reflexive)
                         else (saw_stability k t, None))
      in ((fst kt, (snd kt)\<lparr>kt_last_reflexive := Some reflexive\<rparr>), report))"

text \<open>The rest of the loop: \<open>None\<close> ends the task. A binding request that is still waiting for the
  network leaves the state alone; one that fails is followed by a binding indication.\<close>

definition keepalive_round :: "(bytes \<Rightarrow> u32) \<Rightarrow> nat \<Rightarrow> (nat \<Rightarrow> bytes) \<Rightarrow> client_net \<Rightarrow> string option
    \<Rightarrow> nat_keepalive \<Rightarrow> keepalive_task
    \<Rightarrow> ((nat_keepalive \<times> keepalive_task) \<times> sock_addr option \<times> bytes list) option" where
  "keepalive_round crc32 now ids net failure k t =
     (if \<not> ka_running k then None
      else
        (let (sent, offered, result) = binding_request_on crc32 now (ids 0) (ka_stun_server k) net
         in case result of
              None \<Rightarrow> Some ((k, t), None, sent)
            | Some (Ok reflexive) \<Rightarrow>
                (let (kt, report) = saw_address reflexive k t in Some (kt, report, sent))
            | Some _ \<Rightarrow> Some ((k, t), None, sent @ fst (send_keepalive crc32 (ids 1) failure))))"

section \<open>Adaptation\<close>

lemma nine_stable:
  assumes "ka_rebind_occurred k" and "ka_stable_since_rebind k + n < STABLE_THRESHOLD"
  shows "(notify_stable ^^ n) k = k\<lparr>ka_stable_since_rebind := ka_stable_since_rebind k + n\<rparr>"
  using assms by (induction n) (auto simp: notify_stable_def Let_def)

text \<open>The addresses the task reports over a list of answers, and the rounds in a row that agreed
  with the one before.\<close>

fun keepalive_rounds :: "sock_addr list \<Rightarrow> nat_keepalive \<times> keepalive_task
    \<Rightarrow> (nat_keepalive \<times> keepalive_task) \<times> sock_addr list" where
  "keepalive_rounds [] kt = (kt, [])"
| "keepalive_rounds (a # as) (k, t) =
     (let (kt, report) = saw_address a k t; (kt', reports) = keepalive_rounds as kt
      in (kt', (case report of None \<Rightarrow> [] | Some r \<Rightarrow> [r]) @ reports))"

text \<open>The changes of a list of addresses: every address that differs from the one before it.\<close>

fun address_changes :: "'a option \<Rightarrow> 'a list \<Rightarrow> 'a list" where
  "address_changes prev [] = []"
| "address_changes prev (a # as) =
     (if prev \<noteq> None \<and> prev \<noteq> Some a then a # address_changes (Some a) as else address_changes (Some a) as)"

lemma saw_address_last [simp]:
  "kt_last_reflexive (snd (fst (saw_address a k t))) = Some a"
  by (simp add: saw_address_def Let_def split: prod.split)

lemma rounds_report:
  "snd (keepalive_rounds as (k, t)) = address_changes (kt_last_reflexive t) as"
proof (induction as arbitrary: k t)
  case (Cons a as)
  obtain k' t' report where sa: "saw_address a k t = ((k', t'), report)" by (metis prod.collapse)
  have last: "kt_last_reflexive t' = Some a" using saw_address_last [of a k t] sa by simp
  have rep: "report = (if kt_last_reflexive t \<noteq> None \<and> kt_last_reflexive t \<noteq> Some a then Some a else None)"
    using sa by (auto simp: saw_address_def Let_def split: option.splits prod.splits if_splits)
  obtain kt reports where rr: "keepalive_rounds as (k', t') = (kt, reports)" by (metis prod.collapse)
  then have "reports = address_changes (Some a) as" using Cons.IH [of k' t'] last by simp
  with rep rr sa show ?case by auto
qed simp

text \<open>A rebinding announced from outside does not restart the task's count: with nine stable rounds
  counted, the first stable round after the announcement already lengthens the interval again,
  where the announcing side's own count, which the documentation describes, asks for ten.\<close>

theorem announced_rebinding_forgotten:
  assumes "ka_running k" and "kt_stable_count t = 9" and "kt_last_reflexive t = Some a"
    and "snd (snd (binding_request_on crc32 now (ids 0) (ka_stun_server k) net)) = Some (Ok a)"
  shows "map_option (\<lambda>((k', t'), report, sent). (ka_effective_min k', report))
      (keepalive_round crc32 now ids net failure (notify_rebinding k) t)
    = Some (grown_interval (notify_rebinding k), None)
    \<and> ka_effective_min ((notify_stable ^^ 9) (notify_rebinding k)) = halved_interval (ka_effective_min k)
    \<and> ka_effective_min ((notify_stable ^^ 10) (notify_rebinding k)) = grown_interval (notify_rebinding k)"
proof -
  let ?k = "notify_rebinding k"
  have k: "ka_rebind_occurred ?k" "ka_stable_since_rebind ?k = 0" "ka_running ?k" "ka_stun_server ?k = ka_stun_server k"
    "ka_effective_min ?k = halved_interval (ka_effective_min k)"
    using assms(1) by (simp_all add: notify_rebinding_def)
  have nine: "(notify_stable ^^ 9) ?k = ?k\<lparr>ka_stable_since_rebind := 9\<rparr>"
    using nine_stable [of ?k 9] k by (simp add: STABLE_THRESHOLD_def)
  have "(10 :: nat) = Suc 9" by simp
  then have "(notify_stable ^^ 10) ?k = notify_stable ((notify_stable ^^ 9) ?k)"
    by (simp only: funpow.simps comp_apply)
  also have "\<dots> = ?k\<lparr>ka_stable_since_rebind := 0, ka_effective_min := grown_interval ?k\<rparr>"
    using k by (simp add: nine notify_stable_def STABLE_THRESHOLD_def grown_interval_def)
  finally have ten: "ka_effective_min ((notify_stable ^^ 10) ?k) = grown_interval ?k" by simp
  obtain sent offered where "binding_request_on crc32 now (ids 0) (ka_stun_server k) net = (sent, offered, Some (Ok a))"
    using assms(4) by (metis prod.collapse)
  then have "map_option (\<lambda>((k', t'), report, sent). (ka_effective_min k', report))
      (keepalive_round crc32 now ids net failure ?k t) = Some (grown_interval ?k, None)"
    using assms(2,3) k
    by (simp add: keepalive_round_def saw_address_def saw_stability_def STABLE_THRESHOLD_def)
  with nine ten k show ?thesis by simp
qed

end
