(* ===== verification/Nat_Manager.thy ===== *)
theory Nat_Manager
  imports Nat_Detect Nat_Keepalive Nat_Symmetric_Rtp Rtp_Strings
begin

text \<open>
  \<^verbatim>\<open>src/nat/config.rs\<close> and \<^verbatim>\<open>src/nat/manager.rs\<close>: the settings of the NAT traversal and the
  manager that runs the detection, chooses a strategy and holds the keepalive. Resolving a host
  name is an argument. The channel of the address changes is the
  number of the channels made so far.
\<close>

section \<open>Settings\<close>

record nat_config =
  nc_enabled :: bool
  nc_stun_server :: "string option"
  nc_stun_servers :: "string list"
  nc_turn_server :: "string option"
  nc_turn_username :: "string option"
  nc_turn_password :: "string option"
  nc_keepalive_min_secs :: u64
  nc_keepalive_max_secs :: u64
  nc_symmetric_rtp :: bool
  nc_symmetric_rtp_threshold :: u32
  nc_hole_punch_count :: u64
  nc_force_mode :: "string option"

definition nat_config_default :: nat_config where
  "nat_config_default =
     \<lparr>nc_enabled = False, nc_stun_server = None, nc_stun_servers = [], nc_turn_server = None,
      nc_turn_username = None, nc_turn_password = None, nc_keepalive_min_secs = 15,
      nc_keepalive_max_secs = 25, nc_symmetric_rtp = True, nc_symmetric_rtp_threshold = 3,
      nc_hole_punch_count = 3, nc_force_mode = None\<rparr>"

definition nat_config_validate :: "nat_config \<Rightarrow> (string, unit) outcome" where
  "nat_config_validate c =
     (if nc_keepalive_min_secs c > nc_keepalive_max_secs c
      then Err (''keepalive_min_secs ('' @ show_nat (unat (nc_keepalive_min_secs c))
             @ '') must be <= keepalive_max_secs ('' @ show_nat (unat (nc_keepalive_max_secs c)) @ '')'')
      else if nc_keepalive_min_secs c = 0 then Err ''keepalive_min_secs must be > 0''
      else if nc_symmetric_rtp_threshold c = 0 then Err ''symmetric_rtp_threshold must be > 0''
      else if nc_hole_punch_count c > 20
      then Err (''hole_punch_count ('' @ show_nat (unat (nc_hole_punch_count c)) @ '') must be <= 20'')
      else Ok ())"

section \<open>The manager\<close>

record detection_state =
  ds_nat_type :: nat_type
  ds_strategy :: traversal_strategy
  ds_reflexive_addr :: "sock_addr option"

record nat_manager =
  nm_config :: nat_config
  nm_state :: detection_state
  nm_stun_server :: "sock_addr option"
  nm_keepalive :: "(nat_keepalive \<times> keepalive_task) option"
  nm_addr_change_channels :: nat

definition initial_strategy :: "nat_config \<Rightarrow> traversal_strategy" where
  "initial_strategy c = (case nc_force_mode c of
     Some mode \<Rightarrow> if mode = ''direct'' then Direct else if mode = ''relay'' then Relay else HolePunch
   | None \<Rightarrow> HolePunch)"

definition nat_manager_new :: "nat_config \<Rightarrow> nat_manager" where
  "nat_manager_new c =
     \<lparr>nm_config = c,
      nm_state = \<lparr>ds_nat_type = Unknown_Nat, ds_strategy = initial_strategy c, ds_reflexive_addr = None\<rparr>,
      nm_stun_server = None, nm_keepalive = None, nm_addr_change_channels = 0\<rparr>"

text \<open>What the detection meets: the clock, the identifiers, the socket and its network.\<close>

record detect_env =
  de_clock :: "nat \<Rightarrow> nat"
  de_ids :: "nat \<Rightarrow> bytes"
  de_bind :: "string \<Rightarrow> sock_addr res"
  de_nets :: "nat \<Rightarrow> client_net"

definition manager_detect :: "(bytes \<Rightarrow> u32) \<Rightarrow> detect_env \<Rightarrow> nat_manager
    \<Rightarrow> (nat_manager \<times> (nat_type \<times> traversal_strategy) res) option" where
  "manager_detect crc32 env m =
     (case nm_stun_server m of
        None \<Rightarrow> Some (m, Err (Config ''No STUN server configured''))
      | Some stun_addr \<Rightarrow>
          (case detect_nat crc32 (de_clock env) (de_ids env) (de_bind env) stun_addr (de_nets env) of
             None \<Rightarrow> None
           | Some (Err e) \<Rightarrow> Some (m, Err e)
           | Some Panic \<Rightarrow> Some (m, Panic)
           | Some (Ok (nat_type, reflexive)) \<Rightarrow>
               (let strategy = (if nc_force_mode (nm_config m) \<noteq> None then ds_strategy (nm_state m)
                                else for_nat_type nat_type)
                in Some (m\<lparr>nm_state := \<lparr>ds_nat_type = nat_type, ds_strategy = strategy,
                            ds_reflexive_addr = Some reflexive\<rparr>\<rparr>,
                         Ok (nat_type, strategy)))))"

definition resolve_stun_server :: "(string \<Rightarrow> string + sock_addr list) \<Rightarrow> nat_config
    \<Rightarrow> sock_addr res" where
  "resolve_stun_server lookup_host c =
     (let server_str = (case nc_stun_server c of Some s \<Rightarrow> s | None \<Rightarrow> ''stun.l.google.com:19302'')
      in case parse_sock server_str of
           Some addr \<Rightarrow> Ok addr
         | None \<Rightarrow>
             (case lookup_host server_str of
                Inl e \<Rightarrow> Err (Config (''Failed to resolve STUN server '' @ [CHR 0x27] @ server_str @ [CHR 0x27] @ '': '' @ e))
              | Inr (addr # addrs) \<Rightarrow> Ok addr
              | Inr [] \<Rightarrow> Err (Config (''STUN server '' @ [CHR 0x27] @ server_str @ [CHR 0x27] @ '' resolved to no addresses''))))"

definition manager_init :: "(bytes \<Rightarrow> u32) \<Rightarrow> (string \<Rightarrow> string + sock_addr list)
    \<Rightarrow> detect_env \<Rightarrow> nat_manager \<Rightarrow> (nat_manager \<times> unit res) option" where
  "manager_init crc32 lookup_host env m =
     (if \<not> nc_enabled (nm_config m) then Some (m, Ok ())
      else
        (case resolve_stun_server lookup_host (nm_config m) of
           Err e \<Rightarrow> Some (m, Err e)
         | Panic \<Rightarrow> Some (m, Panic)
         | Ok stun_addr \<Rightarrow>
             map_option (\<lambda>(m', r). (m', res_bind r (\<lambda>_. Ok ())))
               (manager_detect crc32 env (m\<lparr>nm_stun_server := Some stun_addr\<rparr>))))"

text \<open>A new keepalive replaces the one before, whose last owner the manager was.\<close>

definition start_keepalive :: "nat_manager \<Rightarrow> nat_manager \<times> nat option" where
  "start_keepalive m =
     (case nm_stun_server m of
        None \<Rightarrow> (m, None)
      | Some stun_addr \<Rightarrow>
          (let ka = keepalive_start (keepalive_new stun_addr
                      (nanos (unat (nc_keepalive_min_secs (nm_config m))))
                      (nanos (unat (nc_keepalive_max_secs (nm_config m)))))
           in (m\<lparr>nm_addr_change_channels := nm_addr_change_channels m + 1, nm_keepalive := Some ka\<rparr>,
               Some (nm_addr_change_channels m))))"

definition prepare_session :: "(bytes \<Rightarrow> u32) \<Rightarrow> (nat \<Rightarrow> bytes) \<Rightarrow> (nat \<Rightarrow> string option) \<Rightarrow> sock_addr \<Rightarrow> nat_manager
    \<Rightarrow> punch_action list \<times> unit res" where
  "prepare_session crc32 ids fails remote_addr m =
     (let count = unat (nc_hole_punch_count (nm_config m));
          go = (if count > 0 then punch crc32 ids fails remote_addr count DEFAULT_HOLE_PUNCH_INTERVAL else ([], Ok ()))
      in case ds_strategy (nm_state m) of HolePunch \<Rightarrow> go | Direct \<Rightarrow> go | Relay \<Rightarrow> go)"

definition public_addr :: "nat_manager \<Rightarrow> sock_addr option" where
  "public_addr m = ds_reflexive_addr (nm_state m)"

definition public_addr_with_port :: "nat_manager \<Rightarrow> u16 \<Rightarrow> sock_addr option" where
  "public_addr_with_port m local_port = ds_reflexive_addr (nm_state m)"

definition new_symmetric_rtp :: "nat_manager \<Rightarrow> symmetric_rtp" where
  "new_symmetric_rtp m =
     (if nc_symmetric_rtp (nm_config m) then symmetric_new (nc_symmetric_rtp_threshold (nm_config m))
      else symmetric_disabled)"

definition manager_nat_type :: "nat_manager \<Rightarrow> nat_type" where
  "manager_nat_type m = ds_nat_type (nm_state m)"

definition manager_strategy :: "nat_manager \<Rightarrow> traversal_strategy" where
  "manager_strategy m = ds_strategy (nm_state m)"

definition manager_shutdown :: "nat_manager \<Rightarrow> nat_manager" where
  "manager_shutdown m = m\<lparr>nm_keepalive := None\<rparr>"

end
