(* ===== verification/Nat_Detect_Props.thy ===== *)
theory Nat_Detect_Props
  imports Nat_Manager
begin

text \<open>
  The detection of \<open>Nat_Detect\<close> against the NATs and the servers it was made for. A world is a server
  with two addresses and two ports, and a NAT: the outside address it gives a socket for a destination, and
  which sources it lets in, given the destinations the socket has sent to. Requests and responses cross
  it as bytes.
\<close>

section \<open>Servers and NATs\<close>

record nat_world =
  nw_primary :: sock_addr
  nw_alternate :: sock_addr
  nw_changes :: bool
  nw_mapping :: "sock_addr \<Rightarrow> sock_addr"
  nw_admits :: "sock_addr list \<Rightarrow> sock_addr \<Rightarrow> bool"

text \<open>The address of one socket with the port of another.\<close>

definition endpoint :: "sock_addr \<Rightarrow> sock_addr \<Rightarrow> sock_addr" where
  "endpoint a b = (case a of V4 ip _ \<Rightarrow> V4 ip (sock_port b) | V6 ip _ \<Rightarrow> V6 ip (sock_port b))"

definition change_flags :: "stun_message \<Rightarrow> bool \<times> bool" where
  "change_flags m = (case first_some (\<lambda>a. case a of ChangeRequest i p \<Rightarrow> Some (i, p) | _ \<Rightarrow> None) (sm_attributes m) of
     Some f \<Rightarrow> f | None \<Rightarrow> (False, False))"

definition world_response :: "nat_world \<Rightarrow> sock_addr \<Rightarrow> stun_message \<Rightarrow> stun_message" where
  "world_response w dest m =
     \<lparr>sm_msg_type = BINDING_SUCCESS, sm_transaction_id = sm_transaction_id m,
      sm_attributes = [XorMappedAddress (nw_mapping w dest), ChangedAddress (nw_alternate w)]\<rparr>"

text \<open>The server answers a request to one of its addresses: with CHANGE-REQUEST from the other one, if it
  supports that at all.\<close>

definition server_reply :: "(bytes \<Rightarrow> u32) \<Rightarrow> nat_world \<Rightarrow> sock_addr \<Rightarrow> bytes \<Rightarrow> (bytes \<times> sock_addr) option" where
  "server_reply crc32 w dest data = (case unmarshal crc32 data of
     Ok m \<Rightarrow>
       (let (ci, cp) = change_flags m; other = (if dest = nw_primary w then nw_alternate w else nw_primary w);
            src = (if nw_changes w then endpoint (if ci then other else dest) (if cp then other else dest) else dest)
        in Some (marshal crc32 (world_response w dest m), src))
   | _ \<Rightarrow> None)"

definition world_net :: "(bytes \<Rightarrow> u32) \<Rightarrow> nat_world \<Rightarrow> sock_addr list \<Rightarrow> sock_addr \<Rightarrow> stun_message \<Rightarrow> client_net" where
  "world_net crc32 w contacted dest request =
     (None, case server_reply crc32 w dest (marshal crc32 request) of
        Some (d, src) \<Rightarrow> if nw_admits w (dest # contacted) src then [Received d src] else no_answer
      | None \<Rightarrow> no_answer)"

text \<open>What the four tests of a detection meet.\<close>

definition world_nets :: "(bytes \<Rightarrow> u32) \<Rightarrow> nat_world \<Rightarrow> (nat \<Rightarrow> bytes) \<Rightarrow> nat \<Rightarrow> client_net" where
  "world_nets crc32 w ids i =
     (let p = nw_primary w; a = nw_alternate w
      in [world_net crc32 w [] p (new_binding_request (ids 0)),
          world_net crc32 w [p] p (add_attribute (new_binding_request (ids 1)) (ChangeRequest True True)),
          world_net crc32 w [p] a (new_binding_request (ids 2)),
          world_net crc32 w [a, p] p (add_attribute (new_binding_request (ids 3)) (ChangeRequest False True))] ! i)"

text \<open>The NATs of RFC 3489.\<close>

fun nat_behaves :: "nat_type \<Rightarrow> nat_world \<Rightarrow> bool" where
  "nat_behaves FullCone w =
     (nw_mapping w (nw_alternate w) = nw_mapping w (nw_primary w) \<and> nw_admits w = (\<lambda>c s. True))"
| "nat_behaves RestrictedCone w =
     (nw_mapping w (nw_alternate w) = nw_mapping w (nw_primary w) \<and> nw_admits w = (\<lambda>c s. sock_ip s \<in> sock_ip ` set c))"
| "nat_behaves PortRestrictedCone w =
     (nw_mapping w (nw_alternate w) = nw_mapping w (nw_primary w) \<and> nw_admits w = (\<lambda>c s. s \<in> set c))"
| "nat_behaves Symmetric w =
     (nw_mapping w (nw_alternate w) \<noteq> nw_mapping w (nw_primary w) \<and> nw_admits w = (\<lambda>c s. s \<in> set c))"
| "nat_behaves _ w = False"

definition apart :: "nat_world \<Rightarrow> bool" where
  "apart w = (sock_ip (nw_primary w) \<noteq> sock_ip (nw_alternate w)
     \<and> sock_port (nw_primary w) \<noteq> sock_port (nw_alternate w))"

section \<open>Messages across the world\<close>

lemma request_wf [simp]:
  "length i = 12 \<Longrightarrow> stun_wf (new_binding_request i)"
  "length i = 12 \<Longrightarrow> stun_wf (add_attribute (new_binding_request i) (ChangeRequest a b))"
  by (simp_all add: stun_wf_def new_binding_request_def add_attribute_def attr_bytes_def BINDING_REQUEST_def)

lemma addr_attr_length: "length i = 12 \<Longrightarrow> length (encode_address_attr ty a xr i) \<le> 24"
  by (cases a) (simp_all add: encode_address_attr_def)

lemma response_wf:
  assumes "length (sm_transaction_id m) = 12"
  shows "stun_wf (world_response w d m)" and "length (marshal crc32 (world_response w d m)) \<le> RECV_BUF"
proof -
  note l = addr_attr_length [OF assms, of ATTR_XOR_MAPPED_ADDRESS "nw_mapping w d" True]
    addr_attr_length [OF assms, of ATTR_CHANGED_ADDRESS "nw_alternate w" False]
  have a: "length (attr_bytes (world_response w d m)) \<le> 48"
    using l by (simp add: attr_bytes_def world_response_def)
  then show "stun_wf (world_response w d m)"
    using assms by (simp add: stun_wf_def world_response_def BINDING_SUCCESS_def)
  show "length (marshal crc32 (world_response w d m)) \<le> RECV_BUF"
    using a assms
    by (simp add: marshal_def Let_def stun_header_def fingerprint_tlv_def RECV_BUF_def world_response_def)
qed

lemma world_response_parts [simp]:
  "sm_transaction_id (world_response w d m) = sm_transaction_id m"
  "reflexive_address (world_response w d m) = Some (nw_mapping w d)"
  "changed_address (world_response w d m) = Some (nw_alternate w)"
  by (simp_all add: world_response_def reflexive_address_def xor_mapped_address_def changed_address_def)

lemma request_parts [simp]:
  "sm_transaction_id (new_binding_request i) = i"
  "sm_transaction_id (add_attribute q a) = sm_transaction_id q"
  "change_flags (new_binding_request i) = (False, False)"
  "change_flags (add_attribute (new_binding_request i) (ChangeRequest x y)) = (x, y)"
  by (simp_all add: new_binding_request_def add_attribute_def change_flags_def)

text \<open>A transaction across the world: the response of the server, if the NAT lets it in.\<close>

definition reply_source :: "nat_world \<Rightarrow> sock_addr \<Rightarrow> bool \<Rightarrow> bool \<Rightarrow> sock_addr" where
  "reply_source w dest ci cp =
     (let other = (if dest = nw_primary w then nw_alternate w else nw_primary w)
      in if nw_changes w then endpoint (if ci then other else dest) (if cp then other else dest) else dest)"

lemma world_transaction:
  assumes "stun_wf q" and "change_flags q = (ci, cp)" and "skip = (ci \<or> cp)"
    and "\<not> (ci \<or> cp) \<Longrightarrow> reply_source w dest ci cp = dest"
  shows "snd (snd (execute_transaction crc32 now dest q False skip (world_net crc32 w c dest q)))
    = Some (if nw_admits w (dest # c) (reply_source w dest ci cp) then Ok (world_response w dest q)
            else Err (Timeout ''STUN transaction timed out''))"
proof -
  let ?r = "world_response w dest q" and ?src = "reply_source w dest ci cp"
  have tid: "length (sm_transaction_id q) = 12" using assms(1) by (simp add: stun_wf_def)
  note rw = response_wf [OF tid, where w = w and d = dest]
  have net: "world_net crc32 w c dest q
      = (None, if nw_admits w (dest # c) ?src then [Received (marshal crc32 ?r) ?src] else no_answer)"
    using assms(2) by (simp add: world_net_def server_reply_def unmarshal_marshal [OF assms(1)] reply_source_def Let_def)
  show ?thesis
  proof (cases "nw_admits w (dest # c) ?src")
    case True
    have "answers crc32 dest skip q ?r (Received (marshal crc32 ?r) ?src)"
      using rw assms(3,4) demux_stun(2) [OF rw(1)] by (auto simp: answers_def unmarshal_marshal [OF rw(1)])
    from execute_answered [OF this] True show ?thesis by (simp add: net)
  next
    case False
    then show ?thesis by (simp add: net execute_unanswered)
  qed
qed

lemma endpoint_same [simp]: "endpoint a a = a"
  by (cases a) (simp_all add: endpoint_def)

lemma endpoint_parts [simp]: "sock_ip (endpoint a b) = sock_ip a" "sock_port (endpoint a b) = sock_port b"
  by (cases a; simp add: endpoint_def)+

lemma reply_unchanged [simp]: "reply_source w d False False = d"
  by (simp add: reply_source_def Let_def)

text \<open>The tests of a detection.\<close>

lemma world_test1:
  assumes "length (ids 0) = 12"
  shows "snd (snd (binding_request_full crc32 now (ids 0) (nw_primary w) (world_nets crc32 w ids 0)))
    = Some (if nw_admits w [nw_primary w] (nw_primary w)
            then Ok (world_response w (nw_primary w) (new_binding_request (ids 0)))
            else Err (Timeout ''STUN transaction timed out''))"
  using world_transaction [where q = "new_binding_request (ids 0)" and ci = False and cp = False
      and skip = False and dest = "nw_primary w" and c = "[]"] assms
  by (simp add: binding_request_full_def world_nets_def Let_def)

lemma world_test2:
  assumes "length (ids 1) = 12"
  shows "snd (snd (binding_request_with_change crc32 now (ids 1) (nw_primary w) True True (world_nets crc32 w ids 1)))
    = Some (if nw_admits w [nw_primary w, nw_primary w] (reply_source w (nw_primary w) True True)
            then Ok (world_response w (nw_primary w) (add_attribute (new_binding_request (ids 1)) (ChangeRequest True True)))
            else Err (Timeout ''STUN transaction timed out''))"
  using world_transaction [where q = "add_attribute (new_binding_request (ids 1)) (ChangeRequest True True)"
      and ci = True and cp = True and skip = True and dest = "nw_primary w" and c = "[nw_primary w]"] assms
  by (simp add: binding_request_with_change_def world_nets_def Let_def)

lemma world_test4:
  assumes "length (ids 3) = 12"
  shows "snd (snd (binding_request_with_change crc32 now (ids 3) (nw_primary w) False True (world_nets crc32 w ids 3)))
    = Some (if nw_admits w [nw_primary w, nw_alternate w, nw_primary w] (reply_source w (nw_primary w) False True)
            then Ok (world_response w (nw_primary w) (add_attribute (new_binding_request (ids 3)) (ChangeRequest False True)))
            else Err (Timeout ''STUN transaction timed out''))"
  using world_transaction [where q = "add_attribute (new_binding_request (ids 3)) (ChangeRequest False True)"
      and ci = False and cp = True and skip = True and dest = "nw_primary w" and c = "[nw_alternate w, nw_primary w]"] assms
  by (simp add: binding_request_with_change_def world_nets_def Let_def)

lemma world_test3:
  assumes "length (ids 2) = 12"
  shows "snd (snd (binding_request_on crc32 now (ids 2) (nw_alternate w) (world_nets crc32 w ids 2)))
    = Some (if nw_admits w [nw_alternate w, nw_primary w] (nw_alternate w) then Ok (nw_mapping w (nw_alternate w))
            else Err (Timeout ''STUN transaction timed out''))"
  using world_transaction [where q = "new_binding_request (ids 2)" and ci = False and cp = False
      and skip = False and dest = "nw_alternate w" and c = "[nw_primary w]"] assms
  by (simp add: binding_request_on_def mapped_result_def world_nets_def Let_def)

section \<open>What the detection finds\<close>

text \<open>C20: The detection is right where its assumptions hold: behind each of the four NATs of RFC 3489, with a
  server that honours CHANGE-REQUEST from a second address and port, the four tests over the network's bytes
  name that NAT and return the outside address of the socket.\<close>

theorem nat_classified:
  assumes "nat_behaves kind w" and "apart w" and "nw_changes w" and "\<forall>i < 4. length (ids i) = 12"
    and "bind_to (detect_bind_addr (nw_primary w)) = Ok local_addr" and "nw_mapping w (nw_primary w) \<noteq> local_addr"
  shows "detect_nat crc32 clock ids bind_to (nw_primary w) (world_nets crc32 w ids)
    = Some (Ok (kind, nw_mapping w (nw_primary w)))"
proof -
  have ids: "length (ids 0) = 12" "length (ids 1) = 12" "length (ids 2) = 12" "length (ids 3) = 12"
    using assms(4) by simp_all
  have src: "reply_source w (nw_primary w) True True = nw_alternate w"
    "reply_source w (nw_primary w) False True = endpoint (nw_primary w) (nw_alternate w)"
    using assms(3) by (simp_all add: reply_source_def Let_def)
  have ap: "sock_ip (nw_alternate w) \<noteq> sock_ip (nw_primary w)" "nw_alternate w \<noteq> nw_primary w"
    "endpoint (nw_primary w) (nw_alternate w) \<noteq> nw_primary w"
    "endpoint (nw_primary w) (nw_alternate w) \<noteq> nw_alternate w"
    using assms(2) by (auto simp: apart_def dest: arg_cong [where f = sock_port] arg_cong [where f = sock_ip])
  note t1 = world_test1 [where ids = ids and w = w and ?crc32.0 = crc32, OF ids(1)]
  note t2 = world_test2 [where ids = ids and w = w and ?crc32.0 = crc32, OF ids(2)]
  note t3 = world_test3 [where ids = ids and w = w and ?crc32.0 = crc32, OF ids(3)]
  note t4 = world_test4 [where ids = ids and w = w and ?crc32.0 = crc32, OF ids(4)]
  note defs = detect_nat_def detect_test2_def detect_test3_def detect_test4_def
  show ?thesis
    using assms(1,5,6) ap
    by (cases kind) (simp_all add: defs t1 t2 t3 t4 src del: One_nat_def)
qed

text \<open>C38: A server that ignores CHANGE-REQUEST, as a plain binding server does, makes every NAT a full cone: it
  answers the second test from the address the test was sent to, the NAT lets that in, and the detector,
  which takes the answer from anywhere, stops there. The manager then chooses the direct strategy, behind a
  symmetric NAT too, which needs a relay.\<close>

theorem change_ignored_full_cone:
  assumes "nat_behaves kind w" and "\<not> nw_changes w" and "\<forall>i < 4. length (de_ids env i) = 12"
    and "de_bind env (detect_bind_addr (nw_primary w)) = Ok local_addr" and "nw_mapping w (nw_primary w) \<noteq> local_addr"
    and "de_nets env = world_nets crc32 w (de_ids env)"
    and "nm_stun_server m = Some (nw_primary w)" and "nc_force_mode (nm_config m) = None"
  shows "map_option (\<lambda>(m', r). (manager_nat_type m', manager_strategy m', public_addr m', r)) (manager_detect crc32 env m)
    = Some (FullCone, Direct, Some (nw_mapping w (nw_primary w)), Ok (FullCone, Direct))"
proof -
  have ids: "length (de_ids env 0) = 12" "length (de_ids env 1) = 12" using assms(3) by simp_all
  have adm: "nw_admits w [nw_primary w] (nw_primary w)" "nw_admits w [nw_primary w, nw_primary w] (nw_primary w)"
    using assms(1) by (cases kind; simp)+
  have src: "reply_source w (nw_primary w) True True = nw_primary w"
    using assms(2) by (simp add: reply_source_def Let_def)
  note t1 = world_test1 [where ids = "de_ids env" and w = w and ?crc32.0 = crc32, OF ids(1)]
  note t2 = world_test2 [where ids = "de_ids env" and w = w and ?crc32.0 = crc32, OF ids(2)]
  have "detect_nat crc32 (de_clock env) (de_ids env) (de_bind env) (nw_primary w) (de_nets env)
      = Some (Ok (FullCone, nw_mapping w (nw_primary w)))"
    using assms(4,5) adm by (simp add: assms(6) detect_nat_def detect_test2_def t1 t2 src del: One_nat_def)
  then show ?thesis
    using assms(7,8) by (simp add: manager_detect_def manager_nat_type_def manager_strategy_def public_addr_def)
qed

section \<open>Witnesses\<close>

definition demo_world :: "bool \<Rightarrow> nat_world" where
  "demo_world changes = \<lparr>nw_primary = V4 0x01020304 3478, nw_alternate = V4 0x01020305 3479, nw_changes = changes,
     nw_mapping = (\<lambda>d. if sock_port d = 3478 then V4 0xCB007101 40000 else V4 0xCB007101 40001),
     nw_admits = (\<lambda>c s. s \<in> set c)\<rparr>"

definition demo_detect_ids :: "nat \<Rightarrow> bytes" where "demo_detect_ids i = replicate 12 (of_nat i)"

definition demo_detect_bind :: "string \<Rightarrow> sock_addr res" where
  "demo_detect_bind a = (if a = ''0.0.0.0:0'' then Ok (V4 0 50000) else Err (Io ''bind''))"

lemma demo_symmetric: "nat_behaves Symmetric (demo_world changes)" "apart (demo_world changes)"
  "demo_detect_bind (detect_bind_addr (nw_primary (demo_world changes))) = Ok (V4 0 50000)"
  "nw_mapping (demo_world changes) (nw_primary (demo_world changes)) = V4 0xCB007101 40000"
  by (simp_all add: demo_world_def apart_def demo_detect_bind_def detect_bind_addr_def any_addr_def)

theorem nat_classified_witness:
  "detect_nat (\<lambda>b. 0) (\<lambda>i. i) demo_detect_ids demo_detect_bind (nw_primary (demo_world True))
     (world_nets (\<lambda>b. 0) (demo_world True) demo_detect_ids) = Some (Ok (Symmetric, V4 0xCB007101 40000))"
proof -
  have "nw_changes (demo_world True)" "\<forall>i < 4. length (demo_detect_ids i) = 12"
    "nw_mapping (demo_world True) (nw_primary (demo_world True)) \<noteq> V4 0 50000"
    by (simp_all add: demo_world_def demo_detect_ids_def)
  from nat_classified [where kind = Symmetric and bind_to = demo_detect_bind and local_addr = "V4 0 50000"
      and w = "demo_world True" and ids = demo_detect_ids and ?crc32.0 = "\<lambda>b. 0" and clock = "\<lambda>i. i",
      OF demo_symmetric(1,2) this(1,2) demo_symmetric(3) this(3)]
  show ?thesis by (simp add: demo_symmetric(4))
qed

definition demo_detect_env :: detect_env where
  "demo_detect_env = \<lparr>de_clock = (\<lambda>i. i), de_ids = demo_detect_ids, de_bind = demo_detect_bind,
     de_nets = world_nets (\<lambda>b. 0) (demo_world False) demo_detect_ids\<rparr>"

definition demo_nat_manager :: nat_manager where
  "demo_nat_manager = (nat_manager_new nat_config_default)\<lparr>nm_stun_server := Some (V4 0x01020304 3478)\<rparr>"

theorem change_ignored_full_cone_witness:
  "nat_behaves Symmetric (demo_world False)
   \<and> map_option (\<lambda>(m', r). (manager_nat_type m', manager_strategy m', public_addr m', r))
       (manager_detect (\<lambda>b. 0) demo_detect_env demo_nat_manager)
     = Some (FullCone, Direct, Some (V4 0xCB007101 40000), Ok (FullCone, Direct))"
proof -
  have a: "\<not> nw_changes (demo_world False)" "\<forall>i < 4. length (de_ids demo_detect_env i) = 12"
    "de_bind demo_detect_env (detect_bind_addr (nw_primary (demo_world False))) = Ok (V4 0 50000)"
    "nw_mapping (demo_world False) (nw_primary (demo_world False)) \<noteq> V4 0 50000"
    "de_nets demo_detect_env = world_nets (\<lambda>b. 0) (demo_world False) (de_ids demo_detect_env)"
    "nm_stun_server demo_nat_manager = Some (nw_primary (demo_world False))"
    "nc_force_mode (nm_config demo_nat_manager) = None"
    using demo_symmetric(3) [of False]
    by (simp_all add: demo_world_def demo_detect_env_def demo_detect_ids_def demo_nat_manager_def
        nat_manager_new_def nat_config_default_def)
  show ?thesis
    using change_ignored_full_cone [where kind = Symmetric and w = "demo_world False" and env = demo_detect_env and m = demo_nat_manager,
      OF demo_symmetric(1) a(1) a(2) a(3) a(4) a(5) a(6) a(7)] demo_symmetric(1)
    by (simp add: demo_symmetric(4))
qed

end
