(* ===== verification/Nat_Pool_Props.thy ===== *)
theory Nat_Pool_Props
  imports Nat_Pool "HOL-Library.Multiset" Nat_Detect_Props
begin

text \<open>
  What the pool of STUN servers promises: the servers of the socket's family are tried in the order
  of their health until one answers, every attempt is recorded, and (against the documentation of the
  failover) an IPv6 pool that has failed three times is never tried again by a plain request.
\<close>

section \<open>An attempt\<close>

lemma txn_result_no_panic [simp]: "txn_result t \<noteq> Panic"
  by (simp add: txn_result_def split: option.split)

lemma transact_no_panic:
  "txn_live q b t \<Longrightarrow> snd (snd (transact crc32 server buffered skip t es)) \<noteq> Some Panic"
proof (induction es arbitrary: t)
  case Nil
  then show ?case by (simp add: transact_waiting)
next
  case (Cons e es)
  show ?case
  proof (cases e)
    case (Received d src)
    then show ?thesis using Cons.IH [OF Cons.prems] by (simp add: transact_received [OF Cons.prems])
  next
    case (ReceiveFails m)
    then show ?thesis by (simp add: transact_fails [OF Cons.prems])
  next
    case (Deadline late failure)
    then show ?thesis
      using Cons.IH [OF live_retransmit [OF Cons.prems]]
      by (simp add: transact_deadline [OF Cons.prems] split: option.split)
  qed
qed

lemma attempt_no_panic: "attempt_result crc32 a pa \<noteq> Some Panic"
proof -
  have m: "mapped_result r = Panic \<Longrightarrow> r = Panic" for r
    by (cases r) (auto simp: mapped_result_def split: option.splits)
  have x: "snd (snd (execute_transaction crc32 now a q b s n)) \<noteq> Some Panic" for now q b s n
    using transact_no_panic [OF txn_live_new]
    by (simp add: execute_transaction_def Let_def split: option.split)
  have mx: "map_option mapped_result r \<noteq> Some Panic" if "r \<noteq> Some Panic" for r
    using that m by (cases r) auto
  show ?thesis
    unfolding attempt_result_def binding_request_on_def using mx [OF x] by simp
qed

definition pool_answer :: "(bytes \<Rightarrow> u32) \<Rightarrow> (sock_addr \<Rightarrow> pool_attempt) \<Rightarrow> sock_addr \<Rightarrow> sock_addr option" where
  "pool_answer crc32 net a = (case attempt_result crc32 a (net a) of Some (Ok r) \<Rightarrow> Some r | _ \<Rightarrow> None)"

section \<open>Health\<close>

lemma with_server_addrs [simp]:
  "(\<And>s. sh_addr (f s) = sh_addr s) \<Longrightarrow> map sh_addr (with_server a f p) = map sh_addr p"
  by (induction p) auto

lemma with_server_counts:
  assumes "distinct (map sh_addr p)"
  shows "with_server a f p = map (\<lambda>s. if sh_addr s = a then f s else s) p"
  using assms
proof (induction p)
  case (Cons s p)
  moreover have "map (\<lambda>s. if sh_addr s = a then f s else s) p = p" if "a \<notin> sh_addr ` set p"
    using that by (intro map_idI) auto
  ultimately show ?case by auto
qed simp

lemma record_addrs [simp]:
  "map sh_addr (record_success now a d p) = map sh_addr p"
  "map sh_addr (record_failure now a p) = map sh_addr p"
  by (simp_all add: record_success_def record_failure_def health_success_def health_failure_def Let_def)

text \<open>The failures of every server, in the order of the pool.\<close>

abbreviation failures :: "server_pool \<Rightarrow> (sock_addr \<times> u32) list" where
  "failures \<equiv> map (\<lambda>s. (sh_addr s, sh_failure_count s))"

lemma record_success_failures:
  "distinct (map sh_addr p) \<Longrightarrow>
   failures (record_success now a d p) = map (\<lambda>(x, n). (x, if x = a then 0 else n)) (failures p)"
  by (simp add: record_success_def with_server_counts health_success_def Let_def)

lemma record_failure_failures:
  "distinct (map sh_addr p) \<Longrightarrow>
   failures (record_failure now a p) = map (\<lambda>(x, n). (x, if x = a then sat_add n 1 else n)) (failures p)"
  by (simp add: record_failure_def with_server_counts health_failure_def)

section \<open>Failover\<close>

lemma try_failed:
  assumes "pool_answer crc32 net a = None" and "addr_is_ipv6 a = ipv6"
  shows "\<exists>e. \<forall>as le p. try_servers crc32 ipv6 net (a # as) le p
    = try_servers crc32 ipv6 net as (Some e) (record_failure (pa_start (net a) + pa_elapsed (net a)) a p)"
proof (cases "attempt_result crc32 a (net a)")
  case None
  then show ?thesis using assms(2) by (simp add: Let_def) blast
next
  case (Some r)
  then show ?thesis
    using attempt_no_panic [of crc32 a "net a"] assms by (cases r) (auto simp: pool_answer_def Let_def)
qed

lemma record_failure_none:
  assumes "distinct (map sh_addr p)" and "a \<notin> A"
  shows "map (\<lambda>(x, n). (x, if x \<in> A then sat_add n 1 else n)) (failures (record_failure now a p))
    = map (\<lambda>(x, n). (x, if x \<in> insert a A then sat_add n 1 else n)) (failures p)"
  unfolding record_failure_failures [OF assms(1)] using assms(2) by auto

lemma try_servers_none:
  assumes "distinct (map sh_addr p)" and "distinct as"
    and "\<And>a. a \<in> set as \<Longrightarrow> addr_is_ipv6 a = ipv6 \<Longrightarrow> pool_answer crc32 net a = None"
  shows "(\<exists>e. snd (try_servers crc32 ipv6 net as le p) = Err e)
    \<and> failures (fst (try_servers crc32 ipv6 net as le p))
      = map (\<lambda>(x, n). (x, if x \<in> {a \<in> set as. addr_is_ipv6 a = ipv6} then sat_add n 1 else n)) (failures p)"
  using assms
proof (induction as arbitrary: le p)
  case (Cons a as)
  let ?B = "{a \<in> set as. addr_is_ipv6 a = ipv6}"
  show ?case
  proof (cases "addr_is_ipv6 a = ipv6")
    case True
    let ?p = "record_failure (pa_start (net a) + pa_elapsed (net a)) a p"
    obtain le' where step: "try_servers crc32 ipv6 net (a # as) le p = try_servers crc32 ipv6 net as (Some le') ?p"
      using try_failed [of crc32 net a ipv6] Cons.prems(3) [of a] True by auto
    have ins: "{b \<in> set (a # as). addr_is_ipv6 b = ipv6} = insert a ?B" using True by auto
    have "map (\<lambda>(x, n). (x, if x \<in> ?B then sat_add n 1 else n)) (failures ?p)
      = map (\<lambda>(x, n). (x, if x \<in> insert a ?B then sat_add n 1 else n)) (failures p)"
      by (rule record_failure_none) (use Cons.prems in auto)
    moreover have "(\<exists>e. snd (try_servers crc32 ipv6 net as (Some le') ?p) = Err e)
      \<and> failures (fst (try_servers crc32 ipv6 net as (Some le') ?p))
        = map (\<lambda>(x, n). (x, if x \<in> ?B then sat_add n 1 else n)) (failures ?p)"
      by (rule Cons.IH) (use Cons.prems in auto)
    ultimately show ?thesis unfolding step ins by simp
  next
    case False
    then have "{b \<in> set (a # as). addr_is_ipv6 b = ipv6} = ?B" by auto
    moreover have "(\<exists>e. snd (try_servers crc32 ipv6 net as le p) = Err e)
      \<and> failures (fst (try_servers crc32 ipv6 net as le p))
        = map (\<lambda>(x, n). (x, if x \<in> ?B then sat_add n 1 else n)) (failures p)"
      by (rule Cons.IH) (use Cons.prems in auto)
    ultimately show ?thesis using False by simp
  qed
qed simp

lemma try_servers_some:
  assumes "distinct (map sh_addr p)" and "distinct (pre @ a # post)" and "addr_is_ipv6 a = ipv6"
    and "\<And>b. b \<in> set pre \<Longrightarrow> addr_is_ipv6 b = ipv6 \<Longrightarrow> pool_answer crc32 net b = None"
    and "pool_answer crc32 net a = Some r"
  shows "snd (try_servers crc32 ipv6 net (pre @ a # post) le p) = Ok r
    \<and> failures (fst (try_servers crc32 ipv6 net (pre @ a # post) le p))
      = map (\<lambda>(x, n). (x, if x = a then 0
          else if x \<in> {b \<in> set pre. addr_is_ipv6 b = ipv6} then sat_add n 1 else n)) (failures p)"
  using assms
proof (induction pre arbitrary: le p)
  case Nil
  have "attempt_result crc32 a (net a) = Some (Ok r)"
    using Nil.prems(5) by (auto simp: pool_answer_def split: option.splits outcome.splits)
  then show ?case using Nil.prems by (simp add: Let_def record_success_failures)
next
  case (Cons b pre)
  let ?B = "{b \<in> set pre. addr_is_ipv6 b = ipv6}"
  show ?case
  proof (cases "addr_is_ipv6 b = ipv6")
    case True
    let ?p = "record_failure (pa_start (net b) + pa_elapsed (net b)) b p"
    obtain le' where step: "try_servers crc32 ipv6 net ((b # pre) @ a # post) le p
        = try_servers crc32 ipv6 net (pre @ a # post) (Some le') ?p"
      using try_failed [of crc32 net b ipv6] Cons.prems(4) [of b] True by auto
    have "map (\<lambda>(x, n). (x, if x = a then 0 else if x \<in> ?B then sat_add n 1 else n)) (failures ?p)
      = map (\<lambda>(x, n). (x, if x = a then 0 else if x \<in> {c \<in> set (b # pre). addr_is_ipv6 c = ipv6}
          then sat_add n 1 else n)) (failures p)"
      using Cons.prems(2) True by (auto simp: record_failure_failures [OF Cons.prems(1)])
    moreover have "snd (try_servers crc32 ipv6 net (pre @ a # post) (Some le') ?p) = Ok r
      \<and> failures (fst (try_servers crc32 ipv6 net (pre @ a # post) (Some le') ?p))
        = map (\<lambda>(x, n). (x, if x = a then 0 else if x \<in> ?B then sat_add n 1 else n)) (failures ?p)"
      by (rule Cons.IH) (use Cons.prems in auto)
    ultimately show ?thesis unfolding step by simp
  next
    case False
    then have "{c \<in> set (b # pre). addr_is_ipv6 c = ipv6} = ?B" by auto
    moreover have "snd (try_servers crc32 ipv6 net (pre @ a # post) le p) = Ok r
      \<and> failures (fst (try_servers crc32 ipv6 net (pre @ a # post) le p))
        = map (\<lambda>(x, n). (x, if x = a then 0 else if x \<in> ?B then sat_add n 1 else n)) (failures p)"
      by (rule Cons.IH) (use Cons.prems in auto)
    ultimately show ?thesis using False by simp
  qed
qed

lemma distinct_priority [simp]: "distinct (servers_by_priority p) = distinct (map sh_addr p)"
  unfolding servers_by_priority_def
  by (rule mset_eq_imp_distinct_iff) (simp only: mset_map mset_sort)

lemma set_priority [simp]: "set (servers_by_priority p) = sh_addr ` set p"
  by (simp add: servers_by_priority_def)

lemma priority_nonempty [simp]: "servers_by_priority p = [] \<longleftrightarrow> p = []"
  by (metis set_empty set_priority image_is_empty)

lemma find_first:
  assumes "\<And>y. y \<in> set ys \<Longrightarrow> F y \<Longrightarrow> \<not> Q y" and "F a" and "Q a" and "\<forall>y \<in> set ys. y \<noteq> a"
  shows "find Q (filter F (ys @ a # zs)) = Some a"
    and "takeWhile (\<lambda>b. b \<noteq> a) (filter F (ys @ a # zs)) = filter F ys"
proof -
  have "find Q (filter F (ys @ a # zs)) = Some a
      \<and> takeWhile (\<lambda>b. b \<noteq> a) (filter F (ys @ a # zs)) = filter F ys"
    using assms by (induction ys) auto
  then show "find Q (filter F (ys @ a # zs)) = Some a"
    and "takeWhile (\<lambda>b. b \<noteq> a) (filter F (ys @ a # zs)) = filter F ys" by simp_all
qed

text \<open>C21: Failover: a request on a socket tries the servers of the socket's family, the healthy ones and
  then the faster ones first, and returns the answer of the first that answers within half a second;
  its failures are cleared, each server tried before it has one more, the others are untouched. When none
  answers the request fails and every server of the family has one more failure.\<close>

theorem pool_failover:
  assumes "distinct (map sh_addr p)" and "p \<noteq> []"
  shows "case pool_request_on crc32 (Some local_addr) net p of (p', r) \<Rightarrow>
    let same = filter (\<lambda>a. addr_is_ipv6 a = addr_is_ipv6 local_addr) (servers_by_priority p)
    in case find (\<lambda>a. pool_answer crc32 net a \<noteq> None) same of
         None \<Rightarrow> \<not> is_ok r \<and> failures p' = map (\<lambda>(x, n). (x, if x \<in> set same then sat_add n 1 else n)) (failures p)
       | Some a \<Rightarrow> Some r = map_option Ok (pool_answer crc32 net a)
           \<and> failures p' = map (\<lambda>(x, n). (x, if x = a then 0
               else if x \<in> set (takeWhile (\<lambda>b. b \<noteq> a) same) then sat_add n 1 else n)) (failures p)"
proof -
  let ?v = "addr_is_ipv6 local_addr" and ?as = "servers_by_priority p"
  let ?F = "\<lambda>a. addr_is_ipv6 a = ?v" and ?Q = "\<lambda>a. pool_answer crc32 net a \<noteq> None"
  have r: "pool_request_on crc32 (Some local_addr) net p = try_servers crc32 ?v net ?as None p"
    using assms(2) by (simp add: pool_request_on_def Let_def)
  show ?thesis
  proof (cases "\<exists>a \<in> set ?as. ?F a \<and> ?Q a")
    case True
    then obtain pre a post where sp: "?as = pre @ a # post" "?F a" "?Q a"
      "\<forall>b \<in> set pre. \<not> (?F b \<and> ?Q b)"
      using split_list_first_prop [of ?as "\<lambda>a. ?F a \<and> ?Q a"] by blast
    then obtain x where x: "pool_answer crc32 net a = Some x" by auto
    have d: "distinct (pre @ a # post)" using assms(1) sp(1) distinct_priority [of p] by simp
    have n: "\<And>y. y \<in> set pre \<Longrightarrow> ?F y \<Longrightarrow> \<not> ?Q y" using sp(4) by blast
    have na: "\<forall>y \<in> set pre. y \<noteq> a" using d by auto
    have ff: "find ?Q (filter ?F ?as) = Some a" "takeWhile (\<lambda>b. b \<noteq> a) (filter ?F ?as) = filter ?F pre"
      unfolding sp(1)
      by (rule find_first [where F = ?F and Q = ?Q, OF n sp(2) sp(3) na]; assumption)+
    obtain p' y where t: "try_servers crc32 ?v net ?as None p = (p', y)" by (rule prod.exhaust)
    have "y = Ok x \<and> failures p' = map (\<lambda>(z, n). (z, if z = a then 0
        else if z \<in> {b \<in> set pre. ?F b} then sat_add n 1 else n)) (failures p)"
      using try_servers_some [OF assms(1) d sp(2) _ x, of None] n t unfolding sp(1) by simp
    moreover have "{b \<in> set pre. ?F b} = set (takeWhile (\<lambda>b. b \<noteq> a) (filter ?F ?as))"
      unfolding ff(2) by simp
    ultimately show ?thesis
      unfolding r t by (simp only: Let_def prod.case option.case ff(1) x option.map simp_thms)
  next
    case False
    then have none: "find ?Q (filter ?F ?as) = None" by (auto simp: find_None_iff)
    have "distinct ?as" using assms(1) by simp
    obtain p' y where t: "try_servers crc32 ?v net ?as None p = (p', y)" by (rule prod.exhaust)
    have nn: "pool_answer crc32 net a = None" if "a \<in> set ?as" and "?F a" for a
      using False that by blast
    have "(\<exists>e. y = Err e) \<and> failures p' = map (\<lambda>(z, n). (z, if z \<in> {b \<in> set ?as. ?F b} then sat_add n 1 else n)) (failures p)"
      using try_servers_none [where ?ipv6.0 = ?v and le = None, OF assms(1) \<open>distinct ?as\<close> nn] t by simp
    moreover have "{b \<in> set ?as. ?F b} = set (filter ?F ?as)" by simp
    ultimately have "\<not> is_ok y" "failures p' = map (\<lambda>(z, n). (z, if z \<in> set (filter ?F ?as) then sat_add n 1 else n)) (failures p)"
      by auto
    then show ?thesis unfolding r t by (simp only: Let_def prod.case option.case none simp_thms)
  qed
qed

section \<open>A pool that locks itself out\<close>

lemma min_by_key_mem: "min_by_key f xs = Some x \<Longrightarrow> x \<in> set xs"
  by (induction xs arbitrary: x) (auto split: option.splits if_splits)

lemma min_by_key_some: "xs \<noteq> [] \<Longrightarrow> \<exists>x \<in> set xs. min_by_key f xs = Some x"
  using min_by_key_mem [of f xs] by (cases xs) (auto split: option.splits)

lemma ipv6_bind:
  assumes "p \<noteq> []" and "\<forall>s \<in> set p. addr_is_ipv6 (sh_addr s)"
  shows "pool_bind_addr p = any_addr (\<exists>s \<in> set p. is_healthy s)"
proof (cases "filter is_healthy p = []")
  case True
  then show ?thesis by (auto simp: pool_bind_addr_def best_server_def filter_empty_conv)
next
  case False
  then obtain s where s: "s \<in> set p" "is_healthy s" "min_by_key health_key (filter is_healthy p) = Some s"
    using min_by_key_some [OF False, of health_key] by auto
  then have "(\<exists>s \<in> set p. is_healthy s) = True" "addr_is_ipv6 (sh_addr s)" using assms(2) by auto
  with s(3) show ?thesis by (simp only: pool_bind_addr_def best_server_def option.map option.case)
qed

lemma failures_addrs: "failures p = map (\<lambda>a. (a, n)) as \<Longrightarrow> map sh_addr p = as"
  by (drule arg_cong [where f = "map fst"]) (simp add: o_def)

lemma failures_count:
  assumes "failures p = map (\<lambda>a. (a, n)) as" and "s \<in> set p"
  shows "sh_failure_count s = n"
proof -
  have "(sh_addr s, sh_failure_count s) \<in> set (failures p)" using assms(2) by auto
  then show ?thesis unfolding assms(1) by auto
qed

text \<open>The sockets that the two families bind to.\<close>

definition dual_stack :: "(string \<Rightarrow> string + sock_addr option) \<Rightarrow> bool" where
  "dual_stack bind_to = (\<exists>ip ip' port port'. bind_to ''[::]:0'' = Inr (Some (V6 ip port))
     \<and> bind_to ''0.0.0.0:0'' = Inr (Some (V4 ip' port')))"

lemma request_unanswered:
  assumes "failures p = map (\<lambda>a. (a, n)) as" and "\<forall>a \<in> set as. addr_is_ipv6 a" and "distinct as" and "as \<noteq> []"
    and "n < UNHEALTHY_THRESHOLD" and "dual_stack bind_to" and "\<forall>a \<in> set as. pool_answer crc32 net a = None"
  shows "failures (fst (pool_request crc32 bind_to net p)) = map (\<lambda>a. (a, sat_add n 1)) as"
proof -
  note addrs = failures_addrs [OF assms(1)]
  have sa: "sh_addr ` set p = set as" by (metis addrs set_map)
  have p: "p \<noteq> []" "distinct (map sh_addr p)" "\<forall>s \<in> set p. addr_is_ipv6 (sh_addr s)"
    using addrs assms(2-4) sa by auto
  then have "\<exists>s \<in> set p. is_healthy s"
    using failures_count [OF assms(1)] assms(5) by (auto simp: is_healthy_def neq_Nil_conv)
  then have b: "pool_bind_addr p = ''[::]:0''" using ipv6_bind [OF p(1) p(3)] by (simp add: any_addr_def)
  obtain ip port where bt: "bind_to ''[::]:0'' = Inr (Some (V6 ip port))" using assms(6) by (auto simp: dual_stack_def)
  have "distinct (servers_by_priority p)" using p(2) by simp
  from try_servers_none [OF p(2) this, of True crc32 net None] assms(7)
  have f: "failures (fst (try_servers crc32 True net (servers_by_priority p) None p))
      = map (\<lambda>(x, n). (x, if x \<in> {a \<in> set as. addr_is_ipv6 a} then sat_add n 1 else n)) (failures p)"
    by (simp add: sa)
  have "map (\<lambda>(x, n). (x, if x \<in> {a \<in> set as. addr_is_ipv6 a} then sat_add n 1 else n)) (failures p)
      = map (\<lambda>a. (a, sat_add n 1)) as"
    unfolding assms(1) using assms(2) by simp
  with f p(1) show ?thesis by (simp add: pool_request_def b bt pool_request_on_def Let_def)
qed

lemma try_other_family:
  "\<forall>a \<in> set as. addr_is_ipv6 a \<noteq> ipv6 \<Longrightarrow> try_servers crc32 ipv6 net as None p
    = (p, Err (Timeout ''All STUN servers failed or unreachable''))"
  by (induction as) auto

lemma locked_out:
  assumes "p \<noteq> []" and "\<forall>s \<in> set p. addr_is_ipv6 (sh_addr s)" and "\<not> (\<exists>s \<in> set p. is_healthy s)"
    and "dual_stack bind_to"
  shows "pool_request crc32 bind_to net p = (p, Err (Timeout ''All STUN servers failed or unreachable''))"
proof -
  have b: "pool_bind_addr p = ''0.0.0.0:0''" using ipv6_bind [OF assms(1,2)] assms(3) by (simp add: any_addr_def)
  obtain ip port where bt: "bind_to ''0.0.0.0:0'' = Inr (Some (V4 ip port))" using assms(4) by (auto simp: dual_stack_def)
  have "try_servers crc32 False net (servers_by_priority p) None p
      = (p, Err (Timeout ''All STUN servers failed or unreachable''))"
    by (rule try_other_family) (use assms(2) in auto)
  with assms(1) show ?thesis by (simp add: pool_request_def b bt pool_request_on_def Let_def)
qed

text \<open>C39: A pool of IPv6 servers can lock itself out: after three requests that nobody answered, every
  further request binds an IPv4 socket, skips all servers because of their family and fails
  without sending anything, even when every server would answer again; the state no longer
  changes, so only the separate probe can bring the pool back.\<close>

theorem ipv6_pool_locks_out:
  assumes "pool_new servers = Ok p" and "distinct servers" and "\<forall>a \<in> set servers. addr_is_ipv6 a"
    and "dual_stack bind_to"
    and "\<forall>net \<in> {net1, net2, net3}. \<forall>a \<in> set servers. pool_answer crc32 net a = None"
  shows "let q = foldl (\<lambda>q net. fst (pool_request crc32 bind_to net q)) p [net1, net2, net3]
    in pool_request crc32 bind_to net q = (q, Err (Timeout ''All STUN servers failed or unreachable''))"
proof -
  have ne: "servers \<noteq> []" and p: "p = map health_new servers"
    using assms(1) by (auto simp: pool_new_def split: if_splits)
  have f0: "failures p = map (\<lambda>a. (a, 0)) servers" by (simp add: p health_new_def)
  let ?q1 = "fst (pool_request crc32 bind_to net1 p)"
  let ?q2 = "fst (pool_request crc32 bind_to net2 ?q1)"
  let ?q3 = "fst (pool_request crc32 bind_to net3 ?q2)"
  note req = request_unanswered [OF _ assms(3,2) ne _ assms(4)]
  have s: "sat_add 0 1 = (1 :: u32)" "sat_add 1 1 = (2 :: u32)" "sat_add 2 1 = (3 :: u32)"
    by (simp_all add: sat_add_def)
  have lt: "(0 :: u32) < UNHEALTHY_THRESHOLD" "(1 :: u32) < UNHEALTHY_THRESHOLD" "(2 :: u32) < UNHEALTHY_THRESHOLD"
    by (simp_all add: UNHEALTHY_THRESHOLD_def)
  have f1: "failures ?q1 = map (\<lambda>a. (a, 1)) servers" using req [OF f0 lt(1), of crc32 net1] assms(5) s by simp
  have f2: "failures ?q2 = map (\<lambda>a. (a, 2)) servers" using req [OF f1 lt(2), of crc32 net2] assms(5) s by simp
  have f3: "failures ?q3 = map (\<lambda>a. (a, 3)) servers" using req [OF f2 lt(3), of crc32 net3] assms(5) s by simp
  have sa: "sh_addr ` set ?q3 = set servers" by (metis failures_addrs [OF f3] set_map)
  have q: "?q3 \<noteq> []" "\<forall>s \<in> set ?q3. addr_is_ipv6 (sh_addr s)"
    using ne sa assms(3) by (metis set_empty image_empty, blast)
  have h: "\<not> (\<exists>s \<in> set ?q3. is_healthy s)"
    using failures_count [OF f3] by (simp add: is_healthy_def UNHEALTHY_THRESHOLD_def)
  show ?thesis unfolding Let_def foldl.simps by (rule locked_out [OF q h assms(4)])
qed

section \<open>Witnesses\<close>

text \<open>The properties of the STUN client, of its keepalive and of its pool at concrete inputs.\<close>

definition pool_srv1 :: sock_addr where "pool_srv1 = V4 0x01020301 3478"
definition pool_srv2 :: sock_addr where "pool_srv2 = V4 0x01020302 3478"

definition pool_world :: nat_world where
  "pool_world = \<lparr>nw_primary = pool_srv2, nw_alternate = pool_srv2, nw_changes = True,
     nw_mapping = (\<lambda>d. V4 0xCB007101 40000), nw_admits = (\<lambda>c s. True)\<rparr>"

text \<open>The first server stays silent, the second one answers within ten milliseconds.\<close>

definition pool_demo_net :: "sock_addr \<Rightarrow> pool_attempt" where
  "pool_demo_net a = (if a = pool_srv2
     then \<lparr>pa_start = 7, pa_elapsed = 10000000, pa_random_id = replicate 12 1,
           pa_net = world_net (\<lambda>b. 0) pool_world [] pool_srv2 (new_binding_request (replicate 12 1))\<rparr>
     else \<lparr>pa_start = 7, pa_elapsed = 500000000, pa_random_id = replicate 12 2, pa_net = (None, [])\<rparr>)"

lemma pool_demo_answers:
  "pool_answer (\<lambda>b. 0) pool_demo_net pool_srv2 = Some (V4 0xCB007101 40000)"
  "a \<noteq> pool_srv2 \<Longrightarrow> pool_answer (\<lambda>b. 0) pool_demo_net a = None"
  using world_transaction [where q = "new_binding_request (replicate 12 1)" and ci = False and cp = False
      and skip = False and dest = pool_srv2 and c = "[]" and w = pool_world and now = 7 and ?crc32.0 = "\<lambda>b. 0"]
  by (simp_all add: pool_answer_def attempt_result_def pool_demo_net_def ATTEMPT_TIMEOUT_def binding_request_on_def
      mapped_result_def) (simp add: pool_world_def)

theorem pool_failover_witness:
  "case pool_request_on (\<lambda>b. 0) (Some (V4 0 50000)) pool_demo_net [health_new pool_srv1, health_new pool_srv2] of (p', r) \<Rightarrow>
     r = Ok (V4 0xCB007101 40000) \<and> failures p' = [(pool_srv1, 1), (pool_srv2, 0)]"
proof -
  let ?p = "[health_new pool_srv1, health_new pool_srv2]"
  have ne: "pool_srv1 \<noteq> pool_srv2" by (simp add: pool_srv1_def pool_srv2_def)
  have pr: "servers_by_priority ?p = [pool_srv1, pool_srv2]"
    by (simp add: servers_by_priority_def health_new_def health_key_def is_healthy_def)
  have v: "addr_is_ipv6 pool_srv1 = False" "addr_is_ipv6 pool_srv2 = False" by (simp_all add: pool_srv1_def pool_srv2_def)
  have f: "failures ?p = [(pool_srv1, 0), (pool_srv2, 0)]" by (simp add: health_new_def)
  have d: "distinct (map sh_addr ?p)" "?p \<noteq> []" using ne by (simp_all add: health_new_def)
  have s: "sat_add 0 1 = (1 :: u32)" by (simp add: sat_add_def)
  show ?thesis
    using pool_failover [OF d, where ?crc32.0 = "\<lambda>b. 0" and local_addr = "V4 0 50000" and net = pool_demo_net]
      pool_demo_answers(1) pool_demo_answers(2) [OF ne] ne
    unfolding pr f by (auto simp: v s Let_def split: prod.splits)
qed

definition lockout_servers :: "sock_addr list" where
  "lockout_servers = [V6 0x20010DB8000000000000000000000001 3478]"

definition lockout_bind :: "string \<Rightarrow> string + sock_addr option" where
  "lockout_bind a = Inr (Some (if a = ''[::]:0'' then V6 0 50000 else V4 0 50000))"

theorem ipv6_pool_locks_out_witness:
  "let q = foldl (\<lambda>q net. fst (pool_request (\<lambda>b. 0) lockout_bind net q)) (map health_new lockout_servers)
       [pool_demo_net, pool_demo_net, pool_demo_net]
   in pool_request (\<lambda>b. 0) lockout_bind pool_demo_net q = (q, Err (Timeout ''All STUN servers failed or unreachable''))"
proof (rule ipv6_pool_locks_out)
  show "pool_new lockout_servers = Ok (map health_new lockout_servers)"
    by (simp add: pool_new_def lockout_servers_def)
  show "dual_stack lockout_bind" by (simp add: dual_stack_def lockout_bind_def)
  show "\<forall>net \<in> {pool_demo_net, pool_demo_net, pool_demo_net}. \<forall>a \<in> set lockout_servers. pool_answer (\<lambda>b. 0) net a = None"
    using pool_demo_answers(2) by (simp add: lockout_servers_def pool_srv2_def)
qed (simp_all add: lockout_servers_def)

text \<open>A keepalive that has counted nine stable rounds.\<close>

definition demo_keepalive :: nat_keepalive where
  "demo_keepalive = (fst (keepalive_start (keepalive_new pool_srv2 (nanos 15) (nanos 25))))\<lparr>ka_rebind_occurred := True\<rparr>"

theorem announced_rebinding_forgotten_witness:
  "map_option (\<lambda>((k', t'), report, sent). (ka_effective_min k', report))
     (keepalive_round (\<lambda>b. 0) 7 (\<lambda>i. replicate 12 1) (world_net (\<lambda>b. 0) pool_world [] pool_srv2
       (new_binding_request (replicate 12 1))) None (notify_rebinding demo_keepalive)
       \<lparr>kt_last_reflexive = Some (V4 0xCB007101 40000), kt_stable_count = 9\<rparr>)
   = Some (grown_interval (notify_rebinding demo_keepalive), None)
   \<and> ka_effective_min ((notify_stable ^^ 9) (notify_rebinding demo_keepalive)) = nanos 15 div 2"
proof -
  have run: "ka_running demo_keepalive" "ka_stun_server demo_keepalive = pool_srv2"
    "halved_interval (ka_effective_min demo_keepalive) = nanos 15 div 2"
    by (simp_all add: demo_keepalive_def keepalive_start_def keepalive_new_def halved_interval_def nanos_def
        ADAPTIVE_MIN_INTERVAL_SECS_def)
  have ans: "snd (snd (binding_request_on (\<lambda>b. 0) 7 (replicate 12 1) pool_srv2
      (world_net (\<lambda>b. 0) pool_world [] pool_srv2 (new_binding_request (replicate 12 1))))) = Some (Ok (V4 0xCB007101 40000))"
    using world_transaction [where q = "new_binding_request (replicate 12 1)" and ci = False and cp = False
        and skip = False and dest = pool_srv2 and c = "[]" and w = pool_world and now = 7 and ?crc32.0 = "\<lambda>b. 0"]
    by (simp add: binding_request_on_def mapped_result_def) (simp add: pool_world_def)
  show ?thesis
    using announced_rebinding_forgotten [where k = demo_keepalive and a = "V4 0xCB007101 40000"
        and t = "\<lparr>kt_last_reflexive = Some (V4 0xCB007101 40000), kt_stable_count = 9\<rparr>"
        and ?crc32.0 = "\<lambda>b. 0" and now = 7 and ids = "\<lambda>i. replicate 12 1" and failure = None
        and net = "world_net (\<lambda>b. 0) pool_world [] pool_srv2 (new_binding_request (replicate 12 1))"]
      run ans by simp
qed

end
