(* ===== verification/Provider_Router.thy ===== *)
theory Provider_Router
  imports Rtp_Strings Session_Manager "HOL-Library.Product_Lexorder"
begin

text \<open>
  \<^verbatim>\<open>src/provider/config.rs\<close> and \<^verbatim>\<open>src/provider/router.rs\<close>: the SIP providers, and the
  router that selects one for a destination by its prefixes, its priority and its limits. The two
  hash maps are finite maps; the order in which a hash map yields its values is an argument of the
  operations that iterate. Strings are lists of bytes.
\<close>

section \<open>Providers\<close>

datatype provider_transport = PUdp | PTcp | PTls | PWebSocket

fun provider_transport_str :: "provider_transport \<Rightarrow> string" where
  "provider_transport_str PUdp = ''udp''"
| "provider_transport_str PTcp = ''tcp''"
| "provider_transport_str PTls = ''tls''"
| "provider_transport_str PWebSocket = ''ws''"

fun provider_default_port :: "provider_transport \<Rightarrow> u16" where
  "provider_default_port PUdp = 5060"
| "provider_default_port PTcp = 5060"
| "provider_default_port PTls = 5061"
| "provider_default_port PWebSocket = 80"

record provider_config =
  pv_id :: string
  pv_name :: string
  pv_sip_server :: string
  pv_sip_port :: u16
  pv_transport :: provider_transport
  pv_username :: string
  pv_password :: string
  pv_realm :: "string option"
  pv_from_domain :: "string option"
  pv_prefixes :: "string list"
  pv_priority :: byte
  pv_max_concurrent :: "u64 option"
  pv_register :: bool
  pv_register_interval :: u32
  pv_outbound_proxy :: "string option"

definition provider_config_default :: provider_config where
  "provider_config_default =
     \<lparr>pv_id = [], pv_name = [], pv_sip_server = [], pv_sip_port = 5060, pv_transport = PUdp,
      pv_username = [], pv_password = [], pv_realm = None, pv_from_domain = None, pv_prefixes = [],
      pv_priority = 1, pv_max_concurrent = None, pv_register = False, pv_register_interval = 300,
      pv_outbound_proxy = None\<rparr>"

definition provider_config_new :: "string \<Rightarrow> string \<Rightarrow> string \<Rightarrow> string \<Rightarrow> provider_config" where
  "provider_config_new ident sip_server username password =
     provider_config_default\<lparr>pv_id := ident, pv_name := ident, pv_sip_server := sip_server,
       pv_username := username, pv_password := password\<rparr>"

definition with_prefixes :: "string list \<Rightarrow> provider_config \<Rightarrow> provider_config" where
  "with_prefixes prefixes p = p\<lparr>pv_prefixes := prefixes\<rparr>"

definition with_priority :: "byte \<Rightarrow> provider_config \<Rightarrow> provider_config" where
  "with_priority priority p = p\<lparr>pv_priority := priority\<rparr>"

definition with_register :: "bool \<Rightarrow> provider_config \<Rightarrow> provider_config" where
  "with_register r p = p\<lparr>pv_register := r\<rparr>"

definition with_transport :: "provider_transport \<Rightarrow> provider_config \<Rightarrow> provider_config" where
  "with_transport t p =
     (let p1 = p\<lparr>pv_transport := t\<rparr>
      in if pv_sip_port p1 = 5060 then p1\<lparr>pv_sip_port := provider_default_port t\<rparr> else p1)"

definition provider_sip_uri :: "provider_config \<Rightarrow> string" where
  "provider_sip_uri p =
     (let scheme = (if pv_transport p = PTls then ''sips'' else ''sip'')
      in if pv_sip_port p \<noteq> provider_default_port (pv_transport p)
         then scheme @ '':'' @ pv_sip_server p @ '':'' @ show_nat (unat (pv_sip_port p))
         else scheme @ '':'' @ pv_sip_server p)"

definition provider_registrar_uri :: "provider_config \<Rightarrow> string" where
  "provider_registrar_uri p = provider_sip_uri p"

definition provider_matches :: "string \<Rightarrow> provider_config \<Rightarrow> bool" where
  "provider_matches destination p =
     (if pv_prefixes p = [] then True else list_ex (\<lambda>prefix. starts_with prefix destination) (pv_prefixes p))"

definition match_length :: "string \<Rightarrow> provider_config \<Rightarrow> nat" where
  "match_length destination p =
     foldr max (map length (filter (\<lambda>prefix. starts_with prefix destination) (pv_prefixes p))) 0"

record provider_stats =
  ps_active_calls :: u64
  ps_total_calls :: u64
  ps_failed_calls :: u64
  ps_registered :: bool
  ps_last_error :: "string option"

definition provider_stats_default :: provider_stats where
  "provider_stats_default = \<lparr>ps_active_calls = 0, ps_total_calls = 0, ps_failed_calls = 0,
     ps_registered = False, ps_last_error = None\<rparr>"

section \<open>The router\<close>

record provider_router =
  rt_providers :: "string \<rightharpoonup> provider_config"
  rt_stats :: "string \<rightharpoonup> provider_stats"

definition router_new :: provider_router where
  "router_new = \<lparr>rt_providers = Map.empty, rt_stats = Map.empty\<rparr>"

definition router_add :: "provider_config \<Rightarrow> provider_router \<Rightarrow> provider_router" where
  "router_add p r =
     r\<lparr>rt_providers := (rt_providers r)(pv_id p \<mapsto> p), rt_stats := (rt_stats r)(pv_id p \<mapsto> provider_stats_default)\<rparr>"

definition router_remove :: "string \<Rightarrow> provider_router \<Rightarrow> provider_router \<times> provider_config option" where
  "router_remove i r =
     (r\<lparr>rt_stats := (rt_stats r)(i := None), rt_providers := (rt_providers r)(i := None)\<rparr>, rt_providers r i)"

definition router_get :: "string \<Rightarrow> provider_router \<Rightarrow> provider_config option" where
  "router_get i r = rt_providers r i"

text \<open>The two filters of a provider that matches: its limit of calls and its registration.\<close>

definition below_limit :: "provider_router \<Rightarrow> provider_config \<Rightarrow> bool" where
  "below_limit r p = (case (pv_max_concurrent p, rt_stats r (pv_id p)) of
     (Some limit, Some s) \<Rightarrow> \<not> ps_active_calls s \<ge> limit | _ \<Rightarrow> True)"

definition registration_ok :: "provider_router \<Rightarrow> provider_config \<Rightarrow> bool" where
  "registration_ok r p = (if pv_register p
     then (case rt_stats r (pv_id p) of Some s \<Rightarrow> ps_registered s | None \<Rightarrow> True) else True)"

definition eligible :: "provider_router \<Rightarrow> string \<Rightarrow> provider_config \<Rightarrow> bool" where
  "eligible r destination p = (provider_matches destination p \<and> below_limit r p \<and> registration_ok r p)"

text \<open>Longer prefixes first, then the smaller number of the priority; the sort is stable.\<close>

definition route_key :: "string \<Rightarrow> provider_config \<Rightarrow> int \<times> byte" where
  "route_key destination p = (- int (match_length destination p), pv_priority p)"

definition route_with_fallback :: "provider_config list \<Rightarrow> string \<Rightarrow> provider_router \<Rightarrow> provider_config list" where
  "route_with_fallback provider_values destination r =
     sort_key (route_key destination) (filter (eligible r destination) provider_values)"

definition route :: "provider_config list \<Rightarrow> string \<Rightarrow> provider_router \<Rightarrow> provider_config option" where
  "route provider_values destination r =
     (let matches = filter (eligible r destination) provider_values
      in if matches = [] then None
         else (case sort_key (route_key destination) matches of [] \<Rightarrow> None | p # _ \<Rightarrow> Some p))"

definition router_update_stats :: "string \<Rightarrow> (provider_stats \<Rightarrow> provider_stats) \<Rightarrow> provider_router \<Rightarrow> provider_router" where
  "router_update_stats i f r = (case rt_stats r i of
     None \<Rightarrow> r | Some s \<Rightarrow> r\<lparr>rt_stats := (rt_stats r)(i \<mapsto> f s)\<rparr>)"

definition call_started :: "string \<Rightarrow> provider_router \<Rightarrow> provider_router" where
  "call_started i = router_update_stats i (\<lambda>s.
     s\<lparr>ps_active_calls := ps_active_calls s + 1, ps_total_calls := ps_total_calls s + 1\<rparr>)"

definition call_ended :: "string \<Rightarrow> provider_router \<Rightarrow> provider_router" where
  "call_ended i = router_update_stats i (\<lambda>s. s\<lparr>ps_active_calls := sat_sub (ps_active_calls s) 1\<rparr>)"

definition call_failed :: "string \<Rightarrow> string \<Rightarrow> provider_router \<Rightarrow> provider_router" where
  "call_failed i error = router_update_stats i (\<lambda>s.
     s\<lparr>ps_failed_calls := ps_failed_calls s + 1, ps_active_calls := sat_sub (ps_active_calls s) 1,
       ps_last_error := Some error\<rparr>)"

definition router_set_registered :: "string \<Rightarrow> bool \<Rightarrow> provider_router \<Rightarrow> provider_router" where
  "router_set_registered i b = router_update_stats i (\<lambda>s. s\<lparr>ps_registered := b\<rparr>)"

definition router_get_stats :: "string \<Rightarrow> provider_router \<Rightarrow> provider_stats option" where
  "router_get_stats i r = rt_stats r i"

definition router_all_stats :: "provider_router \<Rightarrow> string \<rightharpoonup> provider_stats" where
  "router_all_stats r = rt_stats r"

text \<open>\<^verbatim>\<open>SessionManager::route\<close>: the manager hands the question to the router it holds.\<close>

definition session_route :: "provider_router \<Rightarrow> provider_config list \<Rightarrow> string \<Rightarrow> provider_config option" where
  "session_route router provider_values destination = route provider_values destination router"

section \<open>The best provider\<close>

text \<open>Providers and statistics have the same keys, and a provider is stored under its identifier.\<close>

definition router_wf :: "provider_router \<Rightarrow> bool" where
  "router_wf r = (dom (rt_stats r) = dom (rt_providers r)
     \<and> (\<forall>i \<in> dom (rt_providers r). map_option pv_id (rt_providers r i) = Some i))"

definition hash_order :: "provider_config list \<Rightarrow> provider_router \<Rightarrow> bool" where
  "hash_order values r = (set values = ran (rt_providers r))"

lemma match_length_max:
  "starts_with prefix destination \<Longrightarrow> prefix \<in> set (pv_prefixes p) \<Longrightarrow> length prefix \<le> match_length destination p"
proof -
  have "x \<in> set xs \<Longrightarrow> x \<le> foldr max xs (0 :: nat)" for x xs by (induction xs) auto
  then show "starts_with prefix destination \<Longrightarrow> prefix \<in> set (pv_prefixes p) \<Longrightarrow> ?thesis"
    by (auto simp: match_length_def)
qed

lemma match_length_attained:
  "match_length destination p = 0 \<or> (\<exists>prefix \<in> set (pv_prefixes p).
     starts_with prefix destination \<and> length prefix = match_length destination p)"
proof -
  have "foldr max xs (0 :: nat) = 0 \<or> foldr max xs 0 \<in> set xs" for xs by (induction xs) (auto simp: max_def)
  from this [of "map length (filter (\<lambda>prefix. starts_with prefix destination) (pv_prefixes p))"]
  show ?thesis by (auto simp: match_length_def)
qed

lemma route_fallback: "route vs d r = (case route_with_fallback vs d r of [] \<Rightarrow> None | p # _ \<Rightarrow> Some p)"
  by (auto simp: route_def route_with_fallback_def Let_def split: list.split)

definition better :: "string \<Rightarrow> provider_config \<Rightarrow> provider_config \<Rightarrow> bool" where
  "better d p q = (match_length d q < match_length d p
     \<or> (match_length d q = match_length d p \<and> pv_priority p \<le> pv_priority q))"

lemma route_key_better: "route_key d p \<le> route_key d q \<longleftrightarrow> better d p q"
  by (auto simp: route_key_def better_def)

text \<open>C22: Routing is right: a destination is routed exactly when some provider is eligible (a prefix of it
  matches or it has none, it is below its limit, and it is registered if it has to be), and then to a
  stored eligible provider with no better one: none with a longer matching prefix, and none of the same length
  with a smaller priority. The fallback list holds exactly the eligible providers, in that order, and
  starts with the provider routed to.\<close>

theorem route_best:
  assumes "router_wf r" and "hash_order vs r"
  shows "case route vs d r of
      None \<Rightarrow> \<not> (\<exists>p \<in> ran (rt_providers r). eligible r d p)
    | Some p \<Rightarrow> router_get (pv_id p) r = Some p \<and> eligible r d p
        \<and> (\<forall>q \<in> ran (rt_providers r). if eligible r d q then better d p q else True)
        \<and> hd (route_with_fallback vs d r) = p
        \<and> sorted_wrt (better d) (route_with_fallback vs d r)
        \<and> set (route_with_fallback vs d r) = {q \<in> ran (rt_providers r). eligible r d q}"
proof -
  let ?f = "route_with_fallback vs d r"
  have s: "set ?f = {q \<in> ran (rt_providers r). eligible r d q}"
    using assms(2) by (auto simp: route_with_fallback_def hash_order_def)
  have "sorted (map (route_key d) ?f)" by (simp add: route_with_fallback_def)
  then have so: "sorted_wrt (better d) ?f"
    unfolding sorted_map by (rule sorted_wrt_mono_rel [rotated]) (simp add: route_key_better)
  show ?thesis
  proof (cases ?f)
    case Nil
    with s show ?thesis by (auto simp: route_fallback)
  next
    case (Cons p ps)
    then have p: "p \<in> ran (rt_providers r)" "eligible r d p" using s by auto
    then obtain i where i: "rt_providers r i = Some p" by (auto simp: ran_def)
    then have "i = pv_id p" using assms(1) by (auto simp: router_wf_def dom_def)
    moreover have "better d p q" if "q \<in> ran (rt_providers r)" "eligible r d q" for q
    proof (cases "q = p")
      case False
      with that s Cons so show ?thesis by auto
    qed (simp add: better_def)
    ultimately show ?thesis using i p s so Cons by (simp add: route_fallback router_get_def)
  qed
qed

end
