(* ===== verification/Provider_Props.thy ===== *)
theory Provider_Props
  imports Provider_Router
begin

text \<open>
  Runs of the provider router: its invariant, and the limit on the calls of a provider, which
  holds for a caller that starts a call only on an eligible provider, until the provider is added again.
\<close>

datatype router_op = RAdd provider_config | RRemove string | RStarted string | REnded string
  | RFailed string string | RRegistered string bool

fun router_step :: "provider_router \<Rightarrow> router_op \<Rightarrow> provider_router" where
  "router_step r (RAdd p) = router_add p r"
| "router_step r (RRemove i) = fst (router_remove i r)"
| "router_step r (RStarted i) = call_started i r"
| "router_step r (REnded i) = call_ended i r"
| "router_step r (RFailed i e) = call_failed i e r"
| "router_step r (RRegistered i b) = router_set_registered i b r"

abbreviation router_run :: "provider_router \<Rightarrow> router_op list \<Rightarrow> provider_router" where
  "router_run \<equiv> foldl router_step"

lemmas router_call_defs = call_started_def call_ended_def call_failed_def router_set_registered_def

lemma update_stats_providers [simp]: "rt_providers (router_update_stats i f r) = rt_providers r"
  by (simp add: router_update_stats_def split: option.split)

lemma update_stats_dom [simp]: "dom (rt_stats (router_update_stats i f r)) = dom (rt_stats r)"
  by (auto simp: router_update_stats_def split: option.split)

lemma update_stats_at:
  "rt_stats (router_update_stats i f r) j = (if j = i then map_option f (rt_stats r i) else rt_stats r j)"
  by (simp add: router_update_stats_def split: option.split)

lemma router_wf_step: "router_wf r \<Longrightarrow> router_wf (router_step r op)"
  by (cases op) (auto simp: router_wf_def router_add_def router_remove_def router_call_defs)

text \<open>Over any run a provider is stored under its identifier, and has statistics as long as it is
  stored.\<close>

lemma router_wf_run: "router_wf (router_run router_new ops)"
proof (induction ops rule: rev_induct)
  case (snoc op ops)
  then show ?case by (simp add: router_wf_step)
qed (simp add: router_new_def router_wf_def)

section \<open>The limit\<close>

text \<open>The calls of a provider that a list of operations leaves under way, of \<open>n\<close> before.\<close>

fun under_way :: "string \<Rightarrow> nat \<Rightarrow> router_op list \<Rightarrow> nat" where
  "under_way i n [] = n"
| "under_way i n (RStarted j # ops) = under_way i (if j = i then n + 1 else n) ops"
| "under_way i n (REnded j # ops) = under_way i (if j = i then n - 1 else n) ops"
| "under_way i n (RFailed j e # ops) = under_way i (if j = i then n - 1 else n) ops"
| "under_way i n (op # ops) = under_way i n ops"

text \<open>A caller that starts a call of provider \<open>i\<close> only when it is below its limit, and neither adds nor
  removes the provider meanwhile.\<close>

fun admitted :: "string \<Rightarrow> provider_router \<Rightarrow> router_op list \<Rightarrow> bool" where
  "admitted i r [] = True"
| "admitted i r (op # ops) =
     ((case op of
         RStarted j \<Rightarrow> (if j = i then (case rt_providers r i of Some p \<Rightarrow> below_limit r p | None \<Rightarrow> True) else True)
       | RAdd p \<Rightarrow> pv_id p \<noteq> i
       | RRemove j \<Rightarrow> j \<noteq> i
       | _ \<Rightarrow> True) \<and> admitted i (router_step r op) ops)"

lemma unat_plus_one: "(x :: u64) < y \<Longrightarrow> unat (x + 1) = unat x + 1"
  using unat64_less [of y] by (simp add: unat_word_ariths word_less_nat_alt)

lemma unat_sat_sub_one: "unat (sat_sub (x :: u64) 1) = unat x - 1"
proof (cases "x = 0")
  case False
  then have "1 \<le> x" by (simp add: word_gt_0 inc_le [of 0 x, simplified])
  then show ?thesis by (simp add: sat_sub_def unat_sub)
qed (simp add: sat_sub_def)

lemma limit_run:
  assumes "rt_providers r i = Some p" and "pv_id p = i" and "pv_max_concurrent p = Some limit"
    and "rt_stats r i = Some s" and "ps_active_calls s \<le> limit" and "admitted i r ops"
  shows "\<exists>s'. rt_stats (router_run r ops) i = Some s'
    \<and> unat (ps_active_calls s') = under_way i (unat (ps_active_calls s)) ops
    \<and> under_way i (unat (ps_active_calls s)) ops \<le> unat limit"
  using assms
proof (induction ops arbitrary: r s)
  case Nil
  then show ?case by (simp add: word_le_nat_alt)
next
  case (Cons op ops)
  let ?r = "router_step r op"
  have keep: "\<exists>s'. rt_stats (router_run ?r ops) i = Some s'
      \<and> unat (ps_active_calls s') = under_way i (unat (ps_active_calls t)) ops
      \<and> under_way i (unat (ps_active_calls t)) ops \<le> unat limit"
    if "rt_providers ?r i = Some p" "rt_stats ?r i = Some t" "ps_active_calls t \<le> limit" for t
    using Cons.IH [OF that(1) Cons.prems(2,3) that(2,3)] Cons.prems(6) by simp
  have le: "sat_sub (ps_active_calls s) 1 \<le> limit" using Cons.prems(5) sat_sub_le order_trans by blast
  show ?case
  proof (cases op)
    case (RAdd q)
    then have "i \<noteq> pv_id q" using Cons.prems(6) by auto
    then show ?thesis using keep [of s] Cons.prems(1,4,5) by (simp add: RAdd router_add_def)
  next
    case (RRemove j)
    then have "i \<noteq> j" using Cons.prems(6) by auto
    then show ?thesis using keep [of s] Cons.prems(1,4,5) by (simp add: RRemove router_remove_def)
  next
    case (RStarted j)
    show ?thesis
    proof (cases "j = i")
      case True
      then have lt: "ps_active_calls s < limit"
        using RStarted Cons.prems(1,3,4,6) by (simp add: below_limit_def Cons.prems(2) not_le)
      then show ?thesis
        using keep [of "s\<lparr>ps_active_calls := ps_active_calls s + 1, ps_total_calls := ps_total_calls s + 1\<rparr>"]
          True Cons.prems(1,4) unat_plus_one [OF lt]
        by (simp add: RStarted call_started_def update_stats_at inc_le)
    next
      case False
      then show ?thesis using keep [of s] Cons.prems(1,4,5) by (simp add: RStarted call_started_def update_stats_at)
    qed
  next
    case (REnded j)
    then show ?thesis
      using keep [of s] keep [of "s\<lparr>ps_active_calls := sat_sub (ps_active_calls s) 1\<rparr>"] Cons.prems(1,4,5) le
      by (cases "j = i") (simp_all add: REnded call_ended_def update_stats_at unat_sat_sub_one)
  next
    case (RFailed j e)
    then show ?thesis
      using keep [of s] keep [of "s\<lparr>ps_failed_calls := ps_failed_calls s + 1,
          ps_active_calls := sat_sub (ps_active_calls s) 1, ps_last_error := Some e\<rparr>"] Cons.prems(1,4,5) le
      by (cases "j = i") (simp_all add: RFailed call_failed_def update_stats_at unat_sat_sub_one)
  next
    case (RRegistered j b)
    then show ?thesis
      using keep [of s] keep [of "s\<lparr>ps_registered := b\<rparr>"] Cons.prems(1,4,5)
      by (cases "j = i") (simp_all add: RRegistered router_set_registered_def update_stats_at)
  qed
qed


lemma started_n:
  assumes "rt_stats r i = Some s"
  shows "rt_stats ((call_started i ^^ n) r) i
      = Some (s\<lparr>ps_active_calls := ps_active_calls s + of_nat n, ps_total_calls := ps_total_calls s + of_nat n\<rparr>)
    \<and> rt_providers ((call_started i ^^ n) r) = rt_providers r"
  using assms by (induction n) (simp_all add: call_started_def update_stats_at add.assoc add.commute)

text \<open>Adding a provider again forgets its calls: with all the calls its limit allows under way, a
  provider is not routed to; after the same configuration is added once more (to change a password, say)
  it is, so the limit is exceeded.\<close>

theorem readded_exceeds_limit:
  assumes "pv_max_concurrent p = Some limit" and "0 < limit" and "\<not> pv_register p" and "provider_matches d p"
  shows "let full = (call_started (pv_id p) ^^ unat limit) (router_add p r)
    in route [p] d full = None \<and> route [p] d (router_add p full) = Some p
      \<and> map_option ps_active_calls (router_get_stats (pv_id p) full) = Some limit"
proof -
  let ?full = "(call_started (pv_id p) ^^ unat limit) (router_add p r)"
  have "rt_stats (router_add p r) (pv_id p) = Some provider_stats_default" by (simp add: router_add_def)
  from started_n [OF this, of "unat limit"]
  have s: "\<exists>s. rt_stats ?full (pv_id p) = Some s \<and> ps_active_calls s = limit"
    by (auto simp: provider_stats_default_def)
  then obtain s where s: "rt_stats ?full (pv_id p) = Some s" "ps_active_calls s = limit" by blast
  have no: "\<not> eligible ?full d p" using s assms(1) by (simp add: eligible_def below_limit_def)
  have yes: "eligible (router_add p ?full) d p"
    using assms by (simp add: eligible_def below_limit_def registration_ok_def router_add_def provider_stats_default_def not_le)
  show ?thesis using s no yes by (simp add: Let_def route_def router_get_stats_def)
qed

section \<open>Witnesses\<close>

definition router_provider_a :: provider_config where
  "router_provider_a = (with_prefixes [''+1''] (provider_config_new ''a'' ''sip.a.com'' ''u'' ''p''))\<lparr>pv_max_concurrent := Some 2\<rparr>"

definition router_provider_b :: provider_config where
  "router_provider_b = with_priority 0 (provider_config_new ''b'' ''sip.b.com'' ''u'' ''p'')"

definition demo_router :: provider_router where
  "demo_router = router_add router_provider_b (router_add router_provider_a router_new)"

lemmas demo_router_defs = demo_router_def router_provider_b_def router_provider_a_def router_add_def router_new_def
  with_priority_def with_prefixes_def provider_config_new_def provider_config_default_def

lemma demo_router_ran: "set [router_provider_a, router_provider_b] = ran (rt_providers demo_router)"
proof -
  have i: "pv_id router_provider_a = ''a''" "pv_id router_provider_b = ''b''" by (simp_all add: demo_router_defs)
  have "rt_providers demo_router = [''a'' \<mapsto> router_provider_a, ''b'' \<mapsto> router_provider_b]"
    by (simp add: demo_router_def router_add_def router_new_def i)
  then show ?thesis by (simp add: ran_map_upd insert_commute)
qed

theorem route_best_witness:
  "route [router_provider_a, router_provider_b] ''+14155551234'' demo_router = Some router_provider_a
   \<and> hd (route_with_fallback [router_provider_a, router_provider_b] ''+14155551234'' demo_router) = router_provider_a"
proof -
  let ?d = "''+14155551234''"
  have wf: "router_wf demo_router" using router_wf_run [of "[RAdd router_provider_a, RAdd router_provider_b]"] by (simp add: demo_router_def)
  have ho: "hash_order [router_provider_a, router_provider_b] demo_router" using demo_router_ran by (simp add: hash_order_def)
  have e: "eligible demo_router ?d router_provider_a" by code_simp
  have nb: "\<not> better ?d router_provider_b router_provider_a" by code_simp
  have m: "router_provider_a \<in> ran (rt_providers demo_router)" unfolding demo_router_ran [symmetric] by simp
  note rb = route_best [OF wf ho, of ?d]
  obtain p where p: "route [router_provider_a, router_provider_b] ?d demo_router = Some p"
    using rb e m by (cases "route [router_provider_a, router_provider_b] ?d demo_router") auto
  with rb have q: "rt_providers demo_router (pv_id p) = Some p"
    "\<forall>q \<in> ran (rt_providers demo_router). if eligible demo_router ?d q then better ?d p q else True"
    "hd (route_with_fallback [router_provider_a, router_provider_b] ?d demo_router) = p"
    by (simp_all add: router_get_def)
  have "p \<in> set [router_provider_a, router_provider_b]" unfolding demo_router_ran using q(1) by (rule ranI)
  then have "p = router_provider_a \<or> p = router_provider_b" by simp
  moreover have "better ?d p router_provider_a" using q(2) m e by auto
  ultimately show ?thesis using nb p q(3) by auto
qed


theorem readded_exceeds_limit_witness:
  "let full = (call_started ''a'' ^^ 2) (router_add router_provider_a router_new)
   in route [router_provider_a] ''+14155551234'' full = None
     \<and> route [router_provider_a] ''+14155551234'' (router_add router_provider_a full) = Some router_provider_a"
proof -
  have m: "provider_matches ''+14155551234'' router_provider_a" by code_simp
  have p: "pv_max_concurrent router_provider_a = Some 2" "\<not> pv_register router_provider_a" "pv_id router_provider_a = ''a''"
    by (simp_all add: demo_router_defs)
  show ?thesis using readded_exceeds_limit [OF p(1) _ p(2) m, of router_new] p(3) by (simp add: Let_def)
qed

end
