(* ===== verification/Rtp_Vad.thy ===== *)
theory Rtp_Vad
  imports Rtp_Float
begin

text \<open>
  \<^verbatim>\<open>src/rtp/vad.rs\<close>: the voice activity detector, an energy measure with a slow estimate of
  the DC offset and a state machine with an onset and a holdoff. Samples are integers, a
  \<^verbatim>\<open>u32\<close> is a word that wraps where the code does not saturate, as a release build does.
\<close>

section \<open>The detector\<close>

datatype vad_state = VadNone | StartTalking | Talking | StopTalking

fun show_vad_state :: "vad_state \<Rightarrow> string" where
  "show_vad_state VadNone = ''None''"
| "show_vad_state StartTalking = ''StartTalking''"
| "show_vad_state Talking = ''Talking''"
| "show_vad_state StopTalking = ''StopTalking''"

definition state_is_talking :: "vad_state \<Rightarrow> bool" where
  "state_is_talking s = (s = StartTalking \<or> s = Talking)"

definition state_is_silent :: "vad_state \<Rightarrow> bool" where
  "state_is_silent s = (s = VadNone \<or> s = StopTalking)"

datatype vad_mode = Energy | Quality | LowBitrate | Aggressive | VeryAggressive

definition is_webrtc_style :: "vad_mode \<Rightarrow> bool" where "is_webrtc_style m = (m \<noteq> Energy)"

record vad =
  vd_threshold :: u32
  vd_sample_rate :: u32
  vd_divisor :: u32
  vd_channels :: u32
  vd_voice_onset_samples :: u32
  vd_silence_holdoff_samples :: u32
  vd_voice_sample_count :: u32
  vd_silence_sample_count :: u32
  vd_state :: vad_state
  vd_last_energy :: u32
  vd_mode :: vad_mode
  vd_dc_estimate :: int

definition vad_with_config :: "u32 \<Rightarrow> u32 \<Rightarrow> u32 \<Rightarrow> u32 \<Rightarrow> vad" where
  "vad_with_config rate threshold voice_onset_ms silence_holdoff_ms =
     (let sample_rate = max rate 8000
      in \<lparr>vd_threshold = threshold, vd_sample_rate = sample_rate,
          vd_divisor = max ((sample_rate + 4000) div 8000) 1, vd_channels = 1,
          vd_voice_onset_samples = sample_rate * voice_onset_ms div 1000,
          vd_silence_holdoff_samples = sample_rate * silence_holdoff_ms div 1000,
          vd_voice_sample_count = 0, vd_silence_sample_count = 0, vd_state = VadNone,
          vd_last_energy = 0, vd_mode = Energy, vd_dc_estimate = 0\<rparr>)"

definition vad_new :: "u32 \<Rightarrow> vad" where "vad_new rate = vad_with_config rate 100 200 500"

definition vad_default :: vad where "vad_default = vad_new 8000"

definition vad_set_channels :: "u32 \<Rightarrow> vad \<Rightarrow> vad" where "vad_set_channels c v = v\<lparr>vd_channels := max c 1\<rparr>"
definition vad_set_mode :: "vad_mode \<Rightarrow> vad \<Rightarrow> vad" where "vad_set_mode m v = v\<lparr>vd_mode := m\<rparr>"
definition vad_set_threshold :: "u32 \<Rightarrow> vad \<Rightarrow> vad" where "vad_set_threshold t v = v\<lparr>vd_threshold := t\<rparr>"

definition vad_set_voice_onset_ms :: "u32 \<Rightarrow> vad \<Rightarrow> vad" where
  "vad_set_voice_onset_ms ms v = v\<lparr>vd_voice_onset_samples := vd_sample_rate v * ms div 1000\<rparr>"

definition vad_set_silence_holdoff_ms :: "u32 \<Rightarrow> vad \<Rightarrow> vad" where
  "vad_set_silence_holdoff_ms ms v = v\<lparr>vd_silence_holdoff_samples := vd_sample_rate v * ms div 1000\<rparr>"

section \<open>Energy\<close>

text \<open>Channel 0 of interleaved samples: every \<open>channels\<close>-th of them, one for each whole group.\<close>

definition channel0 :: "nat \<Rightarrow> int list \<Rightarrow> int list" where
  "channel0 channels samples = map (\<lambda>i. samples ! (i * channels)) [0..<length samples div channels]"

definition mean_abs_dc :: "int list \<Rightarrow> u32 \<Rightarrow> int \<Rightarrow> u32" where
  "mean_abs_dc samples channels dc_offset =
     (let ch = channel0 (unat (max channels 1)) samples; n = (of_nat (length ch) :: u32)
      in if n = 0 then 0 else of_int (sum_list (map (\<lambda>s. \<bar>s - dc_offset\<bar>) ch) div uint n))"

definition min_rms :: "vad_mode \<Rightarrow> int" where
  "min_rms m = (case m of Quality \<Rightarrow> 8 | LowBitrate \<Rightarrow> 15 | Aggressive \<Rightarrow> 30 | VeryAggressive \<Rightarrow> 60 | Energy \<Rightarrow> 8)"

definition max_zcr :: "vad_mode \<Rightarrow> rat" where
  "max_zcr m = (case m of Quality \<Rightarrow> f64_round (4/5) | LowBitrate \<Rightarrow> f64_round (3/5) | Aggressive \<Rightarrow> f64_round (9/20)
     | VeryAggressive \<Rightarrow> f64_round (7/20) | Energy \<Rightarrow> 1)"

text \<open>The changes of sign along the corrected samples; zero counts as positive.\<close>

fun sign_changes :: "bool \<Rightarrow> int list \<Rightarrow> nat" where
  "sign_changes prev [] = 0"
| "sign_changes prev (s # ss) = (if (0 \<le> s) \<noteq> prev then 1 else 0) + sign_changes (0 \<le> s) ss"

definition compute_webrtc_score :: "vad \<Rightarrow> int list \<Rightarrow> u32 \<Rightarrow> int \<Rightarrow> u32" where
  "compute_webrtc_score v samples per_channel dc_offset =
     (if per_channel < 2 then 0
      else
        (let n = int (unat per_channel);
             ch = map (\<lambda>s. s - dc_offset) (channel0 (unat (vd_channels v)) samples);
             zero_crossings = sign_changes (0 \<le> hd samples - dc_offset) ch;
             sum_sq = sum_list (map (\<lambda>s. s * s) ch);
             rms = \<lfloor>f64_sqrt (f64_div (f64_of_int sum_sq) (f64_of_int n))\<rfloor>
         in if rms < min_rms (vd_mode v) then 0
            else
              (let zcr_ratio = f64_div (of_nat zero_crossings) (f64_of_int (max (n - 1) 1))
               in if zcr_ratio > max_zcr (vd_mode v) then 0 else sat_add (vd_threshold v) 100)))"

section \<open>The state machine\<close>

definition process_voice :: "u32 \<Rightarrow> vad \<Rightarrow> vad" where
  "process_voice num_samples v =
     (let v1 = v\<lparr>vd_silence_sample_count := 0, vd_voice_sample_count := sat_add (vd_voice_sample_count v) num_samples\<rparr>
      in if vd_state v1 = VadNone \<and> vd_voice_sample_count v1 > vd_voice_onset_samples v1
         then v1\<lparr>vd_state := StartTalking\<rparr> else v1)"

definition process_silence :: "u32 \<Rightarrow> vad \<Rightarrow> vad" where
  "process_silence num_samples v =
     (let v1 = v\<lparr>vd_silence_sample_count := sat_add (vd_silence_sample_count v) num_samples, vd_voice_sample_count := 0\<rparr>
      in if vd_state v1 = Talking \<and> vd_silence_sample_count v1 > vd_silence_holdoff_samples v1
         then v1\<lparr>vd_state := StopTalking\<rparr> else v1)"

definition advance_one_shot :: "vad \<Rightarrow> vad" where
  "advance_one_shot v = (case vd_state v of
     StartTalking \<Rightarrow> v\<lparr>vd_state := Talking\<rparr> | StopTalking \<Rightarrow> v\<lparr>vd_state := VadNone\<rparr> | _ \<Rightarrow> v)"

definition update_dc :: "int list \<Rightarrow> vad \<Rightarrow> vad" where
  "update_dc samples v =
     (let ch = channel0 (unat (max (vd_channels v) 1)) samples
      in if ch = [] then v
         else v\<lparr>vd_dc_estimate := quot (vd_dc_estimate v * 255) 256 + quot (sum_list ch) (int (length ch))\<rparr>)"

definition vad_process :: "int list \<Rightarrow> vad \<Rightarrow> vad \<times> vad_state" where
  "vad_process samples v =
     (let v0 = advance_one_shot v
      in if samples = []
         then (let v' = process_silence 0 (v0\<lparr>vd_last_energy := 0\<rparr>) in (v', vd_state v'))
         else
           (let v1 = update_dc samples v0;
                per_channel = of_nat (length samples) div vd_channels v1;
                dc_offset = quot (vd_dc_estimate v1) 256;
                energy = (if is_webrtc_style (vd_mode v1) then compute_webrtc_score v1 samples per_channel dc_offset
                          else mean_abs_dc samples (vd_channels v1) dc_offset);
                v2 = v1\<lparr>vd_last_energy := energy\<rparr>;
                v' = (if energy > vd_threshold v2 then process_voice per_channel v2 else process_silence per_channel v2)
            in (v', vd_state v')))"

definition vad_is_silent :: "vad \<Rightarrow> bool" where "vad_is_silent v = state_is_silent (vd_state v)"
definition vad_is_talking :: "vad \<Rightarrow> bool" where "vad_is_talking v = state_is_talking (vd_state v)"

definition vad_reset :: "vad \<Rightarrow> vad" where
  "vad_reset v = v\<lparr>vd_voice_sample_count := 0, vd_silence_sample_count := 0, vd_state := VadNone,
     vd_last_energy := 0, vd_dc_estimate := 0\<rparr>"

section \<open>A reference detector\<close>

text \<open>What a frame brings: whether it is voice, and its samples.\<close>

definition frame_class :: "int list \<Rightarrow> vad \<Rightarrow> bool \<times> nat" where
  "frame_class samples v =
     (let v' = fst (vad_process samples v)
      in (samples \<noteq> [] \<and> vd_last_energy v' > vd_threshold v',
          if samples = [] then 0 else unat (of_nat (length samples) div vd_channels v' :: u32)))"

fun vad_run :: "int list list \<Rightarrow> vad \<Rightarrow> vad \<times> vad_state list" where
  "vad_run [] v = (v, [])"
| "vad_run (f # fs) v = (let (v1, s) = vad_process f v; (v2, ss) = vad_run fs v1 in (v2, s # ss))"

fun frame_classes :: "int list list \<Rightarrow> vad \<Rightarrow> (bool \<times> nat) list" where
  "frame_classes [] v = []"
| "frame_classes (f # fs) v = frame_class f v # frame_classes fs (fst (vad_process f v))"

text \<open>The reference: two phases, and the samples of the voice frames, or of the others, in a row, with no
  bound. A phase changes when more than the onset of voice, or more than the holdoff of silence, has come in
  a row; only the frame of the change says so.\<close>

fun reference_states :: "nat \<Rightarrow> nat \<Rightarrow> bool \<Rightarrow> nat \<Rightarrow> nat \<Rightarrow> (bool \<times> nat) list \<Rightarrow> vad_state list" where
  "reference_states onset holdoff talking voiced silent [] = []"
| "reference_states onset holdoff talking voiced silent ((voice, n) # fs) =
     (let voiced' = (if voice then voiced + n else 0); silent' = (if voice then 0 else silent + n)
      in if \<not> talking \<and> voice \<and> onset < voiced'
         then StartTalking # reference_states onset holdoff True voiced' silent' fs
         else if talking \<and> \<not> voice \<and> holdoff < silent'
         then StopTalking # reference_states onset holdoff False voiced' silent' fs
         else (if talking then Talking else VadNone) # reference_states onset holdoff talking voiced' silent' fs)"

end
