(* ===== verification/Rtp_Vad_Props.thy ===== *)
theory Rtp_Vad_Props
  imports Rtp_Vad
begin

text \<open>
  The detector of \<open>Rtp_Vad\<close> against its reference with two phases, and what its estimate of the
  DC offset makes of a click.
\<close>

section \<open>Equivalence with the reference\<close>

lemma unat_max_u32: "unat (- 1 :: u32) = 4294967295"
  by (simp add: unsigned_minus_1_eq_mask mask_eq_exp_minus_1)

lemma unat_sat_add: "unat (sat_add (a :: u32) b) = min (unat a + unat b) 4294967295"
proof (cases "unat a + unat b < 4294967296")
  case True
  then have "unat (a + b) = unat a + unat b" by (simp add: unat_word_ariths)
  moreover from this have "\<not> a + b < a" by (simp add: word_less_nat_alt)
  ultimately show ?thesis using True by (simp add: sat_add_def)
next
  case False
  then have "unat (a + b) = unat a + unat b - 4294967296"
    using unat32_less [of a] unat32_less [of b] by (simp add: unat_word_ariths mod_if)
  then have "a + b < a" using unat32_less [of b] False by (simp add: word_less_nat_alt)
  then show ?thesis using False by (simp add: sat_add_def unat_max_u32)
qed

text \<open>The counters hold the samples in a row, up to the largest word.\<close>

definition vad_tracks :: "bool \<Rightarrow> nat \<Rightarrow> nat \<Rightarrow> vad \<Rightarrow> bool" where
  "vad_tracks talking voiced silent v = (talking = state_is_talking (vd_state v)
     \<and> unat (vd_voice_sample_count v) = min voiced 4294967295
     \<and> unat (vd_silence_sample_count v) = min silent 4294967295)"

text \<open>A frame is an advance of the one-shot states, then a step on its class.\<close>

lemma process_by_class:
  "\<exists>v2. vad_process f v = (let (voice, n) = frame_class f v;
        v' = (if voice then process_voice (of_nat n) v2 else process_silence (of_nat n) v2) in (v', vd_state v'))
    \<and> vd_state v2 = vd_state (advance_one_shot v) \<and> vd_voice_sample_count v2 = vd_voice_sample_count v
    \<and> vd_silence_sample_count v2 = vd_silence_sample_count v
    \<and> vd_voice_onset_samples v2 = vd_voice_onset_samples v
    \<and> vd_silence_holdoff_samples v2 = vd_silence_holdoff_samples v"
proof -
  have kept: "vd_threshold (process_voice n w) = vd_threshold w" "vd_threshold (process_silence n w) = vd_threshold w"
    "vd_last_energy (process_voice n w) = vd_last_energy w" "vd_last_energy (process_silence n w) = vd_last_energy w"
    "vd_channels (process_voice n w) = vd_channels w" "vd_channels (process_silence n w) = vd_channels w" for n w
    by (simp_all add: process_voice_def process_silence_def Let_def)
  have adv: "vd_voice_sample_count (advance_one_shot v) = vd_voice_sample_count v"
    "vd_silence_sample_count (advance_one_shot v) = vd_silence_sample_count v"
    "vd_voice_onset_samples (advance_one_shot v) = vd_voice_onset_samples v"
    "vd_silence_holdoff_samples (advance_one_shot v) = vd_silence_holdoff_samples v"
    by (simp_all add: advance_one_shot_def split: vad_state.split)
  show ?thesis
  proof (cases "f = []")
    case True
    then show ?thesis
      by (intro exI [of _ "(advance_one_shot v)\<lparr>vd_last_energy := 0\<rparr>"])
         (simp add: vad_process_def frame_class_def Let_def adv)
  next
    case False
    define v1 where "v1 = update_dc f (advance_one_shot v)"
    define e where "e = (if is_webrtc_style (vd_mode v1)
      then compute_webrtc_score v1 f (of_nat (length f) div vd_channels v1) (quot (vd_dc_estimate v1) 256)
      else mean_abs_dc f (vd_channels v1) (quot (vd_dc_estimate v1) 256))"
    have p: "vad_process f v = (let n = of_nat (length f) div vd_channels v1;
        v' = (if e > vd_threshold v1 then process_voice n (v1\<lparr>vd_last_energy := e\<rparr>)
              else process_silence n (v1\<lparr>vd_last_energy := e\<rparr>)) in (v', vd_state v'))"
      using False by (simp add: vad_process_def v1_def e_def Let_def)
    have c: "frame_class f v = (e > vd_threshold v1, unat (of_nat (length f) div vd_channels v1 :: u32))"
      unfolding frame_class_def p using False by (simp add: Let_def kept)
    have u: "vd_state v1 = vd_state (advance_one_shot v)" "vd_voice_sample_count v1 = vd_voice_sample_count v"
      "vd_silence_sample_count v1 = vd_silence_sample_count v" "vd_voice_onset_samples v1 = vd_voice_onset_samples v"
      "vd_silence_holdoff_samples v1 = vd_silence_holdoff_samples v"
      by (simp_all add: v1_def update_dc_def Let_def adv)
    show ?thesis
      unfolding p c by (rule exI [of _ "v1\<lparr>vd_last_energy := e\<rparr>"]) (simp add: u Let_def)
  qed
qed

lemma advance_talking:
  "state_is_talking (vd_state (advance_one_shot v)) = state_is_talking (vd_state v)"
  "vd_state (advance_one_shot v) = (if state_is_talking (vd_state v) then Talking else VadNone)"
  by (cases "vd_state v"; simp add: advance_one_shot_def state_is_talking_def)+

lemma min_beyond: "o' < M \<Longrightarrow> (o' < min x M) = (o' < (x :: nat))"
  by auto

lemma process_step_parts:
  "vd_state (process_voice n w) = (if vd_state w = VadNone \<and> vd_voice_onset_samples w < sat_add (vd_voice_sample_count w) n
     then StartTalking else vd_state w)"
  "vd_state (process_silence n w) = (if vd_state w = Talking \<and> vd_silence_holdoff_samples w < sat_add (vd_silence_sample_count w) n
     then StopTalking else vd_state w)"
  "vd_voice_sample_count (process_voice n w) = sat_add (vd_voice_sample_count w) n"
  "vd_silence_sample_count (process_voice n w) = 0"
  "vd_voice_sample_count (process_silence n w) = 0"
  "vd_silence_sample_count (process_silence n w) = sat_add (vd_silence_sample_count w) n"
  "vd_voice_onset_samples (process_voice n w) = vd_voice_onset_samples w"
  "vd_silence_holdoff_samples (process_voice n w) = vd_silence_holdoff_samples w"
  "vd_voice_onset_samples (process_silence n w) = vd_voice_onset_samples w"
  "vd_silence_holdoff_samples (process_silence n w) = vd_silence_holdoff_samples w"
  by (simp_all add: process_voice_def process_silence_def Let_def)

lemma reference_run:
  assumes "vad_tracks talking voiced silent v" and "vd_voice_onset_samples v < - 1"
    and "vd_silence_holdoff_samples v < - 1"
  shows "snd (vad_run fs v) = reference_states (unat (vd_voice_onset_samples v)) (unat (vd_silence_holdoff_samples v))
    talking voiced silent (frame_classes fs v)"
  using assms
proof (induction fs arbitrary: v talking voiced silent)
  case (Cons f fs)
  obtain voice n where c: "frame_class f v = (voice, n)" by (cases "frame_class f v")
  have n: "n < 4294967296" "unat (of_nat n :: u32) = n"
  proof -
    have "n = (if f = [] then 0 else unat (of_nat (length f) div vd_channels (fst (vad_process f v)) :: u32))"
      using c by (simp add: frame_class_def Let_def)
    then show "n < 4294967296" using unat32_less by (metis less_numeral_extra(1) zero_less_numeral)
    then show "unat (of_nat n :: u32) = n" by (simp add: unat_of_nat)
  qed
  obtain v2 where p: "vad_process f v = (let v' = (if voice then process_voice (of_nat n) v2
        else process_silence (of_nat n) v2) in (v', vd_state v'))"
    and v2: "vd_state v2 = (if talking then Talking else VadNone)" "vd_voice_sample_count v2 = vd_voice_sample_count v"
      "vd_silence_sample_count v2 = vd_silence_sample_count v"
      "vd_voice_onset_samples v2 = vd_voice_onset_samples v"
      "vd_silence_holdoff_samples v2 = vd_silence_holdoff_samples v"
    using process_by_class [of f v] Cons.prems(1) advance_talking(2) [of v] by (auto simp: c vad_tracks_def)
  have bound: "unat (vd_voice_onset_samples v) < 4294967295" "unat (vd_silence_holdoff_samples v) < 4294967295"
    using Cons.prems(2,3) by (simp_all add: word_less_nat_alt unat_max_u32)
  have counts: "unat (vd_voice_sample_count v) = min voiced 4294967295" "unat (vd_silence_sample_count v) = min silent 4294967295"
    using Cons.prems(1) by (simp_all add: vad_tracks_def)
  have sat: "unat (sat_add (vd_voice_sample_count v) (of_nat n)) = min (voiced + n) 4294967295"
    "unat (sat_add (vd_silence_sample_count v) (of_nat n)) = min (silent + n) 4294967295"
    by (simp_all add: unat_sat_add counts n)
  let ?v' = "fst (vad_process f v)"
  define new where "new = (if \<not> talking \<and> voice \<and> unat (vd_voice_onset_samples v) < voiced + n then StartTalking
        else if talking \<and> \<not> voice \<and> unat (vd_silence_holdoff_samples v) < silent + n then StopTalking
        else if talking then Talking else VadNone)"
  have eq: "?v' = (if voice then process_voice (of_nat n) v2 else process_silence (of_nat n) v2)" by (simp add: p Let_def)
  have gt: "(vd_voice_onset_samples v < sat_add (vd_voice_sample_count v) (of_nat n)) = (unat (vd_voice_onset_samples v) < voiced + n)"
    "(vd_silence_holdoff_samples v < sat_add (vd_silence_sample_count v) (of_nat n)) = (unat (vd_silence_holdoff_samples v) < silent + n)"
    unfolding word_less_nat_alt sat using bound by auto
  have state: "vd_state ?v' = new"
    unfolding eq new_def by (simp add: process_step_parts v2 gt)
  have other: "vd_voice_onset_samples ?v' = vd_voice_onset_samples v" "vd_silence_holdoff_samples ?v' = vd_silence_holdoff_samples v"
    "unat (vd_voice_sample_count ?v') = min (if voice then voiced + n else 0) 4294967295"
    "unat (vd_silence_sample_count ?v') = min (if voice then 0 else silent + n) 4294967295"
    unfolding eq by (simp_all add: process_step_parts v2 sat)
  have v': "vad_tracks (state_is_talking new) (if voice then voiced + n else 0) (if voice then 0 else silent + n) ?v'"
    by (simp only: vad_tracks_def state other simp_thms)
  have run: "vad_run (f # fs) v = (fst (vad_run fs ?v'), vd_state ?v' # snd (vad_run fs ?v'))"
    by (simp add: p Let_def split: prod.split)
  have ref: "reference_states onset holdoff talking voiced silent ((voice, n) # rest)
      = new # reference_states onset holdoff (state_is_talking new) (if voice then voiced + n else 0)
          (if voice then 0 else silent + n) rest"
    if "onset = unat (vd_voice_onset_samples v)" "holdoff = unat (vd_silence_holdoff_samples v)" for onset holdoff rest
    unfolding that by (simp add: new_def state_is_talking_def Let_def)
  have "snd (vad_run fs ?v') = reference_states (unat (vd_voice_onset_samples v)) (unat (vd_silence_holdoff_samples v))
      (state_is_talking new) (if voice then voiced + n else 0) (if voice then 0 else silent + n) (frame_classes fs ?v')"
    using Cons.IH [OF v'] Cons.prems(2,3) unfolding other(1,2) by blast
  then show ?case unfolding run frame_classes.simps c ref [OF refl refl] snd_conv state by (simp only: simp_thms)
qed simp

text \<open>C26: The detector is its two-phase reference: from a reset on, over any frames in any mode, the states
  it returns are those of a machine that starts talking at the frame with which more than the onset of
  voice has come in a row, stops at the frame with which more than the holdoff of silence has, and reports
  each change exactly once; the saturating counters never matter, as long as the onset and the holdoff are
  below the largest word.\<close>

theorem vad_matches_reference:
  assumes "vd_voice_onset_samples v < - 1" and "vd_silence_holdoff_samples v < - 1"
  shows "snd (vad_run fs (vad_reset v)) = reference_states (unat (vd_voice_onset_samples v))
    (unat (vd_silence_holdoff_samples v)) False 0 0 (frame_classes fs (vad_reset v))"
  using reference_run [of False 0 0 "vad_reset v" fs] assms
  by (simp add: vad_tracks_def vad_reset_def state_is_talking_def)

section \<open>A click\<close>

lemma channel0_mono: "channel0 (Suc 0) (replicate n c) = replicate n c"
  by (rule nth_equalityI) (simp_all add: channel0_def)

lemma level_energy:
  "0 < n \<Longrightarrow> n < 4294967296 \<Longrightarrow> mean_abs_dc (replicate n c) 1 d = of_int \<bar>c - d\<bar>"
  by (auto simp: mean_abs_dc_def channel0_mono Let_def uint_nat unat_of_nat sum_list_replicate word_unat_eq_iff
      simp del: replicate.simps)

text \<open>A mono detector in its default settings that has heard \<open>n\<close> voice samples in a row.\<close>

definition hearing :: "nat \<Rightarrow> int \<Rightarrow> vad \<Rightarrow> bool" where
  "hearing n dc v = (vd_threshold v = 100 \<and> vd_channels v = 1 \<and> vd_mode v = Energy \<and> vd_state v = VadNone
     \<and> vd_voice_onset_samples v = 1600 \<and> vd_voice_sample_count v = of_nat n \<and> vd_dc_estimate v = dc)"

definition next_dc :: "int \<Rightarrow> int \<Rightarrow> int" where "next_dc c dc = quot (dc * 255) 256 + c"

lemma level_frame:
  assumes "hearing n dc v" and "n \<le> 1600" and "100 < \<bar>c - quot (next_dc c dc) 256\<bar>" and "\<bar>c - quot (next_dc c dc) 256\<bar> < 4294967296"
  shows "snd (vad_process (replicate 160 c) v) = (if 1600 < n + 160 then StartTalking else VadNone)"
    and "\<not> 1600 < n + 160 \<Longrightarrow> hearing (n + 160) (next_dc c dc) (fst (vad_process (replicate 160 c) v))"
proof -
  let ?e = "of_int \<bar>c - quot (next_dc c dc) 256\<bar> :: u32"
  have v: "vd_threshold v = 100" "vd_channels v = 1" "vd_mode v = Energy" "vd_state v = VadNone"
    "vd_voice_onset_samples v = 1600" "vd_voice_sample_count v = of_nat n" "vd_dc_estimate v = dc"
    using assms(1) by (simp_all add: hearing_def)
  have sum: "quot (sum_list (replicate 160 c)) 160 = c"
    by (auto simp: sum_list_replicate quot_def sgn_mult abs_mult sgn_if abs_if)
  have adv: "advance_one_shot v = v" by (simp add: advance_one_shot_def v)
  have ne: "replicate 160 c \<noteq> []" by simp
  have dc: "update_dc (replicate 160 c) v = v\<lparr>vd_dc_estimate := next_dc c dc\<rparr>"
    using ne by (simp add: update_dc_def v channel0_mono Let_def sum next_dc_def del: replicate.simps)
  have e: "mean_abs_dc (replicate 160 c) 1 (quot (next_dc c dc) 256) = ?e" by (rule level_energy) simp_all
  have "uint ?e = \<bar>c - quot (next_dc c dc) 256\<bar>" using assms(4) by (simp add: uint_word_of_int)
  then have loud: "?e > 100" using assms(3) by (simp add: word_less_alt)
  have u: "unat (of_nat (n + 160) :: u32) = n + 160" "unat (of_nat n :: u32) = n"
    using assms(2) by (simp_all only: unat_of_nat) simp_all
  have c: "unat (160 :: u32) = 160" "unat (1600 :: u32) = 1600" by simp_all
  have n: "sat_add (of_nat n) 160 = (of_nat (n + 160) :: u32)" "((1600 :: u32) < of_nat (n + 160)) = (1600 < n + 160)"
    unfolding word_unat_eq_iff word_less_nat_alt unat_sat_add u c using assms(2) by simp_all
  let ?w = "v\<lparr>vd_dc_estimate := next_dc c dc, vd_last_energy := ?e\<rparr>"
  have p: "vad_process (replicate 160 c) v = (process_voice 160 ?w, vd_state (process_voice 160 ?w))"
    using loud ne unfolding vad_process_def adv Let_def dc by (simp add: v is_webrtc_style_def e del: replicate.simps)
  show "snd (vad_process (replicate 160 c) v) = (if 1600 < n + 160 then StartTalking else VadNone)"
    unfolding p by (simp add: process_step_parts v n del: of_nat_add)
  show "hearing (n + 160) (next_dc c dc) (fst (vad_process (replicate 160 c) v))" if "\<not> 1600 < n + 160"
    using that unfolding p by (simp add: hearing_def process_voice_def Let_def v n del: of_nat_add)
qed

lemma quot_256: "0 \<le> x \<Longrightarrow> quot x 256 = x div 256"
  by (cases "x = 0") (simp_all add: quot_def)

lemma vad_run_snoc: "vad_run (fs @ [f]) v = (fst (vad_process f (fst (vad_run fs v))),
    snd (vad_run fs v) @ [snd (vad_process f (fst (vad_run fs v)))])"
  by (induction fs arbitrary: v) (simp_all add: Let_def split: prod.split)

text \<open>The estimate after a click of level \<open>c\<close> and \<open>k\<close> frames of zeros.\<close>

definition decayed :: "int \<Rightarrow> nat \<Rightarrow> int" where "decayed c k = ((\<lambda>d. d * 255 div 256) ^^ k) c"

lemma decayed_mono: "b \<le> c \<Longrightarrow> decayed b k \<le> decayed c k"
  by (induction k) (simp_all add: decayed_def zdiv_mono1)

lemma decay_step: "0 \<le> x \<Longrightarrow> 0 \<le> x * 255 div 256 \<and> x * 255 div 256 \<le> (x :: int)"
  using zdiv_mono1 [of "x * 255" "x * 256" 256] by (simp add: pos_imp_zdiv_nonneg_iff)

lemma decayed_Suc: "decayed c (Suc k) = decayed c k * 255 div 256"
  by (simp add: decayed_def)

lemma decayed_range: "0 \<le> c \<Longrightarrow> 0 \<le> decayed c k \<and> decayed c k \<le> c"
proof (induction k)
  case (Suc k)
  then show ?case using decay_step [of "decayed c k"] unfolding decayed_Suc by linarith
qed (simp add: decayed_def)

lemma decayed_antimono: "0 \<le> c \<Longrightarrow> decayed c (Suc k) \<le> decayed c k"
  using decayed_range [of c k] decay_step [of "decayed c k"] unfolding decayed_Suc by blast

lemma click_decay:
  assumes "27000 \<le> c" and "k \<le> 10"
  shows "25856 \<le> decayed c k"
proof -
  have "decayed c 10 \<le> decayed c k"
    using assms(2)
  proof (induction rule: inc_induct)
    case (step n)
    then show ?case using decayed_antimono [of c n] assms(1) by simp
  qed simp
  moreover have "decayed 27000 10 = 25958" by code_simp
  ultimately show ?thesis using decayed_mono [OF assms(1), of 10] by simp
qed

lemma after_click:
  assumes "27000 \<le> c" and "c \<le> 32767" and "k \<le> 9"
  shows "hearing (160 * (k + 1)) (decayed c k) (fst (vad_run (replicate 160 c # replicate k (replicate 160 0)) (vad_new 8000)))
    \<and> snd (vad_run (replicate 160 c # replicate k (replicate 160 0)) (vad_new 8000)) = replicate (k + 1) VadNone"
  using assms(3)
proof (induction k)
  case 0
  let ?f = "replicate 160 c"
  have h: "hearing 0 0 (vad_new 8000)" by (simp add: hearing_def vad_new_def vad_with_config_def)
  have q: "next_dc c 0 = c" "quot c 256 = c div 256" using assms by (simp_all add: next_dc_def quot_def)
  have b: "100 < \<bar>c - c div 256\<bar>" "\<bar>c - c div 256\<bar> < 4294967296" using assms by linarith+
  have "vad_run [?f] (vad_new 8000) = (fst (vad_process ?f (vad_new 8000)), [snd (vad_process ?f (vad_new 8000))])"
    using vad_run_snoc [of "[]"] by simp
  moreover have "?f # replicate 0 (replicate 160 0) = [?f]" by (simp only: replicate_0)
  ultimately show ?case
    using level_frame [OF h, of c] b unfolding q by (simp add: decayed_def del: replicate.simps) simp
next
  case (Suc k)
  let ?fs = "replicate 160 c # replicate k (replicate 160 (0 :: int))"
  have app: "replicate 160 c # replicate (Suc k) (replicate 160 0) = ?fs @ [replicate 160 0]"
    by (simp add: replicate_append_same)
  have h: "hearing (160 * (k + 1)) (decayed c k) (fst (vad_run ?fs (vad_new 8000)))" using Suc by simp
  have q: "next_dc 0 (decayed c k) = decayed c (Suc k)"
    using decayed_range [of c k] assms(1) by (simp add: next_dc_def quot_256 decayed_def)
  have r: "25856 \<le> decayed c (Suc k)" "decayed c (Suc k) \<le> 32767"
    using click_decay [OF assms(1), of "Suc k"] decayed_range [of c "Suc k"] assms Suc.prems by simp_all
  then have b: "100 < \<bar>0 - quot (decayed c (Suc k)) 256\<bar>" "\<bar>0 - quot (decayed c (Suc k)) 256\<bar> < 4294967296"
    by (simp_all add: quot_256)
  show ?case
    unfolding app vad_run_snoc
    using level_frame [OF h, of 0, unfolded q, OF _ b] Suc.IH Suc.prems
    by (simp add: algebra_simps replicate_append_same)
qed

text \<open>C40: A click starts a talk spurt: one frame at a high level, followed by nothing but digital silence,
  makes a detector in its default settings report the start of talking eleven frames later. The
  frame moves the estimate of the DC offset, and every silent frame is then measured against it.\<close>

theorem click_starts_talking:
  assumes "27000 \<le> c" and "c \<le> 32767"
  shows "snd (vad_run (replicate 160 c # replicate 10 (replicate 160 0)) (vad_new 8000))
    = replicate 10 VadNone @ [StartTalking]"
proof -
  let ?fs = "replicate 160 c # replicate 9 (replicate 160 (0 :: int))"
  have nine: "(10 :: nat) = Suc 9" by simp
  have app: "replicate 160 c # replicate 10 (replicate 160 0) = ?fs @ [replicate 160 0]"
    by (simp only: append_Cons nine replicate_append_same replicate_Suc)
  have n: "160 * (9 + 1) = (1600 :: nat)" "9 + 1 = (10 :: nat)" by simp_all
  have h: "hearing 1600 (decayed c 9) (fst (vad_run ?fs (vad_new 8000)))"
    and s: "snd (vad_run ?fs (vad_new 8000)) = replicate 10 VadNone"
    using after_click [OF assms, of 9] n by (simp_all only: order_refl)
  have q: "next_dc 0 (decayed c 9) = decayed c 10"
    using decayed_range [of c 9] decayed_Suc [of c 9] assms(1) by (simp add: next_dc_def quot_256)
  have r: "25856 \<le> decayed c 10" "decayed c 10 \<le> 32767"
    using click_decay [OF assms(1), of 10] decayed_range [of c 10] assms by simp_all
  then have b: "100 < \<bar>0 - quot (decayed c 10) 256\<bar>" "\<bar>0 - quot (decayed c 10) 256\<bar> < 4294967296"
    by (simp_all add: quot_256)
  show ?thesis
    unfolding app vad_run_snoc snd_conv s using level_frame(1) [OF h, of 0, unfolded q, OF _ b] by simp
qed

theorem click_starts_talking_witness:
  "snd (vad_run (replicate 160 30000 # replicate 10 (replicate 160 0)) (vad_new 8000))
    = replicate 10 VadNone @ [StartTalking]"
  by (rule click_starts_talking) simp_all

theorem vad_matches_reference_witness:
  "snd (vad_run [replicate 160 0, []] (vad_reset (vad_new 8000)))
    = reference_states 1600 4000 False 0 0 (frame_classes [replicate 160 0, []] (vad_reset (vad_new 8000)))"
  using vad_matches_reference [of "vad_new 8000" "[replicate 160 0, []]"]
  by (simp add: vad_new_def vad_with_config_def del: replicate.simps)

end
