(* ===== verification/Rtp_Goertzel.thy ===== *)
theory Rtp_Goertzel
  imports Rtp_Float
begin

text \<open>
  \<^verbatim>\<open>src/rtp/goertzel.rs\<close>: the detector of inband DTMF tones. Floats are rounded rationals
  (no infinities: the block size and the sample rate are not 0); the cosine and the decimal logarithm
  of the platform's mathematics library are arguments. The counts of blocks stay below 2 ^ 32.
\<close>

section \<open>Bins\<close>

definition PI64 :: rat where "PI64 = 884279719003555 / 281474976710656"

definition ROW_FREQS :: "rat list" where "ROW_FREQS = [697, 770, 852, 941]"
definition COL_FREQS :: "rat list" where "COL_FREQS = [1209, 1336, 1477, 1633]"
definition ROW_HARMONIC_FREQS :: "rat list" where "ROW_HARMONIC_FREQS = [1394, 1540, 1704, 1882]"
definition POWER_THRESHOLD :: rat where "POWER_THRESHOLD = 400000"
definition NORMAL_TWIST_DB :: rat where "NORMAL_TWIST_DB = 8"
definition REVERSE_TWIST_DB :: rat where "REVERSE_TWIST_DB = 4"
definition MIN_DETECTION_FRAMES :: nat where "MIN_DETECTION_FRAMES = 3"
definition MIN_SILENCE_FRAMES :: nat where "MIN_SILENCE_FRAMES = 3"

record goertzel_bin =
  gb_coeff :: rat
  gb_s1 :: rat
  gb_s2 :: rat

definition bin_new :: "(rat \<Rightarrow> rat) \<Rightarrow> rat \<Rightarrow> u32 \<Rightarrow> goertzel_bin" where
  "bin_new cos64 freq sample_rate =
     (let w = f64_div (f64_mul (f64_mul 2 PI64) freq) (f64_of_int (uint sample_rate))
      in \<lparr>gb_coeff = f64_mul 2 (cos64 w), gb_s1 = 0, gb_s2 = 0\<rparr>)"

definition bin_reset :: "goertzel_bin \<Rightarrow> goertzel_bin" where
  "bin_reset b = b\<lparr>gb_s1 := 0, gb_s2 := 0\<rparr>"

definition bin_sample :: "rat \<Rightarrow> goertzel_bin \<Rightarrow> goertzel_bin" where
  "bin_sample sample b =
     (let s0 = f64_sub (f64_add sample (f64_mul (gb_coeff b) (gb_s1 b))) (gb_s2 b)
      in b\<lparr>gb_s2 := gb_s1 b, gb_s1 := s0\<rparr>)"

definition bin_power :: "goertzel_bin \<Rightarrow> rat" where
  "bin_power b =
     max (f64_sub (f64_add (f64_mul (gb_s1 b) (gb_s1 b)) (f64_mul (gb_s2 b) (gb_s2 b)))
            (f64_mul (f64_mul (gb_coeff b) (gb_s1 b)) (gb_s2 b))) 0"

section \<open>The detector\<close>

record inband_dtmf =
  ib_digit :: char
  ib_duration_ms :: u32

record goertzel =
  gd_row_bins :: "goertzel_bin list"
  gd_col_bins :: "goertzel_bin list"
  gd_row_harmonic_bins :: "goertzel_bin list"
  gd_block_size :: nat
  gd_sample_rate :: u32
  gd_expected_samples_per_block :: nat
  gd_rate_warned :: bool
  gd_sample_pos :: nat
  gd_current_digit :: "char option"
  gd_detection_count :: nat
  gd_silence_count :: nat
  gd_last_reported :: "char option"
  gd_digit_reported :: bool
  gd_detected :: "inband_dtmf list"
  gd_power_threshold :: rat

definition block_norm :: "nat \<Rightarrow> rat" where "block_norm n = f64_of_int (int (n * n))"

definition goertzel_new :: "(rat \<Rightarrow> rat) \<Rightarrow> u32 \<Rightarrow> nat \<Rightarrow> goertzel" where
  "goertzel_new cos64 sample_rate block_size =
     \<lparr>gd_row_bins = map (\<lambda>f. bin_new cos64 f sample_rate) ROW_FREQS,
      gd_col_bins = map (\<lambda>f. bin_new cos64 f sample_rate) COL_FREQS,
      gd_row_harmonic_bins = map (\<lambda>f. bin_new cos64 f sample_rate) ROW_HARMONIC_FREQS,
      gd_block_size = block_size, gd_sample_rate = sample_rate, gd_expected_samples_per_block = block_size,
      gd_rate_warned = False, gd_sample_pos = 0, gd_current_digit = None, gd_detection_count = 0,
      gd_silence_count = 0, gd_last_reported = None, gd_digit_reported = False, gd_detected = [],
      gd_power_threshold = f64_div POWER_THRESHOLD (block_norm block_size)\<rparr>"

definition goertzel_new_8khz :: "(rat \<Rightarrow> rat) \<Rightarrow> goertzel" where
  "goertzel_new_8khz cos64 = goertzel_new cos64 8000 102"

definition goertzel_digit :: "nat \<Rightarrow> nat \<Rightarrow> char" where
  "goertzel_digit row col = ([''123A'', ''456B'', ''789C'', ''*0#D''] ! min row 3) ! min col 3"

text \<open>The strongest of the powers and its index, starting from power 0 at index 0.\<close>

fun strongest :: "nat \<Rightarrow> rat \<times> nat \<Rightarrow> rat list \<Rightarrow> rat \<times> nat" where
  "strongest i best [] = best"
| "strongest i best (p # ps) = strongest (i + 1) (if p > fst best then (p, i) else best) ps"

definition second_strongest :: "nat \<Rightarrow> rat list \<Rightarrow> rat" where
  "second_strongest skip ps =
     foldl (\<lambda>m i. if i \<noteq> skip then max m (ps ! i) else m) 0 [0..<length ps]"

definition power_db :: "(rat \<Rightarrow> rat) \<Rightarrow> rat \<Rightarrow> rat" where
  "power_db log10_64 p = f64_mul 10 (log10_64 (max p (f64_round (1 / 10000000000))))"

text \<open>The digit of a block, from the bins that have seen it.\<close>

definition detect_digit :: "(rat \<Rightarrow> rat) \<Rightarrow> goertzel \<Rightarrow> char option" where
  "detect_digit log10_64 g =
     (let norm = block_norm (gd_block_size g);
          rows = map (\<lambda>b. f64_div (bin_power b) norm) (gd_row_bins g);
          cols = map (\<lambda>b. f64_div (bin_power b) norm) (gd_col_bins g);
          (max_row_power, max_row_idx) = strongest 0 (0, 0) rows;
          (max_col_power, max_col_idx) = strongest 0 (0, 0) cols
      in if max_row_power > gd_power_threshold g \<and> max_col_power > gd_power_threshold g
         then
           (let twist = f64_sub (power_db log10_64 max_row_power) (power_db log10_64 max_col_power)
            in if twist > NORMAL_TWIST_DB \<or> twist < - REVERSE_TWIST_DB then None
               else if max_row_power > f64_mul (second_strongest max_row_idx rows) 4
                  \<and> max_col_power > f64_mul (second_strongest max_col_idx cols) 4
               then
                 (let harmonic_power = f64_div (bin_power (gd_row_harmonic_bins g ! max_row_idx)) norm
                  in if harmonic_power > f64_mul max_row_power (1 / 2) then None
                     else Some (goertzel_digit max_row_idx max_col_idx))
               else None)
         else None)"

definition inband_report :: "goertzel \<Rightarrow> char \<Rightarrow> inband_dtmf" where
  "inband_report g digit = \<lparr>ib_digit = digit, ib_duration_ms =
     of_nat (gd_detection_count g * gd_block_size g * 1000 div unat (gd_sample_rate g))\<rparr>"

definition report_current :: "goertzel \<Rightarrow> goertzel" where
  "report_current g = (if gd_digit_reported g
     then (case gd_current_digit g of None \<Rightarrow> g
           | Some digit \<Rightarrow> g\<lparr>gd_detected := gd_detected g @ [inband_report g digit]\<rparr>)
     else g)"

text \<open>The state machine on the digit of a block.\<close>

definition block_step :: "char option \<Rightarrow> goertzel \<Rightarrow> goertzel" where
  "block_step detected_digit g =
     (case detected_digit of
        Some digit \<Rightarrow>
          (let g1 = g\<lparr>gd_silence_count := 0\<rparr>;
               g2 = (if gd_current_digit g1 = Some digit
                     then g1\<lparr>gd_detection_count := gd_detection_count g1 + 1\<rparr>
                     else (report_current g1)\<lparr>gd_current_digit := Some digit, gd_detection_count := 1,
                            gd_digit_reported := False\<rparr>)
           in if gd_detection_count g2 \<ge> MIN_DETECTION_FRAMES \<and> \<not> gd_digit_reported g2
              then g2\<lparr>gd_digit_reported := True, gd_last_reported := Some digit\<rparr> else g2)
      | None \<Rightarrow>
          if gd_current_digit g = None then g
          else
            (let g1 = g\<lparr>gd_silence_count := gd_silence_count g + 1\<rparr>
             in if gd_silence_count g1 \<ge> MIN_SILENCE_FRAMES
                then (report_current g1)\<lparr>gd_current_digit := None, gd_detection_count := 0, gd_digit_reported := False\<rparr>
                else g1))"

definition analyze_block :: "(rat \<Rightarrow> rat) \<Rightarrow> goertzel \<Rightarrow> goertzel" where
  "analyze_block log10_64 g = block_step (detect_digit log10_64 g) g"

definition map_bins :: "(goertzel_bin \<Rightarrow> goertzel_bin) \<Rightarrow> goertzel \<Rightarrow> goertzel" where
  "map_bins f g = g\<lparr>gd_row_bins := map f (gd_row_bins g), gd_col_bins := map f (gd_col_bins g),
     gd_row_harmonic_bins := map f (gd_row_harmonic_bins g)\<rparr>"

definition feed_sample :: "(rat \<Rightarrow> rat) \<Rightarrow> goertzel \<Rightarrow> int \<Rightarrow> goertzel" where
  "feed_sample log10_64 g sample =
     (let g1 = map_bins (bin_sample (of_int sample)) g; g2 = g1\<lparr>gd_sample_pos := gd_sample_pos g1 + 1\<rparr>
      in if gd_sample_pos g2 \<ge> gd_block_size g2
         then map_bins bin_reset ((analyze_block log10_64 g2)\<lparr>gd_sample_pos := 0\<rparr>)
         else g2)"

definition goertzel_process :: "(rat \<Rightarrow> rat) \<Rightarrow> int list \<Rightarrow> goertzel \<Rightarrow> goertzel \<times> inband_dtmf list" where
  "goertzel_process log10_64 samples g =
     (let g1 = g\<lparr>gd_detected := []\<rparr>;
          g2 = (if \<not> gd_rate_warned g1 \<and> samples \<noteq> []
                  \<and> length samples > unat (gd_sample_rate g1) div 50 * 3
                then g1\<lparr>gd_rate_warned := True\<rparr> else g1);
          g3 = foldl (feed_sample log10_64) g2 samples
      in (g3\<lparr>gd_detected := []\<rparr>, gd_detected g3))"

definition set_power_threshold :: "rat \<Rightarrow> goertzel \<Rightarrow> goertzel" where
  "set_power_threshold threshold g =
     g\<lparr>gd_power_threshold := f64_div threshold (block_norm (gd_block_size g))\<rparr>"

definition goertzel_reset :: "goertzel \<Rightarrow> goertzel" where
  "goertzel_reset g = map_bins bin_reset (g\<lparr>gd_sample_pos := 0, gd_current_digit := None, gd_detection_count := 0,
     gd_silence_count := 0, gd_last_reported := None, gd_digit_reported := False, gd_detected := []\<rparr>)"

definition goertzel_drain :: "goertzel \<Rightarrow> goertzel \<times> inband_dtmf list" where
  "goertzel_drain g = (g\<lparr>gd_detected := []\<rparr>, gd_detected g)"

section \<open>Frames and blocks\<close>

fun goertzel_frames :: "(rat \<Rightarrow> rat) \<Rightarrow> int list list \<Rightarrow> goertzel \<Rightarrow> inband_dtmf list" where
  "goertzel_frames log10_64 [] g = []"
| "goertzel_frames log10_64 (f # fs) g =
     (let (g', ds) = goertzel_process log10_64 f g in ds @ goertzel_frames log10_64 fs g')"

text \<open>The digit of a whole block, heard by bins that start from rest.\<close>

definition block_digit :: "(rat \<Rightarrow> rat) \<Rightarrow> goertzel \<Rightarrow> int list \<Rightarrow> char option" where
  "block_digit log10_64 g block =
     detect_digit log10_64 (foldl (\<lambda>g s. map_bins (bin_sample (of_int s)) g) (map_bins bin_reset g) block)"

end
