(* ===== verification/Rtp_Goertzel_Props.thy ===== *)
theory Rtp_Goertzel_Props
  imports Rtp_Goertzel
begin

text \<open>
  The inband detector over frames of any sizes: only the sequence of the samples matters, and a
  sequence of tones, each of three blocks or more and followed by three silent blocks or more, is
  reported digit by digit.
\<close>

section \<open>Frames do not matter\<close>

text \<open>Two detectors that differ in the digits waiting and in the warning alone.\<close>

definition relabel :: "inband_dtmf list \<Rightarrow> bool \<Rightarrow> goertzel \<Rightarrow> goertzel" where
  "relabel xs w g = g\<lparr>gd_detected := xs @ gd_detected g, gd_rate_warned := w\<rparr>"

lemma relabel_parts [simp]:
  "gd_detected (relabel xs w g) = xs @ gd_detected g"
  "gd_rate_warned (relabel xs w g) = w"
  "gd_sample_pos (relabel xs w g) = gd_sample_pos g"
  "gd_block_size (relabel xs w g) = gd_block_size g"
  "gd_current_digit (relabel xs w g) = gd_current_digit g"
  "gd_row_bins (relabel xs w g) = gd_row_bins g"
  "gd_col_bins (relabel xs w g) = gd_col_bins g"
  "gd_row_harmonic_bins (relabel xs w g) = gd_row_harmonic_bins g"
  "gd_power_threshold (relabel xs w g) = gd_power_threshold g"
  "relabel xs w (relabel ys v g) = relabel (xs @ ys) w g"
  by (simp_all add: relabel_def)

lemma detect_relabel [simp]: "detect_digit l (relabel xs w g) = detect_digit l g"
  by (simp only: detect_digit_def relabel_parts)

lemma bins_relabel: "map_bins f (relabel xs w g) = relabel xs w (map_bins f g)"
  by (simp add: map_bins_def relabel_def)

lemma pos_relabel: "(relabel xs w g)\<lparr>gd_sample_pos := n\<rparr> = relabel xs w (g\<lparr>gd_sample_pos := n\<rparr>)"
  by (simp add: relabel_def)

lemma step_relabel: "block_step d (relabel xs w g) = relabel xs w (block_step d g)"
  by (cases d; cases "gd_current_digit g")
     (simp_all add: block_step_def report_current_def inband_report_def Let_def relabel_def)

lemma feed_relabel: "feed_sample l (relabel xs w g) s = relabel xs w (feed_sample l g s)"
  by (simp add: feed_sample_def Let_def bins_relabel pos_relabel analyze_block_def step_relabel)

lemma foldl_relabel: "foldl (feed_sample l) (relabel xs w g) ss = relabel xs w (foldl (feed_sample l) g ss)"
  by (induction ss arbitrary: g) (simp_all add: feed_relabel)

lemma process_fold:
  assumes "gd_detected g = []"
  shows "\<exists>w. goertzel_process l f g = (let g' = foldl (feed_sample l) g f
    in (g'\<lparr>gd_detected := [], gd_rate_warned := w\<rparr>, gd_detected g'))"
proof -
  define w where "w = (if \<not> gd_rate_warned g \<and> f \<noteq> [] \<and> length f > unat (gd_sample_rate g) div 50 * 3
    then True else gd_rate_warned g)"
  have "(let g1 = g\<lparr>gd_detected := []\<rparr> in if \<not> gd_rate_warned g1 \<and> f \<noteq> [] \<and> length f > unat (gd_sample_rate g1) div 50 * 3
      then g1\<lparr>gd_rate_warned := True\<rparr> else g1) = relabel [] w g"
    using assms by (simp add: relabel_def w_def Let_def)
  then have "goertzel_process l f g = (let g' = foldl (feed_sample l) (relabel [] w g) f in (g'\<lparr>gd_detected := []\<rparr>, gd_detected g'))"
    by (simp only: goertzel_process_def Let_def)
  then show ?thesis by (intro exI [of _ w]) (simp add: foldl_relabel Let_def, simp add: relabel_def)
qed

lemma frames_relabel:
  assumes "gd_detected g = []"
  shows "goertzel_frames l fs g = gd_detected (foldl (feed_sample l) g (concat fs))"
  using assms
proof (induction fs arbitrary: g)
  case (Cons f fs)
  let ?g = "foldl (feed_sample l) g f"
  obtain w where w: "goertzel_process l f g = (?g\<lparr>gd_detected := [], gd_rate_warned := w\<rparr>, gd_detected ?g)"
    using process_fold [OF Cons.prems, of l f] by (auto simp: Let_def)
  have g: "?g = relabel (gd_detected ?g) (gd_rate_warned ?g) (?g\<lparr>gd_detected := [], gd_rate_warned := w\<rparr>)"
    by (simp add: relabel_def)
  have "foldl (feed_sample l) ?g (concat fs)
      = relabel (gd_detected ?g) (gd_rate_warned ?g) (foldl (feed_sample l) (?g\<lparr>gd_detected := [], gd_rate_warned := w\<rparr>) (concat fs))"
    by (subst (1) g) (simp only: foldl_relabel)
  then show ?case using Cons.IH [of "?g\<lparr>gd_detected := [], gd_rate_warned := w\<rparr>"] by (simp add: w)
qed simp

section \<open>Blocks\<close>

text \<open>A detector between two blocks.\<close>

definition at_rest :: "goertzel \<Rightarrow> bool" where
  "at_rest g = (gd_sample_pos g = 0 \<and> 0 < gd_block_size g \<and> map_bins bin_reset g = g)"

abbreviation hear :: "goertzel \<Rightarrow> int list \<Rightarrow> goertzel" where
  "hear \<equiv> foldl (\<lambda>g s. map_bins (bin_sample (of_int s)) g)"

lemma map_bins_parts [simp]:
  "gd_block_size (map_bins f g) = gd_block_size g" "gd_sample_pos (map_bins f g) = gd_sample_pos g"
  by (simp_all add: map_bins_def)

lemma hear_parts [simp]:
  "gd_block_size (hear g b) = gd_block_size g" "gd_sample_pos (hear g b) = gd_sample_pos g"
  by (induction b arbitrary: g) (simp_all add: map_bins_def)

lemma bins_pos: "map_bins f (g\<lparr>gd_sample_pos := n\<rparr>) = (map_bins f g)\<lparr>gd_sample_pos := n\<rparr>"
  by (simp add: map_bins_def)

lemma hear_pos: "hear (g\<lparr>gd_sample_pos := n\<rparr>) b = (hear g b)\<lparr>gd_sample_pos := n\<rparr>"
  by (induction b arbitrary: g) (simp_all add: bins_pos)

lemma feed_within:
  assumes "gd_sample_pos g + length b < gd_block_size g"
  shows "foldl (feed_sample l) g b = (hear g b)\<lparr>gd_sample_pos := gd_sample_pos g + length b\<rparr>"
  using assms
proof (induction b arbitrary: g)
  case (Cons s b)
  let ?g = "(map_bins (bin_sample (of_int s)) g)\<lparr>gd_sample_pos := gd_sample_pos g + 1\<rparr>"
  have f: "feed_sample l g s = ?g"
    using Cons.prems by (simp add: feed_sample_def Let_def map_bins_def)
  have "gd_sample_pos ?g + length b < gd_block_size ?g" using Cons.prems by (simp add: map_bins_def)
  from Cons.IH [OF this] show ?case by (simp add: f hear_pos)
qed simp

lemma bins_rest_reset:
  "map_bins bin_reset (map_bins bin_reset g) = map_bins bin_reset g"
  by (simp add: map_bins_def bin_reset_def o_def)

lemma hear_reset: "map_bins bin_reset (hear g b) = map_bins bin_reset g"
proof (induction b arbitrary: g)
  case (Cons s b)
  have "map_bins bin_reset (map_bins (bin_sample (of_int s)) g) = map_bins bin_reset g"
    by (simp add: map_bins_def bin_reset_def bin_sample_def Let_def o_def)
  with Cons show ?case by simp
qed simp

lemma step_bins: "map_bins f (block_step d g) = block_step d (map_bins f g)"
  by (cases d; cases "gd_current_digit g")
     (simp_all add: block_step_def report_current_def inband_report_def Let_def map_bins_def)

lemma step_pos: "(block_step d g)\<lparr>gd_sample_pos := n\<rparr> = block_step d (g\<lparr>gd_sample_pos := n\<rparr>)"
  by (cases d; cases "gd_current_digit g")
     (simp_all add: block_step_def report_current_def inband_report_def Let_def)

lemma pos_parts:
  "gd_row_bins (g\<lparr>gd_sample_pos := n\<rparr>) = gd_row_bins g" "gd_col_bins (g\<lparr>gd_sample_pos := n\<rparr>) = gd_col_bins g"
  "gd_row_harmonic_bins (g\<lparr>gd_sample_pos := n\<rparr>) = gd_row_harmonic_bins g"
  "gd_block_size (g\<lparr>gd_sample_pos := n\<rparr>) = gd_block_size g"
  "gd_power_threshold (g\<lparr>gd_sample_pos := n\<rparr>) = gd_power_threshold g"
  by simp_all

lemma detect_pos: "detect_digit l (g\<lparr>gd_sample_pos := n\<rparr>) = detect_digit l g"
  by (simp only: detect_digit_def pos_parts)

lemma feed_block:
  assumes "at_rest g" and "length b = gd_block_size g"
  shows "foldl (feed_sample l) g b = block_step (block_digit l g b) g"
proof -
  have r: "gd_sample_pos g = 0" "0 < gd_block_size g" "map_bins bin_reset g = g" using assms(1) by (simp_all add: at_rest_def)
  obtain b' s where b: "b = b' @ [s]" using assms(2) r(2) by (cases b rule: rev_cases) auto
  have w: "gd_sample_pos g + length b' < gd_block_size g" using assms(2) r(1) b by simp
  let ?h = "hear g b"
  have "foldl (feed_sample l) g b = feed_sample l ((hear g b')\<lparr>gd_sample_pos := length b'\<rparr>) s"
    by (simp add: b feed_within [OF w] r)
  also have "\<dots> = map_bins bin_reset ((analyze_block l (?h\<lparr>gd_sample_pos := length b\<rparr>))\<lparr>gd_sample_pos := 0\<rparr>)"
    using assms(2) by (simp add: feed_sample_def Let_def b bins_pos)
  also have "\<dots> = block_step (detect_digit l ?h) (map_bins bin_reset (?h\<lparr>gd_sample_pos := 0\<rparr>))"
    by (simp add: analyze_block_def step_pos step_bins detect_pos)
  also have "map_bins bin_reset (?h\<lparr>gd_sample_pos := 0\<rparr>) = g"
    using r by (simp add: bins_pos hear_reset)
  also have "detect_digit l ?h = block_digit l g b" by (simp add: block_digit_def r(3))
  finally show ?thesis .
qed

text \<open>The state machine keeps what the detection of a block depends on.\<close>

lemma step_keeps [simp]:
  "gd_row_bins (block_step d g) = gd_row_bins g" "gd_col_bins (block_step d g) = gd_col_bins g"
  "gd_row_harmonic_bins (block_step d g) = gd_row_harmonic_bins g" "gd_block_size (block_step d g) = gd_block_size g"
  "gd_power_threshold (block_step d g) = gd_power_threshold g" "gd_sample_pos (block_step d g) = gd_sample_pos g"
  "gd_sample_rate (block_step d g) = gd_sample_rate g"
  by (cases d; cases "gd_current_digit g"; simp add: block_step_def report_current_def Let_def)+

definition same_ears :: "goertzel \<Rightarrow> goertzel \<Rightarrow> bool" where
  "same_ears g h = (gd_row_bins g = gd_row_bins h \<and> gd_col_bins g = gd_col_bins h
     \<and> gd_row_harmonic_bins g = gd_row_harmonic_bins h \<and> gd_block_size g = gd_block_size h
     \<and> gd_power_threshold g = gd_power_threshold h)"

lemma same_ears_step: "same_ears (block_step d g) g"
  by (simp add: same_ears_def)

lemma same_ears_bins: "same_ears g h \<Longrightarrow> same_ears (map_bins f g) (map_bins f h)"
  by (simp add: same_ears_def map_bins_def)

lemma same_ears_hear: "same_ears g h \<Longrightarrow> same_ears (hear g b) (hear h b)"
  by (induction b arbitrary: g h) (simp_all add: same_ears_bins)

lemma same_ears_digit: "same_ears g h \<Longrightarrow> block_digit l g b = block_digit l h b"
proof -
  assume "same_ears g h"
  then have "same_ears (hear (map_bins bin_reset g) b) (hear (map_bins bin_reset h) b)"
    by (intro same_ears_hear same_ears_bins)
  then show ?thesis unfolding block_digit_def detect_digit_def same_ears_def by (simp only:)
qed

lemma at_rest_step: "at_rest g \<Longrightarrow> at_rest (block_step d g)"
  by (simp add: at_rest_def step_bins)

lemma feed_blocks:
  assumes "at_rest g" and "\<forall>b \<in> set bs. length b = gd_block_size g"
  shows "foldl (feed_sample l) g (concat bs) = foldl (\<lambda>g d. block_step d g) g (map (block_digit l g) bs)"
  using assms
proof (induction bs arbitrary: g)
  case (Cons b bs)
  let ?g = "block_step (block_digit l g b) g"
  have eq: "map (block_digit l ?g) bs = map (block_digit l g) bs"
    using same_ears_digit [OF same_ears_step] by (rule map_cong [OF refl])
  have b: "length b = gd_block_size g" "\<forall>b \<in> set bs. length b = gd_block_size ?g" using Cons.prems(2) by simp_all
  note ih = Cons.IH [OF at_rest_step [OF Cons.prems(1)] b(2), unfolded eq]
  show ?case
    unfolding concat.simps foldl_append feed_block [OF Cons.prems(1) b(1)] list.map foldl.simps by (rule ih)
qed simp

section \<open>Digits\<close>

definition resting :: "goertzel \<Rightarrow> bool" where
  "resting g = (gd_current_digit g = None \<and> gd_detection_count g = 0 \<and> \<not> gd_digit_reported g)"

abbreviation steps :: "goertzel \<Rightarrow> char option list \<Rightarrow> goertzel" where
  "steps \<equiv> foldl (\<lambda>g d. block_step d g)"

lemma steps_tone:
  assumes "resting g" and "0 < n"
  shows "\<exists>r. steps g (replicate n (Some d)) = g\<lparr>gd_silence_count := 0, gd_current_digit := Some d,
      gd_detection_count := n, gd_digit_reported := (3 \<le> n), gd_last_reported := r\<rparr>"
  using assms(2)
proof (induction n)
  case (Suc n)
  have snoc: "steps g (replicate (Suc n) (Some d)) = block_step (Some d) (steps g (replicate n (Some d)))"
    by (simp flip: replicate_append_same)
  show ?case
  proof (cases "n = 0")
    case True
    then show ?thesis using assms(1)
      by (simp add: resting_def block_step_def report_current_def Let_def MIN_DETECTION_FRAMES_def)
         (intro exI [of _ "gd_last_reported g"], simp)
  next
    case False
    then obtain r where r: "steps g (replicate n (Some d)) = g\<lparr>gd_silence_count := 0, gd_current_digit := Some d,
        gd_detection_count := n, gd_digit_reported := (3 \<le> n), gd_last_reported := r\<rparr>"
      using Suc by auto
    have two: "(2 \<le> n) = (n = 2 \<or> 3 \<le> n)" by auto
    show ?thesis
      unfolding snoc r
      by (intro exI [of _ "if n = 2 then Some d else r"])
         (simp add: block_step_def Let_def MIN_DETECTION_FRAMES_def two)
  qed
qed simp

lemma steps_silent: "gd_current_digit g = None \<Longrightarrow> steps g (replicate n None) = g"
  by (induction n) (simp_all add: block_step_def)

lemma steps_gap:
  assumes "gd_current_digit g = Some d" and "gd_digit_reported g" and "gd_silence_count g = 0" and "3 \<le> n"
  shows "\<exists>h. steps g (replicate n None) = h \<and> resting h \<and> same_ears h g \<and> gd_sample_rate h = gd_sample_rate g
    \<and> gd_detected h = gd_detected g @ [inband_report g d]"
proof -
  have n: "replicate n None = None # None # None # replicate (n - 3) (None :: char option)"
  proof -
    have "n = Suc (Suc (Suc (n - 3)))" using assms(4) by simp
    then show ?thesis by (metis replicate_Suc)
  qed
  let ?h = "block_step None (block_step None (block_step None g))"
  have h: "resting ?h" "gd_detected ?h = gd_detected g @ [inband_report g d]"
    using assms(1-3)
    by (simp_all add: block_step_def Let_def MIN_SILENCE_FRAMES_def report_current_def resting_def inband_report_def)
  moreover have "same_ears ?h g" "gd_sample_rate ?h = gd_sample_rate g" by (simp_all add: same_ears_def)
  moreover have "steps g (replicate n None) = ?h"
    using h(1) by (simp add: n steps_silent resting_def)
  ultimately show ?thesis by blast
qed

text \<open>A tone of a digit, its blocks, and the silent blocks after it.\<close>

fun tone_blocks :: "(char \<times> nat \<times> nat) list \<Rightarrow> char option list" where
  "tone_blocks [] = []"
| "tone_blocks ((d, n, gap) # ts) = replicate n (Some d) @ replicate gap None @ tone_blocks ts"

definition tone_report :: "goertzel \<Rightarrow> char \<times> nat \<times> nat \<Rightarrow> inband_dtmf" where
  "tone_report g t = (case t of (d, n, gap) \<Rightarrow> \<lparr>ib_digit = d, ib_duration_ms =
     of_nat (n * gd_block_size g * 1000 div unat (gd_sample_rate g))\<rparr>)"

lemma steps_tones:
  assumes "resting g" and "\<forall>(d, n, gap) \<in> set ts. 3 \<le> n \<and> 3 \<le> gap"
  shows "gd_detected (steps g (tone_blocks ts)) = gd_detected g @ map (tone_report g) ts"
  using assms
proof (induction ts arbitrary: g)
  case (Cons t ts)
  obtain d n gap where t: "t = (d, n, gap)" by (cases t)
  then have ge: "3 \<le> n" "3 \<le> gap" using Cons.prems(2) by auto
  obtain r where r: "steps g (replicate n (Some d)) = g\<lparr>gd_silence_count := 0, gd_current_digit := Some d,
      gd_detection_count := n, gd_digit_reported := (3 \<le> n), gd_last_reported := r\<rparr>" (is "_ = ?g")
    using steps_tone [OF Cons.prems(1), of n d] ge by auto
  obtain h where h: "steps ?g (replicate gap None) = h" "resting h" "same_ears h ?g" "gd_sample_rate h = gd_sample_rate g"
    "gd_detected h = gd_detected g @ [inband_report ?g d]"
    using steps_gap [of ?g d gap] ge by auto
  have rep: "inband_report ?g d = tone_report g t" by (simp add: inband_report_def tone_report_def t)
  have "tone_report h = tone_report g"
    using h(3,4) by (auto simp: tone_report_def same_ears_def split: prod.split)
  moreover have "gd_detected (steps h (tone_blocks ts)) = gd_detected h @ map (tone_report h) ts"
    by (rule Cons.IH) (use h(2) Cons.prems(2) in auto)
  ultimately show ?case using h(5) rep by (simp add: t r h(1))
qed simp

text \<open>C23: Inband digits are decoded, however the audio is cut into frames: when the blocks of the samples
  carry, one after the other, tones of at least three blocks each followed by at least three silent blocks, a
  detector at rest reports exactly those digits in order, each with the duration of its tone.\<close>

theorem inband_digits_decoded:
  assumes "at_rest g" and "resting g" and "gd_detected g = []"
    and "concat frames = concat blocks" and "\<forall>b \<in> set blocks. length b = gd_block_size g"
    and "map (block_digit log10_64 g) blocks = tone_blocks tones"
    and "\<forall>(d, n, gap) \<in> set tones. 3 \<le> n \<and> 3 \<le> gap"
  shows "goertzel_frames log10_64 frames g = map (tone_report g) tones"
  using steps_tones [OF assms(2,7)] feed_blocks [OF assms(1,5), of log10_64] frames_relabel [OF assms(3), of log10_64 frames]
    assms(3,4,6) by simp

section \<open>A tone of eight samples\<close>

text \<open>Blocks of two samples, and a mathematics library whose cosine is 1 at the frequencies of the
  digit 1 and -1 elsewhere: a bin of the first kind adds the two samples, one of the second subtracts them.\<close>

definition coarse_cos :: "rat \<Rightarrow> rat" where
  "coarse_cos w = (if w < 3 / 5 \<or> (9 / 10 < w \<and> w < 1) then 1 else - 1)"

lemma turn_near: "\<bar>f64_mul 2 PI64 - 62832 / 10000\<bar> \<le> 1 / 10000"
  using f64_round_close [of "2 * PI64"] unfolding f64_mul_def PI64_def by linarith

lemma angle_near:
  assumes "0 \<le> f" and "f \<le> 2000"
  shows "\<bar>f64_div (f64_mul (f64_mul 2 PI64) f) 8000 - 62832 / 80000000 * f\<bar> \<le> 1 / 10000"
proof -
  let ?t = "f64_mul 2 PI64" let ?u = "f64_mul ?t f"
  have t: "?t \<le> 62833 / 10000" "62831 / 10000 \<le> ?t" using turn_near by linarith+
  have tf: "?t * f \<le> 62833 / 10000 * f" "62831 / 10000 * f \<le> ?t * f"
    using mult_right_mono [OF t(1) assms(1)] mult_right_mono [OF t(2) assms(1)] .
  have "\<bar>?t * f\<bar> \<le> 100000" using tf assms by linarith
  then have u: "\<bar>?u - ?t * f\<bar> \<le> 1 / 100000" unfolding f64_mul_def [of ?t] by (rule f64_round_close)
  have "\<bar>?u / 8000\<bar> \<le> 100000" using tf u assms by linarith
  then have "\<bar>f64_div ?u 8000 - ?u / 8000\<bar> \<le> 1 / 100000" unfolding f64_div_def by (rule f64_round_close)
  then show ?thesis using tf u assms by linarith
qed

lemma coarse_bins:
  "f \<in> {697, 1209} \<Longrightarrow> bin_new coarse_cos f 8000 = \<lparr>gb_coeff = 2, gb_s1 = 0, gb_s2 = 0\<rparr>"
  "f \<in> {770, 852, 941, 1336, 1477, 1633, 1394, 1540, 1704, 1882} \<Longrightarrow> bin_new coarse_cos f 8000 = \<lparr>gb_coeff = - 2, gb_s1 = 0, gb_s2 = 0\<rparr>"
proof -
  have r: "f64_of_int (uint (8000 :: u32)) = 8000" by (simp add: f64_of_int_def f64_round_numeral)
  have m: "f64_mul 2 1 = 2" "f64_mul 2 (- 1) = - 2" by (simp_all add: f64_mul_def f64_round_numeral)
  show "bin_new coarse_cos f 8000 = \<lparr>gb_coeff = 2, gb_s1 = 0, gb_s2 = 0\<rparr>" if "f \<in> {697, 1209}"
  proof -
    let ?w = "f64_div (f64_mul (f64_mul 2 PI64) f) 8000"
    from that consider "f = 697" | "f = 1209" by blast
    then have "?w < 3 / 5 \<or> (9 / 10 < ?w \<and> ?w < 1)"
      by cases (use angle_near [of f] in linarith)+
    then show ?thesis unfolding bin_new_def r coarse_cos_def Let_def by (simp only: if_True m)
  qed
  show "bin_new coarse_cos f 8000 = \<lparr>gb_coeff = - 2, gb_s1 = 0, gb_s2 = 0\<rparr>"
    if "f \<in> {770, 852, 941, 1336, 1477, 1633, 1394, 1540, 1704, 1882}"
  proof -
    let ?w = "f64_div (f64_mul (f64_mul 2 PI64) f) 8000"
    from that have "770 \<le> f \<and> f \<le> 941 \<or> 1336 \<le> f \<and> f \<le> 1882" by auto
    then have "\<not> (?w < 3 / 5 \<or> (9 / 10 < ?w \<and> ?w < 1))"
      using angle_near [of f] by linarith
    then show ?thesis unfolding bin_new_def r coarse_cos_def Let_def by (simp only: if_False m)
  qed
qed

definition coarse_goertzel :: goertzel where "coarse_goertzel = goertzel_new coarse_cos 8000 2"

lemmas float_simps = f64_mul_def f64_sub_def f64_add_def f64_div_def f64_of_int_def f64_round_numeral

lemma coarse_parts:
  "gd_row_bins coarse_goertzel = map (\<lambda>c. \<lparr>gb_coeff = c, gb_s1 = 0, gb_s2 = 0\<rparr>) [2, - 2, - 2, - 2]"
  "gd_col_bins coarse_goertzel = map (\<lambda>c. \<lparr>gb_coeff = c, gb_s1 = 0, gb_s2 = 0\<rparr>) [2, - 2, - 2, - 2]"
  "gd_row_harmonic_bins coarse_goertzel = map (\<lambda>c. \<lparr>gb_coeff = c, gb_s1 = 0, gb_s2 = 0\<rparr>) [- 2, - 2, - 2, - 2]"
  "gd_block_size coarse_goertzel = 2" "gd_power_threshold coarse_goertzel = 100000"
  by (simp_all add: coarse_goertzel_def goertzel_new_def ROW_FREQS_def COL_FREQS_def ROW_HARMONIC_FREQS_def
    coarse_bins POWER_THRESHOLD_def block_norm_def float_simps)

lemma coarse_rest: "at_rest coarse_goertzel" "resting coarse_goertzel" "gd_detected coarse_goertzel = []"
  by (simp_all add: at_rest_def resting_def coarse_goertzel_def goertzel_new_def map_bins_def bin_reset_def bin_new_def
    ROW_FREQS_def COL_FREQS_def ROW_HARMONIC_FREQS_def Let_def)

lemma coarse_tone: "block_digit (\<lambda>_. 0) coarse_goertzel [1000, 1000] = Some CHR ''1''"
  by (simp add: block_digit_def detect_digit_def map_bins_def bin_reset_def bin_sample_def coarse_parts Let_def
    bin_power_def float_simps block_norm_def power_db_def NORMAL_TWIST_DB_def REVERSE_TWIST_DB_def second_strongest_def
    goertzel_digit_def upt_rec)

lemma coarse_silence: "block_digit (\<lambda>_. 0) coarse_goertzel [0, 0] = None"
  by (simp add: block_digit_def detect_digit_def map_bins_def bin_reset_def bin_sample_def coarse_parts Let_def
    bin_power_def float_simps block_norm_def)

lemma inband_digits_decoded_witness:
  "goertzel_frames (\<lambda>_. 0) [[1000, 1000, 1000], [1000, 1000, 1000, 1000], [1000, 0], [0, 0, 0, 0, 0]] coarse_goertzel
    = [\<lparr>ib_digit = CHR ''1'', ib_duration_ms = 1\<rparr>]"
proof -
  let ?blocks = "replicate 4 [1000, 1000] @ replicate 3 [0, 0 :: int]"
  have size: "gd_block_size coarse_goertzel = 2" "gd_sample_rate coarse_goertzel = 8000"
    by (simp_all add: coarse_goertzel_def goertzel_new_def)
  have c: "concat [[1000, 1000, 1000], [1000, 1000, 1000, 1000], [1000, 0], [0, 0, 0, 0, 0]] = concat ?blocks"
    by (simp add: numeral_eq_Suc)
  have b: "\<forall>b \<in> set ?blocks. length b = gd_block_size coarse_goertzel" by (simp add: size)
  have m: "map (block_digit (\<lambda>_. 0) coarse_goertzel) ?blocks = tone_blocks [(CHR ''1'', 4, 3)]"
    by (simp add: map_replicate coarse_tone coarse_silence)
  have t: "\<forall>(d, n, gap) \<in> set [(CHR ''1'', 4 :: nat, 3 :: nat)]. 3 \<le> n \<and> 3 \<le> gap" by simp
  show ?thesis
    using inband_digits_decoded [OF coarse_rest c b m t] by (simp add: tone_report_def size)
qed

end
