(* ===== verification/Spec2Isabelle.thy ===== *)
theory Spec2Isabelle
  imports Srtp_Witness Rtp_Jitter_Props Rtp_Dtmf_Props Nat_Witness Session_Manager Nat_Symmetric_Rtp Sip_Session_Timer Sip_Digest_Props Rtp_Rtcp_Session_Props Sip_Sdp_Props Nat_Turn_Track Rtp_Engine_Witness Rtp_Plc_Props Sip_Engine_Witness Nat_Pool_Props Provider_Props Rtp_Vad_Props Rtp_Goertzel_Props
begin

text \<open>
  A verification development for the \<^verbatim>\<open>rtpsip\<close> crate.
\<close>

end
